(* ===== verification/Prelude.thy ===== *)
theory Prelude
  imports Main
begin

text \<open>
  Shared vocabulary of the development: JavaScript errors and fallible results, \<open>bigint\<close>
  division, decimal printing and parsing, and the insertion-ordered \<open>Map\<close> of the TypeScript
  sources as an association list. The lemmas here are the automation the component theories
  rely on (collections \<open>result_simps\<close>, \<open>jsmap_simps\<close>).
\<close>

named_theorems result_simps "inversion rules for fallible results"
named_theorems jsmap_simps "lookup and sums in an updated Map"

section \<open>Errors and fallible results\<close>

text \<open>
  The error classes the modelled code throws, with their message; \<open>ClassError\<close> is one of the program's
  own \<open>Error\<close> subclasses, by name.
\<close>

datatype js_error = RangeError string | TypeError string | SyntaxError string | PlainError string
  | ClassError string string

type_synonym 'a result = "js_error + 'a"

fun error_message :: "js_error \<Rightarrow> string" where
  "error_message (RangeError m) = m"
| "error_message (TypeError m) = m"
| "error_message (SyntaxError m) = m"
| "error_message (PlainError m) = m"
| "error_message (ClassError c m) = m"

text \<open>Sequencing: the first error wins, as a \<open>throw\<close> leaves the rest of the block.\<close>

definition rbind :: "'a result \<Rightarrow> ('a \<Rightarrow> 'b result) \<Rightarrow> 'b result" where
  "rbind m f = (case m of Inl e \<Rightarrow> Inl e | Inr x \<Rightarrow> f x)"

definition rensure :: "bool \<Rightarrow> js_error \<Rightarrow> unit result" where
  "rensure ok e = (if ok then Inr () else Inl e)"

fun rseq :: "unit result list \<Rightarrow> unit result" where
  "rseq [] = Inr ()"
| "rseq (r # rs) = rbind r (\<lambda>_. rseq rs)"

lemma rbind_simps [simp]:
  "rbind (Inl e) f = Inl e"
  "rbind (Inr x) f = f x"
  by (simp_all add: rbind_def)

lemma rbind_Inr_iff [result_simps]:
  "rbind m f = Inr y \<longleftrightarrow> (\<exists>x. m = Inr x \<and> f x = Inr y)"
  by (cases m) simp_all

lemma rensure_Inr_iff [result_simps]: "rensure ok e = Inr u \<longleftrightarrow> ok"
  by (simp add: rensure_def)

lemma rensure_True [simp]: "rensure True e = Inr ()"
  by (simp add: rensure_def)

lemma rensure_False [simp]: "rensure False e = Inl e"
  by (simp add: rensure_def)

lemma rseq_Inr_iff [result_simps]: "rseq rs = Inr u \<longleftrightarrow> (\<forall>r \<in> set rs. r = Inr ())"
  by (induction rs) (auto simp: rbind_Inr_iff)

lemma rseq_append: "rseq (xs @ ys) = rbind (rseq xs) (\<lambda>_. rseq ys)"
proof (induction xs)
  case (Cons r rs)
  then show ?case by (cases r) simp_all
qed simp

text \<open>Use the characterisation \<open>rseq_Inr_iff\<close>, not the unfolding.\<close>

declare rseq.simps(2) [simp del]

lemma result_unit_cases: "r = Inr () \<or> (\<exists>e. r = Inl e)" for r :: "unit result"
  by (cases r) auto

section \<open>Division of bigint values\<close>

text \<open>
  \<open>/\<close> and \<open>%\<close> on \<open>bigint\<close> truncate towards zero; a zero divisor throws a \<open>RangeError\<close>.
\<close>

definition bigint_quot :: "int \<Rightarrow> int \<Rightarrow> int" where
  "bigint_quot a b = sgn a * sgn b * (\<bar>a\<bar> div \<bar>b\<bar>)"

definition bigint_rem :: "int \<Rightarrow> int \<Rightarrow> int" where
  "bigint_rem a b = a - bigint_quot a b * b"

definition bigint_div :: "int \<Rightarrow> int \<Rightarrow> int result" where
  "bigint_div a b =
     (if b = 0 then Inl (RangeError ''Division by zero'') else Inr (bigint_quot a b))"

lemma bigint_quot_nonneg [simp]: "0 \<le> a \<Longrightarrow> 0 \<le> b \<Longrightarrow> bigint_quot a b = a div b"
  by (cases "a = 0"; cases "b = 0") (auto simp: bigint_quot_def)

lemma bigint_rem_nonneg [simp]: "0 \<le> a \<Longrightarrow> 0 \<le> b \<Longrightarrow> bigint_rem a b = a mod b"
  by (simp add: bigint_rem_def minus_div_mult_eq_mod)

lemma bigint_div_Inr_iff [result_simps]: "bigint_div a b = Inr q \<longleftrightarrow> b \<noteq> 0 \<and> q = bigint_quot a b"
  by (auto simp: bigint_div_def)

section \<open>Decimal text\<close>

definition digit_char :: "nat \<Rightarrow> char" where
  "digit_char d = char_of (48 + d)"

text \<open>\<open>value.toString()\<close> on non-negative and on arbitrary \<open>bigint\<close> values.\<close>

fun nat_str :: "nat \<Rightarrow> string" where
  "nat_str n = (if n < 10 then [digit_char n] else nat_str (n div 10) @ [digit_char (n mod 10)])"

declare nat_str.simps [simp del]

definition int_str :: "int \<Rightarrow> string" where
  "int_str i = (if i < 0 then CHR ''-'' # nat_str (nat (- i)) else nat_str (nat i))"

definition bool_str :: "bool \<Rightarrow> string" where
  "bool_str b = (if b then ''true'' else ''false'')"

definition is_digit :: "char \<Rightarrow> bool" where
  "is_digit c = (48 \<le> (of_char c :: nat) \<and> (of_char c :: nat) \<le> 57)"

definition digit_val :: "char \<Rightarrow> nat" where
  "digit_val c = of_char c - 48"

definition str_nat :: "string \<Rightarrow> nat" where
  "str_nat s = foldl (\<lambda>acc c. 10 * acc + digit_val c) 0 s"

text \<open>The pattern \<open>0|[1-9][0-9]{0,19}\<close>: canonical decimal numerals of at most twenty digits.\<close>

definition is_canonical_decimal :: "string \<Rightarrow> bool" where
  "is_canonical_decimal s =
     (s = ''0'' \<or> (s \<noteq> [] \<and> list_all is_digit s \<and> hd s \<noteq> CHR ''0'' \<and> length s \<le> 20))"

lemma of_char_digit [simp]: "d < 10 \<Longrightarrow> (of_char (digit_char d) :: nat) = 48 + d"
  by (simp add: digit_char_def)

lemma digit_val_char [simp]: "d < 10 \<Longrightarrow> digit_val (digit_char d) = d"
  by (simp add: digit_val_def)

lemma is_digit_char [simp]: "d < 10 \<Longrightarrow> is_digit (digit_char d)"
  by (simp add: is_digit_def)

lemma digit_char_0 [simp]: "digit_char 0 = CHR ''0''"
  by (simp add: digit_char_def char_of_def bit_0)

lemma digit_char_eq_0_iff: "d < 10 \<Longrightarrow> digit_char d = CHR ''0'' \<longleftrightarrow> d = 0"
  using of_char_digit [of d] by (auto dest: arg_cong [where f = "of_char :: char \<Rightarrow> nat"])

lemma nat_str_nonempty [simp]: "nat_str n \<noteq> []"
  by (subst nat_str.simps) simp

lemma nat_str_digits: "list_all is_digit (nat_str n)"
proof (induction n rule: nat_str.induct)
  case (1 n)
  then show ?case by (cases "n < 10") (simp_all add: nat_str.simps [of n])
qed

lemma str_nat_snoc: "str_nat (s @ [c]) = 10 * str_nat s + digit_val c"
  by (simp add: str_nat_def)

lemma str_nat_nat_str [simp]: "str_nat (nat_str n) = n"
proof (induction n rule: nat_str.induct)
  case (1 n)
  show ?case
  proof (cases "n < 10")
    case True
    then show ?thesis by (simp add: nat_str.simps [of n] str_nat_def)
  next
    case False
    with 1 show ?thesis by (simp add: nat_str.simps [of n] str_nat_snoc)
  qed
qed

lemma hd_nat_str: "0 < n \<Longrightarrow> hd (nat_str n) \<noteq> CHR ''0''"
proof (induction n rule: nat_str.induct)
  case (1 n)
  then show ?case
    by (cases "n < 10") (simp_all add: nat_str.simps [of n] digit_char_eq_0_iff)
qed

lemma length_nat_str_le: "n < 10 ^ Suc k \<Longrightarrow> length (nat_str n) \<le> Suc k"
proof (induction k arbitrary: n)
  case 0
  then show ?case by (simp add: nat_str.simps [of n])
next
  case (Suc k)
  show ?case
  proof (cases "n < 10")
    case True
    then show ?thesis by (simp add: nat_str.simps [of n])
  next
    case False
    from Suc.prems have "n div 10 < 10 ^ Suc k" by simp
    with Suc.IH False show ?thesis by (simp add: nat_str.simps [of n])
  qed
qed

lemma nat_str_canonical: "n < 10 ^ 20 \<Longrightarrow> is_canonical_decimal (nat_str n)"
proof (cases "n = 0")
  case True
  then show ?thesis by (simp add: is_canonical_decimal_def nat_str.simps [of 0])
next
  case False
  assume "n < 10 ^ 20"
  then have "length (nat_str n) \<le> 20" using length_nat_str_le [of n 19] by simp
  with False show ?thesis
    by (simp add: is_canonical_decimal_def nat_str_digits hd_nat_str)
qed

lemma colon_not_in_nat_str: "CHR '':'' \<notin> set (nat_str n)"
proof
  assume "CHR '':'' \<in> set (nat_str n)"
  with nat_str_digits [of n] have "is_digit (CHR '':'')" by (auto simp: list_all_iff)
  then show False by (simp add: is_digit_def)
qed

text \<open>The same text computed on integers, which evaluates on large values.\<close>

function dec_str :: "int \<Rightarrow> string" where
  "dec_str i = (if i < 10 then [digit_char (nat i)] else dec_str (i div 10) @ [digit_char (nat (i mod 10))])"
  by pat_completeness auto
termination
  by (relation "measure nat") auto

declare dec_str.simps [simp del]

lemma dec_str_nat_str: "0 \<le> i \<Longrightarrow> dec_str i = nat_str (nat i)"
proof (induction i rule: dec_str.induct)
  case (1 i)
  moreover have "nat i < 10 \<longleftrightarrow> i < 10" by linarith
  ultimately show ?case
    by (simp add: dec_str.simps [of i] nat_str.simps [of "nat i"] nat_div_distrib nat_mod_distrib)
qed

lemma int_str_code [code]: "int_str i = (if i < 0 then CHR ''-'' # dec_str (- i) else dec_str i)"
  by (simp add: int_str_def dec_str_nat_str)

section \<open>Map: insertion-ordered association lists\<close>

text \<open>
  A JavaScript \<open>Map\<close> keeps its entries in insertion order; \<open>set\<close> on an existing key replaces the
  value in place, on a new key appends. Keys occur once (\<open>jsmap_ok\<close>), which every operation keeps.
\<close>

type_synonym ('k, 'v) jsmap = "('k \<times> 'v) list"

fun map_set :: "'k \<Rightarrow> 'v \<Rightarrow> ('k, 'v) jsmap \<Rightarrow> ('k, 'v) jsmap" where
  "map_set k v [] = [(k, v)]"
| "map_set k v ((k', v') # m) = (if k = k' then (k, v) # m else (k', v') # map_set k v m)"

definition map_get :: "('k, 'v) jsmap \<Rightarrow> 'k \<Rightarrow> 'v option" where
  "map_get m k = map_of m k"

definition map_has :: "('k, 'v) jsmap \<Rightarrow> 'k \<Rightarrow> bool" where
  "map_has m k = (map_of m k \<noteq> None)"

definition map_keys :: "('k, 'v) jsmap \<Rightarrow> 'k list" where
  "map_keys m = map fst m"

definition map_values :: "('k, 'v) jsmap \<Rightarrow> 'v list" where
  "map_values m = map snd m"

definition jsmap_ok :: "('k, 'v) jsmap \<Rightarrow> bool" where
  "jsmap_ok m = distinct (map fst m)"

lemma map_get_empty [simp]: "map_get [] k = None"
  by (simp add: map_get_def)

lemma map_has_iff_get: "map_has m k \<longleftrightarrow> map_get m k \<noteq> None"
  by (simp add: map_has_def map_get_def)

lemma map_get_set [jsmap_simps, simp]: "map_get (map_set k v m) k' = (if k' = k then Some v else map_get m k')"
  by (induction k v m rule: map_set.induct) (auto simp: map_get_def)

lemma map_has_set [jsmap_simps, simp]: "map_has (map_set k v m) k' \<longleftrightarrow> k' = k \<or> map_has m k'"
  by (auto simp: map_has_iff_get)

lemma set_map_keys_set [jsmap_simps]: "set (map_keys (map_set k v m)) = insert k (set (map_keys m))"
  by (induction k v m rule: map_set.induct) (auto simp: map_keys_def)

lemma map_has_iff_keys: "map_has m k \<longleftrightarrow> k \<in> set (map_keys m)"
  by (induction m) (auto simp: map_has_def map_keys_def)

lemma jsmap_ok_empty [simp]: "jsmap_ok []"
  by (simp add: jsmap_ok_def)

lemma jsmap_ok_set [simp]: "jsmap_ok m \<Longrightarrow> jsmap_ok (map_set k v m)"
proof (induction k v m rule: map_set.induct)
  case (2 k v k' v' m)
  then have "fst ` set (map_set k v m) = insert k (fst ` set m)"
    using set_map_keys_set [of k v m] by (simp add: map_keys_def)
  with 2 show ?case by (auto simp: jsmap_ok_def)
qed (simp add: jsmap_ok_def)

lemma map_values_set_subset: "set (map_values (map_set k v m)) \<subseteq> insert v (set (map_values m))"
  by (induction k v m rule: map_set.induct) (auto simp: map_values_def)

lemma map_set_entries_subset: "set (map_set k v m) \<subseteq> insert (k, v) (set m)"
  by (induction k v m rule: map_set.induct) auto

lemma map_set_append: "k \<notin> fst ` set m \<Longrightarrow> map_set k v m = m @ [(k, v)]"
  by (induction k v m rule: map_set.induct) auto

lemma map_get_Some_values: "map_get m k = Some v \<Longrightarrow> v \<in> set (map_values m)"
  by (auto simp: map_get_def map_values_def dest: map_of_SomeD intro: image_eqI [where x = "(k, v)"])

lemma map_get_Some_entries: "map_get m k = Some v \<Longrightarrow> (k, v) \<in> set m"
  by (simp add: map_get_def map_of_SomeD)

text \<open>
  Replacing one entry changes a sum over the values by the difference of that entry: the
  bookkeeping fact behind every conservation proof.
\<close>

definition map_sum :: "('v \<Rightarrow> int) \<Rightarrow> ('k, 'v) jsmap \<Rightarrow> int" where
  "map_sum f m = sum_list (map f (map_values m))"

lemma map_sum_simps [simp]:
  "map_sum f [] = 0"
  "map_sum f ((k, v) # m) = f v + map_sum f m"
  by (simp_all add: map_sum_def map_values_def)

lemma map_sum_set [jsmap_simps]:
  "map_sum f (map_set k v m) = map_sum f m - (case map_get m k of None \<Rightarrow> 0 | Some u \<Rightarrow> f u) + f v"
  by (induction k v m rule: map_set.induct) (auto simp: map_get_def)

lemma map_sum_set_neutral:
  "(case map_get m k of None \<Rightarrow> 0 | Some u \<Rightarrow> f u) = f v \<Longrightarrow> map_sum f (map_set k v m) = map_sum f m"
  by (simp add: map_sum_set)

lemma foldl_add_sum_list: "foldl (\<lambda>acc x. acc + f x) a xs = a + sum_list (map f xs)" for a :: int
  by (induction xs arbitrary: a) simp_all

section \<open>Arithmetic\<close>

text \<open>The floors of the parts never exceed the floor of the whole.\<close>

lemma sum_list_div_le:
  fixes M :: int
  assumes "0 < M"
  shows "sum_list (map (\<lambda>x. f x div M) xs) \<le> sum_list (map f xs) div M"
proof (induction xs)
  case (Cons x xs)
  have "f x div M + sum_list (map f xs) div M \<le> (f x + sum_list (map f xs)) div M"
  proof -
    have "f x div M * M + sum_list (map f xs) div M * M \<le> f x + sum_list (map f xs)"
      using assms by (intro add_mono) (simp_all add: minus_mod_eq_div_mult [symmetric])
    then have "(f x div M + sum_list (map f xs) div M) * M \<le> f x + sum_list (map f xs)"
      by (simp add: distrib_right)
    then show ?thesis
      using assms by (metis less_irrefl nonzero_mult_div_cancel_right zdiv_mono1)
  qed
  with Cons show ?case by simp
qed simp

lemma div_add_conserves: "(a + b :: int) div d * d + (a + b) mod d = a + b"
  by simp

end
