(* ===== verification/Async_Procs.thy ===== *)
theory Async_Procs
  imports Prelude
begin

text \<open>
  Asynchronous operations on shared state. A JavaScript \<open>async\<close> function runs without interruption up
  to its next \<open>await\<close>; it is modelled as a procedure of atomic segments, and other procedures may run
  between two segments of it. \<open>run\<close> executes a procedure alone; \<open>interleaved\<close> is the set of states that
  any schedule of any number of procedures can reach. The locale \<open>guarantee\<close> proves invariants of all
  schedules segment by segment.
\<close>

datatype ('s, 'a) proc = Settled "'a result" | Segment "'s \<Rightarrow> 's \<times> ('s, 'a) proc"

section \<open>Composition\<close>

text \<open>\<open>await\<close> of a procedure, with the rest of the function; an error skips the rest.\<close>

primrec pbind :: "('s, 'a) proc \<Rightarrow> ('a \<Rightarrow> ('s, 'b) proc) \<Rightarrow> ('s, 'b) proc" where
  "pbind (Settled r) k = (case r of Inl e \<Rightarrow> Settled (Inl e) | Inr x \<Rightarrow> k x)"
| "pbind (Segment f) k = Segment (map_prod id (\<lambda>p. pbind p k) \<circ> f)"

text \<open>
  A synchronous block that runs when a procedure has settled, whatever its result: \<open>try ... finally\<close>, or
  a handler on both sides of \<open>then\<close>.
\<close>

primrec pfinally :: "('s, 'a) proc \<Rightarrow> ('a result \<Rightarrow> 's \<Rightarrow> 's) \<Rightarrow> ('s, 'a) proc" where
  "pfinally (Settled r) fin = Segment (\<lambda>s. (fin r s, Settled r))"
| "pfinally (Segment f) fin = Segment (map_prod id (\<lambda>p. pfinally p fin) \<circ> f)"

text \<open>A segment that may throw: it reads and changes the state, and continues with a procedure.\<close>

definition segment :: "('s \<Rightarrow> ('s \<times> ('s, 'a) proc) result) \<Rightarrow> ('s, 'a) proc" where
  "segment f = Segment (\<lambda>s. case f s of Inl e \<Rightarrow> (s, Settled (Inl e)) | Inr sp \<Rightarrow> sp)"

section \<open>Execution\<close>

primrec run :: "('s, 'a) proc \<Rightarrow> 's \<Rightarrow> 'a result \<times> 's" where
  "run (Settled r) = (\<lambda>s. (r, s))"
| "run (Segment f) = (\<lambda>s. case (map_prod id run \<circ> f) s of (s', go) \<Rightarrow> go s')"

lemma run_Segment [simp]: "run (Segment f) s = (case f s of (s', p) \<Rightarrow> run p s')"
  by (simp add: split_beta)

declare run.simps(2) [simp del]

lemma run_pbind: "run (pbind p k) s = (case run p s of (Inl e, s') \<Rightarrow> (Inl e, s') | (Inr x, s') \<Rightarrow> run (k x) s')"
proof (induction p arbitrary: s)
  case (Settled r)
  then show ?case by (cases r) simp_all
next
  case (Segment f)
  obtain s' p where f: "f s = (s', p)" by force
  then have "run (pbind p k) s' = (case run p s' of (Inl e, s') \<Rightarrow> (Inl e, s') | (Inr x, s') \<Rightarrow> run (k x) s')"
    using Segment [of "(s', p)" p s'] by (metis prod.sel(2) prod_set_simps(2) rangeI singletonI)
  with f show ?case by simp
qed

lemma run_pfinally: "run (pfinally p fin) s = (case run p s of (r, s') \<Rightarrow> (r, fin r s'))"
proof (induction p arbitrary: s)
  case (Segment f)
  obtain s' p where f: "f s = (s', p)" by force
  then have "run (pfinally p fin) s' = (case run p s' of (r, s') \<Rightarrow> (r, fin r s'))"
    using Segment [of "(s', p)" p s'] by (metis prod.sel(2) prod_set_simps(2) rangeI singletonI)
  with f show ?case by simp
qed simp

lemma run_segment: "run (segment f) s = (case f s of Inl e \<Rightarrow> (Inl e, s) | Inr (s', p) \<Rightarrow> run p s')"
  by (auto simp: segment_def split: sum.splits)

text \<open>
  Every schedule: start from a state, start any procedure of the interface at any time, run the next
  segment of any started procedure.
\<close>

inductive interleaved :: "('s, unit) proc set \<Rightarrow> 's \<Rightarrow> 's \<Rightarrow> ('s, unit) proc list \<Rightarrow> bool"
  for calls :: "('s, unit) proc set" and s0 :: 's where
  start: "interleaved calls s0 s0 []"
| call: "interleaved calls s0 s ps \<Longrightarrow> p \<in> calls \<Longrightarrow> interleaved calls s0 s (ps @ [p])"
| step: "interleaved calls s0 s ps \<Longrightarrow> i < length ps \<Longrightarrow> ps ! i = Segment f \<Longrightarrow> f s = (s', p)
    \<Longrightarrow> interleaved calls s0 s' (ps[i := p])"

text \<open>Running one call alone, from its first to its last segment, is a schedule.\<close>

lemma run_to_end:
  "interleaved calls s0 s (ps @ [p]) \<Longrightarrow> \<exists>qs. interleaved calls s0 (snd (run p s)) qs"
proof (induction p arbitrary: s)
  case (Segment f)
  obtain s' q where f: "f s = (s', q)" by force
  have "interleaved calls s0 s' ((ps @ [Segment f])[length ps := q])" using f
    by (intro interleaved.step [OF Segment.prems, of "length ps" f s' q]) simp_all
  then have "interleaved calls s0 s' (ps @ [q])" by simp
  then have "\<exists>qs. interleaved calls s0 (snd (run q s')) qs"
    using Segment.IH [of "(s', q)" q s'] f by (metis prod.sel(2) prod_set_simps(2) rangeI singletonI)
  with f show ?case by simp
qed auto

lemma run_is_schedule:
  "interleaved calls s0 s ps \<Longrightarrow> p \<in> calls \<Longrightarrow> \<exists>qs. interleaved calls s0 (snd (run p s)) qs"
  by (rule run_to_end) (rule interleaved.call)

section \<open>Invariants of all schedules\<close>

text \<open>
  \<open>guards G I p Q s\<close>: from any invariant state that evolved (\<open>G\<close>) from \<open>s\<close>, the next segment of \<open>p\<close>
  keeps the invariant \<open>I\<close>, evolves the state, and so does the rest; a returned value satisfies \<open>Q\<close> in
  the state where it is returned.
\<close>

primrec guards :: "('s \<Rightarrow> 's \<Rightarrow> bool) \<Rightarrow> ('s \<Rightarrow> bool) \<Rightarrow> ('s, 'a) proc \<Rightarrow> ('a \<Rightarrow> 's \<Rightarrow> bool) \<Rightarrow> 's \<Rightarrow> bool" where
  "guards G I (Settled r) = (\<lambda>Q s. \<forall>x. r = Inr x \<longrightarrow> Q x s)"
| "guards G I (Segment f) = (\<lambda>Q s. \<forall>t. G s t \<and> I t \<longrightarrow> (case (map_prod id (guards G I) \<circ> f) t of
     (t', P) \<Rightarrow> G t t' \<and> I t' \<and> P Q t'))"

lemma guards_Segment [simp]:
  "guards G I (Segment f) Q s \<longleftrightarrow> (\<forall>t. G s t \<and> I t \<longrightarrow> (case f t of (t', p) \<Rightarrow> G t t' \<and> I t' \<and> guards G I p Q t'))"
  by (simp add: split_beta)

declare guards.simps(2) [simp del]

lemma guards_segment:
  assumes "\<And>t t' p. G s t \<Longrightarrow> I t \<Longrightarrow> f t = Inr (t', p) \<Longrightarrow> G t t' \<and> I t' \<and> guards G I p Q t'"
    and "\<And>t. G t t"
  shows "guards G I (segment f) Q s"
  using assms by (auto simp: segment_def split: sum.splits)

locale guarantee =
  fixes G :: "'s \<Rightarrow> 's \<Rightarrow> bool" and I :: "'s \<Rightarrow> bool"
  assumes stays: "G s s" and chains: "G s t \<Longrightarrow> G t u \<Longrightarrow> G s u"
begin

lemma later:
  assumes "guards G I p Q s" "G s t" "\<And>x. Q x s \<Longrightarrow> Q x t"
  shows "guards G I p Q t"
proof (cases p)
  case (Segment f)
  with assms(1,2) chains show ?thesis by (auto split: prod.splits)
qed (use assms in auto)

lemma guards_pbind:
  assumes "guards G I p R s" "\<And>x t. G s t \<Longrightarrow> R x t \<Longrightarrow> guards G I (k x) Q t"
  shows "guards G I (pbind p k) Q s"
  using assms
proof (induction p arbitrary: s)
  case (Settled r)
  then show ?case using stays by (cases r) simp_all
next
  case (Segment f)
  show ?case unfolding pbind.simps guards_Segment
  proof (intro allI impI)
    fix t assume t: "G s t \<and> I t"
    obtain t' p where f: "f t = (t', p)" by force
    then have step: "G t t'" "I t'" "guards G I p R t'" using Segment.prems(1) t by auto
    have "guards G I (pbind p k) Q t'"
    proof (rule Segment.IH [of "(t', p)" p])
      show "(t', p) \<in> range f" using f by (metis rangeI)
      show "guards G I p R t'" by (rule step(3))
      show "\<And>x u. G t' u \<Longrightarrow> R x u \<Longrightarrow> guards G I (k x) Q u"
        using Segment.prems(2) t step(1) chains by meson
    qed simp
    with f step show "case (map_prod id (\<lambda>p. pbind p k) \<circ> f) t of (t', p) \<Rightarrow> G t t' \<and> I t' \<and> guards G I p Q t'"
      by simp
  qed
qed

lemma guards_pfinally:
  assumes "guards G I p Q s" "\<And>r t. I t \<Longrightarrow> G t (fin r t) \<and> I (fin r t)" "\<And>x t u. Q x t \<Longrightarrow> G t u \<Longrightarrow> Q x u"
  shows "guards G I (pfinally p fin) Q s"
  using assms(1)
proof (induction p arbitrary: s)
  case (Settled r)
  with assms(2,3) chains show ?case by auto
next
  case (Segment f)
  show ?case unfolding pfinally.simps guards_Segment
  proof (intro allI impI)
    fix t assume t: "G s t \<and> I t"
    obtain t' p where f: "f t = (t', p)" by force
    then have step: "G t t'" "I t'" "guards G I p Q t'" using Segment.prems(1) t by auto
    have "(t', p) \<in> range f" using f by (metis rangeI)
    then have "guards G I (pfinally p fin) Q t'" by (rule Segment.IH [of "(t', p)" p]) (simp_all add: step)
    with f step show "case (map_prod id (\<lambda>p. pfinally p fin) \<circ> f) t of (t', p) \<Rightarrow> G t t' \<and> I t' \<and> guards G I p Q t'"
      by simp
  qed
qed

text \<open>If every procedure of the interface is guarded, every schedule keeps the invariant.\<close>

lemma interleaved_keeps:
  assumes calls: "\<And>p s. p \<in> calls \<Longrightarrow> guards G I p (\<lambda>_ _. True) s" and init: "I s0"
    and reached: "interleaved calls s0 s ps"
  shows "I s \<and> (\<forall>p \<in> set ps. guards G I p (\<lambda>_ _. True) s)"
  using reached
proof (induction rule: interleaved.induct)
  case start
  then show ?case using init by simp
next
  case (call s ps p)
  then show ?case using calls by auto
next
  case (step s ps i f s' p)
  then have seg: "guards G I (Segment f) (\<lambda>_ _. True) s" by (metis nth_mem)
  then have "case f s of (t', p) \<Rightarrow> G s t' \<and> I t' \<and> guards G I p (\<lambda>_ _. True) t'"
    by (rule guards_Segment [THEN iffD1, rule_format]) (use step.IH stays [of s] in simp)
  then have s': "G s s'" "I s'" "guards G I p (\<lambda>_ _. True) s'" using step.hyps by simp_all
  have "guards G I q (\<lambda>_ _. True) s'" if "q \<in> set (ps[i := p])" for q
  proof -
    have "q = p \<or> q \<in> set ps" using that set_update_subset_insert [of ps i p] by auto
    then show ?thesis using step.IH s' later by blast
  qed
  with s'(2) show ?case by blast
qed

end

end
