(* ===== verification/Json_Text.thy ===== *)
theory Json_Text
  imports Prelude
begin

text \<open>
  JSON texts as the snapshot codec uses them (\<open>packages/indexer/src/snapshot.ts\<close>, \<open>encodeBigInts\<close>
  and \<open>bigintReviver\<close>, over \<open>JSON.stringify\<close> and \<open>JSON.parse\<close>). A JavaScript value is a tree; a
  \<open>bigint\<close> is written as an object with the single key \<open>$bigint\<close> and read back by the reviver.
  Characters are 8-bit, so an escape above \<open>00ff\<close> and a number with a fraction or an exponent have no
  tree here and the parser refuses them; the codec writes neither.
\<close>

section \<open>Values\<close>

datatype js_val =
    JNull
  | JBool bool
  | JNum int
  | JBig int
  | JStr string
  | JArr "js_val list"
  | JObj "(string \<times> js_val) list"

text \<open>\<open>value.key\<close> of an object; \<open>None\<close> is \<open>undefined\<close>.\<close>

definition js_field :: "js_val \<Rightarrow> string \<Rightarrow> js_val option" where
  "js_field v key = (case v of JObj ms \<Rightarrow> map_get ms key | _ \<Rightarrow> None)"

text \<open>The casts the code applies to a validated value.\<close>

definition js_get :: "js_val \<Rightarrow> string \<Rightarrow> js_val" where
  "js_get v key = (case js_field v key of None \<Rightarrow> JNull | Some w \<Rightarrow> w)"

fun num_of :: "js_val \<Rightarrow> int" where "num_of (JNum n) = n" | "num_of _ = 0"
fun big_of :: "js_val \<Rightarrow> int" where "big_of (JBig n) = n" | "big_of _ = 0"
fun str_of :: "js_val \<Rightarrow> string" where "str_of (JStr s) = s" | "str_of _ = []"
fun bool_of :: "js_val \<Rightarrow> bool" where "bool_of (JBool b) = b" | "bool_of _ = False"
fun arr_of :: "js_val \<Rightarrow> js_val list" where "arr_of (JArr vs) = vs" | "arr_of _ = []"
fun opt_str_of :: "js_val \<Rightarrow> string option" where "opt_str_of (JStr s) = Some s" | "opt_str_of _ = None"
fun opt_big_of :: "js_val \<Rightarrow> int option" where "opt_big_of (JBig n) = Some n" | "opt_big_of _ = None"

named_theorems lookup "fields of serialised objects"

lemma js_field_Nil [lookup]: "js_field (JObj []) key = None"
  by (simp add: js_field_def)

lemma js_field_Cons [lookup]: "js_field (JObj ((k, v) # ms)) key = (if key = k then Some v else js_field (JObj ms) key)"
  by (simp add: js_field_def map_get_def)

lemma js_get_Nil [lookup]: "js_get (JObj []) key = JNull"
  by (simp add: js_get_def js_field_Nil)

lemma js_get_Cons [lookup]: "js_get (JObj ((k, v) # ms)) key = (if key = k then v else js_get (JObj ms) key)"
  by (simp add: js_get_def js_field_Cons)

section \<open>Writing\<close>

definition hex_char :: "nat \<Rightarrow> char" where
  "hex_char d = char_of (if d < 10 then 48 + d else 87 + d)"

definition escape_char :: "char \<Rightarrow> string" where
  "escape_char c =
     (if c = CHR 0x22 then [CHR 0x5C, CHR 0x22]
      else if c = CHR 0x5C then [CHR 0x5C, CHR 0x5C]
      else if c = CHR 0x08 then [CHR 0x5C, CHR ''b'']
      else if c = CHR 0x0C then [CHR 0x5C, CHR ''f'']
      else if c = CHR 0x0A then [CHR 0x5C, CHR ''n'']
      else if c = CHR 0x0D then [CHR 0x5C, CHR ''r'']
      else if c = CHR 0x09 then [CHR 0x5C, CHR ''t'']
      else if (of_char c :: nat) < 32
      then [CHR 0x5C, CHR ''u'', CHR ''0'', CHR ''0'', hex_char (of_char c div 16), hex_char (of_char c mod 16)]
      else [c])"

definition quote :: "string \<Rightarrow> string" where
  "quote s = [CHR 0x22] @ concat (map escape_char s) @ [CHR 0x22]"

definition bigint_key :: string where "bigint_key = ''$bigint''"

fun encodeBigInts :: "js_val \<Rightarrow> string"
  and encode_elems :: "js_val list \<Rightarrow> string"
  and encode_members :: "(string \<times> js_val) list \<Rightarrow> string" where
  "encodeBigInts JNull = ''null''"
| "encodeBigInts (JBool b) = bool_str b"
| "encodeBigInts (JNum n) = int_str n"
| "encodeBigInts (JBig n) = ''{'' @ quote bigint_key @ '':'' @ quote (int_str n) @ ''}''"
| "encodeBigInts (JStr s) = quote s"
| "encodeBigInts (JArr vs) = ''['' @ encode_elems vs @ '']''"
| "encodeBigInts (JObj ms) = ''{'' @ encode_members ms @ ''}''"
| "encode_elems [] = ''''"
| "encode_elems [v] = encodeBigInts v"
| "encode_elems (v # vs) = encodeBigInts v @ '','' @ encode_elems vs"
| "encode_members [] = ''''"
| "encode_members [(k, v)] = quote k @ '':'' @ encodeBigInts v"
| "encode_members ((k, v) # ms) = quote k @ '':'' @ encodeBigInts v @ '','' @ encode_members ms"

section \<open>Reading\<close>

definition is_ws :: "char \<Rightarrow> bool" where
  "is_ws c = (c = CHR '' '' \<or> c = CHR 0x09 \<or> c = CHR 0x0A \<or> c = CHR 0x0D)"

definition skip_ws :: "string \<Rightarrow> string" where
  "skip_ws s = dropWhile is_ws s"

definition hex_val :: "char \<Rightarrow> nat option" where
  "hex_val c = (let n = of_char c in
     if 48 \<le> n \<and> n \<le> 57 then Some (n - 48)
     else if 97 \<le> n \<and> n \<le> 102 then Some (n - 87)
     else if 65 \<le> n \<and> n \<le> 70 then Some (n - 55)
     else None)"

definition simple_escape :: "char \<Rightarrow> char option" where
  "simple_escape c =
     (if c = CHR 0x22 \<or> c = CHR 0x5C \<or> c = CHR ''/'' then Some c
      else if c = CHR ''b'' then Some (CHR 0x08)
      else if c = CHR ''f'' then Some (CHR 0x0C)
      else if c = CHR ''n'' then Some (CHR 0x0A)
      else if c = CHR ''r'' then Some (CHR 0x0D)
      else if c = CHR ''t'' then Some (CHR 0x09)
      else None)"

definition unicode_escape :: "char \<Rightarrow> char \<Rightarrow> char \<Rightarrow> char \<Rightarrow> char option" where
  "unicode_escape a b c d = (case (hex_val a, hex_val b, hex_val c, hex_val d) of
       (Some 0, Some 0, Some x, Some y) \<Rightarrow> Some (char_of (16 * x + y))
     | _ \<Rightarrow> None)"

text \<open>The characters of a string up to its closing quote, and the rest of the text.\<close>

fun parse_string :: "string \<Rightarrow> (string \<times> string) option" where
  "parse_string [] = None"
| "parse_string (c # r) =
     (if c = CHR 0x22 then Some ([], r)
      else if c = CHR 0x5C then (case r of
          [] \<Rightarrow> None
        | e # r1 \<Rightarrow>
          if e = CHR ''u'' then (case r1 of
              x1 # x2 # x3 # x4 # r2 \<Rightarrow>
                (case unicode_escape x1 x2 x3 x4 of None \<Rightarrow> None
                 | Some d \<Rightarrow> map_option (apfst ((#) d)) (parse_string r2))
            | _ \<Rightarrow> None)
          else (case simple_escape e of None \<Rightarrow> None
                | Some d \<Rightarrow> map_option (apfst ((#) d)) (parse_string r1)))
      else if (of_char c :: nat) < 32 then None
      else map_option (apfst ((#) c)) (parse_string r))"

text \<open>An integer literal: no leading zero, and no fraction or exponent after it.\<close>

definition parse_digits :: "bool \<Rightarrow> string \<Rightarrow> (js_val \<times> string) option" where
  "parse_digits neg body =
     (let digits = takeWhile is_digit body; rest = dropWhile is_digit body; n = int (str_nat digits) in
      if digits = [] \<or> (hd digits = CHR ''0'' \<and> length digits \<noteq> 1)
         \<or> (rest \<noteq> [] \<and> hd rest \<in> {CHR ''.'', CHR ''e'', CHR ''E''}) then None
      else Some (JNum (if neg then - n else n), rest))"

definition parse_number :: "string \<Rightarrow> (js_val \<times> string) option" where
  "parse_number s = (case s of
       c # r \<Rightarrow> if c = CHR ''-'' then parse_digits True r else parse_digits False s
     | [] \<Rightarrow> None)"

definition parse_literal :: "string \<Rightarrow> js_val \<Rightarrow> string \<Rightarrow> (js_val \<times> string) option" where
  "parse_literal word v s = (if take (length word) s = word then Some (v, drop (length word) s) else None)"

text \<open>
  Values, elements after \<open>[\<close> and members after \<open>{\<close>. The fuel bounds nesting and length; the length of
  the text is enough. A repeated key keeps its place and takes the later value.
\<close>

fun parse_value :: "nat \<Rightarrow> string \<Rightarrow> (js_val \<times> string) option"
  and parse_elems :: "nat \<Rightarrow> string \<Rightarrow> (js_val list \<times> string) option"
  and parse_members :: "nat \<Rightarrow> (string \<times> js_val) list \<Rightarrow> string \<Rightarrow> ((string \<times> js_val) list \<times> string) option" where
  "parse_value 0 s = None"
| "parse_value (Suc n) s = (case skip_ws s of
       [] \<Rightarrow> None
     | c # r \<Rightarrow>
       if c = CHR 0x22 then map_option (apfst JStr) (parse_string r)
       else if c = CHR ''['' then
         (case skip_ws r of c1 # r1 \<Rightarrow> if c1 = CHR '']'' then Some (JArr [], r1) else map_option (apfst JArr) (parse_elems n r)
          | [] \<Rightarrow> None)
       else if c = CHR ''{'' then
         (case skip_ws r of c1 # r1 \<Rightarrow> if c1 = CHR ''}'' then Some (JObj [], r1) else map_option (apfst JObj) (parse_members n [] r)
          | [] \<Rightarrow> None)
       else if c = CHR ''n'' then parse_literal ''null'' JNull (c # r)
       else if c = CHR ''t'' then parse_literal ''true'' (JBool True) (c # r)
       else if c = CHR ''f'' then parse_literal ''false'' (JBool False) (c # r)
       else parse_number (c # r))"
| "parse_elems 0 s = None"
| "parse_elems (Suc n) s = (case parse_value n s of
       None \<Rightarrow> None
     | Some (v, r) \<Rightarrow> (case skip_ws r of
           [] \<Rightarrow> None
         | c # r1 \<Rightarrow>
           if c = CHR '']'' then Some ([v], r1)
           else if c = CHR '','' then map_option (apfst ((#) v)) (parse_elems n r1)
           else None))"
| "parse_members 0 ms s = None"
| "parse_members (Suc n) ms s = (case skip_ws s of
       [] \<Rightarrow> None
     | q # r0 \<Rightarrow> if q \<noteq> CHR 0x22 then None else (case parse_string r0 of
           None \<Rightarrow> None
         | Some (k, r1) \<Rightarrow> (case skip_ws r1 of
               [] \<Rightarrow> None
             | co # r2 \<Rightarrow> if co \<noteq> CHR '':'' then None else (case parse_value n r2 of
                   None \<Rightarrow> None
                 | Some (v, r3) \<Rightarrow> (case skip_ws r3 of
                       [] \<Rightarrow> None
                     | c # r4 \<Rightarrow>
                       if c = CHR ''}'' then Some (map_set k v ms, r4)
                       else if c = CHR '','' then parse_members n (map_set k v ms) r4
                       else None)))))"

definition json_parse :: "string \<Rightarrow> js_val option" where
  "json_parse s = (case parse_value (Suc (length s)) s of
       Some (v, r) \<Rightarrow> if skip_ws r = [] then Some v else None
     | None \<Rightarrow> None)"

text \<open>The reviver, applied from the leaves up.\<close>

definition is_bigint_text :: "string \<Rightarrow> bool" where
  "is_bigint_text s = (let d = (case s of c # r \<Rightarrow> if c = CHR ''-'' then r else s | [] \<Rightarrow> s) in
     d = ''0'' \<or> (d \<noteq> [] \<and> list_all is_digit d \<and> hd d \<noteq> CHR ''0'' \<and> length d \<le> 78))"

definition bigint_of_text :: "string \<Rightarrow> int" where
  "bigint_of_text s = (case s of c # r \<Rightarrow> if c = CHR ''-'' then - int (str_nat r) else int (str_nat s) | [] \<Rightarrow> 0)"

definition bigintReviver :: "js_val \<Rightarrow> js_val result" where
  "bigintReviver v = (case v of
       JObj [(k, JStr s)] \<Rightarrow>
         if k = bigint_key then
           (if is_bigint_text s then Inr (JBig (bigint_of_text s))
            else Inl (TypeError ''Invalid indexer snapshot bigint encoding''))
         else Inr v
     | _ \<Rightarrow> Inr v)"

fun revive_with :: "(js_val \<Rightarrow> js_val result) \<Rightarrow> js_val \<Rightarrow> js_val result"
  and revive_elems_with :: "(js_val \<Rightarrow> js_val result) \<Rightarrow> js_val list \<Rightarrow> js_val list result"
  and revive_members_with :: "(js_val \<Rightarrow> js_val result) \<Rightarrow> (string \<times> js_val) list \<Rightarrow> (string \<times> js_val) list result" where
  "revive_with f (JArr vs) = rbind (revive_elems_with f vs) (\<lambda>ws. f (JArr ws))"
| "revive_with f (JObj ms) = rbind (revive_members_with f ms) (\<lambda>ns. f (JObj ns))"
| "revive_with f v = f v"
| "revive_elems_with f [] = Inr []"
| "revive_elems_with f (v # vs) = rbind (revive_with f v) (\<lambda>w. rbind (revive_elems_with f vs) (\<lambda>ws. Inr (w # ws)))"
| "revive_members_with f [] = Inr []"
| "revive_members_with f ((k, v) # ms) = rbind (revive_with f v) (\<lambda>w. rbind (revive_members_with f ms) (\<lambda>ns. Inr ((k, w) # ns)))"

abbreviation revive :: "js_val \<Rightarrow> js_val result" where
  "revive \<equiv> revive_with bigintReviver"

abbreviation revive_elems :: "js_val list \<Rightarrow> js_val list result" where
  "revive_elems \<equiv> revive_elems_with bigintReviver"

abbreviation revive_members :: "(string \<times> js_val) list \<Rightarrow> (string \<times> js_val) list result" where
  "revive_members \<equiv> revive_members_with bigintReviver"

section \<open>Strings and numbers are read back\<close>

lemma hex_val_hex_char: "d < 16 \<Longrightarrow> hex_val (hex_char d) = Some d"
  by (simp add: hex_val_def hex_char_def Let_def)

lemma unicode_escape_low:
  assumes "(of_char c :: nat) < 32"
  shows "unicode_escape (CHR ''0'') (CHR ''0'') (hex_char (of_char c div 16)) (hex_char (of_char c mod 16)) = Some c"
proof -
  have "hex_val (CHR ''0'') = Some 0" by (simp add: hex_val_def)
  moreover have "(of_char c :: nat) div 16 < 16" using assms by (simp add: less_mult_imp_div_less)
  moreover have "char_of (16 * (of_char c div 16) + of_char c mod 16 :: nat) = c" by (simp add: mult.commute)
  ultimately show ?thesis by (simp add: unicode_escape_def hex_val_hex_char)
qed

lemma parse_string_escape: "parse_string (escape_char c @ r) = map_option (apfst ((#) c)) (parse_string r)"
  using unicode_escape_low [of c] by (simp add: escape_char_def simple_escape_def)

lemma parse_string_quoted: "parse_string (concat (map escape_char s) @ CHR 0x22 # r) = Some (s, r)"
  by (induction s) (simp_all add: parse_string_escape)

definition terminated :: "string \<Rightarrow> bool" where
  "terminated r = (r = [] \<or> hd r \<in> {CHR '','', CHR '']'', CHR ''}'', CHR 0x0A})"

lemma takeWhile_digits: "list_all P ds \<Longrightarrow> r = [] \<or> \<not> P (hd r) \<Longrightarrow> takeWhile P (ds @ r) = ds \<and> dropWhile P (ds @ r) = r"
  by (induction ds) (cases r; simp)+

lemma terminated_not_digit: "terminated r \<Longrightarrow> r = [] \<or> \<not> is_digit (hd r)"
  by (auto simp: terminated_def is_digit_def)

lemma parse_digits_nat_str:
  assumes "terminated r"
  shows "parse_digits neg (nat_str k @ r) = Some (JNum (if neg then - int k else int k), r)"
proof -
  have "takeWhile is_digit (nat_str k @ r) = nat_str k" "dropWhile is_digit (nat_str k @ r) = r"
    using takeWhile_digits [OF nat_str_digits terminated_not_digit [OF assms]] by simp_all
  moreover have "\<not> (hd (nat_str k) = CHR ''0'' \<and> length (nat_str k) \<noteq> 1)"
    using hd_nat_str [of k] by (cases "k = 0") (auto simp: nat_str.simps [of 0])
  moreover have "\<not> (r \<noteq> [] \<and> hd r \<in> {CHR ''.'', CHR ''e'', CHR ''E''})"
    using assms by (auto simp: terminated_def)
  ultimately show ?thesis unfolding parse_digits_def Let_def by simp
qed

lemma nat_str_first: "\<exists>c s. nat_str k = c # s \<and> is_digit c"
  using nat_str_digits [of k] nat_str_nonempty [of k] by (cases "nat_str k") auto

lemma parse_number_int_str:
  assumes "terminated r"
  shows "parse_number (int_str n @ r) = Some (JNum n, r)"
proof (cases "n < 0")
  case True
  then show ?thesis using parse_digits_nat_str [OF assms, of True "nat (- n)"] by (simp add: parse_number_def int_str_def)
next
  case False
  obtain c s where "nat_str (nat n) = c # s" "is_digit c" using nat_str_first by blast
  with False show ?thesis using parse_digits_nat_str [OF assms, of False "nat n"]
    by (auto simp: parse_number_def int_str_def is_digit_def)
qed

section \<open>Trees are read back\<close>

text \<open>What the parser sees of a tree: the \<open>bigint\<close> leaves as the objects they were written as.\<close>

fun plain :: "js_val \<Rightarrow> js_val"
  and plain_elems :: "js_val list \<Rightarrow> js_val list"
  and plain_members :: "(string \<times> js_val) list \<Rightarrow> (string \<times> js_val) list" where
  "plain (JBig n) = JObj [(bigint_key, JStr (int_str n))]"
| "plain (JArr vs) = JArr (plain_elems vs)"
| "plain (JObj ms) = JObj (plain_members ms)"
| "plain JNull = JNull"
| "plain (JBool b) = JBool b"
| "plain (JNum k) = JNum k"
| "plain (JStr s) = JStr s"
| "plain_elems [] = []"
| "plain_elems (v # vs) = plain v # plain_elems vs"
| "plain_members [] = []"
| "plain_members ((k, v) # ms) = (k, plain v) # plain_members ms"

text \<open>
  Trees of the codec: no repeated key, and no object that the reviver would take for a \<open>bigint\<close>;
  every \<open>bigint\<close> has at most 78 digits.
\<close>

fun codec_tree :: "js_val \<Rightarrow> bool"
  and codec_elems :: "js_val list \<Rightarrow> bool"
  and codec_members :: "(string \<times> js_val) list \<Rightarrow> bool" where
  "codec_tree (JBig n) = (\<bar>n\<bar> < 10 ^ 78)"
| "codec_tree (JArr vs) = codec_elems vs"
| "codec_tree (JObj ms) = (distinct (map fst ms) \<and> bigint_key \<notin> fst ` set ms \<and> codec_members ms)"
| "codec_tree v = True"
| "codec_elems [] = True"
| "codec_elems (v # vs) = (codec_tree v \<and> codec_elems vs)"
| "codec_members [] = True"
| "codec_members ((k, v) # ms) = (codec_tree v \<and> codec_members ms)"

text \<open>All that reading back the text needs: no repeated key.\<close>

fun json_tree :: "js_val \<Rightarrow> bool"
  and json_elems :: "js_val list \<Rightarrow> bool"
  and json_members :: "(string \<times> js_val) list \<Rightarrow> bool" where
  "json_tree (JArr vs) = json_elems vs"
| "json_tree (JObj ms) = (distinct (map fst ms) \<and> json_members ms)"
| "json_tree v = True"
| "json_elems [] = True"
| "json_elems (v # vs) = (json_tree v \<and> json_elems vs)"
| "json_members [] = True"
| "json_members ((k, v) # ms) = (json_tree v \<and> json_members ms)"

lemma codec_json_tree:
  "codec_tree v \<Longrightarrow> json_tree v"
  "codec_elems vs \<Longrightarrow> json_elems vs"
  "codec_members ms \<Longrightarrow> json_members ms"
  by (induction v and vs and ms rule: json_tree_json_elems_json_members.induct) auto

fun fuel :: "js_val \<Rightarrow> nat"
  and fuel_elems :: "js_val list \<Rightarrow> nat"
  and fuel_members :: "(string \<times> js_val) list \<Rightarrow> nat" where
  "fuel (JBig n) = 3"
| "fuel (JArr vs) = Suc (fuel_elems vs)"
| "fuel (JObj ms) = Suc (fuel_members ms)"
| "fuel v = 1"
| "fuel_elems [] = 0"
| "fuel_elems (v # vs) = Suc (max (fuel v) (fuel_elems vs))"
| "fuel_members [] = 0"
| "fuel_members ((k, v) # ms) = Suc (max (fuel v) (fuel_members ms))"

lemma int_str_first: "\<exists>c s. int_str n = c # s \<and> (is_digit c \<or> c = CHR ''-'')"
  using nat_str_digits [of "nat n"] nat_str_nonempty [of "nat n"]
  by (cases "nat_str (nat n)") (auto simp: int_str_def)

lemma encode_first: "\<exists>c s. encodeBigInts v = c # s \<and> \<not> is_ws c \<and> c \<noteq> CHR '']'' \<and> c \<noteq> CHR ''}''"
proof (cases v)
  case (JNum n)
  then show ?thesis using int_str_first [of n] by (auto simp: is_ws_def is_digit_def)
qed (auto simp: quote_def bool_str_def is_ws_def)

lemma skip_ws_encode: "skip_ws (encodeBigInts v @ r) = encodeBigInts v @ r"
  using encode_first [of v] by (auto simp: skip_ws_def)

lemma encode_elems_Cons: "encode_elems (v # vs) = encodeBigInts v @ (if vs = [] then [] else CHR '','' # encode_elems vs)"
  by (cases vs) simp_all

lemma encode_members_Cons:
  "encode_members ((k, v) # ms) = quote k @ CHR '':'' # encodeBigInts v @ (if ms = [] then [] else CHR '','' # encode_members ms)"
  by (cases ms) simp_all

lemma skip_ws_Cons [simp]: "\<not> is_ws c \<Longrightarrow> skip_ws (c # r) = c # r"
  by (simp add: skip_ws_def)

lemma ws_marks [simp]:
  "\<not> is_ws (CHR 0x22)" "\<not> is_ws (CHR ''['')" "\<not> is_ws (CHR ''{'')" "\<not> is_ws (CHR '']'')" "\<not> is_ws (CHR ''}'')"
  "\<not> is_ws (CHR '','')" "\<not> is_ws (CHR '':'')"
  by (simp_all add: is_ws_def)


lemma parse_encode:
  "json_tree v \<Longrightarrow> fuel v \<le> n \<Longrightarrow> terminated r \<Longrightarrow> parse_value n (encodeBigInts v @ r) = Some (plain v, r)"
  "json_elems vs \<Longrightarrow> vs \<noteq> [] \<Longrightarrow> fuel_elems vs \<le> n \<Longrightarrow>
     parse_elems n (encode_elems vs @ CHR '']'' # r) = Some (plain_elems vs, r)"
  "json_members ms \<Longrightarrow> ms \<noteq> [] \<Longrightarrow> distinct (map fst (acc @ ms)) \<Longrightarrow> fuel_members ms \<le> n \<Longrightarrow>
     parse_members n acc (encode_members ms @ CHR ''}'' # r) = Some (acc @ plain_members ms, r)"
proof (induction v and vs and ms arbitrary: n r and n r and n acc r rule: plain_plain_elems_plain_members.induct)
  case (1 k)
  then have "n = Suc (Suc (Suc (n - 3)))" by simp
  then obtain m where "n = Suc (Suc (Suc m))" ..
  then show ?case using parse_string_quoted [of "int_str k" "CHR ''}'' # r"]
      parse_string_quoted [of bigint_key "CHR '':'' # quote (int_str k) @ CHR ''}'' # r"]
    by (simp add: quote_def)
next
  case (2 vs)
  then obtain m where m: "n = Suc m" by (auto dest!: Suc_le_D)
  show ?case
  proof (cases vs)
    case Nil
    with m show ?thesis by simp
  next
    case (Cons v ws)
    obtain c s where c: "encode_elems vs @ CHR '']'' # r = c # s" "\<not> is_ws c" "c \<noteq> CHR '']''"
      using encode_first [of v] by (auto simp: Cons encode_elems_Cons)
    with 2 m Cons show ?thesis using 2(1) [of m r] by simp
  qed
next
  case (3 ms)
  then obtain m where m: "n = Suc m" by (auto dest!: Suc_le_D)
  show ?case
  proof (cases ms)
    case Nil
    with m show ?thesis by simp
  next
    case (Cons kv ns)
    obtain k v where "kv = (k, v)" by force
    with 3 m Cons show ?thesis using 3(1) [of "[]" m r] by (simp add: encode_members_Cons quote_def)
  qed
next
  case (6 k)
  then obtain m where m: "n = Suc m" by (auto dest!: Suc_le_D)
  obtain c s where c: "int_str k @ r = c # s" "is_digit c \<or> c = CHR ''-''" using int_str_first [of k] by auto
  then have "\<not> is_ws c" "c \<noteq> CHR 0x22" "c \<noteq> CHR ''[''" "c \<noteq> CHR ''{''" "c \<noteq> CHR ''n''" "c \<noteq> CHR ''t''" "c \<noteq> CHR ''f''"
    by (auto simp: is_ws_def is_digit_def)
  with c parse_number_int_str [OF 6(3), of k] m show ?case by simp
next
  case 4
  then show ?case by (cases n) (simp_all add: parse_literal_def is_ws_def)
next
  case (5 b)
  then show ?case by (cases n; cases b) (simp_all add: parse_literal_def is_ws_def bool_str_def)
next
  case (7 s)
  then show ?case using parse_string_quoted [of s r] by (cases n) (simp_all add: quote_def)
next
  case (9 v vs)
  then obtain m where m: "n = Suc m" by (auto dest!: Suc_le_D)
  have t: "terminated (CHR '']'' # r)" "terminated (CHR '','' # encode_elems vs @ CHR '']'' # r)" by (simp_all add: terminated_def)
  show ?case
  proof (cases "vs = []")
    case True
    with 9 m show ?thesis using 9(1) [of m "CHR '']'' # r"] t(1) by simp
  next
    case False
    with 9 m show ?thesis using 9(1) [OF _ _ t(2), of m] 9(2) [of m r] by (simp add: encode_elems_Cons)
  qed
next
  case (11 k v ms)
  then obtain m where m: "n = Suc m" by (auto dest!: Suc_le_D)
  have t: "terminated (CHR ''}'' # r)" "terminated (CHR '','' # encode_members ms @ CHR ''}'' # r)" by (simp_all add: terminated_def)
  have set: "map_set k (plain v) acc = acc @ [(k, plain v)]" using 11(5) by (intro map_set_append) auto
  show ?case
  proof (cases "ms = []")
    case True
    with 11 m set show ?thesis using 11(1) [of m "CHR ''}'' # r"] t(1) parse_string_quoted [of k "CHR '':'' # encodeBigInts v @ CHR ''}'' # r"]
      by (simp add: quote_def)
  next
    case False
    with 11 m set show ?thesis
      using 11(1) [OF _ _ t(2), of m] 11(2) [of "acc @ [(k, plain v)]" m r]
        parse_string_quoted [of k "CHR '':'' # encodeBigInts v @ CHR '','' # encode_members ms @ CHR ''}'' # r"]
      by (simp add: encode_members_Cons quote_def)
  qed
qed simp_all


lemma length_quote: "2 \<le> length (quote s)"
  by (simp add: quote_def)

lemma fuel_length:
  "fuel v \<le> length (encodeBigInts v)"
  "fuel_elems vs \<le> Suc (length (encode_elems vs))"
  "fuel_members ms \<le> Suc (length (encode_members ms))"
proof (induction v and vs and ms rule: plain_plain_elems_plain_members.induct)
  case (6 k)
  then show ?case using int_str_first [of k] by auto
next
  case (9 v vs)
  moreover have "vs = [] \<Longrightarrow> fuel_elems vs = 0" by simp
  moreover obtain c s where "encodeBigInts v = c # s" using encode_first by blast
  ultimately show ?case by (auto simp: encode_elems_Cons)
next
  case (11 k v ms)
  moreover have "ms = [] \<Longrightarrow> fuel_members ms = 0" by simp
  ultimately show ?case using length_quote [of k] by (auto simp: encode_members_Cons)
qed (auto simp: quote_def bool_str_def)

lemma json_parse_encode: "json_tree v \<Longrightarrow> json_parse (encodeBigInts v) = Some (plain v)"
  using parse_encode(1) [of v "Suc (length (encodeBigInts v))" "[]"] fuel_length(1) [of v]
  by (simp add: json_parse_def terminated_def skip_ws_def)

text \<open>A text with a final newline.\<close>

lemma json_parse_line: "json_tree v \<Longrightarrow> json_parse (encodeBigInts v @ [CHR 0x0A]) = Some (plain v)"
  using parse_encode(1) [of v "Suc (Suc (length (encodeBigInts v)))" "[CHR 0x0A]"] fuel_length(1) [of v]
  by (simp add: json_parse_def terminated_def skip_ws_def is_ws_def)

section \<open>The reviver restores the tree\<close>

lemma bigint_text:
  assumes "\<bar>n\<bar> < 10 ^ 78"
  shows "is_bigint_text (int_str n) \<and> bigint_of_text (int_str n) = n"
proof -
  have canon: "nat_str k = ''0'' \<or> (list_all is_digit (nat_str k) \<and> hd (nat_str k) \<noteq> CHR ''0'' \<and> length (nat_str k) \<le> 78)"
    if "k < 10 ^ 78" for k
    using that length_nat_str_le [of k 77] hd_nat_str [of k] by (cases "k = 0") (simp_all add: nat_str_digits nat_str.simps [of 0])
  have sign: "\<exists>c s. nat_str k = c # s \<and> c \<noteq> CHR ''-''" for k
    using nat_str_digits [of k] nat_str_nonempty [of k] by (cases "nat_str k") (auto simp: is_digit_def)
  show ?thesis
  proof (cases "n < 0")
    case True
    then have "nat (- n) < 10 ^ 78" using assms by simp
    with True canon show ?thesis by (auto simp: is_bigint_text_def bigint_of_text_def int_str_def)
  next
    case False
    then have "nat n < 10 ^ 78" using assms by simp
    moreover obtain c s where c: "nat_str (nat n) = c # s" "c \<noteq> CHR ''-''" using sign by blast
    moreover have "str_nat (c # s) = nat n" using c(1) str_nat_nat_str by metis
    ultimately show ?thesis using False canon [of "nat n"] by (auto simp: is_bigint_text_def bigint_of_text_def int_str_def)
  qed
qed

lemma bigintReviver_array: "bigintReviver (JArr vs) = Inr (JArr vs)"
  by (simp add: bigintReviver_def)

lemma bigintReviver_leaf:
  "bigintReviver JNull = Inr JNull" "bigintReviver (JBool b) = Inr (JBool b)" "bigintReviver (JNum n) = Inr (JNum n)"
  "bigintReviver (JStr s) = Inr (JStr s)"
  by (simp_all add: bigintReviver_def)

lemma bigintReviver_other: "bigint_key \<notin> fst ` set ms \<Longrightarrow> bigintReviver (JObj ms) = Inr (JObj ms)"
  by (auto simp: bigintReviver_def split: list.splits js_val.splits prod.splits)

lemma revive_plain:
  "codec_tree v \<Longrightarrow> revive (plain v) = Inr v"
  "codec_elems vs \<Longrightarrow> revive_elems (plain_elems vs) = Inr vs"
  "codec_members ms \<Longrightarrow> revive_members (plain_members ms) = Inr ms"
proof (induction v and vs and ms rule: plain_plain_elems_plain_members.induct)
  case (1 n)
  then show ?case using bigint_text [of n] by (simp add: bigintReviver_def)
qed (simp_all add: bigintReviver_other bigintReviver_array bigintReviver_leaf)

text \<open>Writing a tree and reading it back is the identity on trees of the codec.\<close>

lemma read_written: "codec_tree v \<Longrightarrow> \<exists>w. json_parse (encodeBigInts v) = Some w \<and> revive w = Inr v"
  by (simp add: json_parse_encode codec_json_tree revive_plain)

text \<open>Without \<open>bigint\<close> leaves the text determines the tree.\<close>

lemma encode_inj:
  assumes e: "encodeBigInts t = encodeBigInts u" and t: "json_tree t" "plain t = t" and u: "json_tree u" "plain u = u"
  shows "t = u"
proof -
  have "Some t = json_parse (encodeBigInts t)" unfolding json_parse_encode [OF t(1)] t(2) ..
  also have "\<dots> = Some u" unfolding e json_parse_encode [OF u(1)] u(2) ..
  finally show ?thesis by simp
qed

lemma int_str_eq_iff: "int_str m = int_str n \<longleftrightarrow> m = n"
  using encode_inj [of "JNum m" "JNum n"] by (simp only: encodeBigInts.simps json_tree.simps plain.simps) blast

end
