(* ===== verification/Move_Arith.thy ===== *)
theory Move_Arith
  imports Prelude "HOL-Library.Word"
begin

text \<open>
  Checked Move arithmetic (\<open>packages/indexer/src/move-domains.ts\<close>, first part): the unsigned and
  signed domains of the contract's integers, and the checked operations every replay step goes
  through. A \<open>bigint\<close> is an \<open>int\<close>; an operation that leaves its domain is an \<open>Inl\<close> error, as the
  source throws. The \<open>typeof value === "bigint"\<close> guards hold by typing.
\<close>

section \<open>Domains\<close>

datatype move_bits = U8 | U64 | U128 | U256

definition MOVE_U8_MAX :: int where "MOVE_U8_MAX = 2 ^ 8 - 1"
definition MOVE_U64_MAX :: int where "MOVE_U64_MAX = 2 ^ 64 - 1"
definition MOVE_U128_MAX :: int where "MOVE_U128_MAX = 2 ^ 128 - 1"
definition MOVE_U256_MAX :: int where "MOVE_U256_MAX = 2 ^ 256 - 1"

fun move_max :: "move_bits \<Rightarrow> int" where
  "move_max U8 = MOVE_U8_MAX"
| "move_max U64 = MOVE_U64_MAX"
| "move_max U128 = MOVE_U128_MAX"
| "move_max U256 = MOVE_U256_MAX"

fun bits_str :: "move_bits \<Rightarrow> string" where
  "bits_str U8 = ''8''"
| "bits_str U64 = ''64''"
| "bits_str U128 = ''128''"
| "bits_str U256 = ''256''"

definition isMoveUnsigned :: "int \<Rightarrow> move_bits \<Rightarrow> bool" where
  "isMoveUnsigned v bits = (if v < 0 then False else v \<le> move_max bits)"

definition isMoveSignedU256 :: "int \<Rightarrow> bool" where
  "isMoveSignedU256 v = (- MOVE_U256_MAX \<le> v \<and> v \<le> MOVE_U256_MAX)"

definition assertMoveUnsigned :: "int \<Rightarrow> move_bits \<Rightarrow> string \<Rightarrow> unit result" where
  "assertMoveUnsigned v bits label =
     rensure (isMoveUnsigned v bits) (RangeError (label @ '' must fit Move u'' @ bits_str bits))"

definition assertMoveSignedU256 :: "int \<Rightarrow> string \<Rightarrow> unit result" where
  "assertMoveSignedU256 v label =
     rensure (isMoveSignedU256 v) (RangeError (label @ '' must fit Move SignedU256 magnitude''))"

section \<open>Checked operations\<close>

definition checkedMoveU256Add :: "int \<Rightarrow> int \<Rightarrow> string \<Rightarrow> int result" where
  "checkedMoveU256Add left right label =
     rbind (assertMoveUnsigned left U256 (label @ '' left operand'')) (\<lambda>_.
     rbind (assertMoveUnsigned right U256 (label @ '' right operand'')) (\<lambda>_.
     let r = left + right in
     rbind (assertMoveUnsigned r U256 label) (\<lambda>_. Inr r)))"

definition checkedMoveU256Subtract :: "int \<Rightarrow> int \<Rightarrow> string \<Rightarrow> int result" where
  "checkedMoveU256Subtract left right label =
     rbind (assertMoveUnsigned left U256 (label @ '' left operand'')) (\<lambda>_.
     rbind (assertMoveUnsigned right U256 (label @ '' right operand'')) (\<lambda>_.
     if left < right then Inl (RangeError (label @ '' would underflow Move u256''))
     else Inr (left - right)))"

definition checkedMoveU256Multiply :: "int \<Rightarrow> int \<Rightarrow> string \<Rightarrow> int result" where
  "checkedMoveU256Multiply left right label =
     rbind (assertMoveUnsigned left U256 (label @ '' left operand'')) (\<lambda>_.
     rbind (assertMoveUnsigned right U256 (label @ '' right operand'')) (\<lambda>_.
     let r = left * right in
     rbind (assertMoveUnsigned r U256 label) (\<lambda>_. Inr r)))"

definition applyMoveSignedU256 :: "int \<Rightarrow> int \<Rightarrow> string \<Rightarrow> int result" where
  "applyMoveSignedU256 base correction label =
     rbind (assertMoveUnsigned base U256 (label @ '' base'')) (\<lambda>_.
     rbind (assertMoveSignedU256 correction (label @ '' correction'')) (\<lambda>_.
     if correction < 0 then checkedMoveU256Subtract base (- correction) label
     else checkedMoveU256Add base correction label))"

definition checkedMoveSignedU256AddUnsigned :: "int \<Rightarrow> int \<Rightarrow> string \<Rightarrow> int result" where
  "checkedMoveSignedU256AddUnsigned v amount label =
     rbind (assertMoveSignedU256 v (label @ '' value'')) (\<lambda>_.
     rbind (assertMoveUnsigned amount U256 (label @ '' amount'')) (\<lambda>_.
     let r = v + amount in
     rbind (assertMoveSignedU256 r label) (\<lambda>_. Inr r)))"

definition checkedMoveSignedU256SubtractUnsigned :: "int \<Rightarrow> int \<Rightarrow> string \<Rightarrow> int result" where
  "checkedMoveSignedU256SubtractUnsigned v amount label =
     rbind (assertMoveSignedU256 v (label @ '' value'')) (\<lambda>_.
     rbind (assertMoveUnsigned amount U256 (label @ '' amount'')) (\<lambda>_.
     let r = v - amount in
     rbind (assertMoveSignedU256 r label) (\<lambda>_. Inr r)))"

definition checkedMoveSignedU256Add :: "int \<Rightarrow> int \<Rightarrow> string \<Rightarrow> int result" where
  "checkedMoveSignedU256Add left right label =
     rbind (assertMoveSignedU256 left (label @ '' left operand'')) (\<lambda>_.
     rbind (assertMoveSignedU256 right (label @ '' right operand'')) (\<lambda>_.
     let r = left + right in
     rbind (assertMoveSignedU256 r label) (\<lambda>_. Inr r)))"

section \<open>What the checked operations return\<close>

named_theorems checked_iff "when a checked operation returns, and what"

lemma assertMoveUnsigned_Inr [result_simps]: "assertMoveUnsigned v b l = Inr u \<longleftrightarrow> isMoveUnsigned v b"
  by (simp add: assertMoveUnsigned_def result_simps)

lemma assertMoveSignedU256_Inr [result_simps]: "assertMoveSignedU256 v l = Inr u \<longleftrightarrow> isMoveSignedU256 v"
  by (simp add: assertMoveSignedU256_def result_simps)

lemma isMoveUnsigned_iff: "isMoveUnsigned v b \<longleftrightarrow> 0 \<le> v \<and> v \<le> move_max b"
  by (auto simp: isMoveUnsigned_def)

lemma move_max_pos: "0 < move_max b"
  by (cases b) (simp_all add: MOVE_U8_MAX_def MOVE_U64_MAX_def MOVE_U128_MAX_def MOVE_U256_MAX_def)

lemmas move_max_defs = MOVE_U8_MAX_def MOVE_U64_MAX_def MOVE_U128_MAX_def MOVE_U256_MAX_def

lemma add_Inr_iff [checked_iff]:
  "checkedMoveU256Add a b l = Inr c \<longleftrightarrow> 0 \<le> a \<and> 0 \<le> b \<and> c = a + b \<and> a + b \<le> MOVE_U256_MAX"
  by (auto simp: checkedMoveU256Add_def Let_def result_simps isMoveUnsigned_iff)

lemma subtract_Inr_iff [checked_iff]:
  "checkedMoveU256Subtract a b l = Inr c \<longleftrightarrow> 0 \<le> b \<and> b \<le> a \<and> a \<le> MOVE_U256_MAX \<and> c = a - b"
  by (auto simp: checkedMoveU256Subtract_def result_simps isMoveUnsigned_iff)

lemma multiply_Inr_iff [checked_iff]:
  "checkedMoveU256Multiply a b l = Inr c \<longleftrightarrow>
     0 \<le> a \<and> 0 \<le> b \<and> a \<le> MOVE_U256_MAX \<and> b \<le> MOVE_U256_MAX \<and> c = a * b \<and> a * b \<le> MOVE_U256_MAX"
  by (auto simp: checkedMoveU256Multiply_def Let_def result_simps isMoveUnsigned_iff)

lemma apply_Inr_iff [checked_iff]:
  "applyMoveSignedU256 a d l = Inr c \<longleftrightarrow>
     0 \<le> a \<and> a \<le> MOVE_U256_MAX \<and> isMoveSignedU256 d \<and> c = a + d \<and> 0 \<le> a + d \<and> a + d \<le> MOVE_U256_MAX"
  by (auto simp: applyMoveSignedU256_def result_simps checked_iff isMoveUnsigned_iff isMoveSignedU256_def)

lemma add_unsigned_Inr_iff [checked_iff]:
  "checkedMoveSignedU256AddUnsigned v a l = Inr c \<longleftrightarrow>
     isMoveSignedU256 v \<and> isMoveUnsigned a U256 \<and> isMoveSignedU256 (v + a) \<and> c = v + a"
  by (auto simp: checkedMoveSignedU256AddUnsigned_def Let_def result_simps)

lemma subtract_unsigned_Inr_iff [checked_iff]:
  "checkedMoveSignedU256SubtractUnsigned v a l = Inr c \<longleftrightarrow>
     isMoveSignedU256 v \<and> isMoveUnsigned a U256 \<and> isMoveSignedU256 (v - a) \<and> c = v - a"
  by (auto simp: checkedMoveSignedU256SubtractUnsigned_def Let_def result_simps)

lemma signed_add_Inr_iff [checked_iff]:
  "checkedMoveSignedU256Add a b l = Inr c \<longleftrightarrow>
     isMoveSignedU256 a \<and> isMoveSignedU256 b \<and> isMoveSignedU256 (a + b) \<and> c = a + b"
  by (auto simp: checkedMoveSignedU256Add_def Let_def result_simps)

section \<open>Agreement with native u256 words\<close>

lemma uint_u256_bound: "0 \<le> uint x \<and> uint x \<le> MOVE_U256_MAX" for x :: "256 word"
  using uint_lt2p [of x] by (simp add: MOVE_U256_MAX_def)

lemma uint_u256_unsigned: "isMoveUnsigned (uint x) U256" for x :: "256 word"
  using uint_u256_bound [of x] by (simp add: isMoveUnsigned_iff)

lemma uint_word_of_int_u256: "0 \<le> i \<Longrightarrow> i \<le> MOVE_U256_MAX \<Longrightarrow> uint (word_of_int i :: 256 word) = i"
  by (simp add: uint_word_of_int MOVE_U256_MAX_def)

text \<open>
  The checked operations are exactly native Move \<open>u256\<close> arithmetic with abort on overflow: on
  the values of 256-bit words they return the word result when the machine operation does not wrap
  around, and an error otherwise.
\<close>

theorem checked_ops_match_native_u256:
  fixes x y :: "256 word"
  shows "checkedMoveU256Add (uint x) (uint y) l =
      (if uint x + uint y < 2 ^ 256 then Inr (uint (x + y)) else Inl (RangeError (l @ '' must fit Move u256'')))
    \<and> checkedMoveU256Subtract (uint x) (uint y) l =
      (if y \<le> x then Inr (uint (x - y)) else Inl (RangeError (l @ '' would underflow Move u256'')))
    \<and> checkedMoveU256Multiply (uint x) (uint y) l =
      (if uint x * uint y < 2 ^ 256 then Inr (uint (x * y)) else Inl (RangeError (l @ '' must fit Move u256'')))"
proof -
  have add: "uint x + uint y < 2 ^ 256 \<Longrightarrow> uint (x + y) = uint x + uint y"
    by (simp add: uint_word_ariths)
  have sub: "y \<le> x \<Longrightarrow> uint (x - y) = uint x - uint y"
    by (simp add: uint_minus_simple_alt word_le_def)
  have mult: "uint x * uint y < 2 ^ 256 \<Longrightarrow> uint (x * y) = uint x * uint y"
    by (simp add: uint_word_ariths)
  show ?thesis
    using add sub mult uint_u256_bound [of x] uint_u256_bound [of y]
    by (auto simp: checkedMoveU256Add_def checkedMoveU256Subtract_def checkedMoveU256Multiply_def
        assertMoveUnsigned_def uint_u256_unsigned isMoveUnsigned_iff MOVE_U256_MAX_def Let_def
        rensure_def word_le_def)
qed

end
