(* ===== verification/Protocol_Types.thy ===== *)
theory Protocol_Types
  imports Move_Arith
begin

text \<open>
  The data of the indexer (\<open>packages/indexer/src/types.ts\<close>): protocol events, the replayed
  projection, and alerts. Interfaces are records (field names carry a short prefix, since record
  fields are global), string unions are datatypes, \<open>bigint\<close> and \<open>number\<close> are \<open>int\<close>, \<open>T | null\<close> and
  optional fields are \<open>option\<close>, a \<open>Map\<close> is an association list in insertion order. The constructor
  \<open>UnknownEvent\<close> and the scope \<open>UnknownScope\<close> stand for run-time values outside the unions, which
  the code guards against.
\<close>

type_synonym address = string

section \<open>Enumerations\<close>

datatype event_source = Source_chain | Source_replay | Source_fixture

datatype asset_symbol = TRFL | TUSD

datatype swap_direction = Buy | Sell

datatype protocol_lifecycle = CONFIGURING | LIVE | CLOSED

datatype lp_epoch_status = Active | Claim_only

datatype admin_scope = Scope_reflection_core | Scope_test_assets | Scope_test_amm | UnknownScope string

datatype alert_severity = Critical | Warning | Info

datatype alert_code =
    EVENT_ORDER | EVENT_DATA | TRANSACTION_GROUP | IDENTIFIER_REUSE | DOUBLE_COUNTING
  | FEE_FORMULA | VAULT_BACKING | REFLECTION_LIABILITY | CORE_ACCOUNTING | GLOBAL_INDEX
  | ELIGIBLE_SUPPLY | LIFETIME_TOTAL | POOL_RESERVES | POOL_LIMITS | FAUCET_CONFIG
  | RESERVE_CUSTODY | CUSTODY_ACCOUNTING | ROUTE_PAIR | OLD_EPOCH_ROUTE | LP_ACCOUNTING
  | LP_VAULT_BACKING | VAULT_BINDING | POSITION_ACCOUNTING | WALLET_REGISTRATION
  | PACKAGE_VERSION | PAUSE_STATE | OPERATIONAL_ADMIN | DEPLOYMENT_IDENTITY | LEDGER_VERSION

fun alert_code_str :: "alert_code \<Rightarrow> string" where
  "alert_code_str EVENT_ORDER = ''EVENT_ORDER''"
| "alert_code_str EVENT_DATA = ''EVENT_DATA''"
| "alert_code_str TRANSACTION_GROUP = ''TRANSACTION_GROUP''"
| "alert_code_str IDENTIFIER_REUSE = ''IDENTIFIER_REUSE''"
| "alert_code_str DOUBLE_COUNTING = ''DOUBLE_COUNTING''"
| "alert_code_str FEE_FORMULA = ''FEE_FORMULA''"
| "alert_code_str VAULT_BACKING = ''VAULT_BACKING''"
| "alert_code_str REFLECTION_LIABILITY = ''REFLECTION_LIABILITY''"
| "alert_code_str CORE_ACCOUNTING = ''CORE_ACCOUNTING''"
| "alert_code_str GLOBAL_INDEX = ''GLOBAL_INDEX''"
| "alert_code_str ELIGIBLE_SUPPLY = ''ELIGIBLE_SUPPLY''"
| "alert_code_str LIFETIME_TOTAL = ''LIFETIME_TOTAL''"
| "alert_code_str POOL_RESERVES = ''POOL_RESERVES''"
| "alert_code_str POOL_LIMITS = ''POOL_LIMITS''"
| "alert_code_str FAUCET_CONFIG = ''FAUCET_CONFIG''"
| "alert_code_str RESERVE_CUSTODY = ''RESERVE_CUSTODY''"
| "alert_code_str CUSTODY_ACCOUNTING = ''CUSTODY_ACCOUNTING''"
| "alert_code_str ROUTE_PAIR = ''ROUTE_PAIR''"
| "alert_code_str OLD_EPOCH_ROUTE = ''OLD_EPOCH_ROUTE''"
| "alert_code_str LP_ACCOUNTING = ''LP_ACCOUNTING''"
| "alert_code_str LP_VAULT_BACKING = ''LP_VAULT_BACKING''"
| "alert_code_str VAULT_BINDING = ''VAULT_BINDING''"
| "alert_code_str POSITION_ACCOUNTING = ''POSITION_ACCOUNTING''"
| "alert_code_str WALLET_REGISTRATION = ''WALLET_REGISTRATION''"
| "alert_code_str PACKAGE_VERSION = ''PACKAGE_VERSION''"
| "alert_code_str PAUSE_STATE = ''PAUSE_STATE''"
| "alert_code_str OPERATIONAL_ADMIN = ''OPERATIONAL_ADMIN''"
| "alert_code_str DEPLOYMENT_IDENTITY = ''DEPLOYMENT_IDENTITY''"
| "alert_code_str LEDGER_VERSION = ''LEDGER_VERSION''"

section \<open>Cursors and alerts\<close>

record event_cursor =
  cur_ledgerVersion :: int
  cur_eventIndex :: int

record critical_alert =
  al_id :: string
  al_severity :: alert_severity
  al_code :: alert_code
  al_message :: string
  al_detectedAtUnixMilliseconds :: int
  al_cursor :: "event_cursor option"
  al_expected :: "string option"
  al_observed :: "string option"

section \<open>Event payloads\<close>

record protocol_initialized =
  pi_deploymentId :: string
  pi_networkLabel :: string
  pi_tokenMetadata :: address
  pi_automaticMaterialization :: bool
  pi_feeBps :: int
  pi_initialIndex :: int
  pi_packageVersion :: string
  pi_rewardVault :: address
  pi_distributionVault :: address
  pi_protocolExclusionSlots :: int

record token_created =
  tc_eventSchema :: string
  tc_deploymentId :: string
  tc_networkLabel :: string
  tc_tokenMetadata :: address
  tc_rewardVault :: address
  tc_distributionVault :: address
  tc_reflectionFeeBps :: int
  tc_totalSupply :: int
  tc_decimals :: int
  tc_packageVersion :: string

record launch_sealed =
  ls_eventSchema :: string
  ls_reflectionFeeBps :: int
  ls_ammFeeBps :: int
  ls_maximumReserveBps :: int
  ls_maximumGrossSwap :: int
  ls_maximumRflContribution :: int
  ls_maximumTusdContribution :: int
  ls_maximumNonFinalWithdrawalShareBps :: int
  ls_faucetTrflGrant :: int
  ls_faucetTusdGrant :: int
  ls_faucetCooldownSeconds :: int
  ls_bootstrap :: address
  ls_rflReserve :: address
  ls_usdReserve :: address
  ls_lpRewardVault :: address
  ls_seedRfl :: int
  ls_seedUsd :: int
  ls_initialLpShares :: int

record pool_closed =
  pc_eventSchema :: string
  pc_provider :: address
  pc_epoch :: int
  pc_lpShares :: int
  pc_rflOutput :: int
  pc_usdOutput :: int
  pc_rflReserveAfter :: int
  pc_usdReserveAfter :: int

record swap_executed =
  sw_account :: address
  sw_direction :: swap_direction
  sw_grossAmount :: int
  sw_reflectionFee :: int
  sw_ammFee :: int
  sw_netReserveInput :: int
  sw_grossPoolOutput :: int
  sw_netUserReceipt :: int
  sw_trflReserveAfter :: int
  sw_tusdReserveAfter :: int

record reflection_fee_collected =
  fc_swapTxHash :: string
  fc_grossAmount :: int
  fc_feeAmount :: int
  fc_feeBps :: int

record reflection_index_advanced =
  ia_previousIndex :: int
  ia_newIndex :: int
  ia_indexRemainder :: int
  ia_feeAmount :: int
  ia_eligibleSupply :: int

record custody_adapter_registered =
  ca_adapterId :: int
  ca_reserveStore :: address
  ca_firstEpoch :: int
  ca_lpRewardVault :: address

record custody_epoch_route_opened =
  ro_adapterId :: int
  ro_epoch :: int
  ro_reserveStore :: address
  ro_lpRewardVault :: address
  ro_retiredResidueMagnified :: int

record custody_shares_changed =
  cs_added :: bool
  cs_amount :: int
  cs_custodyShares :: int
  cs_globalShares :: int

record custody_rewards_routed =
  cr_reserveStore :: address
  cr_lpRewardVault :: address
  cr_epoch :: int
  cr_amount :: int
  cr_totalRouted :: int

record pool_pause_changed =
  pp_poolPaused :: bool
  pp_liquidityPaused :: bool
  pp_lpClaimsPaused :: bool
  pp_shutdownMode :: bool

record liquidity_receipt =
  lq_epoch :: int
  lq_provider :: address
  lq_trflAmount :: int
  lq_tusdAmount :: int
  lq_lpShares :: int
  lq_trflReserveAfter :: int
  lq_tusdReserveAfter :: int

record lp_shares_changed =
  sc_epoch :: int
  sc_owner :: address
  sc_added :: bool
  sc_amount :: int
  sc_ownerShares :: int
  sc_totalShares :: int

record lp_shares_transferred =
  st_epoch :: int
  st_sender :: address
  st_recipient :: address
  st_amount :: int

record lp_reward_index_advanced =
  la_epoch :: int
  la_previousIndex :: int
  la_newIndex :: int
  la_indexRemainder :: int
  la_received :: int
  la_totalShares :: int
  la_roundingReserve :: int

record lp_rewards_claimed =
  lc_epoch :: int
  lc_owner :: address
  lc_amount :: int
  lc_totalClaimed :: int

record lp_reward_quarantined =
  qu_epoch :: int
  qu_amount :: int
  qu_unallocatedRewards :: int
  qu_rewardVault :: address

record lp_residue_retired =
  rr_epoch :: int
  rr_owner :: address
  rr_residueMagnified :: int
  rr_cumulativeRetiredResidueMagnified :: int
  rr_roundingReserveBaseUnits :: int

record lp_terminal_dust =
  td_epoch :: int
  td_rewardVault :: address
  td_terminalRoundingBaseUnits :: int
  td_retiredResidueMagnified :: int
  td_lifetimeReceivedBaseUnits :: int
  td_lifetimeClaimedBaseUnits :: int

section \<open>Events\<close>

text \<open>
  Payloads with at most four fields are given positionally, in the order of the interface:
  \<open>ProtocolPrimaryStoreExcluded account store remainingSlots\<close>,
  \<open>WalletRegistered account primaryStore registeredWalletCount\<close>,
  \<open>FaucetGrant account asset amount\<close>, \<open>FaucetConfigured trflGrant tusdGrant cooldownSeconds\<close>,
  \<open>PoolReserveBound reserveStore custodian\<close>, \<open>WalletTransfer from to asset amount\<close>,
  \<open>RewardsMaterialized account amount totalClaimed trigger\<close>,
  \<open>FeeConfigurationChanged oldFeeBps newFeeBps\<close>,
  \<open>SwapLimitsChanged ammFeeBps maximumGrossSwap maximumReserveBps\<close>,
  \<open>LiquidityLimitsChanged maximumRflContribution maximumTusdContribution
  maximumNonFinalWithdrawalShareBps\<close>, \<open>OperationalAdminChanged scope old new\<close>,
  \<open>LpEpochOpened epoch stateId rewardVault\<close>, \<open>LpEpochStatusChanged epoch old new\<close>; the flag of
  \<open>LiquidityRemoved\<close> is \<open>finalExit\<close>.
\<close>

datatype event_body =
    ProtocolInitialized protocol_initialized
  | TokenCreated token_created
  | LaunchSealed launch_sealed
  | PoolClosed pool_closed
  | ProtocolPrimaryStoreExcluded address address int
  | OperationalPrimaryStoreExcluded address address
  | PositionCreated address
  | WalletRegistered address address int
  | FaucetGrant address asset_symbol int
  | FaucetConfigured int int int
  | PoolReserveBound address address
  | WalletTransfer address address asset_symbol int
  | EligibleBalanceDebited address int
  | EligibleBalanceCredited address int
  | SwapExecuted swap_executed
  | ReflectionFeeCollected reflection_fee_collected
  | ReflectionIndexAdvanced reflection_index_advanced
  | RewardsMaterialized address int int "int option"
  | RewardsClaimed address int int
  | CustodyAdapterRegistered custody_adapter_registered
  | CustodyEpochRouteOpened custody_epoch_route_opened
  | CustodySharesChanged custody_shares_changed
  | CustodyRewardsRouted custody_rewards_routed
  | FeeConfigurationChanged int int
  | SwapLimitsChanged int int int
  | LiquidityLimitsChanged int int int
  | PauseStateChanged bool bool
  | FaucetPauseChanged bool
  | PoolPauseChanged pool_pause_changed
  | OperationalAdminChanged admin_scope address address
  | LiquiditySeeded liquidity_receipt
  | LiquidityAdded liquidity_receipt
  | LiquidityRemoved liquidity_receipt bool
  | LpEpochOpened int address address
  | LpEpochStatusChanged int lp_epoch_status lp_epoch_status
  | LpSharesChanged lp_shares_changed
  | LpSharesTransferred lp_shares_transferred
  | LpRewardIndexAdvanced lp_reward_index_advanced
  | LpRewardsClaimed lp_rewards_claimed
  | LpRewardQuarantined lp_reward_quarantined
  | LpFractionalResidueRetired lp_residue_retired
  | LpEpochTerminalDustClassified lp_terminal_dust
  | UnknownEvent string

record protocol_event =
  ev_id :: string
  ev_txHash :: string
  ev_ledgerVersion :: int
  ev_eventIndex :: int
  ev_timestampUnixMilliseconds :: int
  ev_source :: event_source
  ev_body :: event_body

section \<open>The projection\<close>

record indexed_position =
  ip_account :: address
  ip_rawTrfl :: int
  ip_rawTusd :: int
  ip_correction :: int
  ip_claimed :: int
  ip_lifetimeClaimed :: int
  ip_lifetimeMaterialized :: int

record indexed_custody_position =
  cu_adapterId :: "int option"
  cu_reserveStore :: "address option"
  cu_activeRouteEpoch :: "int option"
  cu_activeLpRewardVault :: "address option"
  cu_shares :: int
  cu_correction :: int
  cu_claimed :: int
  cu_lifetimeRouted :: int

record indexed_lp_position =
  lp_owner :: address
  lp_shares :: int
  lp_correction :: int
  lp_claimed :: int

record indexed_lp_epoch =
  ep_epoch :: int
  ep_stateId :: address
  ep_status :: lp_epoch_status
  ep_rewardVault :: address
  ep_index :: int
  ep_indexRemainder :: int
  ep_totalShares :: int
  ep_aggregateCorrection :: int
  ep_unallocatedRewards :: int
  ep_roundingReserve :: int
  ep_retiredResidueMagnified :: int
  ep_terminalRoundingBaseUnits :: "int option"
  ep_lifetimeReceived :: int
  ep_lifetimeClaimed :: int
  ep_quarantined :: bool
  ep_positions :: "(address, indexed_lp_position) jsmap"

record indexed_pool =
  po_trflReserve :: int
  po_tusdReserve :: int
  po_ammFeeBps :: int
  po_maximumGrossSwap :: int
  po_maximumReserveBps :: int
  po_maximumRflContribution :: int
  po_maximumTusdContribution :: int
  po_maximumNonFinalWithdrawalShareBps :: int
  po_poolPaused :: bool
  po_liquidityPaused :: bool
  po_lpClaimsPaused :: bool
  po_shutdownMode :: bool
  po_seeded :: bool

record operational_admins =
  oa_reflectionCore :: "address option"
  oa_testAssets :: "address option"
  oa_testAmm :: "address option"

record protocol_projection =
  pr_chainId :: int
  pr_deploymentId :: string
  pr_networkLabel :: string
  pr_tokenMetadata :: "address option"
  pr_protocolExclusionSlots :: int
  pr_protocolExclusionsRemaining :: int
  pr_protocolExcludedStores :: "(address, address) jsmap"
  pr_registeredWallets :: "(address, address) jsmap"
  pr_registeredWalletCount :: int
  pr_automaticMaterialization :: bool
  pr_feeBps :: int
  pr_currentIndex :: int
  pr_indexRemainder :: int
  pr_eligibleSupply :: int
  pr_aggregateCorrection :: int
  pr_unallocatedFees :: int
  pr_roundingReserve :: int
  pr_rewardVault :: "address option"
  pr_distributionVault :: "address option"
  pr_mockUsdPoolReserve :: "address option"
  pr_rewardVaultCredits :: int
  pr_rewardVaultPayouts :: int
  pr_lifetimeSwapFees :: int
  pr_lifetimeMaterialized :: int
  pr_lifetimeCustodyRouted :: int
  pr_packageVersion :: string
  pr_lifecycle :: "protocol_lifecycle option"
  pr_swapsPaused :: bool
  pr_claimsPaused :: bool
  pr_faucetPaused :: bool
  pr_faucetTrflGrant :: int
  pr_faucetTusdGrant :: int
  pr_faucetCooldownSeconds :: int
  pr_operationalAdmins :: operational_admins
  pr_deploymentReady :: bool
  pr_pool :: indexed_pool
  pr_custody :: indexed_custody_position
  pr_activeLpEpoch :: "int option"
  pr_lpEpochs :: "(int, indexed_lp_epoch) jsmap"
  pr_rewardVaultToEpoch :: "(address, int) jsmap"
  pr_stateIdToEpoch :: "(address, int) jsmap"
  pr_positions :: "(address, indexed_position) jsmap"
  pr_seenEventIds :: "(string, string) jsmap"

section \<open>Text forms shared by the components\<close>

text \<open>The pattern \<open>/^0x0+$/\<close>.\<close>

definition is_zero_address :: "address \<Rightarrow> bool" where
  "is_zero_address a = (take 2 a = ''0x'' \<and> drop 2 a \<noteq> [] \<and> list_all (\<lambda>c. c = CHR ''0'') (drop 2 a))"

text \<open>\<open>`${ledgerVersion}:${eventIndex}`\<close>, as kept in \<open>seenEventIds\<close>, and its reading back.\<close>

definition cursor_str :: "int \<Rightarrow> int \<Rightarrow> string" where
  "cursor_str lv idx = int_str lv @ '':'' @ int_str idx"

definition parse_cursor :: "string \<Rightarrow> (int \<times> int) option" where
  "parse_cursor s =
     (let l = takeWhile (\<lambda>c. c \<noteq> CHR '':'') s; r = drop (Suc (length l)) s in
      if length l < length s \<and> is_canonical_decimal l \<and> is_canonical_decimal r
      then Some (int (str_nat l), int (str_nat r)) else None)"

lemma parse_cursor_str:
  assumes "0 \<le> lv" "lv < 10 ^ 20" "0 \<le> idx" "idx < 10 ^ 20"
  shows "parse_cursor (cursor_str lv idx) = Some (lv, idx)"
proof -
  have lv: "is_canonical_decimal (nat_str (nat lv))" and idx: "is_canonical_decimal (nat_str (nat idx))"
    using assms by (auto intro!: nat_str_canonical)
  have "takeWhile (\<lambda>c. c \<noteq> CHR '':'') (nat_str (nat lv) @ CHR '':'' # nat_str (nat idx)) = nat_str (nat lv)"
    using colon_not_in_nat_str [of "nat lv"] by (subst takeWhile_append2) auto
  with assms lv idx show ?thesis
    by (simp add: parse_cursor_def cursor_str_def int_str_def Let_def)
qed

end
