(* ===== verification/Domains.thy ===== *)
theory Domains
  imports Protocol_Types
begin

text \<open>
  Exact Move widths of events and projections (\<open>packages/indexer/src/move-domains.ts\<close>, second
  part). Each assertion function is the list of its checks in source order, run by \<open>rseq\<close>: the
  first failing check is the error that is thrown.
\<close>

definition MAX_SAFE_INTEGER :: int where "MAX_SAFE_INTEGER = 2 ^ 53 - 1"

section \<open>Events\<close>

definition assertBase :: "protocol_event \<Rightarrow> unit result" where
  "assertBase e = rseq
     [rensure (ev_id e \<noteq> [] \<and> length (ev_id e) \<le> 512)
        (TypeError ''event id must contain 1 to 512 characters''),
      rensure (ev_txHash e \<noteq> [] \<and> length (ev_txHash e) \<le> 512)
        (TypeError ''event transaction hash must contain 1 to 512 characters''),
      assertMoveUnsigned (ev_ledgerVersion e) U64 ''event ledger version'',
      rensure (- MAX_SAFE_INTEGER \<le> ev_eventIndex e \<and> ev_eventIndex e \<le> MAX_SAFE_INTEGER
          \<and> 0 \<le> ev_eventIndex e \<and> ev_eventIndex e \<le> MOVE_U64_MAX)
        (RangeError ''event index must be a non-negative safe Move u64 ordinal''),
      assertMoveUnsigned (ev_timestampUnixMilliseconds e) U64 ''event timestamp milliseconds'']"

definition liquidity_checks :: "string \<Rightarrow> liquidity_receipt \<Rightarrow> unit result list" where
  "liquidity_checks ty q =
     [assertMoveUnsigned (lq_epoch q) U64 (ty @ '' epoch''),
      assertMoveUnsigned (lq_trflAmount q) U64 (ty @ '' tRFL amount''),
      assertMoveUnsigned (lq_tusdAmount q) U64 (ty @ '' tUSD amount''),
      assertMoveUnsigned (lq_lpShares q) U128 (ty @ '' LP shares''),
      assertMoveUnsigned (lq_trflReserveAfter q) U64 (ty @ '' tRFL reserve''),
      assertMoveUnsigned (lq_tusdReserveAfter q) U64 (ty @ '' tUSD reserve'')]"

definition launch_checks :: "launch_sealed \<Rightarrow> unit result list" where
  "launch_checks l =
     [assertMoveUnsigned (ls_reflectionFeeBps l) U64 ''launch reflection fee bps'',
      assertMoveUnsigned (ls_ammFeeBps l) U64 ''launch AMM fee bps'',
      assertMoveUnsigned (ls_maximumReserveBps l) U64 ''launch maximum reserve bps'',
      assertMoveUnsigned (ls_maximumGrossSwap l) U64 ''launch maximum gross swap'',
      assertMoveUnsigned (ls_maximumRflContribution l) U64 ''launch maximum tRFL liquidity'',
      assertMoveUnsigned (ls_maximumTusdContribution l) U64 ''launch maximum tUSD liquidity'',
      assertMoveUnsigned (ls_maximumNonFinalWithdrawalShareBps l) U64 ''launch maximum withdrawal share bps'',
      assertMoveUnsigned (ls_faucetTrflGrant l) U64 ''launch faucet tRFL grant'',
      assertMoveUnsigned (ls_faucetTusdGrant l) U64 ''launch faucet tUSD grant'',
      assertMoveUnsigned (ls_faucetCooldownSeconds l) U64 ''launch faucet cooldown'',
      assertMoveUnsigned (ls_seedRfl l) U64 ''launch tRFL seed'',
      assertMoveUnsigned (ls_seedUsd l) U64 ''launch tUSD seed'',
      assertMoveUnsigned (ls_initialLpShares l) U128 ''launch initial LP shares'']"

definition swap_checks :: "swap_executed \<Rightarrow> unit result list" where
  "swap_checks s =
     [assertMoveUnsigned (sw_grossAmount s) U64 ''swap gross amount'',
      assertMoveUnsigned (sw_reflectionFee s) U64 ''swap reflection fee'',
      assertMoveUnsigned (sw_ammFee s) U64 ''swap AMM fee'',
      assertMoveUnsigned (sw_netReserveInput s) U64 ''swap net reserve input'',
      assertMoveUnsigned (sw_grossPoolOutput s) U64 ''swap gross pool output'',
      assertMoveUnsigned (sw_netUserReceipt s) U64 ''swap net receipt'',
      assertMoveUnsigned (sw_trflReserveAfter s) U64 ''swap tRFL reserve'',
      assertMoveUnsigned (sw_tusdReserveAfter s) U64 ''swap tUSD reserve'']"

primrec body_checks :: "event_body \<Rightarrow> unit result list" where
  "body_checks (ProtocolInitialized i) =
     [assertMoveUnsigned (pi_feeBps i) U64 ''initial fee bps'',
      assertMoveUnsigned (pi_initialIndex i) U256 ''initial reflection index'',
      assertMoveUnsigned (pi_protocolExclusionSlots i) U64 ''protocol exclusion slots'']"
| "body_checks (TokenCreated t) =
     [assertMoveUnsigned (tc_reflectionFeeBps t) U64 ''immutable reflection fee bps'',
      assertMoveUnsigned (tc_totalSupply t) U64 ''fixed token supply'',
      assertMoveUnsigned (tc_decimals t) U8 ''token decimals'']"
| "body_checks (LaunchSealed l) = launch_checks l"
| "body_checks (PoolClosed c) =
     [assertMoveUnsigned (pc_epoch c) U64 ''closed pool epoch'',
      assertMoveUnsigned (pc_lpShares c) U128 ''closed pool LP shares'',
      assertMoveUnsigned (pc_rflOutput c) U64 ''closed pool tRFL output'',
      assertMoveUnsigned (pc_usdOutput c) U64 ''closed pool tUSD output'',
      assertMoveUnsigned (pc_rflReserveAfter c) U64 ''closed pool tRFL reserve'',
      assertMoveUnsigned (pc_usdReserveAfter c) U64 ''closed pool tUSD reserve'']"
| "body_checks (ProtocolPrimaryStoreExcluded account store remaining) =
     [assertMoveUnsigned remaining U64 ''remaining exclusion slots'']"
| "body_checks (OperationalPrimaryStoreExcluded account store) = []"
| "body_checks (PositionCreated account) = []"
| "body_checks (WalletRegistered account store n) = [assertMoveUnsigned n U64 ''registered wallet count'']"
| "body_checks (FaucetGrant account asset amount) = [assertMoveUnsigned amount U64 ''faucet grant amount'']"
| "body_checks (FaucetConfigured trfl tusd cooldown) =
     [assertMoveUnsigned trfl U64 ''faucet tRFL grant'',
      assertMoveUnsigned tusd U64 ''faucet tUSD grant'',
      assertMoveUnsigned cooldown U64 ''faucet cooldown'']"
| "body_checks (PoolReserveBound store custodian) = []"
| "body_checks (WalletTransfer from_a to_a asset amount) = [assertMoveUnsigned amount U64 ''WalletTransfer amount'']"
| "body_checks (EligibleBalanceDebited account amount) =
     [assertMoveUnsigned amount U64 ''EligibleBalanceDebited amount'']"
| "body_checks (EligibleBalanceCredited account amount) =
     [assertMoveUnsigned amount U64 ''EligibleBalanceCredited amount'']"
| "body_checks (SwapExecuted s) = swap_checks s"
| "body_checks (ReflectionFeeCollected f) =
     [assertMoveUnsigned (fc_grossAmount f) U64 ''reflection gross amount'',
      assertMoveUnsigned (fc_feeAmount f) U64 ''reflection fee amount'',
      assertMoveUnsigned (fc_feeBps f) U64 ''reflection fee bps'']"
| "body_checks (ReflectionIndexAdvanced a) =
     [assertMoveUnsigned (ia_previousIndex a) U256 ''previous reflection index'',
      assertMoveUnsigned (ia_newIndex a) U256 ''new reflection index'',
      assertMoveUnsigned (ia_indexRemainder a) U256 ''reflection index remainder'',
      assertMoveUnsigned (ia_feeAmount a) U64 ''indexed fee amount'',
      assertMoveUnsigned (ia_eligibleSupply a) U128 ''indexed eligible supply'']"
| "body_checks (RewardsMaterialized account amount totalClaimed trigger) =
     (case trigger of None \<Rightarrow> [] | Some t \<Rightarrow> [assertMoveUnsigned t U8 ''materialization trigger'']) @
     [assertMoveUnsigned amount U64 ''RewardsMaterialized amount'',
      assertMoveUnsigned totalClaimed U256 ''RewardsMaterialized total claimed'']"
| "body_checks (RewardsClaimed account amount totalClaimed) =
     [assertMoveUnsigned amount U64 ''RewardsClaimed amount'',
      assertMoveUnsigned totalClaimed U256 ''RewardsClaimed total claimed'']"
| "body_checks (CustodyAdapterRegistered a) =
     [assertMoveUnsigned (ca_adapterId a) U64 ''custody adapter id'',
      assertMoveUnsigned (ca_firstEpoch a) U64 ''first custody epoch'']"
| "body_checks (CustodyEpochRouteOpened r) =
     [assertMoveUnsigned (ro_adapterId r) U64 ''custody route adapter id'',
      assertMoveUnsigned (ro_epoch r) U64 ''custody route epoch'',
      assertMoveUnsigned (ro_retiredResidueMagnified r) U256 ''custody retired residue'']"
| "body_checks (CustodySharesChanged c) =
     [assertMoveUnsigned (cs_amount c) U64 ''custody share amount'',
      assertMoveUnsigned (cs_custodyShares c) U128 ''custody shares'',
      assertMoveUnsigned (cs_globalShares c) U128 ''global shares'']"
| "body_checks (CustodyRewardsRouted r) =
     [assertMoveUnsigned (cr_epoch r) U64 ''custody reward epoch'',
      assertMoveUnsigned (cr_amount r) U64 ''custody reward amount'',
      assertMoveUnsigned (cr_totalRouted r) U256 ''custody total routed'']"
| "body_checks (FeeConfigurationChanged old_fee new_fee) =
     [assertMoveUnsigned old_fee U64 ''old fee bps'', assertMoveUnsigned new_fee U64 ''new fee bps'']"
| "body_checks (SwapLimitsChanged amm gross reserve) =
     [assertMoveUnsigned amm U64 ''AMM fee bps'',
      assertMoveUnsigned gross U64 ''maximum gross swap'',
      assertMoveUnsigned reserve U64 ''maximum reserve bps'']"
| "body_checks (LiquidityLimitsChanged rfl tusd share) =
     [assertMoveUnsigned rfl U64 ''maximum tRFL contribution'',
      assertMoveUnsigned tusd U64 ''maximum tUSD contribution'',
      assertMoveUnsigned share U64 ''maximum withdrawal share bps'']"
| "body_checks (PauseStateChanged swaps claims) = []"
| "body_checks (FaucetPauseChanged paused) = []"
| "body_checks (PoolPauseChanged p) = []"
| "body_checks (OperationalAdminChanged scope old_a new_a) = []"
| "body_checks (LiquiditySeeded q) = liquidity_checks ''LiquiditySeeded'' q"
| "body_checks (LiquidityAdded q) = liquidity_checks ''LiquidityAdded'' q"
| "body_checks (LiquidityRemoved q final) = liquidity_checks ''LiquidityRemoved'' q"
| "body_checks (LpEpochOpened epoch state vault) = [assertMoveUnsigned epoch U64 ''LpEpochOpened epoch'']"
| "body_checks (LpEpochStatusChanged epoch old_s new_s) =
     [assertMoveUnsigned epoch U64 ''LpEpochStatusChanged epoch'']"
| "body_checks (LpSharesChanged c) =
     [assertMoveUnsigned (sc_epoch c) U64 ''LP share epoch'',
      assertMoveUnsigned (sc_amount c) U128 ''LP share amount'',
      assertMoveUnsigned (sc_ownerShares c) U128 ''LP owner shares'',
      assertMoveUnsigned (sc_totalShares c) U128 ''LP total shares'']"
| "body_checks (LpSharesTransferred t) =
     [assertMoveUnsigned (st_epoch t) U64 ''LP transfer epoch'',
      assertMoveUnsigned (st_amount t) U128 ''LP transfer amount'']"
| "body_checks (LpRewardIndexAdvanced a) =
     [assertMoveUnsigned (la_epoch a) U64 ''LP reward epoch'',
      assertMoveUnsigned (la_previousIndex a) U256 ''previous LP index'',
      assertMoveUnsigned (la_newIndex a) U256 ''new LP index'',
      assertMoveUnsigned (la_indexRemainder a) U256 ''LP index remainder'',
      assertMoveUnsigned (la_received a) U64 ''LP reward received'',
      assertMoveUnsigned (la_totalShares a) U128 ''LP reward total shares'',
      assertMoveUnsigned (la_roundingReserve a) U128 ''LP rounding reserve'']"
| "body_checks (LpRewardsClaimed c) =
     [assertMoveUnsigned (lc_epoch c) U64 ''LP claim epoch'',
      assertMoveUnsigned (lc_amount c) U64 ''LP claim amount'',
      assertMoveUnsigned (lc_totalClaimed c) U256 ''LP claim total'']"
| "body_checks (LpRewardQuarantined q) =
     [assertMoveUnsigned (qu_epoch q) U64 ''LP quarantine epoch'',
      assertMoveUnsigned (qu_amount q) U64 ''LP quarantine amount'',
      assertMoveUnsigned (qu_unallocatedRewards q) U128 ''LP unallocated rewards'']"
| "body_checks (LpFractionalResidueRetired r) =
     [assertMoveUnsigned (rr_epoch r) U64 ''LP residue epoch'',
      assertMoveUnsigned (rr_residueMagnified r) U256 ''LP residue magnified'',
      assertMoveUnsigned (rr_cumulativeRetiredResidueMagnified r) U256 ''LP cumulative residue magnified'',
      assertMoveUnsigned (rr_roundingReserveBaseUnits r) U128 ''LP residue rounding base units'']"
| "body_checks (LpEpochTerminalDustClassified d) =
     [assertMoveUnsigned (td_epoch d) U64 ''LP terminal epoch'',
      assertMoveUnsigned (td_terminalRoundingBaseUnits d) U128 ''LP terminal rounding base units'',
      assertMoveUnsigned (td_retiredResidueMagnified d) U256 ''LP terminal residue magnified'',
      assertMoveUnsigned (td_lifetimeReceivedBaseUnits d) U256 ''LP lifetime received'',
      assertMoveUnsigned (td_lifetimeClaimedBaseUnits d) U256 ''LP lifetime claimed'']"
| "body_checks (UnknownEvent ty) = [Inl (TypeError (''unknown protocol event '' @ ty))]"

definition assertProtocolEventMoveDomains :: "protocol_event \<Rightarrow> unit result" where
  "assertProtocolEventMoveDomains e = rbind (assertBase e) (\<lambda>_. rseq (body_checks (ev_body e)))"

section \<open>Projections\<close>

definition pool_checks :: "indexed_pool \<Rightarrow> unit result list" where
  "pool_checks p =
     [assertMoveUnsigned (po_trflReserve p) U64 ''projection tRFL reserve'',
      assertMoveUnsigned (po_tusdReserve p) U64 ''projection tUSD reserve'',
      assertMoveUnsigned (po_ammFeeBps p) U64 ''projection AMM fee bps'',
      assertMoveUnsigned (po_maximumGrossSwap p) U64 ''projection maximum gross swap'',
      assertMoveUnsigned (po_maximumReserveBps p) U64 ''projection maximum reserve bps'',
      assertMoveUnsigned (po_maximumRflContribution p) U64 ''projection maximum tRFL contribution'',
      assertMoveUnsigned (po_maximumTusdContribution p) U64 ''projection maximum tUSD contribution'',
      assertMoveUnsigned (po_maximumNonFinalWithdrawalShareBps p) U64 ''projection maximum withdrawal share bps'']"

definition optional_check :: "int option \<Rightarrow> move_bits \<Rightarrow> string \<Rightarrow> unit result" where
  "optional_check v bits label = (case v of None \<Rightarrow> Inr () | Some x \<Rightarrow> assertMoveUnsigned x bits label)"

definition custody_checks :: "indexed_custody_position \<Rightarrow> unit result list" where
  "custody_checks c =
     [optional_check (cu_adapterId c) U64 ''projection custody adapter id'',
      optional_check (cu_activeRouteEpoch c) U64 ''projection custody route epoch'',
      assertMoveUnsigned (cu_shares c) U128 ''projection custody shares'',
      assertMoveSignedU256 (cu_correction c) ''projection custody correction'',
      assertMoveUnsigned (cu_claimed c) U256 ''projection custody claimed'',
      assertMoveUnsigned (cu_lifetimeRouted c) U256 ''projection custody lifetime routed'']"

definition position_checks :: "address \<Rightarrow> indexed_position \<Rightarrow> unit result list" where
  "position_checks account p =
     [assertMoveUnsigned (ip_rawTrfl p) U64 (''wallet '' @ account @ '' raw tRFL''),
      assertMoveUnsigned (ip_rawTusd p) U64 (''wallet '' @ account @ '' raw tUSD''),
      assertMoveSignedU256 (ip_correction p) (''wallet '' @ account @ '' correction''),
      assertMoveUnsigned (ip_claimed p) U256 (''wallet '' @ account @ '' claimed''),
      assertMoveUnsigned (ip_lifetimeClaimed p) U256 (''wallet '' @ account @ '' lifetime claimed''),
      assertMoveUnsigned (ip_lifetimeMaterialized p) U256 (''wallet '' @ account @ '' lifetime materialized'')]"

definition lp_position_checks :: "address \<Rightarrow> indexed_lp_position \<Rightarrow> unit result list" where
  "lp_position_checks owner p =
     [assertMoveUnsigned (lp_shares p) U128 (''LP owner '' @ owner @ '' shares''),
      assertMoveSignedU256 (lp_correction p) (''LP owner '' @ owner @ '' correction''),
      assertMoveUnsigned (lp_claimed p) U256 (''LP owner '' @ owner @ '' claimed'')]"

definition epoch_checks :: "int \<Rightarrow> indexed_lp_epoch \<Rightarrow> unit result list" where
  "epoch_checks key ep =
     (let l = ''LP epoch '' @ int_str key in
     [assertMoveUnsigned key U64 ''LP epoch map key'',
      assertMoveUnsigned (ep_epoch ep) U64 ''LP epoch id'',
      assertMoveUnsigned (ep_index ep) U256 (l @ '' index''),
      assertMoveUnsigned (ep_indexRemainder ep) U256 (l @ '' index remainder''),
      assertMoveUnsigned (ep_totalShares ep) U128 (l @ '' total shares''),
      assertMoveSignedU256 (ep_aggregateCorrection ep) (l @ '' aggregate correction''),
      assertMoveUnsigned (ep_unallocatedRewards ep) U128 (l @ '' unallocated rewards''),
      assertMoveUnsigned (ep_roundingReserve ep) U128 (l @ '' rounding reserve''),
      assertMoveUnsigned (ep_retiredResidueMagnified ep) U256 (l @ '' retired residue''),
      optional_check (ep_terminalRoundingBaseUnits ep) U128 (l @ '' terminal rounding''),
      assertMoveUnsigned (ep_lifetimeReceived ep) U256 (l @ '' lifetime received''),
      assertMoveUnsigned (ep_lifetimeClaimed ep) U256 (l @ '' lifetime claimed'')] @
     concat (map (\<lambda>(owner, p). lp_position_checks owner p) (ep_positions ep)))"

definition seen_cursor_check :: "string \<Rightarrow> unit result" where
  "seen_cursor_check cursor =
     (case parse_cursor cursor of
        None \<Rightarrow> Inl (TypeError ''seen-event cursor must contain canonical ledger:event ordinals'')
      | Some (lv, idx) \<Rightarrow> rseq
          [assertMoveUnsigned lv U64 ''seen-event ledger version'',
           assertMoveUnsigned idx U64 ''seen-event index'',
           rensure (idx \<le> MAX_SAFE_INTEGER)
             (RangeError ''seen-event index exceeds the safe ordinal representation'')])"

definition scalar_checks :: "protocol_projection \<Rightarrow> unit result list" where
  "scalar_checks p =
     [assertMoveUnsigned (pr_protocolExclusionSlots p) U64 ''projection protocol exclusion slots'',
      assertMoveUnsigned (pr_protocolExclusionsRemaining p) U64 ''projection exclusions remaining'',
      assertMoveUnsigned (pr_registeredWalletCount p) U64 ''projection registered wallet count'',
      assertMoveUnsigned (pr_feeBps p) U64 ''projection fee bps'',
      assertMoveUnsigned (pr_currentIndex p) U256 ''projection reflection index'',
      assertMoveUnsigned (pr_indexRemainder p) U256 ''projection reflection remainder'',
      assertMoveUnsigned (pr_eligibleSupply p) U128 ''projection eligible supply'',
      assertMoveSignedU256 (pr_aggregateCorrection p) ''projection aggregate correction'',
      assertMoveUnsigned (pr_unallocatedFees p) U128 ''projection unallocated fees'',
      assertMoveUnsigned (pr_roundingReserve p) U128 ''projection core rounding reserve'',
      assertMoveUnsigned (pr_rewardVaultCredits p) U256 ''projection reward vault credits'',
      assertMoveUnsigned (pr_rewardVaultPayouts p) U256 ''projection reward vault payouts'',
      assertMoveUnsigned (pr_lifetimeSwapFees p) U256 ''projection lifetime swap fees'',
      assertMoveUnsigned (pr_lifetimeMaterialized p) U256 ''projection lifetime materialized'',
      assertMoveUnsigned (pr_lifetimeCustodyRouted p) U256 ''projection lifetime custody routed'',
      assertMoveUnsigned (pr_faucetTrflGrant p) U64 ''projection faucet tRFL grant'',
      assertMoveUnsigned (pr_faucetTusdGrant p) U64 ''projection faucet tUSD grant'',
      assertMoveUnsigned (pr_faucetCooldownSeconds p) U64 ''projection faucet cooldown'']"

definition assertProjectionMoveDomains :: "protocol_projection \<Rightarrow> unit result" where
  "assertProjectionMoveDomains p = rseq
     (scalar_checks p
      @ pool_checks (pr_pool p)
      @ custody_checks (pr_custody p)
      @ [optional_check (pr_activeLpEpoch p) U64 ''projection active LP epoch'']
      @ concat (map (\<lambda>(account, pos). position_checks account pos) (pr_positions p))
      @ concat (map (\<lambda>(key, ep). epoch_checks key ep) (pr_lpEpochs p))
      @ map (\<lambda>e. assertMoveUnsigned e U64 ''reward-vault epoch binding'') (map_values (pr_rewardVaultToEpoch p))
      @ map (\<lambda>e. assertMoveUnsigned e U64 ''state-object epoch binding'') (map_values (pr_stateIdToEpoch p))
      @ map seen_cursor_check (map_values (pr_seenEventIds p)))"

section \<open>What the domain assertions establish\<close>

lemma seen_cursor_check_cursor_str:
  assumes "isMoveUnsigned lv U64" "0 \<le> idx" "idx \<le> MAX_SAFE_INTEGER"
  shows "seen_cursor_check (cursor_str lv idx) = Inr ()"
proof -
  have "parse_cursor (cursor_str lv idx) = Some (lv, idx)"
    using assms by (intro parse_cursor_str) (auto simp: isMoveUnsigned_iff move_max_defs MAX_SAFE_INTEGER_def)
  with assms show ?thesis
    by (simp add: seen_cursor_check_def rseq_Inr_iff result_simps isMoveUnsigned_iff move_max_defs
        MAX_SAFE_INTEGER_def)
qed

lemma event_domains_base:
  assumes "assertProtocolEventMoveDomains e = Inr u"
  shows "isMoveUnsigned (ev_ledgerVersion e) U64 \<and> 0 \<le> ev_eventIndex e \<and> ev_eventIndex e \<le> MAX_SAFE_INTEGER"
  using assms
  by (simp add: assertProtocolEventMoveDomains_def assertBase_def result_simps)

lemma event_domains_body:
  assumes "assertProtocolEventMoveDomains e = Inr u"
  shows "\<forall>r \<in> set (body_checks (ev_body e)). r = Inr ()"
  using assms by (simp add: assertProtocolEventMoveDomains_def result_simps)

text \<open>Recording a well-formed cursor for an event keeps the projection inside its domains.\<close>

lemma domains_seen_update:
  "assertProjectionMoveDomains p = Inr () \<Longrightarrow>
   seen_cursor_check c = Inr () \<Longrightarrow>
   assertProjectionMoveDomains (p\<lparr>pr_seenEventIds := map_set k c (pr_seenEventIds p)\<rparr>) = Inr ()"
  using map_values_set_subset [of k c "pr_seenEventIds p"]
  by (auto simp: assertProjectionMoveDomains_def rseq_Inr_iff scalar_checks_def ball_Un)

lemma domains_epoch:
  assumes "assertProjectionMoveDomains p = Inr ()" "map_get (pr_lpEpochs p) k = Some ep"
  shows "\<forall>r \<in> set (epoch_checks k ep). r = Inr ()"
  using assms map_get_Some_entries [OF assms(2)]
  by (auto simp: assertProjectionMoveDomains_def rseq_Inr_iff)

end
