(* ===== verification/Accounting.thy ===== *)
theory Accounting
  imports Protocol_Types
begin

text \<open>
  Magnified-dividend accounting (\<open>packages/indexer/src/accounting.ts\<close>): what a holder of shares is
  owed at a reflection index, and the vault balances and liabilities the replay expects.
\<close>

definition REFLECTION_MAGNITUDE :: int where
  "REFLECTION_MAGNITUDE = 1000000000000000000000000"

definition requireNonNegative :: "int \<Rightarrow> string \<Rightarrow> int result" where
  "requireNonNegative v label =
     (if v < 0 then Inl (RangeError (label @ '' cannot be negative'')) else Inr v)"

definition magnifiedEntitlement :: "int \<Rightarrow> int \<Rightarrow> int \<Rightarrow> int result" where
  "magnifiedEntitlement shares index signedCorrection =
     rbind (requireNonNegative shares ''shares'') (\<lambda>_.
     rbind (requireNonNegative index ''index'') (\<lambda>_.
     rbind (checkedMoveU256Multiply shares index ''magnified entitlement base'') (\<lambda>base.
     rbind (applyMoveSignedU256 base signedCorrection ''corrected magnified entitlement'') (\<lambda>magnified.
     bigint_div magnified REFLECTION_MAGNITUDE))))"

definition walletPending :: "indexed_position \<Rightarrow> int \<Rightarrow> int result" where
  "walletPending position index =
     rbind (magnifiedEntitlement (ip_rawTrfl position) index (ip_correction position)) (\<lambda>gross.
     checkedMoveU256Subtract gross (ip_claimed position) ''wallet pending reward'')"

definition custodyPending :: "protocol_projection \<Rightarrow> int result" where
  "custodyPending projection =
     rbind (magnifiedEntitlement (cu_shares (pr_custody projection)) (pr_currentIndex projection)
        (cu_correction (pr_custody projection))) (\<lambda>gross.
     checkedMoveU256Subtract gross (cu_claimed (pr_custody projection)) ''custody pending reward'')"

definition coreIndexedLiability :: "protocol_projection \<Rightarrow> int result" where
  "coreIndexedLiability projection =
     rbind (magnifiedEntitlement (pr_eligibleSupply projection) (pr_currentIndex projection)
        (pr_aggregateCorrection projection)) (\<lambda>gross.
     rbind (checkedMoveU256Subtract gross (pr_lifetimeMaterialized projection)
        ''core indexed liability materialized settlement'') (\<lambda>r.
     checkedMoveU256Subtract r (pr_lifetimeCustodyRouted projection)
        ''core indexed liability custody settlement''))"

definition expectedCoreVaultBalance :: "protocol_projection \<Rightarrow> int result" where
  "expectedCoreVaultBalance projection =
     rbind (checkedMoveU256Subtract (pr_lifetimeSwapFees projection) (pr_lifetimeMaterialized projection)
        ''expected core vault materialized settlement'') (\<lambda>r.
     checkedMoveU256Subtract r (pr_lifetimeCustodyRouted projection)
        ''expected core vault custody settlement'')"

definition lpPositionPending :: "indexed_lp_position \<Rightarrow> indexed_lp_epoch \<Rightarrow> int result" where
  "lpPositionPending position ep =
     rbind (magnifiedEntitlement (lp_shares position) (ep_index ep) (lp_correction position)) (\<lambda>gross.
     checkedMoveU256Subtract gross (lp_claimed position) ''LP position pending reward'')"

definition lpIndexedLiability :: "indexed_lp_epoch \<Rightarrow> int result" where
  "lpIndexedLiability ep =
     rbind (magnifiedEntitlement (ep_totalShares ep) (ep_index ep) (ep_aggregateCorrection ep)) (\<lambda>gross.
     checkedMoveU256Subtract gross (ep_lifetimeClaimed ep) ''LP indexed liability'')"

definition expectedLpVaultBalance :: "indexed_lp_epoch \<Rightarrow> int result" where
  "expectedLpVaultBalance ep =
     checkedMoveU256Subtract (ep_lifetimeReceived ep) (ep_lifetimeClaimed ep)
       (''expected LP vault balance for epoch '' @ int_str (ep_epoch ep))"

definition sumWalletShares :: "(address, indexed_position) jsmap \<Rightarrow> int" where
  "sumWalletShares positions = foldl (\<lambda>total p. total + ip_rawTrfl p) 0 (map_values positions)"

definition sumLpShares :: "(address, indexed_lp_position) jsmap \<Rightarrow> int" where
  "sumLpShares positions = foldl (\<lambda>total p. total + lp_shares p) 0 (map_values positions)"

section \<open>Values\<close>

lemma REFLECTION_MAGNITUDE_pos [simp]:
  "0 < REFLECTION_MAGNITUDE" "0 \<le> REFLECTION_MAGNITUDE" "REFLECTION_MAGNITUDE \<noteq> 0"
  by (simp_all add: REFLECTION_MAGNITUDE_def)

lemma sumWalletShares_map_sum: "sumWalletShares m = map_sum ip_rawTrfl m"
  by (simp add: sumWalletShares_def map_sum_def foldl_add_sum_list)

lemma sumLpShares_map_sum: "sumLpShares m = map_sum lp_shares m"
  by (simp add: sumLpShares_def map_sum_def foldl_add_sum_list)

text \<open>
  A holder's magnified entitlement: shares at the index plus the signed correction. All balance
  operations of the replay are designed to keep this number for everybody they do not pay.
\<close>

definition magnified :: "int \<Rightarrow> int \<Rightarrow> int \<Rightarrow> int" where
  "magnified shares index correction = shares * index + correction"

lemma magnifiedEntitlement_Inr:
  "magnifiedEntitlement s i c = Inr g \<longleftrightarrow>
     0 \<le> s \<and> 0 \<le> i \<and> s \<le> MOVE_U256_MAX \<and> i \<le> MOVE_U256_MAX \<and> s * i \<le> MOVE_U256_MAX
     \<and> isMoveSignedU256 c \<and> 0 \<le> magnified s i c \<and> magnified s i c \<le> MOVE_U256_MAX
     \<and> g = magnified s i c div REFLECTION_MAGNITUDE"
  by (auto simp: magnifiedEntitlement_def requireNonNegative_def magnified_def result_simps checked_iff)

lemma entitlement_value: "magnifiedEntitlement s i c = Inr g \<Longrightarrow> g = magnified s i c div REFLECTION_MAGNITUDE"
  by (simp add: magnifiedEntitlement_Inr)

lemma walletPending_value:
  "walletPending p i = Inr r \<Longrightarrow>
     r = magnified (ip_rawTrfl p) i (ip_correction p) div REFLECTION_MAGNITUDE - ip_claimed p \<and> 0 \<le> r"
  by (auto simp: walletPending_def result_simps checked_iff magnifiedEntitlement_Inr)

lemma lpPositionPending_value:
  "lpPositionPending p ep = Inr r \<Longrightarrow>
     r = magnified (lp_shares p) (ep_index ep) (lp_correction p) div REFLECTION_MAGNITUDE - lp_claimed p \<and> 0 \<le> r"
  by (auto simp: lpPositionPending_def result_simps checked_iff magnifiedEntitlement_Inr)

lemma custodyPending_value:
  "custodyPending pr = Inr r \<Longrightarrow>
     r = magnified (cu_shares (pr_custody pr)) (pr_currentIndex pr) (cu_correction (pr_custody pr))
           div REFLECTION_MAGNITUDE - cu_claimed (pr_custody pr) \<and> 0 \<le> r"
  by (auto simp: custodyPending_def result_simps checked_iff magnifiedEntitlement_Inr)

lemma coreIndexedLiability_value:
  "coreIndexedLiability pr = Inr l \<Longrightarrow>
     l = magnified (pr_eligibleSupply pr) (pr_currentIndex pr) (pr_aggregateCorrection pr)
           div REFLECTION_MAGNITUDE - pr_lifetimeMaterialized pr - pr_lifetimeCustodyRouted pr \<and> 0 \<le> l"
  by (auto simp: coreIndexedLiability_def result_simps checked_iff magnifiedEntitlement_Inr)

lemma lpIndexedLiability_value:
  "lpIndexedLiability ep = Inr l \<Longrightarrow>
     l = magnified (ep_totalShares ep) (ep_index ep) (ep_aggregateCorrection ep)
           div REFLECTION_MAGNITUDE - ep_lifetimeClaimed ep \<and> 0 \<le> l"
  by (auto simp: lpIndexedLiability_def result_simps checked_iff magnifiedEntitlement_Inr)

lemma expectedCoreVaultBalance_value:
  "expectedCoreVaultBalance pr = Inr v \<Longrightarrow>
     v = pr_lifetimeSwapFees pr - pr_lifetimeMaterialized pr - pr_lifetimeCustodyRouted pr \<and> 0 \<le> v"
  by (auto simp: expectedCoreVaultBalance_def result_simps checked_iff)

lemma expectedLpVaultBalance_value:
  "expectedLpVaultBalance ep = Inr v \<Longrightarrow> v = ep_lifetimeReceived ep - ep_lifetimeClaimed ep \<and> 0 \<le> v"
  by (auto simp: expectedLpVaultBalance_def checked_iff)

section \<open>The share ledger: an interface of its own\<close>

text \<open>
  The wallet ledger and every LP epoch keep the same bookkeeping: holders with shares, a signed
  correction and claims, and aggregates of the three. The laws below are all the distribution
  argument needs, and both ledgers are interpreted from it.
\<close>

locale share_ledger =
  fixes shares :: "'h \<Rightarrow> int"
    and correction :: "'h \<Rightarrow> int"
    and claimed :: "'h \<Rightarrow> int"
    and pending :: "'h \<Rightarrow> int \<Rightarrow> int result"
  assumes pending_value:
    "pending h i = Inr r \<Longrightarrow> r = magnified (shares h) i (correction h) div REFLECTION_MAGNITUDE - claimed h"
begin

text \<open>
  Whatever is pending to any collection of holders is covered by the aggregate entitlement less the
  aggregate claims: rounding is always in favour of the vault.
\<close>

lemma pending_sum_le:
  assumes "list_all2 (\<lambda>h r. pending h i = Inr r) hs rs"
    and "sum_list (map shares hs) = S" and "sum_list (map correction hs) = C" and "sum_list (map claimed hs) = K"
  shows "sum_list rs \<le> magnified S i C div REFLECTION_MAGNITUDE - K"
proof -
  have rs: "rs = map (\<lambda>h. magnified (shares h) i (correction h) div REFLECTION_MAGNITUDE - claimed h) hs"
    using assms(1) by (induction rule: list_all2_induct) (auto dest: pending_value)
  have "sum_list (map (\<lambda>h. magnified (shares h) i (correction h)) hs)
      = sum_list (map shares hs) * i + sum_list (map correction hs)"
    by (induction hs) (simp_all add: magnified_def distrib_right)
  then have whole: "sum_list (map (\<lambda>h. magnified (shares h) i (correction h)) hs) = magnified S i C"
    using assms(2,3) by (simp add: magnified_def)
  have "sum_list rs = sum_list (map (\<lambda>h. magnified (shares h) i (correction h) div REFLECTION_MAGNITUDE) hs) - K"
    unfolding rs using assms(4) by (simp add: sum_list_subtractf)
  also have "\<dots> \<le> magnified S i C div REFLECTION_MAGNITUDE - K"
    using sum_list_div_le [of REFLECTION_MAGNITUDE "\<lambda>h. magnified (shares h) i (correction h)" hs] whole
    by simp
  finally show ?thesis .
qed

text \<open>
  A change of a holder's shares at index \<open>i\<close> with the opposite correction leaves the entitlement at
  that index unchanged, and with it what is pending.
\<close>

lemma rebalanced_entitlement:
  "shares h' = shares h + d \<Longrightarrow> correction h' = correction h - d * i \<Longrightarrow>
   magnified (shares h') i (correction h') = magnified (shares h) i (correction h)"
  by (simp add: magnified_def algebra_simps)

lemma rebalanced_pending:
  assumes "shares h' = shares h + d" "correction h' = correction h - d * i" "claimed h' = claimed h"
    and "pending h i = Inr r" "pending h' i = Inr r'"
  shows "r' = r"
  using rebalanced_entitlement [OF assms(1,2)] assms(3) pending_value [OF assms(4)] pending_value [OF assms(5)]
  by simp

end

interpretation wallet: share_ledger ip_rawTrfl ip_correction ip_claimed walletPending
  by unfold_locales (blast dest: walletPending_value)

text \<open>An LP position's pending reward only reads the index of its epoch.\<close>

definition lpPendingAt :: "indexed_lp_position \<Rightarrow> int \<Rightarrow> int result" where
  "lpPendingAt p i =
     rbind (magnifiedEntitlement (lp_shares p) i (lp_correction p)) (\<lambda>gross.
     checkedMoveU256Subtract gross (lp_claimed p) ''LP position pending reward'')"

lemma lpPositionPending_at: "lpPositionPending p ep = lpPendingAt p (ep_index ep)"
  by (simp add: lpPositionPending_def lpPendingAt_def)

interpretation lp: share_ledger lp_shares lp_correction lp_claimed lpPendingAt
  by unfold_locales (auto simp: lpPendingAt_def result_simps checked_iff magnifiedEntitlement_Inr)

end
