(* ===== verification/Reducer_State.thy ===== *)
theory Reducer_State
  imports Domains Accounting
begin

text \<open>
  The reducer's working state and shared operations (\<open>packages/indexer/src/reducer.ts\<close>, up to
  \<open>reduceEventGroup\<close>): integer helpers, the empty projection, alerts, the mutable context of one
  transaction group, and the operations on wallet and LP positions that several event handlers
  share. A handler takes the context and returns an \<open>outcome\<close>: either the new context, or a thrown
  error together with the alerts pushed before the throw, which survive the \<open>catch\<close>.
  \<open>cloneProjection\<close> copies the projection so that mutation cannot reach the caller's value; on
  immutable HOL values it is the identity and has no definition here.
\<close>

section \<open>Integer helpers\<close>

definition BPS_DENOMINATOR :: int where "BPS_DENOMINATOR = 10000"

definition ceilDiv :: "int \<Rightarrow> int \<Rightarrow> int result" where
  "ceilDiv numerator denominator =
     (if denominator \<le> 0 then Inl (RangeError ''division denominator must be positive'')
      else if numerator = 0 then Inr 0
      else rbind (bigint_div (numerator - 1) denominator) (\<lambda>q. Inr (q + 1)))"

text \<open>
  Newton's iteration. The loop divides by \<open>next\<close>, which stays positive
  (\<open>integerSqrt_floor\<close> in \<open>Integer_Helpers\<close> shows that the error branch is never taken).
\<close>

function integerSqrt_loop :: "int \<Rightarrow> int \<Rightarrow> int \<Rightarrow> int result" where
  "integerSqrt_loop v current nxt =
     (if nxt < current then
        if nxt \<le> 0 then Inl (RangeError ''Division by zero'')
        else integerSqrt_loop v nxt (bigint_quot (nxt + bigint_quot v nxt) 2)
      else Inr current)"
  by pat_completeness auto
termination
  by (relation "measure (\<lambda>(v, current, nxt). nat current)") auto

declare integerSqrt_loop.simps [simp del]

definition integerSqrt :: "int \<Rightarrow> int result" where
  "integerSqrt v =
     (if v < 0 then Inl (RangeError ''square-root input cannot be negative'')
      else if v < 2 then Inr v
      else let current = bigint_quot v 2 + 1 in
        integerSqrt_loop v current (bigint_quot (current + bigint_quot v current) 2))"

definition checkedVaultRemainder :: "int \<Rightarrow> int \<Rightarrow> int \<Rightarrow> string \<Rightarrow> int result" where
  "checkedVaultRemainder vaultBalance liability unallocated label =
     rbind (checkedMoveU256Subtract vaultBalance liability (label @ '' indexed liability'')) (\<lambda>r.
     checkedMoveU256Subtract r unallocated (label @ '' unallocated amount''))"

section \<open>The empty projection and empty positions\<close>

definition CEDRA_TESTNET_CHAIN_ID :: int where "CEDRA_TESTNET_CHAIN_ID = 2"

definition createEmptyProjection :: protocol_projection where
  "createEmptyProjection = \<lparr>
     pr_chainId = CEDRA_TESTNET_CHAIN_ID,
     pr_deploymentId = ''uninitialized'',
     pr_networkLabel = ''uninitialized'',
     pr_tokenMetadata = None,
     pr_protocolExclusionSlots = 0,
     pr_protocolExclusionsRemaining = 0,
     pr_protocolExcludedStores = [],
     pr_registeredWallets = [],
     pr_registeredWalletCount = 0,
     pr_automaticMaterialization = False,
     pr_feeBps = 100,
     pr_currentIndex = 0,
     pr_indexRemainder = 0,
     pr_eligibleSupply = 0,
     pr_aggregateCorrection = 0,
     pr_unallocatedFees = 0,
     pr_roundingReserve = 0,
     pr_rewardVault = None,
     pr_distributionVault = None,
     pr_mockUsdPoolReserve = None,
     pr_rewardVaultCredits = 0,
     pr_rewardVaultPayouts = 0,
     pr_lifetimeSwapFees = 0,
     pr_lifetimeMaterialized = 0,
     pr_lifetimeCustodyRouted = 0,
     pr_packageVersion = ''uninitialized'',
     pr_lifecycle = None,
     pr_swapsPaused = False,
     pr_claimsPaused = False,
     pr_faucetPaused = False,
     pr_faucetTrflGrant = 1000000000,
     pr_faucetTusdGrant = 1000000000,
     pr_faucetCooldownSeconds = 3600,
     pr_operationalAdmins = \<lparr>oa_reflectionCore = None, oa_testAssets = None, oa_testAmm = None\<rparr>,
     pr_deploymentReady = False,
     pr_pool = \<lparr>
       po_trflReserve = 0, po_tusdReserve = 0, po_ammFeeBps = 30,
       po_maximumGrossSwap = 0, po_maximumReserveBps = 0,
       po_maximumRflContribution = 100000000000, po_maximumTusdContribution = 100000000000,
       po_maximumNonFinalWithdrawalShareBps = BPS_DENOMINATOR,
       po_poolPaused = False, po_liquidityPaused = False, po_lpClaimsPaused = False,
       po_shutdownMode = False, po_seeded = False\<rparr>,
     pr_custody = \<lparr>
       cu_adapterId = None, cu_reserveStore = None, cu_activeRouteEpoch = None,
       cu_activeLpRewardVault = None, cu_shares = 0, cu_correction = 0, cu_claimed = 0,
       cu_lifetimeRouted = 0\<rparr>,
     pr_activeLpEpoch = None,
     pr_lpEpochs = [],
     pr_rewardVaultToEpoch = [],
     pr_stateIdToEpoch = [],
     pr_positions = [],
     pr_seenEventIds = []\<rparr>"

definition emptyPosition :: "address \<Rightarrow> indexed_position" where
  "emptyPosition account = \<lparr>ip_account = account, ip_rawTrfl = 0, ip_rawTusd = 0, ip_correction = 0,
     ip_claimed = 0, ip_lifetimeClaimed = 0, ip_lifetimeMaterialized = 0\<rparr>"

definition positionOrEmpty :: "address \<Rightarrow> (address, indexed_position) jsmap \<Rightarrow> indexed_position" where
  "positionOrEmpty account positions =
     (case map_get positions account of Some p \<Rightarrow> p | None \<Rightarrow> emptyPosition account)"

definition emptyLpPosition :: "address \<Rightarrow> indexed_lp_position" where
  "emptyLpPosition owner = \<lparr>lp_owner = owner, lp_shares = 0, lp_correction = 0, lp_claimed = 0\<rparr>"

definition lpPositionOrEmpty :: "address \<Rightarrow> (address, indexed_lp_position) jsmap \<Rightarrow> indexed_lp_position" where
  "lpPositionOrEmpty owner positions =
     (case map_get positions owner of Some p \<Rightarrow> p | None \<Rightarrow> emptyLpPosition owner)"

section \<open>Alerts and the transaction context\<close>

definition problem ::
  "protocol_event \<Rightarrow> alert_code \<Rightarrow> string \<Rightarrow> string option \<Rightarrow> string option \<Rightarrow> critical_alert" where
  "problem e code message expected observed = \<lparr>
     al_id = ''event:'' @ ev_id e @ '':'' @ alert_code_str code,
     al_severity = Critical,
     al_code = code,
     al_message = message,
     al_detectedAtUnixMilliseconds = ev_timestampUnixMilliseconds e,
     al_cursor = Some \<lparr>cur_ledgerVersion = ev_ledgerVersion e, cur_eventIndex = ev_eventIndex e\<rparr>,
     al_expected = expected,
     al_observed = observed\<rparr>"

text \<open>A fee receipt waiting for its index advance, with the shares at its collection.\<close>

record pending_core_fee =
  pf_event :: protocol_event
  pf_fee :: reflection_fee_collected
  pf_sharesAtCollection :: int

text \<open>
  \<open>MutableContext\<close> with the three local variables of the replay loop: the pending fees, the
  identifiers of the consumed custody routes, and whether the seller was already debited.
\<close>

record reducer_context =
  cx_next :: protocol_projection
  cx_alerts :: "critical_alert list"
  cx_first :: protocol_event
  cx_pendingCoreFees :: "pending_core_fee list"
  cx_consumedRoutes :: "string list"
  cx_sellWalletDebited :: bool

datatype outcome = Threw js_error "critical_alert list" | Done reducer_context

definition throwing :: "reducer_context \<Rightarrow> js_error \<Rightarrow> outcome" where
  "throwing ctx e = Threw e (cx_alerts ctx)"

definition attempt :: "reducer_context \<Rightarrow> 'a result \<Rightarrow> ('a \<Rightarrow> outcome) \<Rightarrow> outcome" where
  "attempt ctx r f = (case r of Inl e \<Rightarrow> Threw e (cx_alerts ctx) | Inr x \<Rightarrow> f x)"

definition andThen :: "outcome \<Rightarrow> (reducer_context \<Rightarrow> outcome) \<Rightarrow> outcome" where
  "andThen out f = (case out of Threw e alerts \<Rightarrow> Threw e alerts | Done ctx \<Rightarrow> f ctx)"

text \<open>\<open>context.alerts.push(alert)\<close>, under the condition of the enclosing \<open>if\<close>.\<close>

definition alert_if :: "bool \<Rightarrow> critical_alert \<Rightarrow> reducer_context \<Rightarrow> reducer_context" where
  "alert_if b a ctx = (if b then ctx\<lparr>cx_alerts := cx_alerts ctx @ [a]\<rparr> else ctx)"

definition upd_next :: "(protocol_projection \<Rightarrow> protocol_projection) \<Rightarrow> reducer_context \<Rightarrow> reducer_context" where
  "upd_next f ctx = ctx\<lparr>cx_next := f (cx_next ctx)\<rparr>"

definition set_position :: "address \<Rightarrow> indexed_position \<Rightarrow> protocol_projection \<Rightarrow> protocol_projection" where
  "set_position account p pr = pr\<lparr>pr_positions := map_set account p (pr_positions pr)\<rparr>"

definition updateEpoch :: "indexed_lp_epoch \<Rightarrow> protocol_projection \<Rightarrow> protocol_projection" where
  "updateEpoch ep pr = pr\<lparr>pr_lpEpochs := map_set (ep_epoch ep) ep (pr_lpEpochs pr)\<rparr>"

section \<open>Wallet balances\<close>

fun asset_str :: "asset_symbol \<Rightarrow> string" where
  "asset_str TRFL = ''tRFL''"
| "asset_str TUSD = ''tUSD''"

definition adjustWalletAsset ::
  "reducer_context \<Rightarrow> address \<Rightarrow> asset_symbol \<Rightarrow> int \<Rightarrow> protocol_event \<Rightarrow> outcome" where
  "adjustWalletAsset ctx account asset delta e =
     (let current = positionOrEmpty account (pr_positions (cx_next ctx));
          balance = (if asset = TRFL then ip_rawTrfl current else ip_rawTusd current) in
      if balance + delta < 0 then
        throwing ctx (RangeError (''event group would create a negative '' @ asset_str asset
          @ '' balance for '' @ account))
      else if asset = TUSD then
        Done (upd_next (set_position account (current\<lparr>ip_rawTusd := balance + delta\<rparr>)) ctx)
      else
        attempt ctx (checkedMoveU256Multiply (if delta < 0 then - delta else delta)
          (pr_currentIndex (cx_next ctx)) ''wallet correction delta'') (\<lambda>correctionDelta.
        attempt ctx
          (if delta < 0
           then checkedMoveSignedU256AddUnsigned (ip_correction current) correctionDelta ''wallet correction''
           else checkedMoveSignedU256SubtractUnsigned (ip_correction current) correctionDelta ''wallet correction'')
          (\<lambda>correction.
        attempt ctx
          (if delta < 0
           then checkedMoveSignedU256AddUnsigned (pr_aggregateCorrection (cx_next ctx)) correctionDelta
             ''aggregate wallet correction''
           else checkedMoveSignedU256SubtractUnsigned (pr_aggregateCorrection (cx_next ctx)) correctionDelta
             ''aggregate wallet correction'')
          (\<lambda>aggregateCorrection.
        let ctx = upd_next (set_position account
                    (current\<lparr>ip_rawTrfl := balance + delta, ip_correction := correction\<rparr>)) ctx;
            ctx = upd_next (\<lambda>pr. pr\<lparr>pr_eligibleSupply := pr_eligibleSupply pr + delta,
                    pr_aggregateCorrection := aggregateCorrection\<rparr>) ctx in
        if pr_eligibleSupply (cx_next ctx) < 0 then
          throwing ctx (RangeError (''event group would create negative global shares at '' @ ev_id e))
        else Done ctx))))"

definition materializeWallet :: "reducer_context \<Rightarrow> protocol_event \<Rightarrow> address \<Rightarrow> int \<Rightarrow> int \<Rightarrow> outcome" where
  "materializeWallet ctx e account amount totalClaimed =
     (if amount \<le> 0 then throwing ctx (RangeError ''materialized reward amount must be positive'')
      else
        let held = positionOrEmpty account (pr_positions (cx_next ctx)) in
        attempt ctx (walletPending held (pr_currentIndex (cx_next ctx))) (\<lambda>pending.
        let ctx = alert_if (amount > pending)
              (problem e POSITION_ACCOUNTING
                ''Wallet materialization exceeds independently calculated pending rewards.''
                (Some (int_str pending)) (Some (int_str amount))) ctx in
        andThen (adjustWalletAsset ctx account TRFL amount e) (\<lambda>ctx.
        let current = positionOrEmpty account (pr_positions (cx_next ctx)) in
        attempt ctx (checkedMoveU256Add (ip_claimed current) amount ''wallet cumulative materialization'') (\<lambda>claimed.
        let ctx = alert_if (claimed \<noteq> totalClaimed)
              (problem e POSITION_ACCOUNTING ''Wallet cumulative materialization does not match the event.''
                (Some (int_str claimed)) (Some (int_str totalClaimed))) ctx in
        attempt ctx (checkedMoveU256Add (ip_lifetimeMaterialized current) amount
          ''wallet lifetime materialization'') (\<lambda>lifetimeMaterialized.
        let ctx = upd_next (set_position account (current\<lparr>ip_claimed := claimed,
              ip_lifetimeMaterialized := lifetimeMaterialized\<rparr>)) ctx in
        attempt ctx (checkedMoveU256Add (pr_rewardVaultPayouts (cx_next ctx)) amount
          ''core reward-vault payouts'') (\<lambda>payouts.
        attempt ctx (checkedMoveU256Add (pr_lifetimeMaterialized (cx_next ctx)) amount
          ''core lifetime materialization'') (\<lambda>lifetime.
        Done (upd_next (\<lambda>pr. pr\<lparr>pr_rewardVaultPayouts := payouts, pr_lifetimeMaterialized := lifetime\<rparr>) ctx))))))))"

section \<open>LP epochs and LP positions\<close>

text \<open>
  \<open>requireEpoch\<close> with the caller's \<open>if (epoch === null) break\<close>: an unknown epoch pushes an alert
  and leaves the handler, a known one continues with it.
\<close>

definition requireEpoch ::
  "reducer_context \<Rightarrow> protocol_event \<Rightarrow> int \<Rightarrow> (indexed_lp_epoch \<Rightarrow> outcome) \<Rightarrow> outcome" where
  "requireEpoch ctx e epochId k =
     (case map_get (pr_lpEpochs (cx_next ctx)) epochId of
        None \<Rightarrow> Done (alert_if True (problem e LP_ACCOUNTING
          (''LP event references unknown epoch '' @ int_str epochId @ ''.'') None None) ctx)
      | Some ep \<Rightarrow> k ep)"

definition accountStateSubjects :: "protocol_event \<Rightarrow> address list" where
  "accountStateSubjects e = (case ev_body e of
       PositionCreated account \<Rightarrow> [account]
     | EligibleBalanceDebited account _ \<Rightarrow> [account]
     | EligibleBalanceCredited account _ \<Rightarrow> [account]
     | RewardsMaterialized account _ _ _ \<Rightarrow> [account]
     | RewardsClaimed account _ _ \<Rightarrow> [account]
     | SwapExecuted s \<Rightarrow> [sw_account s]
     | FaucetGrant account _ _ \<Rightarrow> [account]
     | WalletTransfer from_a to_a _ _ \<Rightarrow> [from_a, to_a]
     | LiquiditySeeded q \<Rightarrow> [lq_provider q]
     | LiquidityAdded q \<Rightarrow> [lq_provider q]
     | LiquidityRemoved q _ \<Rightarrow> [lq_provider q]
     | LpSharesChanged c \<Rightarrow> [sc_owner c]
     | LpRewardsClaimed c \<Rightarrow> [lc_owner c]
     | LpFractionalResidueRetired r \<Rightarrow> [rr_owner r]
     | LpSharesTransferred t \<Rightarrow> [st_sender t, st_recipient t]
     | _ \<Rightarrow> [])"

definition adjustLpShares :: "reducer_context \<Rightarrow> protocol_event \<Rightarrow> lp_shares_changed \<Rightarrow> outcome" where
  "adjustLpShares ctx e c =
     requireEpoch ctx e (sc_epoch c) (\<lambda>ep.
     if ep_status ep \<noteq> Active \<or> ep_quarantined ep \<or> sc_amount c \<le> 0 then
       Done (alert_if True (problem e LP_ACCOUNTING
         ''LP share mutation must be positive and target the active epoch.'' None None) ctx)
     else
       let ctx = alert_if (\<not> map_has (pr_registeredWallets (cx_next ctx)) (sc_owner c))
             (problem e WALLET_REGISTRATION
               ''LP share weight may be created or mutated only for a wallet registered earlier in replay order.''
               (Some ''earlier WalletRegistered'') (Some (sc_owner c))) ctx;
           delta = (if sc_added c then sc_amount c else - sc_amount c);
           current = lpPositionOrEmpty (sc_owner c) (ep_positions ep) in
       if lp_shares current + delta < 0 \<or> ep_totalShares ep + delta < 0 then
         Done (alert_if True (problem e LP_ACCOUNTING
           ''LP share mutation would underflow a position or epoch.'' None None) ctx)
       else
         attempt ctx (checkedMoveU256Multiply (sc_amount c) (ep_index ep) ''LP share correction delta'') (\<lambda>correctionDelta.
         attempt ctx
           (if sc_added c
            then checkedMoveSignedU256SubtractUnsigned (lp_correction current) correctionDelta ''LP owner correction''
            else checkedMoveSignedU256AddUnsigned (lp_correction current) correctionDelta ''LP owner correction'')
           (\<lambda>correction.
         attempt ctx
           (if sc_added c
            then checkedMoveSignedU256SubtractUnsigned (ep_aggregateCorrection ep) correctionDelta ''LP aggregate correction''
            else checkedMoveSignedU256AddUnsigned (ep_aggregateCorrection ep) correctionDelta ''LP aggregate correction'')
           (\<lambda>aggregateCorrection.
         let nextPosition = current\<lparr>lp_shares := lp_shares current + delta, lp_correction := correction\<rparr>;
             nextEpoch = ep\<lparr>ep_totalShares := ep_totalShares ep + delta,
               ep_aggregateCorrection := aggregateCorrection,
               ep_positions := map_set (sc_owner c) nextPosition (ep_positions ep)\<rparr>;
             ctx = alert_if (lp_shares nextPosition \<noteq> sc_ownerShares c \<or> ep_totalShares nextEpoch \<noteq> sc_totalShares c)
               (problem e LP_ACCOUNTING ''LP post-mutation shares disagree with independently replayed shares.''
                 (Some (int_str (lp_shares nextPosition) @ ''/'' @ int_str (ep_totalShares nextEpoch)))
                 (Some (int_str (sc_ownerShares c) @ ''/'' @ int_str (sc_totalShares c)))) ctx in
         Done (upd_next (updateEpoch nextEpoch) ctx)))))"

section \<open>Reasoning about outcomes\<close>

text \<open>
  \<open>ensures out P\<close>: if the step returns, its context satisfies \<open>P\<close>. The rules of \<open>ensures_simps\<close>
  compute the weakest condition of a handler body; \<open>alerts_of\<close> reads the alerts of either outcome.
\<close>

named_theorems ensures_simps "weakest conditions of handler bodies"

definition ensures :: "outcome \<Rightarrow> (reducer_context \<Rightarrow> bool) \<Rightarrow> bool" where
  "ensures out P = (case out of Done ctx \<Rightarrow> P ctx | Threw _ _ \<Rightarrow> True)"

definition alerts_of :: "outcome \<Rightarrow> critical_alert list" where
  "alerts_of out = (case out of Done ctx \<Rightarrow> cx_alerts ctx | Threw _ alerts \<Rightarrow> alerts)"

lemma ensures_Done [simp, ensures_simps]: "ensures (Done ctx) P \<longleftrightarrow> P ctx"
  by (simp add: ensures_def)

lemma ensures_throwing [simp, ensures_simps]: "ensures (throwing ctx e) P"
  by (simp add: ensures_def throwing_def)

lemma ensures_attempt [ensures_simps]: "ensures (attempt ctx r f) P \<longleftrightarrow> (\<forall>x. r = Inr x \<longrightarrow> ensures (f x) P)"
  by (cases r) (simp_all add: ensures_def attempt_def)

lemma ensures_andThen [ensures_simps]: "ensures (andThen m f) P \<longleftrightarrow> ensures m (\<lambda>ctx. ensures (f ctx) P)"
  by (cases m) (simp_all add: ensures_def andThen_def)

lemma ensures_if [ensures_simps]:
  "ensures (if b then m else n) P \<longleftrightarrow> (b \<longrightarrow> ensures m P) \<and> (\<not> b \<longrightarrow> ensures n P)"
  by simp

lemma ensures_requireEpoch [ensures_simps]:
  "ensures (requireEpoch ctx e k f) P \<longleftrightarrow>
     (map_get (pr_lpEpochs (cx_next ctx)) k = None \<longrightarrow> P (alert_if True (problem e LP_ACCOUNTING
        (''LP event references unknown epoch '' @ int_str k @ ''.'') None None) ctx))
     \<and> (\<forall>ep. map_get (pr_lpEpochs (cx_next ctx)) k = Some ep \<longrightarrow> ensures (f ep) P)"
  by (auto simp: requireEpoch_def split: option.splits)

lemma attempt_Done_iff: "attempt ctx r f = Done c \<longleftrightarrow> (\<exists>x. r = Inr x \<and> f x = Done c)"
  by (cases r) (simp_all add: attempt_def)

lemma andThen_Done_iff: "andThen m f = Done c \<longleftrightarrow> (\<exists>c'. m = Done c' \<and> f c' = Done c)"
  by (cases m) (simp_all add: andThen_def)

lemma ensuresD: "ensures out P \<Longrightarrow> out = Done ctx \<Longrightarrow> P ctx"
  by simp

lemma ensures_mono: "ensures out P \<Longrightarrow> (\<And>ctx. P ctx \<Longrightarrow> Q ctx) \<Longrightarrow> ensures out Q"
  by (cases out) (simp_all add: ensures_def)

lemma ensures_conj: "ensures out (\<lambda>c. P c \<and> Q c) \<longleftrightarrow> ensures out P \<and> ensures out Q"
  by (cases out) (simp_all add: ensures_def)

text \<open>What alerts and projection updates leave alone.\<close>

lemma alert_if_fields [simp]:
  "cx_next (alert_if b a ctx) = cx_next ctx"
  "cx_first (alert_if b a ctx) = cx_first ctx"
  "cx_pendingCoreFees (alert_if b a ctx) = cx_pendingCoreFees ctx"
  "cx_consumedRoutes (alert_if b a ctx) = cx_consumedRoutes ctx"
  "cx_sellWalletDebited (alert_if b a ctx) = cx_sellWalletDebited ctx"
  by (simp_all add: alert_if_def)

lemma upd_next_fields [simp]:
  "cx_next (upd_next f ctx) = f (cx_next ctx)"
  "cx_first (upd_next f ctx) = cx_first ctx"
  "cx_alerts (upd_next f ctx) = cx_alerts ctx"
  "cx_pendingCoreFees (upd_next f ctx) = cx_pendingCoreFees ctx"
  "cx_consumedRoutes (upd_next f ctx) = cx_consumedRoutes ctx"
  "cx_sellWalletDebited (upd_next f ctx) = cx_sellWalletDebited ctx"
  by (simp_all add: upd_next_def)

lemma alert_if_quiet [simp]: "cx_alerts (alert_if b a ctx) = [] \<longleftrightarrow> \<not> b \<and> cx_alerts ctx = []"
  by (simp add: alert_if_def)

lemma alert_if_alerts: "cx_alerts (alert_if b a ctx) = cx_alerts ctx @ (if b then [a] else [])"
  by (simp add: alert_if_def)

end
