(* ===== verification/Reducer_Core_Events.thy ===== *)
theory Reducer_Core_Events
  imports Reducer_State
begin

text \<open>
  The replay loop's handlers for core, wallet, custody and configuration events
  (\<open>packages/indexer/src/reducer.ts\<close>, the \<open>switch\<close> of \<open>reduceEventGroup\<close>), one definition per
  \<open>case\<close>. A \<open>break\<close> is a \<open>Done\<close>.
\<close>

section \<open>The transaction group\<close>

text \<open>The sorted events of the group with the projection before it, and the filtered views of it.\<close>

record event_group =
  gr_prior :: protocol_projection
  gr_events :: "protocol_event list"

definition sel_swap :: "protocol_event \<Rightarrow> (protocol_event \<times> swap_executed) option" where
  "sel_swap e = (case ev_body e of SwapExecuted s \<Rightarrow> Some (e, s) | _ \<Rightarrow> None)"

definition swaps :: "protocol_event list \<Rightarrow> (protocol_event \<times> swap_executed) list" where
  "swaps events = List.map_filter sel_swap events"

definition sel_route :: "protocol_event \<Rightarrow> (protocol_event \<times> custody_rewards_routed) option" where
  "sel_route e = (case ev_body e of CustodyRewardsRouted r \<Rightarrow> Some (e, r) | _ \<Rightarrow> None)"

definition routes :: "protocol_event list \<Rightarrow> (protocol_event \<times> custody_rewards_routed) list" where
  "routes events = List.map_filter sel_route events"

definition nativeDebits :: "protocol_event list \<Rightarrow> (address \<times> int) list" where
  "nativeDebits events = List.map_filter
     (\<lambda>e. case ev_body e of EligibleBalanceDebited account amount \<Rightarrow> Some (account, amount) | _ \<Rightarrow> None) events"

definition nativeCredits :: "protocol_event list \<Rightarrow> (address \<times> int) list" where
  "nativeCredits events = List.map_filter
     (\<lambda>e. case ev_body e of EligibleBalanceCredited account amount \<Rightarrow> Some (account, amount) | _ \<Rightarrow> None) events"

definition V02 :: string where "V02 = ''testnet-v0.2.0''"

definition is_v02 :: "reducer_context \<Rightarrow> bool" where
  "is_v02 ctx = (pr_packageVersion (cx_next ctx) = V02)"

section \<open>Deployment and lifecycle\<close>

definition handle_ProtocolInitialized :: "reducer_context \<Rightarrow> protocol_event \<Rightarrow> protocol_initialized \<Rightarrow> outcome" where
  "handle_ProtocolInitialized ctx e i =
     (let ctx = alert_if (pr_packageVersion (cx_next ctx) \<noteq> ''uninitialized'')
            (problem e IDENTIFIER_REUSE ''Protocol initialization appeared more than once.'' None None) ctx;
          ctx = alert_if (pi_feeBps i > 100)
            (problem e EVENT_DATA ''Protocol initialized with a reflection fee above 100 bps.'' None None) ctx;
          ctx = alert_if (pi_deploymentId i = [] \<or> pi_networkLabel i \<noteq> ''cedra-testnet''
              \<or> pi_protocolExclusionSlots i \<noteq> 2)
            (problem e EVENT_DATA ''Protocol initialization identity or exclusion-slot policy is invalid.'' None None) ctx in
      Done (upd_next (\<lambda>pr. pr\<lparr>
        pr_deploymentId := pi_deploymentId i,
        pr_networkLabel := pi_networkLabel i,
        pr_tokenMetadata := Some (pi_tokenMetadata i),
        pr_protocolExclusionSlots := pi_protocolExclusionSlots i,
        pr_protocolExclusionsRemaining := pi_protocolExclusionSlots i,
        pr_automaticMaterialization := pi_automaticMaterialization i,
        pr_feeBps := pi_feeBps i,
        pr_currentIndex := pi_initialIndex i,
        pr_packageVersion := pi_packageVersion i,
        pr_rewardVault := Some (pi_rewardVault i),
        pr_distributionVault := Some (pi_distributionVault i)\<rparr>) ctx))"

definition handle_TokenCreated :: "reducer_context \<Rightarrow> protocol_event \<Rightarrow> token_created \<Rightarrow> outcome" where
  "handle_TokenCreated ctx e t =
     (let ctx = alert_if (pr_packageVersion (cx_next ctx) \<noteq> ''uninitialized'')
            (problem e IDENTIFIER_REUSE ''Token creation appeared more than once.'' None None) ctx;
          ctx = alert_if (tc_eventSchema t \<noteq> ''v0.2'' \<or> tc_packageVersion t \<noteq> V02
              \<or> tc_networkLabel t \<noteq> ''cedra-testnet'' \<or> tc_reflectionFeeBps t > 500
              \<or> tc_totalSupply t \<noteq> 1000000000000000 \<or> tc_decimals t \<noteq> 6)
            (problem e EVENT_DATA ''v0.2 TokenCreated identity or immutable creation parameters are invalid.'' None None) ctx in
      Done (upd_next (\<lambda>pr. pr\<lparr>
        pr_deploymentId := tc_deploymentId t,
        pr_networkLabel := tc_networkLabel t,
        pr_tokenMetadata := Some (tc_tokenMetadata t),
        pr_protocolExclusionSlots := 0,
        pr_protocolExclusionsRemaining := 0,
        pr_automaticMaterialization := True,
        pr_feeBps := tc_reflectionFeeBps t,
        pr_packageVersion := tc_packageVersion t,
        pr_lifecycle := Some CONFIGURING,
        pr_rewardVault := Some (tc_rewardVault t),
        pr_distributionVault := Some (tc_distributionVault t)\<rparr>) ctx))"

definition handle_LaunchSealed :: "reducer_context \<Rightarrow> protocol_event \<Rightarrow> launch_sealed \<Rightarrow> outcome" where
  "handle_LaunchSealed ctx e l =
     (let ctx = alert_if (\<not> is_v02 ctx
              \<or> pr_lifecycle (cx_next ctx) \<noteq> Some CONFIGURING
              \<or> ls_reflectionFeeBps l \<noteq> pr_feeBps (cx_next ctx)
              \<or> ls_reflectionFeeBps l > 500
              \<or> ls_ammFeeBps l \<noteq> 30
              \<or> ls_maximumReserveBps l \<noteq> 2000
              \<or> ls_maximumGrossSwap l \<noteq> 100000000000
              \<or> ls_maximumRflContribution l \<noteq> 100000000000
              \<or> ls_maximumTusdContribution l \<noteq> 100000000000
              \<or> ls_maximumNonFinalWithdrawalShareBps l \<noteq> 10000
              \<or> ls_faucetTrflGrant l \<noteq> 1000000000
              \<or> ls_faucetTusdGrant l \<noteq> 1000000000
              \<or> ls_faucetCooldownSeconds l \<noteq> 3600
              \<or> ls_seedRfl l \<noteq> 500000000
              \<or> ls_seedUsd l \<noteq> 500000000
              \<or> ls_initialLpShares l \<le> 0)
            (problem e EVENT_DATA ''v0.2 LaunchSealed disagrees with the fixed launch envelope.'' None None) ctx in
      Done (upd_next (\<lambda>pr. pr\<lparr>
        pr_lifecycle := Some LIVE,
        pr_deploymentReady := True,
        pr_faucetTrflGrant := ls_faucetTrflGrant l,
        pr_faucetTusdGrant := ls_faucetTusdGrant l,
        pr_faucetCooldownSeconds := ls_faucetCooldownSeconds l,
        pr_pool := (pr_pool pr)\<lparr>
          po_ammFeeBps := ls_ammFeeBps l,
          po_maximumReserveBps := ls_maximumReserveBps l,
          po_maximumGrossSwap := ls_maximumGrossSwap l,
          po_maximumRflContribution := ls_maximumRflContribution l,
          po_maximumTusdContribution := ls_maximumTusdContribution l,
          po_maximumNonFinalWithdrawalShareBps := ls_maximumNonFinalWithdrawalShareBps l\<rparr>\<rparr>) ctx))"

definition handle_PoolClosed :: "reducer_context \<Rightarrow> protocol_event \<Rightarrow> pool_closed \<Rightarrow> outcome" where
  "handle_PoolClosed ctx e c =
     (let ctx = alert_if (\<not> is_v02 ctx
              \<or> pr_lifecycle (cx_next ctx) \<noteq> Some LIVE
              \<or> pc_epoch c \<noteq> 1
              \<or> pc_rflReserveAfter c \<noteq> po_trflReserve (pr_pool (cx_next ctx))
              \<or> pc_usdReserveAfter c \<noteq> po_tusdReserve (pr_pool (cx_next ctx)))
            (problem e EVENT_DATA
              ''v0.2 PoolClosed is out of lifecycle order or disagrees with replayed terminal reserves.'' None None) ctx in
      Done (upd_next (\<lambda>pr. pr\<lparr>pr_lifecycle := Some CLOSED\<rparr>) ctx))"

section \<open>Store exclusions and wallet registration\<close>

definition handle_ProtocolPrimaryStoreExcluded ::
  "reducer_context \<Rightarrow> protocol_event \<Rightarrow> address \<Rightarrow> address \<Rightarrow> int \<Rightarrow> outcome" where
  "handle_ProtocolPrimaryStoreExcluded ctx e account store remainingSlots =
     (let stores = pr_protocolExcludedStores (cx_next ctx);
          wallets = pr_registeredWallets (cx_next ctx);
          remaining = pr_protocolExclusionsRemaining (cx_next ctx);
          ctx = alert_if (is_zero_address account \<or> is_zero_address store
              \<or> remaining \<le> 0 \<or> remainingSlots \<noteq> remaining - 1
              \<or> map_has stores account \<or> store \<in> set (map_values stores)
              \<or> map_has wallets account \<or> store \<in> set (map_values wallets))
            (problem e IDENTIFIER_REUSE
              ''Protocol publisher exclusion is zero, registered, duplicated, or exceeds the finite bootstrap slots.''
              None None) ctx in
      Done (upd_next (\<lambda>pr. pr\<lparr>pr_protocolExclusionsRemaining := remainingSlots,
        pr_protocolExcludedStores := map_set account store stores\<rparr>) ctx))"

definition handle_OperationalPrimaryStoreExcluded ::
  "reducer_context \<Rightarrow> protocol_event \<Rightarrow> address \<Rightarrow> address \<Rightarrow> outcome" where
  "handle_OperationalPrimaryStoreExcluded ctx e account store =
     (let stores = pr_protocolExcludedStores (cx_next ctx);
          wallets = pr_registeredWallets (cx_next ctx);
          ctx = alert_if (is_zero_address account \<or> is_zero_address store
              \<or> map_has stores account \<or> store \<in> set (map_values stores)
              \<or> map_has wallets account \<or> store \<in> set (map_values wallets))
            (problem e IDENTIFIER_REUSE
              ''Operational primary-store exclusion is zero, duplicated, or reuses an already classified store.''
              None None) ctx in
      Done (upd_next (\<lambda>pr. pr\<lparr>pr_protocolExcludedStores := map_set account store stores\<rparr>) ctx))"

definition handle_WalletRegistered ::
  "reducer_context \<Rightarrow> protocol_event \<Rightarrow> address \<Rightarrow> address \<Rightarrow> int \<Rightarrow> outcome" where
  "handle_WalletRegistered ctx e account primaryStore walletCount =
     (let wallets = pr_registeredWallets (cx_next ctx);
          stores = pr_protocolExcludedStores (cx_next ctx);
          expectedCount = pr_registeredWalletCount (cx_next ctx) + 1;
          ctx = alert_if (is_zero_address account \<or> is_zero_address primaryStore
              \<or> walletCount \<le> 0 \<or> walletCount > MOVE_U64_MAX \<or> walletCount \<noteq> expectedCount
              \<or> map_has wallets account \<or> primaryStore \<in> set (map_values wallets)
              \<or> map_has stores account \<or> primaryStore \<in> set (map_values stores))
            (problem e WALLET_REGISTRATION
              ''Wallet registration must bind one fresh non-excluded account/store and advance the exact u64 count once.''
              (Some (int_str expectedCount)) (Some (int_str walletCount))) ctx in
      Done (upd_next (\<lambda>pr. pr\<lparr>pr_registeredWallets := map_set account primaryStore wallets,
        pr_registeredWalletCount := walletCount\<rparr>) ctx))"

definition handle_PositionCreated :: "reducer_context \<Rightarrow> protocol_event \<Rightarrow> address \<Rightarrow> outcome" where
  "handle_PositionCreated ctx e account =
     (let ctx = alert_if (map_has (pr_positions (cx_next ctx)) account)
            (problem e IDENTIFIER_REUSE ''Wallet accounting position was created more than once.'' None None) ctx in
      Done (upd_next (set_position account (positionOrEmpty account (pr_positions (cx_next ctx)))) ctx))"

section \<open>Faucet and wallet balances\<close>

definition handle_FaucetGrant ::
  "reducer_context \<Rightarrow> protocol_event \<Rightarrow> address \<Rightarrow> asset_symbol \<Rightarrow> int \<Rightarrow> outcome" where
  "handle_FaucetGrant ctx e account asset amount =
     (if amount \<le> 0 then throwing ctx (RangeError ''faucet grant must be positive'')
      else adjustWalletAsset ctx account asset amount e)"

definition handle_FaucetConfigured :: "reducer_context \<Rightarrow> protocol_event \<Rightarrow> int \<Rightarrow> int \<Rightarrow> int \<Rightarrow> outcome" where
  "handle_FaucetConfigured ctx e trflGrant tusdGrant cooldownSeconds =
     (let ctx = alert_if (trflGrant \<le> 0 \<or> tusdGrant \<le> 0)
            (problem e EVENT_DATA ''Faucet grants must both be positive.'' None None) ctx in
      Done (upd_next (\<lambda>pr. pr\<lparr>pr_faucetTrflGrant := trflGrant, pr_faucetTusdGrant := tusdGrant,
        pr_faucetCooldownSeconds := cooldownSeconds\<rparr>) ctx))"

definition handle_PoolReserveBound :: "reducer_context \<Rightarrow> protocol_event \<Rightarrow> address \<Rightarrow> address \<Rightarrow> outcome" where
  "handle_PoolReserveBound ctx e reserveStore custodian =
     (let ctx = alert_if (pr_mockUsdPoolReserve (cx_next ctx) \<noteq> None
              \<or> reserveStore = ''0x0'' \<or> custodian = ''0x0'')
            (problem e IDENTIFIER_REUSE
              ''The one-shot tUSD pool reserve binding is invalid or repeated.'' None None) ctx in
      Done (upd_next (\<lambda>pr. pr\<lparr>pr_mockUsdPoolReserve := Some reserveStore\<rparr>) ctx))"

definition handle_WalletTransfer ::
  "event_group \<Rightarrow> reducer_context \<Rightarrow> protocol_event \<Rightarrow> address \<Rightarrow> address \<Rightarrow> int \<Rightarrow> outcome" where
  "handle_WalletTransfer g ctx e from_a to_a amount =
     (if amount \<le> 0 then throwing ctx (RangeError ''wallet transfer must be positive'')
      else
        let debits = nativeDebits (gr_events g);
            credits = nativeCredits (gr_events g);
            matchingDebit = filter (\<lambda>d. d = (from_a, amount)) debits;
            matchingCredit = filter (\<lambda>c. c = (to_a, amount)) credits;
            ctx = alert_if (debits \<noteq> [] \<and> length matchingDebit \<noteq> 1)
              (problem e DOUBLE_COUNTING
                ''Router sender receipt disagrees with the native eligible-store debit.'' None None) ctx;
            ctx = alert_if (credits \<noteq> [] \<and> length matchingCredit \<noteq> 1)
              (problem e DOUBLE_COUNTING
                ''Router recipient receipt disagrees with the native eligible-store credit.'' None None) ctx in
        Done ctx)"

definition handle_EligibleBalanceDebited :: "reducer_context \<Rightarrow> protocol_event \<Rightarrow> address \<Rightarrow> int \<Rightarrow> outcome" where
  "handle_EligibleBalanceDebited ctx e account amount =
     (if amount \<le> 0 then throwing ctx (RangeError ''eligible-balance debit must be positive'')
      else adjustWalletAsset ctx account TRFL (- amount) e)"

definition handle_EligibleBalanceCredited :: "reducer_context \<Rightarrow> protocol_event \<Rightarrow> address \<Rightarrow> int \<Rightarrow> outcome" where
  "handle_EligibleBalanceCredited ctx e account amount =
     (if amount \<le> 0 then throwing ctx (RangeError ''eligible-balance credit must be positive'')
      else adjustWalletAsset ctx account TRFL amount e)"

definition handle_RewardsClaimed :: "reducer_context \<Rightarrow> protocol_event \<Rightarrow> address \<Rightarrow> int \<Rightarrow> outcome" where
  "handle_RewardsClaimed ctx e account amount =
     (if amount \<le> 0 then throwing ctx (RangeError ''claimed reward amount must be positive'')
      else
        let current = positionOrEmpty account (pr_positions (cx_next ctx)) in
        attempt ctx (checkedMoveU256Add (ip_lifetimeClaimed current) amount ''wallet lifetime claimed'') (\<lambda>total.
        Done (upd_next (set_position account (current\<lparr>ip_lifetimeClaimed := total\<rparr>)) ctx)))"

section \<open>Custody\<close>

definition handle_CustodyAdapterRegistered ::
  "reducer_context \<Rightarrow> protocol_event \<Rightarrow> custody_adapter_registered \<Rightarrow> outcome" where
  "handle_CustodyAdapterRegistered ctx e a =
     (let custody = pr_custody (cx_next ctx);
          ctx = alert_if (ca_adapterId a \<le> 0 \<or> ca_firstEpoch a \<noteq> 1
              \<or> cu_adapterId custody \<noteq> None \<or> cu_reserveStore custody \<noteq> None
              \<or> map_has (pr_rewardVaultToEpoch (cx_next ctx)) (ca_lpRewardVault a))
            (problem e IDENTIFIER_REUSE
              ''Canonical custody adapter, reserve, or first LP vault was registered more than once.'' None None) ctx in
      Done (upd_next (\<lambda>pr. pr\<lparr>pr_custody := (pr_custody pr)\<lparr>
        cu_adapterId := Some (ca_adapterId a),
        cu_reserveStore := Some (ca_reserveStore a),
        cu_activeRouteEpoch := Some (ca_firstEpoch a),
        cu_activeLpRewardVault := Some (ca_lpRewardVault a)\<rparr>\<rparr>) ctx))"

text \<open>
  The first condition of \<open>CustodyEpochRouteOpened\<close> is a short-circuit disjunction whose last operand
  calls \<open>custodyPending\<close>: it is evaluated, and can throw, only when the others are false.
\<close>

definition routeBindingBroken :: "protocol_projection \<Rightarrow> custody_epoch_route_opened \<Rightarrow> bool result" where
  "routeBindingBroken pr r =
     (if cu_adapterId (pr_custody pr) \<noteq> Some (ro_adapterId r)
        \<or> cu_reserveStore (pr_custody pr) \<noteq> Some (ro_reserveStore r)
        \<or> (case map_get (pr_lpEpochs pr) (ro_epoch r) of
             None \<Rightarrow> True
           | Some ep \<Rightarrow> ep_rewardVault ep \<noteq> ro_lpRewardVault r \<or> ep_status ep \<noteq> Active)
        \<or> pr_activeLpEpoch pr \<noteq> Some (ro_epoch r)
        \<or> cu_shares (pr_custody pr) \<noteq> 0
      then Inr True
      else rbind (custodyPending pr) (\<lambda>pending. Inr (pending \<noteq> 0)))"

definition handle_CustodyEpochRouteOpened ::
  "reducer_context \<Rightarrow> protocol_event \<Rightarrow> custody_epoch_route_opened \<Rightarrow> outcome" where
  "handle_CustodyEpochRouteOpened ctx e r =
     attempt ctx (routeBindingBroken (cx_next ctx) r) (\<lambda>broken.
     let ctx = alert_if broken
           (problem e VAULT_BINDING
             ''Fresh custody route does not continue the immutable adapter/reserve/epoch binding.'' None None) ctx;
         ctx = alert_if (case cu_activeRouteEpoch (pr_custody (cx_next ctx)) of
               None \<Rightarrow> False | Some ae \<Rightarrow> ro_epoch r \<noteq> ae + 1)
           (problem e OLD_EPOCH_ROUTE ''Custody route epochs must advance exactly once.'' None None) ctx;
         custody = pr_custody (cx_next ctx) in
     if cu_correction custody < 0 then
       throwing ctx (RangeError ''custody route correction cannot be negative during residue normalization'')
     else
       attempt ctx (checkedMoveU256Multiply (cu_claimed custody) REFLECTION_MAGNITUDE ''custody normalized claim'')
         (\<lambda>normalizedCustodyClaim.
       attempt ctx (checkedMoveU256Subtract (cu_correction custody) normalizedCustodyClaim ''custody route residue'')
         (\<lambda>expectedResidue.
       let ctx = alert_if (expectedResidue < 0 \<or> expectedResidue \<ge> REFLECTION_MAGNITUDE
               \<or> ro_retiredResidueMagnified r \<noteq> expectedResidue)
             (problem e CUSTODY_ACCOUNTING
               ''Custody route did not retire exactly the prior epoch's fractional magnified residue.''
               (Some (int_str expectedResidue)) (Some (int_str (ro_retiredResidueMagnified r)))) ctx in
       attempt ctx (checkedMoveSignedU256SubtractUnsigned (pr_aggregateCorrection (cx_next ctx))
           (ro_retiredResidueMagnified r) ''aggregate custody residue correction'') (\<lambda>aggregateCorrection.
       attempt ctx (checkedMoveSignedU256SubtractUnsigned (cu_correction custody)
           (ro_retiredResidueMagnified r) ''custody residue correction'') (\<lambda>correction.
       Done (upd_next (\<lambda>pr. pr\<lparr>
         pr_aggregateCorrection := aggregateCorrection,
         pr_custody := (pr_custody pr)\<lparr>
           cu_activeRouteEpoch := Some (ro_epoch r),
           cu_activeLpRewardVault := Some (ro_lpRewardVault r),
           cu_correction := correction\<rparr>\<rparr>) ctx))))))"

definition handle_CustodySharesChanged ::
  "reducer_context \<Rightarrow> protocol_event \<Rightarrow> custody_shares_changed \<Rightarrow> outcome" where
  "handle_CustodySharesChanged ctx e c =
     (if cs_amount c \<le> 0 then throwing ctx (RangeError ''custody share mutation must be positive'')
      else
        let delta = (if cs_added c then cs_amount c else - cs_amount c);
            custody = pr_custody (cx_next ctx) in
        if cu_shares custody + delta < 0 then throwing ctx (RangeError ''custody shares cannot underflow'')
        else
          attempt ctx (checkedMoveU256Multiply (cs_amount c) (pr_currentIndex (cx_next ctx)) ''custody correction delta'')
            (\<lambda>correctionDelta.
          attempt ctx
            (if cs_added c
             then checkedMoveSignedU256SubtractUnsigned (cu_correction custody) correctionDelta ''custody correction''
             else checkedMoveSignedU256AddUnsigned (cu_correction custody) correctionDelta ''custody correction'')
            (\<lambda>correction.
          attempt ctx
            (if cs_added c
             then checkedMoveSignedU256SubtractUnsigned (pr_aggregateCorrection (cx_next ctx)) correctionDelta
               ''aggregate custody correction''
             else checkedMoveSignedU256AddUnsigned (pr_aggregateCorrection (cx_next ctx)) correctionDelta
               ''aggregate custody correction'')
            (\<lambda>aggregateCorrection.
          let custody = custody\<lparr>cu_shares := cu_shares custody + delta, cu_correction := correction\<rparr>;
              ctx = upd_next (\<lambda>pr. pr\<lparr>pr_custody := custody,
                pr_eligibleSupply := pr_eligibleSupply pr + delta,
                pr_aggregateCorrection := aggregateCorrection\<rparr>) ctx;
              ctx = alert_if (cu_shares custody \<noteq> cs_custodyShares c
                  \<or> pr_eligibleSupply (cx_next ctx) \<noteq> cs_globalShares c)
                (problem e CUSTODY_ACCOUNTING ''Custody/global post-mutation shares disagree with replay.''
                  (Some (int_str (cu_shares custody) @ ''/'' @ int_str (pr_eligibleSupply (cx_next ctx))))
                  (Some (int_str (cs_custodyShares c) @ ''/'' @ int_str (cs_globalShares c)))) ctx in
          Done ctx))))"

definition opt_int_str :: "int option \<Rightarrow> string" where
  "opt_int_str v = (case v of None \<Rightarrow> ''none'' | Some x \<Rightarrow> int_str x)"

definition opt_str :: "string option \<Rightarrow> string" where
  "opt_str v = (case v of None \<Rightarrow> ''none'' | Some s \<Rightarrow> s)"

text \<open>
  \<open>CustodyRewardsRouted\<close>. Unlike the other users of \<open>requireEpoch\<close>, this case goes on when the
  epoch is unknown, after the alert.
\<close>

definition routeVaultAlerts ::
  "reducer_context \<Rightarrow> protocol_event \<Rightarrow> custody_rewards_routed \<Rightarrow> reducer_context" where
  "routeVaultAlerts ctx e r =
     (let ep = map_get (pr_lpEpochs (cx_next ctx)) (cr_epoch r);
          custody = pr_custody (cx_next ctx);
          ctx = alert_if (ep = None) (problem e LP_ACCOUNTING
            (''LP event references unknown epoch '' @ int_str (cr_epoch r) @ ''.'') None None) ctx;
          ctx = alert_if (pr_activeLpEpoch (cx_next ctx) \<noteq> Some (cr_epoch r)
              \<or> cu_activeRouteEpoch custody \<noteq> Some (cr_epoch r))
            (problem e OLD_EPOCH_ROUTE ''Custody rewards were routed to a non-active LP/custody epoch.''
              (Some (opt_int_str (pr_activeLpEpoch (cx_next ctx)) @ ''/'' @ opt_int_str (cu_activeRouteEpoch custody)))
              (Some (int_str (cr_epoch r)))) ctx;
          ctx = (case ep of None \<Rightarrow> ctx | Some ep \<Rightarrow>
            alert_if (ep_rewardVault ep \<noteq> cr_lpRewardVault r)
              (problem e VAULT_BINDING ''Custody route vault disagrees with the epoch's immutable vault binding.''
                (Some (ep_rewardVault ep)) (Some (cr_lpRewardVault r))) ctx);
          ctx = alert_if (cu_activeLpRewardVault custody \<noteq> Some (cr_lpRewardVault r))
            (problem e VAULT_BINDING ''Custody route does not target the adapter's active LP vault.''
              (Some (opt_str (cu_activeLpRewardVault custody))) (Some (cr_lpRewardVault r))) ctx;
          ctx = (case cu_reserveStore custody of None \<Rightarrow> ctx | Some store \<Rightarrow>
            alert_if (store \<noteq> cr_reserveStore r)
              (problem e VAULT_BINDING ''Canonical custody reserve identifier changed after registration.''
                (Some store) (Some (cr_reserveStore r))) ctx) in
      ctx)"

definition handle_CustodyRewardsRouted ::
  "reducer_context \<Rightarrow> protocol_event \<Rightarrow> custody_rewards_routed \<Rightarrow> outcome" where
  "handle_CustodyRewardsRouted ctx e r =
     (let ctx = routeVaultAlerts ctx e r in
      attempt ctx (custodyPending (cx_next ctx)) (\<lambda>pending.
      let ctx = alert_if (cr_amount r \<noteq> pending \<or> cr_amount r \<le> 0)
            (problem e CUSTODY_ACCOUNTING ''Custody route must settle the exact whole pending amount.''
              (Some (int_str pending)) (Some (int_str (cr_amount r)))) ctx;
          custody = pr_custody (cx_next ctx) in
      attempt ctx (checkedMoveU256Add (cu_claimed custody) (cr_amount r) ''custody cumulative routed'') (\<lambda>claimed.
      let ctx = alert_if (claimed \<noteq> cr_totalRouted r)
            (problem e CUSTODY_ACCOUNTING ''Custody cumulative routed amount disagrees with replay.''
              (Some (int_str claimed)) (Some (int_str (cr_totalRouted r)))) ctx in
      attempt ctx (checkedMoveU256Add (cu_lifetimeRouted custody) (cr_amount r) ''custody lifetime routed'')
        (\<lambda>lifetimeRouted.
      attempt ctx (checkedMoveU256Add (pr_lifetimeCustodyRouted (cx_next ctx)) (cr_amount r)
        ''core lifetime custody routed'') (\<lambda>coreRouted.
      attempt ctx (checkedMoveU256Add (pr_rewardVaultPayouts (cx_next ctx)) (cr_amount r)
        ''core reward-vault payouts'') (\<lambda>payouts.
      Done (upd_next (\<lambda>pr. pr\<lparr>
        pr_custody := (pr_custody pr)\<lparr>
          cu_reserveStore := (case cu_reserveStore custody of
            Some s \<Rightarrow> Some s | None \<Rightarrow> Some (cr_reserveStore r)),
          cu_claimed := claimed,
          cu_lifetimeRouted := lifetimeRouted\<rparr>,
        pr_lifetimeCustodyRouted := coreRouted,
        pr_rewardVaultPayouts := payouts\<rparr>) ctx)))))))"

section \<open>Reflection fees and the global index\<close>

text \<open>The seller's debit, taken once per group by whichever of fee receipt and swap comes first.\<close>

definition debitSeller :: "reducer_context \<Rightarrow> protocol_event \<Rightarrow> swap_executed \<Rightarrow> outcome" where
  "debitSeller ctx e s =
     (if sw_direction s = Sell \<and> \<not> cx_sellWalletDebited ctx then
        andThen (adjustWalletAsset ctx (sw_account s) TRFL (- sw_grossAmount s) e) (\<lambda>ctx.
        Done (ctx\<lparr>cx_sellWalletDebited := True\<rparr>))
      else Done ctx)"

definition handle_ReflectionFeeCollected ::
  "event_group \<Rightarrow> reducer_context \<Rightarrow> protocol_event \<Rightarrow> reflection_fee_collected \<Rightarrow> outcome" where
  "handle_ReflectionFeeCollected g ctx e f =
     andThen (case swaps (gr_events g) of [] \<Rightarrow> Done ctx | (_, s) # _ \<Rightarrow> debitSeller ctx e s) (\<lambda>ctx.
     let expectedFee = bigint_quot (fc_grossAmount f * fc_feeBps f) BPS_DENOMINATOR;
         maximumFeeBps = (if is_v02 ctx then 500 else 100);
         ctx = alert_if (fc_feeBps f > maximumFeeBps
             \<or> fc_feeBps f \<noteq> pr_feeBps (cx_next ctx)
             \<or> fc_feeAmount f \<noteq> expectedFee
             \<or> fc_swapTxHash f \<noteq> ev_txHash e)
           (problem e FEE_FORMULA
             ''Reflection fee receipt does not match configured floor arithmetic and transaction identity.''
             None None) ctx in
     attempt ctx (checkedMoveU256Add (pr_rewardVaultCredits (cx_next ctx)) (fc_feeAmount f)
       ''core reward-vault credits'') (\<lambda>credits.
     attempt ctx (checkedMoveU256Add (pr_lifetimeSwapFees (cx_next ctx)) (fc_feeAmount f)
       ''core lifetime fees'') (\<lambda>fees.
     let ctx = upd_next (\<lambda>pr. pr\<lparr>pr_rewardVaultCredits := credits, pr_lifetimeSwapFees := fees\<rparr>) ctx in
     Done (ctx\<lparr>cx_pendingCoreFees := cx_pendingCoreFees ctx @
       [\<lparr>pf_event = e, pf_fee = f, pf_sharesAtCollection = pr_eligibleSupply (cx_next ctx)\<rparr>]\<rparr>))))"

definition handle_ReflectionIndexAdvanced ::
  "reducer_context \<Rightarrow> protocol_event \<Rightarrow> reflection_index_advanced \<Rightarrow> outcome" where
  "handle_ReflectionIndexAdvanced ctx e a =
     (case cx_pendingCoreFees ctx of
        [] \<Rightarrow> Done (alert_if True (problem e TRANSACTION_GROUP
          ''Global index advanced without a preceding fee receipt.'' None None) ctx)
      | pending # rest \<Rightarrow>
        let ctx = ctx\<lparr>cx_pendingCoreFees := rest\<rparr> in
        if pf_sharesAtCollection pending \<le> 0 then
          Done (alert_if True (problem e GLOBAL_INDEX
            ''Global index advanced with a zero denominator.'' None None) ctx)
        else
          attempt ctx (checkedMoveU256Multiply (fc_feeAmount (pf_fee pending)) REFLECTION_MAGNITUDE
            ''core index fee numerator'') (\<lambda>scaled.
          attempt ctx (checkedMoveU256Add scaled (pr_indexRemainder (cx_next ctx))
            ''core index numerator with remainder'') (\<lambda>numerator.
          attempt ctx (bigint_div numerator (pf_sharesAtCollection pending)) (\<lambda>quotient.
          attempt ctx (checkedMoveU256Add (pr_currentIndex (cx_next ctx)) quotient ''core reflection index'')
            (\<lambda>expectedIndex.
          let expectedRemainder = bigint_rem numerator (pf_sharesAtCollection pending);
              ctx = alert_if (ia_feeAmount a \<noteq> fc_feeAmount (pf_fee pending)
                  \<or> ia_previousIndex a \<noteq> pr_currentIndex (cx_next ctx)
                  \<or> ia_newIndex a \<noteq> expectedIndex
                  \<or> ia_indexRemainder a \<noteq> expectedRemainder
                  \<or> ia_eligibleSupply a \<noteq> pf_sharesAtCollection pending
                  \<or> ia_eligibleSupply a \<noteq> pr_eligibleSupply (cx_next ctx))
                (problem e GLOBAL_INDEX
                  ''Global index event disagrees with the independent fee/share calculation.''
                  (Some (int_str (pr_currentIndex (cx_next ctx)) @ ''/'' @ int_str expectedIndex @ ''/''
                    @ int_str expectedRemainder @ ''/'' @ int_str (pf_sharesAtCollection pending)))
                  (Some (int_str (ia_previousIndex a) @ ''/'' @ int_str (ia_newIndex a) @ ''/''
                    @ int_str (ia_indexRemainder a) @ ''/'' @ int_str (ia_eligibleSupply a)))) ctx in
          Done (upd_next (\<lambda>pr. pr\<lparr>pr_currentIndex := ia_newIndex a,
            pr_indexRemainder := ia_indexRemainder a\<rparr>) ctx))))))"

section \<open>Configuration and pause events of v0.1\<close>

definition handle_FeeConfigurationChanged :: "reducer_context \<Rightarrow> protocol_event \<Rightarrow> int \<Rightarrow> int \<Rightarrow> outcome" where
  "handle_FeeConfigurationChanged ctx e oldFeeBps newFeeBps =
     (let ctx = (if is_v02 ctx
          then alert_if True (problem e EVENT_DATA ''v0.2 does not permit fee changes after creation.'' None None) ctx
          else alert_if (oldFeeBps \<noteq> pr_feeBps (cx_next ctx) \<or> newFeeBps > 100)
            (problem e EVENT_DATA
              ''Fee configuration does not continue replayed state or exceeds 100 bps.'' None None) ctx) in
      Done (upd_next (\<lambda>pr. pr\<lparr>pr_feeBps := newFeeBps\<rparr>) ctx))"

definition handle_FaucetPauseChanged :: "reducer_context \<Rightarrow> protocol_event \<Rightarrow> bool \<Rightarrow> outcome" where
  "handle_FaucetPauseChanged ctx e paused =
     (let ctx = alert_if (is_v02 ctx)
            (problem e EVENT_DATA ''v0.2 has no faucet pause authority.'' None None) ctx in
      Done (upd_next (\<lambda>pr. pr\<lparr>pr_faucetPaused := paused\<rparr>) ctx))"

definition handle_SwapLimitsChanged ::
  "reducer_context \<Rightarrow> protocol_event \<Rightarrow> int \<Rightarrow> int \<Rightarrow> int \<Rightarrow> outcome" where
  "handle_SwapLimitsChanged ctx e ammFeeBps maximumGrossSwap maximumReserveBps =
     (let ctx = alert_if (is_v02 ctx)
            (problem e EVENT_DATA ''v0.2 swap limits are immutable and have no configuration event.'' None None) ctx in
      Done (upd_next (\<lambda>pr. pr\<lparr>pr_pool := (pr_pool pr)\<lparr>po_ammFeeBps := ammFeeBps,
        po_maximumGrossSwap := maximumGrossSwap, po_maximumReserveBps := maximumReserveBps\<rparr>\<rparr>) ctx))"

definition handle_LiquidityLimitsChanged ::
  "reducer_context \<Rightarrow> protocol_event \<Rightarrow> int \<Rightarrow> int \<Rightarrow> int \<Rightarrow> outcome" where
  "handle_LiquidityLimitsChanged ctx e maxRfl maxTusd maxShareBps =
     (let ctx = alert_if (is_v02 ctx)
            (problem e EVENT_DATA
              ''v0.2 liquidity limits are immutable and have no configuration event.'' None None) ctx;
          ctx = alert_if (maxRfl \<le> 0 \<or> maxTusd \<le> 0 \<or> maxShareBps \<le> 0 \<or> maxShareBps > BPS_DENOMINATOR)
            (problem e EVENT_DATA
              ''Liquidity contribution limits must be positive and the non-final withdrawal share limit must be between 1 and 10,000 bps.''
              None None) ctx in
      Done (upd_next (\<lambda>pr. pr\<lparr>pr_pool := (pr_pool pr)\<lparr>po_maximumRflContribution := maxRfl,
        po_maximumTusdContribution := maxTusd,
        po_maximumNonFinalWithdrawalShareBps := maxShareBps\<rparr>\<rparr>) ctx))"

definition handle_PauseStateChanged :: "reducer_context \<Rightarrow> protocol_event \<Rightarrow> bool \<Rightarrow> bool \<Rightarrow> outcome" where
  "handle_PauseStateChanged ctx e swapsPaused claimsPaused =
     (let ctx = alert_if (is_v02 ctx)
            (problem e EVENT_DATA ''v0.2 has no core pause authority.'' None None) ctx in
      Done (upd_next (\<lambda>pr. pr\<lparr>pr_swapsPaused := swapsPaused, pr_claimsPaused := claimsPaused\<rparr>) ctx))"

definition handle_PoolPauseChanged :: "reducer_context \<Rightarrow> protocol_event \<Rightarrow> pool_pause_changed \<Rightarrow> outcome" where
  "handle_PoolPauseChanged ctx e p =
     (let ctx = alert_if (is_v02 ctx)
            (problem e EVENT_DATA ''v0.2 has no pool pause or shutdown authority.'' None None) ctx in
      Done (upd_next (\<lambda>pr. pr\<lparr>pr_pool := (pr_pool pr)\<lparr>
        po_poolPaused := pp_poolPaused p,
        po_liquidityPaused := pp_liquidityPaused p,
        po_lpClaimsPaused := pp_lpClaimsPaused p,
        po_shutdownMode := pp_shutdownMode p\<rparr>\<rparr>) ctx))"

section \<open>Operational administrators\<close>

fun admin_of :: "admin_scope \<Rightarrow> operational_admins \<Rightarrow> address option" where
  "admin_of Scope_reflection_core a = oa_reflectionCore a"
| "admin_of Scope_test_assets a = oa_testAssets a"
| "admin_of Scope_test_amm a = oa_testAmm a"
| "admin_of (UnknownScope s) a = None"

fun set_admin :: "admin_scope \<Rightarrow> address \<Rightarrow> operational_admins \<Rightarrow> operational_admins" where
  "set_admin Scope_reflection_core x a = a\<lparr>oa_reflectionCore := Some x\<rparr>"
| "set_admin Scope_test_assets x a = a\<lparr>oa_testAssets := Some x\<rparr>"
| "set_admin Scope_test_amm x a = a\<lparr>oa_testAmm := Some x\<rparr>"
| "set_admin (UnknownScope s) x a = a"

definition admins_complete :: "operational_admins \<Rightarrow> bool" where
  "admins_complete a = (oa_reflectionCore a \<noteq> None \<and> oa_testAssets a \<noteq> None \<and> oa_testAmm a \<noteq> None)"

definition handle_OperationalAdminChanged ::
  "reducer_context \<Rightarrow> protocol_event \<Rightarrow> admin_scope \<Rightarrow> address \<Rightarrow> address \<Rightarrow> outcome" where
  "handle_OperationalAdminChanged ctx e scope oldAdmin newAdmin =
     (let ctx = alert_if (is_v02 ctx)
            (problem e EVENT_DATA ''v0.2 has no operational administrator or authority handoff.'' None None) ctx in
      case scope of
        UnknownScope s \<Rightarrow> Done (alert_if True (problem e OPERATIONAL_ADMIN
          ''Operational-admin event has an unsupported authority scope.''
          (Some ''reflection-core|test-assets|test-amm'') (Some s)) ctx)
      | _ \<Rightarrow>
        let admins = pr_operationalAdmins (cx_next ctx);
            previous = admin_of scope admins;
            initializing = (previous = None \<and> is_zero_address oldAdmin);
            continuesAuthorityChain = (case previous of None \<Rightarrow> initializing | Some p \<Rightarrow> p = oldAdmin);
            hasPermanentExclusion = map_has (pr_protocolExcludedStores (cx_next ctx)) newAdmin;
            alignedToCore = (scope = Scope_reflection_core \<or> Some newAdmin = oa_reflectionCore admins);
            ctx = alert_if (\<not> continuesAuthorityChain \<or> is_zero_address newAdmin
                \<or> (\<not> initializing \<and> (\<not> hasPermanentExclusion \<or> \<not> alignedToCore)))
              (problem e OPERATIONAL_ADMIN
                ''Operational-admin handoff breaks authority continuity, lacks permanent primary-store exclusion, is not aligned to core, or targets zero.''
                (Some (case previous of Some p \<Rightarrow> p | None \<Rightarrow>
                  (case oa_reflectionCore admins of Some c \<Rightarrow> c | None \<Rightarrow> oldAdmin)))
                (Some newAdmin)) ctx;
            operationalAdmins = set_admin scope newAdmin admins in
        Done (upd_next (\<lambda>pr. pr\<lparr>pr_operationalAdmins := operationalAdmins,
          pr_deploymentReady := admins_complete operationalAdmins\<rparr>) ctx))"

end
