(* ===== verification/Reducer_Pool_Events.thy ===== *)
theory Reducer_Pool_Events
  imports Reducer_Core_Events
begin

text \<open>
  The replay loop's handlers for LP epochs, LP rewards, swaps and liquidity receipts, and the
  dispatch over all event types (\<open>packages/indexer/src/reducer.ts\<close>, the \<open>switch\<close> of
  \<open>reduceEventGroup\<close>).
\<close>

section \<open>LP epochs\<close>

definition freshEpoch :: "int \<Rightarrow> address \<Rightarrow> address \<Rightarrow> indexed_lp_epoch" where
  "freshEpoch epoch stateId rewardVault = \<lparr>
     ep_epoch = epoch, ep_stateId = stateId, ep_status = Active, ep_rewardVault = rewardVault,
     ep_index = 0, ep_indexRemainder = 0, ep_totalShares = 0, ep_aggregateCorrection = 0,
     ep_unallocatedRewards = 0, ep_roundingReserve = 0, ep_retiredResidueMagnified = 0,
     ep_terminalRoundingBaseUnits = None, ep_lifetimeReceived = 0, ep_lifetimeClaimed = 0,
     ep_quarantined = False, ep_positions = []\<rparr>"

definition handle_LpEpochOpened ::
  "reducer_context \<Rightarrow> protocol_event \<Rightarrow> int \<Rightarrow> address \<Rightarrow> address \<Rightarrow> outcome" where
  "handle_LpEpochOpened ctx e epoch stateId rewardVault =
     (let pr = cx_next ctx in
      if map_has (pr_lpEpochs pr) epoch
         \<or> map_get (pr_rewardVaultToEpoch pr) rewardVault \<noteq> None
         \<or> map_get (pr_stateIdToEpoch pr) stateId \<noteq> None
         \<or> pr_activeLpEpoch pr \<noteq> None
      then Done (alert_if True (problem e IDENTIFIER_REUSE
        ''LP epoch or reward-vault identifier was reused while another epoch is active.'' None None) ctx)
      else
        Done (upd_next (\<lambda>pr. (updateEpoch (freshEpoch epoch stateId rewardVault) pr)\<lparr>
          pr_rewardVaultToEpoch := map_set rewardVault epoch (pr_rewardVaultToEpoch pr),
          pr_stateIdToEpoch := map_set stateId epoch (pr_stateIdToEpoch pr),
          pr_activeLpEpoch := Some epoch\<rparr>) ctx))"

definition handle_LpEpochStatusChanged ::
  "reducer_context \<Rightarrow> protocol_event \<Rightarrow> int \<Rightarrow> lp_epoch_status \<Rightarrow> lp_epoch_status \<Rightarrow> outcome" where
  "handle_LpEpochStatusChanged ctx e epoch oldStatus newStatus =
     requireEpoch ctx e epoch (\<lambda>ep.
     let allowed = (oldStatus = Active \<and> newStatus = Claim_only);
         ctx = alert_if (\<not> allowed \<or> ep_status ep \<noteq> oldStatus)
           (problem e LP_ACCOUNTING
             ''LP epoch status transition is invalid or does not continue replayed state.'' None None) ctx;
         ctx = upd_next (updateEpoch (ep\<lparr>ep_status := newStatus\<rparr>)) ctx in
     if newStatus = Claim_only then
       let ctx = alert_if (pr_activeLpEpoch (cx_next ctx) \<noteq> Some epoch \<or> ep_totalShares ep \<noteq> 0)
             (problem e LP_ACCOUNTING ''Only an empty active epoch can become claim-only.'' None None) ctx in
       Done (upd_next (\<lambda>pr. pr\<lparr>pr_activeLpEpoch := None\<rparr>) ctx)
     else Done ctx)"

text \<open>The exit a residue retirement announces: a complete burn of the owner or a transfer by it.\<close>

definition isOwnerExit :: "int \<Rightarrow> address \<Rightarrow> protocol_event \<Rightarrow> bool" where
  "isOwnerExit epoch owner e = (case ev_body e of
       LpSharesChanged c \<Rightarrow> \<not> sc_added c \<and> sc_epoch c = epoch \<and> sc_owner c = owner \<and> sc_ownerShares c = 0
     | LpSharesTransferred t \<Rightarrow> st_epoch t = epoch \<and> st_sender t = owner
     | _ \<Rightarrow> False)"

definition exitAmount :: "protocol_event option \<Rightarrow> int" where
  "exitAmount oe = (case oe of None \<Rightarrow> 0 | Some e \<Rightarrow> (case ev_body e of
       LpSharesChanged c \<Rightarrow> sc_amount c
     | LpSharesTransferred t \<Rightarrow> st_amount t
     | _ \<Rightarrow> 0))"

definition lpResidueRounding :: "indexed_lp_epoch \<Rightarrow> string \<Rightarrow> int \<Rightarrow> int result" where
  "lpResidueRounding ep label unallocated =
     rbind (expectedLpVaultBalance ep) (\<lambda>vault.
     rbind (lpIndexedLiability ep) (\<lambda>liability.
     checkedVaultRemainder vault liability unallocated label))"

definition handle_LpFractionalResidueRetired ::
  "event_group \<Rightarrow> reducer_context \<Rightarrow> protocol_event \<Rightarrow> lp_residue_retired \<Rightarrow> outcome" where
  "handle_LpFractionalResidueRetired g ctx e r =
     requireEpoch ctx e (rr_epoch r) (\<lambda>ep.
     let found = map_get (ep_positions ep) (rr_owner r);
         exit = find (\<lambda>c. isOwnerExit (rr_epoch r) (rr_owner r) c \<and> ev_eventIndex c > ev_eventIndex e) (gr_events g);
         current = lpPositionOrEmpty (rr_owner r) (ep_positions ep) in
     if rr_epoch r \<le> 0 \<or> rr_epoch r > MOVE_U64_MAX
        \<or> rr_residueMagnified r \<le> 0 \<or> rr_residueMagnified r > MOVE_U256_MAX
        \<or> rr_cumulativeRetiredResidueMagnified r > MOVE_U256_MAX
        \<or> rr_roundingReserveBaseUnits r > MOVE_U128_MAX
        \<or> found = None \<or> lp_shares current \<le> 0 \<or> exitAmount exit \<noteq> lp_shares current
     then Done (alert_if True (problem e LP_ACCOUNTING
       ''Fractional residue must use exact u64/u128/u256 units and precede a complete non-zero position exit.''
       None None) ctx)
     else
       attempt ctx (checkedMoveU256Multiply (lp_shares current) (ep_index ep) ''LP exit correction delta'') (\<lambda>exitDelta.
       attempt ctx (checkedMoveSignedU256AddUnsigned (lp_correction current) exitDelta ''LP zero-share correction'')
         (\<lambda>correctionAfterExit.
       if correctionAfterExit < 0 then throwing ctx (RangeError ''LP zero-share correction cannot remain negative'')
       else
         attempt ctx (checkedMoveU256Multiply (lp_claimed current) REFLECTION_MAGNITUDE ''LP normalized claim'')
           (\<lambda>normalizedClaim.
         attempt ctx (checkedMoveU256Subtract correctionAfterExit normalizedClaim ''LP fractional residue'')
           (\<lambda>expectedResidue.
         attempt ctx (checkedMoveU256Add (ep_retiredResidueMagnified ep) expectedResidue
           ''LP cumulative retired residue'') (\<lambda>expectedCumulative.
         if expectedResidue \<le> 0 \<or> expectedResidue \<ge> REFLECTION_MAGNITUDE
            \<or> expectedCumulative > MOVE_U256_MAX
            \<or> rr_residueMagnified r \<noteq> expectedResidue
            \<or> rr_cumulativeRetiredResidueMagnified r \<noteq> expectedCumulative
         then Done (alert_if True (problem e LP_ACCOUNTING
           ''Fractional residue receipt disagrees with the zero-share correction normalization.''
           (Some (int_str expectedResidue @ ''/'' @ int_str expectedCumulative))
           (Some (int_str (rr_residueMagnified r) @ ''/'' @ int_str (rr_cumulativeRetiredResidueMagnified r)))) ctx)
         else
           attempt ctx (checkedMoveSignedU256SubtractUnsigned (lp_correction current) expectedResidue
             ''LP retired owner residue correction'') (\<lambda>correction.
           attempt ctx (checkedMoveSignedU256SubtractUnsigned (ep_aggregateCorrection ep) expectedResidue
             ''LP retired aggregate residue correction'') (\<lambda>aggregateCorrection.
           let withoutRounding = ep\<lparr>ep_aggregateCorrection := aggregateCorrection,
                 ep_retiredResidueMagnified := expectedCumulative,
                 ep_positions := map_set (rr_owner r) (current\<lparr>lp_correction := correction\<rparr>) (ep_positions ep)\<rparr> in
           attempt ctx (lpResidueRounding withoutRounding ''LP residue rounding reserve''
             (ep_unallocatedRewards withoutRounding)) (\<lambda>expectedRounding.
           let ctx = alert_if (expectedRounding < 0 \<or> expectedRounding > MOVE_U128_MAX
                   \<or> rr_roundingReserveBaseUnits r \<noteq> expectedRounding)
                 (problem e LP_VAULT_BACKING
                   ''Fractional residue retirement reports the wrong physical rounding reserve.''
                   (Some (int_str expectedRounding)) (Some (int_str (rr_roundingReserveBaseUnits r)))) ctx in
           Done (upd_next (updateEpoch (withoutRounding\<lparr>ep_roundingReserve := expectedRounding\<rparr>)) ctx))))))))))"

definition handle_LpEpochTerminalDustClassified ::
  "reducer_context \<Rightarrow> protocol_event \<Rightarrow> lp_terminal_dust \<Rightarrow> outcome" where
  "handle_LpEpochTerminalDustClassified ctx e d =
     requireEpoch ctx e (td_epoch d) (\<lambda>ep.
     attempt ctx (expectedLpVaultBalance ep) (\<lambda>expectedVaultBalance.
     attempt ctx (lpIndexedLiability ep) (\<lambda>calculatedLiability.
     let ctx = alert_if (td_epoch d \<le> 0 \<or> td_epoch d > MOVE_U64_MAX
             \<or> td_terminalRoundingBaseUnits d > MOVE_U128_MAX
             \<or> td_retiredResidueMagnified d > MOVE_U256_MAX
             \<or> td_lifetimeReceivedBaseUnits d > MOVE_U256_MAX
             \<or> td_lifetimeClaimedBaseUnits d > MOVE_U256_MAX
             \<or> ep_status ep \<noteq> Claim_only
             \<or> ep_terminalRoundingBaseUnits ep \<noteq> None
             \<or> ep_rewardVault ep \<noteq> td_rewardVault d
             \<or> ep_totalShares ep \<noteq> 0
             \<or> ep_quarantined ep
             \<or> ep_unallocatedRewards ep \<noteq> 0
             \<or> calculatedLiability \<noteq> 0
             \<or> expectedVaultBalance \<noteq> ep_roundingReserve ep
             \<or> td_terminalRoundingBaseUnits d \<noteq> ep_roundingReserve ep
             \<or> td_retiredResidueMagnified d \<noteq> ep_retiredResidueMagnified ep
             \<or> td_lifetimeReceivedBaseUnits d \<noteq> ep_lifetimeReceived ep
             \<or> td_lifetimeClaimedBaseUnits d \<noteq> ep_lifetimeClaimed ep)
           (problem e LP_ACCOUNTING
             ''Terminal dust classification must exactly match the healthy zero-share claim-only epoch and its immutable vault/lifetime evidence.''
             None None) ctx in
     Done (upd_next (updateEpoch (ep\<lparr>ep_terminalRoundingBaseUnits := Some (ep_roundingReserve ep)\<rparr>)) ctx))))"

section \<open>LP shares and LP rewards\<close>

definition handle_LpSharesTransferred ::
  "reducer_context \<Rightarrow> protocol_event \<Rightarrow> lp_shares_transferred \<Rightarrow> outcome" where
  "handle_LpSharesTransferred ctx e t =
     requireEpoch ctx e (st_epoch t) (\<lambda>ep.
     if ep_status ep \<noteq> Active \<or> ep_quarantined ep \<or> st_amount t \<le> 0 then
       Done (alert_if True (problem e LP_ACCOUNTING
         ''LP transfer must be positive and target the active epoch.'' None None) ctx)
     else
       let wallets = pr_registeredWallets (cx_next ctx);
           ctx = alert_if (\<not> map_has wallets (st_sender t) \<or> \<not> map_has wallets (st_recipient t))
             (problem e WALLET_REGISTRATION
               ''LP sender and recipient must both have WalletRegistered evidence earlier in replay order.''
               (Some ''registered sender and recipient'') (Some (st_sender t @ ''/'' @ st_recipient t))) ctx;
           sender = lpPositionOrEmpty (st_sender t) (ep_positions ep);
           recipient = lpPositionOrEmpty (st_recipient t) (ep_positions ep) in
       if lp_shares sender < st_amount t \<or> st_sender t = st_recipient t then
         Done (alert_if True (problem e LP_ACCOUNTING
           ''LP transfer would underflow or transfer to self.'' None None) ctx)
       else
         attempt ctx (checkedMoveU256Multiply (st_amount t) (ep_index ep) ''LP transfer correction delta'') (\<lambda>delta.
         attempt ctx (checkedMoveSignedU256AddUnsigned (lp_correction sender) delta ''LP transfer sender correction'')
           (\<lambda>senderCorrection.
         attempt ctx (checkedMoveSignedU256SubtractUnsigned (lp_correction recipient) delta
           ''LP transfer recipient correction'') (\<lambda>recipientCorrection.
         let nextPositions = map_set (st_recipient t)
               (recipient\<lparr>lp_shares := lp_shares recipient + st_amount t, lp_correction := recipientCorrection\<rparr>)
               (map_set (st_sender t)
                 (sender\<lparr>lp_shares := lp_shares sender - st_amount t, lp_correction := senderCorrection\<rparr>)
                 (ep_positions ep)) in
         Done (upd_next (updateEpoch (ep\<lparr>ep_positions := nextPositions\<rparr>)) ctx)))))"

text \<open>The first unconsumed custody route before an LP receipt, for its epoch, amount and vault.\<close>

definition matchingRoute ::
  "event_group \<Rightarrow> reducer_context \<Rightarrow> protocol_event \<Rightarrow> int \<Rightarrow> int \<Rightarrow> address \<Rightarrow>
   (protocol_event \<times> custody_rewards_routed) option" where
  "matchingRoute g ctx e epoch amount vault =
     find (\<lambda>(c, r). ev_id c \<notin> set (cx_consumedRoutes ctx)
        \<and> cr_epoch r = epoch \<and> cr_amount r = amount \<and> cr_lpRewardVault r = vault
        \<and> ev_eventIndex c < ev_eventIndex e) (routes (gr_events g))"

definition consumeRoute ::
  "(protocol_event \<times> custody_rewards_routed) option \<Rightarrow> critical_alert \<Rightarrow> reducer_context \<Rightarrow> reducer_context" where
  "consumeRoute route missing ctx = (case route of
       None \<Rightarrow> alert_if True missing ctx
     | Some (c, r) \<Rightarrow> ctx\<lparr>cx_consumedRoutes := cx_consumedRoutes ctx @ [ev_id c]\<rparr>)"

definition handle_LpRewardIndexAdvanced ::
  "event_group \<Rightarrow> reducer_context \<Rightarrow> protocol_event \<Rightarrow> lp_reward_index_advanced \<Rightarrow> outcome" where
  "handle_LpRewardIndexAdvanced g ctx e a =
     requireEpoch ctx e (la_epoch a) (\<lambda>ep.
     let ctx = consumeRoute (matchingRoute g ctx e (la_epoch a) (la_received a) (ep_rewardVault ep))
           (problem e ROUTE_PAIR ''LP index receipt has no preceding equal core custody route.'' None None) ctx;
         ctx = alert_if (pr_activeLpEpoch (cx_next ctx) \<noteq> Some (la_epoch a))
           (problem e OLD_EPOCH_ROUTE ''LP index advanced outside the active epoch.'' None None) ctx in
     if ep_totalShares ep \<le> 0 then
       Done (alert_if True (problem e LP_ACCOUNTING ''LP index cannot advance with zero shares.'' None None) ctx)
     else
       attempt ctx (checkedMoveU256Multiply (la_received a) REFLECTION_MAGNITUDE ''LP reward index numerator'') (\<lambda>scaled.
       attempt ctx (checkedMoveU256Add scaled (ep_indexRemainder ep) ''LP reward index numerator with remainder'')
         (\<lambda>numerator.
       attempt ctx (bigint_div numerator (ep_totalShares ep)) (\<lambda>quotient.
       attempt ctx (checkedMoveU256Add (ep_index ep) quotient ''LP reward index'') (\<lambda>expectedIndex.
       let expectedRemainder = bigint_rem numerator (ep_totalShares ep) in
       attempt ctx (checkedMoveU256Add (ep_lifetimeReceived ep) (la_received a) ''LP lifetime received'') (\<lambda>received.
       let nextEpoch = ep\<lparr>ep_index := la_newIndex a, ep_indexRemainder := la_indexRemainder a,
             ep_lifetimeReceived := received\<rparr> in
       attempt ctx (lpResidueRounding nextEpoch ''LP index rounding reserve'' (ep_unallocatedRewards nextEpoch))
         (\<lambda>calculatedRounding.
       let ctx = alert_if (la_previousIndex a \<noteq> ep_index ep
               \<or> la_newIndex a \<noteq> expectedIndex
               \<or> la_indexRemainder a \<noteq> expectedRemainder
               \<or> la_totalShares a \<noteq> ep_totalShares ep
               \<or> la_roundingReserve a \<noteq> calculatedRounding)
             (problem e LP_ACCOUNTING
               ''LP reward index or rounding receipt disagrees with independent arithmetic.''
               (Some (int_str (ep_index ep) @ ''/'' @ int_str expectedIndex @ ''/'' @ int_str expectedRemainder
                 @ ''/'' @ int_str (ep_totalShares ep) @ ''/'' @ int_str calculatedRounding))
               (Some (int_str (la_previousIndex a) @ ''/'' @ int_str (la_newIndex a) @ ''/'' @ int_str (la_indexRemainder a)
                 @ ''/'' @ int_str (la_totalShares a) @ ''/'' @ int_str (la_roundingReserve a)))) ctx in
       Done (upd_next (updateEpoch (nextEpoch\<lparr>ep_roundingReserve := calculatedRounding\<rparr>)) ctx))))))))"

definition handle_LpRewardQuarantined ::
  "event_group \<Rightarrow> reducer_context \<Rightarrow> protocol_event \<Rightarrow> lp_reward_quarantined \<Rightarrow> outcome" where
  "handle_LpRewardQuarantined g ctx e q =
     requireEpoch ctx e (qu_epoch q) (\<lambda>ep.
     let ctx = consumeRoute (matchingRoute g ctx e (qu_epoch q) (qu_amount q) (qu_rewardVault q))
           (problem e ROUTE_PAIR ''LP quarantine receipt has no preceding equal custody route.'' None None) ctx;
         ctx = alert_if (pr_activeLpEpoch (cx_next ctx) \<noteq> Some (qu_epoch q)
             \<or> ep_status ep \<noteq> Active \<or> ep_totalShares ep \<noteq> 0 \<or> ep_rewardVault ep \<noteq> qu_rewardVault q)
           (problem e LP_ACCOUNTING
             ''LP reward quarantine is valid only for the empty active epoch and its bound vault.'' None None) ctx;
         unallocatedRewards = ep_unallocatedRewards ep + qu_amount q;
         ctx = alert_if (unallocatedRewards \<noteq> qu_unallocatedRewards q)
           (problem e LP_ACCOUNTING ''LP quarantine cumulative unallocated amount disagrees with replay.''
             (Some (int_str unallocatedRewards)) (Some (int_str (qu_unallocatedRewards q)))) ctx in
     attempt ctx (checkedMoveU256Add (ep_lifetimeReceived ep) (qu_amount q) ''quarantined LP lifetime received'')
       (\<lambda>received.
     let nextEpoch = ep\<lparr>ep_lifetimeReceived := received, ep_unallocatedRewards := unallocatedRewards,
           ep_quarantined := True\<rparr> in
     attempt ctx (lpResidueRounding nextEpoch ''quarantined LP rounding reserve'' unallocatedRewards) (\<lambda>rounding.
     Done (upd_next (updateEpoch (nextEpoch\<lparr>ep_roundingReserve := rounding\<rparr>)) ctx))))"

definition handle_LpRewardsClaimed ::
  "reducer_context \<Rightarrow> protocol_event \<Rightarrow> lp_rewards_claimed \<Rightarrow> outcome" where
  "handle_LpRewardsClaimed ctx e c =
     requireEpoch ctx e (lc_epoch c) (\<lambda>ep.
     let current = lpPositionOrEmpty (lc_owner c) (ep_positions ep) in
     attempt ctx (lpPositionPending current ep) (\<lambda>pending.
     let ctx = alert_if (lc_amount c \<le> 0 \<or> lc_amount c > pending)
           (problem e LP_ACCOUNTING ''LP claim exceeds independently calculated pending rewards.''
             (Some (int_str pending)) (Some (int_str (lc_amount c)))) ctx in
     attempt ctx (checkedMoveU256Add (lp_claimed current) (lc_amount c) ''LP position cumulative claim'') (\<lambda>claimed.
     let ctx = alert_if (claimed \<noteq> lc_totalClaimed c)
           (problem e POSITION_ACCOUNTING ''LP position cumulative claim disagrees with replay.''
             (Some (int_str claimed)) (Some (int_str (lc_totalClaimed c)))) ctx in
     attempt ctx (checkedMoveU256Add (ep_lifetimeClaimed ep) (lc_amount c) ''LP lifetime claimed'') (\<lambda>lifetimeClaimed.
     let nextEpoch = ep\<lparr>ep_positions := map_set (lc_owner c) (current\<lparr>lp_claimed := claimed\<rparr>) (ep_positions ep),
           ep_lifetimeClaimed := lifetimeClaimed\<rparr>;
         ctx = upd_next (updateEpoch nextEpoch) ctx in
     adjustWalletAsset ctx (lc_owner c) TRFL (lc_amount c) e))))"

section \<open>Swaps and liquidity receipts\<close>

text \<open>The swap arithmetic of the code, on the replayed reserves before the swap.\<close>

definition handle_SwapExecuted :: "reducer_context \<Rightarrow> protocol_event \<Rightarrow> swap_executed \<Rightarrow> outcome" where
  "handle_SwapExecuted ctx e s =
     andThen (debitSeller ctx e s) (\<lambda>ctx.
     andThen
       (if sw_direction s = Sell
        then adjustWalletAsset ctx (sw_account s) TUSD (sw_netUserReceipt s) e
        else andThen (adjustWalletAsset ctx (sw_account s) TUSD (- sw_grossAmount s) e) (\<lambda>ctx.
             adjustWalletAsset ctx (sw_account s) TRFL (sw_netUserReceipt s) e)) (\<lambda>ctx.
     let sell = (sw_direction s = Sell);
         feeBps = pr_feeBps (cx_next ctx);
         pool = pr_pool (cx_next ctx);
         expectedReflectionFee = (if sell
           then bigint_quot (sw_grossAmount s * feeBps) BPS_DENOMINATOR
           else bigint_quot (sw_grossPoolOutput s * feeBps) BPS_DENOMINATOR);
         expectedReserveInput = (if sell then sw_grossAmount s - sw_reflectionFee s else sw_grossAmount s);
         expectedTrflReserve = (if sell
           then po_trflReserve pool + sw_netReserveInput s else po_trflReserve pool - sw_grossPoolOutput s);
         expectedTusdReserve = (if sell
           then po_tusdReserve pool - sw_grossPoolOutput s else po_tusdReserve pool + sw_netReserveInput s);
         ammGrossInput = (if sell then sw_netReserveInput s else sw_grossAmount s);
         invariantInput = bigint_quot (ammGrossInput * (BPS_DENOMINATOR - po_ammFeeBps pool)) BPS_DENOMINATOR;
         expectedAmmFee = ammGrossInput - invariantInput;
         reserveIn = (if sell then po_trflReserve pool else po_tusdReserve pool);
         reserveOut = (if sell then po_tusdReserve pool else po_trflReserve pool) in
     attempt ctx (bigint_div (reserveOut * invariantInput) (reserveIn + invariantInput)) (\<lambda>expectedGrossOutput.
     let expectedNetReceipt = (if sell then expectedGrossOutput else expectedGrossOutput - expectedReflectionFee);
         ctx = alert_if (sw_reflectionFee s \<noteq> expectedReflectionFee
             \<or> sw_netReserveInput s \<noteq> expectedReserveInput
             \<or> sw_ammFee s \<noteq> expectedAmmFee
             \<or> sw_grossPoolOutput s \<noteq> expectedGrossOutput
             \<or> sw_netUserReceipt s \<noteq> expectedNetReceipt)
           (problem e FEE_FORMULA
             ''Swap receipt disagrees with reflection/AMM fee and constant-product arithmetic.'' None None) ctx;
         ctx = alert_if (sw_trflReserveAfter s \<noteq> expectedTrflReserve \<or> sw_tusdReserveAfter s \<noteq> expectedTusdReserve)
           (problem e POOL_RESERVES ''Swap reserve movement does not match its direction and amounts.''
             (Some (int_str expectedTrflReserve @ ''/'' @ int_str expectedTusdReserve))
             (Some (int_str (sw_trflReserveAfter s) @ ''/'' @ int_str (sw_tusdReserveAfter s)))) ctx in
     Done (upd_next (\<lambda>pr. pr\<lparr>pr_pool := (pr_pool pr)\<lparr>po_trflReserve := sw_trflReserveAfter s,
       po_tusdReserve := sw_tusdReserveAfter s\<rparr>\<rparr>) ctx))))"

datatype liquidity_kind = Seeded | Added | Removed bool

definition handle_Liquidity ::
  "event_group \<Rightarrow> reducer_context \<Rightarrow> protocol_event \<Rightarrow> liquidity_kind \<Rightarrow> liquidity_receipt \<Rightarrow> outcome" where
  "handle_Liquidity g ctx e kind q =
     (let removed = (case kind of Removed _ \<Rightarrow> True | _ \<Rightarrow> False);
          finalExit = (case kind of Removed f \<Rightarrow> f | _ \<Rightarrow> False);
          ctx = alert_if (is_v02 ctx \<and> kind = Seeded
              \<and> (lq_epoch q \<noteq> 1 \<or> pr_lifecycle (cx_next ctx) \<noteq> Some LIVE \<or> po_seeded (pr_pool (cx_next ctx))))
            (problem e EVENT_DATA
              ''v0.2 permits only the launch transaction's first and only liquidity seed.'' None None) ctx;
          oneSidedRemoval = (removed \<and> ((lq_trflAmount q = 0) \<noteq> (lq_tusdAmount q = 0)));
          invalidAmounts = (lq_lpShares q \<le> 0 \<or> lq_trflAmount q < 0 \<or> lq_tusdAmount q < 0
            \<or> (lq_trflAmount q = 0 \<and> lq_tusdAmount q = 0)
            \<or> (\<not> removed \<and> (lq_trflAmount q = 0 \<or> lq_tusdAmount q = 0))
            \<or> (oneSidedRemoval \<and> \<not> po_shutdownMode (pr_pool (gr_prior g))));
          ctx = alert_if invalidAmounts
            (problem e EVENT_DATA
              ''Liquidity shares must be positive; both assets are required except a one-sided, non-empty shutdown removal.''
              None None) ctx;
          sign = (if removed then - 1 else 1);
          expectedTrfl = po_trflReserve (pr_pool (cx_next ctx)) + sign * lq_trflAmount q;
          expectedTusd = po_tusdReserve (pr_pool (cx_next ctx)) + sign * lq_tusdAmount q;
          ctx = alert_if (lq_trflReserveAfter q \<noteq> expectedTrfl \<or> lq_tusdReserveAfter q \<noteq> expectedTusd)
            (problem e POOL_RESERVES ''Liquidity receipt reserve totals disagree with replay.''
              (Some (int_str expectedTrfl @ ''/'' @ int_str expectedTusd))
              (Some (int_str (lq_trflReserveAfter q) @ ''/'' @ int_str (lq_tusdReserveAfter q)))) ctx in
      andThen
        (case kind of
           Seeded \<Rightarrow> Done ctx
         | Added \<Rightarrow>
             andThen (adjustWalletAsset ctx (lq_provider q) TRFL (- lq_trflAmount q) e) (\<lambda>ctx.
             adjustWalletAsset ctx (lq_provider q) TUSD (- lq_tusdAmount q) e)
         | Removed _ \<Rightarrow>
             andThen (if lq_trflAmount q > 0
               then adjustWalletAsset ctx (lq_provider q) TRFL (lq_trflAmount q) e else Done ctx) (\<lambda>ctx.
             if lq_tusdAmount q > 0
               then adjustWalletAsset ctx (lq_provider q) TUSD (lq_tusdAmount q) e else Done ctx)) (\<lambda>ctx.
      Done (upd_next (\<lambda>pr. pr\<lparr>pr_pool := (pr_pool pr)\<lparr>
        po_trflReserve := lq_trflReserveAfter q,
        po_tusdReserve := lq_tusdReserveAfter q,
        po_seeded := (if kind = Seeded then True else if finalExit then False else po_seeded (pr_pool pr)),
        po_shutdownMode := (if finalExit then False else po_shutdownMode (pr_pool pr))\<rparr>\<rparr>) ctx)))"

section \<open>Dispatch\<close>

definition handle_Unknown :: "reducer_context \<Rightarrow> protocol_event \<Rightarrow> string \<Rightarrow> outcome" where
  "handle_Unknown ctx e ty = Done (alert_if True (problem e EVENT_DATA
     ''Event has an unsupported runtime type and cannot be checkpointed.''
     (Some ''known ProtocolEvent type'') (Some ty)) ctx)"

definition handle_event :: "event_group \<Rightarrow> reducer_context \<Rightarrow> protocol_event \<Rightarrow> outcome" where
  "handle_event g ctx e = (case ev_body e of
       ProtocolInitialized i \<Rightarrow> handle_ProtocolInitialized ctx e i
     | TokenCreated t \<Rightarrow> handle_TokenCreated ctx e t
     | LaunchSealed l \<Rightarrow> handle_LaunchSealed ctx e l
     | PoolClosed c \<Rightarrow> handle_PoolClosed ctx e c
     | ProtocolPrimaryStoreExcluded account store remaining \<Rightarrow>
         handle_ProtocolPrimaryStoreExcluded ctx e account store remaining
     | OperationalPrimaryStoreExcluded account store \<Rightarrow> handle_OperationalPrimaryStoreExcluded ctx e account store
     | WalletRegistered account store n \<Rightarrow> handle_WalletRegistered ctx e account store n
     | PositionCreated account \<Rightarrow> handle_PositionCreated ctx e account
     | FaucetGrant account asset amount \<Rightarrow> handle_FaucetGrant ctx e account asset amount
     | FaucetConfigured trfl tusd cooldown \<Rightarrow> handle_FaucetConfigured ctx e trfl tusd cooldown
     | PoolReserveBound store custodian \<Rightarrow> handle_PoolReserveBound ctx e store custodian
     | WalletTransfer from_a to_a asset amount \<Rightarrow> handle_WalletTransfer g ctx e from_a to_a amount
     | EligibleBalanceDebited account amount \<Rightarrow> handle_EligibleBalanceDebited ctx e account amount
     | EligibleBalanceCredited account amount \<Rightarrow> handle_EligibleBalanceCredited ctx e account amount
     | RewardsMaterialized account amount total_c _ \<Rightarrow> materializeWallet ctx e account amount total_c
     | RewardsClaimed account amount _ \<Rightarrow> handle_RewardsClaimed ctx e account amount
     | CustodyAdapterRegistered a \<Rightarrow> handle_CustodyAdapterRegistered ctx e a
     | CustodyEpochRouteOpened r \<Rightarrow> handle_CustodyEpochRouteOpened ctx e r
     | ReflectionFeeCollected f \<Rightarrow> handle_ReflectionFeeCollected g ctx e f
     | ReflectionIndexAdvanced a \<Rightarrow> handle_ReflectionIndexAdvanced ctx e a
     | CustodySharesChanged c \<Rightarrow> handle_CustodySharesChanged ctx e c
     | CustodyRewardsRouted r \<Rightarrow> handle_CustodyRewardsRouted ctx e r
     | LpEpochOpened epoch state vault \<Rightarrow> handle_LpEpochOpened ctx e epoch state vault
     | LpEpochStatusChanged epoch old_s new_s \<Rightarrow> handle_LpEpochStatusChanged ctx e epoch old_s new_s
     | LpFractionalResidueRetired r \<Rightarrow> handle_LpFractionalResidueRetired g ctx e r
     | LpEpochTerminalDustClassified d \<Rightarrow> handle_LpEpochTerminalDustClassified ctx e d
     | LpSharesChanged c \<Rightarrow> adjustLpShares ctx e c
     | LpSharesTransferred t \<Rightarrow> handle_LpSharesTransferred ctx e t
     | LpRewardIndexAdvanced a \<Rightarrow> handle_LpRewardIndexAdvanced g ctx e a
     | LpRewardQuarantined q \<Rightarrow> handle_LpRewardQuarantined g ctx e q
     | LpRewardsClaimed c \<Rightarrow> handle_LpRewardsClaimed ctx e c
     | SwapExecuted s \<Rightarrow> handle_SwapExecuted ctx e s
     | LiquiditySeeded q \<Rightarrow> handle_Liquidity g ctx e Seeded q
     | LiquidityAdded q \<Rightarrow> handle_Liquidity g ctx e Added q
     | LiquidityRemoved q final \<Rightarrow> handle_Liquidity g ctx e (Removed final) q
     | FeeConfigurationChanged old_f new_f \<Rightarrow> handle_FeeConfigurationChanged ctx e old_f new_f
     | FaucetPauseChanged paused \<Rightarrow> handle_FaucetPauseChanged ctx e paused
     | SwapLimitsChanged amm gross reserve \<Rightarrow> handle_SwapLimitsChanged ctx e amm gross reserve
     | LiquidityLimitsChanged rfl tusd share \<Rightarrow> handle_LiquidityLimitsChanged ctx e rfl tusd share
     | PauseStateChanged s c \<Rightarrow> handle_PauseStateChanged ctx e s c
     | PoolPauseChanged p \<Rightarrow> handle_PoolPauseChanged ctx e p
     | OperationalAdminChanged scope old_a new_a \<Rightarrow> handle_OperationalAdminChanged ctx e scope old_a new_a
     | UnknownEvent ty \<Rightarrow> handle_Unknown ctx e ty)"

fun replay :: "event_group \<Rightarrow> protocol_event list \<Rightarrow> reducer_context \<Rightarrow> outcome" where
  "replay g [] ctx = Done ctx"
| "replay g (e # es) ctx = andThen (handle_event g ctx e) (replay g es)"

end
