(* ===== verification/Reducer_Preflight.thy ===== *)
theory Reducer_Preflight
  imports Reducer_Pool_Events
begin

text \<open>
  The checks \<open>reduceEventGroup\<close> makes on a whole transaction before replaying it
  (\<open>packages/indexer/src/reducer.ts\<close>, from the scan of the sorted events to the pairing of explicit
  claims). Each check is the list of alerts it pushes; only the liquidity-receipt arithmetic can
  throw, and a throw here would leave \<open>reduceEventGroup\<close>, so its model is a \<open>result\<close>.
\<close>

section \<open>Scan of the sorted events\<close>

definition alert_when :: "bool \<Rightarrow> critical_alert \<Rightarrow> critical_alert list" where
  "alert_when b a = (if b then [a] else [])"

definition domain_alerts :: "protocol_event \<Rightarrow> critical_alert list" where
  "domain_alerts e = (case assertProtocolEventMoveDomains e of
       Inl err \<Rightarrow> [problem e EVENT_DATA (error_message err) None None]
     | Inr _ \<Rightarrow> [])"

definition event_cursor_str :: "protocol_event \<Rightarrow> string" where
  "event_cursor_str e = cursor_str (ev_ledgerVersion e) (ev_eventIndex e)"

text \<open>
  \<open>previous\<close> and \<open>ids\<close> are the loop's \<open>previousEventIndex\<close> and \<open>groupIds\<close>.
\<close>

definition scan_event ::
  "protocol_projection \<Rightarrow> protocol_event \<Rightarrow> int \<Rightarrow> string list \<Rightarrow> protocol_event \<Rightarrow> critical_alert list" where
  "scan_event prior first previous ids e =
     (let priorCursor = map_get (pr_seenEventIds prior) (ev_id e) in
      domain_alerts e
      @ alert_when (ev_ledgerVersion e \<noteq> ev_ledgerVersion first \<or> ev_txHash e \<noteq> ev_txHash first)
          (problem e TRANSACTION_GROUP
            ''One atomic event group contains more than one transaction identity.'' None None)
      @ alert_when (ev_eventIndex e \<le> previous)
          (problem e EVENT_ORDER
            ''Event indices inside a transaction must be strictly increasing.'' None None)
      @ alert_when (priorCursor \<noteq> None \<or> ev_id e \<in> set ids)
          (problem e IDENTIFIER_REUSE
            ''An event identifier was reused for a different replay position.''
            (Some (case priorCursor of Some c \<Rightarrow> c | None \<Rightarrow> ''unique in transaction''))
            (Some (event_cursor_str e))))"

fun scan_events ::
  "protocol_projection \<Rightarrow> protocol_event \<Rightarrow> int \<Rightarrow> string list \<Rightarrow> protocol_event list \<Rightarrow> critical_alert list" where
  "scan_events prior first previous ids [] = []"
| "scan_events prior first previous ids (e # es) =
     scan_event prior first previous ids e
     @ scan_events prior first (ev_eventIndex e) (ev_id e # ids) es"

section \<open>Views of the group\<close>

text \<open>The runtime tag of an event, as it appears in messages.\<close>

primrec event_type :: "event_body \<Rightarrow> string" where
  "event_type (ProtocolInitialized _) = ''ProtocolInitialized''"
| "event_type (TokenCreated _) = ''TokenCreated''"
| "event_type (LaunchSealed _) = ''LaunchSealed''"
| "event_type (PoolClosed _) = ''PoolClosed''"
| "event_type (ProtocolPrimaryStoreExcluded _ _ _) = ''ProtocolPrimaryStoreExcluded''"
| "event_type (OperationalPrimaryStoreExcluded _ _) = ''OperationalPrimaryStoreExcluded''"
| "event_type (PositionCreated _) = ''PositionCreated''"
| "event_type (WalletRegistered _ _ _) = ''WalletRegistered''"
| "event_type (FaucetGrant _ _ _) = ''FaucetGrant''"
| "event_type (FaucetConfigured _ _ _) = ''FaucetConfigured''"
| "event_type (PoolReserveBound _ _) = ''PoolReserveBound''"
| "event_type (WalletTransfer _ _ _ _) = ''WalletTransfer''"
| "event_type (EligibleBalanceDebited _ _) = ''EligibleBalanceDebited''"
| "event_type (EligibleBalanceCredited _ _) = ''EligibleBalanceCredited''"
| "event_type (SwapExecuted _) = ''SwapExecuted''"
| "event_type (ReflectionFeeCollected _) = ''ReflectionFeeCollected''"
| "event_type (ReflectionIndexAdvanced _) = ''ReflectionIndexAdvanced''"
| "event_type (RewardsMaterialized _ _ _ _) = ''RewardsMaterialized''"
| "event_type (RewardsClaimed _ _ _) = ''RewardsClaimed''"
| "event_type (CustodyAdapterRegistered _) = ''CustodyAdapterRegistered''"
| "event_type (CustodyEpochRouteOpened _) = ''CustodyEpochRouteOpened''"
| "event_type (CustodySharesChanged _) = ''CustodySharesChanged''"
| "event_type (CustodyRewardsRouted _) = ''CustodyRewardsRouted''"
| "event_type (FeeConfigurationChanged _ _) = ''FeeConfigurationChanged''"
| "event_type (SwapLimitsChanged _ _ _) = ''SwapLimitsChanged''"
| "event_type (LiquidityLimitsChanged _ _ _) = ''LiquidityLimitsChanged''"
| "event_type (PauseStateChanged _ _) = ''PauseStateChanged''"
| "event_type (FaucetPauseChanged _) = ''FaucetPauseChanged''"
| "event_type (PoolPauseChanged _) = ''PoolPauseChanged''"
| "event_type (OperationalAdminChanged _ _ _) = ''OperationalAdminChanged''"
| "event_type (LiquiditySeeded _) = ''LiquiditySeeded''"
| "event_type (LiquidityAdded _) = ''LiquidityAdded''"
| "event_type (LiquidityRemoved _ _) = ''LiquidityRemoved''"
| "event_type (LpEpochOpened _ _ _) = ''LpEpochOpened''"
| "event_type (LpEpochStatusChanged _ _ _) = ''LpEpochStatusChanged''"
| "event_type (LpSharesChanged _) = ''LpSharesChanged''"
| "event_type (LpSharesTransferred _) = ''LpSharesTransferred''"
| "event_type (LpRewardIndexAdvanced _) = ''LpRewardIndexAdvanced''"
| "event_type (LpRewardsClaimed _) = ''LpRewardsClaimed''"
| "event_type (LpRewardQuarantined _) = ''LpRewardQuarantined''"
| "event_type (LpFractionalResidueRetired _) = ''LpFractionalResidueRetired''"
| "event_type (LpEpochTerminalDustClassified _) = ''LpEpochTerminalDustClassified''"
| "event_type (UnknownEvent ty) = ty"

definition sel_liquidity :: "protocol_event \<Rightarrow> (protocol_event \<times> liquidity_kind \<times> liquidity_receipt) option" where
  "sel_liquidity e = (case ev_body e of
       LiquiditySeeded q \<Rightarrow> Some (e, Seeded, q)
     | LiquidityAdded q \<Rightarrow> Some (e, Added, q)
     | LiquidityRemoved q final \<Rightarrow> Some (e, Removed final, q)
     | _ \<Rightarrow> None)"

definition liquidity :: "protocol_event list \<Rightarrow> (protocol_event \<times> liquidity_kind \<times> liquidity_receipt) list" where
  "liquidity events = List.map_filter sel_liquidity events"

definition is_removal :: "liquidity_kind \<Rightarrow> bool" where
  "is_removal k = (case k of Removed _ \<Rightarrow> True | _ \<Rightarrow> False)"

definition custodyChanges :: "protocol_event list \<Rightarrow> custody_shares_changed list" where
  "custodyChanges events = List.map_filter
     (\<lambda>e. case ev_body e of CustodySharesChanged c \<Rightarrow> Some c | _ \<Rightarrow> None) events"

definition lpAdvances :: "protocol_event list \<Rightarrow> protocol_event list" where
  "lpAdvances = filter (\<lambda>e. case ev_body e of LpRewardIndexAdvanced _ \<Rightarrow> True | _ \<Rightarrow> False)"

definition lpQuarantines :: "protocol_event list \<Rightarrow> protocol_event list" where
  "lpQuarantines = filter (\<lambda>e. case ev_body e of LpRewardQuarantined _ \<Rightarrow> True | _ \<Rightarrow> False)"

definition walletTransfers :: "protocol_event list \<Rightarrow> protocol_event list" where
  "walletTransfers = filter (\<lambda>e. case ev_body e of WalletTransfer _ _ _ _ \<Rightarrow> True | _ \<Rightarrow> False)"

text \<open>Epoch openings with their epoch and vault, and the custody routes opened for them.\<close>

definition lpOpenings :: "protocol_event list \<Rightarrow> (protocol_event \<times> int \<times> address) list" where
  "lpOpenings events = List.map_filter
     (\<lambda>e. case ev_body e of LpEpochOpened epoch _ vault \<Rightarrow> Some (e, epoch, vault) | _ \<Rightarrow> None) events"

definition adapterRegistrations :: "protocol_event list \<Rightarrow> (int \<times> address) list" where
  "adapterRegistrations events = List.map_filter
     (\<lambda>e. case ev_body e of CustodyAdapterRegistered a \<Rightarrow> Some (ca_firstEpoch a, ca_lpRewardVault a) | _ \<Rightarrow> None) events"

definition routeOpenings :: "protocol_event list \<Rightarrow> (protocol_event \<times> int \<times> address) list" where
  "routeOpenings events = List.map_filter
     (\<lambda>e. case ev_body e of CustodyEpochRouteOpened r \<Rightarrow> Some (e, ro_epoch r, ro_lpRewardVault r) | _ \<Rightarrow> None) events"

text \<open>Terminal transitions carry their epoch and old status, classifications and residues their payload.\<close>

definition lpTerminalTransitions :: "protocol_event list \<Rightarrow> (protocol_event \<times> int \<times> lp_epoch_status) list" where
  "lpTerminalTransitions events = List.map_filter
     (\<lambda>e. case ev_body e of
        LpEpochStatusChanged epoch old_s new_s \<Rightarrow> if new_s = Claim_only then Some (e, epoch, old_s) else None
      | _ \<Rightarrow> None) events"

definition lpTerminalClassifications :: "protocol_event list \<Rightarrow> (protocol_event \<times> lp_terminal_dust) list" where
  "lpTerminalClassifications events = List.map_filter
     (\<lambda>e. case ev_body e of LpEpochTerminalDustClassified d \<Rightarrow> Some (e, d) | _ \<Rightarrow> None) events"

definition lpResidues :: "protocol_event list \<Rightarrow> (protocol_event \<times> lp_residue_retired) list" where
  "lpResidues events = List.map_filter
     (\<lambda>e. case ev_body e of LpFractionalResidueRetired r \<Rightarrow> Some (e, r) | _ \<Rightarrow> None) events"

definition materialized :: "protocol_event list \<Rightarrow> (address \<times> int \<times> int) list" where
  "materialized events = List.map_filter
     (\<lambda>e. case ev_body e of RewardsMaterialized a amount total_c _ \<Rightarrow> Some (a, amount, total_c) | _ \<Rightarrow> None) events"

section \<open>Pairing checks\<close>

definition registration_alerts :: "protocol_event list \<Rightarrow> critical_alert list" where
  "registration_alerts events = concat (map (\<lambda>registration.
     case ev_body registration of
       WalletRegistered account _ _ \<Rightarrow>
         (case find (\<lambda>c. ev_id c \<noteq> ev_id registration \<and> account \<in> set (accountStateSubjects c)
              \<and> ev_eventIndex c \<le> ev_eventIndex registration) events of
            None \<Rightarrow> []
          | Some c \<Rightarrow> [problem registration WALLET_REGISTRATION
              ''WalletRegistered must precede every same-transaction position or account-balance event for that account.''
              (Some (''registration before '' @ event_type (ev_body c)))
              (Some (event_type (ev_body c) @ '' at '' @ int_str (ev_eventIndex c)))])
     | _ \<Rightarrow> []) events)"

definition terminal_receipt_alerts :: "protocol_event \<Rightarrow> protocol_event list \<Rightarrow> critical_alert list" where
  "terminal_receipt_alerts first events =
     alert_when (1 < length (swaps events) \<or> 1 < length (liquidity events))
       (problem first TRANSACTION_GROUP ''A transaction contains multiple terminal pool receipts.'' None None)
     @ alert_when (0 < length (swaps events) + length (liquidity events)
         \<and> (nativeDebits events \<noteq> [] \<or> nativeCredits events \<noteq> [] \<or> walletTransfers events \<noteq> []))
       (problem first DOUBLE_COUNTING
         ''Composite pool settlement must not also be replayed as a wallet-hook transfer.'' None None)"

text \<open>The custody movement a pool receipt implies: whether shares are added, and how many.\<close>

definition expectedCustody :: "protocol_event list \<Rightarrow> (bool \<times> int) option" where
  "expectedCustody events =
     (case swaps events of
        [(_, s)] \<Rightarrow> Some (sw_direction s = Sell,
          if sw_direction s = Sell then sw_netReserveInput s else sw_grossPoolOutput s)
      | _ \<Rightarrow>
        (case liquidity events of
           [(_, kind, q)] \<Rightarrow> if lq_trflAmount q > 0 then Some (\<not> is_removal kind, lq_trflAmount q) else None
         | _ \<Rightarrow> None))"

fun join_comma :: "string list \<Rightarrow> string" where
  "join_comma [] = ''''"
| "join_comma [s] = s"
| "join_comma (s # ss) = s @ '','' @ join_comma ss"

definition custody_receipt_alerts :: "protocol_event \<Rightarrow> protocol_event list \<Rightarrow> critical_alert list" where
  "custody_receipt_alerts first events =
     (let changes = custodyChanges events in
      case expectedCustody events of
        Some (added, amount) \<Rightarrow>
          alert_when (\<not> (case changes of [c] \<Rightarrow> cs_added c = added \<and> cs_amount c = amount | _ \<Rightarrow> False))
            (problem first (if 1 < length changes then DOUBLE_COUNTING else RESERVE_CUSTODY)
              ''Pool reserve movement must have exactly one equal custody-share receipt.''
              (Some (bool_str added @ ''/'' @ int_str amount))
              (Some (if changes = [] then ''missing''
                else join_comma (map (\<lambda>c. bool_str (cs_added c) @ ''/'' @ int_str (cs_amount c)) changes))))
      | None \<Rightarrow> alert_when (changes \<noteq> [])
          (problem first TRANSACTION_GROUP
            ''Custody shares changed without a swap or liquidity receipt.'' None None))"

definition route_pair_alerts :: "protocol_event \<Rightarrow> protocol_event list \<Rightarrow> critical_alert list" where
  "route_pair_alerts first events =
     (let downstream = length (lpAdvances events) + length (lpQuarantines events) in
      alert_when (length (routes events) \<noteq> downstream)
        (problem first ROUTE_PAIR
          ''Each core custody route must have exactly one downstream LP-index receipt in the same transaction.''
          (Some (nat_str (length (routes events)))) (Some (nat_str downstream))))"

definition opening_alerts :: "protocol_projection \<Rightarrow> protocol_event list \<Rightarrow> critical_alert list" where
  "opening_alerts prior events = concat (map (\<lambda>(opening, epoch, vault).
     let initialPair = filter (\<lambda>c. c = (epoch, vault)) (adapterRegistrations events);
         laterPair = filter (\<lambda>(_, c). c = (epoch, vault)) (routeOpenings events);
         expectedInitial = (pr_lpEpochs prior = []) in
     alert_when ((if expectedInitial then length initialPair else length laterPair) \<noteq> 1)
       (problem opening ROUTE_PAIR
         ''Every LP epoch opening must pair with exactly one matching initial adapter or fresh custody route.''
         None None)) (lpOpenings events))"

definition route_opening_alerts :: "protocol_event list \<Rightarrow> critical_alert list" where
  "route_opening_alerts events = concat (map (\<lambda>(routeOpening, epoch, vault).
     alert_when (\<not> list_ex (\<lambda>(_, o_epoch, o_vault). o_epoch = epoch \<and> o_vault = vault) (lpOpenings events))
       (problem routeOpening ROUTE_PAIR
         ''Fresh custody epoch route lacks a same-transaction LP epoch opening.'' None None)) (routeOpenings events))"

definition transition_alerts :: "protocol_event list \<Rightarrow> critical_alert list" where
  "transition_alerts events = concat (map (\<lambda>(transition, epoch, _).
     let matches = filter (\<lambda>(c, d). td_epoch d = epoch \<and> ev_eventIndex c > ev_eventIndex transition)
           (lpTerminalClassifications events) in
     alert_when (length matches \<noteq> 1)
       (problem transition LP_ACCOUNTING
         ''Every active-to-claim-only transition requires exactly one later terminal-dust classification in the same transaction.''
         (Some ''1'') (Some (nat_str (length matches))))) (lpTerminalTransitions events))"

definition classification_alerts :: "protocol_event list \<Rightarrow> critical_alert list" where
  "classification_alerts events = concat (map (\<lambda>(classification, d).
     let matches = filter (\<lambda>(c, epoch, _). epoch = td_epoch d \<and> ev_eventIndex c < ev_eventIndex classification)
           (lpTerminalTransitions events) in
     alert_when (length matches \<noteq> 1)
       (problem classification LP_ACCOUNTING
         ''Terminal dust classification must follow exactly one matching status transition in its transaction.''
         (Some ''1'') (Some (nat_str (length matches))))) (lpTerminalClassifications events))"

text \<open>
  \<open>burns\<close> and \<open>transfers\<close> of the residue check are disjoint filters; \<open>isOwnerExit\<close> is their union.
\<close>

definition residue_alerts :: "protocol_event list \<Rightarrow> critical_alert list" where
  "residue_alerts events = concat (map (\<lambda>(residue, r).
     let exits = filter (\<lambda>c. isOwnerExit (rr_epoch r) (rr_owner r) c \<and> ev_eventIndex c > ev_eventIndex residue)
           events in
     alert_when (length exits \<noteq> 1)
       (problem residue LP_ACCOUNTING
         ''Fractional residue retirement must precede exactly one complete owner exit in the same transaction.''
         (Some ''1'') (Some (nat_str (length exits))))) (lpResidues events))"

definition explicit_claim_alerts :: "protocol_event list \<Rightarrow> critical_alert list" where
  "explicit_claim_alerts events = concat (map (\<lambda>claim.
     case ev_body claim of
       RewardsClaimed account amount totalClaimed \<Rightarrow>
         alert_when (\<not> (case filter (\<lambda>(a, m, _). a = account \<and> m = amount) (materialized events) of
             [(_, _, t)] \<Rightarrow> totalClaimed = t | _ \<Rightarrow> False))
           (problem claim DOUBLE_COUNTING
             ''Explicit claim action must pair with exactly one materialization receipt.'' None None)
     | _ \<Rightarrow> []) events)"

section \<open>Liquidity receipt arithmetic\<close>

definition seed_alerts ::
  "protocol_projection \<Rightarrow> indexed_lp_epoch option \<Rightarrow> protocol_event \<Rightarrow> liquidity_receipt \<Rightarrow> critical_alert list result" where
  "seed_alerts prior epoch e q =
     rbind (integerSqrt (lq_trflAmount q * lq_tusdAmount q)) (\<lambda>expectedShares.
     Inr (alert_when (po_trflReserve (pr_pool prior) \<noteq> 0 \<or> po_tusdReserve (pr_pool prior) \<noteq> 0
         \<or> (case epoch of None \<Rightarrow> 0 | Some ep \<Rightarrow> ep_totalShares ep) \<noteq> 0
         \<or> lq_lpShares q \<noteq> expectedShares)
       (problem e LP_ACCOUNTING ''Initial liquidity shares must equal floor(sqrt(tRFL * tUSD)) on empty reserves.''
         (Some (int_str expectedShares)) (Some (int_str (lq_lpShares q))))))"

definition addition_alerts ::
  "protocol_projection \<Rightarrow> indexed_lp_epoch \<Rightarrow> protocol_event \<Rightarrow> liquidity_receipt \<Rightarrow> critical_alert list result" where
  "addition_alerts prior ep e q =
     (let pool = pr_pool prior in
      if ep_totalShares ep \<le> 0 \<or> po_trflReserve pool \<le> 0 \<or> po_tusdReserve pool \<le> 0
      then Inr [problem e LP_ACCOUNTING
        ''Liquidity addition requires nonzero reserves and existing LP shares.'' None None]
      else
        rbind (checkedMoveU256Multiply (lq_lpShares q) (po_trflReserve pool) ''LP mint tRFL numerator'') (\<lambda>nRfl.
        rbind (ceilDiv nRfl (ep_totalShares ep)) (\<lambda>expectedRfl.
        rbind (checkedMoveU256Multiply (lq_lpShares q) (po_tusdReserve pool) ''LP mint tUSD numerator'') (\<lambda>nUsd.
        rbind (ceilDiv nUsd (ep_totalShares ep)) (\<lambda>expectedUsd.
        Inr (alert_when (lq_trflAmount q \<noteq> expectedRfl \<or> lq_tusdAmount q \<noteq> expectedUsd)
          (problem e LP_ACCOUNTING
            ''Liquidity input amounts do not match the shares' proportional ceil arithmetic.''
            (Some (int_str expectedRfl @ ''/'' @ int_str expectedUsd))
            (Some (int_str (lq_trflAmount q) @ ''/'' @ int_str (lq_tusdAmount q)))))))))) "

definition withdrawal_share ::
  "indexed_lp_epoch \<Rightarrow> liquidity_receipt \<Rightarrow> int \<Rightarrow> string \<Rightarrow> int result" where
  "withdrawal_share ep q reserve label =
     (if lq_lpShares q = ep_totalShares ep then Inr reserve
      else rbind (checkedMoveU256Multiply (lq_lpShares q) reserve label) (\<lambda>n. bigint_div n (ep_totalShares ep)))"

definition withdrawal_limit_alerts ::
  "protocol_projection \<Rightarrow> indexed_lp_epoch \<Rightarrow> protocol_event \<Rightarrow> liquidity_receipt \<Rightarrow> critical_alert list result" where
  "withdrawal_limit_alerts prior ep e q =
     (if lq_lpShares q \<noteq> ep_totalShares ep \<and> \<not> po_shutdownMode (pr_pool prior) then
        rbind (checkedMoveU256Multiply (lq_lpShares q) BPS_DENOMINATOR ''LP withdrawal limit request'') (\<lambda>request.
        rbind (checkedMoveU256Multiply (ep_totalShares ep) (po_maximumNonFinalWithdrawalShareBps (pr_pool prior))
          ''LP withdrawal limit allowance'') (\<lambda>allowance.
        Inr (alert_when (request > allowance)
          (problem e POOL_LIMITS
            ''Normal-mode non-final withdrawal exceeds the configured proportional share limit.''
            (Some (int_str allowance)) (Some (int_str request))))))
      else Inr [])"

text \<open>The owner burns of the final exit's receipt, as (event index) list.\<close>

definition shareExits :: "protocol_event list \<Rightarrow> protocol_event \<Rightarrow> liquidity_receipt \<Rightarrow> int list" where
  "shareExits events e q = List.map_filter (\<lambda>c. case ev_body c of
       LpSharesChanged s \<Rightarrow>
         if \<not> sc_added s \<and> sc_epoch s = lq_epoch q \<and> sc_owner s = lq_provider q
            \<and> sc_amount s = lq_lpShares q \<and> sc_ownerShares s = 0 \<and> sc_totalShares s = 0
            \<and> ev_eventIndex c < ev_eventIndex e
         then Some (ev_eventIndex c) else None
     | _ \<Rightarrow> None) events"

definition final_exit_ordered ::
  "int list \<Rightarrow> (protocol_event \<times> int \<times> lp_epoch_status) list \<Rightarrow> (protocol_event \<times> lp_terminal_dust) list
   \<Rightarrow> protocol_event \<Rightarrow> bool" where
  "final_exit_ordered exits transitions classifications receipt =
     (case (exits, transitions, classifications) of
        ([x], [(t, _, oldStatus)], [(c, _)]) \<Rightarrow> oldStatus = Active
          \<and> x < ev_eventIndex t \<and> ev_eventIndex t < ev_eventIndex c \<and> ev_eventIndex c < ev_eventIndex receipt
      | _ \<Rightarrow> False)"

definition termination_alerts ::
  "protocol_projection \<Rightarrow> protocol_event list \<Rightarrow> indexed_lp_epoch \<Rightarrow> protocol_event \<Rightarrow> bool \<Rightarrow>
   liquidity_receipt \<Rightarrow> critical_alert list" where
  "termination_alerts prior events ep e finalExit q =
     (let epochTransitions = filter (\<lambda>(_, epoch, _). epoch = lq_epoch q) (lpTerminalTransitions events);
          epochClassifications = filter (\<lambda>(_, d). td_epoch d = lq_epoch q) (lpTerminalClassifications events) in
      if lq_lpShares q = ep_totalShares ep then
        alert_when (\<not> po_shutdownMode (pr_pool prior) \<or> \<not> finalExit
            \<or> \<not> final_exit_ordered (shareExits events e q) epochTransitions epochClassifications e)
          (problem e LP_ACCOUNTING
            ''Final liquidity removal requires prior shutdown and one ordered same-transaction share exit, active-to-claim-only transition, terminal classification, then receipt.''
            None None)
      else
        alert_when (epochTransitions \<noteq> [] \<or> epochClassifications \<noteq> [])
          (problem e LP_ACCOUNTING
            ''A non-final liquidity removal cannot terminate or classify its active LP epoch.'' None None))"

definition removal_alerts ::
  "protocol_projection \<Rightarrow> protocol_event list \<Rightarrow> indexed_lp_epoch \<Rightarrow> protocol_event \<Rightarrow> bool \<Rightarrow>
   liquidity_receipt \<Rightarrow> critical_alert list result" where
  "removal_alerts prior events ep e finalExit q =
     (if ep_totalShares ep \<le> 0 \<or> lq_lpShares q > ep_totalShares ep
      then Inr [problem e LP_ACCOUNTING ''Liquidity removal exceeds replayed epoch shares.'' None None]
      else
        let fullExit = (lq_lpShares q = ep_totalShares ep) in
        rbind (withdrawal_share ep q (po_trflReserve (pr_pool prior)) ''LP withdrawal tRFL numerator'') (\<lambda>expectedRfl.
        rbind (withdrawal_share ep q (po_tusdReserve (pr_pool prior)) ''LP withdrawal tUSD numerator'') (\<lambda>expectedUsd.
        let share_alerts = alert_when (lq_trflAmount q \<noteq> expectedRfl \<or> lq_tusdAmount q \<noteq> expectedUsd
              \<or> finalExit \<noteq> fullExit)
            (problem e LP_ACCOUNTING
              ''Liquidity withdrawal does not match proportional floor/final-exit arithmetic.''
              (Some (int_str expectedRfl @ ''/'' @ int_str expectedUsd @ ''/'' @ bool_str fullExit))
              (Some (int_str (lq_trflAmount q) @ ''/'' @ int_str (lq_tusdAmount q) @ ''/'' @ bool_str finalExit))) in
        rbind (withdrawal_limit_alerts prior ep e q) (\<lambda>limit_alerts.
        Inr (share_alerts @ limit_alerts @ termination_alerts prior events ep e finalExit q)))))"

text \<open>
  The receipt checks. After the first test the code reads \<open>epoch!\<close>: for an addition or removal the
  epoch exists there, since only a seed can be a fresh reseed.
\<close>

definition liquidity_alerts :: "protocol_projection \<Rightarrow> protocol_event list \<Rightarrow> critical_alert list result" where
  "liquidity_alerts prior events =
     (case liquidity events of
        [(e, kind, q)] \<Rightarrow>
          let epoch = map_get (pr_lpEpochs prior) (lq_epoch q);
              openedInGroup = list_ex (\<lambda>(_, o_epoch, _). o_epoch = lq_epoch q) (lpOpenings events);
              isFreshReseed = (kind = Seeded \<and> epoch = None \<and> pr_activeLpEpoch prior = None \<and> openedInGroup) in
          if \<not> isFreshReseed \<and> (epoch = None \<or> pr_activeLpEpoch prior \<noteq> Some (lq_epoch q))
          then Inr [problem e LP_ACCOUNTING
            ''Liquidity receipt does not target the replayed active LP epoch.'' None None]
          else (case (kind, epoch) of
             (Seeded, _) \<Rightarrow> seed_alerts prior epoch e q
           | (Added, Some ep) \<Rightarrow> addition_alerts prior ep e q
           | (Removed finalExit, Some ep) \<Rightarrow> removal_alerts prior events ep e finalExit q
           | (_, None) \<Rightarrow> Inl (TypeError ''Cannot read properties of undefined''))
      | _ \<Rightarrow> Inr [])"

section \<open>All checks in order\<close>

definition preflight ::
  "protocol_projection \<Rightarrow> protocol_event \<Rightarrow> protocol_event list \<Rightarrow> critical_alert list result" where
  "preflight prior first events =
     rbind (liquidity_alerts prior events) (\<lambda>receipt_alerts.
     Inr (registration_alerts events
       @ terminal_receipt_alerts first events
       @ custody_receipt_alerts first events
       @ route_pair_alerts first events
       @ opening_alerts prior events
       @ route_opening_alerts events
       @ transition_alerts events
       @ classification_alerts events
       @ residue_alerts events
       @ receipt_alerts
       @ explicit_claim_alerts events))"

end
