(* ===== verification/Reducer_Group.thy ===== *)
theory Reducer_Group
  imports Reducer_Preflight
begin

text \<open>
  The end of the replay and the whole transaction step (\<open>packages/indexer/src/reducer.ts\<close>, from the
  settlement of pending fees after the replay loop to the end of the file): cross-module agreement
  checks, the rounding reserve, the final domain assertion, the \<open>catch\<close>, the recorded identifiers,
  and \<open>reduceEventGroup\<close>/\<open>reduceEvent\<close> themselves.
\<close>

section \<open>Settlement after the replay loop\<close>

definition settlePendingFee :: "reducer_context \<Rightarrow> pending_core_fee \<Rightarrow> reducer_context" where
  "settlePendingFee ctx pending =
     (if pf_sharesAtCollection pending = 0
      then upd_next (\<lambda>pr. pr\<lparr>pr_unallocatedFees := pr_unallocatedFees pr + fc_feeAmount (pf_fee pending)\<rparr>) ctx
      else alert_if True (problem (pf_event pending) TRANSACTION_GROUP
        ''Positive-denominator fee has no global-index receipt.'' None None) ctx)"

definition settlePendingFees :: "reducer_context \<Rightarrow> reducer_context" where
  "settlePendingFees ctx = foldl settlePendingFee ctx (cx_pendingCoreFees ctx)"

definition unconsumedRouteAlerts :: "event_group \<Rightarrow> reducer_context \<Rightarrow> reducer_context" where
  "unconsumedRouteAlerts g ctx = foldl (\<lambda>ctx (route, _).
     alert_if (ev_id route \<notin> set (cx_consumedRoutes ctx))
       (problem route ROUTE_PAIR ''Core custody route lacks an equal downstream LP-index receipt.'' None None) ctx)
     ctx (routes (gr_events g))"

definition pairedShareChanges ::
  "protocol_event list \<Rightarrow> liquidity_kind \<Rightarrow> liquidity_receipt \<Rightarrow> protocol_event list" where
  "pairedShareChanges events kind q = filter (\<lambda>c. case ev_body c of
       LpSharesChanged s \<Rightarrow> sc_epoch s = lq_epoch q \<and> sc_owner s = lq_provider q
         \<and> sc_amount s = lq_lpShares q \<and> sc_added s = (\<not> is_removal kind)
     | _ \<Rightarrow> False) events"

definition liquidityShareAlerts :: "event_group \<Rightarrow> reducer_context \<Rightarrow> reducer_context" where
  "liquidityShareAlerts g ctx = (case liquidity (gr_events g) of
       [(e, kind, q)] \<Rightarrow>
         let shares = pairedShareChanges (gr_events g) kind q in
         alert_if (length shares \<noteq> 1)
           (problem e (if 1 < length shares then DOUBLE_COUNTING else LP_ACCOUNTING)
             ''Liquidity receipt must pair with exactly one equal LP-share mutation.'' None None) ctx
     | _ \<Rightarrow> ctx)"

section \<open>Wallet registration and core aggregates\<close>

definition wallets_consistent :: "protocol_projection \<Rightarrow> bool" where
  "wallets_consistent pr =
     (pr_registeredWalletCount pr = int (length (pr_registeredWallets pr))
      \<and> 0 \<le> pr_registeredWalletCount pr \<and> pr_registeredWalletCount pr \<le> MOVE_U64_MAX
      \<and> length (remdups (map_values (pr_registeredWallets pr))) = length (pr_registeredWallets pr)
      \<and> list_all (\<lambda>(account, store). \<not> is_zero_address account \<and> \<not> is_zero_address store
          \<and> \<not> map_has (pr_protocolExcludedStores pr) account
          \<and> store \<notin> set (map_values (pr_protocolExcludedStores pr))) (pr_registeredWallets pr))"

definition walletRegistrationAlerts :: "reducer_context \<Rightarrow> reducer_context" where
  "walletRegistrationAlerts ctx =
     (let pr = cx_next ctx;
          ctx = alert_if (\<not> wallets_consistent pr)
            (problem (cx_first ctx) WALLET_REGISTRATION
              ''Registered-wallet count and unique primary-store bindings must exactly match replayed registration events.''
              (Some (nat_str (length (pr_registeredWallets pr))))
              (Some (int_str (pr_registeredWalletCount pr)))) ctx in
      foldl (\<lambda>ctx account. alert_if (\<not> map_has (pr_registeredWallets (cx_next ctx)) account)
        (problem (cx_first ctx) WALLET_REGISTRATION
          ''Every wallet accounting position must have an exact prior or same-transaction registration event.''
          (Some ''registered wallet'') (Some account)) ctx) ctx (map_keys (pr_positions pr)))"

definition eligibleSupplyAlerts :: "reducer_context \<Rightarrow> reducer_context" where
  "eligibleSupplyAlerts ctx =
     (let shares = sumWalletShares (pr_positions (cx_next ctx)) + cu_shares (pr_custody (cx_next ctx)) in
      alert_if (shares \<noteq> pr_eligibleSupply (cx_next ctx))
        (problem (cx_first ctx) ELIGIBLE_SUPPLY
          ''Global shares do not equal replayed wallet shares plus canonical custody shares.''
          (Some (int_str shares)) (Some (int_str (pr_eligibleSupply (cx_next ctx))))) ctx)"

fun sumCorrections :: "string \<Rightarrow> int \<Rightarrow> int list \<Rightarrow> int result" where
  "sumCorrections label acc [] = Inr acc"
| "sumCorrections label acc (c # cs) =
     rbind (checkedMoveSignedU256Add acc c label) (\<lambda>acc. sumCorrections label acc cs)"

definition routeUnbound :: "protocol_projection \<Rightarrow> bool" where
  "routeUnbound pr = (cu_adapterId (pr_custody pr) \<noteq> None \<and>
     (case cu_activeRouteEpoch (pr_custody pr) of
        None \<Rightarrow> True
      | Some k \<Rightarrow> (case map_get (pr_lpEpochs pr) k of
          None \<Rightarrow> True
        | Some ep \<Rightarrow> Some (ep_rewardVault ep) \<noteq> cu_activeLpRewardVault (pr_custody pr))))"

definition coreAggregates :: "reducer_context \<Rightarrow> outcome" where
  "coreAggregates ctx =
     (let ctx = eligibleSupplyAlerts ctx; pr = cx_next ctx in
      attempt ctx (sumCorrections ''summed core position correction'' (cu_correction (pr_custody pr))
          (map ip_correction (map_values (pr_positions pr)))) (\<lambda>positionCorrection.
      let ctx = alert_if (positionCorrection \<noteq> pr_aggregateCorrection pr)
            (problem (cx_first ctx) CORE_ACCOUNTING
              ''Aggregate correction does not equal wallet plus custody corrections.''
              (Some (int_str positionCorrection)) (Some (int_str (pr_aggregateCorrection pr)))) ctx;
          ctx = alert_if (po_trflReserve (pr_pool pr) \<noteq> cu_shares (pr_custody pr))
            (problem (cx_first ctx) RESERVE_CUSTODY
              ''Canonical tRFL reserve must equal custody shares exactly.''
              (Some (int_str (po_trflReserve (pr_pool pr)))) (Some (int_str (cu_shares (pr_custody pr))))) ctx;
          ctx = alert_if (routeUnbound pr)
            (problem (cx_first ctx) VAULT_BINDING
              ''Active custody route is not bound to the matching immutable LP epoch vault.'' None None) ctx in
      attempt ctx (expectedCoreVaultBalance pr) (\<lambda>expectedCoreVault.
      attempt ctx (coreIndexedLiability pr) (\<lambda>coreLiability.
      attempt ctx (checkedVaultRemainder expectedCoreVault coreLiability (pr_unallocatedFees pr)
        ''core rounding reserve'') (\<lambda>coreRounding.
      Done (upd_next (\<lambda>pr. pr\<lparr>pr_roundingReserve := coreRounding\<rparr>) ctx))))))"

section \<open>LP epochs\<close>

fun sumLpPositions ::
  "indexed_lp_epoch \<Rightarrow> indexed_lp_position list \<Rightarrow> int \<Rightarrow> int \<Rightarrow> reducer_context \<Rightarrow>
   (int \<Rightarrow> int \<Rightarrow> reducer_context \<Rightarrow> outcome) \<Rightarrow> outcome" where
  "sumLpPositions ep [] summedCorrection summedClaims ctx k = k summedCorrection summedClaims ctx"
| "sumLpPositions ep (p # ps) summedCorrection summedClaims ctx k =
     (let ctx = alert_if (lp_shares p > 0 \<and> \<not> map_has (pr_registeredWallets (cx_next ctx)) (lp_owner p))
            (problem (cx_first ctx) WALLET_REGISTRATION
              (''Every positive LP position in epoch '' @ int_str (ep_epoch ep)
                @ '' must belong to a previously registered wallet.'')
              (Some ''registered wallet'') (Some (lp_owner p))) ctx in
      attempt ctx (checkedMoveSignedU256Add summedCorrection (lp_correction p)
        (''summed LP epoch '' @ int_str (ep_epoch ep) @ '' correction'')) (\<lambda>summedCorrection.
      attempt ctx (checkedMoveU256Add summedClaims (lp_claimed p)
        (''summed LP epoch '' @ int_str (ep_epoch ep) @ '' claims'')) (\<lambda>summedClaims.
      sumLpPositions ep ps summedCorrection summedClaims ctx k)))"

definition terminalStateInvalid :: "indexed_lp_epoch \<Rightarrow> bool" where
  "terminalStateInvalid ep =
     (ep_retiredResidueMagnified ep < 0 \<or> ep_retiredResidueMagnified ep > MOVE_U256_MAX
      \<or> (ep_status ep = Active \<and> ep_terminalRoundingBaseUnits ep \<noteq> None)
      \<or> (ep_status ep = Claim_only \<and> ep_terminalRoundingBaseUnits ep = None)
      \<or> (case ep_terminalRoundingBaseUnits ep of None \<Rightarrow> False
         | Some t \<Rightarrow> t < 0 \<or> t > MOVE_U128_MAX \<or> t \<noteq> ep_roundingReserve ep))"

definition checkEpoch :: "reducer_context \<Rightarrow> indexed_lp_epoch \<Rightarrow> outcome" where
  "checkEpoch ctx ep =
     sumLpPositions ep (map_values (ep_positions ep)) 0 0 ctx (\<lambda>summedCorrection summedClaims ctx.
     let ctx = alert_if (sumLpShares (ep_positions ep) \<noteq> ep_totalShares ep
             \<or> summedCorrection \<noteq> ep_aggregateCorrection ep \<or> summedClaims \<noteq> ep_lifetimeClaimed ep)
           (problem (cx_first ctx) LP_ACCOUNTING
             (''LP epoch '' @ int_str (ep_epoch ep) @ '' aggregate state disagrees with its positions.'')
             None None) ctx;
         ctx = alert_if (terminalStateInvalid ep)
           (problem (cx_first ctx) LP_ACCOUNTING
             (''LP epoch '' @ int_str (ep_epoch ep) @ '' residue units or terminal classification state is invalid.'')
             None None) ctx in
     attempt ctx (lpResidueRounding ep (''LP epoch '' @ int_str (ep_epoch ep) @ '' rounding reserve'')
       (ep_unallocatedRewards ep)) (\<lambda>rounding.
     Done (alert_if (rounding \<noteq> ep_roundingReserve ep)
       (problem (cx_first ctx) LP_VAULT_BACKING
         (''LP epoch '' @ int_str (ep_epoch ep) @ '' bucket identity is not exact.'')
         (Some (int_str (ep_roundingReserve ep))) (Some (int_str rounding))) ctx)))"

fun checkEpochs :: "indexed_lp_epoch list \<Rightarrow> reducer_context \<Rightarrow> outcome" where
  "checkEpochs [] ctx = Done ctx"
| "checkEpochs (ep # eps) ctx = andThen (checkEpoch ctx ep) (checkEpochs eps)"

section \<open>The transaction step\<close>

definition finishGroup :: "event_group \<Rightarrow> reducer_context \<Rightarrow> outcome" where
  "finishGroup g ctx =
     (let ctx = settlePendingFees ctx;
          ctx = unconsumedRouteAlerts g ctx;
          ctx = liquidityShareAlerts g ctx;
          ctx = walletRegistrationAlerts ctx in
      andThen (coreAggregates ctx) (\<lambda>ctx.
      andThen (checkEpochs (map_values (pr_lpEpochs (cx_next ctx))) ctx) (\<lambda>ctx.
      attempt ctx (assertProjectionMoveDomains (cx_next ctx)) (\<lambda>_. Done ctx))))"

record reduce_result =
  rd_projection :: protocol_projection
  rd_alerts :: "critical_alert list"

definition mark_seen :: "protocol_event \<Rightarrow> protocol_projection \<Rightarrow> protocol_projection" where
  "mark_seen e pr = pr\<lparr>pr_seenEventIds := map_set (ev_id e) (event_cursor_str e) (pr_seenEventIds pr)\<rparr>"

definition mark_all_seen :: "protocol_event list \<Rightarrow> protocol_projection \<Rightarrow> protocol_projection" where
  "mark_all_seen events pr = foldl (\<lambda>pr e. mark_seen e pr) pr events"

definition initial_context :: "protocol_projection \<Rightarrow> protocol_event \<Rightarrow> critical_alert list \<Rightarrow> reducer_context" where
  "initial_context prior first alerts = \<lparr>cx_next = prior, cx_alerts = alerts, cx_first = first,
     cx_pendingCoreFees = [], cx_consumedRoutes = [], cx_sellWalletDebited = False\<rparr>"

text \<open>The \<open>try\<close> block, its \<open>catch\<close>, and the recording of the group's identifiers.\<close>

definition settleGroup ::
  "protocol_projection \<Rightarrow> protocol_event \<Rightarrow> protocol_event list \<Rightarrow> critical_alert list \<Rightarrow> reduce_result" where
  "settleGroup prior first events alerts =
     (let g = \<lparr>gr_prior = prior, gr_events = events\<rparr> in
      case andThen (replay g events (initial_context prior first alerts)) (finishGroup g) of
        Done ctx \<Rightarrow> \<lparr>rd_projection = mark_all_seen events (cx_next ctx), rd_alerts = cx_alerts ctx\<rparr>
      | Threw err alerts' \<Rightarrow> \<lparr>rd_projection = mark_all_seen events prior,
          rd_alerts = alerts' @ [problem first EVENT_DATA (error_message err) None None]\<rparr>)"

definition reduceEventGroup :: "protocol_projection \<Rightarrow> protocol_event list \<Rightarrow> reduce_result result" where
  "reduceEventGroup prior unsortedEvents =
     (if unsortedEvents = [] then Inr \<lparr>rd_projection = prior, rd_alerts = []\<rparr>
      else
        let events = sort_key ev_eventIndex unsortedEvents; first = hd events in
        case assertProjectionMoveDomains prior of
          Inl err \<Rightarrow> Inr \<lparr>rd_projection = prior,
            rd_alerts = [problem first EVENT_DATA (error_message err) None None]\<rparr>
        | Inr _ \<Rightarrow>
          let scanned = scan_events prior first (- 1) [] events in
          if list_ex (\<lambda>a. al_code a = EVENT_DATA) scanned
          then Inr \<lparr>rd_projection = prior, rd_alerts = scanned\<rparr>
          else rbind (preflight prior first events) (\<lambda>checked.
            Inr (settleGroup prior first events (scanned @ checked))))"

definition reduceEvent :: "protocol_projection \<Rightarrow> protocol_event \<Rightarrow> reduce_result result" where
  "reduceEvent prior e = reduceEventGroup prior [e]"

end
