(* ===== verification/Reconciler.thy ===== *)
theory Reconciler
  imports Reducer_Group "HOL-Library.Char_ord" "HOL-Library.List_Lexorder"
begin

text \<open>
  Reconciliation of the replayed projection with finalized chain views
  (\<open>packages/indexer/src/reconciler.ts\<close> and the observed-state types of \<open>types.ts\<close>). Each comparison
  is the list of alerts it pushes; the accounting calls and the bucket sums can throw, and so can the
  reconciliation. \<open>now\<close> stands for \<open>BigInt(Date.now())\<close>, which only dates the alerts.
\<close>

section \<open>Observed chain state\<close>

record observed_position =
  op_account :: address
  op_rawTrfl :: int
  op_correction :: int
  op_claimed :: int

record observed_lp_position =
  ol_owner :: address
  ol_shares :: int
  ol_correction :: int
  ol_claimed :: int

record observed_lp_epoch =
  oe_epoch :: int
  oe_stateId :: address
  oe_status :: lp_epoch_status
  oe_rewardVault :: address
  oe_rewardVaultBalance :: int
  oe_index :: int
  oe_indexRemainder :: int
  oe_totalShares :: int
  oe_aggregateCorrection :: int
  oe_unallocatedRewards :: int
  oe_roundingReserve :: int
  oe_terminalRoundingBaseUnits :: int
  oe_retiredResidueMagnified :: int
  oe_lifetimeReceived :: int
  oe_lifetimeClaimed :: int
  oe_quarantined :: bool
  oe_indexedLiability :: int
  oe_positions :: "observed_lp_position list"

record observed_snapshot =
  ob_chainId :: int
  ob_ledgerVersion :: int
  ob_deploymentId :: string
  ob_networkLabel :: string
  ob_tokenMetadata :: address
  ob_protocolExclusionsRemaining :: int
  ob_registeredWalletCount :: int
  ob_registeredWalletAccounts :: "address list"
  ob_automaticMaterialization :: bool
  ob_lifecycle :: "protocol_lifecycle option"
  ob_reflectionFeeBps :: "int option"
  ob_rewardVault :: address
  ob_rewardVaultBalance :: int
  ob_reflectionLiability :: int
  ob_currentIndex :: int
  ob_indexRemainder :: int
  ob_eligibleSupply :: int
  ob_aggregateCorrection :: int
  ob_unallocatedFees :: int
  ob_roundingReserve :: int
  ob_lifetimeSwapFees :: int
  ob_lifetimeMaterialized :: int
  ob_lifetimeCustodyRouted :: int
  ob_custodyAdapterId :: int
  ob_custodyReserveStore :: address
  ob_poolRflReserveStore :: address
  ob_poolUsdReserveStore :: address
  ob_mockUsdPoolReserve :: address
  ob_custodyReserveBalance :: int
  ob_custodyShares :: int
  ob_custodyCorrection :: int
  ob_custodyClaimed :: int
  ob_custodyPendingRewards :: int
  ob_custodyActiveRouteEpoch :: int
  ob_custodyActiveLpRewardVault :: address
  ob_trflReserve :: int
  ob_tusdReserve :: int
  ob_ammFeeBps :: int
  ob_maximumGrossSwap :: int
  ob_maximumReserveBps :: int
  ob_maximumRflContribution :: int
  ob_maximumTusdContribution :: int
  ob_maximumNonFinalWithdrawalShareBps :: int
  ob_activeLpEpoch :: "int option"
  ob_lpEpochs :: "observed_lp_epoch list"
  ob_positions :: "observed_position list"
  ob_packageVersion :: string
  ob_swapsPaused :: bool
  ob_claimsPaused :: bool
  ob_faucetPaused :: bool
  ob_faucetTrflGrant :: int
  ob_faucetTusdGrant :: int
  ob_faucetCooldownSeconds :: int
  ob_poolPaused :: bool
  ob_liquidityPaused :: bool
  ob_lpClaimsPaused :: bool
  ob_shutdownMode :: bool
  ob_poolSeeded :: bool
  ob_coreOperationalAdmin :: "address option"
  ob_faucetOperationalAdmin :: "address option"
  ob_ammOperationalAdmin :: "address option"

record lp_reconciliation_result =
  lr_epoch :: int
  lr_expectedVaultBalance :: int
  lr_calculatedLiability :: int
  lr_backingSurplus :: int

record reconciliation_report =
  rp_ledgerVersion :: int
  rp_expectedRewardVaultBalance :: int
  rp_calculatedReflectionLiability :: int
  rp_backingSurplus :: int
  rp_lpEpochs :: "lp_reconciliation_result list"
  rp_alerts :: "critical_alert list"
  rp_reconciled :: bool

section \<open>Alerts and tuples\<close>

definition reconcile_alert ::
  "int \<Rightarrow> event_cursor option \<Rightarrow> alert_code \<Rightarrow> string \<Rightarrow> string \<Rightarrow> string \<Rightarrow> string \<Rightarrow> critical_alert" where
  "reconcile_alert now cursor code message expected observed scope = \<lparr>
     al_id = ''reconcile:'' @ alert_code_str code @ '':'' @ scope @ '':''
       @ (case cursor of None \<Rightarrow> ''none:none'' | Some c \<Rightarrow> cursor_str (cur_ledgerVersion c) (cur_eventIndex c)),
     al_severity = Critical,
     al_code = code,
     al_message = message,
     al_detectedAtUnixMilliseconds = now,
     al_cursor = cursor,
     al_expected = Some expected,
     al_observed = Some observed\<rparr>"

text \<open>The alert constructor of one reconciliation, with its time and cursor fixed.\<close>

type_synonym alerter = "alert_code \<Rightarrow> string \<Rightarrow> string \<Rightarrow> string \<Rightarrow> string \<Rightarrow> critical_alert"

text \<open>\<open>values.map(...).join("/")\<close>; a \<open>null\<close> entry is rendered as \<open>none\<close> by \<open>opt_str\<close> and \<open>opt_int_str\<close>.\<close>

fun tuple_str :: "string list \<Rightarrow> string" where
  "tuple_str [] = ''''"
| "tuple_str [s] = s"
| "tuple_str (s # ss) = s @ ''/'' @ tuple_str ss"

fun status_str :: "lp_epoch_status \<Rightarrow> string" where
  "status_str Active = ''active''"
| "status_str Claim_only = ''claim-only''"

fun lifecycle_str :: "protocol_lifecycle \<Rightarrow> string" where
  "lifecycle_str CONFIGURING = ''CONFIGURING''"
| "lifecycle_str LIVE = ''LIVE''"
| "lifecycle_str CLOSED = ''CLOSED''"

definition or_missing :: "string option \<Rightarrow> string" where
  "or_missing v = (case v of None \<Rightarrow> ''missing'' | Some s \<Rightarrow> s)"

text \<open>\<open>new Map(entries)\<close>: a later entry for a key replaces the earlier one in its place.\<close>

definition map_from :: "('a \<Rightarrow> 'k) \<Rightarrow> 'a list \<Rightarrow> ('k, 'a) jsmap" where
  "map_from key xs = foldl (\<lambda>m x. map_set (key x) x m) [] xs"

definition map_delete :: "'k \<Rightarrow> ('k, 'v) jsmap \<Rightarrow> ('k, 'v) jsmap" where
  "map_delete k m = filter (\<lambda>(k', _). k' \<noteq> k) m"


section \<open>LP epochs\<close>

definition lp_bucket_alerts ::
  "alerter \<Rightarrow> string \<Rightarrow>
   indexed_lp_epoch \<Rightarrow> observed_lp_epoch \<Rightarrow> int \<Rightarrow> int \<Rightarrow> int \<Rightarrow> critical_alert list" where
  "lp_bucket_alerts alert scope expected observed calculatedLiability expectedVaultBalance observedLpBuckets =
     alert_when (oe_rewardVault observed \<noteq> ep_rewardVault expected)
       (alert VAULT_BINDING ''LP epoch reward-vault identifier differs from its event-bound vault.''
         (ep_rewardVault expected) (oe_rewardVault observed) scope)
     @ alert_when (oe_stateId observed \<noteq> ep_stateId expected)
       (alert IDENTIFIER_REUSE ''LP epoch state-object identifier differs from immutable opening evidence.''
         (ep_stateId expected) (oe_stateId observed) scope)
     @ alert_when (oe_rewardVaultBalance observed \<noteq> expectedVaultBalance)
       (alert LP_VAULT_BACKING ''Individual LP vault balance differs from routed rewards less claims.''
         (int_str expectedVaultBalance) (int_str (oe_rewardVaultBalance observed)) scope)
     @ alert_when (oe_indexedLiability observed \<noteq> calculatedLiability)
       (alert LP_ACCOUNTING ''LP indexed liability differs from share/index/correction/claim arithmetic.''
         (int_str calculatedLiability) (int_str (oe_indexedLiability observed)) scope)
     @ alert_when (oe_rewardVaultBalance observed \<noteq> observedLpBuckets)
       (alert LP_VAULT_BACKING ''Observed LP vault does not equal indexed liability plus unallocated and rounding buckets.''
         (int_str observedLpBuckets) (int_str (oe_rewardVaultBalance observed)) scope)"

definition terminal_units :: "indexed_lp_epoch \<Rightarrow> int" where
  "terminal_units ep = (case ep_terminalRoundingBaseUnits ep of None \<Rightarrow> 0 | Some t \<Rightarrow> t)"

definition lp_fields_agree :: "indexed_lp_epoch \<Rightarrow> observed_lp_epoch \<Rightarrow> bool" where
  "lp_fields_agree expected observed =
     (oe_status observed = ep_status expected
      \<and> oe_index observed = ep_index expected
      \<and> oe_indexRemainder observed = ep_indexRemainder expected
      \<and> oe_totalShares observed = ep_totalShares expected
      \<and> oe_aggregateCorrection observed = ep_aggregateCorrection expected
      \<and> oe_unallocatedRewards observed = ep_unallocatedRewards expected
      \<and> oe_roundingReserve observed = ep_roundingReserve expected
      \<and> oe_terminalRoundingBaseUnits observed = terminal_units expected
      \<and> oe_retiredResidueMagnified observed = ep_retiredResidueMagnified expected
      \<and> oe_lifetimeReceived observed = ep_lifetimeReceived expected
      \<and> oe_lifetimeClaimed observed = ep_lifetimeClaimed expected
      \<and> oe_quarantined observed = ep_quarantined expected)"

definition lp_field_alerts ::
  "alerter \<Rightarrow> string \<Rightarrow>
   indexed_lp_epoch \<Rightarrow> observed_lp_epoch \<Rightarrow> critical_alert list" where
  "lp_field_alerts alert scope expected observed =
     alert_when (\<not> lp_fields_agree expected observed)
       (alert LP_ACCOUNTING ''LP epoch accounting fields disagree with event replay.''
         (tuple_str [status_str (ep_status expected), int_str (ep_index expected), int_str (ep_indexRemainder expected),
           int_str (ep_totalShares expected), int_str (ep_aggregateCorrection expected),
           int_str (ep_unallocatedRewards expected), int_str (ep_roundingReserve expected),
           int_str (terminal_units expected), int_str (ep_retiredResidueMagnified expected),
           int_str (ep_lifetimeReceived expected), int_str (ep_lifetimeClaimed expected),
           bool_str (ep_quarantined expected)])
         (tuple_str [status_str (oe_status observed), int_str (oe_index observed), int_str (oe_indexRemainder observed),
           int_str (oe_totalShares observed), int_str (oe_aggregateCorrection observed),
           int_str (oe_unallocatedRewards observed), int_str (oe_roundingReserve observed),
           int_str (oe_terminalRoundingBaseUnits observed), int_str (oe_retiredResidueMagnified observed),
           int_str (oe_lifetimeReceived observed), int_str (oe_lifetimeClaimed observed),
           bool_str (oe_quarantined observed)])
         scope)"

text \<open>
  The loop over the replayed positions. \<open>chain\<close> is the map of observed positions, from which every
  compared owner is deleted; what is left is reported afterwards.
\<close>

fun lp_position_alerts ::
  "alerter \<Rightarrow> string \<Rightarrow> address list \<Rightarrow>
   (address \<times> indexed_lp_position) list \<Rightarrow> (address, observed_lp_position) jsmap \<Rightarrow>
   critical_alert list \<times> (address, observed_lp_position) jsmap" where
  "lp_position_alerts alert scope registered [] chain = ([], chain)"
| "lp_position_alerts alert scope registered ((owner, p) # ps) chain =
     (let here =
        alert_when (lp_shares p > 0 \<and> owner \<notin> set registered)
          (alert WALLET_REGISTRATION ''Replayed positive LP ownership is not bound to the registered-wallet set.''
            ''registered LP owner'' owner (scope @ ''-'' @ owner @ ''-replayed-registration''))
        @ alert_when (case map_get chain owner of None \<Rightarrow> True
            | Some c \<Rightarrow> ol_shares c \<noteq> lp_shares p \<or> ol_correction c \<noteq> lp_correction p \<or> ol_claimed c \<noteq> lp_claimed p)
          (alert POSITION_ACCOUNTING ''LP position differs from independently replayed ownership and history.''
            (tuple_str [int_str (lp_shares p), int_str (lp_correction p), int_str (lp_claimed p)])
            (case map_get chain owner of None \<Rightarrow> ''missing''
             | Some c \<Rightarrow> tuple_str [int_str (ol_shares c), int_str (ol_correction c), int_str (ol_claimed c)])
            (scope @ ''-'' @ owner));
      (rest, chain') = lp_position_alerts alert scope registered ps (map_delete owner chain) in
      (here @ rest, chain'))"

definition compareLpEpoch ::
  "alerter \<Rightarrow> protocol_projection \<Rightarrow>
   observed_lp_epoch \<Rightarrow> address list \<Rightarrow> address list \<Rightarrow>
   (critical_alert list \<times> lp_reconciliation_result option) result" where
  "compareLpEpoch alert projection observed replayedRegistered observedRegistered =
     (let scope = ''lp-'' @ int_str (oe_epoch observed) in
      case map_get (pr_lpEpochs projection) (oe_epoch observed) of
        None \<Rightarrow> Inr ([alert LP_ACCOUNTING ''Observed chain state contains an LP epoch absent from replay.''
          ''absent'' (int_str (oe_epoch observed)) scope], None)
      | Some expected \<Rightarrow>
        rbind (lpIndexedLiability expected) (\<lambda>calculatedLiability.
        rbind (expectedLpVaultBalance expected) (\<lambda>expectedVaultBalance.
        rbind (checkedMoveU256Add (oe_indexedLiability observed) (oe_unallocatedRewards observed)
          ''observed LP indexed and unallocated buckets'') (\<lambda>partial.
        rbind (checkedMoveU256Add partial (oe_roundingReserve observed) ''observed LP vault buckets'')
          (\<lambda>observedLpBuckets.
        let (compared, left) = lp_position_alerts alert scope replayedRegistered (ep_positions expected)
              (map_from ol_owner (oe_positions observed)) in
        Inr (lp_bucket_alerts alert scope expected observed calculatedLiability expectedVaultBalance observedLpBuckets
          @ lp_field_alerts alert scope expected observed
          @ compared
          @ concat (map (\<lambda>c. alert_when (ol_shares c > 0 \<and> ol_owner c \<notin> set observedRegistered)
              (alert WALLET_REGISTRATION
                ''Observed positive LP ownership is not bound to the finalized registered-wallet set.''
                ''registered LP owner'' (ol_owner c) (scope @ ''-'' @ ol_owner c @ ''-observed-registration'')))
              (oe_positions observed))
          @ map (\<lambda>owner. alert POSITION_ACCOUNTING ''Observed LP position is absent from replay.''
              ''absent'' owner (scope @ ''-'' @ owner)) (map_keys left),
          Some \<lparr>lr_epoch = oe_epoch observed, lr_expectedVaultBalance = expectedVaultBalance,
            lr_calculatedLiability = calculatedLiability,
            lr_backingSurplus = oe_rewardVaultBalance observed - calculatedLiability\<rparr>))))))"


section \<open>Identity, registrations and authority\<close>

definition identity_alerts :: "alerter \<Rightarrow> protocol_projection \<Rightarrow> observed_snapshot \<Rightarrow> critical_alert list" where
  "identity_alerts alert pr obs =
     alert_when (pr_chainId pr \<noteq> CEDRA_TESTNET_CHAIN_ID
         \<or> ob_chainId obs \<noteq> pr_chainId pr
         \<or> ob_deploymentId obs \<noteq> pr_deploymentId pr
         \<or> ob_networkLabel obs \<noteq> pr_networkLabel pr
         \<or> Some (ob_tokenMetadata obs) \<noteq> pr_tokenMetadata pr
         \<or> ob_protocolExclusionsRemaining obs \<noteq> pr_protocolExclusionsRemaining pr)
       (alert DEPLOYMENT_IDENTITY
         ''Chain, registry identity, token metadata, or finite exclusion-bootstrap state disagrees with initialization evidence.''
         (tuple_str [int_str (pr_chainId pr), pr_deploymentId pr, pr_networkLabel pr, opt_str (pr_tokenMetadata pr),
           int_str (pr_protocolExclusionsRemaining pr)])
         (tuple_str [int_str (ob_chainId obs), ob_deploymentId obs, ob_networkLabel obs, ob_tokenMetadata obs,
           int_str (ob_protocolExclusionsRemaining obs)])
         ''global'')"

definition registrationsMatch :: "protocol_projection \<Rightarrow> observed_snapshot \<Rightarrow> bool" where
  "registrationsMatch pr obs =
     (let observedAccounts = remdups (ob_registeredWalletAccounts obs) in
      length (ob_registeredWalletAccounts obs) = length observedAccounts
      \<and> pr_registeredWalletCount pr = int (length (pr_registeredWallets pr))
      \<and> ob_registeredWalletCount obs = pr_registeredWalletCount pr
      \<and> length observedAccounts = length (pr_registeredWallets pr)
      \<and> list_all (\<lambda>account. account \<in> set observedAccounts) (map_keys (pr_registeredWallets pr)))"

definition registration_set_alerts :: "alerter \<Rightarrow> protocol_projection \<Rightarrow> observed_snapshot \<Rightarrow> critical_alert list" where
  "registration_set_alerts alert pr obs =
     alert_when (\<not> registrationsMatch pr obs)
       (alert WALLET_REGISTRATION ''Finalized wallet registration count/set disagrees with exact-once event replay.''
         (tuple_str (int_str (pr_registeredWalletCount pr) # sort (map_keys (pr_registeredWallets pr))))
         (tuple_str (int_str (ob_registeredWalletCount obs) # sort (ob_registeredWalletAccounts obs)))
         ''registered-wallets'')"

definition admin_alerts :: "alerter \<Rightarrow> string \<Rightarrow> address option \<Rightarrow> address option \<Rightarrow> critical_alert list" where
  "admin_alerts alert key expected observed =
     (case expected of
        None \<Rightarrow> [alert OPERATIONAL_ADMIN ''Legacy v0.1 deployment is missing an operational-admin initialization event.''
          ''evented non-zero authority'' (or_missing observed) key]
      | Some admin \<Rightarrow> alert_when (Some admin \<noteq> observed)
          (alert OPERATIONAL_ADMIN ''Legacy v0.1 on-chain operational admin differs from the evented publisher handoff.''
            admin (or_missing observed) key))"

definition authority_alerts :: "alerter \<Rightarrow> protocol_projection \<Rightarrow> observed_snapshot \<Rightarrow> critical_alert list" where
  "authority_alerts alert pr obs =
     (let admins = pr_operationalAdmins pr in
      if pr_packageVersion pr \<noteq> V02 then
        admin_alerts alert ''reflectionCore'' (oa_reflectionCore admins) (ob_coreOperationalAdmin obs)
        @ admin_alerts alert ''testAssets'' (oa_testAssets admins) (ob_faucetOperationalAdmin obs)
        @ admin_alerts alert ''testAmm'' (oa_testAmm admins) (ob_ammOperationalAdmin obs)
        @ alert_when (pr_deploymentReady pr \<noteq> admins_complete admins \<or> \<not> pr_deploymentReady pr)
          (alert OPERATIONAL_ADMIN
            ''Legacy v0.1 deployment readiness requires complete core, faucet, and AMM authority histories.''
            (bool_str True) (bool_str (pr_deploymentReady pr)) ''deployment-readiness'')
      else alert_when (\<not> pr_deploymentReady pr \<or> pr_lifecycle pr = Some CONFIGURING)
        (alert EVENT_DATA ''v0.2 deployment readiness requires the ownerless launch seal.''
          ''LIVE|CLOSED'' (or_missing (map_option lifecycle_str (pr_lifecycle pr))) ''deployment-readiness''))"

section \<open>Core accounting\<close>

definition core_vault_alerts ::
  "alerter \<Rightarrow> protocol_projection \<Rightarrow> observed_snapshot \<Rightarrow> int \<Rightarrow> int \<Rightarrow> int \<Rightarrow> critical_alert list" where
  "core_vault_alerts alert pr obs expectedVault liability observedCoreBuckets =
     alert_when (Some (ob_rewardVault obs) \<noteq> pr_rewardVault pr)
       (alert VAULT_BINDING ''Core reward-vault identifier differs from initialization evidence.''
         (or_missing (pr_rewardVault pr)) (ob_rewardVault obs) ''core'')
     @ alert_when (ob_rewardVaultBalance obs \<noteq> expectedVault)
       (alert VAULT_BACKING
         ''Core reward-vault balance differs from lifetime fees less wallet materializations and custody routes.''
         (int_str expectedVault) (int_str (ob_rewardVaultBalance obs)) ''core'')
     @ alert_when (ob_reflectionLiability obs \<noteq> liability)
       (alert REFLECTION_LIABILITY
         ''Core indexed liability differs from global shares/index/correction less settled totals.''
         (int_str liability) (int_str (ob_reflectionLiability obs)) ''core'')
     @ alert_when (ob_rewardVaultBalance obs \<noteq> observedCoreBuckets)
       (alert VAULT_BACKING
         ''Observed core vault does not equal indexed liability plus unallocated and rounding buckets.''
         (int_str observedCoreBuckets) (int_str (ob_rewardVaultBalance obs)) ''core-buckets'')"

definition core_field_alerts :: "alerter \<Rightarrow> protocol_projection \<Rightarrow> observed_snapshot \<Rightarrow> critical_alert list" where
  "core_field_alerts alert pr obs =
     alert_when (ob_currentIndex obs \<noteq> pr_currentIndex pr \<or> ob_indexRemainder obs \<noteq> pr_indexRemainder pr)
       (alert GLOBAL_INDEX ''On-chain global reflection index or remainder disagrees with replay.''
         (tuple_str [int_str (pr_currentIndex pr), int_str (pr_indexRemainder pr)])
         (tuple_str [int_str (ob_currentIndex obs), int_str (ob_indexRemainder obs)]) ''global'')
     @ alert_when (ob_eligibleSupply obs \<noteq> pr_eligibleSupply pr)
       (alert ELIGIBLE_SUPPLY ''On-chain total global shares disagree with replay.''
         (int_str (pr_eligibleSupply pr)) (int_str (ob_eligibleSupply obs)) ''global'')
     @ alert_when (ob_aggregateCorrection obs \<noteq> pr_aggregateCorrection pr
           \<or> ob_unallocatedFees obs \<noteq> pr_unallocatedFees pr
           \<or> ob_roundingReserve obs \<noteq> pr_roundingReserve pr)
       (alert CORE_ACCOUNTING ''Core aggregate correction, unallocated, or rounding bucket disagrees with replay.''
         (tuple_str [int_str (pr_aggregateCorrection pr), int_str (pr_unallocatedFees pr), int_str (pr_roundingReserve pr)])
         (tuple_str [int_str (ob_aggregateCorrection obs), int_str (ob_unallocatedFees obs), int_str (ob_roundingReserve obs)])
         ''global'')
     @ alert_when (ob_lifetimeSwapFees obs \<noteq> pr_lifetimeSwapFees pr
           \<or> ob_lifetimeMaterialized obs \<noteq> pr_lifetimeMaterialized pr
           \<or> ob_lifetimeCustodyRouted obs \<noteq> pr_lifetimeCustodyRouted pr)
       (alert LIFETIME_TOTAL ''Core fee, wallet-materialization, or custody-route totals disagree with replay.''
         (tuple_str [int_str (pr_lifetimeSwapFees pr), int_str (pr_lifetimeMaterialized pr), int_str (pr_lifetimeCustodyRouted pr)])
         (tuple_str [int_str (ob_lifetimeSwapFees obs), int_str (ob_lifetimeMaterialized obs), int_str (ob_lifetimeCustodyRouted obs)])
         ''global'')"

section \<open>Custody and pool\<close>

definition custody_alerts :: "alerter \<Rightarrow> protocol_projection \<Rightarrow> observed_snapshot \<Rightarrow> int \<Rightarrow> critical_alert list" where
  "custody_alerts alert pr obs pending =
     (let cu = pr_custody pr in
      alert_when (Some (ob_custodyAdapterId obs) \<noteq> cu_adapterId cu
          \<or> Some (ob_custodyActiveRouteEpoch obs) \<noteq> cu_activeRouteEpoch cu
          \<or> Some (ob_custodyActiveLpRewardVault obs) \<noteq> cu_activeLpRewardVault cu)
        (alert VAULT_BINDING ''Custody adapter or active epoch/vault route disagrees with registration events.''
          (tuple_str [opt_int_str (cu_adapterId cu), opt_int_str (cu_activeRouteEpoch cu), opt_str (cu_activeLpRewardVault cu)])
          (tuple_str [int_str (ob_custodyAdapterId obs), int_str (ob_custodyActiveRouteEpoch obs),
            ob_custodyActiveLpRewardVault obs]) ''custody-route'')
      @ alert_when (ob_custodyShares obs \<noteq> cu_shares cu
          \<or> ob_custodyCorrection obs \<noteq> cu_correction cu
          \<or> ob_custodyClaimed obs \<noteq> cu_claimed cu
          \<or> ob_custodyPendingRewards obs \<noteq> pending)
        (alert CUSTODY_ACCOUNTING
          ''Canonical custody shares, correction, settlement, or pending rewards disagree with replay.''
          (tuple_str [int_str (cu_shares cu), int_str (cu_correction cu), int_str (cu_claimed cu), int_str pending])
          (tuple_str [int_str (ob_custodyShares obs), int_str (ob_custodyCorrection obs), int_str (ob_custodyClaimed obs),
            int_str (ob_custodyPendingRewards obs)]) ''global''))"

definition reserve_store_alerts :: "alerter \<Rightarrow> protocol_projection \<Rightarrow> observed_snapshot \<Rightarrow> critical_alert list" where
  "reserve_store_alerts alert pr obs =
     (let reserveStore = cu_reserveStore (pr_custody pr) in
      (case reserveStore of None \<Rightarrow> [] | Some store \<Rightarrow>
        alert_when (ob_custodyReserveStore obs \<noteq> store)
          (alert VAULT_BINDING ''Canonical reserve-store identifier differs from route evidence.''
            store (ob_custodyReserveStore obs) ''custody''))
      @ alert_when (ob_poolRflReserveStore obs \<noteq> ob_custodyReserveStore obs
          \<or> Some (ob_poolRflReserveStore obs) \<noteq> reserveStore)
        (alert VAULT_BINDING ''AMM tRFL reserve-store view must equal the immutable custody registration.''
          (or_missing reserveStore) (tuple_str [ob_poolRflReserveStore obs, ob_custodyReserveStore obs])
          ''pool-rfl-reserve'')
      @ alert_when (Some (ob_poolUsdReserveStore obs) \<noteq> pr_mockUsdPoolReserve pr
          \<or> Some (ob_mockUsdPoolReserve obs) \<noteq> pr_mockUsdPoolReserve pr)
        (alert VAULT_BINDING
          ''AMM tUSD reserve and mock-asset settlement capability must equal the one-shot reserve event.''
          (or_missing (pr_mockUsdPoolReserve pr))
          (tuple_str [ob_poolUsdReserveStore obs, ob_mockUsdPoolReserve obs]) ''pool-tusd-reserve''))"

definition pool_alerts :: "alerter \<Rightarrow> protocol_projection \<Rightarrow> observed_snapshot \<Rightarrow> critical_alert list" where
  "pool_alerts alert pr obs =
     (let pool = pr_pool pr in
      alert_when (ob_trflReserve obs \<noteq> ob_custodyReserveBalance obs
          \<or> ob_trflReserve obs \<noteq> ob_custodyShares obs
          \<or> po_trflReserve pool \<noteq> cu_shares (pr_custody pr))
        (alert RESERVE_CUSTODY ''Pool tRFL reserve, raw custody-store balance, and custody shares must be exactly equal.''
          (tuple_str [int_str (po_trflReserve pool), int_str (cu_shares (pr_custody pr))])
          (tuple_str [int_str (ob_trflReserve obs), int_str (ob_custodyReserveBalance obs), int_str (ob_custodyShares obs)])
          ''global'')
      @ alert_when (ob_trflReserve obs \<noteq> po_trflReserve pool \<or> ob_tusdReserve obs \<noteq> po_tusdReserve pool)
        (alert POOL_RESERVES ''On-chain pool reserves disagree with swap/liquidity receipts.''
          (tuple_str [int_str (po_trflReserve pool), int_str (po_tusdReserve pool)])
          (tuple_str [int_str (ob_trflReserve obs), int_str (ob_tusdReserve obs)]) ''global'')
      @ alert_when (ob_ammFeeBps obs \<noteq> po_ammFeeBps pool
          \<or> ob_maximumGrossSwap obs \<noteq> po_maximumGrossSwap pool
          \<or> ob_maximumReserveBps obs \<noteq> po_maximumReserveBps pool
          \<or> ob_maximumRflContribution obs \<noteq> po_maximumRflContribution pool
          \<or> ob_maximumTusdContribution obs \<noteq> po_maximumTusdContribution pool
          \<or> ob_maximumNonFinalWithdrawalShareBps obs \<noteq> po_maximumNonFinalWithdrawalShareBps pool)
        (alert POOL_LIMITS ''On-chain swap, liquidity contribution, or withdrawal limits disagree with event replay.''
          (tuple_str (map int_str [po_ammFeeBps pool, po_maximumGrossSwap pool, po_maximumReserveBps pool,
            po_maximumRflContribution pool, po_maximumTusdContribution pool, po_maximumNonFinalWithdrawalShareBps pool]))
          (tuple_str (map int_str [ob_ammFeeBps obs, ob_maximumGrossSwap obs, ob_maximumReserveBps obs,
            ob_maximumRflContribution obs, ob_maximumTusdContribution obs, ob_maximumNonFinalWithdrawalShareBps obs]))
          ''global''))"


section \<open>Wallet positions and epochs\<close>

definition share_conservation_alerts :: "alerter \<Rightarrow> protocol_projection \<Rightarrow> critical_alert list" where
  "share_conservation_alerts alert pr =
     (let shares = sumWalletShares (pr_positions pr) + cu_shares (pr_custody pr) in
      alert_when (shares \<noteq> pr_eligibleSupply pr)
        (alert ELIGIBLE_SUPPLY ''Replay itself violates wallet plus custody share conservation.''
          (int_str shares) (int_str (pr_eligibleSupply pr)) ''self''))"

fun wallet_position_alerts ::
  "alerter \<Rightarrow> (address \<times> indexed_position) list \<Rightarrow> (address, observed_position) jsmap \<Rightarrow>
   critical_alert list \<times> (address, observed_position) jsmap" where
  "wallet_position_alerts alert [] chain = ([], chain)"
| "wallet_position_alerts alert ((account, p) # ps) chain =
     (let here = alert_when (case map_get chain account of None \<Rightarrow> True
            | Some c \<Rightarrow> op_rawTrfl c \<noteq> ip_rawTrfl p \<or> op_correction c \<noteq> ip_correction p \<or> op_claimed c \<noteq> ip_claimed p)
          (alert POSITION_ACCOUNTING ''Wallet position differs from independently replayed raw shares and reward history.''
            (tuple_str [int_str (ip_rawTrfl p), int_str (ip_correction p), int_str (ip_claimed p)])
            (case map_get chain account of None \<Rightarrow> ''missing''
             | Some c \<Rightarrow> tuple_str [int_str (op_rawTrfl c), int_str (op_correction c), int_str (op_claimed c)])
            (''wallet-'' @ account));
      (rest, chain') = wallet_position_alerts alert ps (map_delete account chain) in
      (here @ rest, chain'))"

definition positions_alerts :: "alerter \<Rightarrow> protocol_projection \<Rightarrow> observed_snapshot \<Rightarrow> critical_alert list" where
  "positions_alerts alert pr obs =
     (let (compared, left) = wallet_position_alerts alert (pr_positions pr) (map_from op_account (ob_positions obs)) in
      compared
      @ map (\<lambda>account. alert POSITION_ACCOUNTING ''Observed wallet position is absent from replay.''
          ''absent'' account (''wallet-'' @ account)) (map_keys left))"

definition epoch_presence_alerts :: "alerter \<Rightarrow> protocol_projection \<Rightarrow> observed_snapshot \<Rightarrow> critical_alert list" where
  "epoch_presence_alerts alert pr obs =
     alert_when (ob_activeLpEpoch obs \<noteq> pr_activeLpEpoch pr)
       (alert LP_ACCOUNTING ''Active LP epoch differs from event history.''
         (opt_int_str (pr_activeLpEpoch pr)) (opt_int_str (ob_activeLpEpoch obs)) ''active-epoch'')
     @ concat (map (\<lambda>epoch. alert_when (epoch \<notin> set (map oe_epoch (ob_lpEpochs obs)))
         (alert LP_ACCOUNTING ''Replayed LP epoch is missing from chain observation.''
           (int_str epoch) ''missing'' (''lp-'' @ int_str epoch))) (map_keys (pr_lpEpochs pr)))"

fun compareLpEpochs ::
  "alerter \<Rightarrow> protocol_projection \<Rightarrow> observed_lp_epoch list \<Rightarrow> address list \<Rightarrow> address list \<Rightarrow>
   (critical_alert list \<times> lp_reconciliation_result list) result" where
  "compareLpEpochs alert pr [] replayed observed = Inr ([], [])"
| "compareLpEpochs alert pr (oe # oes) replayed observed =
     rbind (compareLpEpoch alert pr oe replayed observed) (\<lambda>(alerts, res).
     rbind (compareLpEpochs alert pr oes replayed observed) (\<lambda>(more, results).
     Inr (alerts @ more, (case res of None \<Rightarrow> results | Some r \<Rightarrow> r # results))))"

section \<open>Version, faucet and pause state\<close>

definition version_alerts :: "alerter \<Rightarrow> protocol_projection \<Rightarrow> observed_snapshot \<Rightarrow> critical_alert list" where
  "version_alerts alert pr obs =
     alert_when (ob_packageVersion obs \<noteq> pr_packageVersion pr)
       (alert PACKAGE_VERSION ''On-chain package version disagrees with event history.''
         (pr_packageVersion pr) (ob_packageVersion obs) ''global'')
     @ alert_when (ob_automaticMaterialization obs \<noteq> pr_automaticMaterialization pr)
       (alert CORE_ACCOUNTING ''On-chain materialization mode disagrees with the immutable initialization event.''
         (bool_str (pr_automaticMaterialization pr)) (bool_str (ob_automaticMaterialization obs)) ''materialization-mode'')
     @ alert_when (pr_packageVersion pr = V02
         \<and> (ob_lifecycle obs \<noteq> pr_lifecycle pr \<or> ob_reflectionFeeBps obs \<noteq> Some (pr_feeBps pr)))
       (alert EVENT_DATA ''On-chain v0.2 lifecycle or immutable reflection fee disagrees with event history.''
         (tuple_str [or_missing (map_option lifecycle_str (pr_lifecycle pr)), int_str (pr_feeBps pr)])
         (tuple_str [or_missing (map_option lifecycle_str (ob_lifecycle obs)),
           or_missing (map_option int_str (ob_reflectionFeeBps obs))]) ''v0.2-identity'')
     @ alert_when (ob_faucetTrflGrant obs \<noteq> pr_faucetTrflGrant pr
         \<or> ob_faucetTusdGrant obs \<noteq> pr_faucetTusdGrant pr
         \<or> ob_faucetCooldownSeconds obs \<noteq> pr_faucetCooldownSeconds pr)
       (alert FAUCET_CONFIG ''On-chain faucet configuration disagrees with event history.''
         (tuple_str (map int_str [pr_faucetTrflGrant pr, pr_faucetTusdGrant pr, pr_faucetCooldownSeconds pr]))
         (tuple_str (map int_str [ob_faucetTrflGrant obs, ob_faucetTusdGrant obs, ob_faucetCooldownSeconds obs]))
         ''global'')"

definition pause_alerts :: "alerter \<Rightarrow> protocol_projection \<Rightarrow> observed_snapshot \<Rightarrow> critical_alert list" where
  "pause_alerts alert pr obs =
     (let pool = pr_pool pr in
      alert_when (pr_packageVersion pr \<noteq> V02 \<and>
          (ob_swapsPaused obs \<noteq> pr_swapsPaused pr
           \<or> ob_claimsPaused obs \<noteq> pr_claimsPaused pr
           \<or> ob_faucetPaused obs \<noteq> pr_faucetPaused pr
           \<or> ob_poolPaused obs \<noteq> po_poolPaused pool
           \<or> ob_liquidityPaused obs \<noteq> po_liquidityPaused pool
           \<or> ob_lpClaimsPaused obs \<noteq> po_lpClaimsPaused pool
           \<or> ob_shutdownMode obs \<noteq> po_shutdownMode pool
           \<or> ob_poolSeeded obs \<noteq> po_seeded pool))
        (alert PAUSE_STATE ''Core/faucet/pool pause and shutdown state disagrees with event history.''
          (tuple_str (map bool_str [pr_swapsPaused pr, pr_claimsPaused pr, pr_faucetPaused pr, po_poolPaused pool,
            po_liquidityPaused pool, po_lpClaimsPaused pool, po_shutdownMode pool, po_seeded pool]))
          (tuple_str (map bool_str [ob_swapsPaused obs, ob_claimsPaused obs, ob_faucetPaused obs, ob_poolPaused obs,
            ob_liquidityPaused obs, ob_lpClaimsPaused obs, ob_shutdownMode obs, ob_poolSeeded obs]))
          ''global''))"

section \<open>The reconciliation\<close>

text \<open>The comparisons after the ledger versions were found equal, in source order.\<close>

definition compare_all ::
  "alerter \<Rightarrow> protocol_projection \<Rightarrow> observed_snapshot \<Rightarrow> int \<Rightarrow> int \<Rightarrow> int \<Rightarrow>
   (critical_alert list \<times> lp_reconciliation_result list) result" where
  "compare_all alert pr obs expectedVault liability pending =
     rbind (checkedMoveU256Add (ob_reflectionLiability obs) (ob_unallocatedFees obs)
       ''observed core indexed and unallocated buckets'') (\<lambda>partial.
     rbind (checkedMoveU256Add partial (ob_roundingReserve obs) ''observed core vault buckets'') (\<lambda>buckets.
     rbind (compareLpEpochs alert pr (ob_lpEpochs obs) (map_keys (pr_registeredWallets pr))
       (ob_registeredWalletAccounts obs)) (\<lambda>(epochAlerts, lpResults).
     Inr (identity_alerts alert pr obs
       @ registration_set_alerts alert pr obs
       @ authority_alerts alert pr obs
       @ core_vault_alerts alert pr obs expectedVault liability buckets
       @ core_field_alerts alert pr obs
       @ custody_alerts alert pr obs pending
       @ reserve_store_alerts alert pr obs
       @ pool_alerts alert pr obs
       @ share_conservation_alerts alert pr
       @ positions_alerts alert pr obs
       @ epoch_presence_alerts alert pr obs
       @ epochAlerts
       @ version_alerts alert pr obs
       @ pause_alerts alert pr obs,
       lpResults))))"

definition reconcile ::
  "int \<Rightarrow> protocol_projection \<Rightarrow> observed_snapshot \<Rightarrow> event_cursor option \<Rightarrow> reconciliation_report result" where
  "reconcile now pr obs cursor =
     rbind (expectedCoreVaultBalance pr) (\<lambda>expectedVault.
     rbind (coreIndexedLiability pr) (\<lambda>liability.
     rbind (custodyPending pr) (\<lambda>pending.
     let alert = reconcile_alert now cursor;
         report = \<lparr>rp_ledgerVersion = ob_ledgerVersion obs, rp_expectedRewardVaultBalance = expectedVault,
           rp_calculatedReflectionLiability = liability,
           rp_backingSurplus = ob_rewardVaultBalance obs - liability,
           rp_lpEpochs = [], rp_alerts = [], rp_reconciled = False\<rparr> in
     if map_option cur_ledgerVersion cursor \<noteq> Some (ob_ledgerVersion obs) then
       Inr (report\<lparr>rp_alerts := [alert LEDGER_VERSION
         ''Finalized chain views must be pinned to the exact event-replay ledger version.''
         (case cursor of None \<Rightarrow> ''indexed cursor required'' | Some c \<Rightarrow> int_str (cur_ledgerVersion c))
         (int_str (ob_ledgerVersion obs)) ''global'']\<rparr>)
     else
       rbind (compare_all alert pr obs expectedVault liability pending) (\<lambda>(alerts, lpResults).
       Inr (report\<lparr>rp_lpEpochs := lpResults, rp_alerts := alerts, rp_reconciled := (alerts = [])\<rparr>)))))"

end
