(* ===== verification/Snapshot.thy ===== *)
theory Snapshot
  imports Json_Text Reconciler
begin

text \<open>
  Durable snapshots (\<open>packages/indexer/src/snapshot.ts\<close>): the serialisation of a projection, the
  exact-width validation of an untrusted tree, and the codec between snapshots and texts with its
  content identifier. \<open>sha256\<close> is \<open>createHash("sha256")\<close> with hexadecimal output, a parameter of the
  operations that use it. The validation reads an arbitrary value, so its model reads trees; after it
  the code casts the value to its type, and the \<open>parsed\<close> functions are these casts.
\<close>

record indexer_snapshot =
  sn_schemaVersion :: int
  sn_id :: string
  sn_takenAtUnixMilliseconds :: int
  sn_cursor :: "event_cursor option"
  sn_projection :: protocol_projection

section \<open>Serialisation\<close>

definition js_opt_str :: "string option \<Rightarrow> js_val" where
  "js_opt_str v = (case v of None \<Rightarrow> JNull | Some s \<Rightarrow> JStr s)"

definition js_opt_big :: "int option \<Rightarrow> js_val" where
  "js_opt_big v = (case v of None \<Rightarrow> JNull | Some n \<Rightarrow> JBig n)"

text \<open>
  Keys in the order the objects are built; \<open>lifecycle\<close> is absent from the initial projection and
  appended by the event that sets it. Maps are written as the list of their values or entries.
\<close>

definition serialise_position :: "indexed_position \<Rightarrow> js_val" where
  "serialise_position x = JObj [
     (''account'', JStr (ip_account x)), (''rawTrfl'', JBig (ip_rawTrfl x)),
     (''rawTusd'', JBig (ip_rawTusd x)), (''correction'', JBig (ip_correction x)),
     (''claimed'', JBig (ip_claimed x)), (''lifetimeClaimed'', JBig (ip_lifetimeClaimed x)),
     (''lifetimeMaterialized'', JBig (ip_lifetimeMaterialized x))]"

definition serialise_lp_position :: "indexed_lp_position \<Rightarrow> js_val" where
  "serialise_lp_position x = JObj [
     (''owner'', JStr (lp_owner x)), (''shares'', JBig (lp_shares x)),
     (''correction'', JBig (lp_correction x)), (''claimed'', JBig (lp_claimed x))]"

definition serialise_epoch :: "indexed_lp_epoch \<Rightarrow> js_val" where
  "serialise_epoch x = JObj [
     (''epoch'', JBig (ep_epoch x)), (''stateId'', JStr (ep_stateId x)),
     (''status'', JStr (status_str (ep_status x))), (''rewardVault'', JStr (ep_rewardVault x)),
     (''index'', JBig (ep_index x)), (''indexRemainder'', JBig (ep_indexRemainder x)),
     (''totalShares'', JBig (ep_totalShares x)), (''aggregateCorrection'', JBig (ep_aggregateCorrection x)),
     (''unallocatedRewards'', JBig (ep_unallocatedRewards x)),
     (''roundingReserve'', JBig (ep_roundingReserve x)),
     (''retiredResidueMagnified'', JBig (ep_retiredResidueMagnified x)),
     (''terminalRoundingBaseUnits'', js_opt_big (ep_terminalRoundingBaseUnits x)),
     (''lifetimeReceived'', JBig (ep_lifetimeReceived x)), (''lifetimeClaimed'', JBig (ep_lifetimeClaimed x)),
     (''quarantined'', JBool (ep_quarantined x)),
     (''positions'', JArr (map serialise_lp_position (map_values (ep_positions x))))]"

definition serialise_pool :: "indexed_pool \<Rightarrow> js_val" where
  "serialise_pool x = JObj [
     (''trflReserve'', JBig (po_trflReserve x)), (''tusdReserve'', JBig (po_tusdReserve x)),
     (''ammFeeBps'', JBig (po_ammFeeBps x)), (''maximumGrossSwap'', JBig (po_maximumGrossSwap x)),
     (''maximumReserveBps'', JBig (po_maximumReserveBps x)),
     (''maximumRflContribution'', JBig (po_maximumRflContribution x)),
     (''maximumTusdContribution'', JBig (po_maximumTusdContribution x)),
     (''maximumNonFinalWithdrawalShareBps'', JBig (po_maximumNonFinalWithdrawalShareBps x)),
     (''poolPaused'', JBool (po_poolPaused x)), (''liquidityPaused'', JBool (po_liquidityPaused x)),
     (''lpClaimsPaused'', JBool (po_lpClaimsPaused x)), (''shutdownMode'', JBool (po_shutdownMode x)),
     (''seeded'', JBool (po_seeded x))]"

definition serialise_custody :: "indexed_custody_position \<Rightarrow> js_val" where
  "serialise_custody x = JObj [
     (''adapterId'', js_opt_big (cu_adapterId x)), (''reserveStore'', js_opt_str (cu_reserveStore x)),
     (''activeRouteEpoch'', js_opt_big (cu_activeRouteEpoch x)),
     (''activeLpRewardVault'', js_opt_str (cu_activeLpRewardVault x)), (''shares'', JBig (cu_shares x)),
     (''correction'', JBig (cu_correction x)), (''claimed'', JBig (cu_claimed x)),
     (''lifetimeRouted'', JBig (cu_lifetimeRouted x))]"

definition serialise_admins :: "operational_admins \<Rightarrow> js_val" where
  "serialise_admins x = JObj [
     (''reflectionCore'', js_opt_str (oa_reflectionCore x)), (''testAssets'', js_opt_str (oa_testAssets x)),
     (''testAmm'', js_opt_str (oa_testAmm x))]"

definition serialiseProjection :: "protocol_projection \<Rightarrow> js_val" where
  "serialiseProjection x = JObj ([
     (''chainId'', JNum (pr_chainId x)), (''deploymentId'', JStr (pr_deploymentId x)),
     (''networkLabel'', JStr (pr_networkLabel x)), (''tokenMetadata'', js_opt_str (pr_tokenMetadata x)),
     (''protocolExclusionSlots'', JBig (pr_protocolExclusionSlots x)),
     (''protocolExclusionsRemaining'', JBig (pr_protocolExclusionsRemaining x)),
     (''protocolExcludedStores'', JArr (map (\<lambda>(k, v). JArr [JStr k, JStr v]) (pr_protocolExcludedStores x))),
     (''registeredWallets'', JArr (map (\<lambda>(k, v). JArr [JStr k, JStr v]) (pr_registeredWallets x))),
     (''registeredWalletCount'', JBig (pr_registeredWalletCount x)),
     (''automaticMaterialization'', JBool (pr_automaticMaterialization x)), (''feeBps'', JBig (pr_feeBps x)),
     (''currentIndex'', JBig (pr_currentIndex x)), (''indexRemainder'', JBig (pr_indexRemainder x)),
     (''eligibleSupply'', JBig (pr_eligibleSupply x)),
     (''aggregateCorrection'', JBig (pr_aggregateCorrection x)),
     (''unallocatedFees'', JBig (pr_unallocatedFees x)), (''roundingReserve'', JBig (pr_roundingReserve x)),
     (''rewardVault'', js_opt_str (pr_rewardVault x)),
     (''distributionVault'', js_opt_str (pr_distributionVault x)),
     (''mockUsdPoolReserve'', js_opt_str (pr_mockUsdPoolReserve x)),
     (''rewardVaultCredits'', JBig (pr_rewardVaultCredits x)),
     (''rewardVaultPayouts'', JBig (pr_rewardVaultPayouts x)),
     (''lifetimeSwapFees'', JBig (pr_lifetimeSwapFees x)),
     (''lifetimeMaterialized'', JBig (pr_lifetimeMaterialized x)),
     (''lifetimeCustodyRouted'', JBig (pr_lifetimeCustodyRouted x)),
     (''packageVersion'', JStr (pr_packageVersion x)), (''swapsPaused'', JBool (pr_swapsPaused x)),
     (''claimsPaused'', JBool (pr_claimsPaused x)), (''faucetPaused'', JBool (pr_faucetPaused x)),
     (''faucetTrflGrant'', JBig (pr_faucetTrflGrant x)), (''faucetTusdGrant'', JBig (pr_faucetTusdGrant x)),
     (''faucetCooldownSeconds'', JBig (pr_faucetCooldownSeconds x)),
     (''operationalAdmins'', serialise_admins (pr_operationalAdmins x)),
     (''deploymentReady'', JBool (pr_deploymentReady x)), (''pool'', serialise_pool (pr_pool x)),
     (''custody'', serialise_custody (pr_custody x)), (''activeLpEpoch'', js_opt_big (pr_activeLpEpoch x)),
     (''lpEpochs'', JArr (map serialise_epoch (map_values (pr_lpEpochs x)))),
     (''rewardVaultToEpoch'', JArr (map (\<lambda>(k, v). JArr [JStr k, JBig v]) (pr_rewardVaultToEpoch x))),
     (''stateIdToEpoch'', JArr (map (\<lambda>(k, v). JArr [JStr k, JBig v]) (pr_stateIdToEpoch x))),
     (''positions'', JArr (map serialise_position (map_values (pr_positions x)))),
     (''seenEventIds'', JArr (map (\<lambda>(k, v). JArr [JStr k, JStr v]) (pr_seenEventIds x)))]
     @ (case pr_lifecycle x of None \<Rightarrow> [] | Some l \<Rightarrow> [(''lifecycle'', JStr (lifecycle_str l))]))"

definition serialise_cursor :: "event_cursor option \<Rightarrow> js_val" where
  "serialise_cursor c = (case c of None \<Rightarrow> JNull
     | Some c \<Rightarrow> JObj [(''ledgerVersion'', JBig (cur_ledgerVersion c)), (''eventIndex'', JNum (cur_eventIndex c))])"

definition serialise_snapshot :: "indexer_snapshot \<Rightarrow> js_val" where
  "serialise_snapshot s = JObj [(''schemaVersion'', JNum (sn_schemaVersion s)), (''id'', JStr (sn_id s)),
     (''takenAtUnixMilliseconds'', JBig (sn_takenAtUnixMilliseconds s)), (''cursor'', serialise_cursor (sn_cursor s)),
     (''projection'', serialiseProjection (sn_projection s))]"

section \<open>Reading a validated tree\<close>

definition status_of :: "js_val \<Rightarrow> lp_epoch_status" where
  "status_of v = (if v = JStr ''active'' then Active else Claim_only)"

definition lifecycle_of :: "js_val \<Rightarrow> protocol_lifecycle" where
  "lifecycle_of v = (if v = JStr ''CONFIGURING'' then CONFIGURING else if v = JStr ''LIVE'' then LIVE else CLOSED)"

text \<open>\<open>new Map(entries)\<close> of an array of pairs, and a map rebuilt from values under one of their fields.\<close>

definition entry_of :: "js_val \<Rightarrow> js_val \<times> js_val" where
  "entry_of v = (case v of JArr [k, w] \<Rightarrow> (k, w) | _ \<Rightarrow> (JNull, JNull))"

definition entries_of :: "(js_val \<Rightarrow> 'v) \<Rightarrow> js_val \<Rightarrow> (string, 'v) jsmap" where
  "entries_of f v = foldl (\<lambda>m e. map_set (str_of (fst (entry_of e))) (f (snd (entry_of e))) m) [] (arr_of v)"

definition keyed_of :: "('v \<Rightarrow> 'k) \<Rightarrow> (js_val \<Rightarrow> 'v) \<Rightarrow> js_val \<Rightarrow> ('k, 'v) jsmap" where
  "keyed_of key f v = map_from key (map f (arr_of v))"

definition parsed_position :: "js_val \<Rightarrow> indexed_position" where
  "parsed_position v = \<lparr>
     ip_account = str_of (js_get v ''account''), ip_rawTrfl = big_of (js_get v ''rawTrfl''),
     ip_rawTusd = big_of (js_get v ''rawTusd''), ip_correction = big_of (js_get v ''correction''),
     ip_claimed = big_of (js_get v ''claimed''), ip_lifetimeClaimed = big_of (js_get v ''lifetimeClaimed''),
     ip_lifetimeMaterialized = big_of (js_get v ''lifetimeMaterialized'')\<rparr>"

definition parsed_lp_position :: "js_val \<Rightarrow> indexed_lp_position" where
  "parsed_lp_position v = \<lparr>
     lp_owner = str_of (js_get v ''owner''), lp_shares = big_of (js_get v ''shares''),
     lp_correction = big_of (js_get v ''correction''), lp_claimed = big_of (js_get v ''claimed'')\<rparr>"

definition parsed_epoch :: "js_val \<Rightarrow> indexed_lp_epoch" where
  "parsed_epoch v = \<lparr>
     ep_epoch = big_of (js_get v ''epoch''), ep_stateId = str_of (js_get v ''stateId''),
     ep_status = status_of (js_get v ''status''), ep_rewardVault = str_of (js_get v ''rewardVault''),
     ep_index = big_of (js_get v ''index''), ep_indexRemainder = big_of (js_get v ''indexRemainder''),
     ep_totalShares = big_of (js_get v ''totalShares''),
     ep_aggregateCorrection = big_of (js_get v ''aggregateCorrection''),
     ep_unallocatedRewards = big_of (js_get v ''unallocatedRewards''),
     ep_roundingReserve = big_of (js_get v ''roundingReserve''),
     ep_retiredResidueMagnified = big_of (js_get v ''retiredResidueMagnified''),
     ep_terminalRoundingBaseUnits = opt_big_of (js_get v ''terminalRoundingBaseUnits''),
     ep_lifetimeReceived = big_of (js_get v ''lifetimeReceived''),
     ep_lifetimeClaimed = big_of (js_get v ''lifetimeClaimed''),
     ep_quarantined = bool_of (js_get v ''quarantined''),
     ep_positions = keyed_of lp_owner parsed_lp_position (js_get v ''positions'')\<rparr>"

definition parsed_pool :: "js_val \<Rightarrow> indexed_pool" where
  "parsed_pool v = \<lparr>
     po_trflReserve = big_of (js_get v ''trflReserve''), po_tusdReserve = big_of (js_get v ''tusdReserve''),
     po_ammFeeBps = big_of (js_get v ''ammFeeBps''),
     po_maximumGrossSwap = big_of (js_get v ''maximumGrossSwap''),
     po_maximumReserveBps = big_of (js_get v ''maximumReserveBps''),
     po_maximumRflContribution = big_of (js_get v ''maximumRflContribution''),
     po_maximumTusdContribution = big_of (js_get v ''maximumTusdContribution''),
     po_maximumNonFinalWithdrawalShareBps = big_of (js_get v ''maximumNonFinalWithdrawalShareBps''),
     po_poolPaused = bool_of (js_get v ''poolPaused''),
     po_liquidityPaused = bool_of (js_get v ''liquidityPaused''),
     po_lpClaimsPaused = bool_of (js_get v ''lpClaimsPaused''),
     po_shutdownMode = bool_of (js_get v ''shutdownMode''), po_seeded = bool_of (js_get v ''seeded'')\<rparr>"

definition parsed_custody :: "js_val \<Rightarrow> indexed_custody_position" where
  "parsed_custody v = \<lparr>
     cu_adapterId = opt_big_of (js_get v ''adapterId''),
     cu_reserveStore = opt_str_of (js_get v ''reserveStore''),
     cu_activeRouteEpoch = opt_big_of (js_get v ''activeRouteEpoch''),
     cu_activeLpRewardVault = opt_str_of (js_get v ''activeLpRewardVault''),
     cu_shares = big_of (js_get v ''shares''), cu_correction = big_of (js_get v ''correction''),
     cu_claimed = big_of (js_get v ''claimed''), cu_lifetimeRouted = big_of (js_get v ''lifetimeRouted'')\<rparr>"

definition parsed_admins :: "js_val \<Rightarrow> operational_admins" where
  "parsed_admins v = \<lparr>
     oa_reflectionCore = opt_str_of (js_get v ''reflectionCore''),
     oa_testAssets = opt_str_of (js_get v ''testAssets''), oa_testAmm = opt_str_of (js_get v ''testAmm'')\<rparr>"

definition parsed_projection :: "js_val \<Rightarrow> protocol_projection" where
  "parsed_projection v = \<lparr>
     pr_chainId = num_of (js_get v ''chainId''), pr_deploymentId = str_of (js_get v ''deploymentId''),
     pr_networkLabel = str_of (js_get v ''networkLabel''),
     pr_tokenMetadata = opt_str_of (js_get v ''tokenMetadata''),
     pr_protocolExclusionSlots = big_of (js_get v ''protocolExclusionSlots''),
     pr_protocolExclusionsRemaining = big_of (js_get v ''protocolExclusionsRemaining''),
     pr_protocolExcludedStores = entries_of str_of (js_get v ''protocolExcludedStores''),
     pr_registeredWallets = entries_of str_of (js_get v ''registeredWallets''),
     pr_registeredWalletCount = big_of (js_get v ''registeredWalletCount''),
     pr_automaticMaterialization = bool_of (js_get v ''automaticMaterialization''),
     pr_feeBps = big_of (js_get v ''feeBps''), pr_currentIndex = big_of (js_get v ''currentIndex''),
     pr_indexRemainder = big_of (js_get v ''indexRemainder''),
     pr_eligibleSupply = big_of (js_get v ''eligibleSupply''),
     pr_aggregateCorrection = big_of (js_get v ''aggregateCorrection''),
     pr_unallocatedFees = big_of (js_get v ''unallocatedFees''),
     pr_roundingReserve = big_of (js_get v ''roundingReserve''),
     pr_rewardVault = opt_str_of (js_get v ''rewardVault''),
     pr_distributionVault = opt_str_of (js_get v ''distributionVault''),
     pr_mockUsdPoolReserve = opt_str_of (js_get v ''mockUsdPoolReserve''),
     pr_rewardVaultCredits = big_of (js_get v ''rewardVaultCredits''),
     pr_rewardVaultPayouts = big_of (js_get v ''rewardVaultPayouts''),
     pr_lifetimeSwapFees = big_of (js_get v ''lifetimeSwapFees''),
     pr_lifetimeMaterialized = big_of (js_get v ''lifetimeMaterialized''),
     pr_lifetimeCustodyRouted = big_of (js_get v ''lifetimeCustodyRouted''),
     pr_packageVersion = str_of (js_get v ''packageVersion''),
     pr_lifecycle = map_option lifecycle_of (js_field v ''lifecycle''),
     pr_swapsPaused = bool_of (js_get v ''swapsPaused''),
     pr_claimsPaused = bool_of (js_get v ''claimsPaused''),
     pr_faucetPaused = bool_of (js_get v ''faucetPaused''),
     pr_faucetTrflGrant = big_of (js_get v ''faucetTrflGrant''),
     pr_faucetTusdGrant = big_of (js_get v ''faucetTusdGrant''),
     pr_faucetCooldownSeconds = big_of (js_get v ''faucetCooldownSeconds''),
     pr_operationalAdmins = parsed_admins (js_get v ''operationalAdmins''),
     pr_deploymentReady = bool_of (js_get v ''deploymentReady''), pr_pool = parsed_pool (js_get v ''pool''),
     pr_custody = parsed_custody (js_get v ''custody''),
     pr_activeLpEpoch = opt_big_of (js_get v ''activeLpEpoch''),
     pr_lpEpochs = keyed_of ep_epoch parsed_epoch (js_get v ''lpEpochs''),
     pr_rewardVaultToEpoch = entries_of big_of (js_get v ''rewardVaultToEpoch''),
     pr_stateIdToEpoch = entries_of big_of (js_get v ''stateIdToEpoch''),
     pr_positions = keyed_of ip_account parsed_position (js_get v ''positions''),
     pr_seenEventIds = entries_of str_of (js_get v ''seenEventIds'')\<rparr>"

section \<open>Validation\<close>

definition is_record :: "js_val \<Rightarrow> bool" where
  "is_record v = (case v of JObj _ \<Rightarrow> True | _ \<Rightarrow> False)"

definition is_lower_hex :: "char \<Rightarrow> bool" where
  "is_lower_hex c = (is_digit c \<or> (97 \<le> (of_char c :: nat) \<and> (of_char c :: nat) \<le> 102))"

text \<open>The pattern \<open>/^0x(?:0|[1-9a-f][0-9a-f]{0,63})$/\<close>.\<close>

definition is_address_text :: "string \<Rightarrow> bool" where
  "is_address_text s = (take 2 s = ''0x'' \<and> (let d = drop 2 s in
     d = ''0'' \<or> (d \<noteq> [] \<and> list_all is_lower_hex d \<and> hd d \<noteq> CHR ''0'' \<and> length d \<le> 64)))"

definition isAddress :: "js_val option \<Rightarrow> bool" where
  "isAddress v = (case v of Some (JStr s) \<Rightarrow> is_address_text s | _ \<Rightarrow> False)"

definition isOptionalAddress :: "js_val option \<Rightarrow> bool" where
  "isOptionalAddress v = (v = Some JNull \<or> isAddress v)"

definition js_unsigned :: "js_val option \<Rightarrow> move_bits \<Rightarrow> bool" where
  "js_unsigned v bits = (case v of Some (JBig n) \<Rightarrow> isMoveUnsigned n bits | _ \<Rightarrow> False)"

definition js_signed :: "js_val option \<Rightarrow> bool" where
  "js_signed v = (case v of Some (JBig n) \<Rightarrow> isMoveSignedU256 n | _ \<Rightarrow> False)"

definition isOptionalMoveUnsigned :: "js_val option \<Rightarrow> move_bits \<Rightarrow> bool" where
  "isOptionalMoveUnsigned v bits = (v = Some JNull \<or> js_unsigned v bits)"

definition js_boolean :: "js_val option \<Rightarrow> bool" where
  "js_boolean v = (case v of Some (JBool _) \<Rightarrow> True | _ \<Rightarrow> False)"

definition js_array :: "js_val option \<Rightarrow> js_val list option" where
  "js_array v = (case v of Some (JArr vs) \<Rightarrow> Some vs | _ \<Rightarrow> None)"

definition js_text_between :: "js_val option \<Rightarrow> nat \<Rightarrow> bool" where
  "js_text_between v n = (case v of Some (JStr s) \<Rightarrow> 0 < length s \<and> length s \<le> n | _ \<Rightarrow> False)"

definition isCursor :: "js_val option \<Rightarrow> bool" where
  "isCursor v = (case v of
       Some JNull \<Rightarrow> True
     | Some (JObj ms) \<Rightarrow> js_unsigned (map_get ms ''ledgerVersion'') U64
         \<and> (case map_get ms ''eventIndex'' of
              Some (JNum n) \<Rightarrow> - MAX_SAFE_INTEGER \<le> n \<and> n \<le> MAX_SAFE_INTEGER \<and> 0 \<le> n \<and> isMoveUnsigned n U64
            | _ \<Rightarrow> False)
     | _ \<Rightarrow> False)"

definition hasUnique :: "'a list \<Rightarrow> bool" where
  "hasUnique xs = (length (remdups xs) = length xs)"

definition isWalletPosition :: "js_val \<Rightarrow> bool" where
  "isWalletPosition v = (is_record v
     \<and> isAddress (js_field v ''account'')
     \<and> js_unsigned (js_field v ''rawTrfl'') U64
     \<and> js_unsigned (js_field v ''rawTusd'') U64
     \<and> js_signed (js_field v ''correction'')
     \<and> js_unsigned (js_field v ''claimed'') U256
     \<and> js_unsigned (js_field v ''lifetimeClaimed'') U256
     \<and> js_unsigned (js_field v ''lifetimeMaterialized'') U256)"

definition isLpPosition :: "js_val \<Rightarrow> bool" where
  "isLpPosition v = (is_record v
     \<and> isAddress (js_field v ''owner'')
     \<and> js_unsigned (js_field v ''shares'') U128
     \<and> js_signed (js_field v ''correction'')
     \<and> js_unsigned (js_field v ''claimed'') U256)"

definition isLpEpoch :: "js_val \<Rightarrow> bool" where
  "isLpEpoch v = (is_record v \<and> (case js_array (js_field v ''positions'') of
       None \<Rightarrow> False
     | Some positions \<Rightarrow>
         js_unsigned (js_field v ''epoch'') U64 \<and> big_of (js_get v ''epoch'') > 0
         \<and> isAddress (js_field v ''stateId'')
         \<and> (js_field v ''status'' = Some (JStr ''active'') \<or> js_field v ''status'' = Some (JStr ''claim-only''))
         \<and> isAddress (js_field v ''rewardVault'')
         \<and> js_unsigned (js_field v ''index'') U256
         \<and> js_unsigned (js_field v ''indexRemainder'') U256
         \<and> js_unsigned (js_field v ''totalShares'') U128
         \<and> js_signed (js_field v ''aggregateCorrection'')
         \<and> js_unsigned (js_field v ''unallocatedRewards'') U128
         \<and> js_unsigned (js_field v ''roundingReserve'') U128
         \<and> js_unsigned (js_field v ''retiredResidueMagnified'') U256
         \<and> (if js_field v ''terminalRoundingBaseUnits'' = Some JNull
            then js_field v ''status'' = Some (JStr ''active'')
            else js_field v ''status'' = Some (JStr ''claim-only'')
              \<and> js_unsigned (js_field v ''terminalRoundingBaseUnits'') U128)
         \<and> js_unsigned (js_field v ''lifetimeReceived'') U256
         \<and> js_unsigned (js_field v ''lifetimeClaimed'') U256
         \<and> js_boolean (js_field v ''quarantined'')
         \<and> list_all isLpPosition positions
         \<and> hasUnique (map (\<lambda>p. js_field p ''owner'') positions)))"

definition isAddressEpochEntries :: "js_val option \<Rightarrow> bool" where
  "isAddressEpochEntries v = (case js_array v of
       None \<Rightarrow> False
     | Some es \<Rightarrow>
         list_all (\<lambda>e. case e of JArr [k, n] \<Rightarrow> isAddress (Some k) \<and> js_unsigned (Some n) U64 \<and> n \<noteq> JBig 0 | _ \<Rightarrow> False) es
         \<and> hasUnique (map (fst \<circ> entry_of) es) \<and> hasUnique (map (snd \<circ> entry_of) es))"

definition isAddressEntries :: "js_val option \<Rightarrow> bool" where
  "isAddressEntries v = (case js_array v of
       None \<Rightarrow> False
     | Some es \<Rightarrow>
         list_all (\<lambda>e. case e of JArr [k, w] \<Rightarrow> isAddress (Some k) \<and> isAddress (Some w) | _ \<Rightarrow> False) es
         \<and> hasUnique (map (fst \<circ> entry_of) es) \<and> hasUnique (map (snd \<circ> entry_of) es))"

definition isSeenEventEntries :: "js_val option \<Rightarrow> bool" where
  "isSeenEventEntries v = (case js_array v of
       None \<Rightarrow> False
     | Some es \<Rightarrow>
         list_all (\<lambda>e. case e of
             JArr [k, JStr c] \<Rightarrow> js_text_between (Some k) 512
               \<and> (case parse_cursor c of None \<Rightarrow> False
                  | Some (lv, idx) \<Rightarrow> isMoveUnsigned lv U64 \<and> isMoveUnsigned idx U64 \<and> idx \<le> MAX_SAFE_INTEGER)
           | _ \<Rightarrow> False) es
         \<and> hasUnique (map (fst \<circ> entry_of) es))"

text \<open>The first block of \<open>isProjection\<close>: the collections have their shape and unique keys.\<close>

definition collections_valid :: "js_val \<Rightarrow> bool" where
  "collections_valid v = (case (js_array (js_field v ''positions''), js_array (js_field v ''lpEpochs'')) of
       (Some positions, Some lpEpochs) \<Rightarrow>
         list_all isWalletPosition positions \<and> hasUnique (map (\<lambda>p. js_field p ''account'') positions)
         \<and> list_all isLpEpoch lpEpochs
         \<and> hasUnique (map (\<lambda>e. js_field e ''epoch'') lpEpochs)
         \<and> hasUnique (map (\<lambda>e. js_field e ''rewardVault'') lpEpochs)
         \<and> hasUnique (map (\<lambda>e. js_field e ''stateId'') lpEpochs)
         \<and> isAddressEpochEntries (js_field v ''rewardVaultToEpoch'')
         \<and> isAddressEpochEntries (js_field v ''stateIdToEpoch'')
         \<and> isSeenEventEntries (js_field v ''seenEventIds'')
         \<and> isAddressEntries (js_field v ''protocolExcludedStores'')
         \<and> isAddressEntries (js_field v ''registeredWallets'')
         \<and> is_record (js_get v ''operationalAdmins'') \<and> is_record (js_get v ''pool'') \<and> is_record (js_get v ''custody'')
     | _ \<Rightarrow> False)"

definition entries :: "js_val \<Rightarrow> string \<Rightarrow> (js_val \<times> js_val) list" where
  "entries v key = map entry_of (arr_of (js_get v key))"

definition bindings_valid :: "js_val \<Rightarrow> bool" where
  "bindings_valid v =
     (let excluded = entries v ''protocolExcludedStores''; zero = JStr ''0x0'' in
      list_all (\<lambda>(account, store). account \<noteq> zero \<and> store \<noteq> zero) excluded
      \<and> list_all (\<lambda>(account, store). account \<noteq> zero \<and> store \<noteq> zero
          \<and> account \<notin> set (map fst excluded) \<and> store \<notin> set (map snd excluded)) (entries v ''registeredWallets''))"

definition epochs_bound :: "js_val \<Rightarrow> bool" where
  "epochs_bound v =
     (let lpEpochs = arr_of (js_get v ''lpEpochs'');
          byVault = entries v ''rewardVaultToEpoch''; byState = entries v ''stateIdToEpoch'' in
      length byVault = length lpEpochs \<and> length byState = length lpEpochs
      \<and> list_all (\<lambda>e. map_get (rev byVault) (js_get e ''rewardVault'') = Some (js_get e ''epoch'')
          \<and> map_get (rev byState) (js_get e ''stateId'') = Some (js_get e ''epoch'')) lpEpochs)"

definition active_epoch_valid :: "js_val \<Rightarrow> bool" where
  "active_epoch_valid v =
     (let active = filter (\<lambda>e. js_field e ''status'' = Some (JStr ''active'')) (arr_of (js_get v ''lpEpochs'')) in
      isOptionalMoveUnsigned (js_field v ''activeLpEpoch'') U64
      \<and> (if js_field v ''activeLpEpoch'' = Some JNull then active = []
         else js_field v ''activeLpEpoch'' \<noteq> Some (JBig 0) \<and> length active = 1
           \<and> js_field (hd active) ''epoch'' = js_field v ''activeLpEpoch''))"

definition identity_valid :: "js_val \<Rightarrow> bool" where
  "identity_valid v =
     (js_text_between (js_field v ''deploymentId'') 512
      \<and> (js_field v ''networkLabel'' = Some (JStr ''uninitialized'') \<or> js_field v ''networkLabel'' = Some (JStr ''cedra-testnet''))
      \<and> js_field v ''chainId'' = Some (JNum 2)
      \<and> isOptionalAddress (js_field v ''tokenMetadata'')
      \<and> js_unsigned (js_field v ''protocolExclusionSlots'') U64
      \<and> js_unsigned (js_field v ''protocolExclusionsRemaining'') U64)"

definition owners_registered :: "js_val \<Rightarrow> bool" where
  "owners_registered v =
     (let registered = map fst (entries v ''registeredWallets'') in
      js_unsigned (js_field v ''registeredWalletCount'') U64
      \<and> js_field v ''registeredWalletCount'' = Some (JBig (int (length registered)))
      \<and> list_all (\<lambda>p. js_get p ''account'' \<in> set registered) (arr_of (js_get v ''positions''))
      \<and> list_all (\<lambda>e. list_all (\<lambda>p. js_field p ''shares'' = Some (JBig 0) \<or> js_get p ''owner'' \<in> set registered)
          (arr_of (js_get e ''positions''))) (arr_of (js_get v ''lpEpochs'')))"

definition is_v02_tree :: "js_val \<Rightarrow> bool" where
  "is_v02_tree v = (js_field v ''packageVersion'' = Some (JStr V02))"

definition ledger_valid :: "js_val \<Rightarrow> bool" where
  "ledger_valid v =
     (js_boolean (js_field v ''automaticMaterialization'')
      \<and> js_unsigned (js_field v ''feeBps'') U64
      \<and> big_of (js_get v ''feeBps'') \<le> (if is_v02_tree v then 500 else 100)
      \<and> js_unsigned (js_field v ''currentIndex'') U256
      \<and> js_unsigned (js_field v ''indexRemainder'') U256
      \<and> js_unsigned (js_field v ''eligibleSupply'') U128
      \<and> js_signed (js_field v ''aggregateCorrection'')
      \<and> js_unsigned (js_field v ''unallocatedFees'') U128
      \<and> js_unsigned (js_field v ''roundingReserve'') U128
      \<and> isOptionalAddress (js_field v ''rewardVault'')
      \<and> isOptionalAddress (js_field v ''distributionVault'')
      \<and> isOptionalAddress (js_field v ''mockUsdPoolReserve'')
      \<and> js_unsigned (js_field v ''rewardVaultCredits'') U256
      \<and> js_unsigned (js_field v ''rewardVaultPayouts'') U256
      \<and> js_unsigned (js_field v ''lifetimeSwapFees'') U256
      \<and> js_unsigned (js_field v ''lifetimeMaterialized'') U256
      \<and> js_unsigned (js_field v ''lifetimeCustodyRouted'') U256)"

definition version_valid :: "js_val \<Rightarrow> bool" where
  "version_valid v =
     (js_text_between (js_field v ''packageVersion'') 128
      \<and> (if is_v02_tree v
         then js_field v ''lifecycle'' \<in> {Some (JStr ''CONFIGURING''), Some (JStr ''LIVE''), Some (JStr ''CLOSED'')}
           \<and> js_field v ''automaticMaterialization'' = Some (JBool True)
         else js_field v ''lifecycle'' = None)
      \<and> js_boolean (js_field v ''swapsPaused'')
      \<and> js_boolean (js_field v ''claimsPaused'')
      \<and> js_boolean (js_field v ''faucetPaused'')
      \<and> js_unsigned (js_field v ''faucetTrflGrant'') U64
      \<and> js_unsigned (js_field v ''faucetTusdGrant'') U64
      \<and> js_unsigned (js_field v ''faucetCooldownSeconds'') U64)"

definition authority_valid :: "js_val \<Rightarrow> bool" where
  "authority_valid v =
     (let admins = js_get v ''operationalAdmins'' in
      isOptionalAddress (js_field admins ''reflectionCore'')
      \<and> isOptionalAddress (js_field admins ''testAssets'')
      \<and> isOptionalAddress (js_field admins ''testAmm'')
      \<and> js_boolean (js_field v ''deploymentReady'')
      \<and> js_field v ''deploymentReady'' = Some (JBool
          (if is_v02_tree v then js_field v ''lifecycle'' \<noteq> Some (JStr ''CONFIGURING'')
           else js_field admins ''reflectionCore'' \<noteq> Some JNull
             \<and> js_field admins ''testAssets'' \<noteq> Some JNull
             \<and> js_field admins ''testAmm'' \<noteq> Some JNull)))"

definition pool_valid :: "js_val \<Rightarrow> bool" where
  "pool_valid pool =
     (js_unsigned (js_field pool ''trflReserve'') U64
      \<and> js_unsigned (js_field pool ''tusdReserve'') U64
      \<and> js_unsigned (js_field pool ''ammFeeBps'') U64
      \<and> js_unsigned (js_field pool ''maximumGrossSwap'') U64
      \<and> js_unsigned (js_field pool ''maximumReserveBps'') U64
      \<and> js_unsigned (js_field pool ''maximumRflContribution'') U64
      \<and> js_unsigned (js_field pool ''maximumTusdContribution'') U64
      \<and> js_unsigned (js_field pool ''maximumNonFinalWithdrawalShareBps'') U64
      \<and> js_boolean (js_field pool ''poolPaused'')
      \<and> js_boolean (js_field pool ''liquidityPaused'')
      \<and> js_boolean (js_field pool ''lpClaimsPaused'')
      \<and> js_boolean (js_field pool ''shutdownMode'')
      \<and> js_boolean (js_field pool ''seeded''))"

definition custody_valid :: "js_val \<Rightarrow> bool" where
  "custody_valid custody =
     (isOptionalMoveUnsigned (js_field custody ''adapterId'') U64
      \<and> isOptionalAddress (js_field custody ''reserveStore'')
      \<and> isOptionalMoveUnsigned (js_field custody ''activeRouteEpoch'') U64
      \<and> isOptionalAddress (js_field custody ''activeLpRewardVault'')
      \<and> js_unsigned (js_field custody ''shares'') U128
      \<and> js_signed (js_field custody ''correction'')
      \<and> js_unsigned (js_field custody ''claimed'') U256
      \<and> js_unsigned (js_field custody ''lifetimeRouted'') U256)"

definition isProjection :: "js_val \<Rightarrow> bool" where
  "isProjection v = (is_record v \<and> collections_valid v \<and> bindings_valid v \<and> epochs_bound v \<and> active_epoch_valid v
     \<and> identity_valid v \<and> owners_registered v \<and> ledger_valid v \<and> version_valid v \<and> authority_valid v
     \<and> pool_valid (js_get v ''pool'') \<and> custody_valid (js_get v ''custody''))"

text \<open>The identifier pattern \<open>/^snapshot-[0-9a-f]{64}$/\<close>.\<close>

definition is_snapshot_id :: "string \<Rightarrow> bool" where
  "is_snapshot_id s = (take 9 s = ''snapshot-'' \<and> length s = 73 \<and> list_all is_lower_hex (drop 9 s))"

text \<open>A hash function with the output shape of SHA-256 in hexadecimal: 64 lower-case digits.\<close>

definition hex_digest :: "(string \<Rightarrow> string) \<Rightarrow> bool" where
  "hex_digest sha256 = (\<forall>x. length (sha256 x) = 64 \<and> list_all is_lower_hex (sha256 x))"

definition isSerializableSnapshot :: "js_val \<Rightarrow> bool" where
  "isSerializableSnapshot v =
     (js_field v ''schemaVersion'' = Some (JNum 1)
      \<and> (case js_field v ''id'' of Some (JStr s) \<Rightarrow> is_snapshot_id s | _ \<Rightarrow> False)
      \<and> js_unsigned (js_field v ''takenAtUnixMilliseconds'') U64
      \<and> isCursor (js_field v ''cursor'')
      \<and> isProjection (js_get v ''projection''))"

section \<open>The codec\<close>

definition snapshotId :: "(string \<Rightarrow> string) \<Rightarrow> string \<Rightarrow> string" where
  "snapshotId sha256 input = ''snapshot-'' @ sha256 input"

definition snapshotIdentityEncoding :: "js_val \<Rightarrow> string" where
  "snapshotIdentityEncoding v = encodeBigInts (JObj [
     (''schemaVersion'', js_get v ''schemaVersion''), (''id'', JStr ''pending''),
     (''takenAtUnixMilliseconds'', js_get v ''takenAtUnixMilliseconds''), (''cursor'', js_get v ''cursor''),
     (''projection'', js_get v ''projection'')])"

definition takeSnapshot ::
  "(string \<Rightarrow> string) \<Rightarrow> protocol_projection \<Rightarrow> event_cursor option \<Rightarrow> int \<Rightarrow> indexer_snapshot result" where
  "takeSnapshot sha256 projection cursor takenAt =
     (if \<not> isMoveUnsigned takenAt U64 then Inl (RangeError ''snapshot timestamp must fit Move u64'')
      else if \<not> isCursor (Some (serialise_cursor cursor))
      then Inl (RangeError ''snapshot cursor must fit the finalized Move u64 cursor domain'')
      else
        let pending = \<lparr>sn_schemaVersion = 1, sn_id = ''pending'', sn_takenAtUnixMilliseconds = takenAt,
              sn_cursor = cursor, sn_projection = projection\<rparr> in
        if \<not> isProjection (serialiseProjection projection)
        then Inl (TypeError ''snapshot projection is not a complete, exact-width protocol state'')
        else Inr (pending\<lparr>sn_id := snapshotId sha256 (snapshotIdentityEncoding (serialise_snapshot pending))\<rparr>))"

definition encodeSnapshot :: "indexer_snapshot \<Rightarrow> string" where
  "encodeSnapshot snapshot = encodeBigInts (serialise_snapshot snapshot)"

definition parsed_cursor :: "js_val \<Rightarrow> event_cursor option" where
  "parsed_cursor v = (if v = JNull then None
     else Some \<lparr>cur_ledgerVersion = big_of (js_get v ''ledgerVersion''), cur_eventIndex = num_of (js_get v ''eventIndex'')\<rparr>)"

definition decodeSnapshot :: "(string \<Rightarrow> string) \<Rightarrow> string \<Rightarrow> indexer_snapshot result" where
  "decodeSnapshot sha256 encoded =
     (case json_parse encoded of
        None \<Rightarrow> Inl (SyntaxError ''Unexpected token in JSON'')
      | Some tree \<Rightarrow> rbind (revive tree) (\<lambda>parsed.
          if \<not> isSerializableSnapshot parsed then Inl (TypeError ''Invalid indexer snapshot'')
          else if js_field parsed ''id'' \<noteq> Some (JStr (snapshotId sha256 (snapshotIdentityEncoding parsed)))
          then Inl (TypeError ''Indexer snapshot identifier does not match its content'')
          else Inr \<lparr>sn_schemaVersion = num_of (js_get parsed ''schemaVersion''), sn_id = str_of (js_get parsed ''id''),
            sn_takenAtUnixMilliseconds = big_of (js_get parsed ''takenAtUnixMilliseconds''),
            sn_cursor = parsed_cursor (js_get parsed ''cursor''),
            sn_projection = parsed_projection (js_get parsed ''projection'')\<rparr>))"

end
