(* ===== verification/Memory_Store.thy ===== *)
theory Memory_Store
  imports Snapshot
begin

text \<open>
  Snapshot stores. \<open>store_ops\<close> is the interface \<open>IndexerStore\<close> of \<open>packages/indexer/src/types.ts\<close>: an
  indexer is given one, so its operations are an argument. \<open>withExclusiveWriter\<close> brackets a callback and is
  split into the part before it (\<open>so_acquire\<close>, which issues a lease) and the part after it. A lease is an
  object compared by identity, here a number that is issued once. The theory also holds the in-memory
  store (\<open>packages/indexer/src/memory-store.ts\<close>) and that it keeps the contract of a store.
\<close>

section \<open>The interface\<close>

type_synonym lease = nat

record 'st store_ops =
  so_permitsImplicitWriterLease :: bool
  so_acquire :: "'st \<Rightarrow> (lease \<times> 'st) result"
  so_release :: "'st \<Rightarrow> 'st"
  so_loadLatestSnapshot :: "'st \<Rightarrow> indexer_snapshot option result"
  so_saveSnapshot :: "indexer_snapshot \<Rightarrow> lease \<Rightarrow> string option \<Rightarrow> 'st \<Rightarrow> 'st result"
  so_appendAlerts :: "critical_alert list \<Rightarrow> lease \<Rightarrow> 'st \<Rightarrow> 'st result"
  so_listAlerts :: "'st \<Rightarrow> critical_alert list result"

definition ConcurrentDurableWriterError :: "string \<Rightarrow> js_error" where
  "ConcurrentDurableWriterError lockPath = ClassError ''ConcurrentDurableWriterError''
     (''Another durable indexer writer holds the exclusive lock: '' @ lockPath)"

definition StaleIndexerSnapshotError :: "string \<Rightarrow> js_error" where
  "StaleIndexerSnapshotError detail = ClassError ''StaleIndexerSnapshotError''
     (''Refusing a stale or conflicting indexer snapshot: '' @ detail)"

definition InvalidIndexerWriterLeaseError :: js_error where
  "InvalidIndexerWriterLeaseError = ClassError ''InvalidIndexerWriterLeaseError''
     ''Durable indexer mutation requires the active lease issued by this exact store instance.''"

definition IndexerWriterLeaseRequiredError :: js_error where
  "IndexerWriterLeaseRequiredError = ClassError ''IndexerWriterLeaseRequiredError''
     ''Durable indexer mutation requires one explicit full-cycle writer lease.''"

text \<open>
  The contract an indexer relies on, for the states \<open>ok\<close> the store keeps itself in: a saved snapshot that
  survives its own text is the one loaded next, a save replaces the expected base only, and nothing else
  changes what is loaded.
\<close>

locale indexer_store =
  fixes sha256 :: "string \<Rightarrow> string" and ops :: "'st store_ops" and ok :: "'st \<Rightarrow> bool"
  assumes acquire_ok: "ok st \<Longrightarrow> so_acquire ops st = Inr (lease, st') \<Longrightarrow> ok st'"
    and release_ok: "ok st \<Longrightarrow> ok (so_release ops st)"
    and append_ok: "ok st \<Longrightarrow> so_appendAlerts ops alerts lease st = Inr st' \<Longrightarrow> ok st'"
    and save_ok: "ok st \<Longrightarrow> so_saveSnapshot ops s lease base st = Inr st' \<Longrightarrow> ok st'"
    and acquire_keeps: "ok st \<Longrightarrow> so_acquire ops st = Inr (lease, st') \<Longrightarrow> so_loadLatestSnapshot ops st' = so_loadLatestSnapshot ops st"
    and release_keeps: "ok st \<Longrightarrow> so_loadLatestSnapshot ops (so_release ops st) = so_loadLatestSnapshot ops st"
    and append_keeps: "ok st \<Longrightarrow> so_appendAlerts ops alerts lease st = Inr st' \<Longrightarrow> so_loadLatestSnapshot ops st' = so_loadLatestSnapshot ops st"
    and save_stores: "ok st \<Longrightarrow> so_saveSnapshot ops s lease base st = Inr st' \<Longrightarrow> hex_digest sha256
      \<Longrightarrow> decodeSnapshot sha256 (encodeSnapshot s) = Inr s \<Longrightarrow> so_loadLatestSnapshot ops st' = Inr (Some s)"
    and save_replaces_base: "ok st \<Longrightarrow> so_saveSnapshot ops s lease base st = Inr st'
      \<Longrightarrow> \<exists>latest. so_loadLatestSnapshot ops st = Inr latest \<and> map_option sn_id latest = base"

section \<open>The in-memory store\<close>

record memory_store =
  ms_latest :: "indexer_snapshot option"
  ms_alerts :: "critical_alert list"
  ms_writerActive :: bool
  ms_activeLease :: "lease option"
  ms_issuedLeases :: nat

definition InMemoryIndexerStore :: memory_store where
  "InMemoryIndexerStore = \<lparr>ms_latest = None, ms_alerts = [], ms_writerActive = False, ms_activeLease = None, ms_issuedLeases = 0\<rparr>"

definition memory_acquire :: "memory_store \<Rightarrow> (lease \<times> memory_store) result" where
  "memory_acquire st =
     (if ms_writerActive st then Inl (ConcurrentDurableWriterError ''in-memory-indexer-writer'')
      else let lease = ms_issuedLeases st in
        Inr (lease, st\<lparr>ms_writerActive := True, ms_activeLease := Some lease, ms_issuedLeases := Suc lease\<rparr>))"

definition memory_release :: "memory_store \<Rightarrow> memory_store" where
  "memory_release st = st\<lparr>ms_activeLease := None, ms_writerActive := False\<rparr>"

definition memory_assertActiveLease :: "lease \<Rightarrow> memory_store \<Rightarrow> unit result" where
  "memory_assertActiveLease lease st = rensure (ms_activeLease st = Some lease) InvalidIndexerWriterLeaseError"

definition memory_loadLatestSnapshot :: "memory_store \<Rightarrow> indexer_snapshot option result" where
  "memory_loadLatestSnapshot st = Inr (ms_latest st)"

definition memory_saveSnapshot :: "indexer_snapshot \<Rightarrow> lease \<Rightarrow> string option \<Rightarrow> memory_store \<Rightarrow> memory_store result" where
  "memory_saveSnapshot s lease expectedBaseSnapshotId st = rbind (memory_assertActiveLease lease st) (\<lambda>_.
     if map_option sn_id (ms_latest st) \<noteq> expectedBaseSnapshotId
     then Inl (StaleIndexerSnapshotError ''in-memory durable base changed after restore'')
     else Inr (st\<lparr>ms_latest := Some s\<rparr>))"

definition memory_appendAlerts :: "critical_alert list \<Rightarrow> lease \<Rightarrow> memory_store \<Rightarrow> memory_store result" where
  "memory_appendAlerts alerts lease st = rbind (memory_assertActiveLease lease st) (\<lambda>_.
     Inr (st\<lparr>ms_alerts := ms_alerts st @ alerts\<rparr>))"

definition memory_listAlerts :: "memory_store \<Rightarrow> critical_alert list result" where
  "memory_listAlerts st = Inr (ms_alerts st)"

definition memory_ops :: "memory_store store_ops" where
  "memory_ops = \<lparr>so_permitsImplicitWriterLease = True, so_acquire = memory_acquire, so_release = memory_release,
     so_loadLatestSnapshot = memory_loadLatestSnapshot, so_saveSnapshot = memory_saveSnapshot,
     so_appendAlerts = memory_appendAlerts, so_listAlerts = memory_listAlerts\<rparr>"

lemmas memory_defs = memory_ops_def memory_acquire_def memory_release_def memory_assertActiveLease_def
  memory_loadLatestSnapshot_def memory_saveSnapshot_def memory_appendAlerts_def memory_listAlerts_def

interpretation memory: indexer_store sha256 memory_ops "\<lambda>_. True" for sha256
  by unfold_locales (auto simp: memory_defs Let_def result_simps split: if_splits)

end
