(* ===== verification/Replay_Alerts.thy ===== *)
theory Replay_Alerts
  imports Reducer_Group
begin

text \<open>
  Alerts are never lost. Every handler, the replay loop and the settlement after it only append to
  the list of alerts, also when they throw. A group whose final list is empty was therefore clean
  at every step of the way, which is what the theories on alert-free groups rest on. The locale
  \<open>replay_invariant\<close> states what a property of contexts needs to hold through the whole replay
  loop.
\<close>

section \<open>Append-only alerts\<close>

definition grown :: "critical_alert list \<Rightarrow> reducer_context \<Rightarrow> bool" where
  "grown as ctx = (\<exists>new. cx_alerts ctx = as @ new)"

definition extends :: "critical_alert list \<Rightarrow> outcome \<Rightarrow> bool" where
  "extends as out = (\<exists>new. alerts_of out = as @ new)"

named_theorems extends_rules "append-only alerts, by the structure of a handler"

lemma extends_Done [extends_rules]: "grown as ctx \<Longrightarrow> extends as (Done ctx)"
  by (simp add: extends_def grown_def alerts_of_def)

lemma extends_throwing [extends_rules]: "grown as ctx \<Longrightarrow> extends as (throwing ctx e)"
  by (simp add: extends_def grown_def alerts_of_def throwing_def)

lemma extends_attempt [extends_rules]:
  "grown as ctx \<Longrightarrow> (\<And>x. r = Inr x \<Longrightarrow> extends as (f x)) \<Longrightarrow> extends as (attempt ctx r f)"
  by (cases r) (simp_all add: extends_def grown_def alerts_of_def attempt_def)

lemma extends_andThen [extends_rules]:
  "extends as m \<Longrightarrow> (\<And>ctx. grown as ctx \<Longrightarrow> extends as (f ctx)) \<Longrightarrow> extends as (andThen m f)"
  by (cases m) (simp_all add: extends_def grown_def alerts_of_def andThen_def)

lemma extends_if [extends_rules]:
  "(b \<Longrightarrow> extends as m) \<Longrightarrow> (\<not> b \<Longrightarrow> extends as n) \<Longrightarrow> extends as (if b then m else n)"
  by simp

lemma grown_refl [extends_rules]: "grown (cx_alerts ctx) ctx"
  by (simp add: grown_def)

lemma grown_alert_if [extends_rules]: "grown as ctx \<Longrightarrow> grown as (alert_if b a ctx)"
  by (auto simp: grown_def alert_if_def)

lemma grown_upd_next [extends_rules]: "grown as ctx \<Longrightarrow> grown as (upd_next f ctx)"
  by (simp add: grown_def)

lemma grown_if [extends_rules]: "grown as c \<Longrightarrow> grown as d \<Longrightarrow> grown as (if b then c else d)"
  by simp

lemma grown_local [extends_rules]:
  "grown as ctx \<Longrightarrow> grown as (ctx\<lparr>cx_pendingCoreFees := fees\<rparr>)"
  "grown as ctx \<Longrightarrow> grown as (ctx\<lparr>cx_consumedRoutes := ids\<rparr>)"
  "grown as ctx \<Longrightarrow> grown as (ctx\<lparr>cx_sellWalletDebited := b\<rparr>)"
  by (simp_all add: grown_def)

lemma extends_requireEpoch [extends_rules]:
  "grown as ctx \<Longrightarrow> (\<And>ep. extends as (f ep)) \<Longrightarrow> extends as (requireEpoch ctx e k f)"
  by (auto simp: requireEpoch_def split: option.splits intro: extends_rules)

lemma grown_consumeRoute [extends_rules]: "grown as ctx \<Longrightarrow> grown as (consumeRoute route missing ctx)"
  by (auto simp: consumeRoute_def split: option.splits intro: extends_rules)

lemma extends_adjustWalletAsset [extends_rules]:
  "grown as ctx \<Longrightarrow> extends as (adjustWalletAsset ctx account asset delta e)"
  unfolding adjustWalletAsset_def Let_def by (intro extends_rules)

lemma extends_materializeWallet [extends_rules]:
  "grown as ctx \<Longrightarrow> extends as (materializeWallet ctx e account amount t)"
  unfolding materializeWallet_def Let_def by (intro extends_rules)

lemma extends_core_handlers [extends_rules]:
  assumes "grown as ctx"
  shows "extends as (handle_ProtocolInitialized ctx e i)"
    and "extends as (handle_TokenCreated ctx e t)"
    and "extends as (handle_LaunchSealed ctx e l)"
    and "extends as (handle_PoolClosed ctx e c)"
    and "extends as (handle_ProtocolPrimaryStoreExcluded ctx e account store n)"
    and "extends as (handle_OperationalPrimaryStoreExcluded ctx e account store)"
    and "extends as (handle_WalletRegistered ctx e account store n)"
    and "extends as (handle_PositionCreated ctx e account)"
    and "extends as (handle_FaucetGrant ctx e account asset amount)"
    and "extends as (handle_FaucetConfigured ctx e x1 x2 x3)"
    and "extends as (handle_PoolReserveBound ctx e store custodian)"
    and "extends as (handle_WalletTransfer g ctx e from_a to_a amount)"
    and "extends as (handle_EligibleBalanceDebited ctx e account amount)"
    and "extends as (handle_EligibleBalanceCredited ctx e account amount)"
    and "extends as (handle_RewardsClaimed ctx e account amount)"
    and "extends as (handle_CustodyAdapterRegistered ctx e ca)"
    and "extends as (handle_CustodyEpochRouteOpened ctx e r)"
    and "extends as (handle_CustodySharesChanged ctx e cs)"
    and "extends as (handle_FeeConfigurationChanged ctx e x1 x2)"
    and "extends as (handle_FaucetPauseChanged ctx e b1)"
    and "extends as (handle_SwapLimitsChanged ctx e x1 x2 x3)"
    and "extends as (handle_LiquidityLimitsChanged ctx e x1 x2 x3)"
    and "extends as (handle_PauseStateChanged ctx e b1 b2)"
    and "extends as (handle_PoolPauseChanged ctx e p)"
  unfolding Let_def handle_ProtocolInitialized_def handle_TokenCreated_def handle_LaunchSealed_def
    handle_PoolClosed_def handle_ProtocolPrimaryStoreExcluded_def handle_OperationalPrimaryStoreExcluded_def
    handle_WalletRegistered_def handle_PositionCreated_def handle_FaucetGrant_def
    handle_FaucetConfigured_def handle_PoolReserveBound_def handle_WalletTransfer_def
    handle_EligibleBalanceDebited_def handle_EligibleBalanceCredited_def handle_RewardsClaimed_def
    handle_CustodyAdapterRegistered_def handle_CustodyEpochRouteOpened_def handle_CustodySharesChanged_def
    handle_FeeConfigurationChanged_def handle_FaucetPauseChanged_def handle_SwapLimitsChanged_def
    handle_LiquidityLimitsChanged_def handle_PauseStateChanged_def handle_PoolPauseChanged_def
  by (intro extends_rules assms)+

lemma extends_pool_handlers [extends_rules]:
  assumes "grown as ctx"
  shows "extends as (adjustLpShares ctx e c)"
    and "extends as (handle_LpEpochOpened ctx e k store vault)"
    and "extends as (handle_LpEpochStatusChanged ctx e k old_s new_s)"
    and "extends as (handle_LpFractionalResidueRetired g ctx e r)"
    and "extends as (handle_LpEpochTerminalDustClassified ctx e d)"
    and "extends as (handle_LpSharesTransferred ctx e t)"
    and "extends as (handle_LpRewardsClaimed ctx e lc)"
    and "extends as (handle_Unknown ctx e ty)"
  unfolding Let_def adjustLpShares_def handle_LpEpochOpened_def handle_LpEpochStatusChanged_def
    handle_LpFractionalResidueRetired_def handle_LpEpochTerminalDustClassified_def handle_LpSharesTransferred_def
    handle_LpRewardsClaimed_def handle_Unknown_def
  by (intro extends_rules assms)+

lemma extends_debitSeller [extends_rules]:
  "grown as ctx \<Longrightarrow> extends as (debitSeller ctx e s)"
  unfolding debitSeller_def Let_def by (intro extends_rules)

lemma extends_ReflectionIndexAdvanced [extends_rules]:
  "grown as ctx \<Longrightarrow> extends as (handle_ReflectionIndexAdvanced ctx e a)"
  unfolding handle_ReflectionIndexAdvanced_def Let_def by (cases "cx_pendingCoreFees ctx") (auto intro!: extends_rules)

lemma extends_OperationalAdminChanged [extends_rules]:
  "grown as ctx \<Longrightarrow> extends as (handle_OperationalAdminChanged ctx e s a b)"
  unfolding handle_OperationalAdminChanged_def Let_def by (cases s) (auto intro!: extends_rules)

lemma extends_Liquidity [extends_rules]:
  "grown as ctx \<Longrightarrow> extends as (handle_Liquidity g ctx e kind q)"
  unfolding handle_Liquidity_def Let_def by (cases kind) (auto intro!: extends_rules)

lemma extends_ReflectionFeeCollected [extends_rules]:
  "grown as ctx \<Longrightarrow> extends as (handle_ReflectionFeeCollected g ctx e f)"
  unfolding handle_ReflectionFeeCollected_def Let_def
  by (cases "swaps (gr_events g)") (auto intro!: extends_rules)

lemma grown_routeVaultAlerts [extends_rules]: "grown as ctx \<Longrightarrow> grown as (routeVaultAlerts ctx e r)"
  by (auto simp: routeVaultAlerts_def Let_def split: option.splits intro!: extends_rules)

lemma extends_CustodyRewardsRouted [extends_rules]:
  "grown as ctx \<Longrightarrow> extends as (handle_CustodyRewardsRouted ctx e r)"
  unfolding handle_CustodyRewardsRouted_def Let_def by (intro extends_rules)

lemma extends_LpRewardIndexAdvanced [extends_rules]:
  "grown as ctx \<Longrightarrow> extends as (handle_LpRewardIndexAdvanced g ctx e a)"
  unfolding handle_LpRewardIndexAdvanced_def Let_def by (intro extends_rules)

lemma extends_LpRewardQuarantined [extends_rules]:
  "grown as ctx \<Longrightarrow> extends as (handle_LpRewardQuarantined g ctx e q)"
  unfolding handle_LpRewardQuarantined_def Let_def by (intro extends_rules)

lemma extends_SwapExecuted [extends_rules]:
  "grown as ctx \<Longrightarrow> extends as (handle_SwapExecuted ctx e s)"
  unfolding handle_SwapExecuted_def Let_def by (intro extends_rules)

lemma extends_handle_event [extends_rules]: "grown as ctx \<Longrightarrow> extends as (handle_event g ctx e)"
  unfolding handle_event_def by (cases "ev_body e") (simp_all add: extends_rules)

lemma extends_replay [extends_rules]: "grown as ctx \<Longrightarrow> extends as (replay g es ctx)"
  by (induction es arbitrary: ctx) (simp_all add: extends_rules)

section \<open>The settlement\<close>

lemma grown_foldl [extends_rules]:
  "(\<And>c x. grown as c \<Longrightarrow> grown as (f c x)) \<Longrightarrow> grown as ctx \<Longrightarrow> grown as (foldl f ctx xs)"
  by (induction xs arbitrary: ctx) simp_all

lemma grown_settlement [extends_rules]:
  assumes "grown as ctx"
  shows "grown as (settlePendingFees ctx)"
    and "grown as (unconsumedRouteAlerts g ctx)"
    and "grown as (liquidityShareAlerts g ctx)"
    and "grown as (walletRegistrationAlerts ctx)"
    and "grown as (eligibleSupplyAlerts ctx)"
  using assms
  by (auto simp: settlePendingFees_def settlePendingFee_def unconsumedRouteAlerts_def liquidityShareAlerts_def
      walletRegistrationAlerts_def eligibleSupplyAlerts_def Let_def split: list.splits intro!: extends_rules)

lemma extends_coreAggregates [extends_rules]: "grown as ctx \<Longrightarrow> extends as (coreAggregates ctx)"
  unfolding coreAggregates_def Let_def by (intro extends_rules)

lemma extends_sumLpPositions [extends_rules]:
  "grown as ctx \<Longrightarrow> (\<And>x y c. grown as c \<Longrightarrow> extends as (k x y c)) \<Longrightarrow> extends as (sumLpPositions ep ps a b ctx k)"
  by (induction ps arbitrary: a b ctx) (simp_all add: Let_def extends_rules)

lemma extends_checkEpochs [extends_rules]: "grown as ctx \<Longrightarrow> extends as (checkEpochs eps ctx)"
proof (induction eps arbitrary: ctx)
  case (Cons ep eps)
  then have "extends as (checkEpoch ctx ep)"
    unfolding checkEpoch_def Let_def by (intro extends_rules)
  with Cons.IH show ?case by (simp add: extends_andThen)
qed (simp add: extends_rules)

lemma extends_finishGroup [extends_rules]: "grown as ctx \<Longrightarrow> extends as (finishGroup g ctx)"
  unfolding finishGroup_def Let_def by (intro extends_rules)

lemma extends_quiet: "extends as (Done ctx) \<Longrightarrow> cx_alerts ctx = [] \<Longrightarrow> as = []"
  by (simp add: extends_def alerts_of_def)

lemma handle_event_quiet: "handle_event g ctx e = Done ctx' \<Longrightarrow> cx_alerts ctx' = [] \<Longrightarrow> cx_alerts ctx = []"
  using extends_handle_event [OF grown_refl, of ctx g e] extends_quiet by simp

lemma finishGroup_quiet: "finishGroup g ctx = Done ctx' \<Longrightarrow> cx_alerts ctx' = [] \<Longrightarrow> cx_alerts ctx = []"
  using extends_finishGroup [OF grown_refl, of ctx g] extends_quiet by simp

section \<open>Invariants of the replay loop\<close>

text \<open>
  The contract of an invariant: every handler keeps it on an event that passed the domain checks.
  The replay loop then keeps it. \<open>quiet_invariant\<close> is the weaker contract of a property that only
  needs to hold while no alert has been raised; it gives a \<open>replay_invariant\<close>.
\<close>

locale replay_invariant =
  fixes I :: "reducer_context \<Rightarrow> bool"
  assumes handle_keeps:
    "assertProtocolEventMoveDomains e = Inr () \<Longrightarrow> I ctx \<Longrightarrow> ensures (handle_event g ctx e) I"
begin

lemma replay_keeps:
  "\<forall>e \<in> set es. assertProtocolEventMoveDomains e = Inr () \<Longrightarrow> I ctx \<Longrightarrow> ensures (replay g es ctx) I"
proof (induction es arbitrary: ctx)
  case (Cons e es)
  from Cons.prems have "ensures (handle_event g ctx e) I" by (simp add: handle_keeps)
  then have "ensures (handle_event g ctx e) (\<lambda>c. ensures (replay g es c) I)"
    by (rule ensures_mono) (use Cons in simp)
  then show ?case by (simp add: ensures_andThen)
qed simp

end

locale quiet_invariant =
  fixes J :: "reducer_context \<Rightarrow> bool"
  assumes quiet_step:
    "assertProtocolEventMoveDomains e = Inr () \<Longrightarrow> cx_alerts ctx = [] \<Longrightarrow> J ctx \<Longrightarrow>
     ensures (handle_event g ctx e) (\<lambda>c. cx_alerts c = [] \<longrightarrow> J c)"

sublocale quiet_invariant \<subseteq> replay_invariant "\<lambda>c. cx_alerts c = [] \<longrightarrow> J c"
proof
  fix e :: protocol_event and ctx g
  assume dom: "assertProtocolEventMoveDomains e = Inr ()" and inv: "cx_alerts ctx = [] \<longrightarrow> J ctx"
  show "ensures (handle_event g ctx e) (\<lambda>c. cx_alerts c = [] \<longrightarrow> J c)"
  proof (cases "cx_alerts ctx = []")
    case True
    with dom inv show ?thesis by (simp add: quiet_step)
  next
    case False
    then show ?thesis
      by (cases "handle_event g ctx e") (auto simp: ensures_def dest: handle_event_quiet)
  qed
qed

end
