(* ===== verification/Wallet_Steps.thy ===== *)
theory Wallet_Steps
  imports Replay_Alerts
begin

text \<open>
  What the shared wallet operation does. \<open>adjustWalletAsset\<close> is refined to a pure update of the
  projection, \<open>walletAdjusted\<close>, guarded by \<open>walletFits\<close>: either the update is made in full or the
  operation throws and nothing is kept. The share ledger of \<open>Accounting\<close> then gives the holder's
  view: changing a balance never changes what anybody is owed.
\<close>

section \<open>Functional refinement of adjustWalletAsset\<close>

definition walletAdjusted :: "address \<Rightarrow> asset_symbol \<Rightarrow> int \<Rightarrow> protocol_projection \<Rightarrow> protocol_projection" where
  "walletAdjusted account asset delta pr =
     (let current = positionOrEmpty account (pr_positions pr) in
      if asset = TUSD then set_position account (current\<lparr>ip_rawTusd := ip_rawTusd current + delta\<rparr>) pr
      else (set_position account (current\<lparr>ip_rawTrfl := ip_rawTrfl current + delta,
               ip_correction := ip_correction current - delta * pr_currentIndex pr\<rparr>) pr)
             \<lparr>pr_eligibleSupply := pr_eligibleSupply pr + delta,
              pr_aggregateCorrection := pr_aggregateCorrection pr - delta * pr_currentIndex pr\<rparr>)"

definition walletFits :: "protocol_projection \<Rightarrow> address \<Rightarrow> asset_symbol \<Rightarrow> int \<Rightarrow> bool" where
  "walletFits pr account asset delta =
     (let current = positionOrEmpty account (pr_positions pr) in
      if asset = TUSD then 0 \<le> ip_rawTusd current + delta
      else 0 \<le> ip_rawTrfl current + delta \<and> 0 \<le> pr_eligibleSupply pr + delta
        \<and> 0 \<le> pr_currentIndex pr \<and> pr_currentIndex pr \<le> MOVE_U256_MAX
        \<and> \<bar>delta\<bar> \<le> MOVE_U256_MAX \<and> \<bar>delta\<bar> * pr_currentIndex pr \<le> MOVE_U256_MAX
        \<and> isMoveSignedU256 (ip_correction current)
        \<and> isMoveSignedU256 (ip_correction current - delta * pr_currentIndex pr)
        \<and> isMoveSignedU256 (pr_aggregateCorrection pr)
        \<and> isMoveSignedU256 (pr_aggregateCorrection pr - delta * pr_currentIndex pr))"

lemma adjustWalletAsset_Done:
  "adjustWalletAsset ctx account asset delta e = Done ctx' \<longleftrightarrow>
   walletFits (cx_next ctx) account asset delta \<and> ctx' = upd_next (walletAdjusted account asset delta) ctx"
proof (cases asset)
  case TUSD
  then show ?thesis
    by (auto simp: adjustWalletAsset_def walletFits_def walletAdjusted_def Let_def throwing_def upd_next_def)
next
  case TRFL
  consider "delta < 0" | "0 \<le> delta" by linarith
  then show ?thesis
    by cases (auto simp: TRFL adjustWalletAsset_def walletFits_def walletAdjusted_def Let_def throwing_def
        upd_next_def set_position_def attempt_Done_iff checked_iff isMoveUnsigned_iff mult_nonpos_nonneg)
qed

lemma ensures_adjustWalletAsset [ensures_simps]:
  "ensures (adjustWalletAsset ctx account asset delta e) P \<longleftrightarrow>
     (walletFits (cx_next ctx) account asset delta \<longrightarrow> P (upd_next (walletAdjusted account asset delta) ctx))"
proof (cases "adjustWalletAsset ctx account asset delta e")
  case (Threw err as)
  then show ?thesis
    using adjustWalletAsset_Done [of ctx account asset delta e "upd_next (walletAdjusted account asset delta) ctx"]
    by (simp add: ensures_def)
next
  case (Done ctx')
  then show ?thesis
    using adjustWalletAsset_Done [of ctx account asset delta e ctx'] by simp
qed

lemma walletAdjusted_fields [simp]:
  "pr_currentIndex (walletAdjusted a s d pr) = pr_currentIndex pr"
  "pr_indexRemainder (walletAdjusted a s d pr) = pr_indexRemainder pr"
  "pr_custody (walletAdjusted a s d pr) = pr_custody pr"
  "pr_pool (walletAdjusted a s d pr) = pr_pool pr"
  "pr_lpEpochs (walletAdjusted a s d pr) = pr_lpEpochs pr"
  "pr_activeLpEpoch (walletAdjusted a s d pr) = pr_activeLpEpoch pr"
  "pr_packageVersion (walletAdjusted a s d pr) = pr_packageVersion pr"
  "pr_lifecycle (walletAdjusted a s d pr) = pr_lifecycle pr"
  "pr_feeBps (walletAdjusted a s d pr) = pr_feeBps pr"
  "pr_operationalAdmins (walletAdjusted a s d pr) = pr_operationalAdmins pr"
  "pr_registeredWallets (walletAdjusted a s d pr) = pr_registeredWallets pr"
  "pr_lifetimeMaterialized (walletAdjusted a s d pr) = pr_lifetimeMaterialized pr"
  "pr_lifetimeCustodyRouted (walletAdjusted a s d pr) = pr_lifetimeCustodyRouted pr"
  "pr_lifetimeSwapFees (walletAdjusted a s d pr) = pr_lifetimeSwapFees pr"
  "pr_rewardVaultCredits (walletAdjusted a s d pr) = pr_rewardVaultCredits pr"
  "pr_rewardVaultPayouts (walletAdjusted a s d pr) = pr_rewardVaultPayouts pr"
  "pr_unallocatedFees (walletAdjusted a s d pr) = pr_unallocatedFees pr"
  "pr_seenEventIds (walletAdjusted a s d pr) = pr_seenEventIds pr"
  by (simp_all add: walletAdjusted_def set_position_def Let_def)

lemma position_after_adjust:
  "positionOrEmpty b (pr_positions (walletAdjusted a s d pr)) =
     (let p = positionOrEmpty a (pr_positions pr) in
      if b \<noteq> a then positionOrEmpty b (pr_positions pr)
      else if s = TUSD then p\<lparr>ip_rawTusd := ip_rawTusd p + d\<rparr>
      else p\<lparr>ip_rawTrfl := ip_rawTrfl p + d, ip_correction := ip_correction p - d * pr_currentIndex pr\<rparr>)"
  by (simp add: walletAdjusted_def set_position_def positionOrEmpty_def Let_def)

section \<open>Nobody's reward changes\<close>

text \<open>
  Crediting or debiting a wallet, in either asset, never changes the pending reflection reward of
  any wallet, the adjusted one included: the correction absorbs the balance change at the current
  index exactly.
\<close>

theorem adjust_keeps_pending:
  assumes "adjustWalletAsset ctx account asset delta e = Done ctx'"
    and "walletPending (positionOrEmpty b (pr_positions (cx_next ctx))) (pr_currentIndex (cx_next ctx)) = Inr r"
    and "walletPending (positionOrEmpty b (pr_positions (cx_next ctx'))) (pr_currentIndex (cx_next ctx')) = Inr r'"
  shows "r' = r"
proof -
  let ?d = "if b = account \<and> asset = TRFL then delta else 0"
  from assms(1) have next_eq: "cx_next ctx' = walletAdjusted account asset delta (cx_next ctx)"
    by (simp add: adjustWalletAsset_Done)
  have after: "positionOrEmpty b (pr_positions (cx_next ctx')) =
      (let p = positionOrEmpty account (pr_positions (cx_next ctx)) in
       if b \<noteq> account then positionOrEmpty b (pr_positions (cx_next ctx))
       else if asset = TUSD then p\<lparr>ip_rawTusd := ip_rawTusd p + delta\<rparr>
       else p\<lparr>ip_rawTrfl := ip_rawTrfl p + delta,
         ip_correction := ip_correction p - delta * pr_currentIndex (cx_next ctx)\<rparr>)"
    unfolding next_eq by (rule position_after_adjust)
  have index: "pr_currentIndex (cx_next ctx') = pr_currentIndex (cx_next ctx)"
    by (simp add: next_eq)
  show ?thesis
    using assms(2) assms(3) [unfolded index]
    by (rule wallet.rebalanced_pending [where d = ?d, rotated 3])
      (use asset_symbol.exhaust [of asset] in \<open>auto simp: after Let_def\<close>)
qed

end
