(* ===== verification/Replay_Ledger.thy ===== *)
theory Replay_Ledger
  imports Wallet_Steps
begin

text \<open>
  The double-entry bookkeeping of the replay. \<open>core_ledger\<close> relates the wallet and custody positions
  to the global aggregates, \<open>lp_ledger\<close> the LP positions of every epoch to its totals. Every handler
  keeps both, whatever the events say and whether or not they raise alerts; the agreement checks of
  the settlement are a second line of defence.
\<close>

section \<open>The ledgers\<close>

definition core_ledger :: "protocol_projection \<Rightarrow> bool" where
  "core_ledger pr =
     (map_sum ip_rawTrfl (pr_positions pr) + cu_shares (pr_custody pr) = pr_eligibleSupply pr
      \<and> map_sum ip_correction (pr_positions pr) + cu_correction (pr_custody pr) = pr_aggregateCorrection pr
      \<and> map_sum ip_claimed (pr_positions pr) = pr_lifetimeMaterialized pr
      \<and> cu_claimed (pr_custody pr) = pr_lifetimeCustodyRouted pr
      \<and> cu_lifetimeRouted (pr_custody pr) = pr_lifetimeCustodyRouted pr
      \<and> pr_rewardVaultCredits pr = pr_lifetimeSwapFees pr
      \<and> pr_rewardVaultPayouts pr = pr_lifetimeMaterialized pr + pr_lifetimeCustodyRouted pr)"

definition epoch_ledger :: "indexed_lp_epoch \<Rightarrow> bool" where
  "epoch_ledger ep =
     (map_sum lp_shares (ep_positions ep) = ep_totalShares ep
      \<and> map_sum lp_correction (ep_positions ep) = ep_aggregateCorrection ep
      \<and> map_sum lp_claimed (ep_positions ep) = ep_lifetimeClaimed ep)"

definition lp_ledger :: "protocol_projection \<Rightarrow> bool" where
  "lp_ledger pr = list_all (\<lambda>(k, ep). ep_epoch ep = k \<and> epoch_ledger ep) (pr_lpEpochs pr)"

lemma map_sum_set_position:
  "f (emptyPosition a) = 0 \<Longrightarrow>
   map_sum f (map_set a p m) = map_sum f m - f (positionOrEmpty a m) + f p"
  by (auto simp: map_sum_set positionOrEmpty_def split: option.splits)

lemma map_sum_set_lp_position:
  "f (emptyLpPosition a) = 0 \<Longrightarrow>
   map_sum f (map_set a p m) = map_sum f m - f (lpPositionOrEmpty a m) + f p"
  by (auto simp: map_sum_set lpPositionOrEmpty_def split: option.splits)

lemma lpPositionOrEmpty_set [simp]:
  "lpPositionOrEmpty b (map_set a p m) = (if b = a then p else lpPositionOrEmpty b m)"
  by (simp add: lpPositionOrEmpty_def)

lemma positionOrEmpty_set [simp]:
  "positionOrEmpty b (map_set a p m) = (if b = a then p else positionOrEmpty b m)"
  by (simp add: positionOrEmpty_def)

lemmas ledger_sums = map_sum_set_position map_sum_set_lp_position emptyPosition_def emptyLpPosition_def

lemma lp_ledger_get: "lp_ledger pr \<Longrightarrow> map_get (pr_lpEpochs pr) k = Some ep \<Longrightarrow> ep_epoch ep = k \<and> epoch_ledger ep"
  using map_get_Some_entries [of "pr_lpEpochs pr" k ep] by (auto simp: lp_ledger_def list_all_iff)

lemma lp_ledger_updateEpoch:
  assumes "lp_ledger pr" "epoch_ledger ep"
  shows "lp_ledger (updateEpoch ep pr)"
  using assms map_set_entries_subset [of "ep_epoch ep" ep "pr_lpEpochs pr"]
  by (auto simp: lp_ledger_def updateEpoch_def list_all_iff)

lemma core_ledger_adjusted [simp]: "core_ledger (walletAdjusted a s d pr) \<longleftrightarrow> core_ledger pr"
  by (auto simp: core_ledger_def walletAdjusted_def set_position_def Let_def ledger_sums)

lemma core_ledger_updateEpoch [simp]: "core_ledger (updateEpoch ep pr) \<longleftrightarrow> core_ledger pr"
  by (simp add: core_ledger_def updateEpoch_def)

section \<open>Every handler keeps the core ledger\<close>

lemma core_ledger_materializeWallet:
  "core_ledger (cx_next ctx) \<Longrightarrow>
   ensures (materializeWallet ctx e account amount t) (\<lambda>c. core_ledger (cx_next c))"
  unfolding materializeWallet_def Let_def
  by (simp add: ensures_simps checked_iff)
    (auto simp: core_ledger_def walletAdjusted_def set_position_def Let_def ledger_sums)

lemmas wallet_handler_defs = handle_ProtocolInitialized_def handle_TokenCreated_def handle_LaunchSealed_def
  handle_PoolClosed_def handle_ProtocolPrimaryStoreExcluded_def handle_OperationalPrimaryStoreExcluded_def
  handle_WalletRegistered_def handle_PositionCreated_def handle_FaucetGrant_def handle_FaucetConfigured_def
  handle_PoolReserveBound_def handle_WalletTransfer_def handle_EligibleBalanceDebited_def
  handle_EligibleBalanceCredited_def handle_RewardsClaimed_def

lemmas config_handler_defs = handle_FeeConfigurationChanged_def handle_FaucetPauseChanged_def
  handle_SwapLimitsChanged_def handle_LiquidityLimitsChanged_def handle_PauseStateChanged_def
  handle_PoolPauseChanged_def

lemmas custody_handler_defs = handle_CustodyAdapterRegistered_def handle_CustodyEpochRouteOpened_def
  handle_CustodySharesChanged_def handle_CustodyRewardsRouted_def

lemmas lp_handler_defs = adjustLpShares_def handle_LpEpochOpened_def handle_LpEpochStatusChanged_def
  handle_LpFractionalResidueRetired_def handle_LpEpochTerminalDustClassified_def handle_LpSharesTransferred_def
  handle_LpRewardIndexAdvanced_def handle_LpRewardQuarantined_def handle_LpRewardsClaimed_def

lemma routeVaultAlerts_fields [simp]:
  "cx_next (routeVaultAlerts ctx e r) = cx_next ctx"
  "cx_pendingCoreFees (routeVaultAlerts ctx e r) = cx_pendingCoreFees ctx"
  by (simp_all add: routeVaultAlerts_def Let_def split: option.splits)

lemma consumeRoute_fields [simp]:
  "cx_next (consumeRoute route missing ctx) = cx_next ctx"
  "cx_pendingCoreFees (consumeRoute route missing ctx) = cx_pendingCoreFees ctx"
  by (auto simp: consumeRoute_def split: option.splits)

text \<open>The fields the core ledger does not read.\<close>

lemma core_ledger_frame [simp]:
  "core_ledger (pr\<lparr>pr_deploymentId := x_deploymentId\<rparr>) \<longleftrightarrow> core_ledger pr"
  "core_ledger (pr\<lparr>pr_networkLabel := x_networkLabel\<rparr>) \<longleftrightarrow> core_ledger pr"
  "core_ledger (pr\<lparr>pr_tokenMetadata := x_tokenMetadata\<rparr>) \<longleftrightarrow> core_ledger pr"
  "core_ledger (pr\<lparr>pr_protocolExclusionSlots := x_protocolExclusionSlots\<rparr>) \<longleftrightarrow> core_ledger pr"
  "core_ledger (pr\<lparr>pr_protocolExclusionsRemaining := x_protocolExclusionsRemaining\<rparr>) \<longleftrightarrow> core_ledger pr"
  "core_ledger (pr\<lparr>pr_protocolExcludedStores := x_protocolExcludedStores\<rparr>) \<longleftrightarrow> core_ledger pr"
  "core_ledger (pr\<lparr>pr_registeredWallets := x_registeredWallets\<rparr>) \<longleftrightarrow> core_ledger pr"
  "core_ledger (pr\<lparr>pr_registeredWalletCount := x_registeredWalletCount\<rparr>) \<longleftrightarrow> core_ledger pr"
  "core_ledger (pr\<lparr>pr_automaticMaterialization := x_automaticMaterialization\<rparr>) \<longleftrightarrow> core_ledger pr"
  "core_ledger (pr\<lparr>pr_feeBps := x_feeBps\<rparr>) \<longleftrightarrow> core_ledger pr"
  "core_ledger (pr\<lparr>pr_currentIndex := x_currentIndex\<rparr>) \<longleftrightarrow> core_ledger pr"
  "core_ledger (pr\<lparr>pr_indexRemainder := x_indexRemainder\<rparr>) \<longleftrightarrow> core_ledger pr"
  "core_ledger (pr\<lparr>pr_unallocatedFees := x_unallocatedFees\<rparr>) \<longleftrightarrow> core_ledger pr"
  "core_ledger (pr\<lparr>pr_roundingReserve := x_roundingReserve\<rparr>) \<longleftrightarrow> core_ledger pr"
  "core_ledger (pr\<lparr>pr_rewardVault := x_rewardVault\<rparr>) \<longleftrightarrow> core_ledger pr"
  "core_ledger (pr\<lparr>pr_distributionVault := x_distributionVault\<rparr>) \<longleftrightarrow> core_ledger pr"
  "core_ledger (pr\<lparr>pr_mockUsdPoolReserve := x_mockUsdPoolReserve\<rparr>) \<longleftrightarrow> core_ledger pr"
  "core_ledger (pr\<lparr>pr_packageVersion := x_packageVersion\<rparr>) \<longleftrightarrow> core_ledger pr"
  "core_ledger (pr\<lparr>pr_lifecycle := x_lifecycle\<rparr>) \<longleftrightarrow> core_ledger pr"
  "core_ledger (pr\<lparr>pr_swapsPaused := x_swapsPaused\<rparr>) \<longleftrightarrow> core_ledger pr"
  "core_ledger (pr\<lparr>pr_claimsPaused := x_claimsPaused\<rparr>) \<longleftrightarrow> core_ledger pr"
  "core_ledger (pr\<lparr>pr_faucetPaused := x_faucetPaused\<rparr>) \<longleftrightarrow> core_ledger pr"
  "core_ledger (pr\<lparr>pr_faucetTrflGrant := x_faucetTrflGrant\<rparr>) \<longleftrightarrow> core_ledger pr"
  "core_ledger (pr\<lparr>pr_faucetTusdGrant := x_faucetTusdGrant\<rparr>) \<longleftrightarrow> core_ledger pr"
  "core_ledger (pr\<lparr>pr_faucetCooldownSeconds := x_faucetCooldownSeconds\<rparr>) \<longleftrightarrow> core_ledger pr"
  "core_ledger (pr\<lparr>pr_operationalAdmins := x_operationalAdmins\<rparr>) \<longleftrightarrow> core_ledger pr"
  "core_ledger (pr\<lparr>pr_deploymentReady := x_deploymentReady\<rparr>) \<longleftrightarrow> core_ledger pr"
  "core_ledger (pr\<lparr>pr_pool := x_pool\<rparr>) \<longleftrightarrow> core_ledger pr"
  "core_ledger (pr\<lparr>pr_activeLpEpoch := x_activeLpEpoch\<rparr>) \<longleftrightarrow> core_ledger pr"
  "core_ledger (pr\<lparr>pr_lpEpochs := x_lpEpochs\<rparr>) \<longleftrightarrow> core_ledger pr"
  "core_ledger (pr\<lparr>pr_rewardVaultToEpoch := x_rewardVaultToEpoch\<rparr>) \<longleftrightarrow> core_ledger pr"
  "core_ledger (pr\<lparr>pr_stateIdToEpoch := x_stateIdToEpoch\<rparr>) \<longleftrightarrow> core_ledger pr"
  "core_ledger (pr\<lparr>pr_seenEventIds := x_seenEventIds\<rparr>) \<longleftrightarrow> core_ledger pr"
  by (simp_all add: core_ledger_def)

lemma core_ledger_set_position:
  assumes "ip_rawTrfl p = ip_rawTrfl (positionOrEmpty a (pr_positions pr))"
    and "ip_correction p = ip_correction (positionOrEmpty a (pr_positions pr))"
    and "ip_claimed p = ip_claimed (positionOrEmpty a (pr_positions pr))"
  shows "core_ledger (set_position a p pr) \<longleftrightarrow> core_ledger pr"
  using assms by (simp add: core_ledger_def set_position_def ledger_sums)

lemma core_ledger_custody_handlers:
  assumes "core_ledger (cx_next ctx)"
  shows "ensures (handle_CustodyAdapterRegistered ctx e ca) (\<lambda>c. core_ledger (cx_next c))"
    and "ensures (handle_CustodyEpochRouteOpened ctx e ro) (\<lambda>c. core_ledger (cx_next c))"
    and "ensures (handle_CustodySharesChanged ctx e cs) (\<lambda>c. core_ledger (cx_next c))"
    and "ensures (handle_CustodyRewardsRouted ctx e cr) (\<lambda>c. core_ledger (cx_next c))"
  using assms
  by (auto simp: custody_handler_defs ensures_simps Let_def core_ledger_def checked_iff)

lemma core_ledger_debitSeller:
  "core_ledger (cx_next ctx) \<Longrightarrow> ensures (debitSeller ctx e s) (\<lambda>c. core_ledger (cx_next c))"
  by (simp add: debitSeller_def ensures_simps)

lemma core_ledger_fee_handlers:
  assumes "core_ledger (cx_next ctx)"
  shows "ensures (handle_ReflectionFeeCollected g ctx e f) (\<lambda>c. core_ledger (cx_next c))"
    and "ensures (handle_ReflectionIndexAdvanced ctx e ia) (\<lambda>c. core_ledger (cx_next c))"
    and "ensures (handle_SwapExecuted ctx e s) (\<lambda>c. core_ledger (cx_next c))"
    and "ensures (handle_Liquidity g ctx e kind q) (\<lambda>c. core_ledger (cx_next c))"
proof -
  have fee: "core_ledger (cx_next c) \<Longrightarrow>
      core_ledger (cx_next c\<lparr>pr_rewardVaultCredits := pr_rewardVaultCredits (cx_next c) + fc_feeAmount f,
        pr_lifetimeSwapFees := pr_lifetimeSwapFees (cx_next c) + fc_feeAmount f\<rparr>)" for c
    by (simp add: core_ledger_def)
  have "ensures (case swaps (gr_events g) of [] \<Rightarrow> Done ctx | (_, s) # _ \<Rightarrow> debitSeller ctx e s)
      (\<lambda>c. core_ledger (cx_next c))"
    using assms by (auto simp: core_ledger_debitSeller split: list.splits)
  then show "ensures (handle_ReflectionFeeCollected g ctx e f) (\<lambda>c. core_ledger (cx_next c))"
    unfolding handle_ReflectionFeeCollected_def ensures_andThen
    by (rule ensures_mono) (auto simp: ensures_simps Let_def checked_iff fee)
  show "ensures (handle_ReflectionIndexAdvanced ctx e ia) (\<lambda>c. core_ledger (cx_next c))"
    using assms
    by (auto simp: handle_ReflectionIndexAdvanced_def ensures_simps Let_def split: list.splits)
  show "ensures (handle_SwapExecuted ctx e s) (\<lambda>c. core_ledger (cx_next c))"
    unfolding handle_SwapExecuted_def ensures_andThen
    by (rule ensures_mono [OF core_ledger_debitSeller [OF assms]]) (auto simp: ensures_simps Let_def)
  show "ensures (handle_Liquidity g ctx e kind q) (\<lambda>c. core_ledger (cx_next c))"
    using assms by (cases kind) (simp_all add: handle_Liquidity_def ensures_simps Let_def)
qed

lemma core_ledger_handle_event:
  assumes "core_ledger (cx_next ctx)"
  shows "ensures (handle_event g ctx e) (\<lambda>c. core_ledger (cx_next c))"
proof (cases "ev_body e")
  case (RewardsMaterialized account amount t trigger)
  with assms show ?thesis by (simp add: handle_event_def core_ledger_materializeWallet)
next
  case (OperationalAdminChanged scope old_a new_a)
  with assms show ?thesis
    by (cases scope) (simp_all add: handle_event_def handle_OperationalAdminChanged_def Let_def)
qed (use assms in \<open>simp_all add: handle_event_def core_ledger_custody_handlers core_ledger_fee_handlers
  wallet_handler_defs config_handler_defs lp_handler_defs handle_Unknown_def ensures_simps Let_def
  core_ledger_set_position\<close>)

section \<open>Every handler keeps the LP ledger\<close>

lemma lp_ledger_frame [simp]:
  "lp_ledger (pr\<lparr>pr_deploymentId := x_deploymentId\<rparr>) \<longleftrightarrow> lp_ledger pr"
  "lp_ledger (pr\<lparr>pr_networkLabel := x_networkLabel\<rparr>) \<longleftrightarrow> lp_ledger pr"
  "lp_ledger (pr\<lparr>pr_tokenMetadata := x_tokenMetadata\<rparr>) \<longleftrightarrow> lp_ledger pr"
  "lp_ledger (pr\<lparr>pr_protocolExclusionSlots := x_protocolExclusionSlots\<rparr>) \<longleftrightarrow> lp_ledger pr"
  "lp_ledger (pr\<lparr>pr_protocolExclusionsRemaining := x_protocolExclusionsRemaining\<rparr>) \<longleftrightarrow> lp_ledger pr"
  "lp_ledger (pr\<lparr>pr_protocolExcludedStores := x_protocolExcludedStores\<rparr>) \<longleftrightarrow> lp_ledger pr"
  "lp_ledger (pr\<lparr>pr_registeredWallets := x_registeredWallets\<rparr>) \<longleftrightarrow> lp_ledger pr"
  "lp_ledger (pr\<lparr>pr_registeredWalletCount := x_registeredWalletCount\<rparr>) \<longleftrightarrow> lp_ledger pr"
  "lp_ledger (pr\<lparr>pr_automaticMaterialization := x_automaticMaterialization\<rparr>) \<longleftrightarrow> lp_ledger pr"
  "lp_ledger (pr\<lparr>pr_feeBps := x_feeBps\<rparr>) \<longleftrightarrow> lp_ledger pr"
  "lp_ledger (pr\<lparr>pr_currentIndex := x_currentIndex\<rparr>) \<longleftrightarrow> lp_ledger pr"
  "lp_ledger (pr\<lparr>pr_indexRemainder := x_indexRemainder\<rparr>) \<longleftrightarrow> lp_ledger pr"
  "lp_ledger (pr\<lparr>pr_eligibleSupply := x_eligibleSupply\<rparr>) \<longleftrightarrow> lp_ledger pr"
  "lp_ledger (pr\<lparr>pr_aggregateCorrection := x_aggregateCorrection\<rparr>) \<longleftrightarrow> lp_ledger pr"
  "lp_ledger (pr\<lparr>pr_unallocatedFees := x_unallocatedFees\<rparr>) \<longleftrightarrow> lp_ledger pr"
  "lp_ledger (pr\<lparr>pr_roundingReserve := x_roundingReserve\<rparr>) \<longleftrightarrow> lp_ledger pr"
  "lp_ledger (pr\<lparr>pr_rewardVault := x_rewardVault\<rparr>) \<longleftrightarrow> lp_ledger pr"
  "lp_ledger (pr\<lparr>pr_distributionVault := x_distributionVault\<rparr>) \<longleftrightarrow> lp_ledger pr"
  "lp_ledger (pr\<lparr>pr_mockUsdPoolReserve := x_mockUsdPoolReserve\<rparr>) \<longleftrightarrow> lp_ledger pr"
  "lp_ledger (pr\<lparr>pr_rewardVaultCredits := x_rewardVaultCredits\<rparr>) \<longleftrightarrow> lp_ledger pr"
  "lp_ledger (pr\<lparr>pr_rewardVaultPayouts := x_rewardVaultPayouts\<rparr>) \<longleftrightarrow> lp_ledger pr"
  "lp_ledger (pr\<lparr>pr_lifetimeSwapFees := x_lifetimeSwapFees\<rparr>) \<longleftrightarrow> lp_ledger pr"
  "lp_ledger (pr\<lparr>pr_lifetimeMaterialized := x_lifetimeMaterialized\<rparr>) \<longleftrightarrow> lp_ledger pr"
  "lp_ledger (pr\<lparr>pr_lifetimeCustodyRouted := x_lifetimeCustodyRouted\<rparr>) \<longleftrightarrow> lp_ledger pr"
  "lp_ledger (pr\<lparr>pr_packageVersion := x_packageVersion\<rparr>) \<longleftrightarrow> lp_ledger pr"
  "lp_ledger (pr\<lparr>pr_lifecycle := x_lifecycle\<rparr>) \<longleftrightarrow> lp_ledger pr"
  "lp_ledger (pr\<lparr>pr_swapsPaused := x_swapsPaused\<rparr>) \<longleftrightarrow> lp_ledger pr"
  "lp_ledger (pr\<lparr>pr_claimsPaused := x_claimsPaused\<rparr>) \<longleftrightarrow> lp_ledger pr"
  "lp_ledger (pr\<lparr>pr_faucetPaused := x_faucetPaused\<rparr>) \<longleftrightarrow> lp_ledger pr"
  "lp_ledger (pr\<lparr>pr_faucetTrflGrant := x_faucetTrflGrant\<rparr>) \<longleftrightarrow> lp_ledger pr"
  "lp_ledger (pr\<lparr>pr_faucetTusdGrant := x_faucetTusdGrant\<rparr>) \<longleftrightarrow> lp_ledger pr"
  "lp_ledger (pr\<lparr>pr_faucetCooldownSeconds := x_faucetCooldownSeconds\<rparr>) \<longleftrightarrow> lp_ledger pr"
  "lp_ledger (pr\<lparr>pr_operationalAdmins := x_operationalAdmins\<rparr>) \<longleftrightarrow> lp_ledger pr"
  "lp_ledger (pr\<lparr>pr_deploymentReady := x_deploymentReady\<rparr>) \<longleftrightarrow> lp_ledger pr"
  "lp_ledger (pr\<lparr>pr_pool := x_pool\<rparr>) \<longleftrightarrow> lp_ledger pr"
  "lp_ledger (pr\<lparr>pr_custody := x_custody\<rparr>) \<longleftrightarrow> lp_ledger pr"
  "lp_ledger (pr\<lparr>pr_activeLpEpoch := x_activeLpEpoch\<rparr>) \<longleftrightarrow> lp_ledger pr"
  "lp_ledger (pr\<lparr>pr_rewardVaultToEpoch := x_rewardVaultToEpoch\<rparr>) \<longleftrightarrow> lp_ledger pr"
  "lp_ledger (pr\<lparr>pr_stateIdToEpoch := x_stateIdToEpoch\<rparr>) \<longleftrightarrow> lp_ledger pr"
  "lp_ledger (pr\<lparr>pr_positions := x_positions\<rparr>) \<longleftrightarrow> lp_ledger pr"
  "lp_ledger (pr\<lparr>pr_seenEventIds := x_seenEventIds\<rparr>) \<longleftrightarrow> lp_ledger pr"
  "lp_ledger (set_position a p pr) \<longleftrightarrow> lp_ledger pr"
  "lp_ledger (walletAdjusted a s d pr) \<longleftrightarrow> lp_ledger pr"
  by (simp_all add: lp_ledger_def set_position_def)

lemma lp_ledger_lp_handlers:
  assumes "lp_ledger (cx_next ctx)"
  shows "ensures (adjustLpShares ctx e lc) (\<lambda>c. lp_ledger (cx_next c))"
    and "ensures (handle_LpEpochOpened ctx e k store vault) (\<lambda>c. lp_ledger (cx_next c))"
    and "ensures (handle_LpEpochStatusChanged ctx e k old_s new_s) (\<lambda>c. lp_ledger (cx_next c))"
    and "ensures (handle_LpFractionalResidueRetired g ctx e rr) (\<lambda>c. lp_ledger (cx_next c))"
    and "ensures (handle_LpEpochTerminalDustClassified ctx e td) (\<lambda>c. lp_ledger (cx_next c))"
    and "ensures (handle_LpSharesTransferred ctx e st) (\<lambda>c. lp_ledger (cx_next c))"
    and "ensures (handle_LpRewardIndexAdvanced g ctx e la) (\<lambda>c. lp_ledger (cx_next c))"
    and "ensures (handle_LpRewardQuarantined g ctx e qu) (\<lambda>c. lp_ledger (cx_next c))"
    and "ensures (handle_LpRewardsClaimed ctx e cl) (\<lambda>c. lp_ledger (cx_next c))"
proof -
  have step: "epoch_ledger ep \<Longrightarrow> lp_ledger (updateEpoch ep (cx_next ctx))" for ep
    using assms by (rule lp_ledger_updateEpoch)
  note get = lp_ledger_get [OF assms]
  note rules = ensures_simps Let_def checked_iff
  show "ensures (adjustLpShares ctx e lc) (\<lambda>c. lp_ledger (cx_next c))"
    unfolding adjustLpShares_def
    using assms by (auto simp: rules intro!: step dest!: get simp: epoch_ledger_def ledger_sums)
  show "ensures (handle_LpEpochOpened ctx e k store vault) (\<lambda>c. lp_ledger (cx_next c))"
    using assms step [of "freshEpoch k store vault"]
    by (simp add: handle_LpEpochOpened_def rules lp_ledger_def epoch_ledger_def freshEpoch_def)
  show "ensures (handle_LpEpochStatusChanged ctx e k old_s new_s) (\<lambda>c. lp_ledger (cx_next c))"
    unfolding handle_LpEpochStatusChanged_def
    using assms by (auto simp: rules intro!: step dest!: get simp: epoch_ledger_def)
  show "ensures (handle_LpFractionalResidueRetired g ctx e rr) (\<lambda>c. lp_ledger (cx_next c))"
    unfolding handle_LpFractionalResidueRetired_def
    using assms by (auto simp: rules intro!: step dest!: get simp: epoch_ledger_def ledger_sums)
  show "ensures (handle_LpEpochTerminalDustClassified ctx e td) (\<lambda>c. lp_ledger (cx_next c))"
    unfolding handle_LpEpochTerminalDustClassified_def
    using assms by (auto simp: rules intro!: step dest!: get simp: epoch_ledger_def)
  show "ensures (handle_LpSharesTransferred ctx e st) (\<lambda>c. lp_ledger (cx_next c))"
    unfolding handle_LpSharesTransferred_def
    using assms by (auto simp: rules intro!: step dest!: get simp: epoch_ledger_def ledger_sums)
  show "ensures (handle_LpRewardIndexAdvanced g ctx e la) (\<lambda>c. lp_ledger (cx_next c))"
    unfolding handle_LpRewardIndexAdvanced_def
    using assms by (auto simp: rules intro!: step dest!: get simp: epoch_ledger_def)
  show "ensures (handle_LpRewardQuarantined g ctx e qu) (\<lambda>c. lp_ledger (cx_next c))"
    unfolding handle_LpRewardQuarantined_def
    using assms by (auto simp: rules intro!: step dest!: get simp: epoch_ledger_def)
  show "ensures (handle_LpRewardsClaimed ctx e cl) (\<lambda>c. lp_ledger (cx_next c))"
    unfolding handle_LpRewardsClaimed_def
    using assms by (auto simp: rules intro!: step dest!: get simp: epoch_ledger_def ledger_sums)
qed

lemma lp_ledger_fee_handlers:
  assumes "lp_ledger (cx_next ctx)"
  shows "ensures (handle_ReflectionFeeCollected g ctx e f) (\<lambda>c. lp_ledger (cx_next c))"
    and "ensures (handle_ReflectionIndexAdvanced ctx e ia) (\<lambda>c. lp_ledger (cx_next c))"
    and "ensures (handle_SwapExecuted ctx e s) (\<lambda>c. lp_ledger (cx_next c))"
    and "ensures (handle_Liquidity g ctx e kind q) (\<lambda>c. lp_ledger (cx_next c))"
    and "ensures (materializeWallet ctx e account amount t) (\<lambda>c. lp_ledger (cx_next c))"
    and "ensures (handle_OperationalAdminChanged ctx e scope account store) (\<lambda>c. lp_ledger (cx_next c))"
  using assms
  by (auto simp: debitSeller_def handle_ReflectionFeeCollected_def handle_ReflectionIndexAdvanced_def
      handle_SwapExecuted_def handle_Liquidity_def materializeWallet_def handle_OperationalAdminChanged_def
      ensures_simps Let_def split: list.splits liquidity_kind.splits admin_scope.splits)

lemma lp_ledger_handle_event:
  assumes "lp_ledger (cx_next ctx)"
  shows "ensures (handle_event g ctx e) (\<lambda>c. lp_ledger (cx_next c))"
  by (cases "ev_body e") (use assms in \<open>simp_all add: handle_event_def lp_ledger_lp_handlers lp_ledger_fee_handlers
    handle_Unknown_def wallet_handler_defs config_handler_defs custody_handler_defs ensures_simps Let_def\<close>)

section \<open>The ledger invariant of whole groups\<close>

definition ledger_consistent :: "protocol_projection \<Rightarrow> bool" where
  "ledger_consistent pr = (core_ledger pr \<and> lp_ledger pr)"

interpretation ledger: replay_invariant "\<lambda>c. ledger_consistent (cx_next c)"
  by unfold_locales
    (simp add: ledger_consistent_def ensures_conj core_ledger_handle_event lp_ledger_handle_event)

end
