(* ===== verification/Group_Settlement.thy ===== *)
theory Group_Settlement
  imports Replay_Ledger
begin

text \<open>
  What the settlement after the replay loop establishes, and the step from handlers to whole
  transaction groups. A committed group has a vault that covers its liabilities exactly and values
  inside the Move domains; a group that throws leaves the prior projection. The locale
  \<open>group_invariant\<close> turns a property of committed groups into one of every reachable projection.
\<close>

section \<open>The projection after the settlement\<close>

definition unsettledFees :: "reducer_context \<Rightarrow> int" where
  "unsettledFees ctx = sum_list (map (\<lambda>p. if pf_sharesAtCollection p = 0 then fc_feeAmount (pf_fee p) else 0)
     (cx_pendingCoreFees ctx))"

lemma settlePendingFees_next:
  "cx_next (settlePendingFees ctx) = cx_next ctx\<lparr>pr_unallocatedFees := pr_unallocatedFees (cx_next ctx) + unsettledFees ctx\<rparr>"
proof -
  have "cx_next (foldl settlePendingFee c ps) = cx_next c\<lparr>pr_unallocatedFees := pr_unallocatedFees (cx_next c)
      + sum_list (map (\<lambda>p. if pf_sharesAtCollection p = 0 then fc_feeAmount (pf_fee p) else 0) ps)\<rparr>" for c ps
    by (induction ps arbitrary: c) (simp_all add: settlePendingFee_def add.assoc)
  then show ?thesis by (simp add: settlePendingFees_def unsettledFees_def)
qed

lemma foldl_alert_next:
  "(\<And>c x. cx_next (f c x) = cx_next c) \<Longrightarrow> cx_next (foldl f ctx xs) = cx_next ctx"
  by (induction xs arbitrary: ctx) simp_all

lemma settlement_alerts_next [simp]:
  "cx_next (unconsumedRouteAlerts g ctx) = cx_next ctx"
  "cx_next (liquidityShareAlerts g ctx) = cx_next ctx"
  "cx_next (walletRegistrationAlerts ctx) = cx_next ctx"
  "cx_next (eligibleSupplyAlerts ctx) = cx_next ctx"
  by (auto simp: unconsumedRouteAlerts_def liquidityShareAlerts_def walletRegistrationAlerts_def
      eligibleSupplyAlerts_def Let_def split_def foldl_alert_next split: list.splits)

section \<open>Backing\<close>

text \<open>
  \<open>core_backed\<close>: the core reward vault is split exactly into the indexed liability, the unallocated
  fees and the rounding reserve, none of them negative. \<open>epoch_backed\<close>: the vault of an LP epoch
  covers its liability and its unallocated rewards.
\<close>

definition core_backed :: "protocol_projection \<Rightarrow> bool" where
  "core_backed pr = (case (coreIndexedLiability pr, expectedCoreVaultBalance pr) of
       (Inr l, Inr v) \<Rightarrow> 0 \<le> pr_unallocatedFees pr \<and> 0 \<le> pr_roundingReserve pr
         \<and> v = l + pr_unallocatedFees pr + pr_roundingReserve pr
     | _ \<Rightarrow> False)"

definition epoch_backed :: "indexed_lp_epoch \<Rightarrow> bool" where
  "epoch_backed ep = (case (lpIndexedLiability ep, expectedLpVaultBalance ep) of
       (Inr l, Inr v) \<Rightarrow> 0 \<le> ep_unallocatedRewards ep \<and> l + ep_unallocatedRewards ep \<le> v
     | _ \<Rightarrow> False)"

definition fully_backed :: "protocol_projection \<Rightarrow> bool" where
  "fully_backed pr = (core_backed pr \<and> list_all epoch_backed (map_values (pr_lpEpochs pr)))"

lemma checkedVaultRemainder_Inr [checked_iff]:
  "checkedVaultRemainder v l u label = Inr r \<longleftrightarrow>
     0 \<le> l \<and> 0 \<le> u \<and> l + u \<le> v \<and> v \<le> MOVE_U256_MAX \<and> r = v - l - u"
  by (auto simp: checkedVaultRemainder_def result_simps checked_iff)

lemma epoch_backed_rounding: "lpResidueRounding ep label (ep_unallocatedRewards ep) = Inr r \<Longrightarrow> epoch_backed ep"
  by (auto simp: lpResidueRounding_def epoch_backed_def result_simps checked_iff)

lemma core_backed_frame [simp]:
  "coreIndexedLiability (pr\<lparr>pr_roundingReserve := r\<rparr>) = coreIndexedLiability pr"
  "expectedCoreVaultBalance (pr\<lparr>pr_roundingReserve := r\<rparr>) = expectedCoreVaultBalance pr"
  "coreIndexedLiability (pr\<lparr>pr_seenEventIds := m\<rparr>) = coreIndexedLiability pr"
  "expectedCoreVaultBalance (pr\<lparr>pr_seenEventIds := m\<rparr>) = expectedCoreVaultBalance pr"
  by (simp_all add: coreIndexedLiability_def expectedCoreVaultBalance_def)

lemma coreAggregates_ensures:
  "ensures (coreAggregates ctx) (\<lambda>c. core_backed (cx_next c)
     \<and> (\<exists>r. cx_next c = cx_next ctx\<lparr>pr_roundingReserve := r\<rparr>))"
  by (auto simp: coreAggregates_def ensures_simps Let_def checked_iff core_backed_def)

lemma sumLpPositions_ensures:
  "(\<And>x y c. cx_next c = cx_next ctx \<Longrightarrow> ensures (k x y c) P) \<Longrightarrow> ensures (sumLpPositions ep ps a b ctx k) P"
proof (induction ps arbitrary: a b ctx)
  case (Cons p ps)
  then show ?case by (auto simp: Let_def ensures_simps)
qed simp

lemma checkEpoch_ensures:
  "ensures (checkEpoch ctx ep) (\<lambda>c. epoch_backed ep \<and> cx_next c = cx_next ctx)"
  unfolding checkEpoch_def
  by (rule sumLpPositions_ensures) (auto simp: ensures_simps Let_def intro: epoch_backed_rounding)

lemma checkEpochs_ensures:
  "ensures (checkEpochs eps ctx) (\<lambda>c. list_all epoch_backed eps \<and> cx_next c = cx_next ctx)"
proof (induction eps arbitrary: ctx)
  case (Cons ep eps)
  have "ensures (checkEpoch ctx ep) (\<lambda>c. ensures (checkEpochs eps c)
      (\<lambda>c. list_all epoch_backed (ep # eps) \<and> cx_next c = cx_next ctx))"
    using checkEpoch_ensures
  proof (rule ensures_mono)
    fix c :: reducer_context assume "epoch_backed ep \<and> cx_next c = cx_next ctx"
    with Cons [of c] show "ensures (checkEpochs eps c) (\<lambda>c. list_all epoch_backed (ep # eps) \<and> cx_next c = cx_next ctx)"
      by simp
  qed
  then show ?case by (simp add: ensures_andThen)
qed simp

text \<open>The settlement changes two fields only, and what it returns is backed and in its domains.\<close>

lemma finishGroup_ensures:
  "ensures (finishGroup g ctx) (\<lambda>c. fully_backed (cx_next c) \<and> assertProjectionMoveDomains (cx_next c) = Inr ()
     \<and> (\<exists>r. cx_next c = cx_next ctx\<lparr>pr_unallocatedFees := pr_unallocatedFees (cx_next ctx) + unsettledFees ctx,
          pr_roundingReserve := r\<rparr>))"
  (is "ensures _ ?Q")
proof -
  let ?ctx = "walletRegistrationAlerts (liquidityShareAlerts g (unconsumedRouteAlerts g (settlePendingFees ctx)))"
  let ?rest = "\<lambda>c. andThen (checkEpochs (map_values (pr_lpEpochs (cx_next c))) c) (\<lambda>c.
      attempt c (assertProjectionMoveDomains (cx_next c)) (\<lambda>_. Done c))"
  have "ensures (coreAggregates ?ctx) (\<lambda>c. ensures (?rest c) ?Q)"
    using coreAggregates_ensures
  proof (rule ensures_mono)
    fix c :: reducer_context
    assume c: "core_backed (cx_next c) \<and> (\<exists>r. cx_next c = cx_next ?ctx\<lparr>pr_roundingReserve := r\<rparr>)"
    show "ensures (?rest c) ?Q"
      unfolding ensures_andThen ensures_attempt
      by (rule ensures_mono [OF checkEpochs_ensures]) (use c in \<open>auto simp: fully_backed_def settlePendingFees_next\<close>)
  qed
  then show ?thesis by (simp add: finishGroup_def Let_def ensures_andThen)
qed

section \<open>Whole groups\<close>

definition run_group :: "protocol_projection \<Rightarrow> protocol_event list \<Rightarrow> critical_alert list \<Rightarrow> outcome" where
  "run_group prior events alerts =
     (let g = \<lparr>gr_prior = prior, gr_events = events\<rparr> in
      andThen (replay g events (initial_context prior (hd events) alerts)) (finishGroup g))"

lemma settleGroup_run:
  "settleGroup prior (hd events) events alerts =
     (case run_group prior events alerts of
        Done ctx \<Rightarrow> \<lparr>rd_projection = mark_all_seen events (cx_next ctx), rd_alerts = cx_alerts ctx\<rparr>
      | Threw err as \<Rightarrow> \<lparr>rd_projection = mark_all_seen events prior,
          rd_alerts = as @ [problem (hd events) EVENT_DATA (error_message err) None None]\<rparr>)"
  by (simp add: settleGroup_def run_group_def Let_def)

definition sorted_group :: "protocol_event list \<Rightarrow> protocol_event list" where
  "sorted_group es = sort_key ev_eventIndex es"

lemma set_sorted_group [simp]: "set (sorted_group es) = set es"
  by (simp add: sorted_group_def)

lemma sorted_group_Nil [simp]: "sorted_group es = [] \<longleftrightarrow> es = []"
  by (metis set_empty set_sorted_group)

lemma domain_alerts_quiet:
  "\<forall>a \<in> set (domain_alerts e). al_code a \<noteq> EVENT_DATA \<Longrightarrow> assertProtocolEventMoveDomains e = Inr ()"
  by (cases "assertProtocolEventMoveDomains e") (simp_all add: domain_alerts_def problem_def)

lemma scan_events_domains:
  "\<forall>a \<in> set (scan_events prior first n ids es). al_code a \<noteq> EVENT_DATA \<Longrightarrow>
   \<forall>e \<in> set es. assertProtocolEventMoveDomains e = Inr ()"
proof (induction es arbitrary: n ids)
  case (Cons e es)
  then have "\<forall>a \<in> set (domain_alerts e). al_code a \<noteq> EVENT_DATA"
    by (simp add: scan_event_def Let_def ball_Un)
  with Cons show ?case by (auto dest: domain_alerts_quiet)
qed simp

text \<open>
  The four ways a group ends: nothing to do, refused before the replay, replayed and committed, or
  abandoned by a throw inside the replay.
\<close>

lemma reduceEventGroup_cases [consumes 1, case_names empty refused committed abandoned]:
  assumes "reduceEventGroup prior es = Inr r"
  obtains "es = []" "r = \<lparr>rd_projection = prior, rd_alerts = []\<rparr>"
  | "es \<noteq> []" "rd_projection r = prior" "\<exists>a \<in> set (rd_alerts r). al_code a = EVENT_DATA"
  | checked ctx where "es \<noteq> []" "assertProjectionMoveDomains prior = Inr ()"
      "\<forall>e \<in> set es. assertProtocolEventMoveDomains e = Inr ()"
      "preflight prior (hd (sorted_group es)) (sorted_group es) = Inr checked"
      "run_group prior (sorted_group es)
         (scan_events prior (hd (sorted_group es)) (- 1) [] (sorted_group es) @ checked) = Done ctx"
      "r = \<lparr>rd_projection = mark_all_seen (sorted_group es) (cx_next ctx), rd_alerts = cx_alerts ctx\<rparr>"
  | err as where "es \<noteq> []" "assertProjectionMoveDomains prior = Inr ()"
      "\<forall>e \<in> set es. assertProtocolEventMoveDomains e = Inr ()"
      "r = \<lparr>rd_projection = mark_all_seen (sorted_group es) prior,
         rd_alerts = as @ [problem (hd (sorted_group es)) EVENT_DATA (error_message err) None None]\<rparr>"
proof (cases "es = []")
  case True
  with assms that(1) show thesis by (simp add: reduceEventGroup_def)
next
  case nonempty: False
  let ?events = "sorted_group es" let ?scan = "scan_events prior (hd ?events) (- 1) [] ?events"
  note unfolded = assms [unfolded reduceEventGroup_def Let_def, folded sorted_group_def]
  show thesis
  proof (cases "assertProjectionMoveDomains prior")
    case (Inl err)
    with unfolded nonempty show thesis by (intro that(2)) (auto simp: problem_def)
  next
    case (Inr u)
    show thesis
    proof (cases "list_ex (\<lambda>a. al_code a = EVENT_DATA) ?scan")
      case True
      with unfolded nonempty Inr show thesis by (intro that(2)) (auto simp: list_ex_iff)
    next
      case False
      then have domains: "\<forall>e \<in> set es. assertProtocolEventMoveDomains e = Inr ()"
        using scan_events_domains [of prior "hd ?events" "- 1" "[]" ?events] by (auto simp: list_ex_iff)
      from unfolded nonempty Inr False obtain checked where checked: "preflight prior (hd ?events) ?events = Inr checked"
        and r: "r = settleGroup prior (hd ?events) ?events (?scan @ checked)"
        by (auto simp: result_simps)
      show thesis
      proof (cases "run_group prior ?events (?scan @ checked)")
        case (Done ctx)
        with nonempty Inr domains checked r show thesis by (intro that(3)) (simp_all add: settleGroup_run)
      next
        case (Threw err as)
        with nonempty Inr domains r show thesis by (intro that(4)) (simp_all add: settleGroup_run)
      qed
    qed
  qed
qed

section \<open>Invariants of reachable projections\<close>

inductive reachable :: "protocol_projection \<Rightarrow> bool" where
  reachable_empty: "reachable createEmptyProjection"
| reachable_group: "reachable pr \<Longrightarrow> reduceEventGroup pr es = Inr r \<Longrightarrow> reachable (rd_projection r)"

locale group_invariant =
  fixes K :: "protocol_projection \<Rightarrow> bool"
  assumes K_empty: "K createEmptyProjection"
    and K_commit: "\<lbrakk>K prior; assertProjectionMoveDomains prior = Inr ();
      \<forall>e \<in> set es. assertProtocolEventMoveDomains e = Inr (); run_group prior es alerts = Done c\<rbrakk> \<Longrightarrow> K (cx_next c)"
    and K_seen: "K pr \<Longrightarrow> assertProtocolEventMoveDomains e = Inr () \<Longrightarrow> K (mark_seen e pr)"
begin

lemma K_all_seen: "K pr \<Longrightarrow> \<forall>e \<in> set es. assertProtocolEventMoveDomains e = Inr () \<Longrightarrow> K (mark_all_seen es pr)"
  by (induction es arbitrary: pr) (simp_all add: mark_all_seen_def K_seen)

lemma reduce_keeps:
  assumes "K prior" "reduceEventGroup prior es = Inr r"
  shows "K (rd_projection r)"
  using assms(2)
proof (cases rule: reduceEventGroup_cases)
  case (committed checked ctx)
  then have "K (cx_next ctx)" using assms(1) by (intro K_commit) simp_all
  with committed show ?thesis by (simp add: K_all_seen)
qed (use assms(1) in \<open>simp_all add: K_all_seen\<close>)

lemma reachable_keeps: "reachable pr \<Longrightarrow> K pr"
  by (induction rule: reachable.induct) (auto intro: K_empty reduce_keeps)

end

lemma mark_seen_fields [simp]:
  "ledger_consistent (mark_seen e pr) \<longleftrightarrow> ledger_consistent pr"
  "fully_backed (mark_seen e pr) \<longleftrightarrow> fully_backed pr"
  by (simp_all add: mark_seen_def ledger_consistent_def fully_backed_def core_backed_def split: sum.splits)

lemma run_group_ensures:
  "ensures (run_group prior es alerts) (\<lambda>c. fully_backed (cx_next c) \<and> assertProjectionMoveDomains (cx_next c) = Inr ())"
proof -
  let ?g = "\<lparr>gr_prior = prior, gr_events = es\<rparr>"
  have "ensures (replay ?g es c0) (\<lambda>c. ensures (finishGroup ?g c)
      (\<lambda>c. fully_backed (cx_next c) \<and> assertProjectionMoveDomains (cx_next c) = Inr ()))" for c0
  proof (rule ensures_mono [where P = "\<lambda>_. True"])
    show "ensures (finishGroup ?g c) (\<lambda>c. fully_backed (cx_next c) \<and> assertProjectionMoveDomains (cx_next c) = Inr ())" for c
      using finishGroup_ensures by (rule ensures_mono) simp
  qed (simp add: ensures_def split: outcome.splits)
  then show ?thesis by (simp add: run_group_def Let_def ensures_andThen)
qed

lemma ledger_run_group:
  assumes "ledger_consistent prior" "\<forall>e \<in> set es. assertProtocolEventMoveDomains e = Inr ()"
  shows "ensures (run_group prior es alerts) (\<lambda>c. ledger_consistent (cx_next c))"
  unfolding run_group_def Let_def ensures_andThen
proof (rule ensures_mono [OF ledger.replay_keeps [OF assms(2)]])
  show "ledger_consistent (cx_next (initial_context prior (hd es) alerts))"
    using assms(1) by (simp add: initial_context_def)
  show "ensures (finishGroup g c) (\<lambda>c. ledger_consistent (cx_next c))" if "ledger_consistent (cx_next c)" for g c
    by (rule ensures_mono [OF finishGroup_ensures]) (use that in \<open>auto simp: ledger_consistent_def\<close>)
qed

interpretation ledger_group: group_invariant ledger_consistent
proof
  show "ledger_consistent createEmptyProjection"
    by (simp add: ledger_consistent_def core_ledger_def lp_ledger_def createEmptyProjection_def)
qed (auto dest: ensuresD [OF ledger_run_group])

interpretation backing_group: group_invariant fully_backed
proof
  show "fully_backed createEmptyProjection"
    by (simp add: fully_backed_def core_backed_def createEmptyProjection_def coreIndexedLiability_def
        expectedCoreVaultBalance_def magnifiedEntitlement_def requireNonNegative_def map_values_def
        checkedMoveU256Multiply_def applyMoveSignedU256_def checkedMoveU256Add_def checkedMoveU256Subtract_def
        assertMoveUnsigned_def assertMoveSignedU256_def isMoveUnsigned_def isMoveSignedU256_def move_max_defs
        bigint_div_def bigint_quot_def)
qed (auto dest: ensuresD [OF run_group_ensures])

end
