(* ===== verification/Integer_Helpers.thy ===== *)
theory Integer_Helpers
  imports Reducer_State
begin

text \<open>
  The reducer's integer helpers are what they are named after: \<open>integerSqrt\<close> is the floor of the
  square root (Newton's iteration terminates on it from above), \<open>ceilDiv\<close> the ceiling of the
  quotient.
\<close>

section \<open>Integer square root\<close>

text \<open>One Newton step from any positive guess stays at or above the root.\<close>

lemma newton_step_upper:
  fixes v c :: int
  assumes "0 < c" "0 \<le> v"
  defines "n \<equiv> (c + v div c) div 2"
  shows "v < (n + 1)\<^sup>2"
proof -
  define q where "q = v div c"
  have "v = c * q + v mod c" by (simp add: q_def)
  moreover have "v mod c < c" using assms by simp
  ultimately have "v < (q + 1) * c" by (simp add: algebra_simps)
  have "0 \<le> q" using assms by (simp add: q_def pos_imp_zdiv_nonneg_iff)
  have half: "x + 1 \<le> 2 * (x div 2 + 1)" for x :: int by presburger
  have "c + q + 1 \<le> 2 * (n + 1)" unfolding n_def q_def by (rule half)
  then have "(c + q + 1)\<^sup>2 \<le> (2 * (n + 1))\<^sup>2" using assms \<open>0 \<le> q\<close> by (intro power_mono) auto
  moreover have "4 * ((q + 1) * c) \<le> (c + q + 1)\<^sup>2"
  proof -
    have "(c + q + 1)\<^sup>2 - 4 * ((q + 1) * c) = (c - (q + 1))\<^sup>2" by (simp add: power2_eq_square algebra_simps)
    then show ?thesis by (metis diff_ge_0_iff_ge zero_le_power2)
  qed
  moreover have "(2 * (n + 1))\<^sup>2 = 4 * (n + 1)\<^sup>2" by (simp only: power_mult_distrib) simp
  ultimately show ?thesis using \<open>v < (q + 1) * c\<close> by linarith
qed

lemma integerSqrt_loop_floor:
  assumes "0 < c" "2 \<le> v" "v < (c + 1)\<^sup>2" "n = (c + v div c) div 2"
  shows "\<exists>r. integerSqrt_loop v c n = Inr r \<and> 0 \<le> r \<and> r\<^sup>2 \<le> v \<and> v < (r + 1)\<^sup>2"
  using assms
proof (induction v c n rule: integerSqrt_loop.induct)
  case (1 v c n)
  note c = "1.prems"(1) and v = "1.prems"(2) and n_def = "1.prems"(4)
  have above: "v < (n + 1)\<^sup>2" using newton_step_upper [of c v] c v n_def by simp
  have "0 \<le> v div c" using c v by (simp add: pos_imp_zdiv_nonneg_iff)
  then have "0 \<le> n" using c by (simp add: n_def)
  moreover have "n \<noteq> 0" using above v by auto
  ultimately have n: "0 < n" by simp
  show ?case
  proof (cases "n < c")
    case True
    have nonneg: "0 \<le> n + v div n" using n v by (simp add: pos_imp_zdiv_nonneg_iff)
    then have "integerSqrt_loop v c n = integerSqrt_loop v n ((n + v div n) div 2)"
      using True n v by (simp add: integerSqrt_loop.simps [of v c n])
    moreover have "\<exists>r. integerSqrt_loop v n ((n + v div n) div 2) = Inr r \<and> 0 \<le> r \<and> r\<^sup>2 \<le> v \<and> v < (r + 1)\<^sup>2"
      using "1.IH" [OF True] n v above nonneg by simp
    ultimately show ?thesis by simp
  next
    case False
    have double: "c \<le> q" if "c \<le> (c + q) div 2" for q using that by linarith
    have "c \<le> v div c" by (rule double) (use False in \<open>simp add: n_def\<close>)
    then have "c * c \<le> c * (v div c)" using c by (intro mult_left_mono) auto
    also have "\<dots> \<le> v" using c by (simp add: minus_mod_eq_mult_div [symmetric])
    finally have "c\<^sup>2 \<le> v" by (simp add: power2_eq_square)
    moreover have "integerSqrt_loop v c n = Inr c" using False by (simp add: integerSqrt_loop.simps [of v c n])
    ultimately show ?thesis using c "1.prems"(3) by simp
  qed
qed

lemma integerSqrt_floor:
  assumes "0 \<le> v"
  shows "\<exists>r. integerSqrt v = Inr r \<and> 0 \<le> r \<and> r\<^sup>2 \<le> v \<and> v < (r + 1)\<^sup>2"
proof (cases "2 \<le> v")
  case True
  let ?k = "v div 2"
  have "1 \<le> ?k" using True by linarith
  then have "0 < 3 + 2 * ?k + ?k * ?k" by (simp add: add_pos_nonneg)
  then have "2 * ?k + 1 < (?k + 1 + 1)\<^sup>2" by (simp add: power2_eq_square algebra_simps)
  moreover have "v \<le> 2 * ?k + 1" by linarith
  ultimately have "v < (?k + 1 + 1)\<^sup>2" by linarith
  with True \<open>1 \<le> ?k\<close> show ?thesis
    using integerSqrt_loop_floor [of "?k + 1" v "(?k + 1 + v div (?k + 1)) div 2"]
    by (simp add: integerSqrt_def Let_def pos_imp_zdiv_nonneg_iff)
next
  case False
  with assms have "v = 0 \<or> v = 1" by linarith
  then show ?thesis by (auto simp: integerSqrt_def)
qed

text \<open>
  \<open>integerSqrt\<close> terminates without error on every non-negative input and returns the floor of
  the square root; on a negative input it throws.
\<close>

theorem integerSqrt_is_floor_sqrt:
  "if 0 \<le> v then \<exists>r. integerSqrt v = Inr r \<and> 0 \<le> r \<and> r\<^sup>2 \<le> v \<and> v < (r + 1)\<^sup>2
   else integerSqrt v = Inl (RangeError ''square-root input cannot be negative'')"
  by (simp add: integerSqrt_floor) (simp add: integerSqrt_def)

section \<open>Ceiling division\<close>

lemma ceilDiv_ceiling:
  assumes "0 \<le> n" "0 < d"
  shows "\<exists>q. ceilDiv n d = Inr q \<and> 0 \<le> q \<and> n \<le> q * d \<and> (q - 1) * d < n"
proof (cases "n = 0")
  case True
  with assms show ?thesis by (simp add: ceilDiv_def)
next
  case False
  let ?q = "(n - 1) div d"
  have "ceilDiv n d = Inr (?q + 1)" using False assms by (simp add: ceilDiv_def bigint_div_def)
  moreover have "0 \<le> ?q" using False assms by (simp add: pos_imp_zdiv_nonneg_iff)
  moreover have "n - 1 = ?q * d + (n - 1) mod d" by simp
  then have "?q * d < n" "n \<le> ?q * d + d"
    using pos_mod_sign [OF assms(2), of "n - 1"] pos_mod_bound [OF assms(2), of "n - 1"] by linarith+
  ultimately show ?thesis by (intro exI [of _ "?q + 1"]) (simp add: distrib_right)
qed

text \<open>
  \<open>ceilDiv\<close> is the ceiling of the quotient: it throws on a denominator that is not positive, and
  for a non-negative numerator returns the least integer whose product with the denominator reaches
  the numerator.
\<close>

theorem ceilDiv_is_ceiling:
  "if d \<le> 0 then ceilDiv n d = Inl (RangeError ''division denominator must be positive'')
   else if 0 \<le> n then \<exists>q. ceilDiv n d = Inr q \<and> 0 \<le> q \<and> n \<le> q * d \<and> (q - 1) * d < n
   else ceilDiv n d = Inr (bigint_quot (n - 1) d + 1)"
  by (simp add: ceilDiv_ceiling) (simp add: ceilDiv_def bigint_div_def)

end
