(* ===== verification/Group_Totality.thy ===== *)
theory Group_Totality
  imports Group_Settlement Integer_Helpers
begin

text \<open>
  The transaction step as a total, atomic function. The arithmetic outside the \<open>try\<close> block cannot
  throw on a group that passed the domain checks, so \<open>reduceEventGroup\<close> always returns; what it
  returns is either the prior projection with an alert or a projection that passed every check of
  the settlement; and no reachable projection leaves the Move integer domains.
\<close>

section \<open>Arithmetic before the replay\<close>

lemma multiply_fits:
  assumes "isMoveUnsigned a U128" "isMoveUnsigned b U64"
  shows "checkedMoveU256Multiply a b l = Inr (a * b)"
proof -
  have "a * b \<le> MOVE_U128_MAX * MOVE_U64_MAX"
    using assms by (intro mult_mono) (simp_all add: isMoveUnsigned_iff move_max_defs)
  also have "\<dots> \<le> MOVE_U256_MAX" by (simp add: move_max_defs)
  finally show ?thesis using assms by (simp add: checked_iff isMoveUnsigned_iff move_max_defs)
qed

lemma sel_liquidity_Some:
  "sel_liquidity e = Some (e', kind, q) \<longleftrightarrow> e' = e \<and> ev_body e = (case kind of
     Seeded \<Rightarrow> LiquiditySeeded q | Added \<Rightarrow> LiquidityAdded q | Removed f \<Rightarrow> LiquidityRemoved q f)"
  by (cases kind; cases "ev_body e") (auto simp: sel_liquidity_def)

lemma map_filter_mem: "y \<in> set (List.map_filter f xs) \<longleftrightarrow> (\<exists>x \<in> set xs. f x = Some y)"
  by (induction xs) (auto simp: map_filter_simps split: option.splits)

lemma liquidity_mem:
  assumes "(e, kind, q) \<in> set (liquidity events)"
  shows "e \<in> set events \<and> ev_body e = (case kind of Seeded \<Rightarrow> LiquiditySeeded q | Added \<Rightarrow> LiquidityAdded q
    | Removed f \<Rightarrow> LiquidityRemoved q f)"
  using assms by (auto simp: liquidity_def map_filter_mem sel_liquidity_Some)

lemma liquidity_receipt_domains:
  assumes "(e, kind, q) \<in> set (liquidity events)" "\<forall>e \<in> set events. assertProtocolEventMoveDomains e = Inr ()"
  shows "isMoveUnsigned (lq_trflAmount q) U64 \<and> isMoveUnsigned (lq_tusdAmount q) U64 \<and> isMoveUnsigned (lq_lpShares q) U128"
proof -
  have "\<forall>c \<in> set (body_checks (ev_body e)). c = Inr ()"
    using liquidity_mem [OF assms(1)] assms(2) event_domains_body by blast
  then show ?thesis
    using liquidity_mem [OF assms(1)] by (cases kind) (auto simp: liquidity_checks_def result_simps)
qed

lemma domains_pool:
  assumes "assertProjectionMoveDomains pr = Inr ()"
  shows "isMoveUnsigned (po_trflReserve (pr_pool pr)) U64 \<and> isMoveUnsigned (po_tusdReserve (pr_pool pr)) U64
    \<and> isMoveUnsigned (po_maximumNonFinalWithdrawalShareBps (pr_pool pr)) U64"
  using assms by (auto simp: assertProjectionMoveDomains_def result_simps pool_checks_def ball_Un)

lemma domains_epoch_shares:
  assumes "assertProjectionMoveDomains pr = Inr ()" "map_get (pr_lpEpochs pr) k = Some ep"
  shows "isMoveUnsigned (ep_totalShares ep) U128"
  using domains_epoch [OF assms] by (auto simp: epoch_checks_def Let_def result_simps ball_Un)

lemma addition_alerts_total:
  assumes "isMoveUnsigned (lq_lpShares q) U128" "assertProjectionMoveDomains prior = Inr ()"
  shows "\<exists>alerts. addition_alerts prior ep e q = Inr alerts"
proof (cases "ep_totalShares ep \<le> 0 \<or> po_trflReserve (pr_pool prior) \<le> 0 \<or> po_tusdReserve (pr_pool prior) \<le> 0")
  case True
  then show ?thesis by (simp add: addition_alerts_def Let_def)
next
  case False
  have fits: "checkedMoveU256Multiply (lq_lpShares q) (po_trflReserve (pr_pool prior)) l
        = Inr (lq_lpShares q * po_trflReserve (pr_pool prior))"
    "checkedMoveU256Multiply (lq_lpShares q) (po_tusdReserve (pr_pool prior)) l
        = Inr (lq_lpShares q * po_tusdReserve (pr_pool prior))" for l
    using assms domains_pool [OF assms(2)] by (simp_all add: multiply_fits)
  have "0 \<le> lq_lpShares q" using assms(1) by (simp add: isMoveUnsigned_iff)
  with False obtain x y where "ceilDiv (lq_lpShares q * po_trflReserve (pr_pool prior)) (ep_totalShares ep) = Inr x"
    "ceilDiv (lq_lpShares q * po_tusdReserve (pr_pool prior)) (ep_totalShares ep) = Inr y"
    using ceilDiv_ceiling [of "lq_lpShares q * po_trflReserve (pr_pool prior)" "ep_totalShares ep"]
      ceilDiv_ceiling [of "lq_lpShares q * po_tusdReserve (pr_pool prior)" "ep_totalShares ep"] by auto
  with False fits show ?thesis by (simp add: addition_alerts_def Let_def)
qed

lemma removal_alerts_total:
  assumes "isMoveUnsigned (lq_lpShares q) U128" "isMoveUnsigned (ep_totalShares ep) U128"
    and "assertProjectionMoveDomains prior = Inr ()"
  shows "\<exists>alerts. removal_alerts prior events ep e final q = Inr alerts"
proof (cases "ep_totalShares ep \<le> 0 \<or> lq_lpShares q > ep_totalShares ep")
  case True
  then show ?thesis by (simp add: removal_alerts_def)
next
  case False
  have share: "\<exists>x. withdrawal_share ep q reserve l = Inr x" if "isMoveUnsigned reserve U64" for reserve l
    using that assms(1) False by (simp add: withdrawal_share_def multiply_fits bigint_div_def)
  have bps: "isMoveUnsigned BPS_DENOMINATOR U64" by (simp add: BPS_DENOMINATOR_def isMoveUnsigned_iff move_max_defs)
  have "\<exists>x. withdrawal_limit_alerts prior ep e q = Inr x"
    using assms domains_pool [OF assms(3)] by (simp add: withdrawal_limit_alerts_def multiply_fits bps)
  moreover obtain x y where "withdrawal_share ep q (po_trflReserve (pr_pool prior)) ''LP withdrawal tRFL numerator'' = Inr x"
    "withdrawal_share ep q (po_tusdReserve (pr_pool prior)) ''LP withdrawal tUSD numerator'' = Inr y"
    using share domains_pool [OF assms(3)] by metis
  ultimately show ?thesis using False by (auto simp: removal_alerts_def Let_def)
qed

lemma liquidity_alerts_total:
  assumes "assertProjectionMoveDomains prior = Inr ()" "\<forall>e \<in> set events. assertProtocolEventMoveDomains e = Inr ()"
  shows "\<exists>alerts. liquidity_alerts prior events = Inr alerts"
proof (cases "\<exists>e kind q. liquidity events = [(e, kind, q)]")
  case False
  then show ?thesis by (auto simp: liquidity_alerts_def split: list.splits)
next
  case True
  then obtain e kind q where one: "liquidity events = [(e, kind, q)]" by blast
  then have dom: "isMoveUnsigned (lq_trflAmount q) U64" "isMoveUnsigned (lq_tusdAmount q) U64"
    "isMoveUnsigned (lq_lpShares q) U128"
    using liquidity_receipt_domains [of e kind q events] assms(2) by auto
  have "0 \<le> lq_trflAmount q * lq_tusdAmount q" using dom by (simp add: isMoveUnsigned_iff)
  then obtain root where "integerSqrt (lq_trflAmount q * lq_tusdAmount q) = Inr root"
    using integerSqrt_floor by blast
  then have seed: "\<exists>alerts. seed_alerts prior epoch e q = Inr alerts" for epoch
    by (simp add: seed_alerts_def)
  show ?thesis
    using seed addition_alerts_total [OF dom(3) assms(1)]
      removal_alerts_total [OF dom(3) domains_epoch_shares [OF assms(1)] assms(1)]
    by (cases kind; cases "map_get (pr_lpEpochs prior) (lq_epoch q)") (auto simp: liquidity_alerts_def one Let_def)
qed

lemma reduceEventGroup_returns: "\<exists>r. reduceEventGroup prior es = Inr r"
proof (cases "es = []")
  case True
  then show ?thesis by (simp add: reduceEventGroup_def)
next
  case False
  let ?events = "sort_key ev_eventIndex es" let ?scan = "scan_events prior (hd ?events) (- 1) [] ?events"
  show ?thesis
  proof (cases "assertProjectionMoveDomains prior = Inr () \<and> \<not> list_ex (\<lambda>a. al_code a = EVENT_DATA) ?scan")
    case True
    then have "\<forall>e \<in> set ?events. assertProtocolEventMoveDomains e = Inr ()"
      using scan_events_domains [of prior "hd ?events" "- 1" "[]" ?events] by (auto simp: list_ex_iff)
    then obtain alerts where "liquidity_alerts prior ?events = Inr alerts"
      using liquidity_alerts_total True by blast
    with True False show ?thesis by (simp add: reduceEventGroup_def preflight_def Let_def)
  next
    case rejected: False
    with False show ?thesis by (auto simp: reduceEventGroup_def Let_def split: sum.splits)
  qed
qed

text \<open>
  C8. \<open>reduceEventGroup\<close> never throws: on any projection and any list of events, well-formed or not,
  it returns a projection and a list of alerts.
\<close>

theorem reduceEventGroup_total: "\<exists>r. reduceEventGroup prior es = Inr r"
  by (rule reduceEventGroup_returns)

section \<open>Domains\<close>

lemma domains_mark_seen:
  assumes "assertProjectionMoveDomains pr = Inr ()" "assertProtocolEventMoveDomains e = Inr ()"
  shows "assertProjectionMoveDomains (mark_seen e pr) = Inr ()"
  using assms event_domains_base [OF assms(2)]
  by (simp add: mark_seen_def event_cursor_str_def domains_seen_update seen_cursor_check_cursor_str)

lemma domains_empty: "assertProjectionMoveDomains createEmptyProjection = Inr ()"
  by (simp add: assertProjectionMoveDomains_def result_simps createEmptyProjection_def scalar_checks_def
      pool_checks_def custody_checks_def optional_check_def map_values_def isMoveUnsigned_def isMoveSignedU256_def
      move_max_defs BPS_DENOMINATOR_def)

interpretation domain_group: group_invariant "\<lambda>pr. assertProjectionMoveDomains pr = Inr ()"
  by unfold_locales (auto simp: domains_empty domains_mark_seen dest: ensuresD [OF run_group_ensures])

text \<open>
  C9. Every reachable projection lies inside the Move integer domains, entry by entry: the reducer
  computes with unbounded integers but never publishes a state that could not exist on chain.
\<close>

theorem reachable_in_move_domains: "reachable pr \<Longrightarrow> assertProjectionMoveDomains pr = Inr ()"
  by (rule domain_group.reachable_keeps)

section \<open>Atomicity\<close>

lemma mark_all_seen_only:
  "(mark_all_seen es pr)\<lparr>pr_seenEventIds := m\<rparr> = pr\<lparr>pr_seenEventIds := m\<rparr>"
  by (induction es arbitrary: pr) (simp_all add: mark_all_seen_def mark_seen_def)

lemma mark_all_seen_keys:
  "map_has (pr_seenEventIds (mark_all_seen es pr)) k \<longleftrightarrow> k \<in> ev_id ` set es \<or> map_has (pr_seenEventIds pr) k"
  by (induction es arbitrary: pr) (auto simp: mark_all_seen_def mark_seen_def)

lemma mark_all_seen_frame:
  "fully_backed (mark_all_seen es pr) \<longleftrightarrow> fully_backed pr"
  "ledger_consistent (mark_all_seen es pr) \<longleftrightarrow> ledger_consistent pr"
  by (induction es arbitrary: pr) (simp_all add: mark_all_seen_def)

text \<open>
  C10. A transaction group is replayed whole or not at all. Either the group raises an \<open>EVENT_DATA\<close>
  alert and leaves every field of the prior projection but the record of seen identifiers, or the
  returned projection passed the whole settlement: it is backed, in its domains, and has every event
  of the group on record.
\<close>

theorem group_is_atomic:
  assumes "reduceEventGroup prior es = Inr r" "es \<noteq> []"
  shows "(\<exists>a \<in> set (rd_alerts r). al_code a = EVENT_DATA)
       \<and> (rd_projection r)\<lparr>pr_seenEventIds := pr_seenEventIds prior\<rparr> = prior
     \<or> fully_backed (rd_projection r) \<and> assertProjectionMoveDomains (rd_projection r) = Inr ()
       \<and> (\<forall>e \<in> set es. map_has (pr_seenEventIds (rd_projection r)) (ev_id e))"
  using assms(1)
proof (cases rule: reduceEventGroup_cases)
  case (committed checked ctx)
  let ?events = "sorted_group es"
  have ctx: "fully_backed (cx_next ctx)" "assertProjectionMoveDomains (cx_next ctx) = Inr ()"
    using ensuresD [OF run_group_ensures committed(5)] by simp_all
  have "assertProjectionMoveDomains (mark_all_seen ?events (cx_next ctx)) = Inr ()"
    using ctx(2) committed(3) by (intro domain_group.K_all_seen) simp_all
  with ctx committed(6) show ?thesis by (simp add: mark_all_seen_frame mark_all_seen_keys)
next
  case (abandoned err as)
  then show ?thesis by (simp add: mark_all_seen_only problem_def)
qed (use assms(2) in simp_all)

end
