(* ===== verification/Quiet_Groups.thy ===== *)
theory Quiet_Groups
  imports Group_Totality "HOL-Library.Multiset"
begin

text \<open>
  What an empty list of alerts certifies. A group without alerts is one transaction with fresh,
  distinct, ordered events; its replay passed every pairing and settlement check; under the v0.2
  package it cannot have changed anything the package declares immutable. The indexer only commits
  such groups.
\<close>

section \<open>Well-formed transactions\<close>

lemma ensures_True: "ensures out (\<lambda>_. True)"
  by (simp add: ensures_def split: outcome.splits)

lemma alert_when_Nil [simp]: "alert_when b a = [] \<longleftrightarrow> \<not> b"
  by (simp add: alert_when_def)

lemma domain_alerts_Nil [simp]: "domain_alerts e = [] \<longleftrightarrow> assertProtocolEventMoveDomains e = Inr ()"
  by (cases "assertProtocolEventMoveDomains e") (simp_all add: domain_alerts_def)

definition fresh_event :: "protocol_projection \<Rightarrow> protocol_event \<Rightarrow> protocol_event \<Rightarrow> bool" where
  "fresh_event prior first e = (assertProtocolEventMoveDomains e = Inr ()
     \<and> ev_ledgerVersion e = ev_ledgerVersion first \<and> ev_txHash e = ev_txHash first
     \<and> \<not> map_has (pr_seenEventIds prior) (ev_id e))"

lemma scan_event_Nil:
  "scan_event prior first n ids e = [] \<longleftrightarrow>
     fresh_event prior first e \<and> ev_id e \<notin> set ids \<and> n < ev_eventIndex e"
  by (simp add: scan_event_def fresh_event_def Let_def map_has_iff_get not_le conj_ac)

lemma scan_events_Nil:
  "scan_events prior first n ids es = [] \<longleftrightarrow>
     (\<forall>e \<in> set es. fresh_event prior first e \<and> ev_id e \<notin> set ids \<and> n < ev_eventIndex e)
     \<and> sorted_wrt (<) (map ev_eventIndex es) \<and> distinct (map ev_id es)"
proof (induction es arbitrary: n ids)
  case (Cons e es)
  show ?case by (simp add: Cons scan_event_Nil) (auto simp: image_iff)
qed simp

lemma run_group_quiet: "run_group prior es alerts = Done ctx \<Longrightarrow> cx_alerts ctx = [] \<Longrightarrow> alerts = []"
proof -
  assume "run_group prior es alerts = Done ctx" "cx_alerts ctx = []"
  moreover have "extends alerts (run_group prior es alerts)"
    unfolding run_group_def Let_def
    by (intro extends_rules) (simp add: grown_def initial_context_def)
  ultimately show ?thesis using extends_quiet by simp
qed

lemma quiet_cases [consumes 3, case_names committed]:
  assumes "reduceEventGroup prior es = Inr r" "rd_alerts r = []" "es \<noteq> []"
  obtains ctx where "run_group prior (sorted_group es) [] = Done ctx" "cx_alerts ctx = []"
    "rd_projection r = mark_all_seen (sorted_group es) (cx_next ctx)"
    "scan_events prior (hd (sorted_group es)) (- 1) [] (sorted_group es) = []"
    "preflight prior (hd (sorted_group es)) (sorted_group es) = Inr []"
    "\<forall>e \<in> set es. assertProtocolEventMoveDomains e = Inr ()"
  using assms(1)
proof (cases rule: reduceEventGroup_cases)
  case (committed checked ctx)
  with assms(2) have "scan_events prior (hd (sorted_group es)) (- 1) [] (sorted_group es) = [] \<and> checked = []"
    using run_group_quiet [OF committed(5)] by simp
  with committed assms(2) that show thesis by simp
qed (use assms(2,3) in auto)

text \<open>
  C11. A group without alerts is one well-formed transaction: all events have the same ledger version
  and transaction hash, their indices and identifiers are pairwise distinct, each is inside its Move
  domains, and none was seen before.
\<close>

theorem quiet_group_is_one_fresh_transaction:
  assumes "reduceEventGroup prior es = Inr r" "rd_alerts r = []" "es \<noteq> []"
  shows "distinct (map ev_id es) \<and> distinct (map ev_eventIndex es)
    \<and> (\<forall>e \<in> set es. assertProtocolEventMoveDomains e = Inr () \<and> \<not> map_has (pr_seenEventIds prior) (ev_id e))
    \<and> (\<forall>e \<in> set es. \<forall>f \<in> set es. ev_ledgerVersion e = ev_ledgerVersion f \<and> ev_txHash e = ev_txHash f)"
  using assms
proof (cases rule: quiet_cases)
  case (committed ctx)
  then have scan: "sorted_wrt (<) (map ev_eventIndex (sorted_group es))" "distinct (map ev_id (sorted_group es))"
    by (simp_all add: scan_events_Nil)
  then have "distinct (map ev_eventIndex (sorted_group es))"
    using strict_sorted_iff by blast
  moreover have "mset (map f (sorted_group es)) = mset (map f es)" for f :: "protocol_event \<Rightarrow> 'a"
    by (simp add: sorted_group_def)
  ultimately have "distinct (map ev_eventIndex es)" "distinct (map ev_id es)"
    using scan(2) mset_eq_imp_distinct_iff by blast+
  with committed(4) show ?thesis by (simp add: scan_events_Nil fresh_event_def)
qed


text \<open>
  C13. The order in which a transaction's events arrive does not matter: any two lists of the same
  events with distinct event indices give the same result.
\<close>

theorem group_order_irrelevant:
  assumes "mset es = mset es'" "distinct (map ev_eventIndex es)"
  shows "reduceEventGroup prior es = reduceEventGroup prior es'"
proof -
  have "inj_on ev_eventIndex (set es)" using assms(2) by (simp add: distinct_map)
  then have "sort_key ev_eventIndex es = sort_key ev_eventIndex es'"
    using assms(1) by (intro sort_key_inj_key_eq) simp_all
  moreover have "es = [] \<longleftrightarrow> es' = []" using assms(1) by auto
  ultimately show ?thesis by (simp add: reduceEventGroup_def Let_def)
qed

section \<open>The settlement of a group without alerts\<close>

definition epoch_certified :: "protocol_projection \<Rightarrow> indexed_lp_epoch \<Rightarrow> bool" where
  "epoch_certified pr ep =
     (\<not> terminalStateInvalid ep
      \<and> list_all (\<lambda>p. lp_shares p > 0 \<longrightarrow> map_has (pr_registeredWallets pr) (lp_owner p)) (map_values (ep_positions ep))
      \<and> lpResidueRounding ep [] (ep_unallocatedRewards ep) = Inr (ep_roundingReserve ep))"

definition certified :: "protocol_projection \<Rightarrow> bool" where
  "certified pr =
     (wallets_consistent pr
      \<and> list_all (map_has (pr_registeredWallets pr)) (map_keys (pr_positions pr))
      \<and> po_trflReserve (pr_pool pr) = cu_shares (pr_custody pr)
      \<and> \<not> routeUnbound pr
      \<and> list_all (epoch_certified pr) (map_values (pr_lpEpochs pr)))"

lemma lpResidueRounding_label: "lpResidueRounding ep l u = Inr r \<Longrightarrow> lpResidueRounding ep l' u = Inr r"
  by (auto simp: lpResidueRounding_def result_simps checked_iff)

lemma foldl_alerts_quiet:
  assumes "\<And>c x. cx_next (f c x) = cx_next c"
    and "\<And>c x. cx_alerts (f c x) = [] \<longleftrightarrow> cx_alerts c = [] \<and> ok (cx_next c) x"
  shows "cx_alerts (foldl f ctx xs) = [] \<longleftrightarrow> cx_alerts ctx = [] \<and> (\<forall>x \<in> set xs. ok (cx_next ctx) x)"
  using assms by (induction xs arbitrary: ctx) auto

lemma walletRegistrationAlerts_quiet:
  "cx_alerts (walletRegistrationAlerts ctx) = [] \<longleftrightarrow> cx_alerts ctx = [] \<and> wallets_consistent (cx_next ctx)
     \<and> list_all (map_has (pr_registeredWallets (cx_next ctx))) (map_keys (pr_positions (cx_next ctx)))"
  unfolding walletRegistrationAlerts_def Let_def
  by (subst foldl_alerts_quiet [where ok = "\<lambda>pr. map_has (pr_registeredWallets pr)"]) (auto simp: list_all_iff)

text \<open>What the settlement guarantees when it ends without an alert.\<close>

lemma routeUnbound_frame [simp]: "routeUnbound (pr\<lparr>pr_roundingReserve := r\<rparr>) \<longleftrightarrow> routeUnbound pr"
  by (simp add: routeUnbound_def split: option.splits)

lemma coreAggregates_quiet:
  "ensures (coreAggregates ctx) (\<lambda>c. cx_alerts c = [] \<longrightarrow> cx_alerts ctx = []
     \<and> po_trflReserve (pr_pool (cx_next c)) = cu_shares (pr_custody (cx_next c)) \<and> \<not> routeUnbound (cx_next c))"
  by (auto simp: coreAggregates_def eligibleSupplyAlerts_def ensures_simps Let_def)

lemma sumLpPositions_quiet:
  assumes "\<And>x y c. cx_next c = cx_next ctx \<Longrightarrow> ensures (k x y c) (\<lambda>d. cx_alerts d = [] \<longrightarrow> cx_alerts c = [] \<and> P)"
  shows "ensures (sumLpPositions ep ps a b ctx k) (\<lambda>d. cx_alerts d = [] \<longrightarrow> cx_alerts ctx = [] \<and> P
    \<and> list_all (\<lambda>p. lp_shares p > 0 \<longrightarrow> map_has (pr_registeredWallets (cx_next ctx)) (lp_owner p)) ps)"
  using assms
proof (induction ps arbitrary: a b ctx)
  case (Cons p ps)
  let ?ctx = "alert_if (lp_shares p > 0 \<and> \<not> map_has (pr_registeredWallets (cx_next ctx)) (lp_owner p))
    (problem (cx_first ctx) WALLET_REGISTRATION
      (''Every positive LP position in epoch '' @ int_str (ep_epoch ep) @ '' must belong to a previously registered wallet.'')
      (Some ''registered wallet'') (Some (lp_owner p))) ctx"
  have "ensures (sumLpPositions ep ps x y ?ctx k) (\<lambda>d. cx_alerts d = [] \<longrightarrow> cx_alerts ?ctx = [] \<and> P
      \<and> list_all (\<lambda>p. lp_shares p > 0 \<longrightarrow> map_has (pr_registeredWallets (cx_next ?ctx)) (lp_owner p)) ps)" for x y
    using Cons.prems by (intro Cons.IH) simp
  note rest = this
  show ?case
    unfolding sumLpPositions.simps Let_def ensures_attempt
    by (intro allI impI) (rule ensures_mono [OF rest], auto)
qed simp

lemma checkEpoch_quiet:
  "ensures (checkEpoch ctx ep) (\<lambda>c. cx_alerts c = [] \<longrightarrow> cx_alerts ctx = [] \<and> epoch_certified (cx_next ctx) ep)"
proof -
  have "ensures (checkEpoch ctx ep) (\<lambda>d. cx_alerts d = [] \<longrightarrow> cx_alerts ctx = []
     \<and> (\<not> terminalStateInvalid ep \<and> lpResidueRounding ep [] (ep_unallocatedRewards ep) = Inr (ep_roundingReserve ep))
     \<and> list_all (\<lambda>p. lp_shares p > 0 \<longrightarrow> map_has (pr_registeredWallets (cx_next ctx)) (lp_owner p)) (map_values (ep_positions ep)))"
    unfolding checkEpoch_def
    by (rule sumLpPositions_quiet) (auto simp: ensures_simps Let_def intro: lpResidueRounding_label)
  then show ?thesis by (rule ensures_mono) (simp add: epoch_certified_def)
qed

lemma checkEpochs_quiet:
  "ensures (checkEpochs eps ctx) (\<lambda>c. cx_alerts c = [] \<longrightarrow> cx_alerts ctx = [] \<and> list_all (epoch_certified (cx_next ctx)) eps)"
proof (induction eps arbitrary: ctx)
  case (Cons ep eps)
  have "ensures (checkEpoch ctx ep) (\<lambda>c. (cx_alerts c = [] \<longrightarrow> cx_alerts ctx = [] \<and> epoch_certified (cx_next ctx) ep)
      \<and> epoch_backed ep \<and> cx_next c = cx_next ctx)"
    using checkEpoch_quiet [of ctx ep] checkEpoch_ensures [of ctx ep] by (simp add: ensures_conj)
  then have "ensures (checkEpoch ctx ep) (\<lambda>c. ensures (checkEpochs eps c)
      (\<lambda>d. cx_alerts d = [] \<longrightarrow> cx_alerts ctx = [] \<and> list_all (epoch_certified (cx_next ctx)) (ep # eps)))"
  proof (rule ensures_mono)
    fix c :: reducer_context
    assume c: "(cx_alerts c = [] \<longrightarrow> cx_alerts ctx = [] \<and> epoch_certified (cx_next ctx) ep)
      \<and> epoch_backed ep \<and> cx_next c = cx_next ctx"
    show "ensures (checkEpochs eps c)
      (\<lambda>d. cx_alerts d = [] \<longrightarrow> cx_alerts ctx = [] \<and> list_all (epoch_certified (cx_next ctx)) (ep # eps))"
      using Cons [of c] by (rule ensures_mono) (use c in simp)
  qed
  then show ?case by (simp add: ensures_andThen)
qed simp

lemma finishGroup_certified:
  "ensures (finishGroup g ctx) (\<lambda>c. cx_alerts c = [] \<longrightarrow> certified (cx_next c))"
proof -
  let ?ctx = "walletRegistrationAlerts (liquidityShareAlerts g (unconsumedRouteAlerts g (settlePendingFees ctx)))"
  let ?rest = "\<lambda>c. andThen (checkEpochs (map_values (pr_lpEpochs (cx_next c))) c) (\<lambda>c.
      attempt c (assertProjectionMoveDomains (cx_next c)) (\<lambda>_. Done c))"
  have "ensures (coreAggregates ?ctx) (\<lambda>c. (core_backed (cx_next c) \<and> (\<exists>r. cx_next c = cx_next ?ctx\<lparr>pr_roundingReserve := r\<rparr>))
     \<and> (cx_alerts c = [] \<longrightarrow> cx_alerts ?ctx = []
     \<and> po_trflReserve (pr_pool (cx_next c)) = cu_shares (pr_custody (cx_next c)) \<and> \<not> routeUnbound (cx_next c)))"
    using coreAggregates_ensures [of ?ctx] coreAggregates_quiet [of ?ctx] by (simp only: ensures_conj simp_thms)
  then have "ensures (coreAggregates ?ctx) (\<lambda>c. ensures (?rest c) (\<lambda>d. cx_alerts d = [] \<longrightarrow> certified (cx_next d)))"
  proof (rule ensures_mono)
    fix c :: reducer_context
    assume c: "(core_backed (cx_next c) \<and> (\<exists>r. cx_next c = cx_next ?ctx\<lparr>pr_roundingReserve := r\<rparr>))
      \<and> (cx_alerts c = [] \<longrightarrow> cx_alerts ?ctx = []
      \<and> po_trflReserve (pr_pool (cx_next c)) = cu_shares (pr_custody (cx_next c)) \<and> \<not> routeUnbound (cx_next c))"
    then have frame: "wallets_consistent (cx_next c) \<longleftrightarrow> wallets_consistent (cx_next ?ctx)"
      "pr_registeredWallets (cx_next c) = pr_registeredWallets (cx_next ?ctx)"
      "pr_positions (cx_next c) = pr_positions (cx_next ?ctx)"
      by (auto simp: wallets_consistent_def)
    have "ensures (checkEpochs (map_values (pr_lpEpochs (cx_next c))) c) (\<lambda>d. (cx_alerts d = [] \<longrightarrow> cx_alerts c = []
        \<and> list_all (epoch_certified (cx_next c)) (map_values (pr_lpEpochs (cx_next c)))) \<and> cx_next d = cx_next c)"
      using checkEpochs_quiet [of "map_values (pr_lpEpochs (cx_next c))" c]
        checkEpochs_ensures [of "map_values (pr_lpEpochs (cx_next c))" c]
      by (simp only: ensures_conj simp_thms)
    then show "ensures (?rest c) (\<lambda>d. cx_alerts d = [] \<longrightarrow> certified (cx_next d))"
      unfolding ensures_andThen ensures_attempt
      by (rule ensures_mono) (use c frame in \<open>auto simp: certified_def walletRegistrationAlerts_quiet\<close>)
  qed
  then show ?thesis by (simp add: finishGroup_def Let_def ensures_andThen)
qed

lemma certified_mark_all_seen [simp]: "certified (mark_all_seen es pr) \<longleftrightarrow> certified pr"
proof -
  have "certified (mark_seen e p) \<longleftrightarrow> certified p" for e p
  proof -
    have "epoch_certified (mark_seen e p) = epoch_certified p"
      by (rule ext) (simp add: mark_seen_def epoch_certified_def)
    moreover have "routeUnbound (mark_seen e p) \<longleftrightarrow> routeUnbound p"
      by (simp add: mark_seen_def routeUnbound_def split: option.splits)
    ultimately show ?thesis by (simp add: certified_def) (simp add: mark_seen_def wallets_consistent_def)
  qed
  then show ?thesis by (induction es arbitrary: pr) (simp_all add: mark_all_seen_def)
qed


end
