(* ===== verification/Event_Processing.thy ===== *)
theory Event_Processing
  imports Quiet_Groups "HOL-Library.Product_Lexorder"
begin

text \<open>
  Processing of event pages (\<open>packages/indexer/src/event-indexer.ts\<close>, \<open>compareCursor\<close> to
  the body of \<open>processOwned\<close>): sorting by cursor, skipping what the checkpoint already covers, grouping by ledger
  version, and replaying group by group, stopping at the first alert. The state is the indexer's
  projection and cursor; \<open>structuredClone\<close> detaches values and is the identity here. The ownership
  checks and the persistence of alerts are not part of this theory.
\<close>

section \<open>Cursors\<close>

definition compareCursor :: "event_cursor \<Rightarrow> event_cursor \<Rightarrow> int" where
  "compareCursor left right =
     (if cur_ledgerVersion left \<noteq> cur_ledgerVersion right
      then (if cur_ledgerVersion left < cur_ledgerVersion right then - 1 else 1)
      else cur_eventIndex left - cur_eventIndex right)"

definition eventCursor :: "protocol_event \<Rightarrow> event_cursor" where
  "eventCursor e = \<lparr>cur_ledgerVersion = ev_ledgerVersion e, cur_eventIndex = ev_eventIndex e\<rparr>"

text \<open>The order the comparison induces, as a key for the stable sort.\<close>

definition cursor_key :: "event_cursor \<Rightarrow> int \<times> int" where
  "cursor_key c = (cur_ledgerVersion c, cur_eventIndex c)"

definition eventOrderAlert :: "protocol_event \<Rightarrow> event_cursor option \<Rightarrow> critical_alert" where
  "eventOrderAlert e previous = \<lparr>
     al_id = ''event:'' @ ev_id e @ '':EVENT_ORDER'',
     al_severity = Critical,
     al_code = EVENT_ORDER,
     al_message = ''Event cursor is not strictly later than the indexer checkpoint.'',
     al_detectedAtUnixMilliseconds = ev_timestampUnixMilliseconds e,
     al_cursor = previous,
     al_expected = Some (case previous of None \<Rightarrow> ''first event''
       | Some c \<Rightarrow> cursor_str (cur_ledgerVersion c) (cur_eventIndex c)),
     al_observed = Some (event_cursor_str e)\<rparr>"

section \<open>The page loop\<close>

record indexer_view =
  iv_projection :: protocol_projection
  iv_cursor :: "event_cursor option"

record process_result =
  ps_processedEvents :: nat
  ps_skippedEvents :: nat
  ps_rejectedEvents :: nat
  ps_cursor :: "event_cursor option"
  ps_alerts :: "critical_alert list"

definition covered :: "event_cursor option \<Rightarrow> protocol_event \<Rightarrow> bool" where
  "covered cursor e = (case cursor of None \<Rightarrow> False | Some c \<Rightarrow> compareCursor (eventCursor e) c \<le> 0)"

definition push_event :: "protocol_event list list \<Rightarrow> protocol_event \<Rightarrow> protocol_event list list" where
  "push_event groups e =
     (if groups = [] \<or> ev_ledgerVersion (hd (last groups)) \<noteq> ev_ledgerVersion e then groups @ [[e]]
      else butlast groups @ [last groups @ [e]])"

definition group_events :: "protocol_event list \<Rightarrow> protocol_event list list" where
  "group_events fresh = foldl push_event [] fresh"

text \<open>The loop over the groups, with its counters; \<open>break\<close> returns what was reached.\<close>

fun run_groups ::
  "indexer_view \<Rightarrow> protocol_event list list \<Rightarrow> (indexer_view \<times> nat \<times> nat \<times> critical_alert list) result" where
  "run_groups st [] = Inr (st, 0, 0, [])"
| "run_groups st (grp # groups) =
     (if covered (iv_cursor st) (hd grp)
      then Inr (st, 0, length grp, [eventOrderAlert (hd grp) (iv_cursor st)])
      else rbind (reduceEventGroup (iv_projection st) grp) (\<lambda>r.
        if rd_alerts r \<noteq> [] then Inr (st, 0, length grp, rd_alerts r)
        else rbind (run_groups \<lparr>iv_projection = rd_projection r, iv_cursor = Some (eventCursor (last grp))\<rparr> groups)
          (\<lambda>(st', processed, rejected, alerts). Inr (st', length grp + processed, rejected, alerts))))"

definition process_page ::
  "indexer_view \<Rightarrow> protocol_event list \<Rightarrow> (indexer_view \<times> process_result) result" where
  "process_page st events =
     (let sorted = sort_key (\<lambda>e. cursor_key (eventCursor e)) events;
          fresh = filter (\<lambda>e. \<not> covered (iv_cursor st) e) sorted;
          skipped = length (filter (covered (iv_cursor st)) sorted) in
      rbind (run_groups st (group_events fresh)) (\<lambda>(st', processed, rejected, alerts).
      Inr (st', \<lparr>ps_processedEvents = processed, ps_skippedEvents = skipped, ps_rejectedEvents = rejected,
        ps_cursor = iv_cursor st', ps_alerts = alerts\<rparr>)))"

section \<open>The comparison\<close>

lemma compareCursor_less: "compareCursor a b < 0 \<longleftrightarrow> cursor_key a < cursor_key b"
  by (auto simp: compareCursor_def cursor_key_def)

lemma compareCursor_le: "compareCursor a b \<le> 0 \<longleftrightarrow> cursor_key a \<le> cursor_key b"
  by (auto simp: compareCursor_def cursor_key_def)

lemma cursor_key_inj: "cursor_key a = cursor_key b \<longleftrightarrow> a = b"
  by (cases a; cases b) (simp add: cursor_key_def)

abbreviation event_key :: "protocol_event \<Rightarrow> int \<times> int" where
  "event_key e \<equiv> cursor_key (eventCursor e)"

lemma covered_iff: "covered cursor e \<longleftrightarrow> (\<exists>c. cursor = Some c \<and> event_key e \<le> cursor_key c)"
  by (auto simp: covered_def compareCursor_le split: option.splits)

section \<open>Grouping\<close>

definition one_version :: "protocol_event list \<Rightarrow> bool" where
  "one_version g = (g \<noteq> [] \<and> (\<forall>e \<in> set g. ev_ledgerVersion e = ev_ledgerVersion (hd g)))"

lemma one_version_snoc: "one_version g \<Longrightarrow> ev_ledgerVersion (hd g) = ev_ledgerVersion e \<Longrightarrow> one_version (g @ [e])"
  by (simp add: one_version_def)

lemma push_event_one_version: "list_all one_version gs \<Longrightarrow> list_all one_version (push_event gs e)"
proof (cases gs rule: rev_cases)
  case (snoc hs h)
  moreover have "one_version [e]" by (simp add: one_version_def)
  moreover assume "list_all one_version gs"
  ultimately show ?thesis by (simp add: push_event_def one_version_snoc)
qed (simp add: push_event_def one_version_def)

lemma concat_push_event: "list_all one_version gs \<Longrightarrow> concat (push_event gs e) = concat gs @ [e]"
  by (cases gs rule: rev_cases) (simp_all add: push_event_def)

lemma foldl_push_event:
  "list_all one_version gs \<Longrightarrow>
   list_all one_version (foldl push_event gs es) \<and> concat (foldl push_event gs es) = concat gs @ es"
proof (induction es arbitrary: gs)
  case (Cons e es)
  from Cons.IH [OF push_event_one_version [OF Cons.prems]] show ?case
    using Cons.prems by (simp add: concat_push_event)
qed simp

lemma group_events_one_version: "list_all one_version (group_events es)"
  using foldl_push_event [of "[]" es] by (simp add: group_events_def)

lemma concat_group_events: "concat (group_events es) = es"
  using foldl_push_event [of "[]" es] by (simp add: group_events_def)

section \<open>What a page commits\<close>

text \<open>
  The specification of the loop: a sequence of groups is committed when each is strictly after the
  cursor it meets and replays without an alert.
\<close>

fun commits :: "indexer_view \<Rightarrow> protocol_event list list \<Rightarrow> indexer_view \<Rightarrow> bool" where
  "commits st [] st' = (st' = st)"
| "commits st (g # gs) st' = (\<not> covered (iv_cursor st) (hd g) \<and>
     (case reduceEventGroup (iv_projection st) g of
        Inl _ \<Rightarrow> False
      | Inr r \<Rightarrow> rd_alerts r = []
          \<and> commits \<lparr>iv_projection = rd_projection r, iv_cursor = Some (eventCursor (last g))\<rparr> gs st'))"

text \<open>Why the loop stopped: the next group is not after the cursor, or it raises an alert.\<close>

definition refused :: "indexer_view \<Rightarrow> protocol_event list \<Rightarrow> bool" where
  "refused st g = (covered (iv_cursor st) (hd g) \<or>
     (case reduceEventGroup (iv_projection st) g of Inl _ \<Rightarrow> False | Inr r \<Rightarrow> rd_alerts r \<noteq> []))"

lemma commits_append: "commits st (gs @ hs) st' \<longleftrightarrow> (\<exists>st1. commits st gs st1 \<and> commits st1 hs st')"
proof (induction gs arbitrary: st)
  case (Cons g gs)
  then show ?case by (auto split: sum.splits)
qed simp

lemma commits_unique: "commits st gs st1 \<Longrightarrow> commits st gs st2 \<Longrightarrow> st1 = st2"
  by (induction st gs st1 rule: commits.induct) (auto split: sum.splits)

lemma run_groups_returns: "\<exists>x. run_groups st gs = Inr x"
proof (induction gs arbitrary: st)
  case (Cons g gs)
  obtain r where r: "reduceEventGroup (iv_projection st) g = Inr r" using reduceEventGroup_returns by blast
  obtain st' p j a where "run_groups \<lparr>iv_projection = rd_projection r, iv_cursor = Some (eventCursor (last g))\<rparr> gs = Inr (st', p, j, a)"
    using Cons by (metis prod_cases4)
  with r show ?case by simp
qed simp

lemma run_groups_spec:
  assumes "run_groups st gs = Inr (st', processed, rejected, alerts)"
  shows "\<exists>done rest. gs = done @ rest \<and> commits st done st' \<and> processed = length (concat done)
    \<and> (alerts = [] \<longleftrightarrow> rest = []) \<and> (rest \<noteq> [] \<longrightarrow> refused st' (hd rest) \<and> rejected = length (hd rest))
    \<and> (rest = [] \<longrightarrow> rejected = 0)"
  using assms
proof (induction gs arbitrary: st processed)
  case Nil
  then show ?case by simp
next
  case (Cons g gs)
  obtain r where r: "reduceEventGroup (iv_projection st) g = Inr r" using reduceEventGroup_returns by blast
  show ?case
  proof (cases "covered (iv_cursor st) (hd g) \<or> rd_alerts r \<noteq> []")
    case True
    with Cons.prems r have "st' = st \<and> processed = 0 \<and> rejected = length g \<and> alerts \<noteq> []" by (auto split: if_splits)
    moreover have "refused st g" using True r by (simp add: refused_def)
    ultimately show ?thesis by (intro exI [of _ "[]"] exI [of _ "g # gs"]) simp
  next
    case False
    let ?st = "\<lparr>iv_projection = rd_projection r, iv_cursor = Some (eventCursor (last g))\<rparr>"
    from Cons.prems r False obtain p where rest: "run_groups ?st gs = Inr (st', p, rejected, alerts)"
      and p: "processed = length g + p"
      by (auto simp: result_simps)
    from Cons.IH [OF rest] obtain d rs where "gs = d @ rs" "commits ?st d st'" "p = length (concat d)"
      "alerts = [] \<longleftrightarrow> rs = []" "rs \<noteq> [] \<longrightarrow> refused st' (hd rs) \<and> rejected = length (hd rs)" "rs = [] \<longrightarrow> rejected = 0"
      by blast
    with False r p show ?thesis by (intro exI [of _ "g # d"] exI [of _ rs]) simp
  qed
qed

lemma run_groups_commits:
  assumes "commits st gs st'"
  shows "run_groups st gs = Inr (st', length (concat gs), 0, [])"
  using assms by (induction st gs st' rule: commits.induct) (auto split: sum.splits)

abbreviation page_groups :: "indexer_view \<Rightarrow> protocol_event list \<Rightarrow> protocol_event list list" where
  "page_groups st events \<equiv> group_events (filter (\<lambda>e. \<not> covered (iv_cursor st) e) (sort_key event_key events))"

lemma length_page_groups:
  "length (filter (covered (iv_cursor st)) (sort_key event_key events)) + length (concat (page_groups st events)) = length events"
  using sum_length_filter_compl [of "covered (iv_cursor st)" "sort_key event_key events"]
  by (simp add: concat_group_events)

lemma process_page_Inr:
  "process_page st events = Inr (st', res) \<longleftrightarrow>
     (\<exists>p j a. run_groups st (page_groups st events) = Inr (st', p, j, a)
       \<and> res = \<lparr>ps_processedEvents = p, ps_skippedEvents = length (filter (covered (iv_cursor st)) (sort_key event_key events)),
           ps_rejectedEvents = j, ps_cursor = iv_cursor st', ps_alerts = a\<rparr>)"
  by (auto simp: process_page_def Let_def result_simps split: prod.splits)

text \<open>
  C22. Processing a page fails closed. It always returns; the groups it commits are a prefix of the
  page's fresh groups, each strictly after the cursor and replayed without an alert, and the new
  state is exactly the state after them; if the page raises an alert, the first group not committed
  is the one refused and its events are the rejected ones; every event is either skipped or belongs
  to one of the groups.
\<close>

theorem process_commits_clean_prefix:
  "\<exists>st' res done rest. process_page st events = Inr (st', res)
     \<and> group_events (filter (\<lambda>e. \<not> covered (iv_cursor st) e) (sort_key (\<lambda>e. cursor_key (eventCursor e)) events)) = done @ rest
     \<and> commits st done st' \<and> ps_processedEvents res = length (concat done)
     \<and> ps_skippedEvents res + length (concat (done @ rest)) = length events
     \<and> ps_cursor res = iv_cursor st'
     \<and> (ps_alerts res = [] \<longleftrightarrow> rest = [])
     \<and> (if rest = [] then ps_rejectedEvents res = 0
        else refused st' (hd rest) \<and> ps_rejectedEvents res = length (hd rest))"
proof -
  obtain st' p j a where run: "run_groups st (page_groups st events) = Inr (st', p, j, a)"
    using run_groups_returns by (metis prod_cases4)
  from run_groups_spec [OF run] obtain d rest where split: "page_groups st events = d @ rest" "commits st d st'"
    "p = length (concat d)" "a = [] \<longleftrightarrow> rest = []"
    "rest \<noteq> [] \<longrightarrow> refused st' (hd rest) \<and> j = length (hd rest)" "rest = [] \<longrightarrow> j = 0"
    by blast
  let ?res = "\<lparr>ps_processedEvents = p, ps_skippedEvents = length (filter (covered (iv_cursor st)) (sort_key event_key events)),
     ps_rejectedEvents = j, ps_cursor = iv_cursor st', ps_alerts = a\<rparr>"
  have "process_page st events = Inr (st', ?res)" using run by (auto simp: process_page_Inr)
  moreover have "ps_skippedEvents ?res + length (concat (d @ rest)) = length events"
    using length_page_groups [of st events] split(1) by simp
  ultimately show ?thesis using split by (intro exI [of _ st'] exI [of _ ?res] exI [of _ d] exI [of _ rest]) simp
qed

section \<open>Progress of the cursor\<close>

lemma concat_one_version: "list_all one_version gs \<Longrightarrow> concat gs = [] \<longleftrightarrow> gs = []"
  by (cases gs) (simp_all add: one_version_def)

lemma commits_cursor:
  "commits st gs st' \<Longrightarrow> list_all one_version gs \<Longrightarrow>
   iv_cursor st' = (if gs = [] then iv_cursor st else Some (eventCursor (last (concat gs))))"
proof (induction st gs st' rule: commits.induct)
  case (2 st g gs st')
  obtain r where r: "reduceEventGroup (iv_projection st) g = Inr r" using reduceEventGroup_returns by blast
  from 2(3) have g: "g \<noteq> []" and gs: "list_all one_version gs" by (auto simp: one_version_def [of g])
  have "last (g @ concat gs) = (if gs = [] then last g else last (concat gs))"
    unfolding last_append concat_one_version [OF gs] by simp
  with 2(1) [OF r] 2(2) r gs show ?case by auto
qed simp

lemma clean_page:
  assumes "process_page st events = Inr (st', res)" "ps_alerts res = []"
  shows "commits st (page_groups st events) st'"
    and "ps_processedEvents res = length (filter (\<lambda>e. \<not> covered (iv_cursor st) e) (sort_key event_key events))"
proof -
  from assms obtain p j where run: "run_groups st (page_groups st events) = Inr (st', p, j, [])"
    and p: "ps_processedEvents res = p"
    by (auto simp: process_page_Inr)
  from run_groups_spec [OF run] show "commits st (page_groups st events) st'"
    and "ps_processedEvents res = length (filter (\<lambda>e. \<not> covered (iv_cursor st) e) (sort_key event_key events))"
    using p by (auto simp: concat_group_events)
qed

text \<open>After a clean page the cursor covers every event of it.\<close>

lemma clean_page_cursor:
  assumes "process_page st events = Inr (st', res)" "ps_alerts res = []"
  defines "fresh \<equiv> filter (\<lambda>e. \<not> covered (iv_cursor st) e) (sort_key event_key events)"
  shows "iv_cursor st' = (if fresh = [] then iv_cursor st else Some (eventCursor (last fresh)))"
    and "e \<in> set events \<Longrightarrow> covered (iv_cursor st') e"
proof -
  have "group_events fresh = [] \<longleftrightarrow> fresh = []"
    using concat_group_events [of fresh] by (auto simp: group_events_def)
  then show cursor: "iv_cursor st' = (if fresh = [] then iv_cursor st else Some (eventCursor (last fresh)))"
    using commits_cursor [OF clean_page(1) [OF assms(1,2)] group_events_one_version]
    by (simp add: concat_group_events fresh_def)
  assume e: "e \<in> set events"
  have sorted: "sorted (map event_key fresh)" unfolding fresh_def by (simp add: sorted_filter)
  have below: "event_key x \<le> event_key (last fresh)" if "x \<in> set fresh" for x
    using sorted that by (induction fresh) (auto split: if_splits)
  show "covered (iv_cursor st') e"
  proof (cases "covered (iv_cursor st) e")
    case True
    show ?thesis
    proof (cases "fresh = []")
      case False
      then have "\<not> covered (iv_cursor st) (last fresh)" using last_in_set [OF False] by (simp add: fresh_def)
      with True False cursor show ?thesis by (auto simp: covered_iff)
    qed (use True cursor in simp)
  next
    case False
    with e have "e \<in> set fresh" by (simp add: fresh_def)
    with below cursor show ?thesis by (auto simp: covered_iff)
  qed
qed

text \<open>
  C23. Delivering a page again changes nothing: after a page was processed without an alert, the same
  page is skipped in full, with the same state and no alert. Event sources may therefore repeat
  events at page boundaries.
\<close>

theorem processing_is_idempotent:
  assumes "process_page st events = Inr (st', res)" "ps_alerts res = []"
  shows "process_page st' events = Inr (st', \<lparr>ps_processedEvents = 0, ps_skippedEvents = length events,
     ps_rejectedEvents = 0, ps_cursor = iv_cursor st', ps_alerts = []\<rparr>)"
proof -
  have all: "covered (iv_cursor st') e" if "e \<in> set events" for e
    using clean_page_cursor(2) [OF assms] that .
  then have "filter (\<lambda>e. \<not> covered (iv_cursor st') e) (sort_key event_key events) = []"
    "filter (covered (iv_cursor st')) (sort_key event_key events) = sort_key event_key events"
    by (simp_all add: filter_empty_conv)
  then show ?thesis by (simp add: process_page_def Let_def group_events_def)
qed

text \<open>
  The cursor only moves forward. Whatever a page holds, the cursor after it is not before the
  cursor before it, and strictly after it when an event was committed.
\<close>

theorem cursor_never_moves_back:
  assumes "process_page st events = Inr (st', res)" "iv_cursor st = Some c"
  shows "\<exists>c'. iv_cursor st' = Some c' \<and> compareCursor c c' \<le> 0 \<and> (0 < ps_processedEvents res \<longrightarrow> compareCursor c c' < 0)"
proof -
  from assms(1) obtain p j a where run: "run_groups st (page_groups st events) = Inr (st', p, j, a)"
    and p: "ps_processedEvents res = p" by (auto simp: process_page_Inr)
  from run_groups_spec [OF run] obtain d rest where d: "page_groups st events = d @ rest" "commits st d st'"
    "p = length (concat d)" by blast
  have ok: "list_all one_version d" using group_events_one_version d(1) by (metis list_all_append)
  show ?thesis
  proof (cases "d = []")
    case True
    with d assms(2) p show ?thesis by (simp add: compareCursor_le)
  next
    case False
    then have nonempty: "concat d \<noteq> []" using ok by (cases d) (auto simp: one_version_def)
    have "last (concat d) \<in> set (concat (d @ rest))" using last_in_set [OF nonempty] by (simp only: concat_append set_append) blast
    then have "\<not> covered (iv_cursor st) (last (concat d))"
      unfolding d(1) [symmetric] concat_group_events by simp
    moreover have "iv_cursor st' = Some (eventCursor (last (concat d)))" using commits_cursor [OF d(2) ok] False by simp
    ultimately show ?thesis using assms(2) by (auto simp: covered_iff compareCursor_le compareCursor_less)
  qed
qed

end
