(* ===== verification/Event_Indexer.thy ===== *)
theory Event_Indexer
  imports Async_Procs Memory_Store Event_Processing
begin

text \<open>
  The event indexer (\<open>packages/indexer/src/event-indexer.ts\<close>, class \<open>EventIndexer\<close>): state ownership,
  restoring, processing, polling, reconciling and checkpointing, over any store. Each method is a
  procedure whose segments end where the source awaits; a schedule may also run other procedures between
  taking ownership and the first segment of a method, which the source does not allow, so every schedule of
  the source is one of the model. A state change before a \<open>throw\<close> in the same segment is kept.

  Objects the source compares by identity (the projection, a state owner) are numbered when they are
  made. \<open>structuredClone\<close> detaches values and is the identity here. \<open>now\<close> is \<open>Date.now()\<close> where alerts are
  made; an event source is a parameter.
\<close>

section \<open>State\<close>

record 'st event_indexer =
  ei_projection :: protocol_projection
  ei_projectionObject :: nat
  ei_cursor :: "event_cursor option"
  ei_reconciledProjection :: "nat option"
  ei_reconciledCursor :: "event_cursor option"
  ei_reconciledStateIdentity :: "string option"
  ei_activeStateOwner :: "nat option"
  ei_durableBaseSnapshotId :: "string option option"
  ei_store :: 'st
  ei_objects :: nat
  ei_cycleMethodActive :: bool
  ei_cycleMethodFailures :: "js_error list"

text \<open>\<open>durableBaseSnapshotId\<close> is \<open>undefined\<close> (\<open>None\<close>) until a restore or a first checkpoint, then a string or null.\<close>

definition EventIndexer :: "'st \<Rightarrow> 'st event_indexer" where
  "EventIndexer store = \<lparr>ei_projection = createEmptyProjection, ei_projectionObject = 0, ei_cursor = None,
     ei_reconciledProjection = None, ei_reconciledCursor = None, ei_reconciledStateIdentity = None,
     ei_activeStateOwner = None, ei_durableBaseSnapshotId = None, ei_store = store, ei_objects = 1,
     ei_cycleMethodActive = False, ei_cycleMethodFailures = []\<rparr>"

record event_page =
  pg_chainId :: int
  pg_events :: "protocol_event list"
  pg_nextCursor :: "event_cursor option"

record event_provider =
  es_listEvents :: "event_cursor option \<Rightarrow> int \<Rightarrow> event_page result"
  es_getAccountingSnapshot :: "int \<Rightarrow> observed_snapshot result"

definition CedraChainIdMismatchError :: "int \<Rightarrow> js_error" where
  "CedraChainIdMismatchError observed = ClassError ''CedraChainIdMismatchError''
     (''Event source must be Cedra Testnet chain '' @ int_str CEDRA_TESTNET_CHAIN_ID @ '', observed '' @ int_str observed)"

definition UnreconciledCheckpointError :: "string \<Rightarrow> js_error" where
  "UnreconciledCheckpointError detail = ClassError ''UnreconciledCheckpointError'' (''Indexer checkpoint refused: '' @ detail)"

definition ConcurrentIndexerOperationError :: js_error where
  "ConcurrentIndexerOperationError = ClassError ''ConcurrentIndexerOperationError''
     ''An unrelated indexer state operation overlaps the active writer cycle.''"

definition InvalidIndexerWriterCycleError :: js_error where
  "InvalidIndexerWriterCycleError = ClassError ''InvalidIndexerWriterCycleError''
     ''The indexer writer-cycle capability is inactive or is not the current owner.''"

definition setProjection :: "protocol_projection \<Rightarrow> 'st event_indexer \<Rightarrow> 'st event_indexer" where
  "setProjection pr w = w\<lparr>ei_projection := pr, ei_projectionObject := ei_objects w, ei_objects := Suc (ei_objects w)\<rparr>"

definition invalidateReconciliation :: "'st event_indexer \<Rightarrow> 'st event_indexer" where
  "invalidateReconciliation w = w\<lparr>ei_reconciledProjection := None, ei_reconciledCursor := None, ei_reconciledStateIdentity := None\<rparr>"

definition assertStateOwner :: "nat \<Rightarrow> 'st event_indexer \<Rightarrow> unit result" where
  "assertStateOwner owner w = rensure (ei_activeStateOwner w = Some owner) InvalidIndexerWriterCycleError"

definition checkpointStateIdentity :: "(string \<Rightarrow> string) \<Rightarrow> protocol_projection \<Rightarrow> event_cursor \<Rightarrow> string result" where
  "checkpointStateIdentity sha256 projection cursor = rbind (takeSnapshot sha256 projection (Some cursor) 0) (\<lambda>s. Inr (sn_id s))"

definition authoritiesComplete :: "protocol_projection \<Rightarrow> bool" where
  "authoritiesComplete pr = (let a = pr_operationalAdmins pr in
     oa_reflectionCore a \<noteq> None \<and> oa_testAssets a \<noteq> None \<and> oa_testAmm a \<noteq> None)"

section \<open>Ownership and leases\<close>

definition releaseStateOwner :: "nat \<Rightarrow> 'st event_indexer \<Rightarrow> 'st event_indexer" where
  "releaseStateOwner owner w = (if ei_activeStateOwner w = Some owner then w\<lparr>ei_activeStateOwner := None\<rparr> else w)"

definition withStateOwner :: "(nat \<Rightarrow> ('st event_indexer, 'a) proc) \<Rightarrow> ('st event_indexer, 'a) proc" where
  "withStateOwner operation = segment (\<lambda>w.
     if ei_activeStateOwner w \<noteq> None then Inl ConcurrentIndexerOperationError
     else let owner = ei_objects w in
       Inr (w\<lparr>ei_activeStateOwner := Some owner, ei_objects := Suc owner\<rparr>,
         pfinally (operation owner) (\<lambda>_. releaseStateOwner owner)))"

definition withExclusiveWriter ::
  "'st store_ops \<Rightarrow> (lease \<Rightarrow> ('st event_indexer, 'a) proc) \<Rightarrow> ('st event_indexer, 'a) proc" where
  "withExclusiveWriter ops operation = segment (\<lambda>w. rbind (so_acquire ops (ei_store w)) (\<lambda>(lease, st).
     Inr (w\<lparr>ei_store := st\<rparr>, pfinally (operation lease) (\<lambda>_ w. w\<lparr>ei_store := so_release ops (ei_store w)\<rparr>))))"

definition withStoreWriter ::
  "'st store_ops \<Rightarrow> lease option \<Rightarrow> (lease \<Rightarrow> ('st event_indexer, 'a) proc) \<Rightarrow> ('st event_indexer, 'a) proc" where
  "withStoreWriter ops writerLease operation = (case writerLease of
       Some lease \<Rightarrow> operation lease
     | None \<Rightarrow> if \<not> so_permitsImplicitWriterLease ops then Settled (Inl IndexerWriterLeaseRequiredError)
         else withExclusiveWriter ops operation)"

definition persistAlerts :: "'st store_ops \<Rightarrow> critical_alert list \<Rightarrow> lease option \<Rightarrow> ('st event_indexer, unit) proc" where
  "persistAlerts ops alerts writerLease =
     (if alerts = [] then Settled (Inr ())
      else withStoreWriter ops writerLease (\<lambda>lease. segment (\<lambda>w.
        rbind (so_appendAlerts ops alerts lease (ei_store w)) (\<lambda>st. Inr (w\<lparr>ei_store := st\<rparr>, Settled (Inr ()))))))"

text \<open>\<open>assertStateOwner\<close> after an \<open>await\<close>, and the value returned then.\<close>

definition reassertOwner :: "nat \<Rightarrow> ('st event_indexer \<Rightarrow> 'a) \<Rightarrow> ('st event_indexer, 'a) proc" where
  "reassertOwner owner value = segment (\<lambda>w. rbind (assertStateOwner owner w) (\<lambda>_. Inr (w, Settled (Inr (value w)))))"

section \<open>Methods\<close>

definition adoptSnapshot ::
  "(string \<Rightarrow> string) \<Rightarrow> nat \<Rightarrow> indexer_snapshot option \<Rightarrow> ('st event_indexer, indexer_snapshot option) proc" where
  "adoptSnapshot sha256 owner loaded = segment (\<lambda>w. rbind (assertStateOwner owner w) (\<lambda>_.
     case loaded of
       None \<Rightarrow> Inr ((setProjection createEmptyProjection w)\<lparr>ei_cursor := None, ei_durableBaseSnapshotId := Some None\<rparr>,
         Settled (Inr None))
     | Some l \<Rightarrow> rbind (decodeSnapshot sha256 (encodeSnapshot l)) (\<lambda>s.
         Inr ((setProjection (sn_projection s) w)\<lparr>ei_cursor := sn_cursor s, ei_durableBaseSnapshotId := Some (Some (sn_id s))\<rparr>,
           Settled (Inr (Some s))))))"

definition restoreLatestSnapshotOwned ::
  "(string \<Rightarrow> string) \<Rightarrow> 'st store_ops \<Rightarrow> nat \<Rightarrow> ('st event_indexer, indexer_snapshot option) proc" where
  "restoreLatestSnapshotOwned sha256 ops owner = segment (\<lambda>w. rbind (assertStateOwner owner w) (\<lambda>_.
     let w1 = invalidateReconciliation w in
     Inr (w1, case so_loadLatestSnapshot ops (ei_store w1) of
         Inl e \<Rightarrow> Settled (Inl e) | Inr loaded \<Rightarrow> adoptSnapshot sha256 owner loaded)))"

definition processOwned ::
  "'st store_ops \<Rightarrow> protocol_event list \<Rightarrow> nat \<Rightarrow> lease option \<Rightarrow> ('st event_indexer, process_result) proc" where
  "processOwned ops events owner writerLease = segment (\<lambda>w. rbind (assertStateOwner owner w) (\<lambda>_.
     let w1 = invalidateReconciliation w in
     rbind (process_page \<lparr>iv_projection = ei_projection w1, iv_cursor = ei_cursor w1\<rparr> events) (\<lambda>(view, res).
     let w2 = (if ps_processedEvents res = 0 then w1 else (setProjection (iv_projection view) w1)\<lparr>ei_cursor := iv_cursor view\<rparr>) in
     Inr (w2, if ps_alerts res = [] then Settled (Inr res)
       else pbind (persistAlerts ops (ps_alerts res) writerLease) (\<lambda>_.
         reassertOwner owner (\<lambda>w. res\<lparr>ps_cursor := ei_cursor w\<rparr>))))))"

text \<open>The checks of \<open>snapshotOwned\<close> before the store is used, and the snapshot it takes.\<close>

definition authorizedSnapshot :: "(string \<Rightarrow> string) \<Rightarrow> int \<Rightarrow> 'st event_indexer \<Rightarrow> indexer_snapshot result" where
  "authorizedSnapshot sha256 takenAt w =
     (if takenAt < 0 then Inl (RangeError ''checkpoint time must be a non-negative bigint'')
      else case ei_cursor w of
        None \<Rightarrow> Inl (UnreconciledCheckpointError ''at least one complete event transaction is required'')
      | Some cursor \<Rightarrow>
        if pr_chainId (ei_projection w) \<noteq> CEDRA_TESTNET_CHAIN_ID \<or> \<not> pr_deploymentReady (ei_projection w)
          \<or> \<not> authoritiesComplete (ei_projection w)
        then Inl (UnreconciledCheckpointError
          ''Cedra Testnet identity and complete core, faucet, and AMM authority histories are required'')
        else let refuse = Inl (UnreconciledCheckpointError
            ''a successful chain-2 reconciliation of this exact projection and cursor is required'') in
          if ei_reconciledProjection w \<noteq> Some (ei_projectionObject w) then refuse
          else (case ei_reconciledCursor w of
            None \<Rightarrow> refuse
          | Some reconciled \<Rightarrow>
            if compareCursor reconciled cursor \<noteq> 0 then refuse
            else rbind (checkpointStateIdentity sha256 (ei_projection w) cursor) (\<lambda>identity.
              if ei_reconciledStateIdentity w \<noteq> Some identity then refuse
              else takeSnapshot sha256 (ei_projection w) (Some cursor) takenAt)))"

definition storeSnapshot ::
  "'st store_ops \<Rightarrow> nat \<Rightarrow> indexer_snapshot \<Rightarrow> lease \<Rightarrow> string option \<Rightarrow> 'st event_indexer
   \<Rightarrow> ('st event_indexer \<times> ('st event_indexer, indexer_snapshot) proc) result" where
  "storeSnapshot ops owner s lease base w = rbind (so_saveSnapshot ops s lease base (ei_store w)) (\<lambda>st.
     Inr (w\<lparr>ei_store := st\<rparr>, segment (\<lambda>w. rbind (assertStateOwner owner w) (\<lambda>_.
       Inr (w\<lparr>ei_durableBaseSnapshotId := Some (Some (sn_id s))\<rparr>, Settled (Inr s))))))"

definition saveUnderLease ::
  "'st store_ops \<Rightarrow> nat \<Rightarrow> indexer_snapshot \<Rightarrow> lease \<Rightarrow> ('st event_indexer, indexer_snapshot) proc" where
  "saveUnderLease ops owner s lease = segment (\<lambda>w. rbind (assertStateOwner owner w) (\<lambda>_.
     case ei_durableBaseSnapshotId w of
       Some base \<Rightarrow> storeSnapshot ops owner s lease base w
     | None \<Rightarrow> rbind (so_loadLatestSnapshot ops (ei_store w)) (\<lambda>existing.
         Inr (w, segment (\<lambda>w. rbind (assertStateOwner owner w) (\<lambda>_.
           if existing \<noteq> None then Inl (StaleIndexerSnapshotError
             ''indexer attempted to checkpoint without restoring the existing durable base'')
           else let w1 = w\<lparr>ei_durableBaseSnapshotId := Some None\<rparr> in
             case storeSnapshot ops owner s lease None w1 of
               Inl e \<Rightarrow> Inr (w1, Settled (Inl e)) | Inr continued \<Rightarrow> Inr continued))))))"

definition snapshotOwned ::
  "(string \<Rightarrow> string) \<Rightarrow> 'st store_ops \<Rightarrow> int \<Rightarrow> nat \<Rightarrow> lease option \<Rightarrow> ('st event_indexer, indexer_snapshot) proc" where
  "snapshotOwned sha256 ops takenAt owner writerLease = segment (\<lambda>w. rbind (assertStateOwner owner w) (\<lambda>_.
     rbind (authorizedSnapshot sha256 takenAt w) (\<lambda>s.
     Inr (w, withStoreWriter ops writerLease (saveUnderLease ops owner s)))))"

definition authorizeCheckpoint ::
  "(string \<Rightarrow> string) \<Rightarrow> protocol_projection \<Rightarrow> nat \<Rightarrow> event_cursor \<Rightarrow> string \<Rightarrow> observed_snapshot \<Rightarrow> reconciliation_report
   \<Rightarrow> 'st event_indexer \<Rightarrow> 'st event_indexer result" where
  "authorizeCheckpoint sha256 projection object cursor stateIdentity observed report w =
     (if rp_reconciled report \<and> pr_chainId projection = CEDRA_TESTNET_CHAIN_ID \<and> ob_chainId observed = CEDRA_TESTNET_CHAIN_ID
        \<and> pr_deploymentReady projection \<and> authoritiesComplete projection \<and> ei_projectionObject w = object
      then (case ei_cursor w of
          None \<Rightarrow> Inr w
        | Some current \<Rightarrow>
          if compareCursor current cursor \<noteq> 0 then Inr w
          else rbind (checkpointStateIdentity sha256 (ei_projection w) current) (\<lambda>identity.
            Inr (if identity = stateIdentity
              then w\<lparr>ei_reconciledProjection := Some object, ei_reconciledCursor := Some cursor,
                ei_reconciledStateIdentity := Some stateIdentity\<rparr>
              else w)))
      else Inr w)"

text \<open>The part of \<open>reconcileOwned\<close> after the chain views have been read.\<close>

definition compareViews ::
  "(string \<Rightarrow> string) \<Rightarrow> 'st store_ops \<Rightarrow> int \<Rightarrow> nat \<Rightarrow> lease option \<Rightarrow> protocol_projection \<Rightarrow> nat \<Rightarrow> event_cursor \<Rightarrow> string
   \<Rightarrow> observed_snapshot \<Rightarrow> ('st event_indexer, reconciliation_report) proc" where
  "compareViews sha256 ops now owner writerLease projection object cursor stateIdentity observed = segment (\<lambda>w.
     rbind (assertStateOwner owner w) (\<lambda>_.
     rbind (reconcile now projection observed (Some cursor)) (\<lambda>report.
     Inr (w, pbind (persistAlerts ops (rp_alerts report) writerLease) (\<lambda>_. segment (\<lambda>w.
       rbind (if rp_alerts report = [] then Inr () else assertStateOwner owner w) (\<lambda>_.
       rbind (authorizeCheckpoint sha256 projection object cursor stateIdentity observed report w) (\<lambda>w'.
       Inr (w', Settled (Inr report))))))))))"

definition reconcileOwned ::
  "(string \<Rightarrow> string) \<Rightarrow> 'st store_ops \<Rightarrow> int \<Rightarrow> event_provider \<Rightarrow> nat \<Rightarrow> lease option
   \<Rightarrow> ('st event_indexer, reconciliation_report) proc" where
  "reconcileOwned sha256 ops now src owner writerLease = segment (\<lambda>w. rbind (assertStateOwner owner w) (\<lambda>_.
     case ei_cursor w of
       None \<Rightarrow> Inl (PlainError ''Cannot reconcile before at least one complete event transaction is indexed.'')
     | Some cursor \<Rightarrow>
       let w1 = invalidateReconciliation w in
       Inr (w1, case checkpointStateIdentity sha256 (ei_projection w1) cursor of
         Inl e \<Rightarrow> Settled (Inl e)
       | Inr stateIdentity \<Rightarrow> pbind (Settled (es_getAccountingSnapshot src (cur_ledgerVersion cursor)))
           (compareViews sha256 ops now owner writerLease (ei_projection w1) (ei_projectionObject w1) cursor stateIdentity))))"

definition pollOnceOwned ::
  "'st store_ops \<Rightarrow> event_provider \<Rightarrow> int \<Rightarrow> nat \<Rightarrow> lease option \<Rightarrow> ('st event_indexer, process_result) proc" where
  "pollOnceOwned ops src limit owner writerLease = segment (\<lambda>w. rbind (assertStateOwner owner w) (\<lambda>_.
     if limit < 1 \<or> limit > 10000 then Inl (RangeError ''event page limit must be an integer between 1 and 10,000'')
     else Inr (w, pbind (Settled (es_listEvents src (ei_cursor w) limit)) (\<lambda>page.
       segment (\<lambda>w. rbind (assertStateOwner owner w) (\<lambda>_.
         if pg_chainId page \<noteq> CEDRA_TESTNET_CHAIN_ID then Inl (CedraChainIdMismatchError (pg_chainId page))
         else Inr (w, processOwned ops (pg_events page) owner writerLease)))))))"

text \<open>The public methods: one direct operation each, with an owner of its own.\<close>

definition restoreLatestSnapshot :: "(string \<Rightarrow> string) \<Rightarrow> 'st store_ops \<Rightarrow> ('st event_indexer, indexer_snapshot option) proc" where
  "restoreLatestSnapshot sha256 ops = withStateOwner (restoreLatestSnapshotOwned sha256 ops)"

definition process_events :: "'st store_ops \<Rightarrow> protocol_event list \<Rightarrow> ('st event_indexer, process_result) proc" where
  "process_events ops events = withStateOwner (\<lambda>owner. processOwned ops events owner None)"

definition snapshot :: "(string \<Rightarrow> string) \<Rightarrow> 'st store_ops \<Rightarrow> int \<Rightarrow> ('st event_indexer, indexer_snapshot) proc" where
  "snapshot sha256 ops takenAt = withStateOwner (\<lambda>owner. snapshotOwned sha256 ops takenAt owner None)"

definition reconcile_views ::
  "(string \<Rightarrow> string) \<Rightarrow> 'st store_ops \<Rightarrow> int \<Rightarrow> event_provider \<Rightarrow> ('st event_indexer, reconciliation_report) proc" where
  "reconcile_views sha256 ops now src = withStateOwner (\<lambda>owner. reconcileOwned sha256 ops now src owner None)"

definition pollOnce :: "'st store_ops \<Rightarrow> event_provider \<Rightarrow> int \<Rightarrow> ('st event_indexer, process_result) proc" where
  "pollOnce ops src limit = withStateOwner (\<lambda>owner. pollOnceOwned ops src limit owner None)"

section \<open>Writer cycles\<close>

text \<open>
  A cycle holds one store lease and one state owner while its callback awaits one cycle method after
  the other. A failure of a method is recorded, and reported at the end even if the callback ignored it.
\<close>

definition invoke :: "nat \<Rightarrow> ('st event_indexer, 'a) proc \<Rightarrow> ('st event_indexer, 'a) proc" where
  "invoke owner action = pfinally
     (segment (\<lambda>w. rbind (assertStateOwner owner w) (\<lambda>_.
        if ei_cycleMethodActive w then Inl ConcurrentIndexerOperationError
        else Inr (w\<lparr>ei_cycleMethodActive := True\<rparr>, pfinally action (\<lambda>_ w. w\<lparr>ei_cycleMethodActive := False\<rparr>)))))
     (\<lambda>r w. case r of Inl e \<Rightarrow> w\<lparr>ei_cycleMethodFailures := ei_cycleMethodFailures w @ [e]\<rparr> | Inr _ \<Rightarrow> w)"

definition withExclusiveStoreWriter ::
  "'st store_ops \<Rightarrow> (nat \<Rightarrow> lease \<Rightarrow> ('st event_indexer, 'a) proc) \<Rightarrow> ('st event_indexer, 'a) proc" where
  "withExclusiveStoreWriter ops operation = withExclusiveWriter ops (\<lambda>lease. withStateOwner (\<lambda>owner.
     segment (\<lambda>w. Inr (w\<lparr>ei_cycleMethodActive := False, ei_cycleMethodFailures := []\<rparr>,
       pbind (operation owner lease) (\<lambda>x. segment (\<lambda>w. case ei_cycleMethodFailures w of
           [] \<Rightarrow> Inr (w, Settled (Inr x)) | e # _ \<Rightarrow> Inl e))))))"

end
