(* ===== verification/Worker.thy ===== *)
theory Worker
  imports Event_Indexer
begin

text \<open>
  The worker (\<open>packages/indexer/src/worker.ts\<close>, class \<open>IndexerWorker\<close>): one restart-safe cycle of
  restore, poll, reconcile and checkpoint under a single store lease. The alert sink is injected, so its
  \<open>deliver\<close> is a parameter; \<open>takenAt\<close> is what \<open>nowUnixMilliseconds()\<close> returns.
\<close>

record worker_run_result =
  wr_processing :: process_result
  wr_reconciliation :: "reconciliation_report option"
  wr_snapshot :: "indexer_snapshot option"
  wr_deliveredAlertIds :: "string list"

fun deliver_alerts :: "(critical_alert \<Rightarrow> unit result) \<Rightarrow> critical_alert list \<Rightarrow> string list \<Rightarrow> string list result" where
  "deliver_alerts deliver [] delivered = Inr delivered"
| "deliver_alerts deliver (a # as) delivered = rbind (deliver a) (\<lambda>_. deliver_alerts deliver as (delivered @ [al_id a]))"

definition runOnceUnderLease ::
  "(string \<Rightarrow> string) \<Rightarrow> 'st store_ops \<Rightarrow> event_provider \<Rightarrow> (critical_alert \<Rightarrow> unit result) \<Rightarrow> int \<Rightarrow> int \<Rightarrow> int
   \<Rightarrow> nat \<Rightarrow> lease \<Rightarrow> ('st event_indexer, worker_run_result) proc" where
  "runOnceUnderLease sha256 ops src deliver now takenAt limit owner lease =
     pbind (invoke owner (restoreLatestSnapshotOwned sha256 ops owner)) (\<lambda>_.
     pbind (invoke owner (pollOnceOwned ops src limit owner (Some lease))) (\<lambda>processing.
     pbind (Settled (deliver_alerts deliver (ps_alerts processing) [])) (\<lambda>delivered.
     if ps_alerts processing \<noteq> [] \<or> ps_cursor processing = None
     then Settled (Inr \<lparr>wr_processing = processing, wr_reconciliation = None, wr_snapshot = None,
       wr_deliveredAlertIds = delivered\<rparr>)
     else pbind (invoke owner (reconcileOwned sha256 ops now src owner (Some lease))) (\<lambda>reconciliation.
       pbind (Settled (deliver_alerts deliver (rp_alerts reconciliation) delivered)) (\<lambda>delivered.
       if \<not> rp_reconciled reconciliation
       then Settled (Inr \<lparr>wr_processing = processing, wr_reconciliation = Some reconciliation, wr_snapshot = None,
         wr_deliveredAlertIds = delivered\<rparr>)
       else pbind (invoke owner (snapshotOwned sha256 ops takenAt owner (Some lease))) (\<lambda>s.
         Settled (Inr \<lparr>wr_processing = processing, wr_reconciliation = Some reconciliation, wr_snapshot = Some s,
           wr_deliveredAlertIds = delivered\<rparr>)))))))"

definition runOnce ::
  "(string \<Rightarrow> string) \<Rightarrow> 'st store_ops \<Rightarrow> event_provider \<Rightarrow> (critical_alert \<Rightarrow> unit result) \<Rightarrow> int \<Rightarrow> int \<Rightarrow> int
   \<Rightarrow> ('st event_indexer, worker_run_result) proc" where
  "runOnce sha256 ops src deliver now takenAt limit =
     withExclusiveStoreWriter ops (runOnceUnderLease sha256 ops src deliver now takenAt limit)"

end
