(* ===== verification/Keyed_Maps.thy ===== *)
theory Keyed_Maps
  imports Group_Settlement
begin

text \<open>
  The maps of a reachable projection are well formed: no key occurs twice, and a position, LP position
  or epoch is stored under the account, owner or number it carries. Serialisation writes the values
  of these maps only, and reconciliation compares them key by key, so both rest on this invariant.
\<close>

section \<open>The invariant\<close>

definition keyed_by :: "('v \<Rightarrow> 'k) \<Rightarrow> ('k, 'v) jsmap \<Rightarrow> bool" where
  "keyed_by key m = (jsmap_ok m \<and> list_all (\<lambda>(k, v). key v = k) m)"

definition keyed_epochs :: "(int, indexed_lp_epoch) jsmap \<Rightarrow> bool" where
  "keyed_epochs m = (keyed_by ep_epoch m \<and> list_all (\<lambda>(k, ep). keyed_by lp_owner (ep_positions ep)) m)"

definition keyed :: "protocol_projection \<Rightarrow> bool" where
  "keyed pr = (keyed_by ip_account (pr_positions pr) \<and> keyed_epochs (pr_lpEpochs pr)
     \<and> jsmap_ok (pr_registeredWallets pr) \<and> jsmap_ok (pr_protocolExcludedStores pr)
     \<and> jsmap_ok (pr_rewardVaultToEpoch pr) \<and> jsmap_ok (pr_stateIdToEpoch pr) \<and> jsmap_ok (pr_seenEventIds pr))"

lemma keyed_by_set [simp]: "keyed_by key m \<Longrightarrow> key v = k \<Longrightarrow> keyed_by key (map_set k v m)"
  using map_set_entries_subset [of k v m] by (auto simp: keyed_by_def list_all_iff)

lemma keyed_by_Nil [simp]: "keyed_by key []"
  by (simp add: keyed_by_def)

lemma keyed_by_get: "keyed_by key m \<Longrightarrow> map_get m k = Some v \<Longrightarrow> key v = k"
  using map_get_Some_entries [of m k v] by (auto simp: keyed_by_def list_all_iff)

lemma keyed_epochs_set:
  "keyed_epochs m \<Longrightarrow> keyed_by lp_owner (ep_positions ep) \<Longrightarrow> keyed_epochs (map_set (ep_epoch ep) ep m)"
  using map_set_entries_subset [of "ep_epoch ep" ep m] by (auto simp: keyed_epochs_def list_all_iff)

lemma keyed_epochs_get: "keyed_epochs m \<Longrightarrow> map_get m k = Some ep \<Longrightarrow> ep_epoch ep = k \<and> keyed_by lp_owner (ep_positions ep)"
  using map_get_Some_entries [of m k ep] by (auto simp: keyed_epochs_def keyed_by_def list_all_iff)

lemma positionOrEmpty_account: "keyed_by ip_account m \<Longrightarrow> ip_account (positionOrEmpty a m) = a"
  by (auto simp: positionOrEmpty_def emptyPosition_def split: option.splits dest: keyed_by_get)

lemma lpPositionOrEmpty_owner: "keyed_by lp_owner m \<Longrightarrow> lp_owner (lpPositionOrEmpty a m) = a"
  by (auto simp: lpPositionOrEmpty_def emptyLpPosition_def split: option.splits dest: keyed_by_get)

lemma keyed_updateEpoch:
  "keyed pr \<Longrightarrow> keyed_by lp_owner (ep_positions ep) \<Longrightarrow> keyed (updateEpoch ep pr)"
  by (simp add: keyed_def updateEpoch_def keyed_epochs_set)

lemma keyed_set_position: "keyed pr \<Longrightarrow> ip_account p = a \<Longrightarrow> keyed (set_position a p pr)"
  by (simp add: keyed_def set_position_def)

lemma keyed_adjusted [simp]: "keyed pr \<Longrightarrow> keyed (walletAdjusted a s d pr)"
  by (auto simp: walletAdjusted_def Let_def keyed_def set_position_def positionOrEmpty_account)

section \<open>Every handler keeps it\<close>

lemma keyed_lp_handlers:
  assumes "keyed (cx_next ctx)"
  shows "ensures (adjustLpShares ctx e lc) (\<lambda>c. keyed (cx_next c))"
    and "ensures (handle_LpEpochOpened ctx e k store vault) (\<lambda>c. keyed (cx_next c))"
    and "ensures (handle_LpEpochStatusChanged ctx e k old_s new_s) (\<lambda>c. keyed (cx_next c))"
    and "ensures (handle_LpFractionalResidueRetired g ctx e rr) (\<lambda>c. keyed (cx_next c))"
    and "ensures (handle_LpEpochTerminalDustClassified ctx e td) (\<lambda>c. keyed (cx_next c))"
    and "ensures (handle_LpSharesTransferred ctx e st) (\<lambda>c. keyed (cx_next c))"
    and "ensures (handle_LpRewardIndexAdvanced g ctx e la) (\<lambda>c. keyed (cx_next c))"
    and "ensures (handle_LpRewardQuarantined g ctx e qu) (\<lambda>c. keyed (cx_next c))"
    and "ensures (handle_LpRewardsClaimed ctx e cl) (\<lambda>c. keyed (cx_next c))"
proof -
  have step: "keyed_by lp_owner (ep_positions ep) \<Longrightarrow> keyed (updateEpoch ep (cx_next ctx))" for ep
    using assms by (rule keyed_updateEpoch)
  have get: "map_get (pr_lpEpochs (cx_next ctx)) k = Some ep \<Longrightarrow> keyed_by lp_owner (ep_positions ep)" for k ep
    using assms keyed_epochs_get by (auto simp: keyed_def)
  note rules = ensures_simps Let_def
  show "ensures (adjustLpShares ctx e lc) (\<lambda>c. keyed (cx_next c))"
    unfolding adjustLpShares_def
    using assms by (auto simp: rules lpPositionOrEmpty_owner intro!: step dest!: get)
  show "ensures (handle_LpEpochOpened ctx e k store vault) (\<lambda>c. keyed (cx_next c))"
    using assms step [of "freshEpoch k store vault"]
    by (simp add: handle_LpEpochOpened_def rules keyed_def freshEpoch_def)
  show "ensures (handle_LpEpochStatusChanged ctx e k old_s new_s) (\<lambda>c. keyed (cx_next c))"
    unfolding handle_LpEpochStatusChanged_def
    using assms step by (auto simp: rules keyed_def dest: get)
  show "ensures (handle_LpFractionalResidueRetired g ctx e rr) (\<lambda>c. keyed (cx_next c))"
    unfolding handle_LpFractionalResidueRetired_def
    using assms by (auto simp: rules lpPositionOrEmpty_owner intro!: step dest!: get)
  show "ensures (handle_LpEpochTerminalDustClassified ctx e td) (\<lambda>c. keyed (cx_next c))"
    unfolding handle_LpEpochTerminalDustClassified_def
    using assms by (auto simp: rules intro!: step dest!: get)
  show "ensures (handle_LpSharesTransferred ctx e st) (\<lambda>c. keyed (cx_next c))"
    unfolding handle_LpSharesTransferred_def
    using assms by (auto simp: rules lpPositionOrEmpty_owner intro!: step dest!: get)
  show "ensures (handle_LpRewardIndexAdvanced g ctx e la) (\<lambda>c. keyed (cx_next c))"
    unfolding handle_LpRewardIndexAdvanced_def
    using assms by (auto simp: rules intro!: step dest!: get)
  show "ensures (handle_LpRewardQuarantined g ctx e qu) (\<lambda>c. keyed (cx_next c))"
    unfolding handle_LpRewardQuarantined_def
    using assms by (auto simp: rules intro!: step dest!: get)
  show "ensures (handle_LpRewardsClaimed ctx e cl) (\<lambda>c. keyed (cx_next c))"
    unfolding handle_LpRewardsClaimed_def
    using assms by (auto simp: rules lpPositionOrEmpty_owner intro!: keyed_adjusted step dest!: get)
qed


lemma keyed_by_adjusted [simp]:
  "keyed_by ip_account (pr_positions pr) \<Longrightarrow> keyed_by ip_account (pr_positions (walletAdjusted a s d pr))"
  by (auto simp: walletAdjusted_def Let_def set_position_def positionOrEmpty_account)

lemma walletAdjusted_maps [simp]:
  "pr_protocolExcludedStores (walletAdjusted a s d pr) = pr_protocolExcludedStores pr"
  "pr_rewardVaultToEpoch (walletAdjusted a s d pr) = pr_rewardVaultToEpoch pr"
  "pr_stateIdToEpoch (walletAdjusted a s d pr) = pr_stateIdToEpoch pr"
  "pr_seenEventIds (walletAdjusted a s d pr) = pr_seenEventIds pr"
  by (simp_all add: walletAdjusted_def Let_def set_position_def)

lemma keyed_debitSeller:
  "keyed (cx_next ctx) \<Longrightarrow> ensures (debitSeller ctx e s) (\<lambda>c. keyed (cx_next c))"
  by (simp add: debitSeller_def ensures_simps)

lemma keyed_fee_handlers:
  assumes "keyed (cx_next ctx)"
  shows "ensures (handle_ReflectionFeeCollected g ctx e f) (\<lambda>c. keyed (cx_next c))"
    and "ensures (handle_ReflectionIndexAdvanced ctx e ia) (\<lambda>c. keyed (cx_next c))"
    and "ensures (handle_SwapExecuted ctx e s) (\<lambda>c. keyed (cx_next c))"
    and "ensures (handle_Liquidity g ctx e kind q) (\<lambda>c. keyed (cx_next c))"
    and "ensures (materializeWallet ctx e account amount t) (\<lambda>c. keyed (cx_next c))"
    and "ensures (handle_OperationalAdminChanged ctx e scope account store) (\<lambda>c. keyed (cx_next c))"
proof -
  have "ensures (case swaps (gr_events g) of [] \<Rightarrow> Done ctx | (_, s) # _ \<Rightarrow> debitSeller ctx e s)
      (\<lambda>c. keyed (cx_next c))"
    using assms by (auto simp: keyed_debitSeller split: list.splits)
  then show "ensures (handle_ReflectionFeeCollected g ctx e f) (\<lambda>c. keyed (cx_next c))"
    unfolding handle_ReflectionFeeCollected_def ensures_andThen
    by (rule ensures_mono) (simp add: ensures_simps Let_def keyed_def)
  show "ensures (handle_ReflectionIndexAdvanced ctx e ia) (\<lambda>c. keyed (cx_next c))"
    using assms
    by (cases "cx_pendingCoreFees ctx") (simp_all add: handle_ReflectionIndexAdvanced_def ensures_simps Let_def keyed_def)
  show "ensures (handle_SwapExecuted ctx e s) (\<lambda>c. keyed (cx_next c))"
    unfolding handle_SwapExecuted_def ensures_andThen
    by (rule ensures_mono [OF keyed_debitSeller [OF assms]]) (auto simp: ensures_simps Let_def keyed_def)
  show "ensures (handle_Liquidity g ctx e kind q) (\<lambda>c. keyed (cx_next c))"
    using assms by (cases kind) (simp_all add: handle_Liquidity_def ensures_simps Let_def keyed_def)
  show "ensures (materializeWallet ctx e account amount t) (\<lambda>c. keyed (cx_next c))"
    using assms
    by (simp add: materializeWallet_def ensures_simps Let_def keyed_def set_position_def positionOrEmpty_account)
  show "ensures (handle_OperationalAdminChanged ctx e scope account store) (\<lambda>c. keyed (cx_next c))"
    using assms by (cases scope) (simp_all add: handle_OperationalAdminChanged_def Let_def keyed_def)
qed

lemma keyed_handle_event:
  assumes "keyed (cx_next ctx)"
  shows "ensures (handle_event g ctx e) (\<lambda>c. keyed (cx_next c))"
  by (cases "ev_body e") (use assms in \<open>simp_all add: handle_event_def keyed_lp_handlers keyed_fee_handlers\<close>,
    simp_all add: handle_Unknown_def wallet_handler_defs config_handler_defs custody_handler_defs ensures_simps Let_def
      keyed_def set_position_def positionOrEmpty_account)

interpretation keyed_replay: replay_invariant "\<lambda>c. keyed (cx_next c)"
  by unfold_locales (rule keyed_handle_event)

section \<open>Reachable projections\<close>

lemma keyed_run_group:
  assumes "keyed prior" "\<forall>e \<in> set es. assertProtocolEventMoveDomains e = Inr ()"
  shows "ensures (run_group prior es alerts) (\<lambda>c. keyed (cx_next c))"
  unfolding run_group_def Let_def ensures_andThen
proof (rule ensures_mono [OF keyed_replay.replay_keeps [OF assms(2)]])
  show "keyed (cx_next (initial_context prior (hd es) alerts))"
    using assms(1) by (simp add: initial_context_def)
  show "ensures (finishGroup g c) (\<lambda>c. keyed (cx_next c))" if "keyed (cx_next c)" for g c
    by (rule ensures_mono [OF finishGroup_ensures]) (use that in \<open>auto simp: keyed_def\<close>)
qed

interpretation keyed_group: group_invariant keyed
proof
  show "keyed createEmptyProjection" by (simp add: keyed_def createEmptyProjection_def keyed_epochs_def)
  show "keyed (mark_seen e pr)" if "keyed pr" for e pr using that by (simp add: keyed_def mark_seen_def)
qed (auto dest: ensuresD [OF keyed_run_group])

end
