(* ===== verification/Solvency.thy ===== *)
theory Solvency
  imports Group_Settlement
begin

text \<open>
  The promise of the protocol, as the indexer can certify it: in every projection the reducer can
  reach, the reward vault holds what all wallets together with the custody position may still
  claim, and every LP vault what its LP positions may still claim. The argument is the share
  ledger's rounding lemma on the bookkeeping invariants.
\<close>

section \<open>The core vault\<close>

text \<open>Custody seen as one more holder of the wallet ledger.\<close>

definition custody_holder :: "protocol_projection \<Rightarrow> indexed_position" where
  "custody_holder pr = (emptyPosition '''')\<lparr>ip_rawTrfl := cu_shares (pr_custody pr),
     ip_correction := cu_correction (pr_custody pr), ip_claimed := cu_claimed (pr_custody pr)\<rparr>"

lemma custodyPending_holder:
  "custodyPending pr = Inr c \<Longrightarrow> walletPending (custody_holder pr) (pr_currentIndex pr) = Inr c"
  by (simp add: custodyPending_def walletPending_def custody_holder_def result_simps checked_iff)

lemma core_pending_le_liability:
  assumes "core_ledger pr" "coreIndexedLiability pr = Inr l"
    and "list_all2 (\<lambda>p r. walletPending p (pr_currentIndex pr) = Inr r) (map_values (pr_positions pr)) rs"
    and "custodyPending pr = Inr c"
  shows "sum_list rs + c \<le> l"
proof -
  have "sum_list (rs @ [c]) \<le> magnified (pr_eligibleSupply pr) (pr_currentIndex pr) (pr_aggregateCorrection pr)
      div REFLECTION_MAGNITUDE - (pr_lifetimeMaterialized pr + pr_lifetimeCustodyRouted pr)"
  proof (rule wallet.pending_sum_le)
    show "list_all2 (\<lambda>p r. walletPending p (pr_currentIndex pr) = Inr r)
        (map_values (pr_positions pr) @ [custody_holder pr]) (rs @ [c])"
      using assms(3) custodyPending_holder [OF assms(4)] by (simp add: list_all2_appendI)
  qed (use assms(1) in \<open>auto simp: core_ledger_def map_sum_def custody_holder_def\<close>)
  with coreIndexedLiability_value [OF assms(2)] show ?thesis by simp
qed

text \<open>
  C3. Core solvency. In every reachable projection the expected balance of the reflection vault is
  known and covers, besides the unallocated fees and the rounding reserve, the pending rewards of
  all wallets and of the custody position taken together.
\<close>

theorem core_vault_covers_all_pending:
  assumes "reachable pr"
    and "list_all2 (\<lambda>p r. walletPending p (pr_currentIndex pr) = Inr r) (map_values (pr_positions pr)) rs"
    and "custodyPending pr = Inr c"
  shows "\<exists>vault. expectedCoreVaultBalance pr = Inr vault
    \<and> sum_list rs + c + pr_unallocatedFees pr + pr_roundingReserve pr \<le> vault
    \<and> 0 \<le> pr_unallocatedFees pr \<and> 0 \<le> pr_roundingReserve pr"
proof -
  have "core_ledger pr"
    using ledger_group.reachable_keeps [OF assms(1)] by (simp add: ledger_consistent_def)
  moreover have "core_backed pr"
    using backing_group.reachable_keeps [OF assms(1)] by (simp add: fully_backed_def)
  then obtain l v where "coreIndexedLiability pr = Inr l" "expectedCoreVaultBalance pr = Inr v"
    "0 \<le> pr_unallocatedFees pr" "0 \<le> pr_roundingReserve pr" "v = l + pr_unallocatedFees pr + pr_roundingReserve pr"
    by (auto simp: core_backed_def split: sum.splits)
  ultimately show ?thesis using core_pending_le_liability assms(2,3) by force
qed

section \<open>The LP vaults\<close>

lemma epoch_pending_le_liability:
  assumes "epoch_ledger ep" "lpIndexedLiability ep = Inr l"
    and "list_all2 (\<lambda>p r. lpPositionPending p ep = Inr r) (map_values (ep_positions ep)) rs"
  shows "sum_list rs \<le> l"
proof -
  have "sum_list rs \<le> magnified (ep_totalShares ep) (ep_index ep) (ep_aggregateCorrection ep)
      div REFLECTION_MAGNITUDE - ep_lifetimeClaimed ep"
    using assms(1,3)
    by (intro lp.pending_sum_le) (auto simp: lpPositionPending_at epoch_ledger_def map_sum_def)
  with lpIndexedLiability_value [OF assms(2)] show ?thesis by simp
qed

text \<open>
  C4. LP solvency. In every reachable projection the vault of every LP epoch, active or claim-only,
  covers its unallocated rewards and the pending rewards of all its LP positions together.
\<close>

theorem lp_vault_covers_all_pending:
  assumes "reachable pr" "map_get (pr_lpEpochs pr) k = Some ep"
    and "list_all2 (\<lambda>p r. lpPositionPending p ep = Inr r) (map_values (ep_positions ep)) rs"
  shows "\<exists>vault. expectedLpVaultBalance ep = Inr vault \<and> sum_list rs + ep_unallocatedRewards ep \<le> vault"
proof -
  have "epoch_ledger ep"
    using ledger_group.reachable_keeps [OF assms(1)] lp_ledger_get assms(2) by (auto simp: ledger_consistent_def)
  moreover have "epoch_backed ep"
    using backing_group.reachable_keeps [OF assms(1)] map_get_Some_values [OF assms(2)]
    by (auto simp: fully_backed_def list_all_iff)
  then obtain l v where "lpIndexedLiability ep = Inr l" "expectedLpVaultBalance ep = Inr v"
    "l + ep_unallocatedRewards ep \<le> v"
    by (auto simp: epoch_backed_def split: sum.splits)
  ultimately show ?thesis using epoch_pending_le_liability assms(3) by force
qed

section \<open>Bookkeeping\<close>

text \<open>
  C5. Bookkeeping. In every reachable projection the aggregates are the sums of the positions: wallet
  and custody shares make up the eligible supply, corrections the aggregate correction, claims the
  lifetime totals and the vault movements; and the same for the positions of every LP epoch, which
  is stored under its own number.
\<close>

theorem reachable_ledgers_balance:
  assumes "reachable pr"
  shows "sumWalletShares (pr_positions pr) + cu_shares (pr_custody pr) = pr_eligibleSupply pr
    \<and> map_sum ip_correction (pr_positions pr) + cu_correction (pr_custody pr) = pr_aggregateCorrection pr
    \<and> map_sum ip_claimed (pr_positions pr) = pr_lifetimeMaterialized pr
    \<and> cu_claimed (pr_custody pr) = pr_lifetimeCustodyRouted pr
    \<and> pr_rewardVaultCredits pr = pr_lifetimeSwapFees pr
    \<and> pr_rewardVaultPayouts pr = pr_lifetimeMaterialized pr + pr_lifetimeCustodyRouted pr
    \<and> (\<forall>k ep. map_get (pr_lpEpochs pr) k = Some ep \<longrightarrow> ep_epoch ep = k
        \<and> sumLpShares (ep_positions ep) = ep_totalShares ep
        \<and> map_sum lp_correction (ep_positions ep) = ep_aggregateCorrection ep
        \<and> map_sum lp_claimed (ep_positions ep) = ep_lifetimeClaimed ep)"
  using ledger_group.reachable_keeps [OF assms]
  by (auto simp: ledger_consistent_def core_ledger_def sumWalletShares_map_sum sumLpShares_map_sum epoch_ledger_def
      dest: lp_ledger_get)

end
