(* ===== verification/Chain_Certification.thy ===== *)
theory Chain_Certification
  imports Reconciler Keyed_Maps Solvency
begin

text \<open>
  What a clean reconciliation certifies. The comparison loops of the reconciler, which delete what
  they compared from a map of observed positions, are an interface of their own
  (\<open>position_comparison\<close>, interpreted for wallets and for LP owners): they are silent exactly when the
  replayed and the observed map agree key by key. A report is reconciled if and only if the replay is
  ready and the chain agrees with it, and the solvency of the replay carries over to the chain.
\<close>

section \<open>Maps built and consumed by the comparison loops\<close>

lemma map_get_delete [simp]: "map_get (map_delete k m) k' = (if k' = k then None else map_get m k')"
  by (induction m) (auto simp: map_get_def map_delete_def)

lemma map_get_foldl_set:
  "map_get (foldl (\<lambda>m x. map_set (key x) x m) m xs) k =
     (case find (\<lambda>x. key x = k) (rev xs) of None \<Rightarrow> map_get m k | Some x \<Rightarrow> Some x)"
proof (induction xs arbitrary: m)
  case (Cons x xs)
  have "find P (ys @ zs) = (case find P ys of None \<Rightarrow> find P zs | Some y \<Rightarrow> Some y)"
    for P and ys zs :: "'a list"
    by (induction ys) simp_all
  with Cons show ?case by (auto split: option.splits)
qed simp

lemma map_get_map_from: "map_get (map_from key xs) k = find (\<lambda>x. key x = k) (rev xs)"
  by (simp add: map_from_def map_get_foldl_set split: option.splits)

lemma map_from_distinct: "distinct (map key xs) \<Longrightarrow> map_from key xs = map (\<lambda>x. (key x, x)) xs"
proof (induction xs rule: rev_induct)
  case (snoc x xs)
  then have "map_from key xs = map (\<lambda>x. (key x, x)) xs" "key x \<notin> key ` set xs" by simp_all
  then show ?case by (simp add: map_from_def map_set_append image_image)
qed (simp add: map_from_def)

lemma map_get_all_None: "(\<forall>k. map_get m k = None) \<longleftrightarrow> m = []"
  by (cases m) (auto simp: map_get_def)

text \<open>A sum over the values of a map without duplicate keys is a sum over its keys.\<close>

lemma map_sum_keys: "jsmap_ok m \<Longrightarrow> map_sum f m = (\<Sum>k \<in> set (map_keys m). f (the (map_get m k)))"
proof (induction m)
  case (Cons kv m)
  obtain k v where kv: "kv = (k, v)" by force
  with Cons.prems have k: "k \<notin> set (map_keys m)" and ok: "jsmap_ok m" by (auto simp: jsmap_ok_def map_keys_def)
  have "(\<Sum>k' \<in> set (map_keys m). f (the (map_get ((k, v) # m) k'))) = (\<Sum>k' \<in> set (map_keys m). f (the (map_get m k')))"
    using k by (intro sum.cong) (auto simp: map_get_def)
  with k Cons.IH [OF ok] kv show ?case by (simp add: map_keys_def map_get_def)
qed (simp add: map_keys_def)

lemma map_sum_agree:
  assumes "jsmap_ok m" "jsmap_ok n" "\<And>k. rel_option (\<lambda>v w. f v = g w) (map_get m k) (map_get n k)"
  shows "map_sum f m = map_sum g n"
proof -
  have same: "set (map_keys m) = set (map_keys n)"
    using assms(3) by (auto simp: map_has_iff_keys [symmetric] map_has_iff_get) (metis option.rel_distinct not_None_eq)+
  have "f (the (map_get m k)) = g (the (map_get n k))" if "k \<in> set (map_keys n)" for k
    using that assms(3) [of k] same
    by (auto simp: map_has_iff_keys [symmetric] map_has_iff_get elim: option.rel_cases)
  with same show ?thesis by (simp add: map_sum_keys assms(1,2))
qed

section \<open>Comparison loops\<close>

locale position_comparison =
  fixes loop :: "('k \<times> 'p) list \<Rightarrow> ('k, 'c) jsmap \<Rightarrow> critical_alert list \<times> ('k, 'c) jsmap"
    and agrees :: "'k \<Rightarrow> 'p \<Rightarrow> 'c \<Rightarrow> bool"
  assumes loop_Nil: "loop [] chain = ([], chain)"
    and loop_clean: "fst (loop ((k, p) # ps) chain) = [] \<longleftrightarrow>
      (\<exists>c. map_get chain k = Some c \<and> agrees k p c) \<and> fst (loop ps (map_delete k chain)) = []"
    and loop_left: "snd (loop ((k, p) # ps) chain) = snd (loop ps (map_delete k chain))"
begin

lemma clean_iff:
  "fst (loop ps chain) = [] \<and> snd (loop ps chain) = [] \<longleftrightarrow>
     jsmap_ok ps \<and> (\<forall>k. rel_option (agrees k) (map_get ps k) (map_get chain k))"
proof (induction ps arbitrary: chain)
  case Nil
  have "(\<forall>k. rel_option (agrees k) None (map_get chain k)) \<longleftrightarrow> chain = []"
    using map_get_all_None [of chain] by simp
  then show ?case by (simp add: loop_Nil)
next
  case (Cons kp ps)
  obtain k p where kp: "kp = (k, p)" by force
  let ?R = "\<lambda>ps chain. \<forall>k'. rel_option (agrees k') (map_get ps k') (map_get chain k')"
  have fresh: "k \<notin> fst ` set ps" if "?R ps (map_delete k chain)"
  proof -
    from that have "map_get ps k = None" by (elim allE [of _ k]) simp
    then show ?thesis by (simp add: map_get_def map_of_eq_None_iff)
  qed
  have get: "map_get (kp # ps) k' = (if k' = k then Some p else map_get ps k')" for k'
    by (simp add: kp map_get_def)
  have "?R (kp # ps) chain \<longleftrightarrow> (\<exists>c. map_get chain k = Some c \<and> agrees k p c)
      \<and> (\<forall>k'. k' \<noteq> k \<longrightarrow> rel_option (agrees k') (map_get ps k') (map_get chain k'))"
    by (auto simp: get option_rel_Some1 split: if_splits)
  moreover have "?R ps (map_delete k chain) \<longleftrightarrow> map_get ps k = None
      \<and> (\<forall>k'. k' \<noteq> k \<longrightarrow> rel_option (agrees k') (map_get ps k') (map_get chain k'))"
    by (auto split: if_splits)
  moreover have "map_get ps k = None \<longleftrightarrow> k \<notin> fst ` set ps" by (simp add: map_get_def map_of_eq_None_iff)
  ultimately show ?case using Cons.IH [of "map_delete k chain"] by (auto simp: kp loop_clean loop_left jsmap_ok_def)
qed

end

definition wallet_agrees :: "indexed_position \<Rightarrow> observed_position \<Rightarrow> bool" where
  "wallet_agrees p c = (op_rawTrfl c = ip_rawTrfl p \<and> op_correction c = ip_correction p \<and> op_claimed c = ip_claimed p)"

definition lp_agrees :: "indexed_lp_position \<Rightarrow> observed_lp_position \<Rightarrow> bool" where
  "lp_agrees p c = (ol_shares c = lp_shares p \<and> ol_correction c = lp_correction p \<and> ol_claimed c = lp_claimed p)"

lemma alert_when_silent [simp]: "alert_when b a = [] \<longleftrightarrow> \<not> b"
  by (simp add: alert_when_def)

interpretation wallet_loop: position_comparison "wallet_position_alerts alert" "\<lambda>_. wallet_agrees"
  by unfold_locales (auto simp: Let_def wallet_agrees_def split: option.splits prod.splits)

interpretation lp_loop: position_comparison "lp_position_alerts alert scope registered"
    "\<lambda>owner p c. lp_agrees p c \<and> (lp_shares p > 0 \<longrightarrow> owner \<in> set registered)"
  by unfold_locales (auto simp: Let_def lp_agrees_def split: option.splits prod.splits)


section \<open>Agreement of chain and replay\<close>

text \<open>
  The specification: what has to be true of the replay alone, and of replay and chain together. The
  maps of positions are compared as partial functions.
\<close>

definition replay_ready :: "protocol_projection \<Rightarrow> bool" where
  "replay_ready pr =
     (pr_chainId pr = CEDRA_TESTNET_CHAIN_ID \<and> pr_deploymentReady pr
      \<and> (if pr_packageVersion pr = V02 then pr_lifecycle pr \<noteq> Some CONFIGURING
         else admins_complete (pr_operationalAdmins pr))
      \<and> pr_registeredWalletCount pr = int (length (pr_registeredWallets pr))
      \<and> po_trflReserve (pr_pool pr) = cu_shares (pr_custody pr)
      \<and> sumWalletShares (pr_positions pr) + cu_shares (pr_custody pr) = pr_eligibleSupply pr
      \<and> jsmap_ok (pr_positions pr))"

definition registry_agrees :: "protocol_projection \<Rightarrow> observed_snapshot \<Rightarrow> bool" where
  "registry_agrees pr obs =
     (ob_chainId obs = pr_chainId pr \<and> ob_deploymentId obs = pr_deploymentId pr
      \<and> ob_networkLabel obs = pr_networkLabel pr \<and> pr_tokenMetadata pr = Some (ob_tokenMetadata obs)
      \<and> ob_protocolExclusionsRemaining obs = pr_protocolExclusionsRemaining pr
      \<and> ob_registeredWalletCount obs = pr_registeredWalletCount pr
      \<and> distinct (ob_registeredWalletAccounts obs)
      \<and> set (ob_registeredWalletAccounts obs) = set (map_keys (pr_registeredWallets pr))
      \<and> (pr_packageVersion pr \<noteq> V02 \<longrightarrow>
           ob_coreOperationalAdmin obs = oa_reflectionCore (pr_operationalAdmins pr)
           \<and> ob_faucetOperationalAdmin obs = oa_testAssets (pr_operationalAdmins pr)
           \<and> ob_ammOperationalAdmin obs = oa_testAmm (pr_operationalAdmins pr)))"

definition core_agrees :: "protocol_projection \<Rightarrow> observed_snapshot \<Rightarrow> bool" where
  "core_agrees pr obs =
     (pr_rewardVault pr = Some (ob_rewardVault obs)
      \<and> expectedCoreVaultBalance pr = Inr (ob_rewardVaultBalance obs)
      \<and> coreIndexedLiability pr = Inr (ob_reflectionLiability obs)
      \<and> ob_rewardVaultBalance obs = ob_reflectionLiability obs + ob_unallocatedFees obs + ob_roundingReserve obs
      \<and> ob_currentIndex obs = pr_currentIndex pr \<and> ob_indexRemainder obs = pr_indexRemainder pr
      \<and> ob_eligibleSupply obs = pr_eligibleSupply pr
      \<and> ob_aggregateCorrection obs = pr_aggregateCorrection pr
      \<and> ob_unallocatedFees obs = pr_unallocatedFees pr \<and> ob_roundingReserve obs = pr_roundingReserve pr
      \<and> ob_lifetimeSwapFees obs = pr_lifetimeSwapFees pr
      \<and> ob_lifetimeMaterialized obs = pr_lifetimeMaterialized pr
      \<and> ob_lifetimeCustodyRouted obs = pr_lifetimeCustodyRouted pr)"

definition custody_agrees :: "protocol_projection \<Rightarrow> observed_snapshot \<Rightarrow> bool" where
  "custody_agrees pr obs =
     (cu_adapterId (pr_custody pr) = Some (ob_custodyAdapterId obs)
      \<and> cu_activeRouteEpoch (pr_custody pr) = Some (ob_custodyActiveRouteEpoch obs)
      \<and> cu_activeLpRewardVault (pr_custody pr) = Some (ob_custodyActiveLpRewardVault obs)
      \<and> ob_custodyShares obs = cu_shares (pr_custody pr) \<and> ob_custodyCorrection obs = cu_correction (pr_custody pr)
      \<and> ob_custodyClaimed obs = cu_claimed (pr_custody pr)
      \<and> custodyPending pr = Inr (ob_custodyPendingRewards obs)
      \<and> cu_reserveStore (pr_custody pr) = Some (ob_custodyReserveStore obs)
      \<and> ob_poolRflReserveStore obs = ob_custodyReserveStore obs
      \<and> pr_mockUsdPoolReserve pr = Some (ob_poolUsdReserveStore obs)
      \<and> pr_mockUsdPoolReserve pr = Some (ob_mockUsdPoolReserve obs)
      \<and> ob_trflReserve obs = ob_custodyReserveBalance obs)"

definition pool_agrees :: "protocol_projection \<Rightarrow> observed_snapshot \<Rightarrow> bool" where
  "pool_agrees pr obs =
     (let pool = pr_pool pr in
      ob_trflReserve obs = po_trflReserve pool \<and> ob_tusdReserve obs = po_tusdReserve pool
      \<and> ob_ammFeeBps obs = po_ammFeeBps pool \<and> ob_maximumGrossSwap obs = po_maximumGrossSwap pool
      \<and> ob_maximumReserveBps obs = po_maximumReserveBps pool
      \<and> ob_maximumRflContribution obs = po_maximumRflContribution pool
      \<and> ob_maximumTusdContribution obs = po_maximumTusdContribution pool
      \<and> ob_maximumNonFinalWithdrawalShareBps obs = po_maximumNonFinalWithdrawalShareBps pool
      \<and> ob_packageVersion obs = pr_packageVersion pr
      \<and> ob_automaticMaterialization obs = pr_automaticMaterialization pr
      \<and> ob_faucetTrflGrant obs = pr_faucetTrflGrant pr \<and> ob_faucetTusdGrant obs = pr_faucetTusdGrant pr
      \<and> ob_faucetCooldownSeconds obs = pr_faucetCooldownSeconds pr
      \<and> (if pr_packageVersion pr = V02
         then ob_lifecycle obs = pr_lifecycle pr \<and> ob_reflectionFeeBps obs = Some (pr_feeBps pr)
         else ob_swapsPaused obs = pr_swapsPaused pr \<and> ob_claimsPaused obs = pr_claimsPaused pr
           \<and> ob_faucetPaused obs = pr_faucetPaused pr \<and> ob_poolPaused obs = po_poolPaused pool
           \<and> ob_liquidityPaused obs = po_liquidityPaused pool \<and> ob_lpClaimsPaused obs = po_lpClaimsPaused pool
           \<and> ob_shutdownMode obs = po_shutdownMode pool \<and> ob_poolSeeded obs = po_seeded pool))"

definition epoch_agrees :: "protocol_projection \<Rightarrow> observed_snapshot \<Rightarrow> indexed_lp_epoch \<Rightarrow> observed_lp_epoch \<Rightarrow> bool" where
  "epoch_agrees pr obs ep oe =
     (oe_rewardVault oe = ep_rewardVault ep \<and> oe_stateId oe = ep_stateId ep
      \<and> expectedLpVaultBalance ep = Inr (oe_rewardVaultBalance oe)
      \<and> lpIndexedLiability ep = Inr (oe_indexedLiability oe)
      \<and> oe_rewardVaultBalance oe = oe_indexedLiability oe + oe_unallocatedRewards oe + oe_roundingReserve oe
      \<and> lp_fields_agree ep oe \<and> jsmap_ok (ep_positions ep)
      \<and> (\<forall>owner. rel_option (\<lambda>p c. lp_agrees p c \<and> (lp_shares p > 0 \<longrightarrow> map_has (pr_registeredWallets pr) owner))
           (map_get (ep_positions ep) owner) (map_get (map_from ol_owner (oe_positions oe)) owner))
      \<and> (\<forall>c \<in> set (oe_positions oe). ol_shares c > 0 \<longrightarrow> ol_owner c \<in> set (ob_registeredWalletAccounts obs)))"

definition positions_agree :: "protocol_projection \<Rightarrow> observed_snapshot \<Rightarrow> bool" where
  "positions_agree pr obs =
     ((\<forall>account. rel_option wallet_agrees (map_get (pr_positions pr) account)
         (map_get (map_from op_account (ob_positions obs)) account))
      \<and> ob_activeLpEpoch obs = pr_activeLpEpoch pr
      \<and> set (map_keys (pr_lpEpochs pr)) \<subseteq> oe_epoch ` set (ob_lpEpochs obs)
      \<and> (\<forall>oe \<in> set (ob_lpEpochs obs). \<exists>ep. map_get (pr_lpEpochs pr) (oe_epoch oe) = Some ep \<and> epoch_agrees pr obs ep oe))"

definition chain_agrees :: "protocol_projection \<Rightarrow> observed_snapshot \<Rightarrow> bool" where
  "chain_agrees pr obs = (registry_agrees pr obs \<and> core_agrees pr obs \<and> custody_agrees pr obs
     \<and> pool_agrees pr obs \<and> positions_agree pr obs)"


section \<open>The alerts against the specification\<close>

lemma registrationsMatch_iff:
  assumes "jsmap_ok (pr_registeredWallets pr)"
  shows "registrationsMatch pr obs \<longleftrightarrow> pr_registeredWalletCount pr = int (length (pr_registeredWallets pr))
    \<and> ob_registeredWalletCount obs = pr_registeredWalletCount pr \<and> distinct (ob_registeredWalletAccounts obs)
    \<and> set (ob_registeredWalletAccounts obs) = set (map_keys (pr_registeredWallets pr))"
proof -
  let ?xs = "ob_registeredWalletAccounts obs" let ?ks = "map_keys (pr_registeredWallets pr)"
  have ks: "distinct ?ks" "length ?ks = length (pr_registeredWallets pr)"
    using assms by (simp_all add: jsmap_ok_def map_keys_def)
  have dist: "length ?xs = length (remdups ?xs) \<longleftrightarrow> distinct ?xs"
    by (metis length_remdups_eq remdups_id_iff_distinct)
  have same: "length ?xs = length ?ks \<and> set ?ks \<subseteq> set ?xs \<longleftrightarrow> set ?xs = set ?ks" if "distinct ?xs"
    using that ks(1) card_subset_eq [of "set ?xs" "set ?ks"] by (auto simp: distinct_card [symmetric])
  have match: "registrationsMatch pr obs \<longleftrightarrow> pr_registeredWalletCount pr = int (length (pr_registeredWallets pr))
      \<and> ob_registeredWalletCount obs = pr_registeredWalletCount pr
      \<and> distinct ?xs \<and> length (remdups ?xs) = length ?ks \<and> set ?ks \<subseteq> set ?xs"
    unfolding dist [symmetric] by (auto simp: registrationsMatch_def Let_def list_all_iff ks(2))
  show ?thesis
  proof (cases "distinct ?xs")
    case True
    show ?thesis unfolding match distinct_remdups_id [OF True] same [OF True] ..
  qed (simp add: match)
qed

lemma admin_alerts_Nil: "admin_alerts alert key expected observed = [] \<longleftrightarrow> expected \<noteq> None \<and> observed = expected"
  by (auto simp: admin_alerts_def split: option.splits)

lemma registry_alerts_Nil:
  assumes "jsmap_ok (pr_registeredWallets pr)"
  shows "identity_alerts alert pr obs = [] \<and> registration_set_alerts alert pr obs = [] \<and> authority_alerts alert pr obs = []
    \<longleftrightarrow> registry_agrees pr obs \<and> pr_chainId pr = CEDRA_TESTNET_CHAIN_ID \<and> pr_deploymentReady pr
      \<and> pr_registeredWalletCount pr = int (length (pr_registeredWallets pr))
      \<and> (if pr_packageVersion pr = V02 then pr_lifecycle pr \<noteq> Some CONFIGURING
         else admins_complete (pr_operationalAdmins pr))"
  by (auto simp: identity_alerts_def registration_set_alerts_def authority_alerts_def admin_alerts_Nil Let_def
      registrationsMatch_iff [OF assms] registry_agrees_def admins_complete_def)

lemma core_alerts_Nil:
  assumes "expectedCoreVaultBalance pr = Inr v" "coreIndexedLiability pr = Inr l"
    and "buckets = ob_reflectionLiability obs + ob_unallocatedFees obs + ob_roundingReserve obs"
  shows "core_vault_alerts alert pr obs v l buckets = [] \<and> core_field_alerts alert pr obs = [] \<longleftrightarrow> core_agrees pr obs"
  using assms by (auto simp: core_vault_alerts_def core_field_alerts_def core_agrees_def)

lemma custody_pool_alerts_Nil:
  assumes "custodyPending pr = Inr c"
  shows "custody_alerts alert pr obs c = [] \<and> reserve_store_alerts alert pr obs = [] \<and> pool_alerts alert pr obs = []
      \<and> version_alerts alert pr obs = [] \<and> pause_alerts alert pr obs = []
    \<longleftrightarrow> custody_agrees pr obs \<and> pool_agrees pr obs \<and> po_trflReserve (pr_pool pr) = cu_shares (pr_custody pr)"
proof -
  have custody: "custody_alerts alert pr obs c = [] \<and> reserve_store_alerts alert pr obs = []
      \<and> ob_trflReserve obs = ob_custodyReserveBalance obs \<longleftrightarrow> custody_agrees pr obs"
    using assms by (cases "cu_reserveStore (pr_custody pr)")
      (auto simp: custody_alerts_def reserve_store_alerts_def Let_def custody_agrees_def)
  have pool: "pool_alerts alert pr obs = [] \<and> version_alerts alert pr obs = [] \<and> pause_alerts alert pr obs = []
      \<longleftrightarrow> pool_agrees pr obs \<and> ob_trflReserve obs = ob_custodyReserveBalance obs \<and> ob_trflReserve obs = ob_custodyShares obs
        \<and> po_trflReserve (pr_pool pr) = cu_shares (pr_custody pr)"
    by (cases "pr_packageVersion pr = V02"; intro iffI)
      (simp_all add: pool_alerts_def version_alerts_def pause_alerts_def Let_def pool_agrees_def)
  have "custody_agrees pr obs \<Longrightarrow> ob_custodyShares obs = cu_shares (pr_custody pr)"
    "custody_agrees pr obs \<Longrightarrow> ob_trflReserve obs = ob_custodyReserveBalance obs"
    "pool_agrees pr obs \<Longrightarrow> ob_trflReserve obs = po_trflReserve (pr_pool pr)"
    by (simp_all add: custody_agrees_def pool_agrees_def Let_def)
  then show ?thesis using custody pool by auto
qed

lemma positions_alerts_Nil:
  "positions_alerts alert pr obs = [] \<longleftrightarrow> jsmap_ok (pr_positions pr)
     \<and> (\<forall>account. rel_option wallet_agrees (map_get (pr_positions pr) account)
          (map_get (map_from op_account (ob_positions obs)) account))"
  using wallet_loop.clean_iff [of alert "pr_positions pr" "map_from op_account (ob_positions obs)"]
  by (auto simp: positions_alerts_def map_keys_def split: prod.splits)

lemma compareLpEpoch_Inr:
  assumes "compareLpEpoch alert pr oe (map_keys (pr_registeredWallets pr)) (ob_registeredWalletAccounts obs) = Inr (as, res)"
  shows "as = [] \<longleftrightarrow> (\<exists>ep. map_get (pr_lpEpochs pr) (oe_epoch oe) = Some ep \<and> epoch_agrees pr obs ep oe)"
proof (cases "map_get (pr_lpEpochs pr) (oe_epoch oe)")
  case None
  with assms show ?thesis by (auto simp: compareLpEpoch_def)
next
  case (Some ep)
  let ?scope = "''lp-'' @ int_str (oe_epoch oe)" let ?chain = "map_from ol_owner (oe_positions oe)"
  let ?keys = "map_keys (pr_registeredWallets pr)"
  have keys: "owner \<in> set ?keys \<longleftrightarrow> map_has (pr_registeredWallets pr) owner" for owner
    by (simp add: map_has_iff_keys)
  obtain compared left where loop: "lp_position_alerts alert ?scope ?keys (ep_positions ep) ?chain = (compared, left)"
    by force
  have positions: "compared = [] \<and> left = [] \<longleftrightarrow> jsmap_ok (ep_positions ep) \<and>
      (\<forall>owner. rel_option (\<lambda>p c. lp_agrees p c \<and> (lp_shares p > 0 \<longrightarrow> map_has (pr_registeredWallets pr) owner))
        (map_get (ep_positions ep) owner) (map_get ?chain owner))"
    using lp_loop.clean_iff [of alert ?scope ?keys "ep_positions ep" ?chain] unfolding loop keys by simp
  from assms Some loop obtain l v buckets where parts: "lpIndexedLiability ep = Inr l" "expectedLpVaultBalance ep = Inr v"
    "buckets = oe_indexedLiability oe + oe_unallocatedRewards oe + oe_roundingReserve oe"
    "as = lp_bucket_alerts alert ?scope ep oe l v buckets @ lp_field_alerts alert ?scope ep oe @ compared
       @ concat (map (\<lambda>c. alert_when (ol_shares c > 0 \<and> ol_owner c \<notin> set (ob_registeredWalletAccounts obs))
           (alert WALLET_REGISTRATION
             ''Observed positive LP ownership is not bound to the finalized registered-wallet set.''
             ''registered LP owner'' (ol_owner c) (?scope @ ''-'' @ ol_owner c @ ''-observed-registration'')))
           (oe_positions oe))
       @ map (\<lambda>owner. alert POSITION_ACCOUNTING ''Observed LP position is absent from replay.''
           ''absent'' owner (?scope @ ''-'' @ owner)) (map_keys left)"
    by (auto simp: compareLpEpoch_def Let_def result_simps checked_iff)
  have "lp_bucket_alerts alert ?scope ep oe l v buckets = [] \<and> lp_field_alerts alert ?scope ep oe = []
      \<longleftrightarrow> oe_rewardVault oe = ep_rewardVault ep \<and> oe_stateId oe = ep_stateId ep
        \<and> expectedLpVaultBalance ep = Inr (oe_rewardVaultBalance oe) \<and> lpIndexedLiability ep = Inr (oe_indexedLiability oe)
        \<and> oe_rewardVaultBalance oe = oe_indexedLiability oe + oe_unallocatedRewards oe + oe_roundingReserve oe
        \<and> lp_fields_agree ep oe"
    using parts(1-3) by (auto simp: lp_bucket_alerts_def lp_field_alerts_def)
  with positions Some parts(4) show ?thesis by (auto simp: epoch_agrees_def map_keys_def)
qed

lemma compareLpEpochs_Inr:
  assumes "compareLpEpochs alert pr oes (map_keys (pr_registeredWallets pr)) (ob_registeredWalletAccounts obs) = Inr (as, res)"
  shows "as = [] \<longleftrightarrow> (\<forall>oe \<in> set oes. \<exists>ep. map_get (pr_lpEpochs pr) (oe_epoch oe) = Some ep \<and> epoch_agrees pr obs ep oe)"
  using assms
proof (induction oes arbitrary: as res)
  case (Cons oe oes)
  then obtain a1 r1 a2 r2 where "compareLpEpoch alert pr oe (map_keys (pr_registeredWallets pr)) (ob_registeredWalletAccounts obs) = Inr (a1, r1)"
    "compareLpEpochs alert pr oes (map_keys (pr_registeredWallets pr)) (ob_registeredWalletAccounts obs) = Inr (a2, r2)"
    "as = a1 @ a2"
    by (auto simp: result_simps)
  with Cons.IH [OF this(2)] compareLpEpoch_Inr [OF this(1)] show ?case by simp
qed simp

lemma compare_all_Inr:
  assumes "jsmap_ok (pr_registeredWallets pr)" "compare_all alert pr obs v l c = Inr (as, res)"
    and "expectedCoreVaultBalance pr = Inr v" "coreIndexedLiability pr = Inr l" "custodyPending pr = Inr c"
  shows "as = [] \<longleftrightarrow> replay_ready pr \<and> chain_agrees pr obs"
proof -
  from assms(2) obtain epochAlerts buckets where epochs: "compareLpEpochs alert pr (ob_lpEpochs obs)
      (map_keys (pr_registeredWallets pr)) (ob_registeredWalletAccounts obs) = Inr (epochAlerts, res)"
    and buckets: "buckets = ob_reflectionLiability obs + ob_unallocatedFees obs + ob_roundingReserve obs"
    and as: "as = identity_alerts alert pr obs @ registration_set_alerts alert pr obs @ authority_alerts alert pr obs
       @ core_vault_alerts alert pr obs v l buckets @ core_field_alerts alert pr obs @ custody_alerts alert pr obs c
       @ reserve_store_alerts alert pr obs @ pool_alerts alert pr obs @ share_conservation_alerts alert pr
       @ positions_alerts alert pr obs @ epoch_presence_alerts alert pr obs @ epochAlerts
       @ version_alerts alert pr obs @ pause_alerts alert pr obs"
    by (auto simp: compare_all_def result_simps checked_iff)
  have presence: "epoch_presence_alerts alert pr obs = [] \<longleftrightarrow> ob_activeLpEpoch obs = pr_activeLpEpoch pr
      \<and> set (map_keys (pr_lpEpochs pr)) \<subseteq> oe_epoch ` set (ob_lpEpochs obs)"
    by (auto simp: epoch_presence_alerts_def)
  have conservation: "share_conservation_alerts alert pr = [] \<longleftrightarrow>
      sumWalletShares (pr_positions pr) + cu_shares (pr_custody pr) = pr_eligibleSupply pr"
    by (simp add: share_conservation_alerts_def Let_def)
  have "as = [] \<longleftrightarrow> (identity_alerts alert pr obs = [] \<and> registration_set_alerts alert pr obs = [] \<and> authority_alerts alert pr obs = [])
      \<and> (core_vault_alerts alert pr obs v l buckets = [] \<and> core_field_alerts alert pr obs = [])
      \<and> (custody_alerts alert pr obs c = [] \<and> reserve_store_alerts alert pr obs = [] \<and> pool_alerts alert pr obs = []
          \<and> version_alerts alert pr obs = [] \<and> pause_alerts alert pr obs = [])
      \<and> share_conservation_alerts alert pr = [] \<and> positions_alerts alert pr obs = []
      \<and> epoch_presence_alerts alert pr obs = [] \<and> epochAlerts = []"
    by (simp add: as) blast
  then show ?thesis
    unfolding registry_alerts_Nil [OF assms(1)] core_alerts_Nil [OF assms(3,4) buckets] custody_pool_alerts_Nil [OF assms(5)]
      positions_alerts_Nil presence conservation compareLpEpochs_Inr [OF epochs] chain_agrees_def replay_ready_def positions_agree_def
    by blast
qed

lemma reconcile_reconciled:
  assumes "jsmap_ok (pr_registeredWallets pr)" "reconcile now pr obs cursor = Inr rep"
  shows "rp_reconciled rep \<longleftrightarrow> map_option cur_ledgerVersion cursor = Some (ob_ledgerVersion obs)
      \<and> replay_ready pr \<and> chain_agrees pr obs"
    and "rp_reconciled rep \<longleftrightarrow> rp_alerts rep = []"
proof -
  from assms(2) obtain v l c where calc: "expectedCoreVaultBalance pr = Inr v" "coreIndexedLiability pr = Inr l"
      "custodyPending pr = Inr c"
    by (auto simp: reconcile_def result_simps)
  show "rp_reconciled rep \<longleftrightarrow> map_option cur_ledgerVersion cursor = Some (ob_ledgerVersion obs)
      \<and> replay_ready pr \<and> chain_agrees pr obs" "rp_reconciled rep \<longleftrightarrow> rp_alerts rep = []"
  proof (atomize (full), cases "map_option cur_ledgerVersion cursor = Some (ob_ledgerVersion obs)")
    case True
    with assms(2) calc obtain as res where "compare_all (reconcile_alert now cursor) pr obs v l c = Inr (as, res)"
        "rp_alerts rep = as" "rp_reconciled rep = (as = [])"
      by (auto simp: reconcile_def result_simps Let_def)
    with compare_all_Inr [OF assms(1) this(1) calc] True
    show "(rp_reconciled rep \<longleftrightarrow> map_option cur_ledgerVersion cursor = Some (ob_ledgerVersion obs)
        \<and> replay_ready pr \<and> chain_agrees pr obs) \<and> (rp_reconciled rep \<longleftrightarrow> rp_alerts rep = [])"
      by simp
  next
    case False
    with assms(2) calc show "(rp_reconciled rep \<longleftrightarrow> map_option cur_ledgerVersion cursor = Some (ob_ledgerVersion obs)
        \<and> replay_ready pr \<and> chain_agrees pr obs) \<and> (rp_reconciled rep \<longleftrightarrow> rp_alerts rep = [])"
      by (auto simp: reconcile_def Let_def)
  qed
qed

text \<open>
  C25. Reconciliation is exact. For a replay with a well-formed wallet registry, a report is
  reconciled if and only if the chain views are pinned to the replayed ledger version, the replay is
  ready, and the chain agrees with the replay: identity, registry, every core, custody, pool and
  configuration value, every wallet position and every LP epoch with all its positions, with nothing
  missing and nothing extra on either side. A report is reconciled exactly when it has no alert.
\<close>

theorem reconciled_iff_chain_agrees:
  assumes "jsmap_ok (pr_registeredWallets pr)" "reconcile now pr obs cursor = Inr rep"
  shows "(rp_reconciled rep \<longleftrightarrow> map_option cur_ledgerVersion cursor = Some (ob_ledgerVersion obs)
      \<and> replay_ready pr \<and> chain_agrees pr obs) \<and> (rp_reconciled rep \<longleftrightarrow> rp_alerts rep = [])"
  using reconcile_reconciled [OF assms] by blast

section \<open>Solvency of the chain\<close>

text \<open>An observed wallet, read as a position of the replay.\<close>

definition observed_holder :: "observed_position \<Rightarrow> indexed_position" where
  "observed_holder c = (emptyPosition (op_account c))\<lparr>ip_rawTrfl := op_rawTrfl c, ip_correction := op_correction c,
     ip_claimed := op_claimed c\<rparr>"

lemma walletPending_agrees: "wallet_agrees p c \<Longrightarrow> walletPending (observed_holder c) i = walletPending p i"
  by (simp add: walletPending_def observed_holder_def wallet_agrees_def)

lemma list_all2_values: "list_all2 (\<lambda>x r. f x = Inr r) xs rs \<longleftrightarrow> (\<forall>x \<in> set xs. \<exists>r. f x = Inr r) \<and> rs = map (\<lambda>x. projr (f x)) xs"
  by (induction xs arbitrary: rs) (auto simp: list_all2_Cons1)

text \<open>
  C26. A clean reconciliation certifies the chain. If the reducer reached the projection and a
  reconciliation of it succeeded, then the observed balance of the on-chain reward vault covers the
  pending rewards of all observed wallets and of the custody position together with the unallocated
  and rounding buckets, all computed from the chain's own values.
\<close>

theorem reconciled_chain_is_solvent:
  assumes "reachable pr" "reconcile now pr obs cursor = Inr rep" "rp_reconciled rep"
    and "distinct (map op_account (ob_positions obs))"
    and "list_all2 (\<lambda>c r. walletPending (observed_holder c) (ob_currentIndex obs) = Inr r) (ob_positions obs) rs"
  shows "sum_list rs + ob_custodyPendingRewards obs + ob_unallocatedFees obs + ob_roundingReserve obs
    \<le> ob_rewardVaultBalance obs"
proof -
  have keyed: "keyed pr" using keyed_group.reachable_keeps [OF assms(1)] .
  then have agree: "chain_agrees pr obs" and ok: "jsmap_ok (pr_positions pr)"
    using reconcile_reconciled(1) [OF _ assms(2)] assms(3) by (auto simp: keyed_def keyed_by_def)
  let ?i = "pr_currentIndex pr" let ?chain = "map_from op_account (ob_positions obs)"
  have chain: "?chain = map (\<lambda>c. (op_account c, c)) (ob_positions obs)" using map_from_distinct [OF assms(4)] .
  have index: "ob_currentIndex obs = ?i" and liability: "coreIndexedLiability pr = Inr (ob_reflectionLiability obs)"
    and vault: "ob_rewardVaultBalance obs = ob_reflectionLiability obs + ob_unallocatedFees obs + ob_roundingReserve obs"
    and pending: "custodyPending pr = Inr (ob_custodyPendingRewards obs)"
    and rel: "rel_option wallet_agrees (map_get (pr_positions pr) a) (map_get ?chain a)" for a
    using agree by (simp_all add: chain_agrees_def core_agrees_def custody_agrees_def positions_agree_def)
  have rs: "\<forall>c \<in> set (ob_positions obs). \<exists>r. walletPending (observed_holder c) ?i = Inr r"
    "rs = map (\<lambda>c. projr (walletPending (observed_holder c) ?i)) (ob_positions obs)"
    using assms(5) by (simp_all add: list_all2_values index)
  have "jsmap_ok ?chain" using assms(4) by (simp add: chain jsmap_ok_def comp_def)
  moreover have "rel_option (\<lambda>p c. projr (walletPending p ?i) = projr (walletPending (observed_holder c) ?i))
      (map_get (pr_positions pr) a) (map_get ?chain a)" for a
    using rel by (rule option.rel_mono_strong) (simp add: walletPending_agrees)
  ultimately have "map_sum (\<lambda>p. projr (walletPending p ?i)) (pr_positions pr) =
      map_sum (\<lambda>c. projr (walletPending (observed_holder c) ?i)) ?chain"
    using ok by (intro map_sum_agree)
  also have "\<dots> = sum_list rs" by (simp add: rs(2) chain map_sum_def map_values_def comp_def)
  finally have sums: "sum_list (map (\<lambda>p. projr (walletPending p ?i)) (map_values (pr_positions pr))) = sum_list rs"
    by (simp add: map_sum_def)
  have "\<exists>r. walletPending p ?i = Inr r" if "(a, p) \<in> set (pr_positions pr)" for a p
  proof -
    from that ok have "map_get (pr_positions pr) a = Some p" by (simp add: map_get_def jsmap_ok_def)
    with rel [of a] obtain c where "map_get ?chain a = Some c" "wallet_agrees p c" by (auto simp: option_rel_Some1)
    moreover from this(1) have "c \<in> set (ob_positions obs)" using map_get_Some_entries by (fastforce simp: chain)
    ultimately show ?thesis using rs(1) walletPending_agrees by metis
  qed
  then have "list_all2 (\<lambda>p r. walletPending p ?i = Inr r) (map_values (pr_positions pr))
      (map (\<lambda>p. projr (walletPending p ?i)) (map_values (pr_positions pr)))"
    by (auto simp: list_all2_values map_values_def)
  moreover have "core_ledger pr" using ledger_group.reachable_keeps [OF assms(1)] by (simp add: ledger_consistent_def)
  ultimately show ?thesis using core_pending_le_liability [OF _ liability _ pending] sums vault by force
qed

end
