(* ===== verification/Snapshot_Codec.thy ===== *)
theory Snapshot_Codec
  imports Snapshot Keyed_Maps Chain_Certification
begin

text \<open>
  A snapshot survives its text: what \<open>takeSnapshot\<close> produces is read back by \<open>decodeSnapshot\<close> from the
  text of \<open>encodeSnapshot\<close> unchanged. Serialisation writes the values of a map only, so this needs maps
  stored under their own keys, which every reachable projection has (\<open>Keyed_Maps\<close>).
\<close>

named_theorems casts "reading and checking leaves of a tree"

section \<open>Fields of objects\<close>

lemma opt_str_of_opt [casts]: "opt_str_of (js_opt_str v) = v"
  by (cases v) (simp_all add: js_opt_str_def)

lemma opt_big_of_opt [casts]: "opt_big_of (js_opt_big v) = v"
  by (cases v) (simp_all add: js_opt_big_def)

lemma status_of_str [casts]: "status_of (JStr (status_str s)) = s"
  by (cases s) (simp_all add: status_of_def)

lemma lifecycle_of_str [casts]: "lifecycle_of (JStr (lifecycle_str l)) = l"
  by (cases l) (simp_all add: lifecycle_of_def)

lemma leaf_checks [casts]:
  "js_unsigned (Some (JBig n)) b = isMoveUnsigned n b"
  "js_signed (Some (JBig n)) = isMoveSignedU256 n"
  "js_boolean (Some (JBool t))"
  "isAddress (Some (JStr s)) = is_address_text s"
  "js_array (Some (JArr vs)) = Some vs"
  by (simp_all add: js_unsigned_def js_signed_def js_boolean_def isAddress_def js_array_def)

section \<open>Maps are rebuilt\<close>

lemma keyed_of_values:
  assumes "keyed_by key m" "\<And>v. v \<in> snd ` set m \<Longrightarrow> f (g v) = v"
  shows "keyed_of key f (JArr (map g (map_values m))) = m"
proof -
  have "map f (map g (map_values m)) = map_values m" using assms(2) by (simp add: map_values_def)
  then have "keyed_of key f (JArr (map g (map_values m))) = map_from key (map_values m)"
    by (simp only: keyed_of_def arr_of.simps)
  moreover have "distinct (map key (map_values m))"
  proof -
    have "map key (map_values m) = map fst m"
      using assms(1) by (auto simp: keyed_by_def list_all_iff map_values_def)
    with assms(1) show ?thesis by (simp add: keyed_by_def jsmap_ok_def)
  qed
  then have "map_from key (map_values m) = map (\<lambda>x. (key x, x)) (map_values m)" by (rule map_from_distinct)
  moreover have "map (\<lambda>x. (key x, x)) (map_values m) = m"
    using assms(1) by (auto simp: map_values_def keyed_by_def list_all_iff intro!: map_idI)
  ultimately show ?thesis by simp
qed

lemma foldl_map_set:
  "distinct (map fst (acc @ m)) \<Longrightarrow> foldl (\<lambda>a (k, v). map_set k v a) acc m = acc @ m"
  by (induction m arbitrary: acc) (auto simp: map_set_append)

lemma entries_of_map:
  assumes "jsmap_ok m" "\<And>v. f (g v) = v"
  shows "entries_of f (JArr (map (\<lambda>(k, v). JArr [JStr k, g v]) m)) = m"
proof -
  have "entries_of f (JArr (map (\<lambda>(k, v). JArr [JStr k, g v]) m)) = foldl (\<lambda>a (k, v). map_set k v a) [] m"
    by (simp add: entries_of_def foldl_map entry_of_def case_prod_unfold assms(2))
  with foldl_map_set [of "[]" m] assms(1) show ?thesis by (simp add: jsmap_ok_def)
qed

section \<open>Records are rebuilt\<close>

lemma parsed_position_serialise: "parsed_position (serialise_position x) = x"
  by (cases x) (simp add: parsed_position_def serialise_position_def lookup)

lemma parsed_lp_position_serialise: "parsed_lp_position (serialise_lp_position x) = x"
  by (cases x) (simp add: parsed_lp_position_def serialise_lp_position_def lookup)

lemma parsed_epoch_serialise:
  assumes "keyed_by lp_owner (ep_positions x)"
  shows "parsed_epoch (serialise_epoch x) = x"
  using assms by (cases x) (simp add: parsed_epoch_def serialise_epoch_def lookup casts keyed_of_values parsed_lp_position_serialise)

lemma parsed_pool_serialise: "parsed_pool (serialise_pool x) = x"
  by (cases x) (simp add: parsed_pool_def serialise_pool_def lookup)

lemma parsed_custody_serialise: "parsed_custody (serialise_custody x) = x"
  by (cases x) (simp add: parsed_custody_def serialise_custody_def lookup casts)

lemma parsed_admins_serialise: "parsed_admins (serialise_admins x) = x"
  by (cases x) (simp add: parsed_admins_def serialise_admins_def lookup casts)

lemmas parsed_parts = parsed_position_serialise parsed_pool_serialise parsed_custody_serialise parsed_admins_serialise

lemma fields_of_members:
  "distinct (map fst ms) \<Longrightarrow> list_all (\<lambda>(k, w). js_field (JObj (ms @ ns)) k = Some w) ms"
proof (induction ms)
  case (Cons m ms)
  then show ?case by (cases m) (force simp: list_all_iff js_field_def map_get_def)
qed simp

lemma projection_keys_distinct: "distinct [
    ''chainId'', ''deploymentId'', ''networkLabel'', ''tokenMetadata'', ''protocolExclusionSlots'',
    ''protocolExclusionsRemaining'', ''protocolExcludedStores'', ''registeredWallets'', ''registeredWalletCount'',
    ''automaticMaterialization'', ''feeBps'', ''currentIndex'', ''indexRemainder'', ''eligibleSupply'',
    ''aggregateCorrection'', ''unallocatedFees'', ''roundingReserve'', ''rewardVault'', ''distributionVault'',
    ''mockUsdPoolReserve'', ''rewardVaultCredits'', ''rewardVaultPayouts'', ''lifetimeSwapFees'',
    ''lifetimeMaterialized'', ''lifetimeCustodyRouted'', ''packageVersion'', ''swapsPaused'', ''claimsPaused'',
    ''faucetPaused'', ''faucetTrflGrant'', ''faucetTusdGrant'', ''faucetCooldownSeconds'', ''operationalAdmins'',
    ''deploymentReady'', ''pool'', ''custody'', ''activeLpEpoch'', ''lpEpochs'', ''rewardVaultToEpoch'',
    ''stateIdToEpoch'', ''positions'', ''seenEventIds'']"
  by code_simp

lemma projection_fields_all: "list_all (\<lambda>(k, w). js_field (serialiseProjection x) k = Some w) [
    (''chainId'', JNum (pr_chainId x)), (''deploymentId'', JStr (pr_deploymentId x)),
    (''networkLabel'', JStr (pr_networkLabel x)), (''tokenMetadata'', js_opt_str (pr_tokenMetadata x)),
    (''protocolExclusionSlots'', JBig (pr_protocolExclusionSlots x)),
    (''protocolExclusionsRemaining'', JBig (pr_protocolExclusionsRemaining x)),
    (''protocolExcludedStores'', JArr (map (\<lambda>(k, v). JArr [JStr k, JStr v]) (pr_protocolExcludedStores x))),
    (''registeredWallets'', JArr (map (\<lambda>(k, v). JArr [JStr k, JStr v]) (pr_registeredWallets x))),
    (''registeredWalletCount'', JBig (pr_registeredWalletCount x)),
    (''automaticMaterialization'', JBool (pr_automaticMaterialization x)), (''feeBps'', JBig (pr_feeBps x)),
    (''currentIndex'', JBig (pr_currentIndex x)), (''indexRemainder'', JBig (pr_indexRemainder x)),
    (''eligibleSupply'', JBig (pr_eligibleSupply x)), (''aggregateCorrection'', JBig (pr_aggregateCorrection x)),
    (''unallocatedFees'', JBig (pr_unallocatedFees x)), (''roundingReserve'', JBig (pr_roundingReserve x)),
    (''rewardVault'', js_opt_str (pr_rewardVault x)), (''distributionVault'', js_opt_str (pr_distributionVault x)),
    (''mockUsdPoolReserve'', js_opt_str (pr_mockUsdPoolReserve x)),
    (''rewardVaultCredits'', JBig (pr_rewardVaultCredits x)),
    (''rewardVaultPayouts'', JBig (pr_rewardVaultPayouts x)), (''lifetimeSwapFees'', JBig (pr_lifetimeSwapFees x)),
    (''lifetimeMaterialized'', JBig (pr_lifetimeMaterialized x)),
    (''lifetimeCustodyRouted'', JBig (pr_lifetimeCustodyRouted x)), (''packageVersion'', JStr (pr_packageVersion x)),
    (''swapsPaused'', JBool (pr_swapsPaused x)), (''claimsPaused'', JBool (pr_claimsPaused x)),
    (''faucetPaused'', JBool (pr_faucetPaused x)), (''faucetTrflGrant'', JBig (pr_faucetTrflGrant x)),
    (''faucetTusdGrant'', JBig (pr_faucetTusdGrant x)),
    (''faucetCooldownSeconds'', JBig (pr_faucetCooldownSeconds x)),
    (''operationalAdmins'', serialise_admins (pr_operationalAdmins x)),
    (''deploymentReady'', JBool (pr_deploymentReady x)), (''pool'', serialise_pool (pr_pool x)),
    (''custody'', serialise_custody (pr_custody x)), (''activeLpEpoch'', js_opt_big (pr_activeLpEpoch x)),
    (''lpEpochs'', JArr (map serialise_epoch (map_values (pr_lpEpochs x)))),
    (''rewardVaultToEpoch'', JArr (map (\<lambda>(k, v). JArr [JStr k, JBig v]) (pr_rewardVaultToEpoch x))),
    (''stateIdToEpoch'', JArr (map (\<lambda>(k, v). JArr [JStr k, JBig v]) (pr_stateIdToEpoch x))),
    (''positions'', JArr (map serialise_position (map_values (pr_positions x)))),
    (''seenEventIds'', JArr (map (\<lambda>(k, v). JArr [JStr k, JStr v]) (pr_seenEventIds x)))]"
  unfolding serialiseProjection_def by (rule fields_of_members) (simp only: list.map fst_conv projection_keys_distinct)

lemma projection_fields [lookup]:
  "js_field (serialiseProjection x) ''chainId'' = Some (JNum (pr_chainId x))"
  "js_field (serialiseProjection x) ''deploymentId'' = Some (JStr (pr_deploymentId x))"
  "js_field (serialiseProjection x) ''networkLabel'' = Some (JStr (pr_networkLabel x))"
  "js_field (serialiseProjection x) ''tokenMetadata'' = Some (js_opt_str (pr_tokenMetadata x))"
  "js_field (serialiseProjection x) ''protocolExclusionSlots'' = Some (JBig (pr_protocolExclusionSlots x))"
  "js_field (serialiseProjection x) ''protocolExclusionsRemaining'' = Some (JBig (pr_protocolExclusionsRemaining x))"
  "js_field (serialiseProjection x) ''protocolExcludedStores'' = Some (JArr (map (\<lambda>(k, v). JArr [JStr k, JStr v]) (pr_protocolExcludedStores x)))"
  "js_field (serialiseProjection x) ''registeredWallets'' = Some (JArr (map (\<lambda>(k, v). JArr [JStr k, JStr v]) (pr_registeredWallets x)))"
  "js_field (serialiseProjection x) ''registeredWalletCount'' = Some (JBig (pr_registeredWalletCount x))"
  "js_field (serialiseProjection x) ''automaticMaterialization'' = Some (JBool (pr_automaticMaterialization x))"
  "js_field (serialiseProjection x) ''feeBps'' = Some (JBig (pr_feeBps x))"
  "js_field (serialiseProjection x) ''currentIndex'' = Some (JBig (pr_currentIndex x))"
  "js_field (serialiseProjection x) ''indexRemainder'' = Some (JBig (pr_indexRemainder x))"
  "js_field (serialiseProjection x) ''eligibleSupply'' = Some (JBig (pr_eligibleSupply x))"
  "js_field (serialiseProjection x) ''aggregateCorrection'' = Some (JBig (pr_aggregateCorrection x))"
  "js_field (serialiseProjection x) ''unallocatedFees'' = Some (JBig (pr_unallocatedFees x))"
  "js_field (serialiseProjection x) ''roundingReserve'' = Some (JBig (pr_roundingReserve x))"
  "js_field (serialiseProjection x) ''rewardVault'' = Some (js_opt_str (pr_rewardVault x))"
  "js_field (serialiseProjection x) ''distributionVault'' = Some (js_opt_str (pr_distributionVault x))"
  "js_field (serialiseProjection x) ''mockUsdPoolReserve'' = Some (js_opt_str (pr_mockUsdPoolReserve x))"
  "js_field (serialiseProjection x) ''rewardVaultCredits'' = Some (JBig (pr_rewardVaultCredits x))"
  "js_field (serialiseProjection x) ''rewardVaultPayouts'' = Some (JBig (pr_rewardVaultPayouts x))"
  "js_field (serialiseProjection x) ''lifetimeSwapFees'' = Some (JBig (pr_lifetimeSwapFees x))"
  "js_field (serialiseProjection x) ''lifetimeMaterialized'' = Some (JBig (pr_lifetimeMaterialized x))"
  "js_field (serialiseProjection x) ''lifetimeCustodyRouted'' = Some (JBig (pr_lifetimeCustodyRouted x))"
  "js_field (serialiseProjection x) ''packageVersion'' = Some (JStr (pr_packageVersion x))"
  "js_field (serialiseProjection x) ''swapsPaused'' = Some (JBool (pr_swapsPaused x))"
  "js_field (serialiseProjection x) ''claimsPaused'' = Some (JBool (pr_claimsPaused x))"
  "js_field (serialiseProjection x) ''faucetPaused'' = Some (JBool (pr_faucetPaused x))"
  "js_field (serialiseProjection x) ''faucetTrflGrant'' = Some (JBig (pr_faucetTrflGrant x))"
  "js_field (serialiseProjection x) ''faucetTusdGrant'' = Some (JBig (pr_faucetTusdGrant x))"
  "js_field (serialiseProjection x) ''faucetCooldownSeconds'' = Some (JBig (pr_faucetCooldownSeconds x))"
  "js_field (serialiseProjection x) ''operationalAdmins'' = Some (serialise_admins (pr_operationalAdmins x))"
  "js_field (serialiseProjection x) ''deploymentReady'' = Some (JBool (pr_deploymentReady x))"
  "js_field (serialiseProjection x) ''pool'' = Some (serialise_pool (pr_pool x))"
  "js_field (serialiseProjection x) ''custody'' = Some (serialise_custody (pr_custody x))"
  "js_field (serialiseProjection x) ''activeLpEpoch'' = Some (js_opt_big (pr_activeLpEpoch x))"
  "js_field (serialiseProjection x) ''lpEpochs'' = Some (JArr (map serialise_epoch (map_values (pr_lpEpochs x))))"
  "js_field (serialiseProjection x) ''rewardVaultToEpoch'' = Some (JArr (map (\<lambda>(k, v). JArr [JStr k, JBig v]) (pr_rewardVaultToEpoch x)))"
  "js_field (serialiseProjection x) ''stateIdToEpoch'' = Some (JArr (map (\<lambda>(k, v). JArr [JStr k, JBig v]) (pr_stateIdToEpoch x)))"
  "js_field (serialiseProjection x) ''positions'' = Some (JArr (map serialise_position (map_values (pr_positions x))))"
  "js_field (serialiseProjection x) ''seenEventIds'' = Some (JArr (map (\<lambda>(k, v). JArr [JStr k, JStr v]) (pr_seenEventIds x)))"
  using projection_fields_all [of x] by (simp_all only: list.pred_inject prod.case simp_thms)

lemma projection_lifecycle [lookup]:
  "js_field (serialiseProjection x) ''lifecycle'' = map_option (\<lambda>l. JStr (lifecycle_str l)) (pr_lifecycle x)"
  unfolding serialiseProjection_def by (cases "pr_lifecycle x") (simp_all add: lookup)

lemma parsed_projection_serialise:
  assumes "keyed x"
  shows "parsed_projection (serialiseProjection x) = x"
proof -
  have epochs: "keyed_of ep_epoch parsed_epoch (JArr (map serialise_epoch (map_values (pr_lpEpochs x)))) = pr_lpEpochs x"
    using assms by (intro keyed_of_values) (auto simp: keyed_def keyed_epochs_def list_all_iff intro!: parsed_epoch_serialise)
  show ?thesis
    using assms
    by (intro protocol_projection.equality)
      (simp_all add: parsed_projection_def js_get_def projection_fields projection_lifecycle casts parsed_parts epochs keyed_of_values entries_of_map
        keyed_def option.map_comp o_def option.map_ident)
qed

section \<open>Valid trees are trees of the codec\<close>

lemma unsigned_digits: "isMoveUnsigned n b \<Longrightarrow> codec_tree (JBig n)"
  by (cases b) (auto simp: isMoveUnsigned_def MOVE_U8_MAX_def MOVE_U64_MAX_def MOVE_U128_MAX_def MOVE_U256_MAX_def split: if_splits)

lemma signed_digits: "isMoveSignedU256 n \<Longrightarrow> codec_tree (JBig n)"
  by (auto simp: isMoveSignedU256_def MOVE_U256_MAX_def)

lemmas codec_leaf = unsigned_digits [where b = U64] unsigned_digits [where b = U128] unsigned_digits [where b = U256] signed_digits

declare codec_tree.simps(1) [simp del]

lemma codec_elems_all: "codec_elems vs = list_all codec_tree vs"
  by (induction vs) simp_all

lemma codec_opt:
  "isOptionalMoveUnsigned (Some (js_opt_big v)) U64 \<Longrightarrow> codec_tree (js_opt_big v)"
  "codec_tree (js_opt_str w)"
  by (auto simp: js_opt_big_def js_opt_str_def isOptionalMoveUnsigned_def casts intro: codec_leaf split: option.splits)

lemma codec_position: "isWalletPosition (serialise_position x) \<Longrightarrow> codec_tree (serialise_position x)"
  by (simp add: isWalletPosition_def serialise_position_def lookup casts codec_leaf bigint_key_def)

lemma codec_lp_position: "isLpPosition (serialise_lp_position x) \<Longrightarrow> codec_tree (serialise_lp_position x)"
  by (simp add: isLpPosition_def serialise_lp_position_def lookup casts codec_leaf bigint_key_def)

lemma codec_epoch: 
  assumes "isLpEpoch (serialise_epoch x)"
  shows "codec_tree (serialise_epoch x)"
proof -
  have "codec_tree (js_opt_big (ep_terminalRoundingBaseUnits x))"
    using assms by (cases "ep_terminalRoundingBaseUnits x")
      (simp_all add: isLpEpoch_def serialise_epoch_def lookup casts js_opt_big_def codec_leaf)
  with assms show ?thesis
  by (simp add: isLpEpoch_def serialise_epoch_def lookup casts codec_leaf bigint_key_def
    codec_elems_all list_all_iff codec_lp_position)
qed

lemma codec_pool: "pool_valid (serialise_pool x) \<Longrightarrow> codec_tree (serialise_pool x)"
  by (simp add: pool_valid_def serialise_pool_def lookup casts codec_leaf bigint_key_def)

lemma codec_custody: "custody_valid (serialise_custody x) \<Longrightarrow> codec_tree (serialise_custody x)"
  by (simp add: custody_valid_def serialise_custody_def lookup casts codec_leaf bigint_key_def codec_opt)

lemma codec_admins: "codec_tree (serialise_admins x)"
  by (simp add: serialise_admins_def bigint_key_def codec_opt)

lemma codec_text_entries: "codec_elems (map (\<lambda>(k, v). JArr [JStr k, JStr v]) m)"
  by (induction m) auto

lemma codec_epoch_entries:
  "isAddressEpochEntries (Some (JArr (map (\<lambda>(k, v). JArr [JStr k, JBig v]) m)))
   \<Longrightarrow> codec_elems (map (\<lambda>(k, v). JArr [JStr k, JBig v]) m)"
  by (auto simp: isAddressEpochEntries_def casts codec_elems_all list_all_iff intro!: codec_leaf(1) dest!: bspec)


lemma codec_values:
  "list_all isWalletPosition (map serialise_position ps) \<Longrightarrow> codec_elems (map serialise_position ps)"
  "list_all isLpEpoch (map serialise_epoch es) \<Longrightarrow> codec_elems (map serialise_epoch es)"
  by (auto simp: codec_elems_all list_all_iff codec_position codec_epoch)

lemma codec_collections:
  assumes "collections_valid (serialiseProjection x)"
  shows "codec_elems (map serialise_position (map_values (pr_positions x)))"
    and "codec_elems (map serialise_epoch (map_values (pr_lpEpochs x)))"
    and "codec_elems (map (\<lambda>(k, v). JArr [JStr k, JBig v]) (pr_rewardVaultToEpoch x))"
    and "codec_elems (map (\<lambda>(k, v). JArr [JStr k, JBig v]) (pr_stateIdToEpoch x))"
  using assms unfolding collections_valid_def projection_fields leaf_checks
  by (simp_all only: codec_values codec_epoch_entries option.case prod.case simp_thms)

lemma registered_count: "owners_registered (serialiseProjection x) \<Longrightarrow> isMoveUnsigned (pr_registeredWalletCount x) U64"
  unfolding owners_registered_def projection_fields leaf_checks Let_def by (elim conjE)

lemma codec_scalars:
  assumes "identity_valid (serialiseProjection x)" "isMoveUnsigned (pr_registeredWalletCount x) U64"
    "ledger_valid (serialiseProjection x)" "version_valid (serialiseProjection x)" "active_epoch_valid (serialiseProjection x)"
  shows "list_all (\<lambda>n. codec_tree (JBig n)) [pr_protocolExclusionSlots x, pr_protocolExclusionsRemaining x,
      pr_registeredWalletCount x, pr_feeBps x, pr_currentIndex x, pr_indexRemainder x, pr_eligibleSupply x,
      pr_aggregateCorrection x, pr_unallocatedFees x, pr_roundingReserve x, pr_rewardVaultCredits x,
      pr_rewardVaultPayouts x, pr_lifetimeSwapFees x, pr_lifetimeMaterialized x, pr_lifetimeCustodyRouted x,
      pr_faucetTrflGrant x, pr_faucetTusdGrant x, pr_faucetCooldownSeconds x]"
    and "codec_tree (js_opt_big (pr_activeLpEpoch x))"
  using assms unfolding identity_valid_def ledger_valid_def version_valid_def active_epoch_valid_def
    projection_fields projection_lifecycle leaf_checks Let_def
  by (simp_all add: codec_leaf codec_opt)

lemma codec_projection:
  assumes "isProjection (serialiseProjection x)"
  shows "codec_tree (serialiseProjection x)"
proof -
  have "pool_valid (serialise_pool (pr_pool x))" "custody_valid (serialise_custody (pr_custody x))"
    using assms by (simp_all add: isProjection_def js_get_def projection_fields)
  moreover have "collections_valid (serialiseProjection x)" using assms by (simp add: isProjection_def)
  note codec_collections [OF this]
  moreover have "identity_valid (serialiseProjection x)" "isMoveUnsigned (pr_registeredWalletCount x) U64"
    "ledger_valid (serialiseProjection x)" "version_valid (serialiseProjection x)" "active_epoch_valid (serialiseProjection x)"
    using assms by (simp_all add: isProjection_def registered_count)
  note codec_scalars [OF this]
  ultimately show ?thesis unfolding serialiseProjection_def
    by (cases "pr_lifecycle x") (simp_all add: bigint_key_def codec_opt codec_pool codec_custody codec_admins codec_text_entries)
qed

end
