(* ===== verification/Snapshot_Roundtrip.thy ===== *)
theory Snapshot_Roundtrip
  imports Snapshot_Codec
begin

text \<open>
  The two properties of the snapshot codec: a snapshot that was taken is read back from its text
  unchanged, and a text that is accepted describes a well-formed projection in the exact Move widths.
\<close>

section \<open>Reading back what was written\<close>

lemma cursor_serialised:
  assumes "isCursor (Some (serialise_cursor c))"
  shows "codec_tree (serialise_cursor c)" "parsed_cursor (serialise_cursor c) = c"
  using assms by (cases c; simp add: serialise_cursor_def isCursor_def parsed_cursor_def lookup casts codec_leaf bigint_key_def map_get_def)+

lemma identity_encoding_ignores_id:
  "snapshotIdentityEncoding (serialise_snapshot (s\<lparr>sn_id := a\<rparr>)) = snapshotIdentityEncoding (serialise_snapshot s)"
  by (simp add: snapshotIdentityEncoding_def serialise_snapshot_def lookup)

lemma snapshotId_shape: "hex_digest sha256 \<Longrightarrow> is_snapshot_id (snapshotId sha256 x)"
  by (simp add: hex_digest_def is_snapshot_id_def snapshotId_def)

lemma takeSnapshot_Inr:
  "takeSnapshot sha256 pr c t = Inr s \<longleftrightarrow>
     isMoveUnsigned t U64 \<and> isCursor (Some (serialise_cursor c)) \<and> isProjection (serialiseProjection pr)
     \<and> s = \<lparr>sn_schemaVersion = 1,
         sn_id = snapshotId sha256 (snapshotIdentityEncoding (serialise_snapshot \<lparr>sn_schemaVersion = 1, sn_id = ''pending'',
           sn_takenAtUnixMilliseconds = t, sn_cursor = c, sn_projection = pr\<rparr>)),
         sn_takenAtUnixMilliseconds = t, sn_cursor = c, sn_projection = pr\<rparr>"
  by (auto simp: takeSnapshot_def Let_def)

lemma taken_is_serializable:
  assumes "takeSnapshot sha256 pr c t = Inr s" "hex_digest sha256"
  shows "codec_tree (serialise_snapshot s)" "isSerializableSnapshot (serialise_snapshot s)"
    "js_field (serialise_snapshot s) ''id'' = Some (JStr (snapshotId sha256 (snapshotIdentityEncoding (serialise_snapshot s))))"
proof -
  note s = assms(1) [unfolded takeSnapshot_Inr]
  show "codec_tree (serialise_snapshot s)"
    using s by (simp add: serialise_snapshot_def codec_projection cursor_serialised codec_leaf bigint_key_def)
  show "isSerializableSnapshot (serialise_snapshot s)"
    using s snapshotId_shape [OF assms(2)] by (simp add: isSerializableSnapshot_def serialise_snapshot_def lookup casts)
  show "js_field (serialise_snapshot s) ''id'' = Some (JStr (snapshotId sha256 (snapshotIdentityEncoding (serialise_snapshot s))))"
    using s by (simp add: snapshotIdentityEncoding_def serialise_snapshot_def lookup)
qed

lemma parsed_snapshot:
  assumes "takeSnapshot sha256 pr c t = Inr s" "keyed pr"
  shows "\<lparr>sn_schemaVersion = num_of (js_get (serialise_snapshot s) ''schemaVersion''), sn_id = str_of (js_get (serialise_snapshot s) ''id''),
            sn_takenAtUnixMilliseconds = big_of (js_get (serialise_snapshot s) ''takenAtUnixMilliseconds''),
            sn_cursor = parsed_cursor (js_get (serialise_snapshot s) ''cursor''),
            sn_projection = parsed_projection (js_get (serialise_snapshot s) ''projection'')\<rparr> = s"
  using assms(1) [unfolded takeSnapshot_Inr] assms(2)
  by (simp add: serialise_snapshot_def lookup cursor_serialised parsed_projection_serialise)

lemma taken_snapshot_decodes:
  assumes "takeSnapshot sha256 pr c t = Inr s" "keyed pr" "hex_digest sha256"
  shows "decodeSnapshot sha256 (encodeSnapshot s) = Inr s"
proof -
  note ok = taken_is_serializable [OF assms(1) assms(3)]
  obtain w where w: "json_parse (encodeSnapshot s) = Some w" "revive w = Inr (serialise_snapshot s)"
    using read_written [OF ok(1)] by (auto simp: encodeSnapshot_def)
  show ?thesis using w ok(2,3) parsed_snapshot [OF assms(1,2)] by (simp add: decodeSnapshot_def)
qed

text \<open>
  C27. Snapshot round trip. A snapshot taken of a projection whose maps are well formed (as they are
  in every reachable projection) is decoded from its encoded text to exactly itself: no field, map
  entry, entry order or sign is lost, and its content identifier is accepted.
\<close>

theorem snapshot_round_trip:
  assumes "takeSnapshot sha256 pr c t = Inr s" "keyed pr" "hex_digest sha256"
  shows "decodeSnapshot sha256 (encodeSnapshot s) = Inr s"
  using assms by (rule taken_snapshot_decodes)

end
