(* ===== verification/Checkpoint_Safety.thy ===== *)
theory Checkpoint_Safety
  imports Worker Snapshot_Roundtrip
begin

text \<open>
  What a durable checkpoint certifies, under every schedule of the indexer's methods. The invariant ties
  the authorization of a checkpoint to the projection object it was given for; a segment either leaves
  the projection object alone or replaces it by a new one, so an authorization never outlives it.
\<close>

section \<open>Specification\<close>

text \<open>A projection and cursor that a successful reconciliation with the chain has confirmed.\<close>

definition certified :: "protocol_projection \<Rightarrow> event_cursor \<Rightarrow> bool" where
  "certified pr c = (\<exists>now obs rep. reconcile now pr obs (Some c) = Inr rep \<and> rp_reconciled rep
     \<and> ob_chainId obs = CEDRA_TESTNET_CHAIN_ID \<and> pr_deploymentReady pr \<and> authoritiesComplete pr)"

text \<open>A checkpoint to trust: taken of a replayed projection that was certified at the checkpoint's cursor.\<close>

definition trusted_snapshot :: "(string \<Rightarrow> string) \<Rightarrow> indexer_snapshot \<Rightarrow> bool" where
  "trusted_snapshot sha256 s = (\<exists>c t. sn_cursor s = Some c \<and> takeSnapshot sha256 (sn_projection s) (Some c) t = Inr s
     \<and> reachable (sn_projection s) \<and> certified (sn_projection s) c)"

section \<open>Invariant\<close>

definition indexer_inv :: "(string \<Rightarrow> string) \<Rightarrow> 'st store_ops \<Rightarrow> ('st \<Rightarrow> bool) \<Rightarrow> 'st event_indexer \<Rightarrow> bool" where
  "indexer_inv sha256 ops ok w = (ok (ei_store w) \<and> reachable (ei_projection w) \<and> ei_projectionObject w < ei_objects w
     \<and> (\<forall>obj. ei_reconciledProjection w = Some obj \<longrightarrow> obj < ei_objects w)
     \<and> (\<forall>c. ei_reconciledProjection w = Some (ei_projectionObject w) \<and> ei_reconciledCursor w = Some c \<longrightarrow> certified (ei_projection w) c)
     \<and> (\<forall>s. so_loadLatestSnapshot ops (ei_store w) = Inr (Some s) \<longrightarrow> trusted_snapshot sha256 s))"

text \<open>The projection object is kept with its value, or a newer object takes its place.\<close>

definition evolves :: "'st event_indexer \<Rightarrow> 'st event_indexer \<Rightarrow> bool" where
  "evolves w w' = (ei_objects w \<le> ei_objects w'
     \<and> (ei_projectionObject w' < ei_objects w \<longrightarrow> ei_projectionObject w' = ei_projectionObject w \<and> ei_projection w' = ei_projection w))"

interpretation schedule: guarantee evolves "indexer_inv sha256 ops ok" for sha256 ops ok
proof unfold_locales
  show "evolves s s" for s :: "'a event_indexer" by (simp add: evolves_def)
  show "evolves s u" if "evolves s t" "evolves t u" for s t u :: "'a event_indexer"
    using that by (auto simp: evolves_def)
qed

text \<open>Changes that keep the projection, the authorization and the loaded snapshot.\<close>

lemma owner_steps [simp]:
  "evolves w (w\<lparr>ei_activeStateOwner := x\<rparr>)" "indexer_inv sha256 ops ok (w\<lparr>ei_activeStateOwner := x\<rparr>) = indexer_inv sha256 ops ok w"
  "evolves w (w\<lparr>ei_durableBaseSnapshotId := b\<rparr>)" "indexer_inv sha256 ops ok (w\<lparr>ei_durableBaseSnapshotId := b\<rparr>) = indexer_inv sha256 ops ok w"
  "evolves w (w\<lparr>ei_cycleMethodActive := a\<rparr>)" "indexer_inv sha256 ops ok (w\<lparr>ei_cycleMethodActive := a\<rparr>) = indexer_inv sha256 ops ok w"
  "evolves w (w\<lparr>ei_cycleMethodFailures := es\<rparr>)" "indexer_inv sha256 ops ok (w\<lparr>ei_cycleMethodFailures := es\<rparr>) = indexer_inv sha256 ops ok w"
  "evolves w (w\<lparr>ei_cycleMethodActive := a, ei_cycleMethodFailures := es\<rparr>)"
  "evolves w w" "evolves w (w\<lparr>ei_store := st\<rparr>)"
  by (simp_all add: evolves_def indexer_inv_def)

lemma new_owner_step [simp]:
  "evolves w (w\<lparr>ei_activeStateOwner := x, ei_objects := Suc (ei_objects w)\<rparr>)"
  "indexer_inv sha256 ops ok w \<Longrightarrow> indexer_inv sha256 ops ok (w\<lparr>ei_activeStateOwner := x, ei_objects := Suc (ei_objects w)\<rparr>)"
  by (auto simp: evolves_def indexer_inv_def)

lemma store_step:
  "indexer_inv sha256 ops ok w \<Longrightarrow> so_loadLatestSnapshot ops st = so_loadLatestSnapshot ops (ei_store w)
   \<Longrightarrow> ok st \<Longrightarrow> indexer_inv sha256 ops ok (w\<lparr>ei_store := st\<rparr>)"
  by (simp add: indexer_inv_def)

lemma save_step:
  "indexer_inv sha256 ops ok w \<Longrightarrow> so_loadLatestSnapshot ops st = Inr (Some s) \<Longrightarrow> trusted_snapshot sha256 s
   \<Longrightarrow> ok st \<Longrightarrow> indexer_inv sha256 ops ok (w\<lparr>ei_store := st\<rparr>)"
  by (simp add: indexer_inv_def)

lemma invalidate_step:
  assumes "indexer_inv sha256 ops ok w"
  shows "evolves w (invalidateReconciliation w)" "indexer_inv sha256 ops ok (invalidateReconciliation w)"
  using assms by (auto simp: indexer_inv_def evolves_def invalidateReconciliation_def)

lemma setProjection_step:
  assumes "indexer_inv sha256 ops ok w" "reachable pr"
  shows "evolves w ((setProjection pr w)\<lparr>ei_cursor := c, ei_durableBaseSnapshotId := b\<rparr>)"
    "indexer_inv sha256 ops ok ((setProjection pr w)\<lparr>ei_cursor := c, ei_durableBaseSnapshotId := b\<rparr>)"
  using assms by (auto simp: indexer_inv_def evolves_def setProjection_def)

lemma setProjection_cursor_step:
  assumes "indexer_inv sha256 ops ok w" "reachable pr"
  shows "evolves w ((setProjection pr w)\<lparr>ei_cursor := c\<rparr>)" "indexer_inv sha256 ops ok ((setProjection pr w)\<lparr>ei_cursor := c\<rparr>)"
  using assms by (auto simp: indexer_inv_def evolves_def setProjection_def)

section \<open>Pages and checkpoints\<close>

lemma commits_reachable: "commits st gs st' \<Longrightarrow> reachable (iv_projection st) \<Longrightarrow> reachable (iv_projection st')"
proof (induction st gs st' rule: commits.induct)
  case (2 st g gs st')
  then obtain r where r: "reduceEventGroup (iv_projection st) g = Inr r"
    "commits \<lparr>iv_projection = rd_projection r, iv_cursor = Some (eventCursor (last g))\<rparr> gs st'"
    by (auto split: sum.splits)
  with 2 reachable_group [OF 2(3) r(1)] show ?case by simp
qed simp

lemma process_page_reachable:
  assumes "process_page st events = Inr (st', res)" "reachable (iv_projection st)"
  shows "reachable (iv_projection st')"
  using assms run_groups_spec by (auto simp: process_page_Inr dest!: run_groups_spec intro: commits_reachable)

lemma compareCursor_eq: "compareCursor a b = 0 \<longleftrightarrow> a = b"
  by (cases a; cases b) (auto simp: compareCursor_def)

lemma authorizedSnapshot_trusted:
  assumes "indexer_inv sha256 ops ok w" "authorizedSnapshot sha256 takenAt w = Inr s"
  shows "trusted_snapshot sha256 s"
proof -
  obtain c where c: "ei_cursor w = Some c" "ei_reconciledProjection w = Some (ei_projectionObject w)"
      "ei_reconciledCursor w = Some c" and s: "takeSnapshot sha256 (ei_projection w) (Some c) takenAt = Inr s"
    using assms(2) by (auto simp: authorizedSnapshot_def Let_def result_simps compareCursor_eq split: if_splits option.splits)
  then have "certified (ei_projection w) c" "reachable (ei_projection w)" using assms(1) by (auto simp: indexer_inv_def)
  moreover have "sn_projection s = ei_projection w" "sn_cursor s = Some c" using s by (simp_all add: takeSnapshot_Inr)
  ultimately show ?thesis using s by (auto simp: trusted_snapshot_def)
qed

lemma trusted_decodes:
  assumes "trusted_snapshot sha256 s" "hex_digest sha256"
  shows "decodeSnapshot sha256 (encodeSnapshot s) = Inr s"
  using assms taken_snapshot_decodes keyed_group.reachable_keeps by (auto simp: trusted_snapshot_def)

lemma authorize_step:
  assumes "indexer_inv sha256 ops ok t" "reconcile now projection observed (Some cursor) = Inr report"
    "ei_projectionObject t = object \<Longrightarrow> ei_projection t = projection"
    "authorizeCheckpoint sha256 projection object cursor stateIdentity observed report t = Inr t'"
  shows "evolves t t' \<and> indexer_inv sha256 ops ok t'"
proof (cases "t' = t")
  case False
  then have ok: "rp_reconciled report" "ob_chainId observed = CEDRA_TESTNET_CHAIN_ID" "pr_deploymentReady projection"
      "authoritiesComplete projection" "ei_projectionObject t = object"
    and t': "t' = t\<lparr>ei_reconciledProjection := Some object, ei_reconciledCursor := Some cursor, ei_reconciledStateIdentity := Some stateIdentity\<rparr>"
    using assms(4) by (auto simp: authorizeCheckpoint_def result_simps split: if_splits option.splits)
  then have "certified (ei_projection t) cursor" using assms(2,3) by (auto simp: certified_def)
  with assms(1) ok(5) show ?thesis by (auto simp: t' indexer_inv_def evolves_def)
qed (use assms in simp)

section \<open>Every segment of every method is guarded\<close>

context indexer_store
begin

text \<open>The steps of the store under the invariant.\<close>

lemma inv_ok: "indexer_inv sha256 ops ok w \<Longrightarrow> ok (ei_store w)"
  by (simp add: indexer_inv_def)

lemma acquire_step:
  "indexer_inv sha256 ops ok w \<Longrightarrow> so_acquire ops (ei_store w) = Inr (lease, st) \<Longrightarrow> indexer_inv sha256 ops ok (w\<lparr>ei_store := st\<rparr>)"
  by (rule store_step) (blast intro: acquire_keeps acquire_ok inv_ok)+

lemma release_step:
  "indexer_inv sha256 ops ok w \<Longrightarrow> indexer_inv sha256 ops ok (w\<lparr>ei_store := so_release ops (ei_store w)\<rparr>)"
  by (rule store_step) (blast intro: release_keeps release_ok inv_ok)+

lemma append_step:
  "indexer_inv sha256 ops ok w \<Longrightarrow> so_appendAlerts ops alerts lease (ei_store w) = Inr st
   \<Longrightarrow> indexer_inv sha256 ops ok (w\<lparr>ei_store := st\<rparr>)"
  by (rule store_step) (blast intro: append_keeps append_ok inv_ok)+

abbreviation guarded :: "('st event_indexer, 'a) proc \<Rightarrow> 'st event_indexer \<Rightarrow> bool" where
  "guarded p \<equiv> guards evolves (indexer_inv sha256 ops ok) p (\<lambda>_ _. True)"

lemma guarded_segment:
  assumes "\<And>t t' p. evolves s t \<Longrightarrow> indexer_inv sha256 ops ok t \<Longrightarrow> f t = Inr (t', p)
    \<Longrightarrow> (evolves t t' \<and> indexer_inv sha256 ops ok t') \<and> guarded p t'"
  shows "guarded (segment f) s"
proof (rule guards_segment)
  fix t t' p
  assume "evolves s t" "indexer_inv sha256 ops ok t" "f t = Inr (t', p)"
  from assms [OF this] show "evolves t t' \<and> indexer_inv sha256 ops ok t' \<and> guarded p t'" by simp
qed simp

lemma guarded_Settled: "guarded (Settled r) s"
  by simp

lemma guarded_pbind:
  "guarded p s \<Longrightarrow> (\<And>x t. evolves s t \<Longrightarrow> guarded (k x) t) \<Longrightarrow> guarded (pbind p k) s"
  by (rule schedule.guards_pbind [where R = "\<lambda>_ _. True"]) auto

lemma guarded_pfinally:
  assumes "guarded p s" "\<And>r t. indexer_inv sha256 ops ok t \<Longrightarrow> evolves t (fin r t) \<and> indexer_inv sha256 ops ok (fin r t)"
  shows "guarded (pfinally p fin) s"
  using assms by (intro schedule.guards_pfinally) auto

lemma guarded_withStateOwner:
  assumes "\<And>owner t. guarded (operation owner) t"
  shows "guarded (withStateOwner operation) s"
  unfolding withStateOwner_def
  by (rule guarded_segment) (auto simp: Let_def releaseStateOwner_def split: if_splits intro!: guarded_pfinally assms)

lemma guarded_withExclusiveWriter:
  assumes "\<And>lease t. evolves s t \<Longrightarrow> guarded (operation lease) t"
  shows "guarded (withExclusiveWriter ops operation) s"
  unfolding withExclusiveWriter_def
proof (rule guarded_segment)
  fix t t' p
  assume t: "evolves s t" "indexer_inv sha256 ops ok t"
    and "rbind (so_acquire ops (ei_store t)) (\<lambda>(lease, st). Inr (t\<lparr>ei_store := st\<rparr>,
      pfinally (operation lease) (\<lambda>_ w. w\<lparr>ei_store := so_release ops (ei_store w)\<rparr>))) = Inr (t', p)"
  then obtain lease st where got: "so_acquire ops (ei_store t) = Inr (lease, st)" and t': "t' = t\<lparr>ei_store := st\<rparr>"
    and p: "p = pfinally (operation lease) (\<lambda>_ w. w\<lparr>ei_store := so_release ops (ei_store w)\<rparr>)"
    by (auto simp: result_simps)
  have step: "evolves t t' \<and> indexer_inv sha256 ops ok t'"
    using acquire_step [OF t(2) got] by (simp add: t')
  moreover have "guarded p t'" unfolding p
    using assms schedule.chains [OF t(1)] step by (intro guarded_pfinally) (auto intro: release_step)
  ultimately show "(evolves t t' \<and> indexer_inv sha256 ops ok t') \<and> guarded p t'" by simp
qed

lemma guarded_withStoreWriter:
  assumes "\<And>lease t. evolves s t \<Longrightarrow> guarded (operation lease) t"
  shows "guarded (withStoreWriter ops writerLease operation) s"
  using assms guarded_withExclusiveWriter [of s operation] schedule.stays [of s]
  by (auto simp: withStoreWriter_def split: option.splits)

lemma guarded_persistAlerts: "guarded (persistAlerts ops alerts writerLease) s"
proof -
  have "guarded (segment (\<lambda>w. rbind (so_appendAlerts ops alerts lease (ei_store w))
      (\<lambda>st. Inr (w\<lparr>ei_store := st\<rparr>, Settled (Inr ()))))) t" for lease t
    by (rule guarded_segment) (auto simp: result_simps intro!: append_step)
  then show ?thesis by (simp add: persistAlerts_def guarded_withStoreWriter)
qed

lemma guarded_adoptSnapshot:
  assumes "hex_digest sha256" "\<And>s. loaded = Some s \<Longrightarrow> trusted_snapshot sha256 s"
  shows "guarded (adoptSnapshot sha256 owner loaded) s"
  unfolding adoptSnapshot_def
proof (rule guarded_segment)
  fix t t' :: "'st event_indexer" and p :: "('st event_indexer, indexer_snapshot option) proc"
  assume t: "indexer_inv sha256 ops ok t" and run: "rbind (assertStateOwner owner t) (\<lambda>_. case loaded of
       None \<Rightarrow> Inr ((setProjection createEmptyProjection t)\<lparr>ei_cursor := None, ei_durableBaseSnapshotId := Some None\<rparr>,
         Settled (Inr None))
     | Some l \<Rightarrow> rbind (decodeSnapshot sha256 (encodeSnapshot l)) (\<lambda>s.
         Inr ((setProjection (sn_projection s) t)\<lparr>ei_cursor := sn_cursor s, ei_durableBaseSnapshotId := Some (Some (sn_id s))\<rparr>,
           Settled (Inr (Some s))))) = Inr (t', p)"
  show "(evolves t t' \<and> indexer_inv sha256 ops ok t') \<and> guarded p t'"
  proof (cases loaded)
    case None
    with run have "t' = (setProjection createEmptyProjection t)\<lparr>ei_cursor := None, ei_durableBaseSnapshotId := Some None\<rparr>"
      "p = Settled (Inr None)" by (auto simp: result_simps)
    with setProjection_step [OF t reachable_empty] show ?thesis by simp
  next
    case (Some l)
    then have l: "trusted_snapshot sha256 l" by (rule assms(2))
    with run trusted_decodes [OF l assms(1)] Some have
      "t' = (setProjection (sn_projection l) t)\<lparr>ei_cursor := sn_cursor l, ei_durableBaseSnapshotId := Some (Some (sn_id l))\<rparr>"
      "p = Settled (Inr (Some l))" by (auto simp: result_simps)
    moreover have "reachable (sn_projection l)" using l by (auto simp: trusted_snapshot_def)
    ultimately show ?thesis using setProjection_step [OF t] by simp
  qed
qed

lemma guarded_restore:
  assumes "hex_digest sha256"
  shows "guarded (restoreLatestSnapshotOwned sha256 ops owner) s"
  unfolding restoreLatestSnapshotOwned_def
proof (rule guarded_segment)
  fix t t' :: "'st event_indexer" and p :: "('st event_indexer, indexer_snapshot option) proc"
  assume t: "indexer_inv sha256 ops ok t" and run: "rbind (assertStateOwner owner t) (\<lambda>_.
     let w1 = invalidateReconciliation t in
     Inr (w1, case so_loadLatestSnapshot ops (ei_store w1) of
         Inl e \<Rightarrow> Settled (Inl e) | Inr loaded \<Rightarrow> adoptSnapshot sha256 owner loaded)) = Inr (t', p)"
  then have t': "t' = invalidateReconciliation t" and p: "p = (case so_loadLatestSnapshot ops (ei_store t') of
         Inl e \<Rightarrow> Settled (Inl e) | Inr loaded \<Rightarrow> adoptSnapshot sha256 owner loaded)"
    by (auto simp: result_simps Let_def)
  note step = invalidate_step [OF t, folded t']
  have "trusted_snapshot sha256 s" if "so_loadLatestSnapshot ops (ei_store t') = Inr (Some s)" for s
    using that step(2) by (simp add: indexer_inv_def)
  then have "guarded p t'" unfolding p by (auto split: sum.splits intro!: guarded_adoptSnapshot assms)
  with step show "(evolves t t' \<and> indexer_inv sha256 ops ok t') \<and> guarded p t'" by simp
qed

lemma guarded_reassertOwner: "guarded (reassertOwner owner v) s"
  unfolding reassertOwner_def by (rule guarded_segment) (auto simp: result_simps)

lemma guarded_processOwned: "guarded (processOwned ops events owner writerLease) s"
  unfolding processOwned_def
proof (rule guarded_segment)
  fix t t' :: "'st event_indexer" and p
  let ?w1 = "invalidateReconciliation t"
  assume t: "indexer_inv sha256 ops ok t" and "rbind (assertStateOwner owner t) (\<lambda>_.
     let w1 = invalidateReconciliation t in
     rbind (process_page \<lparr>iv_projection = ei_projection w1, iv_cursor = ei_cursor w1\<rparr> events) (\<lambda>(view, res).
     let w2 = (if ps_processedEvents res = 0 then w1 else (setProjection (iv_projection view) w1)\<lparr>ei_cursor := iv_cursor view\<rparr>) in
     Inr (w2, if ps_alerts res = [] then Settled (Inr res)
       else pbind (persistAlerts ops (ps_alerts res) writerLease) (\<lambda>_.
         reassertOwner owner (\<lambda>w. res\<lparr>ps_cursor := ei_cursor w\<rparr>))))) = Inr (t', p)"
  then obtain view res where page: "process_page \<lparr>iv_projection = ei_projection ?w1, iv_cursor = ei_cursor ?w1\<rparr> events = Inr (view, res)"
    and t': "t' = (if ps_processedEvents res = 0 then ?w1 else (setProjection (iv_projection view) ?w1)\<lparr>ei_cursor := iv_cursor view\<rparr>)"
    and p: "p = (if ps_alerts res = [] then Settled (Inr res)
       else pbind (persistAlerts ops (ps_alerts res) writerLease) (\<lambda>_. reassertOwner owner (\<lambda>w. res\<lparr>ps_cursor := ei_cursor w\<rparr>)))"
    by (auto simp: result_simps Let_def)
  note w1 = invalidate_step [OF t]
  have "reachable (iv_projection view)" using process_page_reachable [OF page] w1(2) by (simp add: indexer_inv_def)
  then have "evolves ?w1 t'" "indexer_inv sha256 ops ok t'"
    using w1(2) setProjection_cursor_step [OF w1(2)] by (simp_all add: t')
  then have "evolves t t' \<and> indexer_inv sha256 ops ok t'" using schedule.chains [OF w1(1)] by simp
  moreover have "guarded p t'" unfolding p by (simp add: guarded_pbind guarded_persistAlerts guarded_reassertOwner)
  ultimately show "(evolves t t' \<and> indexer_inv sha256 ops ok t') \<and> guarded p t'" by simp
qed

lemma guarded_pollOnceOwned: "guarded (pollOnceOwned ops src limit owner writerLease) s"
  unfolding pollOnceOwned_def
  by (rule guarded_segment)
    (auto simp: result_simps split: if_splits sum.split intro!: guarded_segment guarded_processOwned)

lemma storeSnapshot_step:
  assumes "indexer_inv sha256 ops ok t" "storeSnapshot ops owner s lease base t = Inr (t', p)"
    "trusted_snapshot sha256 s" "hex_digest sha256"
  shows "(evolves t t' \<and> indexer_inv sha256 ops ok t') \<and> guarded p t'"
proof -
  obtain st where st: "so_saveSnapshot ops s lease base (ei_store t) = Inr st" "t' = t\<lparr>ei_store := st\<rparr>"
    and p: "p = segment (\<lambda>w. rbind (assertStateOwner owner w) (\<lambda>_.
       Inr (w\<lparr>ei_durableBaseSnapshotId := Some (Some (sn_id s))\<rparr>, Settled (Inr s))))"
    using assms(2) by (auto simp: storeSnapshot_def result_simps)
  have "so_loadLatestSnapshot ops st = Inr (Some s)" using save_stores [OF inv_ok [OF assms(1)] st(1) assms(4) trusted_decodes [OF assms(3,4)]] .
  moreover have "ok st" using save_ok [OF inv_ok [OF assms(1)] st(1)] .
  ultimately have "evolves t t' \<and> indexer_inv sha256 ops ok t'" using save_step [OF assms(1) _ assms(3)] by (simp add: st(2))
  moreover have "guarded p t'" unfolding p by (rule guarded_segment) (auto simp: result_simps)
  ultimately show ?thesis by simp
qed

lemma guarded_saveUnderLease:
  assumes "trusted_snapshot sha256 s" "hex_digest sha256"
  shows "guarded (saveUnderLease ops owner s lease) w0"
proof -
  have first: "(evolves t t' \<and> indexer_inv sha256 ops ok t') \<and> guarded p t'"
    if t: "indexer_inv sha256 ops ok t" and run: "(case storeSnapshot ops owner s lease None (t\<lparr>ei_durableBaseSnapshotId := Some None\<rparr>) of
        Inl e \<Rightarrow> Inr (t\<lparr>ei_durableBaseSnapshotId := Some None\<rparr>, Settled (Inl e)) | Inr continued \<Rightarrow> Inr continued) = Inr (t', p)" for t t' p
  proof -
    let ?t = "t\<lparr>ei_durableBaseSnapshotId := Some None\<rparr>"
    have inv: "indexer_inv sha256 ops ok ?t" using t by simp
    show ?thesis
    proof (cases "storeSnapshot ops owner s lease None ?t")
      case (Inl e)
      with run inv show ?thesis by auto
    next
      case (Inr c)
      with run have "storeSnapshot ops owner s lease None ?t = Inr (t', p)" by simp
      from storeSnapshot_step [OF inv this assms] show ?thesis
        using schedule.chains [of t ?t t'] by simp
    qed
  qed
  show ?thesis unfolding saveUnderLease_def
    by (rule guarded_segment)
      (auto simp: result_simps Let_def split: option.splits if_splits
        dest: storeSnapshot_step [OF _ _ assms] intro!: guarded_segment first)
qed

lemma guarded_snapshotOwned:
  assumes "hex_digest sha256"
  shows "guarded (snapshotOwned sha256 ops takenAt owner writerLease) s"
  unfolding snapshotOwned_def
  by (rule guarded_segment)
    (auto simp: result_simps intro!: guarded_withStoreWriter guarded_saveUnderLease assms dest: authorizedSnapshot_trusted)

lemma guarded_compareViews:
  assumes "object < ei_objects s" "ei_projectionObject s = object \<Longrightarrow> ei_projection s = projection"
  shows "guarded (compareViews sha256 ops now owner writerLease projection object cursor stateIdentity observed) s"
proof -
  have held: "ei_projection t = projection" if "evolves s t" "ei_projectionObject t = object" for t
    using that assms by (auto simp: evolves_def)
  have final: "guarded (segment (\<lambda>w. rbind (if rp_alerts report = [] then Inr () else assertStateOwner owner w) (\<lambda>_.
       rbind (authorizeCheckpoint sha256 projection object cursor stateIdentity observed report w) (\<lambda>w'.
       Inr (w', Settled (Inr report)))))) t"
    if t: "evolves s t" and rep: "reconcile now projection observed (Some cursor) = Inr report" for t report
    by (rule guarded_segment) (auto simp: result_simps split: if_splits
      dest: authorize_step [OF _ rep] intro: held schedule.chains [OF t])
  show ?thesis unfolding compareViews_def
    by (rule guarded_segment) (auto simp: result_simps intro!: guarded_pbind guarded_persistAlerts final intro: schedule.chains)
qed

lemma guarded_reconcileOwned: "guarded (reconcileOwned sha256 ops now src owner writerLease) s"
  unfolding reconcileOwned_def
proof (rule guarded_segment)
  fix t t' :: "'st event_indexer" and p :: "('st event_indexer, reconciliation_report) proc"
  assume t: "indexer_inv sha256 ops ok t" and "rbind (assertStateOwner owner t) (\<lambda>_.
     case ei_cursor t of
       None \<Rightarrow> Inl (PlainError ''Cannot reconcile before at least one complete event transaction is indexed.'')
     | Some cursor \<Rightarrow>
       let w1 = invalidateReconciliation t in
       Inr (w1, case checkpointStateIdentity sha256 (ei_projection w1) cursor of
         Inl e \<Rightarrow> Settled (Inl e)
       | Inr stateIdentity \<Rightarrow> pbind (Settled (es_getAccountingSnapshot src (cur_ledgerVersion cursor)))
           (compareViews sha256 ops now owner writerLease (ei_projection w1) (ei_projectionObject w1) cursor stateIdentity))) = Inr (t', p)"
  then obtain cursor where t': "t' = invalidateReconciliation t"
    and p: "p = (case checkpointStateIdentity sha256 (ei_projection t') cursor of
         Inl e \<Rightarrow> Settled (Inl e)
       | Inr stateIdentity \<Rightarrow> pbind (Settled (es_getAccountingSnapshot src (cur_ledgerVersion cursor)))
           (compareViews sha256 ops now owner writerLease (ei_projection t') (ei_projectionObject t') cursor stateIdentity))"
    by (auto simp: result_simps Let_def split: option.splits)
  note step = invalidate_step [OF t, folded t']
  then have "ei_projectionObject t' < ei_objects t'" by (simp add: indexer_inv_def)
  then have "guarded p t'" unfolding p by (auto split: sum.split intro!: guarded_compareViews)
  with step show "(evolves t t' \<and> indexer_inv sha256 ops ok t') \<and> guarded p t'" by simp
qed

lemma guarded_invoke:
  assumes "\<And>t. guarded action t"
  shows "guarded (invoke owner action) s"
proof -
  have "guarded (segment (\<lambda>w. rbind (assertStateOwner owner w) (\<lambda>_.
        if ei_cycleMethodActive w then Inl ConcurrentIndexerOperationError
        else Inr (w\<lparr>ei_cycleMethodActive := True\<rparr>, pfinally action (\<lambda>_ w. w\<lparr>ei_cycleMethodActive := False\<rparr>))))) s"
    by (rule guarded_segment) (auto simp: result_simps split: if_splits intro!: guarded_pfinally assms)
  then show ?thesis unfolding invoke_def by (rule guarded_pfinally) (auto split: sum.split)
qed

lemma guarded_withExclusiveStoreWriter:
  assumes "\<And>owner lease t. guarded (operation owner lease) t"
  shows "guarded (withExclusiveStoreWriter ops operation) s"
proof -
  have report: "guarded (segment (\<lambda>w. case ei_cycleMethodFailures w of [] \<Rightarrow> Inr (w, Settled (Inr x)) | e # _ \<Rightarrow> Inl e)) t" for x t
    by (rule guarded_segment) (auto split: list.split_asm)
  show ?thesis unfolding withExclusiveStoreWriter_def
    by (intro guarded_withExclusiveWriter guarded_withStateOwner guarded_segment) (auto intro!: guarded_pbind assms report)
qed

lemma guarded_if: "guarded p s \<Longrightarrow> guarded q s \<Longrightarrow> guarded (if b then p else q) s"
  by simp

lemma guarded_runOnce:
  assumes "hex_digest sha256"
  shows "guarded (runOnce sha256 ops src deliver now takenAt limit) s"
  unfolding runOnce_def runOnceUnderLease_def
  by (intro guarded_withExclusiveStoreWriter guarded_pbind guarded_invoke guarded_restore guarded_pollOnceOwned
      guarded_Settled guarded_reconcileOwned guarded_snapshotOwned guarded_if assms)

lemmas guarded_methods = guarded_restore guarded_processOwned guarded_pollOnceOwned guarded_reconcileOwned guarded_snapshotOwned

end

end
