(* ===== verification/V02_Immutability.thy ===== *)
theory V02_Immutability
  imports Quiet_Groups
begin

text \<open>
  Immutability of a v0.2 deployment. The v0.2 package has no administrator: its fee, its limits after
  launch, its vault and token identities and its pause flags are fixed, and its lifecycle only moves
  forward. The reducer lets no alert-free group change any of them.
\<close>

text \<open>The lifecycle moves from \<open>CONFIGURING\<close> to \<open>LIVE\<close> to \<open>CLOSED\<close>, and stays where it is otherwise.\<close>

fun lifecycle_leads :: "protocol_lifecycle option \<Rightarrow> protocol_lifecycle option \<Rightarrow> bool" where
  "lifecycle_leads (Some CONFIGURING) b = (b \<noteq> None)"
| "lifecycle_leads (Some LIVE) b = (b = Some LIVE \<or> b = Some CLOSED)"
| "lifecycle_leads (Some CLOSED) b = (b = Some CLOSED)"
| "lifecycle_leads None b = (b = None)"

lemma lifecycle_leads_cases:
  "lifecycle_leads a (Some CONFIGURING) \<longleftrightarrow> a = Some CONFIGURING"
  "lifecycle_leads a (Some LIVE) \<Longrightarrow> lifecycle_leads a (Some CLOSED)"
  "lifecycle_leads a a"
  by (cases "(a, a)" rule: lifecycle_leads.cases; simp)+

definition same_limits :: "indexed_pool \<Rightarrow> indexed_pool \<Rightarrow> bool" where
  "same_limits p q = (po_ammFeeBps q = po_ammFeeBps p \<and> po_maximumGrossSwap q = po_maximumGrossSwap p
     \<and> po_maximumReserveBps q = po_maximumReserveBps p
     \<and> po_maximumRflContribution q = po_maximumRflContribution p
     \<and> po_maximumTusdContribution q = po_maximumTusdContribution p
     \<and> po_maximumNonFinalWithdrawalShareBps q = po_maximumNonFinalWithdrawalShareBps p)"

definition same_flags :: "protocol_projection \<Rightarrow> protocol_projection \<Rightarrow> bool" where
  "same_flags p q = (pr_swapsPaused q = pr_swapsPaused p \<and> pr_claimsPaused q = pr_claimsPaused p
     \<and> pr_faucetPaused q = pr_faucetPaused p
     \<and> po_poolPaused (pr_pool q) = po_poolPaused (pr_pool p)
     \<and> po_liquidityPaused (pr_pool q) = po_liquidityPaused (pr_pool p)
     \<and> po_lpClaimsPaused (pr_pool q) = po_lpClaimsPaused (pr_pool p)
     \<and> (po_shutdownMode (pr_pool q) \<longrightarrow> po_shutdownMode (pr_pool p)))"

definition same_identity :: "protocol_projection \<Rightarrow> protocol_projection \<Rightarrow> bool" where
  "same_identity p q = (pr_packageVersion q = pr_packageVersion p \<and> pr_deploymentId q = pr_deploymentId p
     \<and> pr_networkLabel q = pr_networkLabel p \<and> pr_tokenMetadata q = pr_tokenMetadata p
     \<and> pr_rewardVault q = pr_rewardVault p \<and> pr_distributionVault q = pr_distributionVault p
     \<and> pr_feeBps q = pr_feeBps p \<and> pr_operationalAdmins q = pr_operationalAdmins p)"

definition v02_evolves :: "protocol_projection \<Rightarrow> protocol_projection \<Rightarrow> bool" where
  "v02_evolves p q = (pr_packageVersion p = V02 \<and> same_identity p q \<and> same_flags p q
     \<and> lifecycle_leads (pr_lifecycle p) (pr_lifecycle q)
     \<and> (pr_lifecycle p \<noteq> Some CONFIGURING \<longrightarrow> same_limits (pr_pool p) (pr_pool q)))"

lemmas evolves_defs = v02_evolves_def same_identity_def same_flags_def same_limits_def is_v02_def

lemma walletAdjusted_identity [simp]:
  "pr_deploymentId (walletAdjusted a s d pr) = pr_deploymentId pr"
  "pr_networkLabel (walletAdjusted a s d pr) = pr_networkLabel pr"
  "pr_tokenMetadata (walletAdjusted a s d pr) = pr_tokenMetadata pr"
  "pr_rewardVault (walletAdjusted a s d pr) = pr_rewardVault pr"
  "pr_distributionVault (walletAdjusted a s d pr) = pr_distributionVault pr"
  "pr_swapsPaused (walletAdjusted a s d pr) = pr_swapsPaused pr"
  "pr_claimsPaused (walletAdjusted a s d pr) = pr_claimsPaused pr"
  "pr_faucetPaused (walletAdjusted a s d pr) = pr_faucetPaused pr"
  by (simp_all add: walletAdjusted_def set_position_def Let_def)

text \<open>Updates of the bookkeeping fields do not matter here.\<close>

lemma evolves_frame [simp]:
  "v02_evolves p (walletAdjusted a s d q) \<longleftrightarrow> v02_evolves p q"
  "v02_evolves p (set_position a x q) \<longleftrightarrow> v02_evolves p q"
  "v02_evolves p (updateEpoch ep q) \<longleftrightarrow> v02_evolves p q"
  "v02_evolves p (q\<lparr>pr_protocolExclusionsRemaining := x_protocolExclusionsRemaining\<rparr>) \<longleftrightarrow> v02_evolves p q"
  "v02_evolves p (q\<lparr>pr_protocolExcludedStores := x_protocolExcludedStores\<rparr>) \<longleftrightarrow> v02_evolves p q"
  "v02_evolves p (q\<lparr>pr_registeredWallets := x_registeredWallets\<rparr>) \<longleftrightarrow> v02_evolves p q"
  "v02_evolves p (q\<lparr>pr_registeredWalletCount := x_registeredWalletCount\<rparr>) \<longleftrightarrow> v02_evolves p q"
  "v02_evolves p (q\<lparr>pr_automaticMaterialization := x_automaticMaterialization\<rparr>) \<longleftrightarrow> v02_evolves p q"
  "v02_evolves p (q\<lparr>pr_currentIndex := x_currentIndex\<rparr>) \<longleftrightarrow> v02_evolves p q"
  "v02_evolves p (q\<lparr>pr_indexRemainder := x_indexRemainder\<rparr>) \<longleftrightarrow> v02_evolves p q"
  "v02_evolves p (q\<lparr>pr_eligibleSupply := x_eligibleSupply\<rparr>) \<longleftrightarrow> v02_evolves p q"
  "v02_evolves p (q\<lparr>pr_aggregateCorrection := x_aggregateCorrection\<rparr>) \<longleftrightarrow> v02_evolves p q"
  "v02_evolves p (q\<lparr>pr_unallocatedFees := x_unallocatedFees\<rparr>) \<longleftrightarrow> v02_evolves p q"
  "v02_evolves p (q\<lparr>pr_roundingReserve := x_roundingReserve\<rparr>) \<longleftrightarrow> v02_evolves p q"
  "v02_evolves p (q\<lparr>pr_mockUsdPoolReserve := x_mockUsdPoolReserve\<rparr>) \<longleftrightarrow> v02_evolves p q"
  "v02_evolves p (q\<lparr>pr_rewardVaultCredits := x_rewardVaultCredits\<rparr>) \<longleftrightarrow> v02_evolves p q"
  "v02_evolves p (q\<lparr>pr_rewardVaultPayouts := x_rewardVaultPayouts\<rparr>) \<longleftrightarrow> v02_evolves p q"
  "v02_evolves p (q\<lparr>pr_lifetimeSwapFees := x_lifetimeSwapFees\<rparr>) \<longleftrightarrow> v02_evolves p q"
  "v02_evolves p (q\<lparr>pr_lifetimeMaterialized := x_lifetimeMaterialized\<rparr>) \<longleftrightarrow> v02_evolves p q"
  "v02_evolves p (q\<lparr>pr_lifetimeCustodyRouted := x_lifetimeCustodyRouted\<rparr>) \<longleftrightarrow> v02_evolves p q"
  "v02_evolves p (q\<lparr>pr_faucetTrflGrant := x_faucetTrflGrant\<rparr>) \<longleftrightarrow> v02_evolves p q"
  "v02_evolves p (q\<lparr>pr_faucetTusdGrant := x_faucetTusdGrant\<rparr>) \<longleftrightarrow> v02_evolves p q"
  "v02_evolves p (q\<lparr>pr_faucetCooldownSeconds := x_faucetCooldownSeconds\<rparr>) \<longleftrightarrow> v02_evolves p q"
  "v02_evolves p (q\<lparr>pr_deploymentReady := x_deploymentReady\<rparr>) \<longleftrightarrow> v02_evolves p q"
  "v02_evolves p (q\<lparr>pr_custody := x_custody\<rparr>) \<longleftrightarrow> v02_evolves p q"
  "v02_evolves p (q\<lparr>pr_activeLpEpoch := x_activeLpEpoch\<rparr>) \<longleftrightarrow> v02_evolves p q"
  "v02_evolves p (q\<lparr>pr_rewardVaultToEpoch := x_rewardVaultToEpoch\<rparr>) \<longleftrightarrow> v02_evolves p q"
  "v02_evolves p (q\<lparr>pr_stateIdToEpoch := x_stateIdToEpoch\<rparr>) \<longleftrightarrow> v02_evolves p q"
  "v02_evolves p (q\<lparr>pr_seenEventIds := x_seenEventIds\<rparr>) \<longleftrightarrow> v02_evolves p q"
  by (simp_all add: evolves_defs set_position_def updateEpoch_def)

lemma evolves_pool:
  "v02_evolves p q \<Longrightarrow> same_limits (pr_pool q) pool \<Longrightarrow> po_poolPaused pool = po_poolPaused (pr_pool q) \<Longrightarrow>
   po_liquidityPaused pool = po_liquidityPaused (pr_pool q) \<Longrightarrow> po_lpClaimsPaused pool = po_lpClaimsPaused (pr_pool q) \<Longrightarrow>
   (po_shutdownMode pool \<longrightarrow> po_shutdownMode (pr_pool q)) \<Longrightarrow> v02_evolves p (q\<lparr>pr_pool := pool\<rparr>)"
  by (simp add: evolves_defs)

text \<open>Most handlers cannot touch these fields at all.\<close>

lemma evolves_fee_handlers:
  assumes "v02_evolves p (cx_next ctx)"
  shows "ensures (handle_ReflectionFeeCollected g ctx e f) (\<lambda>c. v02_evolves p (cx_next c))"
    and "ensures (handle_ReflectionIndexAdvanced ctx e ia) (\<lambda>c. v02_evolves p (cx_next c))"
    and "ensures (handle_SwapExecuted ctx e s) (\<lambda>c. v02_evolves p (cx_next c))"
    and "ensures (handle_Liquidity g ctx e kind q) (\<lambda>c. v02_evolves p (cx_next c))"
    and "ensures (materializeWallet ctx e account amount t) (\<lambda>c. v02_evolves p (cx_next c))"
  using assms
  by (auto simp: debitSeller_def handle_ReflectionFeeCollected_def handle_ReflectionIndexAdvanced_def
      handle_SwapExecuted_def handle_Liquidity_def materializeWallet_def ensures_simps Let_def same_limits_def
      split: list.splits liquidity_kind.splits intro!: evolves_pool)

text \<open>The events that set configuration; every other event leaves it alone.\<close>

definition governs :: "event_body \<Rightarrow> bool" where
  "governs b = (case b of
       ProtocolInitialized _ \<Rightarrow> True | TokenCreated _ \<Rightarrow> True | LaunchSealed _ \<Rightarrow> True | PoolClosed _ \<Rightarrow> True
     | FeeConfigurationChanged _ _ \<Rightarrow> True | SwapLimitsChanged _ _ _ \<Rightarrow> True | LiquidityLimitsChanged _ _ _ \<Rightarrow> True
     | PauseStateChanged _ _ \<Rightarrow> True | FaucetPauseChanged _ \<Rightarrow> True | PoolPauseChanged _ \<Rightarrow> True
     | OperationalAdminChanged _ _ _ \<Rightarrow> True | _ \<Rightarrow> False)"

lemma evolves_other_event:
  assumes "v02_evolves p (cx_next ctx)" "\<not> governs (ev_body e)"
  shows "ensures (handle_event g ctx e) (\<lambda>c. v02_evolves p (cx_next c))"
  by (cases "ev_body e") (use assms in \<open>simp_all add: governs_def handle_event_def handle_Unknown_def
    evolves_fee_handlers wallet_handler_defs custody_handler_defs lp_handler_defs ensures_simps Let_def\<close>)

lemma evolves_governing_event:
  assumes "v02_evolves p (cx_next ctx)" "governs (ev_body e)"
  shows "ensures (handle_event g ctx e) (\<lambda>c. cx_alerts c = [] \<longrightarrow> v02_evolves p (cx_next c))"
proof (cases "ev_body e")
  case (LaunchSealed l)
  have "v02_evolves p (cx_next ctx\<lparr>pr_lifecycle := Some LIVE, pr_deploymentReady := True,
      pr_faucetTrflGrant := fa, pr_faucetTusdGrant := fb, pr_faucetCooldownSeconds := fc,
      pr_pool := (pr_pool (cx_next ctx))\<lparr>po_ammFeeBps := a,
      po_maximumReserveBps := b, po_maximumGrossSwap := c, po_maximumRflContribution := d,
      po_maximumTusdContribution := x, po_maximumNonFinalWithdrawalShareBps := y\<rparr>\<rparr>)"
    if "pr_lifecycle (cx_next ctx) = Some CONFIGURING" for fa fb fc a b c d x y
    using assms that by (simp add: evolves_defs lifecycle_leads_cases)
  then show ?thesis by (simp add: LaunchSealed handle_event_def handle_LaunchSealed_def Let_def)
next
  case (PoolClosed c)
  have "v02_evolves p (cx_next ctx\<lparr>pr_lifecycle := Some CLOSED\<rparr>)" if "pr_lifecycle (cx_next ctx) = Some LIVE"
    using assms that by (simp add: evolves_defs lifecycle_leads_cases)
  then show ?thesis by (simp add: PoolClosed handle_event_def handle_PoolClosed_def Let_def)
next
  case (OperationalAdminChanged scope old_a new_a)
  have "is_v02 ctx" using assms by (simp add: evolves_defs)
  then show ?thesis
    by (cases scope) (simp_all add: OperationalAdminChanged handle_event_def handle_OperationalAdminChanged_def Let_def)
next
  case (ProtocolInitialized i)
  show ?thesis
    using assms by (simp add: ProtocolInitialized handle_event_def handle_ProtocolInitialized_def Let_def evolves_defs V02_def)
next
  case (TokenCreated t)
  show ?thesis
    using assms by (simp add: TokenCreated handle_event_def handle_TokenCreated_def Let_def evolves_defs V02_def)
qed (use assms in \<open>simp_all add: governs_def handle_event_def config_handler_defs Let_def evolves_defs\<close>)

interpretation v02: quiet_invariant "\<lambda>c. v02_evolves p (cx_next c)" for p
proof
  fix e :: protocol_event and ctx :: reducer_context and g
  assume inv: "v02_evolves p (cx_next ctx)"
  show "ensures (handle_event g ctx e) (\<lambda>c. cx_alerts c = [] \<longrightarrow> v02_evolves p (cx_next c))"
  proof (cases "governs (ev_body e)")
    case True
    with inv show ?thesis by (rule evolves_governing_event)
  next
    case False
    with inv have "ensures (handle_event g ctx e) (\<lambda>c. v02_evolves p (cx_next c))"
      by (rule evolves_other_event)
    then show ?thesis by (rule ensures_mono) (rule impI)
  qed
qed

lemma evolves_mark_all_seen [simp]: "v02_evolves p (mark_all_seen es q) \<longleftrightarrow> v02_evolves p q"
  by (induction es arbitrary: q) (simp_all add: mark_all_seen_def mark_seen_def)

lemma v02_quiet_group_evolves:
  assumes "reduceEventGroup prior es = Inr r" "rd_alerts r = []" "pr_packageVersion prior = V02"
  shows "v02_evolves prior (rd_projection r)"
proof (cases "es = []")
  case True
  with assms show ?thesis by (auto simp: reduceEventGroup_def evolves_defs lifecycle_leads_cases)
next
  case False
  from assms(1,2) False show ?thesis
  proof (cases rule: quiet_cases)
    case (committed ctx)
    let ?g = "\<lparr>gr_prior = prior, gr_events = sorted_group es\<rparr>"
    let ?I = "\<lambda>c. cx_alerts c = [] \<longrightarrow> v02_evolves prior (cx_next c)"
    have start: "v02_evolves prior prior" using assms(3) by (simp add: evolves_defs lifecycle_leads_cases)
    have "ensures (replay ?g (sorted_group es) (initial_context prior (hd (sorted_group es)) [])) ?I"
      using committed(6) start by (intro v02.replay_keeps) (simp_all add: initial_context_def)
    moreover have "ensures (finishGroup g c) ?I" if "?I c" for g c
    proof -
      have "ensures (finishGroup g c) (\<lambda>d. (cx_alerts d = [] \<longrightarrow> cx_alerts c = []) \<and> (\<exists>u r. cx_next d
          = cx_next c\<lparr>pr_unallocatedFees := u, pr_roundingReserve := r\<rparr>))"
        using finishGroup_ensures [of g c] finishGroup_quiet [of g c]
        by (cases "finishGroup g c") (auto simp: ensures_def)
      then show ?thesis by (rule ensures_mono) (use that in auto)
    qed
    ultimately have "ensures (run_group prior (sorted_group es) []) ?I"
      unfolding run_group_def Let_def ensures_andThen by (auto elim: ensures_mono)
    with committed show ?thesis by simp
  qed
qed


end
