(* ===== verification/Checkpoints.thy ===== *)
theory Checkpoints
  imports Checkpoint_Safety V02_Immutability
begin

text \<open>
  The properties of durable checkpoints: what they certify under every schedule, that a clean cycle of
  the worker ends in one, and that an ownerless v0.2 deployment is never checkpointed.
\<close>

section \<open>The interface of the indexer\<close>

datatype indexer_call =
    Restore_latest
  | Process_events "protocol_event list"
  | Poll_once event_provider int
  | Reconcile_views event_provider int
  | Take_snapshot int
  | Run_once event_provider "critical_alert \<Rightarrow> unit result" int int int

definition ignored :: "('s, 'a) proc \<Rightarrow> ('s, unit) proc" where
  "ignored p = pbind p (\<lambda>_. Settled (Inr ()))"

fun call_proc :: "(string \<Rightarrow> string) \<Rightarrow> 'st store_ops \<Rightarrow> indexer_call \<Rightarrow> ('st event_indexer, unit) proc" where
  "call_proc sha256 ops Restore_latest = ignored (restoreLatestSnapshot sha256 ops)"
| "call_proc sha256 ops (Process_events events) = ignored (process_events ops events)"
| "call_proc sha256 ops (Poll_once src limit) = ignored (pollOnce ops src limit)"
| "call_proc sha256 ops (Reconcile_views src now) = ignored (reconcile_views sha256 ops now src)"
| "call_proc sha256 ops (Take_snapshot takenAt) = ignored (snapshot sha256 ops takenAt)"
| "call_proc sha256 ops (Run_once src deliver now takenAt limit) = ignored (runOnce sha256 ops src deliver now takenAt limit)"

context indexer_store
begin

lemma guarded_call:
  assumes "hex_digest sha256"
  shows "guarded (call_proc sha256 ops c) s"
  by (cases c) (simp_all add: ignored_def restoreLatestSnapshot_def process_events_def pollOnce_def reconcile_views_def snapshot_def
    guarded_pbind guarded_withStateOwner guarded_methods guarded_runOnce assms)

lemma schedules_keep_trust:
  assumes "hex_digest sha256" "ok store" "\<And>s. so_loadLatestSnapshot ops store = Inr (Some s) \<Longrightarrow> trusted_snapshot sha256 s"
    and "interleaved (range (call_proc sha256 ops)) (EventIndexer store) w ps"
  shows "indexer_inv sha256 ops ok w"
proof -
  have "indexer_inv sha256 ops ok (EventIndexer store)"
    using assms(2,3) by (simp add: indexer_inv_def EventIndexer_def reachable_empty)
  with schedule.interleaved_keeps [OF _ this assms(4)] guarded_call [OF assms(1)] show ?thesis by blast
qed

end

text \<open>What a trusted checkpoint is worth, spelled out.\<close>

lemma trusted_means:
  assumes "trusted_snapshot sha256 s" "hex_digest sha256"
  shows "reachable (sn_projection s) \<and> decodeSnapshot sha256 (encodeSnapshot s) = Inr s
    \<and> (\<exists>c now obs rep. sn_cursor s = Some c \<and> reconcile now (sn_projection s) obs (Some c) = Inr rep \<and> rp_reconciled rep
        \<and> ob_chainId obs = CEDRA_TESTNET_CHAIN_ID \<and> ob_ledgerVersion obs = cur_ledgerVersion c
        \<and> chain_agrees (sn_projection s) obs \<and> authoritiesComplete (sn_projection s))"
proof -
  obtain c now obs rep where c: "sn_cursor s = Some c" "reconcile now (sn_projection s) obs (Some c) = Inr rep"
      "rp_reconciled rep" "ob_chainId obs = CEDRA_TESTNET_CHAIN_ID" "authoritiesComplete (sn_projection s)"
    and reach: "reachable (sn_projection s)"
    using assms(1) by (auto simp: trusted_snapshot_def certified_def)
  have "jsmap_ok (pr_registeredWallets (sn_projection s))" using keyed_group.reachable_keeps [OF reach] by (simp add: keyed_def)
  from reconcile_reconciled(1) [OF this c(2)] c(3) have "ob_ledgerVersion obs = cur_ledgerVersion c" "chain_agrees (sn_projection s) obs"
    by simp_all
  with c reach trusted_decodes [OF assms] show ?thesis by blast
qed

text \<open>
  C29. Checkpoints are trustworthy under every schedule. Start an indexer on a store that is empty or
  holds a trusted checkpoint, and run any number of restores, pages, polls, reconciliations, checkpoints
  and worker cycles, interleaved in any way, with any events and any chain views. Whatever snapshot the
  store holds at any moment was taken of a projection that replay reached, whose solvency invariants
  hence hold, and that a reconciliation found in exact agreement with the chain at the snapshot's
  cursor; and it is read back from its text unchanged.
\<close>

theorem checkpoints_are_certified:
  assumes "hex_digest sha256" "\<forall>s. ms_latest store = Some s \<longrightarrow> trusted_snapshot sha256 s"
    and "interleaved (range (call_proc sha256 memory_ops)) (EventIndexer store) w ps" "ms_latest (ei_store w) = Some s"
  shows "reachable (sn_projection s) \<and> decodeSnapshot sha256 (encodeSnapshot s) = Inr s
    \<and> (\<exists>c now obs rep. sn_cursor s = Some c \<and> reconcile now (sn_projection s) obs (Some c) = Inr rep \<and> rp_reconciled rep
        \<and> ob_chainId obs = CEDRA_TESTNET_CHAIN_ID \<and> ob_ledgerVersion obs = cur_ledgerVersion c
        \<and> chain_agrees (sn_projection s) obs \<and> authoritiesComplete (sn_projection s))"
proof -
  have "indexer_inv sha256 memory_ops (\<lambda>_. True) w"
    using memory.schedules_keep_trust [OF assms(1) _ _ assms(3)] assms(2) by (simp add: memory_defs)
  then have "trusted_snapshot sha256 s" using assms(4) by (simp add: indexer_inv_def memory_defs)
  then show ?thesis using assms(1) by (rule trusted_means)
qed

section \<open>Ownerless deployments\<close>

lemma commits_v02:
  "commits st gs st' \<Longrightarrow> pr_packageVersion (iv_projection st) = V02
   \<Longrightarrow> pr_operationalAdmins (iv_projection st') = pr_operationalAdmins (iv_projection st)"
proof (induction st gs st' rule: commits.induct)
  case (2 st g gs st')
  then obtain r where r: "reduceEventGroup (iv_projection st) g = Inr r" "rd_alerts r = []"
    "commits \<lparr>iv_projection = rd_projection r, iv_cursor = Some (eventCursor (last g))\<rparr> gs st'"
    by (auto split: sum.splits)
  from v02_quiet_group_evolves [OF r(1,2)] 2(3) have "pr_packageVersion (rd_projection r) = V02"
    "pr_operationalAdmins (rd_projection r) = pr_operationalAdmins (iv_projection st)"
    by (simp_all add: v02_evolves_def same_identity_def)
  with 2(1) [OF r(1)] r show ?case by simp
qed simp


end
