(* ===== verification/Worker_Progress.thy ===== *)
theory Worker_Progress
  imports Checkpoint_Safety
begin

text \<open>
  Progress of the worker: a cycle that meets no alert ends in a durable checkpoint. Each method is run
  alone on the in-memory store, and the cycle is their composition.
\<close>

section \<open>What the methods do when nothing interferes\<close>

text \<open>The view a restore adopts: the latest snapshot, or an empty projection.\<close>

definition durable_view :: "memory_store \<Rightarrow> indexer_view" where
  "durable_view st = (case ms_latest st of
       None \<Rightarrow> \<lparr>iv_projection = createEmptyProjection, iv_cursor = None\<rparr>
     | Some l \<Rightarrow> \<lparr>iv_projection = sn_projection l, iv_cursor = sn_cursor l\<rparr>)"

lemma run_withExclusiveWriter:
  assumes "\<not> ms_writerActive (ei_store w)"
  shows "run (withExclusiveWriter memory_ops operation) w =
    (case run (operation (ms_issuedLeases (ei_store w))) (w\<lparr>ei_store := (ei_store w)\<lparr>ms_writerActive := True,
        ms_activeLease := Some (ms_issuedLeases (ei_store w)), ms_issuedLeases := Suc (ms_issuedLeases (ei_store w))\<rparr>\<rparr>) of
      (r, w') \<Rightarrow> (r, w'\<lparr>ei_store := memory_release (ei_store w')\<rparr>))"
  using assms by (simp add: withExclusiveWriter_def run_segment run_pfinally memory_ops_def memory_acquire_def Let_def)

lemma run_withStateOwner:
  assumes "ei_activeStateOwner w = None"
  shows "run (withStateOwner operation) w =
    (case run (operation (ei_objects w)) (w\<lparr>ei_activeStateOwner := Some (ei_objects w), ei_objects := Suc (ei_objects w)\<rparr>) of
      (r, w') \<Rightarrow> (r, releaseStateOwner (ei_objects w) w'))"
  using assms by (simp add: withStateOwner_def run_segment run_pfinally Let_def)

lemma run_invoke:
  assumes "ei_activeStateOwner w = Some owner" "\<not> ei_cycleMethodActive w"
    "run action (w\<lparr>ei_cycleMethodActive := True\<rparr>) = (Inr x, w')"
  shows "run (invoke owner action) w = (Inr x, w'\<lparr>ei_cycleMethodActive := False\<rparr>)"
  using assms by (simp add: invoke_def run_segment run_pfinally assertStateOwner_def)

lemma run_restore:
  assumes "ei_activeStateOwner w = Some owner"
    "\<forall>l. ms_latest (ei_store w) = Some l \<longrightarrow> decodeSnapshot sha256 (encodeSnapshot l) = Inr l"
  shows "run (restoreLatestSnapshotOwned sha256 memory_ops owner) w = (Inr (ms_latest (ei_store w)),
    (setProjection (iv_projection (durable_view (ei_store w))) (invalidateReconciliation w))\<lparr>
      ei_cursor := iv_cursor (durable_view (ei_store w)), ei_durableBaseSnapshotId := Some (map_option sn_id (ms_latest (ei_store w)))\<rparr>)"
  using assms
  by (cases "ms_latest (ei_store w)")
    (simp_all add: restoreLatestSnapshotOwned_def adoptSnapshot_def run_segment Let_def assertStateOwner_def memory_ops_def
      memory_loadLatestSnapshot_def durable_view_def invalidateReconciliation_def)

lemma run_poll:
  assumes "ei_activeStateOwner w = Some owner" "1 \<le> limit" "limit \<le> 10000"
    "es_listEvents src (ei_cursor w) limit = Inr page" "pg_chainId page = CEDRA_TESTNET_CHAIN_ID"
    "process_page \<lparr>iv_projection = ei_projection w, iv_cursor = ei_cursor w\<rparr> (pg_events page) = Inr (view, res)"
    "ps_alerts res = []"
  shows "run (pollOnceOwned ops src limit owner writerLease) w = (Inr res,
    if ps_processedEvents res = 0 then invalidateReconciliation w
    else (setProjection (iv_projection view) (invalidateReconciliation w))\<lparr>ei_cursor := iv_cursor view\<rparr>)"
  using assms
  by (simp add: pollOnceOwned_def processOwned_def run_segment Let_def assertStateOwner_def invalidateReconciliation_def)

lemma reconcile_flag: "reconcile now pr obs c = Inr rep \<Longrightarrow> rp_reconciled rep \<Longrightarrow> rp_alerts rep = []"
  by (auto simp: reconcile_def result_simps Let_def split: option.splits if_splits prod.splits)

lemma identity_of_taken:
  assumes "takeSnapshot sha256 pr (Some c) t = Inr s"
  shows "\<exists>i. checkpointStateIdentity sha256 pr c = Inr i"
proof -
  have "isMoveUnsigned 0 U64" by (simp add: isMoveUnsigned_def MOVE_U64_MAX_def)
  with assms show ?thesis by (auto simp: checkpointStateIdentity_def takeSnapshot_def Let_def split: if_splits)
qed

lemma taken_chain_id: "takeSnapshot sha256 pr c t = Inr s \<Longrightarrow> pr_chainId pr = CEDRA_TESTNET_CHAIN_ID \<and> 0 \<le> t"
  by (simp add: takeSnapshot_Inr isProjection_def identity_valid_def projection_fields CEDRA_TESTNET_CHAIN_ID_def isMoveUnsigned_def split: if_splits)

lemma run_reconcile:
  assumes "ei_activeStateOwner w = Some owner" "ei_cursor w = Some c"
    "es_getAccountingSnapshot src (cur_ledgerVersion c) = Inr obs" "ob_chainId obs = CEDRA_TESTNET_CHAIN_ID"
    "reconcile now (ei_projection w) obs (Some c) = Inr rep" "rp_reconciled rep"
    "pr_deploymentReady (ei_projection w)" "authoritiesComplete (ei_projection w)" "pr_chainId (ei_projection w) = CEDRA_TESTNET_CHAIN_ID"
    "checkpointStateIdentity sha256 (ei_projection w) c = Inr i"
  shows "run (reconcileOwned sha256 ops now src owner writerLease) w = (Inr rep,
    w\<lparr>ei_reconciledProjection := Some (ei_projectionObject w), ei_reconciledCursor := Some c, ei_reconciledStateIdentity := Some i\<rparr>)"
  using assms reconcile_flag [OF assms(5,6)]
  by (simp add: reconcileOwned_def compareViews_def authorizeCheckpoint_def persistAlerts_def run_segment Let_def assertStateOwner_def
    invalidateReconciliation_def compareCursor_eq)

lemma run_snapshot:
  assumes "ei_activeStateOwner w = Some owner" "ei_cursor w = Some c" "ei_reconciledProjection w = Some (ei_projectionObject w)"
    "ei_reconciledCursor w = Some c" "ei_reconciledStateIdentity w = Some i" "checkpointStateIdentity sha256 (ei_projection w) c = Inr i"
    "pr_deploymentReady (ei_projection w)" "authoritiesComplete (ei_projection w)"
    "takeSnapshot sha256 (ei_projection w) (Some c) takenAt = Inr s"
    "ei_durableBaseSnapshotId w = Some (map_option sn_id (ms_latest (ei_store w)))" "ms_activeLease (ei_store w) = Some lease"
  shows "run (snapshotOwned sha256 memory_ops takenAt owner (Some lease)) w = (Inr s,
    w\<lparr>ei_store := (ei_store w)\<lparr>ms_latest := Some s\<rparr>, ei_durableBaseSnapshotId := Some (Some (sn_id s))\<rparr>)"
  using assms taken_chain_id [OF assms(9)]
  by (simp add: snapshotOwned_def authorizedSnapshot_def withStoreWriter_def saveUnderLease_def storeSnapshot_def run_segment Let_def
    assertStateOwner_def compareCursor_eq memory_ops_def memory_saveSnapshot_def memory_assertActiveLease_def)

section \<open>A clean cycle\<close>

lemma process_page_nothing:
  assumes "process_page st events = Inr (st', res)" "ps_processedEvents res = 0"
  shows "st' = st"
proof -
  obtain p j a where run: "run_groups st (page_groups st events) = Inr (st', p, j, a)" and p: "p = 0"
    using assms by (auto simp: process_page_Inr)
  from run_groups_spec [OF run] obtain d rest where d: "page_groups st events = d @ rest" "commits st d st'" "p = length (concat d)"
    by blast
  have "list_all one_version d" using group_events_one_version [of "filter (\<lambda>e. \<not> covered (iv_cursor st) e) (sort_key event_key events)"]
    by (simp add: d(1))
  with d(2,3) p show ?thesis using concat_one_version [of d] by simp
qed

lemma run_cycle:
  assumes owner: "ei_activeStateOwner w = Some owner" "ei_cycleMethodFailures w = []" "\<not> ei_cycleMethodActive w"
    and lease: "ms_activeLease (ei_store w) = Some lease"
    and readable: "\<forall>l. ms_latest (ei_store w) = Some l \<longrightarrow> decodeSnapshot sha256 (encodeSnapshot l) = Inr l"
    and limit: "1 \<le> limit" "limit \<le> 10000"
    and page: "es_listEvents src (iv_cursor (durable_view (ei_store w))) limit = Inr page" "pg_chainId page = CEDRA_TESTNET_CHAIN_ID"
    and clean: "process_page (durable_view (ei_store w)) (pg_events page) = Inr (view, res)" "ps_alerts res = []"
    and cursor: "iv_cursor view = Some c"
    and views: "es_getAccountingSnapshot src (cur_ledgerVersion c) = Inr obs" "ob_chainId obs = CEDRA_TESTNET_CHAIN_ID"
      "reconcile now (iv_projection view) obs (Some c) = Inr rep" "rp_reconciled rep"
    and ready: "pr_deploymentReady (iv_projection view)" "authoritiesComplete (iv_projection view)"
    and take: "takeSnapshot sha256 (iv_projection view) (Some c) takenAt = Inr s"
  shows "\<exists>w'. run (runOnceUnderLease sha256 memory_ops src deliver now takenAt limit owner lease) w =
      (Inr \<lparr>wr_processing = res, wr_reconciliation = Some rep, wr_snapshot = Some s, wr_deliveredAlertIds = []\<rparr>, w')
    \<and> ms_latest (ei_store w') = Some s \<and> ei_activeStateOwner w' = Some owner \<and> ei_cursor w' = Some c \<and> ei_cycleMethodFailures w' = []"
proof -
  let ?v = "durable_view (ei_store w)"
  define w1 where "w1 = (setProjection (iv_projection ?v) (invalidateReconciliation (w\<lparr>ei_cycleMethodActive := True\<rparr>)))\<lparr>
    ei_cursor := iv_cursor ?v, ei_durableBaseSnapshotId := Some (map_option sn_id (ms_latest (ei_store w))), ei_cycleMethodActive := False\<rparr>"
  have w1: "ei_activeStateOwner w1 = Some owner" "\<not> ei_cycleMethodActive w1" "ei_store w1 = ei_store w" "ei_cycleMethodFailures w1 = []"
    "ei_durableBaseSnapshotId w1 = Some (map_option sn_id (ms_latest (ei_store w)))"
    "\<lparr>iv_projection = ei_projection w1, iv_cursor = ei_cursor w1\<rparr> = ?v" "ei_cursor w1 = iv_cursor ?v"
    using owner by (simp_all add: w1_def setProjection_def invalidateReconciliation_def)
  have restore: "run (invoke owner (restoreLatestSnapshotOwned sha256 memory_ops owner)) w = (Inr (ms_latest (ei_store w)), w1)"
    using run_invoke [OF owner(1,3) run_restore] owner(1) readable by (simp add: w1_def)
  define w2 where "w2 = (if ps_processedEvents res = 0 then invalidateReconciliation (w1\<lparr>ei_cycleMethodActive := True\<rparr>)
    else (setProjection (iv_projection view) (invalidateReconciliation (w1\<lparr>ei_cycleMethodActive := True\<rparr>)))\<lparr>ei_cursor := iv_cursor view\<rparr>)
    \<lparr>ei_cycleMethodActive := False\<rparr>"
  have same: "ei_projection w1 = iv_projection view" "ei_cursor w1 = iv_cursor view" if "ps_processedEvents res = 0"
    using process_page_nothing [OF clean(1) that] w1(6) by (metis indexer_view.select_convs)+
  have w2: "ei_activeStateOwner w2 = Some owner" "\<not> ei_cycleMethodActive w2" "ei_store w2 = ei_store w" "ei_cycleMethodFailures w2 = []"
    "ei_durableBaseSnapshotId w2 = Some (map_option sn_id (ms_latest (ei_store w)))"
    "ei_projection w2 = iv_projection view" "ei_cursor w2 = Some c"
    using w1 same cursor by (simp_all add: w2_def setProjection_def invalidateReconciliation_def)
  have poll: "run (invoke owner (pollOnceOwned memory_ops src limit owner (Some lease))) w1 = (Inr res, w2)"
    using run_invoke [OF w1(1,2) run_poll] w1 limit page clean by (simp add: w2_def)
  obtain i where i: "checkpointStateIdentity sha256 (iv_projection view) c = Inr i" using identity_of_taken [OF take] ..
  define w3 where "w3 = w2\<lparr>ei_reconciledProjection := Some (ei_projectionObject w2), ei_reconciledCursor := Some c, ei_reconciledStateIdentity := Some i\<rparr>"
  have rec: "run (invoke owner (reconcileOwned sha256 memory_ops now src owner (Some lease))) w2 = (Inr rep, w3)"
    using run_invoke [OF w2(1,2) run_reconcile] w2 views ready i taken_chain_id [OF take] by (simp add: w3_def)
  have snap: "run (invoke owner (snapshotOwned sha256 memory_ops takenAt owner (Some lease))) w3 = (Inr s,
      w3\<lparr>ei_store := (ei_store w)\<lparr>ms_latest := Some s\<rparr>, ei_durableBaseSnapshotId := Some (Some (sn_id s)), ei_cycleMethodActive := False\<rparr>)"
    using w2 ready i take lease by (intro run_invoke [OF _ _ run_snapshot, THEN trans]) (simp_all add: w3_def)
  show ?thesis
    using restore poll rec snap w2 clean(2) cursor reconcile_flag [OF views(3,4)] views(4) process_page_Inr [of ?v "pg_events page" view res] clean(1)
    by (auto simp: runOnceUnderLease_def run_pbind w3_def)
qed

lemma clean_cycle:
  assumes "ei_activeStateOwner w = None" "\<not> ms_writerActive (ei_store w)"
    and "\<forall>l. ms_latest (ei_store w) = Some l \<longrightarrow> decodeSnapshot sha256 (encodeSnapshot l) = Inr l"
    and "1 \<le> limit" "limit \<le> 10000"
    and "es_listEvents src (iv_cursor (durable_view (ei_store w))) limit = Inr page" "pg_chainId page = CEDRA_TESTNET_CHAIN_ID"
    and "process_page (durable_view (ei_store w)) (pg_events page) = Inr (view, res)" "ps_alerts res = []"
    and "iv_cursor view = Some c"
    and "es_getAccountingSnapshot src (cur_ledgerVersion c) = Inr obs" "ob_chainId obs = CEDRA_TESTNET_CHAIN_ID"
    and "reconcile now (iv_projection view) obs (Some c) = Inr rep" "rp_reconciled rep"
    and "pr_deploymentReady (iv_projection view)" "authoritiesComplete (iv_projection view)"
    and "takeSnapshot sha256 (iv_projection view) (Some c) takenAt = Inr s"
  shows "\<exists>w'. run (runOnce sha256 memory_ops src deliver now takenAt limit) w =
      (Inr \<lparr>wr_processing = res, wr_reconciliation = Some rep, wr_snapshot = Some s, wr_deliveredAlertIds = []\<rparr>, w')
    \<and> ms_latest (ei_store w') = Some s \<and> ei_cursor w' = Some c
    \<and> ei_activeStateOwner w' = None \<and> \<not> ms_writerActive (ei_store w')"
proof -
  let ?lease = "ms_issuedLeases (ei_store w)" let ?owner = "ei_objects w"
  let ?w = "w\<lparr>ei_store := (ei_store w)\<lparr>ms_writerActive := True, ms_activeLease := Some ?lease, ms_issuedLeases := Suc ?lease\<rparr>,
    ei_activeStateOwner := Some ?owner, ei_objects := Suc ?owner, ei_cycleMethodActive := False, ei_cycleMethodFailures := []\<rparr>"
  have "durable_view (ei_store ?w) = durable_view (ei_store w)" by (simp add: durable_view_def)
  then obtain w' where "run (runOnceUnderLease sha256 memory_ops src deliver now takenAt limit ?owner ?lease) ?w =
      (Inr \<lparr>wr_processing = res, wr_reconciliation = Some rep, wr_snapshot = Some s, wr_deliveredAlertIds = []\<rparr>, w')"
    "ms_latest (ei_store w') = Some s" "ei_activeStateOwner w' = Some ?owner" "ei_cursor w' = Some c" "ei_cycleMethodFailures w' = []"
    using run_cycle [of ?w ?owner ?lease sha256 limit src page view res c obs now rep takenAt s deliver] assms by auto
  then show ?thesis using assms(1,2)
    by (simp add: runOnce_def withExclusiveStoreWriter_def run_withExclusiveWriter run_withStateOwner run_segment run_pbind
      releaseStateOwner_def memory_release_def)
qed


end
