(* ===== verification/Snapshot_Domains.thy ===== *)
theory Snapshot_Domains
  imports Snapshot Keyed_Maps
begin

text \<open>
  What an accepted snapshot text describes: the validation of the untrusted tree covers every width
  the reducer relies on, so a restored projection satisfies the same domain assertion as a replayed
  one, and the maps rebuilt from the arrays are well formed.
\<close>

section \<open>Rebuilt maps\<close>

lemma map_from_entries: "keyed_by key (map_from key xs)" "set (map_values (map_from key xs)) \<subseteq> set xs"
proof (induction xs rule: rev_induct)
  case (snoc x xs)
  have step: "map_from key (xs @ [x]) = map_set (key x) x (map_from key xs)" by (simp add: map_from_def)
  case 1
  with snoc show ?case by (simp add: step)
  case 2
  with snoc map_values_set_subset [of "key x" x "map_from key xs"] show ?case by (auto simp: step)
qed (simp_all add: map_from_def map_values_def)

lemma entries_of_entries:
  "jsmap_ok (entries_of f v)" "set (map_values (entries_of f v)) \<subseteq> (\<lambda>e. f (snd (entry_of e))) ` set (arr_of v)"
proof -
  let ?step = "\<lambda>m e. map_set (str_of (fst (entry_of e))) (f (snd (entry_of e))) m"
  have "jsmap_ok (foldl ?step [] es) \<and> set (map_values (foldl ?step [] es)) \<subseteq> (\<lambda>e. f (snd (entry_of e))) ` set es" for es
  proof (induction es rule: rev_induct)
    case (snoc e es)
    then show ?case
      using map_values_set_subset [of "str_of (fst (entry_of e))" "f (snd (entry_of e))" "foldl ?step [] es"] by auto
  qed (simp add: map_values_def)
  then show "jsmap_ok (entries_of f v)" "set (map_values (entries_of f v)) \<subseteq> (\<lambda>e. f (snd (entry_of e))) ` set (arr_of v)"
    by (simp_all add: entries_of_def)
qed

lemma parsed_collections:
  "pr_positions (parsed_projection v) = keyed_of ip_account parsed_position (js_get v ''positions'')"
  "pr_lpEpochs (parsed_projection v) = keyed_of ep_epoch parsed_epoch (js_get v ''lpEpochs'')"
  "pr_rewardVaultToEpoch (parsed_projection v) = entries_of big_of (js_get v ''rewardVaultToEpoch'')"
  "pr_stateIdToEpoch (parsed_projection v) = entries_of big_of (js_get v ''stateIdToEpoch'')"
  "pr_seenEventIds (parsed_projection v) = entries_of str_of (js_get v ''seenEventIds'')"
  "pr_protocolExcludedStores (parsed_projection v) = entries_of str_of (js_get v ''protocolExcludedStores'')"
  "pr_registeredWallets (parsed_projection v) = entries_of str_of (js_get v ''registeredWallets'')"
  "pr_pool (parsed_projection v) = parsed_pool (js_get v ''pool'')"
  "pr_custody (parsed_projection v) = parsed_custody (js_get v ''custody'')"
  "pr_activeLpEpoch (parsed_projection v) = opt_big_of (js_get v ''activeLpEpoch'')"
  by (simp_all add: parsed_projection_def)

lemma parsed_projection_keyed: "keyed (parsed_projection v)"
proof -
  have "keyed_epochs (map_from ep_epoch (map parsed_epoch es))" for es
    using map_from_entries [of ep_epoch "map parsed_epoch es"]
    by (force simp: keyed_epochs_def list_all_iff map_values_def parsed_epoch_def keyed_of_def map_from_entries(1))
  then show ?thesis by (simp add: keyed_def parsed_collections keyed_of_def map_from_entries(1) entries_of_entries(1))
qed

lemma read_unsigned: "js_unsigned (js_field v k) b \<Longrightarrow> isMoveUnsigned (big_of (js_get v k)) b"
  by (auto simp: js_unsigned_def js_get_def split: option.splits js_val.splits)

lemma read_signed: "js_signed (js_field v k) \<Longrightarrow> isMoveSignedU256 (big_of (js_get v k))"
  by (auto simp: js_signed_def js_get_def split: option.splits js_val.splits)

lemma read_optional: "isOptionalMoveUnsigned (js_field v k) b \<Longrightarrow> optional_check (opt_big_of (js_get v k)) b label = Inr ()"
  by (auto simp: isOptionalMoveUnsigned_def js_unsigned_def js_get_def optional_check_def result_simps assertMoveUnsigned_def
    split: option.splits js_val.splits)

lemma position_in_domain:
  "isWalletPosition t \<Longrightarrow> \<forall>r \<in> set (position_checks a (parsed_position t)). r = Inr ()"
  by (simp add: isWalletPosition_def position_checks_def parsed_position_def assertMoveUnsigned_def assertMoveSignedU256_def read_unsigned read_signed)

lemma pool_in_domain: "pool_valid t \<Longrightarrow> \<forall>r \<in> set (pool_checks (parsed_pool t)). r = Inr ()"
  by (simp add: pool_valid_def pool_checks_def parsed_pool_def assertMoveUnsigned_def read_unsigned)

lemma custody_in_domain: "custody_valid t \<Longrightarrow> \<forall>r \<in> set (custody_checks (parsed_custody t)). r = Inr ()"
  by (simp add: custody_valid_def custody_checks_def parsed_custody_def assertMoveUnsigned_def assertMoveSignedU256_def read_unsigned read_signed
    read_optional)

lemma scalars_in_domain:
  "identity_valid v \<Longrightarrow> js_unsigned (js_field v ''registeredWalletCount'') U64 \<Longrightarrow> ledger_valid v \<Longrightarrow> version_valid v
   \<Longrightarrow> \<forall>r \<in> set (scalar_checks (parsed_projection v)). r = Inr ()"
  by (simp add: identity_valid_def ledger_valid_def version_valid_def scalar_checks_def parsed_projection_def
   assertMoveUnsigned_def assertMoveSignedU256_def read_unsigned read_signed)


lemma lp_position_in_domain:
  "isLpPosition t \<Longrightarrow> \<forall>r \<in> set (lp_position_checks a (parsed_lp_position t)). r = Inr ()"
  by (simp add: isLpPosition_def lp_position_checks_def parsed_lp_position_def assertMoveUnsigned_def assertMoveSignedU256_def read_unsigned read_signed)

lemma keyed_of_in:
  assumes "(k, x) \<in> set (keyed_of key f v)"
  shows "key x = k \<and> (\<exists>t \<in> set (arr_of v). x = f t)"
  using assms map_from_entries [of key "map f (arr_of v)"]
  by (force simp: keyed_of_def keyed_by_def list_all_iff map_values_def)

lemma array_read: "js_array (js_field v k) = Some vs \<Longrightarrow> js_get v k = JArr vs"
  by (auto simp: js_array_def js_get_def split: option.splits js_val.splits)

lemma epoch_in_domain:
  assumes "isLpEpoch t"
  shows "\<forall>r \<in> set (epoch_checks (ep_epoch (parsed_epoch t)) (parsed_epoch t)). r = Inr ()"
proof -
  obtain ps where ps: "js_array (js_field t ''positions'') = Some ps" and valid: "list_all isLpPosition ps"
    using assms by (auto simp: isLpEpoch_def split: option.splits)
  have terminal: "optional_check (opt_big_of (js_get t ''terminalRoundingBaseUnits'')) U128 l = Inr ()" for l
    using assms ps by (intro read_optional) (auto simp: isLpEpoch_def isOptionalMoveUnsigned_def split: if_splits)
  have lp: "\<forall>r \<in> set (concat (map (\<lambda>(a, p). lp_position_checks a p) (keyed_of lp_owner parsed_lp_position (js_get t ''positions'')))). r = Inr ()"
    using valid by (auto simp: array_read [OF ps] list_all_iff dest!: keyed_of_in intro: lp_position_in_domain [THEN bspec])
  show ?thesis
    using assms ps terminal lp
    by (simp add: isLpEpoch_def epoch_checks_def Let_def parsed_epoch_def assertMoveUnsigned_def assertMoveSignedU256_def
      read_unsigned read_signed ball_Un)
qed

lemma pair_read: "(case e of JArr [k, n] \<Rightarrow> P k n | _ \<Rightarrow> False) \<Longrightarrow> \<exists>k n. e = JArr [k, n] \<and> P k n"
  by (auto split: js_val.split_asm list.split_asm)

lemma text_pair_read:
  assumes "case e of JArr [k, JStr c] \<Rightarrow> Q k c | _ \<Rightarrow> False"
  shows "\<exists>k c. e = JArr [k, JStr c] \<and> Q k c"
proof -
  obtain k w us where "e = JArr (k # w # us)" using assms by (auto split: js_val.split_asm list.split_asm)
  with assms show ?thesis by (cases w; cases us) simp_all
qed

lemma big_read: "js_unsigned (Some n) b \<Longrightarrow> \<exists>m. n = JBig m \<and> isMoveUnsigned m b"
  by (cases n) (simp_all add: js_unsigned_def)

lemma collections_in_domain:
  assumes "collections_valid v"
  shows "\<forall>r \<in> set (concat (map (\<lambda>(a, p). position_checks a p) (pr_positions (parsed_projection v)))). r = Inr ()"
    and "\<forall>r \<in> set (concat (map (\<lambda>(k, e). epoch_checks k e) (pr_lpEpochs (parsed_projection v)))). r = Inr ()"
    and "\<forall>e \<in> set (map_values (pr_rewardVaultToEpoch (parsed_projection v))). isMoveUnsigned e U64"
    and "\<forall>e \<in> set (map_values (pr_stateIdToEpoch (parsed_projection v))). isMoveUnsigned e U64"
    and "\<forall>c \<in> set (map_values (pr_seenEventIds (parsed_projection v))). seen_cursor_check c = Inr ()"
proof -
  obtain ps es where ps: "js_array (js_field v ''positions'') = Some ps" and es: "js_array (js_field v ''lpEpochs'') = Some es"
    and valid: "list_all isWalletPosition ps" "list_all isLpEpoch es"
    using assms by (auto simp: collections_valid_def split: option.splits)
  have entry: "isAddressEpochEntries (js_field v k) \<Longrightarrow> \<forall>e \<in> set (map_values (entries_of big_of (js_get v k))). isMoveUnsigned e U64" for k
  proof -
    assume k: "isAddressEpochEntries (js_field v k)"
    then obtain xs where xs: "js_array (js_field v k) = Some xs" by (auto simp: isAddressEpochEntries_def split: option.splits)
    have "isMoveUnsigned (big_of (snd (entry_of e))) U64" if "e \<in> set xs" for e
    proof -
      have "case e of JArr [k, n] \<Rightarrow> isAddress (Some k) \<and> js_unsigned (Some n) U64 \<and> n \<noteq> JBig 0 | _ \<Rightarrow> False"
        using k xs that by (simp add: isAddressEpochEntries_def list_all_iff)
      from pair_read [OF this] show ?thesis by (auto simp: entry_of_def dest!: big_read)
    qed
    then show ?thesis using entries_of_entries(2) [of big_of "js_get v k"] by (auto simp: array_read [OF xs])
  qed
  have seen: "\<forall>c \<in> set (map_values (entries_of str_of (js_get v ''seenEventIds''))). seen_cursor_check c = Inr ()"
  proof -
    have k: "isSeenEventEntries (js_field v ''seenEventIds'')" using assms by (auto simp: collections_valid_def split: option.splits)
    then obtain xs where xs: "js_array (js_field v ''seenEventIds'') = Some xs" by (auto simp: isSeenEventEntries_def split: option.splits)
    have "seen_cursor_check (str_of (snd (entry_of e))) = Inr ()" if "e \<in> set xs" for e
    proof -
      have "case e of JArr [k, JStr c] \<Rightarrow> js_text_between (Some k) 512
          \<and> (case parse_cursor c of None \<Rightarrow> False
             | Some (lv, idx) \<Rightarrow> isMoveUnsigned lv U64 \<and> isMoveUnsigned idx U64 \<and> idx \<le> MAX_SAFE_INTEGER) | _ \<Rightarrow> False"
        using k xs that by (simp add: isSeenEventEntries_def list_all_iff)
      from text_pair_read [OF this] show ?thesis
        by (auto simp: entry_of_def seen_cursor_check_def rseq_Inr_iff assertMoveUnsigned_def rensure_def split: option.splits)
    qed
    then show ?thesis using entries_of_entries(2) [of str_of "js_get v ''seenEventIds''"] by (auto simp: array_read [OF xs])
  qed
  show "\<forall>r \<in> set (concat (map (\<lambda>(a, p). position_checks a p) (pr_positions (parsed_projection v)))). r = Inr ()"
    using valid by (auto simp: parsed_collections array_read [OF ps] list_all_iff dest!: keyed_of_in intro: position_in_domain [THEN bspec])
  show "\<forall>r \<in> set (concat (map (\<lambda>(k, e). epoch_checks k e) (pr_lpEpochs (parsed_projection v)))). r = Inr ()"
    using valid by (auto simp: parsed_collections array_read [OF es] list_all_iff dest!: keyed_of_in intro: epoch_in_domain [THEN bspec])
  show "\<forall>e \<in> set (map_values (pr_rewardVaultToEpoch (parsed_projection v))). isMoveUnsigned e U64"
    "\<forall>e \<in> set (map_values (pr_stateIdToEpoch (parsed_projection v))). isMoveUnsigned e U64"
    using assms entry by (auto simp: collections_valid_def parsed_collections split: option.splits)
  show "\<forall>c \<in> set (map_values (pr_seenEventIds (parsed_projection v))). seen_cursor_check c = Inr ()"
    using seen by (simp add: parsed_collections)
qed

lemma owners_count: "owners_registered v \<Longrightarrow> js_unsigned (js_field v ''registeredWalletCount'') U64"
  unfolding owners_registered_def Let_def by (elim conjE)

lemma parsed_projection_in_domain:
  assumes "isProjection v"
  shows "assertProjectionMoveDomains (parsed_projection v) = Inr ()"
proof -
  have "collections_valid v" "js_unsigned (js_field v ''registeredWalletCount'') U64" "active_epoch_valid v"
    using assms owners_count by (simp_all add: isProjection_def)
  moreover from this have "optional_check (opt_big_of (js_get v ''activeLpEpoch'')) U64 l = Inr ()" for l
    by (simp add: active_epoch_valid_def Let_def read_optional)
  ultimately show ?thesis
    using assms collections_in_domain [of v] scalars_in_domain [of v] pool_in_domain [of "js_get v ''pool''"]
      custody_in_domain [of "js_get v ''custody''"]
    by (auto simp: isProjection_def assertProjectionMoveDomains_def rseq_Inr_iff parsed_collections assertMoveUnsigned_def)
qed

lemma cursor_read:
  assumes "isCursor (js_field v ''cursor'')" "parsed_cursor (js_get v ''cursor'') = Some c"
  shows "isMoveUnsigned (cur_ledgerVersion c) U64 \<and> isMoveUnsigned (cur_eventIndex c) U64"
proof -
  obtain ms where ms: "js_field v ''cursor'' = Some (JObj ms)"
    using assms by (auto simp: isCursor_def parsed_cursor_def js_get_def split: option.split_asm js_val.split_asm if_splits)
  then obtain n where "map_get ms ''eventIndex'' = Some (JNum n)" "isMoveUnsigned n U64"
    using assms(1) by (auto simp: isCursor_def split: option.split_asm js_val.split_asm)
  moreover have "js_unsigned (js_field (JObj ms) ''ledgerVersion'') U64" using assms(1) ms by (simp add: isCursor_def js_field_def)
  ultimately show ?thesis using assms(2) ms read_unsigned [of "JObj ms" "''ledgerVersion''" U64]
    by (auto simp: parsed_cursor_def js_get_def [of v] js_get_def [of "JObj ms" "''eventIndex''"] js_field_def [of "JObj ms" "''eventIndex''"] split: if_splits)
qed

text \<open>
  C28. Decoding is fail-closed. Whatever text is decoded, a snapshot that is returned has schema
  version 1, the identifier of its content, a timestamp and cursor inside their widths, maps with
  unique keys under which the entries are their own, and every integer of the projection inside its
  exact Move width.
\<close>

theorem decoded_snapshot_is_well_formed:
  assumes "decodeSnapshot sha256 text = Inr s"
  shows "sn_schemaVersion s = 1 \<and> is_snapshot_id (sn_id s) \<and> isMoveUnsigned (sn_takenAtUnixMilliseconds s) U64
    \<and> (\<forall>c. sn_cursor s = Some c \<longrightarrow> isMoveUnsigned (cur_ledgerVersion c) U64 \<and> isMoveUnsigned (cur_eventIndex c) U64)
    \<and> keyed (sn_projection s) \<and> assertProjectionMoveDomains (sn_projection s) = Inr ()"
proof -
  obtain v where v: "isSerializableSnapshot v" and s: "s = \<lparr>sn_schemaVersion = num_of (js_get v ''schemaVersion''),
      sn_id = str_of (js_get v ''id''), sn_takenAtUnixMilliseconds = big_of (js_get v ''takenAtUnixMilliseconds''),
      sn_cursor = parsed_cursor (js_get v ''cursor''), sn_projection = parsed_projection (js_get v ''projection'')\<rparr>"
    using assms by (auto simp: decodeSnapshot_def result_simps split: option.splits if_splits)
  have "is_snapshot_id (str_of (js_get v ''id''))" "num_of (js_get v ''schemaVersion'') = 1"
    using v by (auto simp: isSerializableSnapshot_def js_get_def split: option.splits js_val.splits)
  moreover have "isMoveUnsigned (cur_ledgerVersion c) U64 \<and> isMoveUnsigned (cur_eventIndex c) U64"
    if "parsed_cursor (js_get v ''cursor'') = Some c" for c
    using v that cursor_read [of v c] by (simp add: isSerializableSnapshot_def)
  moreover have "isMoveUnsigned (big_of (js_get v ''takenAtUnixMilliseconds'')) U64" "isProjection (js_get v ''projection'')"
    using v by (simp_all add: isSerializableSnapshot_def read_unsigned)
  ultimately show ?thesis using parsed_projection_keyed parsed_projection_in_domain by (simp add: s)
qed

end
