(* ===== verification/Pool_Economics.thy ===== *)
theory Pool_Economics
  imports Quiet_Groups
begin

text \<open>
  The arithmetic an alert-free replay certifies: fee distribution conserves value to the last
  magnified unit, swaps never lower the constant product, liquidity receipts never dilute the
  remaining providers, LP transfers and residue retirements move exactly what they claim.
\<close>

section \<open>Fee distribution\<close>

lemma index_step_conserves:
  fixes S :: int
  assumes "0 < S" "0 \<le> n"
  shows "(i + bigint_quot n S) * S + bigint_rem n S = i * S + n \<and> 0 \<le> bigint_rem n S \<and> bigint_rem n S < S"
proof -
  have "(i + n div S) * S + n mod S = i * S + n" by (simp add: distrib_right add.assoc)
  with assms show ?thesis by simp
qed

text \<open>
  C16. Distribution of a reflection fee is exact. If the replay accepts a global index advance without
  an alert, it consumes the oldest collected fee, and index times eligible supply plus remainder
  grows by exactly the magnified fee: nothing is created, nothing is lost, and the new remainder is
  smaller than the supply.
\<close>

theorem core_index_advance_conserves:
  assumes "handle_ReflectionIndexAdvanced ctx e a = Done ctx'" "cx_alerts ctx' = []"
  shows "\<exists>fee rest. cx_pendingCoreFees ctx = fee # rest \<and> cx_pendingCoreFees ctx' = rest
    \<and> (let old = cx_next ctx; new = cx_next ctx'; S = pr_eligibleSupply old in
       pf_sharesAtCollection fee = S \<and> 0 < S
       \<and> pr_currentIndex new * S + pr_indexRemainder new
         = pr_currentIndex old * S + pr_indexRemainder old + fc_feeAmount (pf_fee fee) * REFLECTION_MAGNITUDE
       \<and> 0 \<le> pr_indexRemainder new \<and> pr_indexRemainder new < S
       \<and> pr_currentIndex old \<le> pr_currentIndex new)"
proof (cases "cx_pendingCoreFees ctx")
  case Nil
  with assms show ?thesis by (auto simp: handle_ReflectionIndexAdvanced_def)
next
  case (Cons fee rest)
  let ?S = "pf_sharesAtCollection fee"
  let ?n = "fc_feeAmount (pf_fee fee) * REFLECTION_MAGNITUDE + pr_indexRemainder (cx_next ctx)"
  have "0 < ?S \<and> 0 \<le> ?n \<and> pr_eligibleSupply (cx_next ctx) = ?S
     \<and> cx_pendingCoreFees ctx' = rest
     \<and> cx_next ctx' = cx_next ctx\<lparr>pr_currentIndex := pr_currentIndex (cx_next ctx) + bigint_quot ?n ?S,
         pr_indexRemainder := bigint_rem ?n ?S\<rparr>"
    using assms Cons
    by (auto simp: handle_ReflectionIndexAdvanced_def Let_def attempt_Done_iff checked_iff result_simps
        upd_next_def split: if_splits)
  then show ?thesis
    using index_step_conserves [of ?S ?n "pr_currentIndex (cx_next ctx)"] Cons
    by (simp add: Let_def pos_imp_zdiv_nonneg_iff)
qed

text \<open>
  Distribution of custody rewards to liquidity providers is exact in the same sense: an alert-free
  LP index advance belongs to the active epoch, adds the received amount to the epoch's lifetime
  receipts and its magnified value to index times shares plus remainder, and to nothing else.
\<close>

theorem lp_index_advance_conserves:
  assumes "handle_LpRewardIndexAdvanced g ctx e a = Done ctx'" "cx_alerts ctx' = []"
    and "lp_ledger (cx_next ctx)"
  shows "\<exists>ep ep'. map_get (pr_lpEpochs (cx_next ctx)) (la_epoch a) = Some ep
    \<and> map_get (pr_lpEpochs (cx_next ctx')) (la_epoch a) = Some ep'
    \<and> pr_activeLpEpoch (cx_next ctx) = Some (la_epoch a)
    \<and> 0 < ep_totalShares ep \<and> ep_totalShares ep' = ep_totalShares ep \<and> ep_positions ep' = ep_positions ep
    \<and> ep_lifetimeReceived ep' = ep_lifetimeReceived ep + la_received a
    \<and> ep_index ep' * ep_totalShares ep + ep_indexRemainder ep'
      = ep_index ep * ep_totalShares ep + ep_indexRemainder ep + la_received a * REFLECTION_MAGNITUDE
    \<and> 0 \<le> ep_indexRemainder ep' \<and> ep_indexRemainder ep' < ep_totalShares ep"
proof -
  obtain ep where ep: "map_get (pr_lpEpochs (cx_next ctx)) (la_epoch a) = Some ep"
    using assms(1,2) by (auto simp: handle_LpRewardIndexAdvanced_def requireEpoch_def split: option.splits)
  have key: "ep_epoch ep = la_epoch a" using lp_ledger_get [OF assms(3) ep] by simp
  let ?S = "ep_totalShares ep"
  let ?n = "la_received a * REFLECTION_MAGNITUDE + ep_indexRemainder ep"
  have "0 < ?S \<and> 0 \<le> ?n \<and> pr_activeLpEpoch (cx_next ctx) = Some (la_epoch a)
     \<and> (\<exists>rounding. cx_next ctx' = updateEpoch (ep\<lparr>ep_index := ep_index ep + bigint_quot ?n ?S,
           ep_indexRemainder := bigint_rem ?n ?S, ep_lifetimeReceived := ep_lifetimeReceived ep + la_received a,
           ep_roundingReserve := rounding\<rparr>) (cx_next ctx))"
    using assms(1,2) ep
    by (auto simp: handle_LpRewardIndexAdvanced_def requireEpoch_def Let_def attempt_Done_iff checked_iff result_simps
        split: if_splits)
  then show ?thesis
    using index_step_conserves [of ?S ?n "ep_index ep"] ep key by (auto simp: updateEpoch_def)
qed

section \<open>Swaps\<close>

lemma constant_product:
  fixes Ri Ro inv inp :: int
  assumes "0 \<le> Ri" "0 \<le> Ro" "0 \<le> inv" "inv \<le> inp" "0 < Ri + inv"
  defines "out \<equiv> Ro * inv div (Ri + inv)"
  shows "out \<le> Ro \<and> Ri * Ro \<le> (Ri + inp) * (Ro - out)"
proof -
  have floor: "out * (Ri + inv) \<le> Ro * inv"
    unfolding out_def using assms(5) by (simp add: minus_mod_eq_div_mult [symmetric])
  also have "\<dots> \<le> Ro * (Ri + inv)" using assms by (intro mult_left_mono) auto
  finally have le: "out \<le> Ro" using assms(5) by simp
  have "Ri * Ro \<le> (Ri + inv) * (Ro - out)" using floor by (simp add: algebra_simps)
  also have "\<dots> \<le> (Ri + inp) * (Ro - out)" using assms le by (intro mult_right_mono) auto
  finally show ?thesis using le by simp
qed

lemma invariant_input_bounds:
  fixes x fee :: int
  assumes "0 \<le> x" "0 \<le> fee" "fee \<le> BPS_DENOMINATOR"
  shows "0 \<le> bigint_quot (x * (BPS_DENOMINATOR - fee)) BPS_DENOMINATOR
    \<and> bigint_quot (x * (BPS_DENOMINATOR - fee)) BPS_DENOMINATOR \<le> x"
proof -
  have "x * (BPS_DENOMINATOR - fee) \<le> x * BPS_DENOMINATOR" using assms by (intro mult_left_mono) auto
  then have "x * (BPS_DENOMINATOR - fee) div BPS_DENOMINATOR \<le> x"
    by (metis BPS_DENOMINATOR_def nonzero_mult_div_cancel_right zdiv_mono1 zero_less_numeral zero_neq_numeral)
  with assms show ?thesis by (simp add: BPS_DENOMINATOR_def pos_imp_zdiv_nonneg_iff)
qed

text \<open>The receipt an accepted swap must have carried, and the reserves it leaves.\<close>

lemma swap_quiet_receipt:
  "ensures (handle_SwapExecuted ctx e s) (\<lambda>c. cx_alerts c = [] \<longrightarrow>
     (let p = pr_pool (cx_next ctx); sell = (sw_direction s = Sell); net = sw_netReserveInput s;
          inv = bigint_quot (net * (BPS_DENOMINATOR - po_ammFeeBps p)) BPS_DENOMINATOR;
          Ri = (if sell then po_trflReserve p else po_tusdReserve p);
          Ro = (if sell then po_tusdReserve p else po_trflReserve p) in
      Ri + inv \<noteq> 0 \<and> sw_grossPoolOutput s = bigint_quot (Ro * inv) (Ri + inv)
      \<and> sw_reflectionFee s = bigint_quot ((if sell then sw_grossAmount s else sw_grossPoolOutput s)
          * pr_feeBps (cx_next ctx)) BPS_DENOMINATOR
      \<and> (if sell then po_trflReserve (pr_pool (cx_next c)) = Ri + net
            \<and> po_tusdReserve (pr_pool (cx_next c)) = Ro - sw_grossPoolOutput s
         else po_tusdReserve (pr_pool (cx_next c)) = Ri + net
            \<and> po_trflReserve (pr_pool (cx_next c)) = Ro - sw_grossPoolOutput s)))"
  by (cases "sw_direction s") (auto simp: handle_SwapExecuted_def debitSeller_def ensures_simps Let_def result_simps)

text \<open>
  C18. An accepted swap never lowers the constant product of the pool. If the replay accepts a swap
  receipt without an alert, on a projection inside its domains with an AMM fee of at most 100
  percent, the product of the two replayed reserves afterwards is at least the product before, both
  reserves stay non-negative, and the reflection fee is the configured fraction of the tRFL leg,
  rounded down.
\<close>

theorem accepted_swap_keeps_product:
  assumes "handle_SwapExecuted ctx e s = Done ctx'" "cx_alerts ctx' = []"
    and "assertProtocolEventMoveDomains e = Inr ()" "ev_body e = SwapExecuted s"
    and "assertProjectionMoveDomains (cx_next ctx) = Inr ()"
    and "po_ammFeeBps (pr_pool (cx_next ctx)) \<le> BPS_DENOMINATOR"
  shows "let p = pr_pool (cx_next ctx); p' = pr_pool (cx_next ctx') in
    po_trflReserve p * po_tusdReserve p \<le> po_trflReserve p' * po_tusdReserve p'
    \<and> 0 \<le> po_trflReserve p' \<and> 0 \<le> po_tusdReserve p'
    \<and> sw_reflectionFee s = (if sw_direction s = Sell then sw_grossAmount s else sw_grossPoolOutput s)
        * pr_feeBps (cx_next ctx) div BPS_DENOMINATOR"
proof -
  let ?p = "pr_pool (cx_next ctx)" let ?net = "sw_netReserveInput s"
  let ?inv = "bigint_quot (?net * (BPS_DENOMINATOR - po_ammFeeBps ?p)) BPS_DENOMINATOR"
  have event: "0 \<le> ?net" "0 \<le> sw_grossAmount s" "0 \<le> sw_grossPoolOutput s"
    using event_domains_body [OF assms(3)] assms(4) by (auto simp: swap_checks_def result_simps isMoveUnsigned_iff)
  have state: "0 \<le> po_trflReserve ?p" "0 \<le> po_tusdReserve ?p" "0 \<le> po_ammFeeBps ?p" "0 \<le> pr_feeBps (cx_next ctx)"
    using assms(5) by (auto simp: assertProjectionMoveDomains_def result_simps pool_checks_def scalar_checks_def
        isMoveUnsigned_iff)
  have inv: "0 \<le> ?inv" "?inv \<le> ?net"
    using invariant_input_bounds [OF event(1) state(3) assms(6)] by simp_all
  note receipt = ensuresD [OF swap_quiet_receipt assms(1), rule_format, OF assms(2)]
  have product: "out \<le> Ro \<and> Ri * Ro \<le> (Ri + ?net) * (Ro - out)"
    if "0 \<le> Ri" "0 \<le> Ro" "Ri + ?inv \<noteq> 0" "out = bigint_quot (Ro * ?inv) (Ri + ?inv)" for Ri Ro out
    using constant_product [of Ri Ro ?inv ?net] that inv by simp
  have BPS: "0 \<le> BPS_DENOMINATOR" by (simp add: BPS_DENOMINATOR_def)
  show ?thesis
  proof (cases "sw_direction s")
    case Sell
    with receipt state event BPS show ?thesis
      using product [of "po_trflReserve ?p" "po_tusdReserve ?p" "sw_grossPoolOutput s"] by (simp add: Let_def)
  next
    case Buy
    with receipt state event BPS show ?thesis
      using product [of "po_tusdReserve ?p" "po_trflReserve ?p" "sw_grossPoolOutput s"]
      by (simp add: Let_def mult.commute [of "po_trflReserve ?p"] mult.commute [of "po_trflReserve ?p - _"])
  qed
qed

section \<open>Liquidity receipts\<close>

lemma addition_quiet:
  assumes "addition_alerts prior ep e q = Inr []" "isMoveUnsigned (lq_lpShares q) U128"
  shows "0 < ep_totalShares ep \<and> lq_lpShares q * po_trflReserve (pr_pool prior) \<le> lq_trflAmount q * ep_totalShares ep
    \<and> lq_lpShares q * po_tusdReserve (pr_pool prior) \<le> lq_tusdAmount q * ep_totalShares ep"
proof -
  from assms(1) have pos: "0 < ep_totalShares ep" "0 < po_trflReserve (pr_pool prior)" "0 < po_tusdReserve (pr_pool prior)"
    and ceil: "ceilDiv (lq_lpShares q * po_trflReserve (pr_pool prior)) (ep_totalShares ep) = Inr (lq_trflAmount q)"
      "ceilDiv (lq_lpShares q * po_tusdReserve (pr_pool prior)) (ep_totalShares ep) = Inr (lq_tusdAmount q)"
    by (auto simp: addition_alerts_def Let_def result_simps checked_iff split: if_splits)
  have "0 \<le> lq_lpShares q" using assms(2) by (simp add: isMoveUnsigned_iff)
  then have "0 \<le> lq_lpShares q * po_trflReserve (pr_pool prior)" "0 \<le> lq_lpShares q * po_tusdReserve (pr_pool prior)"
    using pos by simp_all
  then show ?thesis using ceilDiv_ceiling [OF _ pos(1)] ceil pos by fastforce
qed

lemma withdrawal_share_floor:
  assumes "withdrawal_share ep q reserve l = Inr x" "0 < ep_totalShares ep" "0 \<le> reserve"
  shows "x * ep_totalShares ep \<le> lq_lpShares q * reserve"
proof (cases "lq_lpShares q = ep_totalShares ep")
  case True
  with assms(1) show ?thesis by (simp add: withdrawal_share_def)
next
  case False
  with assms have "x = lq_lpShares q * reserve div ep_totalShares ep"
    by (auto simp: withdrawal_share_def result_simps checked_iff)
  then show ?thesis using assms(2) by (simp add: minus_mod_eq_div_mult [symmetric])
qed

lemma removal_quiet:
  assumes "removal_alerts prior events ep e final q = Inr []" "assertProjectionMoveDomains prior = Inr ()"
  shows "0 < ep_totalShares ep \<and> lq_lpShares q \<le> ep_totalShares ep \<and> (final \<longleftrightarrow> lq_lpShares q = ep_totalShares ep)
    \<and> lq_trflAmount q * ep_totalShares ep \<le> lq_lpShares q * po_trflReserve (pr_pool prior)
    \<and> lq_tusdAmount q * ep_totalShares ep \<le> lq_lpShares q * po_tusdReserve (pr_pool prior)"
proof -
  from assms(1) have pos: "0 < ep_totalShares ep" "lq_lpShares q \<le> ep_totalShares ep"
    and flag: "final \<longleftrightarrow> lq_lpShares q = ep_totalShares ep"
    and shares: "withdrawal_share ep q (po_trflReserve (pr_pool prior)) ''LP withdrawal tRFL numerator'' = Inr (lq_trflAmount q)"
      "withdrawal_share ep q (po_tusdReserve (pr_pool prior)) ''LP withdrawal tUSD numerator'' = Inr (lq_tusdAmount q)"
    by (auto simp: removal_alerts_def Let_def result_simps split: if_splits)
  show ?thesis
    using pos flag shares domains_pool [OF assms(2)] withdrawal_share_floor by (simp add: isMoveUnsigned_iff)
qed

lemma length_map_filter_le_1:
  assumes "length (List.map_filter f xs) \<le> 1" "x \<in> set xs" "f x = Some y"
  shows "List.map_filter f xs = [y]"
proof -
  have "y \<in> set (List.map_filter f xs)" using assms(2,3) by (auto simp: map_filter_mem)
  then show ?thesis using assms(1) by (cases "List.map_filter f xs") auto
qed

text \<open>The checks that a preflight without alerts stands for.\<close>

lemma preflight_quiet:
  assumes "preflight prior first events = Inr []"
  shows "liquidity_alerts prior events = Inr [] \<and> length (swaps events) \<le> 1 \<and> length (liquidity events) \<le> 1"
  using assms by (auto simp: preflight_def result_simps terminal_receipt_alerts_def)


section \<open>LP transfers and exits\<close>

text \<open>
  Transferring LP shares moves no rewards: for every holder, sender and recipient included, what
  was pending in the epoch before the transfer is pending after it, and the epoch's totals are
  untouched.
\<close>

theorem lp_transfer_keeps_pending:
  assumes "handle_LpSharesTransferred ctx e t = Done ctx'" "cx_alerts ctx' = []" "lp_ledger (cx_next ctx)"
    and "map_get (pr_lpEpochs (cx_next ctx)) (st_epoch t) = Some ep"
    and "map_get (pr_lpEpochs (cx_next ctx')) (st_epoch t) = Some ep'"
    and "lpPositionPending (lpPositionOrEmpty b (ep_positions ep)) ep = Inr r"
    and "lpPositionPending (lpPositionOrEmpty b (ep_positions ep')) ep' = Inr r'"
  shows "r' = r \<and> ep_totalShares ep' = ep_totalShares ep \<and> ep_lifetimeClaimed ep' = ep_lifetimeClaimed ep"
proof -
  have key: "ep_epoch ep = st_epoch t" using lp_ledger_get [OF assms(3,4)] by simp
  let ?d = "if b = st_sender t then - st_amount t else if b = st_recipient t then st_amount t else 0"
  let ?snd = "lpPositionOrEmpty (st_sender t) (ep_positions ep)" let ?rec = "lpPositionOrEmpty (st_recipient t) (ep_positions ep)"
  let ?ps = "map_set (st_recipient t) (?rec\<lparr>lp_shares := lp_shares ?rec + st_amount t,
        lp_correction := lp_correction ?rec - st_amount t * ep_index ep\<rparr>)
      (map_set (st_sender t) (?snd\<lparr>lp_shares := lp_shares ?snd - st_amount t,
        lp_correction := lp_correction ?snd + st_amount t * ep_index ep\<rparr>) (ep_positions ep))"
  have step: "st_sender t \<noteq> st_recipient t \<and> cx_next ctx' = updateEpoch (ep\<lparr>ep_positions := ?ps\<rparr>) (cx_next ctx)"
    using assms(1,2,4)
    by (auto simp: handle_LpSharesTransferred_def requireEpoch_def Let_def attempt_Done_iff checked_iff split: if_splits)
  then have ps: "ep' = ep\<lparr>ep_positions := ?ps\<rparr>" using assms(5) key by (simp add: updateEpoch_def)
  have holder: "lp_shares (lpPositionOrEmpty b ?ps) = lp_shares (lpPositionOrEmpty b (ep_positions ep)) + ?d"
     "lp_correction (lpPositionOrEmpty b ?ps) = lp_correction (lpPositionOrEmpty b (ep_positions ep)) - ?d * ep_index ep"
     "lp_claimed (lpPositionOrEmpty b ?ps) = lp_claimed (lpPositionOrEmpty b (ep_positions ep))"
    using step by simp_all
  have "r' = r"
    by (rule lp.rebalanced_pending [OF holder]) (use assms(6,7) ps in \<open>simp_all add: lpPositionPending_at\<close>)
  with ps show ?thesis by simp
qed

text \<open>
  Retiring a fractional residue is exact. After an alert-free retirement the entitlement of the
  exiting position is the whole number of base units it has claimed, with no fraction left; the
  retired part is below one base unit and is added to the epoch's retired total; the epoch's vault
  still covers its liability and unallocated rewards, with the receipt's rounding reserve as the
  exact rest.
\<close>

theorem residue_retirement_exact:
  assumes "handle_LpFractionalResidueRetired g ctx e rr = Done ctx'" "cx_alerts ctx' = []" "lp_ledger (cx_next ctx)"
    and "map_get (pr_lpEpochs (cx_next ctx)) (rr_epoch rr) = Some ep"
  shows "\<exists>ep'. map_get (pr_lpEpochs (cx_next ctx')) (rr_epoch rr) = Some ep'
    \<and> (let p' = lpPositionOrEmpty (rr_owner rr) (ep_positions ep') in
       magnified (lp_shares p') (ep_index ep') (lp_correction p') = lp_claimed p' * REFLECTION_MAGNITUDE)
    \<and> 0 < rr_residueMagnified rr \<and> rr_residueMagnified rr < REFLECTION_MAGNITUDE
    \<and> ep_retiredResidueMagnified ep' = ep_retiredResidueMagnified ep + rr_residueMagnified rr
    \<and> ep_aggregateCorrection ep' = ep_aggregateCorrection ep - rr_residueMagnified rr
    \<and> epoch_backed ep' \<and> ep_roundingReserve ep' = rr_roundingReserveBaseUnits rr"
proof -
  have key: "ep_epoch ep = rr_epoch rr" using lp_ledger_get [OF assms(3,4)] by simp
  let ?cur = "lpPositionOrEmpty (rr_owner rr) (ep_positions ep)"
  let ?ep = "ep\<lparr>ep_aggregateCorrection := ep_aggregateCorrection ep - rr_residueMagnified rr,
     ep_retiredResidueMagnified := ep_retiredResidueMagnified ep + rr_residueMagnified rr,
     ep_positions := map_set (rr_owner rr) (?cur\<lparr>lp_correction := lp_correction ?cur - rr_residueMagnified rr\<rparr>) (ep_positions ep)\<rparr>"
  have "0 < rr_residueMagnified rr \<and> rr_residueMagnified rr < REFLECTION_MAGNITUDE
     \<and> rr_residueMagnified rr = lp_correction ?cur + lp_shares ?cur * ep_index ep - lp_claimed ?cur * REFLECTION_MAGNITUDE
     \<and> lpResidueRounding ?ep ''LP residue rounding reserve'' (ep_unallocatedRewards ep) = Inr (rr_roundingReserveBaseUnits rr)
     \<and> cx_next ctx' = updateEpoch (?ep\<lparr>ep_roundingReserve := rr_roundingReserveBaseUnits rr\<rparr>) (cx_next ctx)"
    using assms(1,2,4)
    by (auto simp: handle_LpFractionalResidueRetired_def requireEpoch_def Let_def attempt_Done_iff checked_iff throwing_def
        split: if_splits)
  then show ?thesis
    using key epoch_backed_rounding [of ?ep]
    by (auto simp: updateEpoch_def magnified_def epoch_backed_def lpIndexedLiability_def expectedLpVaultBalance_def
        split: sum.splits)
qed

end
