(* ===== verification/Scenario.thy ===== *)
theory Scenario
  imports Pool_Economics Solvency V02_Immutability
begin

text \<open>
  A concrete deployment, replayed step by step: adapter and first LP epoch, two wallets and their
  faucet grants, the liquidity seed, a sale with its reflection fee, custody route and LP reward. The
  intermediate projections are written out and the replay is evaluated on them; the witnesses of the
  properties (theory \<open>Witnesses\<close>) apply them there.
\<close>

section \<open>The events\<close>

definition at_version :: "int \<Rightarrow> nat \<Rightarrow> event_body \<Rightarrow> protocol_event" where
  "at_version version index b = \<lparr>ev_id = int_str version @ ''-'' @ nat_str index,
     ev_txHash = ''0x'' @ int_str version, ev_ledgerVersion = version, ev_eventIndex = int index,
     ev_timestampUnixMilliseconds = version, ev_source = Source_fixture, ev_body = b\<rparr>"

definition alice :: address where "alice = ''0xa''"
definition bob :: address where "bob = ''0xb''"

definition opening_group :: "protocol_event list" where
  "opening_group =
     [at_version 1 0 (CustodyAdapterRegistered \<lparr>ca_adapterId = 1, ca_reserveStore = ''0xc'', ca_firstEpoch = 1,
        ca_lpRewardVault = ''0xd''\<rparr>),
      at_version 1 1 (LpEpochOpened 1 ''0xe'' ''0xd'')]"

definition wallet_group :: "protocol_event list" where
  "wallet_group =
     [at_version 2 0 (WalletRegistered alice ''0x1a'' 1),
      at_version 2 1 (WalletRegistered bob ''0x1b'' 2),
      at_version 2 2 (FaucetGrant alice TRFL 1000000),
      at_version 2 3 (FaucetGrant bob TUSD 5000)]"

definition seed_group :: "protocol_event list" where
  "seed_group =
     [at_version 3 0 (CustodySharesChanged \<lparr>cs_added = True, cs_amount = 400000, cs_custodyShares = 400000,
        cs_globalShares = 1400000\<rparr>),
      at_version 3 1 (LpSharesChanged \<lparr>sc_epoch = 1, sc_owner = alice, sc_added = True, sc_amount = 600000,
        sc_ownerShares = 600000, sc_totalShares = 600000\<rparr>),
      at_version 3 2 (LiquiditySeeded \<lparr>lq_epoch = 1, lq_provider = alice, lq_trflAmount = 400000,
        lq_tusdAmount = 900000, lq_lpShares = 600000, lq_trflReserveAfter = 400000, lq_tusdReserveAfter = 900000\<rparr>)]"

definition sale :: swap_executed where
  "sale = \<lparr>sw_account = alice, sw_direction = Sell, sw_grossAmount = 200000, sw_reflectionFee = 2000,
     sw_ammFee = 594, sw_netReserveInput = 198000, sw_grossPoolOutput = 297394, sw_netUserReceipt = 297394,
     sw_trflReserveAfter = 598000, sw_tusdReserveAfter = 602606\<rparr>"

definition sale_fee :: reflection_fee_collected where
  "sale_fee = \<lparr>fc_swapTxHash = ''0x4'', fc_grossAmount = 200000, fc_feeAmount = 2000, fc_feeBps = 100\<rparr>"

definition sale_index :: reflection_index_advanced where
  "sale_index = \<lparr>ia_previousIndex = 0, ia_newIndex = 1666666666666666666666, ia_indexRemainder = 800000,
     ia_feeAmount = 2000, ia_eligibleSupply = 1200000\<rparr>"

definition sale_lp_index :: lp_reward_index_advanced where
  "sale_lp_index = \<lparr>la_epoch = 1, la_previousIndex = 0, la_newIndex = 1110000000000000000000, la_indexRemainder = 0,
     la_received = 666, la_totalShares = 600000, la_roundingReserve = 0\<rparr>"

definition sale_group :: "protocol_event list" where
  "sale_group =
     [at_version 4 0 (ReflectionFeeCollected sale_fee),
      at_version 4 1 (ReflectionIndexAdvanced sale_index),
      at_version 4 2 (CustodyRewardsRouted \<lparr>cr_reserveStore = ''0xc'', cr_lpRewardVault = ''0xd'', cr_epoch = 1,
        cr_amount = 666, cr_totalRouted = 666\<rparr>),
      at_version 4 3 (LpRewardIndexAdvanced sale_lp_index),
      at_version 4 4 (CustodySharesChanged \<lparr>cs_added = True, cs_amount = 198000, cs_custodyShares = 598000,
        cs_globalShares = 1398000\<rparr>),
      at_version 4 5 (SwapExecuted sale)]"

section \<open>The projections\<close>

definition seen_upto :: "(int \<times> nat) list \<Rightarrow> (string, string) jsmap" where
  "seen_upto groups = concat (map (\<lambda>(v, n). map (\<lambda>i. (int_str v @ ''-'' @ nat_str i, int_str v @ '':'' @ nat_str i)) [0..<n]) groups)"

definition first_epoch :: indexed_lp_epoch where
  "first_epoch = freshEpoch 1 ''0xe'' ''0xd''"

definition opened :: protocol_projection where
  "opened = createEmptyProjection\<lparr>
     pr_custody := (pr_custody createEmptyProjection)\<lparr>cu_adapterId := Some 1, cu_reserveStore := Some ''0xc'',
       cu_activeRouteEpoch := Some 1, cu_activeLpRewardVault := Some ''0xd''\<rparr>,
     pr_activeLpEpoch := Some 1, pr_lpEpochs := [(1, first_epoch)], pr_rewardVaultToEpoch := [(''0xd'', 1)],
     pr_stateIdToEpoch := [(''0xe'', 1)], pr_seenEventIds := seen_upto [(1, 2)]\<rparr>"

definition funded :: protocol_projection where
  "funded = opened\<lparr>
     pr_registeredWallets := [(alice, ''0x1a''), (bob, ''0x1b'')], pr_registeredWalletCount := 2,
     pr_eligibleSupply := 1000000,
     pr_positions := [(alice, (emptyPosition alice)\<lparr>ip_rawTrfl := 1000000\<rparr>), (bob, (emptyPosition bob)\<lparr>ip_rawTusd := 5000\<rparr>)],
     pr_seenEventIds := seen_upto [(1, 2), (2, 4)]\<rparr>"

definition seeded_epoch :: indexed_lp_epoch where
  "seeded_epoch = first_epoch\<lparr>ep_totalShares := 600000,
     ep_positions := [(alice, (emptyLpPosition alice)\<lparr>lp_shares := 600000\<rparr>)]\<rparr>"

definition seeded :: protocol_projection where
  "seeded = funded\<lparr>
     pr_eligibleSupply := 1400000,
     pr_pool := (pr_pool funded)\<lparr>po_trflReserve := 400000, po_tusdReserve := 900000, po_seeded := True\<rparr>,
     pr_custody := (pr_custody funded)\<lparr>cu_shares := 400000\<rparr>,
     pr_lpEpochs := [(1, seeded_epoch)],
     pr_seenEventIds := seen_upto [(1, 2), (2, 4), (3, 3)]\<rparr>"

definition rewarded_epoch :: indexed_lp_epoch where
  "rewarded_epoch = seeded_epoch\<lparr>ep_index := 1110000000000000000000, ep_lifetimeReceived := 666\<rparr>"

definition traded :: protocol_projection where
  "traded = seeded\<lparr>
     pr_currentIndex := 1666666666666666666666, pr_indexRemainder := 800000, pr_eligibleSupply := 1398000,
     pr_aggregateCorrection := - 329999999999999999999868000, pr_roundingReserve := 1,
     pr_rewardVaultCredits := 2000, pr_rewardVaultPayouts := 666, pr_lifetimeSwapFees := 2000,
     pr_lifetimeCustodyRouted := 666,
     pr_pool := (pr_pool seeded)\<lparr>po_trflReserve := 598000, po_tusdReserve := 602606\<rparr>,
     pr_custody := (pr_custody seeded)\<lparr>cu_shares := 598000, cu_correction := - 329999999999999999999868000,
       cu_claimed := 666, cu_lifetimeRouted := 666\<rparr>,
     pr_lpEpochs := [(1, rewarded_epoch)],
     pr_positions := [(alice, (emptyPosition alice)\<lparr>ip_rawTrfl := 800000, ip_rawTusd := 297394\<rparr>),
       (bob, (emptyPosition bob)\<lparr>ip_rawTusd := 5000\<rparr>)],
     pr_seenEventIds := seen_upto [(1, 2), (2, 4), (3, 3), (4, 6)]\<rparr>"

section \<open>The replay\<close>

lemma replay_opening:
  "reduceEventGroup createEmptyProjection opening_group = Inr \<lparr>rd_projection = opened, rd_alerts = []\<rparr>"
  by code_simp

lemma replay_wallets: "reduceEventGroup opened wallet_group = Inr \<lparr>rd_projection = funded, rd_alerts = []\<rparr>"
  by code_simp

lemma replay_seed: "reduceEventGroup funded seed_group = Inr \<lparr>rd_projection = seeded, rd_alerts = []\<rparr>"
  by code_simp

lemma replay_sale: "reduceEventGroup seeded sale_group = Inr \<lparr>rd_projection = traded, rd_alerts = []\<rparr>"
  by code_simp

lemma reachable_traded: "reachable traded"
proof -
  have "reachable opened" using reachable_group [OF reachable_empty replay_opening] by simp
  then have "reachable funded" using reachable_group [OF _ replay_wallets] by simp
  then have "reachable seeded" using reachable_group [OF _ replay_seed] by simp
  then show ?thesis using reachable_group [OF _ replay_sale] by simp
qed

end
