(* ===== verification/Live_Scenario.thy ===== *)
theory Live_Scenario
  imports Scenario Chain_Certification
begin

text \<open>
  The deployment of \<open>Scenario\<close> once more, now with its identity and authority events in the first
  transaction, so that its projection is ready; and the chain views that agree with it after the sale.
\<close>

definition launch_group :: "protocol_event list" where
  "launch_group =
     [at_version 1 0 (ProtocolInitialized \<lparr>pi_deploymentId = ''demo'', pi_networkLabel = ''cedra-testnet'',
        pi_tokenMetadata = ''0x70'', pi_automaticMaterialization = True, pi_feeBps = 100, pi_initialIndex = 0,
        pi_packageVersion = ''testnet-v0.1.0'', pi_rewardVault = ''0x71'', pi_distributionVault = ''0x72'',
        pi_protocolExclusionSlots = 2\<rparr>),
      at_version 1 1 (OperationalAdminChanged Scope_reflection_core ''0x0'' ''0xad''),
      at_version 1 2 (OperationalAdminChanged Scope_test_assets ''0x0'' ''0xad''),
      at_version 1 3 (OperationalAdminChanged Scope_test_amm ''0x0'' ''0xad''),
      at_version 1 4 (PoolReserveBound ''0x73'' ''0x74''),
      at_version 1 5 (CustodyAdapterRegistered \<lparr>ca_adapterId = 1, ca_reserveStore = ''0xc'', ca_firstEpoch = 1,
        ca_lpRewardVault = ''0xd''\<rparr>),
      at_version 1 6 (LpEpochOpened 1 ''0xe'' ''0xd''),
      at_version 1 7 (WalletRegistered alice ''0x1a'' 1),
      at_version 1 8 (WalletRegistered bob ''0x1b'' 2),
      at_version 1 9 (FaucetGrant alice TRFL 1000000),
      at_version 1 10 (FaucetGrant bob TUSD 5000)]"

definition deployed :: "(int \<times> nat) list \<Rightarrow> protocol_projection \<Rightarrow> protocol_projection" where
  "deployed seen pr = pr\<lparr>pr_deploymentId := ''demo'', pr_networkLabel := ''cedra-testnet'', pr_tokenMetadata := Some ''0x70'',
     pr_protocolExclusionSlots := 2, pr_protocolExclusionsRemaining := 2, pr_automaticMaterialization := True,
     pr_packageVersion := ''testnet-v0.1.0'', pr_rewardVault := Some ''0x71'', pr_distributionVault := Some ''0x72'',
     pr_mockUsdPoolReserve := Some ''0x73'',
     pr_operationalAdmins := \<lparr>oa_reflectionCore = Some ''0xad'', oa_testAssets = Some ''0xad'', oa_testAmm = Some ''0xad''\<rparr>,
     pr_deploymentReady := True, pr_seenEventIds := seen_upto seen\<rparr>"

definition launched :: protocol_projection where "launched = deployed [(1, 11)] funded"
definition live_seeded :: protocol_projection where "live_seeded = deployed [(1, 11), (3, 3)] seeded"
definition live :: protocol_projection where "live = deployed [(1, 11), (3, 3), (4, 6)] traded"

lemma replay_launch:
  "reduceEventGroup createEmptyProjection launch_group = Inr \<lparr>rd_projection = launched, rd_alerts = []\<rparr>"
  by code_simp

lemma replay_live_seed: "reduceEventGroup launched seed_group = Inr \<lparr>rd_projection = live_seeded, rd_alerts = []\<rparr>"
  by code_simp

lemma replay_live_sale: "reduceEventGroup live_seeded sale_group = Inr \<lparr>rd_projection = live, rd_alerts = []\<rparr>"
  by code_simp

lemma reachable_live: "reachable live"
proof -
  have "reachable launched" using reachable_group [OF reachable_empty replay_launch] by simp
  then have "reachable live_seeded" using reachable_group [OF _ replay_live_seed] by simp
  then show ?thesis using reachable_group [OF _ replay_live_sale] by simp
qed


section \<open>The chain after the sale\<close>

definition chain_epoch :: observed_lp_epoch where
  "chain_epoch = \<lparr>oe_epoch = 1, oe_stateId = ''0xe'', oe_status = Active, oe_rewardVault = ''0xd'',
     oe_rewardVaultBalance = 666, oe_index = 1110000000000000000000, oe_indexRemainder = 0, oe_totalShares = 600000,
     oe_aggregateCorrection = 0, oe_unallocatedRewards = 0, oe_roundingReserve = 0, oe_terminalRoundingBaseUnits = 0,
     oe_retiredResidueMagnified = 0, oe_lifetimeReceived = 666, oe_lifetimeClaimed = 0, oe_quarantined = False,
     oe_indexedLiability = 666,
     oe_positions = [\<lparr>ol_owner = alice, ol_shares = 600000, ol_correction = 0, ol_claimed = 0\<rparr>]\<rparr>"

definition chain :: observed_snapshot where
  "chain = \<lparr>ob_chainId = 2, ob_ledgerVersion = 4, ob_deploymentId = ''demo'', ob_networkLabel = ''cedra-testnet'',
     ob_tokenMetadata = ''0x70'', ob_protocolExclusionsRemaining = 2, ob_registeredWalletCount = 2,
     ob_registeredWalletAccounts = [bob, alice], ob_automaticMaterialization = True, ob_lifecycle = None,
     ob_reflectionFeeBps = None, ob_rewardVault = ''0x71'', ob_rewardVaultBalance = 1334, ob_reflectionLiability = 1333,
     ob_currentIndex = 1666666666666666666666, ob_indexRemainder = 800000, ob_eligibleSupply = 1398000,
     ob_aggregateCorrection = - 329999999999999999999868000, ob_unallocatedFees = 0, ob_roundingReserve = 1,
     ob_lifetimeSwapFees = 2000, ob_lifetimeMaterialized = 0, ob_lifetimeCustodyRouted = 666, ob_custodyAdapterId = 1,
     ob_custodyReserveStore = ''0xc'', ob_poolRflReserveStore = ''0xc'', ob_poolUsdReserveStore = ''0x73'',
     ob_mockUsdPoolReserve = ''0x73'', ob_custodyReserveBalance = 598000, ob_custodyShares = 598000,
     ob_custodyCorrection = - 329999999999999999999868000, ob_custodyClaimed = 666, ob_custodyPendingRewards = 0,
     ob_custodyActiveRouteEpoch = 1, ob_custodyActiveLpRewardVault = ''0xd'', ob_trflReserve = 598000,
     ob_tusdReserve = 602606, ob_ammFeeBps = 30, ob_maximumGrossSwap = 0, ob_maximumReserveBps = 0,
     ob_maximumRflContribution = 100000000000, ob_maximumTusdContribution = 100000000000,
     ob_maximumNonFinalWithdrawalShareBps = 10000, ob_activeLpEpoch = Some 1, ob_lpEpochs = [chain_epoch],
     ob_positions = [\<lparr>op_account = bob, op_rawTrfl = 0, op_correction = 0, op_claimed = 0\<rparr>,
       \<lparr>op_account = alice, op_rawTrfl = 800000, op_correction = 0, op_claimed = 0\<rparr>],
     ob_packageVersion = ''testnet-v0.1.0'', ob_swapsPaused = False, ob_claimsPaused = False, ob_faucetPaused = False,
     ob_faucetTrflGrant = 1000000000, ob_faucetTusdGrant = 1000000000, ob_faucetCooldownSeconds = 3600,
     ob_poolPaused = False, ob_liquidityPaused = False, ob_lpClaimsPaused = False, ob_shutdownMode = False,
     ob_poolSeeded = True, ob_coreOperationalAdmin = Some ''0xad'', ob_faucetOperationalAdmin = Some ''0xad'',
     ob_ammOperationalAdmin = Some ''0xad''\<rparr>"

definition live_cursor :: event_cursor where
  "live_cursor = \<lparr>cur_ledgerVersion = 4, cur_eventIndex = 5\<rparr>"

definition clean_report :: reconciliation_report where
  "clean_report = \<lparr>rp_ledgerVersion = 4, rp_expectedRewardVaultBalance = 1334, rp_calculatedReflectionLiability = 1333,
     rp_backingSurplus = 1, rp_lpEpochs = [\<lparr>lr_epoch = 1, lr_expectedVaultBalance = 666, lr_calculatedLiability = 666,
       lr_backingSurplus = 0\<rparr>], rp_alerts = [], rp_reconciled = True\<rparr>"

lemma reconcile_live: "reconcile 0 live chain (Some live_cursor) = Inr clean_report"
  by code_simp

end
