(* ===== verification/Snapshot_Witnesses.thy ===== *)
theory Snapshot_Witnesses
  imports Snapshot_Roundtrip Snapshot_Domains Live_Scenario
begin

text \<open>The snapshot of the live scenario, with a constant digest.\<close>

definition zero_digest :: "string \<Rightarrow> string" where
  "zero_digest x = replicate 64 (CHR ''0'')"

definition live_snapshot :: indexer_snapshot where
  "live_snapshot = \<lparr>sn_schemaVersion = 1, sn_id = ''snapshot-'' @ replicate 64 (CHR ''0''), sn_takenAtUnixMilliseconds = 1700000000000,
     sn_cursor = Some live_cursor, sn_projection = live\<rparr>"

lemma hex_zero_digest: "hex_digest zero_digest"
  by (simp add: hex_digest_def zero_digest_def list_all_iff is_lower_hex_def is_digit_def)

lemma live_is_valid: "isProjection (serialiseProjection live)"
  by code_simp

lemma take_live: "takeSnapshot zero_digest live (Some live_cursor) 1700000000000 = Inr live_snapshot"
proof -
  have "isMoveUnsigned 1700000000000 U64" "isCursor (Some (serialise_cursor (Some live_cursor)))" by code_simp+
  with live_is_valid show ?thesis unfolding takeSnapshot_Inr by (simp add: snapshotId_def zero_digest_def live_snapshot_def)
qed

lemma keyed_live: "keyed live"
  using keyed_group.reachable_keeps reachable_live by blast

theorem snapshot_round_trip_witness:
  "takeSnapshot zero_digest live (Some live_cursor) 1700000000000 = Inr live_snapshot
   \<and> decodeSnapshot zero_digest (encodeSnapshot live_snapshot) = Inr live_snapshot"
  using snapshot_round_trip [OF take_live keyed_live hex_zero_digest] take_live by simp

theorem decoded_snapshot_is_well_formed_witness:
  "decodeSnapshot zero_digest (encodeSnapshot live_snapshot) = Inr live_snapshot
   \<and> assertProjectionMoveDomains (sn_projection live_snapshot) = Inr () \<and> sn_cursor live_snapshot = Some live_cursor"
  using decoded_snapshot_is_well_formed [OF taken_snapshot_decodes [OF take_live keyed_live hex_zero_digest]]
    taken_snapshot_decodes [OF take_live keyed_live hex_zero_digest]
  by (simp add: live_snapshot_def)

section \<open>Reconciliation with the chain views of the scenario\<close>

theorem reconciled_iff_chain_agrees_witness:
  "jsmap_ok (pr_registeredWallets live) \<and> reconcile 0 live chain (Some live_cursor) = Inr clean_report
   \<and> replay_ready live \<and> chain_agrees live chain"
proof -
  have ok: "jsmap_ok (pr_registeredWallets live)" by code_simp
  have "rp_reconciled clean_report" by (simp add: clean_report_def)
  with reconciled_iff_chain_agrees [OF ok reconcile_live] ok reconcile_live show ?thesis by blast
qed

theorem reconciled_chain_is_solvent_witness:
  "sum_list [0, 1333] + ob_custodyPendingRewards chain + ob_unallocatedFees chain + ob_roundingReserve chain
     \<le> ob_rewardVaultBalance chain"
proof (rule reconciled_chain_is_solvent [OF reachable_live reconcile_live])
  show "rp_reconciled clean_report" by (simp add: clean_report_def)
  show "distinct (map op_account (ob_positions chain))" by code_simp
  show "list_all2 (\<lambda>c r. walletPending (observed_holder c) (ob_currentIndex chain) = Inr r) (ob_positions chain) [0, 1333]"
    by code_simp
qed

end
