(* ===== verification/Group_Witnesses.thy ===== *)
theory Group_Witnesses
  imports Scenario
begin

text \<open>
  Two more groups of the deployment: a liquidity addition after the sale, and the creation and launch
  of a v0.2 deployment, with the properties they instantiate.
\<close>

definition addition :: liquidity_receipt where
  "addition = \<lparr>lq_epoch = 1, lq_provider = alice, lq_trflAmount = 59800, lq_tusdAmount = 60261, lq_lpShares = 60000,
     lq_trflReserveAfter = 657800, lq_tusdReserveAfter = 662867\<rparr>"

definition addition_group :: "protocol_event list" where
  "addition_group =
     [at_version 5 0 (CustodySharesChanged \<lparr>cs_added = True, cs_amount = 59800, cs_custodyShares = 657800,
        cs_globalShares = 1457800\<rparr>),
      at_version 5 1 (LpSharesChanged \<lparr>sc_epoch = 1, sc_owner = alice, sc_added = True, sc_amount = 60000,
        sc_ownerShares = 660000, sc_totalShares = 660000\<rparr>),
      at_version 5 2 (LiquidityAdded addition)]"


definition creation_group :: "protocol_event list" where
  "creation_group = [at_version 1 0 (TokenCreated \<lparr>tc_eventSchema = ''v0.2'', tc_deploymentId = ''deployment'',
     tc_networkLabel = ''cedra-testnet'', tc_tokenMetadata = ''0x10'', tc_rewardVault = ''0x11'',
     tc_distributionVault = ''0x12'', tc_reflectionFeeBps = 100, tc_totalSupply = 1000000000000000, tc_decimals = 6,
     tc_packageVersion = V02\<rparr>)]"

definition seal_group :: "protocol_event list" where
  "seal_group = [at_version 2 0 (LaunchSealed \<lparr>ls_eventSchema = ''v0.2'', ls_reflectionFeeBps = 100, ls_ammFeeBps = 30,
     ls_maximumReserveBps = 2000, ls_maximumGrossSwap = 100000000000, ls_maximumRflContribution = 100000000000,
     ls_maximumTusdContribution = 100000000000, ls_maximumNonFinalWithdrawalShareBps = 10000,
     ls_faucetTrflGrant = 1000000000, ls_faucetTusdGrant = 1000000000, ls_faucetCooldownSeconds = 3600,
     ls_bootstrap = ''0x13'', ls_rflReserve = ''0x14'', ls_usdReserve = ''0x15'', ls_lpRewardVault = ''0x16'',
     ls_seedRfl = 500000000, ls_seedUsd = 500000000, ls_initialLpShares = 500000000\<rparr>)]"

definition created :: protocol_projection where
  "created = createEmptyProjection\<lparr>pr_deploymentId := ''deployment'', pr_networkLabel := ''cedra-testnet'',
     pr_tokenMetadata := Some ''0x10'', pr_automaticMaterialization := True, pr_packageVersion := V02,
     pr_lifecycle := Some CONFIGURING, pr_rewardVault := Some ''0x11'', pr_distributionVault := Some ''0x12'',
     pr_seenEventIds := seen_upto [(1, 1)]\<rparr>"

lemma replay_creation:
  "reduceEventGroup createEmptyProjection creation_group = Inr \<lparr>rd_projection = created, rd_alerts = []\<rparr>"
  by code_simp

lemma seal_is_quiet: "\<exists>r. reduceEventGroup created seal_group = Inr r \<and> rd_alerts r = []"
proof -
  have "(case reduceEventGroup created seal_group of Inr r \<Rightarrow> rd_alerts r = [] | _ \<Rightarrow> False)" by code_simp
  then show ?thesis by (auto split: sum.splits)
qed


end
