(* ===== verification/Checkpoint_Witnesses.thy ===== *)
theory Checkpoint_Witnesses
  imports Checkpoints Worker_Progress Snapshot_Witnesses Group_Witnesses
begin

text \<open>
  One cycle of the worker on an empty store over the whole history of \<open>Live_Scenario\<close>, delivered as a
  single page, and the refusal of a v0.2 deployment.
\<close>

definition live_source :: event_provider where
  "live_source = \<lparr>
     es_listEvents = (\<lambda>after limit. Inr \<lparr>pg_chainId = 2, pg_events = launch_group @ seed_group @ sale_group, pg_nextCursor = None\<rparr>),
     es_getAccountingSnapshot = (\<lambda>version. Inr chain)\<rparr>"

definition live_result :: process_result where
  "live_result = \<lparr>ps_processedEvents = 20, ps_skippedEvents = 0, ps_rejectedEvents = 0, ps_cursor = Some live_cursor, ps_alerts = []\<rparr>"

abbreviation empty_view :: indexer_view where
  "empty_view \<equiv> \<lparr>iv_projection = createEmptyProjection, iv_cursor = None\<rparr>"

abbreviation live_view :: indexer_view where
  "live_view \<equiv> \<lparr>iv_projection = live, iv_cursor = Some live_cursor\<rparr>"

lemma live_groups: "page_groups empty_view (launch_group @ seed_group @ sale_group) = [launch_group, seed_group, sale_group]"
  by code_simp

lemma live_group_ends:
  "eventCursor (last launch_group) = \<lparr>cur_ledgerVersion = 1, cur_eventIndex = 10\<rparr>"
  "eventCursor (last seed_group) = \<lparr>cur_ledgerVersion = 3, cur_eventIndex = 2\<rparr>"
  "eventCursor (last sale_group) = live_cursor"
  "ev_ledgerVersion (hd seed_group) = 3" "ev_ledgerVersion (hd sale_group) = 4"
  "length launch_group = 11" "length seed_group = 3" "length sale_group = 6"
  by (simp_all add: launch_group_def seed_group_def sale_group_def at_version_def eventCursor_def live_cursor_def)

lemma live_commits: "commits empty_view [launch_group, seed_group, sale_group] live_view"
  by (simp add: replay_launch replay_live_seed replay_live_sale live_group_ends covered_def compareCursor_def eventCursor_def [of "hd _"])

lemma live_page: "process_page empty_view (launch_group @ seed_group @ sale_group) = Inr (live_view, live_result)"
  unfolding process_page_Inr live_groups
  by (intro exI conjI, rule run_groups_commits [OF live_commits]) (simp add: live_result_def live_group_ends covered_def)

lemma live_ready: "pr_deploymentReady live" "authoritiesComplete live"
  by (simp_all add: live_def deployed_def authoritiesComplete_def)

abbreviation fresh_world :: "memory_store event_indexer" where
  "fresh_world \<equiv> EventIndexer InMemoryIndexerStore"

abbreviation live_cycle :: "(memory_store event_indexer, worker_run_result) proc" where
  "live_cycle \<equiv> runOnce zero_digest memory_ops live_source (\<lambda>_. Inr ()) 0 1700000000000 200"

lemma fresh_world_facts:
  "ei_activeStateOwner fresh_world = None" "\<not> ms_writerActive (ei_store fresh_world)" "ms_latest (ei_store fresh_world) = None"
  "durable_view (ei_store fresh_world) = empty_view"
  by (simp_all add: EventIndexer_def InMemoryIndexerStore_def durable_view_def)

lemma live_source_facts:
  "es_listEvents live_source after limit = Inr \<lparr>pg_chainId = 2, pg_events = launch_group @ seed_group @ sale_group, pg_nextCursor = None\<rparr>"
  "es_getAccountingSnapshot live_source v = Inr chain" "ob_chainId chain = 2"
  by (simp_all add: live_source_def chain_def)

lemma live_cycle_premises:
  "\<forall>l. ms_latest (ei_store fresh_world) = Some l \<longrightarrow> decodeSnapshot zero_digest (encodeSnapshot l) = Inr l"
  "es_listEvents live_source (iv_cursor (durable_view (ei_store fresh_world))) 200 =
     Inr \<lparr>pg_chainId = 2, pg_events = launch_group @ seed_group @ sale_group, pg_nextCursor = None\<rparr>"
  "pg_chainId \<lparr>pg_chainId = 2, pg_events = launch_group @ seed_group @ sale_group, pg_nextCursor = None\<rparr> = CEDRA_TESTNET_CHAIN_ID"
  "process_page (durable_view (ei_store fresh_world)) (pg_events \<lparr>pg_chainId = 2, pg_events = launch_group @ seed_group @ sale_group,
     pg_nextCursor = None\<rparr>) = Inr (live_view, live_result)"
  "ps_alerts live_result = []" "iv_cursor live_view = Some live_cursor"
  "es_getAccountingSnapshot live_source (cur_ledgerVersion live_cursor) = Inr chain" "ob_chainId chain = CEDRA_TESTNET_CHAIN_ID"
  "reconcile 0 (iv_projection live_view) chain (Some live_cursor) = Inr clean_report" "rp_reconciled clean_report"
  "pr_deploymentReady (iv_projection live_view)" "authoritiesComplete (iv_projection live_view)"
  "takeSnapshot zero_digest (iv_projection live_view) (Some live_cursor) 1700000000000 = Inr live_snapshot"
  using fresh_world_facts live_source_facts live_page reconcile_live live_ready take_live
  by (simp_all add: live_result_def clean_report_def CEDRA_TESTNET_CHAIN_ID_def)


lemma live_cycle_schedule:
  "\<exists>ps. interleaved (range (call_proc zero_digest memory_ops)) fresh_world (snd (run live_cycle fresh_world)) ps"
proof -
  let ?call = "call_proc zero_digest memory_ops (Run_once live_source (\<lambda>_. Inr ()) 0 1700000000000 200)"
  have "snd (run ?call fresh_world) = snd (run live_cycle fresh_world)"
    by (simp add: ignored_def run_pbind split: prod.split sum.split)
  with run_is_schedule [OF interleaved.start, of ?call] show ?thesis by (metis rangeI)
qed

theorem checkpoints_are_certified_witness:
  "reachable (sn_projection live_snapshot) \<and> decodeSnapshot zero_digest (encodeSnapshot live_snapshot) = Inr live_snapshot
   \<and> (\<exists>now obs rep. reconcile now live obs (Some live_cursor) = Inr rep \<and> rp_reconciled rep \<and> chain_agrees live obs)"
proof -
  obtain ps where ps: "interleaved (range (call_proc zero_digest memory_ops)) fresh_world (snd (run live_cycle fresh_world)) ps"
    using live_cycle_schedule ..
  have "ms_latest (ei_store (snd (run live_cycle fresh_world))) = Some live_snapshot"
    using clean_cycle [OF fresh_world_facts(1,2) live_cycle_premises(1) _ _ live_cycle_premises(2-13), of "\<lambda>_. Inr ()"] by auto
  from checkpoints_are_certified [OF hex_zero_digest _ ps this] show ?thesis
    by (auto simp: InMemoryIndexerStore_def live_snapshot_def)
qed


end
