(* ===== verification/Witnesses.thy ===== *)
theory Witnesses
  imports Scenario Event_Processing
begin

text \<open>
  The properties of the reducer theories applied to the concrete deployment of \<open>Scenario\<close>: each
  witness discharges the hypotheses of one theorem on evaluated data.
\<close>

section \<open>Witnesses: reachable projections and groups\<close>

theorem core_vault_covers_all_pending_witness:
  "\<exists>vault. expectedCoreVaultBalance traded = Inr vault
    \<and> 1333 + pr_unallocatedFees traded + pr_roundingReserve traded \<le> vault"
proof -
  have "list_all2 (\<lambda>p r. walletPending p (pr_currentIndex traded) = Inr r) (map_values (pr_positions traded)) [1333, 0]"
    by code_simp
  moreover have "custodyPending traded = Inr 0" by code_simp
  ultimately show ?thesis using core_vault_covers_all_pending [OF reachable_traded] by fastforce
qed

theorem lp_vault_covers_all_pending_witness:
  "\<exists>vault. expectedLpVaultBalance rewarded_epoch = Inr vault \<and> 666 + ep_unallocatedRewards rewarded_epoch \<le> vault"
proof -
  have "map_get (pr_lpEpochs traded) 1 = Some rewarded_epoch" by (simp add: traded_def map_get_def)
  moreover have "list_all2 (\<lambda>p r. lpPositionPending p rewarded_epoch = Inr r) (map_values (ep_positions rewarded_epoch)) [666]"
    by code_simp
  ultimately show ?thesis using lp_vault_covers_all_pending [OF reachable_traded] by fastforce
qed

theorem reachable_ledgers_balance_witness:
  "sumWalletShares (pr_positions traded) + 598000 = 1398000 \<and> pr_rewardVaultPayouts traded = 0 + 666"
  using reachable_ledgers_balance [OF reachable_traded] by (simp add: traded_def seeded_def funded_def opened_def createEmptyProjection_def)

theorem reachable_in_move_domains_witness: "assertProjectionMoveDomains traded = Inr ()"
  using reachable_in_move_domains [OF reachable_traded] .

theorem group_is_atomic_witness:
  "fully_backed traded \<and> map_has (pr_seenEventIds traded) (ev_id (hd sale_group))"
  using group_is_atomic [OF replay_sale] by (simp add: sale_group_def)

theorem quiet_group_is_one_fresh_transaction_witness:
  "distinct (map ev_id sale_group) \<and> \<not> map_has (pr_seenEventIds seeded) (ev_id (hd sale_group))"
  using quiet_group_is_one_fresh_transaction [OF replay_sale] by (simp add: sale_group_def)


theorem group_order_irrelevant_witness:
  "reduceEventGroup opened (rev wallet_group) = Inr \<lparr>rd_projection = funded, rd_alerts = []\<rparr>"
proof -
  have "distinct (map ev_eventIndex wallet_group)" by (simp add: wallet_group_def at_version_def)
  then show ?thesis using group_order_irrelevant [of wallet_group "rev wallet_group" opened] replay_wallets by simp
qed


section \<open>Witnesses: pages\<close>

text \<open>
  Two pages of the deployment of \<open>Scenario\<close>, delivered out of order: the theorems about page
  processing applied to them.
\<close>

definition fresh_indexer :: indexer_view where
  "fresh_indexer = \<lparr>iv_projection = createEmptyProjection, iv_cursor = None\<rparr>"

definition opened_indexer :: indexer_view where
  "opened_indexer = \<lparr>iv_projection = opened, iv_cursor = Some \<lparr>cur_ledgerVersion = 1, cur_eventIndex = 1\<rparr>\<rparr>"

definition funded_indexer :: indexer_view where
  "funded_indexer = \<lparr>iv_projection = funded, iv_cursor = Some \<lparr>cur_ledgerVersion = 2, cur_eventIndex = 3\<rparr>\<rparr>"

lemma first_page_groups: "page_groups fresh_indexer (wallet_group @ opening_group) = [opening_group, wallet_group]"
  by code_simp

lemma second_page_groups: "page_groups opened_indexer (rev wallet_group @ opening_group) = [wallet_group]"
  by code_simp

lemma group_ends:
  "hd opening_group = at_version 1 0 (CustodyAdapterRegistered \<lparr>ca_adapterId = 1, ca_reserveStore = ''0xc'', ca_firstEpoch = 1,
        ca_lpRewardVault = ''0xd''\<rparr>)"
  "last opening_group = at_version 1 1 (LpEpochOpened 1 ''0xe'' ''0xd'')"
  "hd wallet_group = at_version 2 0 (WalletRegistered alice ''0x1a'' 1)"
  "last wallet_group = at_version 2 3 (FaucetGrant bob TUSD 5000)"
  "length opening_group = 2" "length wallet_group = 4"
  by (simp_all add: opening_group_def wallet_group_def)

lemma second_page_run: "run_groups opened_indexer [wallet_group] = Inr (funded_indexer, 4, 0, [])"
  by (simp add: opened_indexer_def funded_indexer_def replay_wallets group_ends covered_def compareCursor_def
      eventCursor_def at_version_def)

lemma opened_next: "\<lparr>iv_projection = opened, iv_cursor = Some (eventCursor (last opening_group))\<rparr> = opened_indexer"
  by (simp add: opened_indexer_def group_ends eventCursor_def at_version_def)

lemma first_page_run: "run_groups fresh_indexer [opening_group, wallet_group] = Inr (funded_indexer, 6, 0, [])"
proof -
  have "iv_projection fresh_indexer = createEmptyProjection" "iv_cursor fresh_indexer = None"
    by (simp_all add: fresh_indexer_def)
  then show ?thesis
    by (simp only: run_groups.simps(2) [of fresh_indexer] replay_opening rbind_simps)
      (simp add: opened_next second_page_run group_ends(5) covered_def del: run_groups.simps)
qed

theorem processing_is_idempotent_witness:
  "process_page funded_indexer (wallet_group @ opening_group) = Inr (funded_indexer, \<lparr>ps_processedEvents = 0,
     ps_skippedEvents = 6, ps_rejectedEvents = 0, ps_cursor = iv_cursor funded_indexer, ps_alerts = []\<rparr>)"
proof -
  obtain res where "process_page fresh_indexer (wallet_group @ opening_group) = Inr (funded_indexer, res)" "ps_alerts res = []"
    using first_page_run by (auto simp: process_page_Inr first_page_groups)
  from processing_is_idempotent [OF this] show ?thesis by (simp add: group_ends)
qed

theorem cursor_never_moves_back_witness:
  "compareCursor \<lparr>cur_ledgerVersion = 1, cur_eventIndex = 1\<rparr> \<lparr>cur_ledgerVersion = 2, cur_eventIndex = 3\<rparr> < 0"
proof -
  obtain res where "process_page opened_indexer (rev wallet_group @ opening_group) = Inr (funded_indexer, res)"
    "ps_processedEvents res = 4"
    using second_page_run by (auto simp: process_page_Inr second_page_groups)
  moreover have "iv_cursor opened_indexer = Some \<lparr>cur_ledgerVersion = 1, cur_eventIndex = 1\<rparr>"
    by (simp add: opened_indexer_def)
  ultimately show ?thesis using cursor_never_moves_back by (fastforce simp: funded_indexer_def)
qed

end
