(* ===== verification/Step_Witnesses.thy ===== *)
theory Step_Witnesses
  imports Scenario
begin

text \<open>
  The properties of single replay steps applied to contexts taken from the deployment of
  \<open>Scenario\<close>, and the immutability of v0.2 applied to the launch of a v0.2 deployment.
\<close>

section \<open>Wallet and LP steps\<close>

text \<open>A step context: a projection, the event being replayed, and no alerts.\<close>

definition ctx_of :: "protocol_projection \<Rightarrow> protocol_event \<Rightarrow> reducer_context" where
  "ctx_of pr e = initial_context pr e []"

definition transfer_event :: protocol_event where
  "transfer_event = at_version 5 0 (EligibleBalanceDebited alice 1000)"

theorem adjust_keeps_pending_witness:
  "\<exists>ctx'. adjustWalletAsset (ctx_of traded transfer_event) alice TRFL (- 1000) transfer_event = Done ctx'
     \<and> walletPending (positionOrEmpty alice (pr_positions (cx_next ctx'))) (pr_currentIndex (cx_next ctx')) = Inr 1333"
proof -
  have "walletFits (cx_next (ctx_of traded transfer_event)) alice TRFL (- 1000)" by code_simp
  then obtain ctx' where step: "adjustWalletAsset (ctx_of traded transfer_event) alice TRFL (- 1000) transfer_event = Done ctx'"
    by (simp add: adjustWalletAsset_Done)
  then have next_eq: "cx_next ctx' = walletAdjusted alice TRFL (- 1000) traded"
    by (simp add: adjustWalletAsset_Done ctx_of_def initial_context_def)
  have "isl (walletPending (positionOrEmpty alice (pr_positions (walletAdjusted alice TRFL (- 1000) traded)))
      (pr_currentIndex (walletAdjusted alice TRFL (- 1000) traded))) = False"
    by code_simp
  then obtain r where r: "walletPending (positionOrEmpty alice (pr_positions (cx_next ctx'))) (pr_currentIndex (cx_next ctx')) = Inr r"
    unfolding next_eq by (auto simp: isl_def) (metis sumE)
  have "walletPending (positionOrEmpty alice (pr_positions (cx_next (ctx_of traded transfer_event))))
      (pr_currentIndex (cx_next (ctx_of traded transfer_event))) = Inr 1333"
    by code_simp
  from adjust_keeps_pending [OF step this r] step r show ?thesis by simp
qed

definition lp_transfer :: lp_shares_transferred where
  "lp_transfer = \<lparr>st_epoch = 1, st_sender = alice, st_recipient = bob, st_amount = 200000\<rparr>"

definition lp_transfer_event :: protocol_event where
  "lp_transfer_event = at_version 5 0 (LpSharesTransferred lp_transfer)"

definition split_epoch :: indexed_lp_epoch where
  "split_epoch = rewarded_epoch\<lparr>ep_positions :=
     [(alice, (emptyLpPosition alice)\<lparr>lp_shares := 400000, lp_correction := 222000000000000000000000000\<rparr>),
      (bob, (emptyLpPosition bob)\<lparr>lp_shares := 200000, lp_correction := - 222000000000000000000000000\<rparr>)]\<rparr>"

theorem lp_transfer_keeps_pending_witness:
  "\<exists>r. lpPositionPending (lpPositionOrEmpty alice (ep_positions split_epoch)) split_epoch = Inr r \<and> r = 666"
proof -
  let ?ctx = "ctx_of traded lp_transfer_event"
  have step: "handle_LpSharesTransferred ?ctx lp_transfer_event lp_transfer
      = Done (ctx_of (traded\<lparr>pr_lpEpochs := [(1, split_epoch)]\<rparr>) lp_transfer_event)"
    by code_simp
  have quiet: "cx_alerts (ctx_of (traded\<lparr>pr_lpEpochs := [(1, split_epoch)]\<rparr>) lp_transfer_event) = []" by code_simp
  have ledger: "lp_ledger (cx_next ?ctx)" by code_simp
  have old: "map_get (pr_lpEpochs (cx_next ?ctx)) (st_epoch lp_transfer) = Some rewarded_epoch" by code_simp
  have new: "map_get (pr_lpEpochs (cx_next (ctx_of (traded\<lparr>pr_lpEpochs := [(1, split_epoch)]\<rparr>) lp_transfer_event)))
      (st_epoch lp_transfer) = Some split_epoch" by code_simp
  have before: "lpPositionPending (lpPositionOrEmpty alice (ep_positions rewarded_epoch)) rewarded_epoch = Inr 666" by code_simp
  have "isl (lpPositionPending (lpPositionOrEmpty alice (ep_positions split_epoch)) split_epoch) = False" by code_simp
  then obtain r where r: "lpPositionPending (lpPositionOrEmpty alice (ep_positions split_epoch)) split_epoch = Inr r"
    by (auto simp: isl_def) (metis sumE)
  from lp_transfer_keeps_pending [OF step quiet ledger old new before r] r show ?thesis by simp
qed

text \<open>
  An epoch in which Alice's three shares have earned one and a half base units and she has claimed
  one: leaving it retires half a unit.
\<close>

definition exit_epoch :: indexed_lp_epoch where
  "exit_epoch = first_epoch\<lparr>ep_index := 500000000000000000000000, ep_totalShares := 3, ep_lifetimeReceived := 2,
     ep_lifetimeClaimed := 1, ep_roundingReserve := 1,
     ep_positions := [(alice, (emptyLpPosition alice)\<lparr>lp_shares := 3, lp_claimed := 1\<rparr>)]\<rparr>"

definition residue :: lp_residue_retired where
  "residue = \<lparr>rr_epoch = 1, rr_owner = alice, rr_residueMagnified = 500000000000000000000000,
     rr_cumulativeRetiredResidueMagnified = 500000000000000000000000, rr_roundingReserveBaseUnits = 1\<rparr>"

definition exit_group :: "protocol_event list" where
  "exit_group = [at_version 5 0 (LpFractionalResidueRetired residue),
     at_version 5 1 (LpSharesChanged \<lparr>sc_epoch = 1, sc_owner = alice, sc_added = False, sc_amount = 3,
       sc_ownerShares = 0, sc_totalShares = 0\<rparr>)]"

definition exiting :: protocol_projection where
  "exiting = traded\<lparr>pr_lpEpochs := [(1, exit_epoch)]\<rparr>"

theorem residue_retirement_exact_witness:
  "\<exists>ctx' ep'. handle_LpFractionalResidueRetired \<lparr>gr_prior = exiting, gr_events = exit_group\<rparr>
       (ctx_of exiting (hd exit_group)) (hd exit_group) residue = Done ctx'
     \<and> map_get (pr_lpEpochs (cx_next ctx')) 1 = Some ep' \<and> ep_retiredResidueMagnified ep' = 500000000000000000000000"
proof -
  let ?out = "handle_LpFractionalResidueRetired \<lparr>gr_prior = exiting, gr_events = exit_group\<rparr>
       (ctx_of exiting (hd exit_group)) (hd exit_group) residue"
  have "(case ?out of Done c \<Rightarrow> cx_alerts c = [] | _ \<Rightarrow> False)" by code_simp
  then obtain ctx' where step: "?out = Done ctx'" and quiet: "cx_alerts ctx' = []"
    by (auto split: outcome.splits)
  have ledger: "lp_ledger (cx_next (ctx_of exiting (hd exit_group)))" by code_simp
  have old: "map_get (pr_lpEpochs (cx_next (ctx_of exiting (hd exit_group)))) (rr_epoch residue) = Some exit_epoch" by code_simp
  have numbers: "rr_epoch residue = 1" "ep_retiredResidueMagnified exit_epoch = 0"
    "rr_residueMagnified residue = 500000000000000000000000" by code_simp+
  from residue_retirement_exact [OF step quiet ledger old] step show ?thesis by (auto simp: numbers)
qed

section \<open>Fee, reward and swap steps\<close>

text \<open>The sale of the scenario at the moment its index advances: the seller is debited, the fee collected.\<close>

definition fee_context :: reducer_context where
  "fee_context = (ctx_of (seeded\<lparr>pr_eligibleSupply := 1200000\<rparr>) (hd sale_group))\<lparr>cx_pendingCoreFees :=
     [\<lparr>pf_event = hd sale_group, pf_fee = sale_fee, pf_sharesAtCollection = 1200000\<rparr>]\<rparr>"

theorem core_index_advance_conserves_witness:
  "\<exists>ctx'. handle_ReflectionIndexAdvanced fee_context (sale_group ! 1) sale_index = Done ctx'
     \<and> pr_currentIndex (cx_next ctx') * 1200000 + pr_indexRemainder (cx_next ctx') = 2000 * REFLECTION_MAGNITUDE"
proof -
  have "(case handle_ReflectionIndexAdvanced fee_context (sale_group ! 1) sale_index of Done c \<Rightarrow> cx_alerts c = [] | _ \<Rightarrow> False)"
    by code_simp
  then obtain ctx' where step: "handle_ReflectionIndexAdvanced fee_context (sale_group ! 1) sale_index = Done ctx'"
    and quiet: "cx_alerts ctx' = []" by (auto split: outcome.splits)
  have numbers: "pr_eligibleSupply (cx_next fee_context) = 1200000" "pr_currentIndex (cx_next fee_context) = 0"
    "pr_indexRemainder (cx_next fee_context) = 0" "map (fc_feeAmount \<circ> pf_fee) (cx_pendingCoreFees fee_context) = [2000]"
    by code_simp+
  from core_index_advance_conserves [OF step quiet] step show ?thesis by (auto simp: numbers Let_def dest: arg_cong [where f = "map (fc_feeAmount \<circ> pf_fee)"])
qed

theorem lp_index_advance_conserves_witness:
  "\<exists>ctx' ep'. handle_LpRewardIndexAdvanced \<lparr>gr_prior = seeded, gr_events = sale_group\<rparr>
       (ctx_of seeded (hd sale_group)) (sale_group ! 3) sale_lp_index = Done ctx'
     \<and> map_get (pr_lpEpochs (cx_next ctx')) 1 = Some ep' \<and> ep_lifetimeReceived ep' = 666"
proof -
  let ?out = "handle_LpRewardIndexAdvanced \<lparr>gr_prior = seeded, gr_events = sale_group\<rparr>
       (ctx_of seeded (hd sale_group)) (sale_group ! 3) sale_lp_index"
  have "(case ?out of Done c \<Rightarrow> cx_alerts c = [] | _ \<Rightarrow> False)" by code_simp
  then obtain ctx' where step: "?out = Done ctx'" and quiet: "cx_alerts ctx' = []" by (auto split: outcome.splits)
  have ledger: "lp_ledger (cx_next (ctx_of seeded (hd sale_group)))" by code_simp
  have numbers: "la_epoch sale_lp_index = 1" "la_received sale_lp_index = 666"
    "map_get (pr_lpEpochs (cx_next (ctx_of seeded (hd sale_group)))) 1 = Some seeded_epoch"
    "ep_lifetimeReceived seeded_epoch = 0" by code_simp+
  from lp_index_advance_conserves [OF step quiet ledger] step show ?thesis by (auto simp: numbers)
qed

theorem accepted_swap_keeps_product_witness:
  "\<exists>ctx'. handle_SwapExecuted (ctx_of seeded (hd sale_group)) (sale_group ! 5) sale = Done ctx'
     \<and> 400000 * 900000 \<le> po_trflReserve (pr_pool (cx_next ctx')) * po_tusdReserve (pr_pool (cx_next ctx'))"
proof -
  let ?out = "handle_SwapExecuted (ctx_of seeded (hd sale_group)) (sale_group ! 5) sale"
  have "(case ?out of Done c \<Rightarrow> cx_alerts c = [] | _ \<Rightarrow> False)" by code_simp
  then obtain ctx' where step: "?out = Done ctx'" and quiet: "cx_alerts ctx' = []" by (auto split: outcome.splits)
  have event: "assertProtocolEventMoveDomains (sale_group ! 5) = Inr ()" "ev_body (sale_group ! 5) = SwapExecuted sale"
    and state: "assertProjectionMoveDomains (cx_next (ctx_of seeded (hd sale_group))) = Inr ()"
    and fee: "po_ammFeeBps (pr_pool (cx_next (ctx_of seeded (hd sale_group)))) \<le> BPS_DENOMINATOR" by code_simp+
  have numbers: "po_trflReserve (pr_pool (cx_next (ctx_of seeded (hd sale_group)))) = 400000"
    "po_tusdReserve (pr_pool (cx_next (ctx_of seeded (hd sale_group)))) = 900000" by code_simp+
  from accepted_swap_keeps_product [OF step quiet event state fee] step show ?thesis by (simp add: numbers Let_def)
qed

end
