(* ===== verification/Cedra_Normalizer.thy ===== *)
theory Cedra_Normalizer
  imports Domains Json_Text
begin

text \<open>
  From chain events to protocol events (\<open>packages/indexer/src/cedra-normalizer.ts\<close>). The payload of
  an envelope is a JavaScript value; a reader checks one field, in the order the source reads them,
  and a failing read is the \<open>TypeError\<close> thrown. There is one \<open>read_\<close> definition per Move event, and
  \<open>event_branches\<close> lists the events with their package and module in the order \<open>normalize\<close> tests
  them. A decoded byte vector is a list of code points; \<open>text\<close> says how such a text is written in the
  8-bit strings of the model.
\<close>

section \<open>Envelopes and options\<close>

record cedra_envelope =
  en_typeTag :: string
  en_data :: js_val
  en_txHash :: string
  en_ledgerVersion :: int
  en_eventIndex :: int
  en_timestampUnixMilliseconds :: int

record package_addresses =
  pk_reflectionCore :: address
  pk_testAssets :: address
  pk_testAmm :: address

definition MAX_IDENTITY_BYTES :: nat where "MAX_IDENTITY_BYTES = 512"

section \<open>Addresses\<close>

text \<open>\<open>/^0x[0-9a-f]{1,64}$/i\<close>, then leading zeros away and lower case.\<close>

definition is_hex :: "char \<Rightarrow> bool" where
  "is_hex c = (hex_val c \<noteq> None)"

definition has_0x :: "string \<Rightarrow> bool" where
  "has_0x s = (take 2 s = ''0x'' \<or> take 2 s = ''0X'')"

definition is_package_address :: "string \<Rightarrow> bool" where
  "is_package_address s = (has_0x s \<and> drop 2 s \<noteq> [] \<and> length (drop 2 s) \<le> 64 \<and> list_all is_hex (drop 2 s))"

definition lower_case :: "char \<Rightarrow> char" where
  "lower_case c = (let n = of_char c in if 65 \<le> n \<and> n \<le> 90 then char_of (n + 32 :: nat) else c)"

definition canonicalAddress :: "string \<Rightarrow> address result" where
  "canonicalAddress a =
     (if \<not> is_package_address a then Inl (TypeError (''Invalid Cedra package address: '' @ a))
      else let digits = map lower_case (dropWhile (\<lambda>c. c = CHR ''0'') (drop 2 a)) in
        Inr (''0x'' @ (if digits = [] then ''0'' else digits)))"

section \<open>Fields\<close>

definition field_error :: "string \<Rightarrow> string \<Rightarrow> js_error" where
  "field_error key what = TypeError (''Cedra event field '' @ key @ '' '' @ what)"

definition asRecord :: "js_val \<Rightarrow> js_val result" where
  "asRecord v = (case v of JObj ms \<Rightarrow> Inr v | _ \<Rightarrow> Inl (TypeError ''Cedra event data must be an object''))"

definition requiredString :: "js_val \<Rightarrow> string \<Rightarrow> string result" where
  "requiredString data key = (case js_field data key of
       Some (JStr s) \<Rightarrow> Inr s
     | _ \<Rightarrow> Inl (field_error key ''must be a string''))"

definition requiredAddress :: "js_val \<Rightarrow> string \<Rightarrow> address result" where
  "requiredAddress data key = (case rbind (requiredString data key) canonicalAddress of
       Inr a \<Rightarrow> Inr a
     | Inl _ \<Rightarrow> Inl (field_error key ''must be a hexadecimal address''))"

text \<open>The pattern \<open>0|[1-9][0-9]{0,77}\<close>.\<close>

definition is_field_decimal :: "string \<Rightarrow> bool" where
  "is_field_decimal s =
     (s = ''0'' \<or> (s \<noteq> [] \<and> list_all is_digit s \<and> hd s \<noteq> CHR ''0'' \<and> length s \<le> 78))"

definition requiredBigint :: "js_val \<Rightarrow> string \<Rightarrow> int result" where
  "requiredBigint data key =
     rbind (case js_field data key of
         Some (JBig n) \<Rightarrow> Inr n
       | Some (JStr s) \<Rightarrow>
           if is_field_decimal s then Inr (int (str_nat s))
           else Inl (field_error key ''must be a non-negative integer'')
       | Some (JNum n) \<Rightarrow>
           if \<bar>n\<bar> \<le> MAX_SAFE_INTEGER \<and> 0 \<le> n then Inr n
           else Inl (field_error key ''must be a non-negative integer'')
       | _ \<Rightarrow> Inl (field_error key ''must be a non-negative integer'')) (\<lambda>parsed.
     if parsed < 0 \<or> MOVE_U256_MAX < parsed then Inl (field_error key ''exceeds the Move u256 domain'')
     else Inr parsed)"

definition requiredUnsigned :: "js_val \<Rightarrow> string \<Rightarrow> move_bits \<Rightarrow> int result" where
  "requiredUnsigned data key bits =
     rbind (requiredBigint data key) (\<lambda>parsed.
     if move_max bits < parsed
     then Inl (field_error key (''exceeds the Move u'' @ bits_str bits @ '' domain''))
     else Inr parsed)"

definition requiredBoolean :: "js_val \<Rightarrow> string \<Rightarrow> bool result" where
  "requiredBoolean data key = (case js_field data key of
       Some (JBool b) \<Rightarrow> Inr b
     | _ \<Rightarrow> Inl (field_error key ''must be a boolean''))"

text \<open>The values of \<open>MATERIALIZATION_TRIGGERS\<close> (\<open>protocol-sdk/src/types.ts\<close>).\<close>

definition MATERIALIZATION_TRIGGERS :: "int list" where
  "MATERIALIZATION_TRIGGERS = [0, 1, 2, 3, 4, 5, 6, 7, 8, 9, 10]"

definition materializationTrigger :: "js_val \<Rightarrow> int result" where
  "materializationTrigger data =
     rbind (requiredUnsigned data ''trigger'' U8) (\<lambda>v.
     if v \<notin> set MATERIALIZATION_TRIGGERS
     then Inl (TypeError (''Cedra event field trigger has unsupported v0.2 code '' @ int_str v))
     else Inr v)"

definition lpStatus :: "int \<Rightarrow> string \<Rightarrow> lp_epoch_status result" where
  "lpStatus v key =
     (if v = 1 then Inr Active
      else if v = 2 then Inr Claim_only
      else Inl (field_error key ''must be LP status 1 or 2''))"

section \<open>Byte vectors\<close>

text \<open>
  \<open>TextDecoder("utf-8", { fatal: true })\<close>: one scalar value at a time, overlong forms, surrogates and
  values above \<open>10ffff\<close> refused, a leading byte-order mark dropped.
\<close>

definition continuation :: "nat \<Rightarrow> bool" where
  "continuation b = (128 \<le> b \<and> b \<le> 191)"

fun utf8_scalars :: "nat list \<Rightarrow> nat list option" where
  "utf8_scalars [] = Some []"
| "utf8_scalars (a # r) =
     (if a < 128 then map_option ((#) a) (utf8_scalars r)
      else if 194 \<le> a \<and> a \<le> 223 then (case r of
          b # s \<Rightarrow> if continuation b
            then map_option ((#) (64 * (a - 192) + (b - 128))) (utf8_scalars s) else None
        | [] \<Rightarrow> None)
      else if 224 \<le> a \<and> a \<le> 239 then (case r of
          b # c # s \<Rightarrow>
            if continuation b \<and> continuation c \<and> (a = 224 \<longrightarrow> 160 \<le> b) \<and> (a = 237 \<longrightarrow> b \<le> 159)
            then map_option ((#) (4096 * (a - 224) + 64 * (b - 128) + (c - 128))) (utf8_scalars s) else None
        | _ \<Rightarrow> None)
      else if 240 \<le> a \<and> a \<le> 244 then (case r of
          b # c # d # s \<Rightarrow>
            if continuation b \<and> continuation c \<and> continuation d \<and> (a = 240 \<longrightarrow> 144 \<le> b) \<and> (a = 244 \<longrightarrow> b \<le> 143)
            then map_option ((#) (262144 * (a - 240) + 4096 * (b - 128) + 64 * (c - 128) + (d - 128))) (utf8_scalars s)
            else None
        | _ \<Rightarrow> None)
      else None)"

definition utf8_decode :: "nat list \<Rightarrow> nat list option" where
  "utf8_decode bytes = utf8_scalars (if take 3 bytes = [239, 187, 191] then drop 3 bytes else bytes)"

fun hex_bytes :: "string \<Rightarrow> nat list option" where
  "hex_bytes [] = Some []"
| "hex_bytes [c] = None"
| "hex_bytes (c # d # r) = (case (hex_val c, hex_val d) of
       (Some x, Some y) \<Rightarrow> map_option ((#) (16 * x + y)) (hex_bytes r)
     | _ \<Rightarrow> None)"

definition number_byte :: "js_val \<Rightarrow> nat option" where
  "number_byte v = (case v of JNum n \<Rightarrow> if 0 \<le> n \<and> n \<le> 255 then Some (nat n) else None | _ \<Rightarrow> None)"

definition number_bytes :: "js_val list \<Rightarrow> nat list option" where
  "number_bytes vs = those (map number_byte vs)"

definition vector_bytes :: "js_val option \<Rightarrow> nat list option" where
  "vector_bytes v = (case v of
       Some (JStr s) \<Rightarrow> if has_0x s then hex_bytes (drop 2 s) else None
     | Some (JArr vs) \<Rightarrow> number_bytes vs
     | _ \<Rightarrow> None)"

definition requiredUtf8Vector :: "(nat list \<Rightarrow> string) \<Rightarrow> js_val \<Rightarrow> string \<Rightarrow> string result" where
  "requiredUtf8Vector text data key = (case vector_bytes (js_field data key) of
       None \<Rightarrow> Inl (field_error key ''must be a hexadecimal byte vector'')
     | Some bytes \<Rightarrow>
         if bytes = [] \<or> MAX_IDENTITY_BYTES < length bytes
         then Inl (field_error key (''must contain 1 to '' @ nat_str MAX_IDENTITY_BYTES @ '' bytes''))
         else (case utf8_decode bytes of
             None \<Rightarrow> Inl (field_error key ''must contain valid non-empty UTF-8'')
           | Some decoded \<Rightarrow>
               if decoded = [] then Inl (field_error key ''must contain valid non-empty UTF-8'')
               else Inr (text decoded)))"

section \<open>The envelope\<close>

text \<open>The identity part of an event, as a constructor waiting for the body.\<close>

definition event_base :: "cedra_envelope \<Rightarrow> (event_body \<Rightarrow> protocol_event) result" where
  "event_base env =
     (if en_txHash env = [] \<or> 512 < length (en_txHash env)
         \<or> en_ledgerVersion env < 0 \<or> MOVE_U64_MAX < en_ledgerVersion env
         \<or> MAX_SAFE_INTEGER < \<bar>en_eventIndex env\<bar> \<or> en_eventIndex env < 0
         \<or> en_timestampUnixMilliseconds env < 0 \<or> MOVE_U64_MAX < en_timestampUnixMilliseconds env
      then Inl (TypeError ''Cedra event envelope has an invalid transaction identity, cursor, or timestamp'')
      else Inr (\<lambda>body. \<lparr>ev_id = en_txHash env @ '':'' @ int_str (en_eventIndex env),
          ev_txHash = en_txHash env,
          ev_ledgerVersion = en_ledgerVersion env,
          ev_eventIndex = en_eventIndex env,
          ev_timestampUnixMilliseconds = en_timestampUnixMilliseconds env,
          ev_source = Source_chain,
          ev_body = body\<rparr>))"

text \<open>\<open>typeTag.split("::")\<close>.\<close>

fun split_colons :: "string \<Rightarrow> string \<Rightarrow> string list" where
  "split_colons acc [] = [rev acc]"
| "split_colons acc [c] = [rev (c # acc)]"
| "split_colons acc (c # d # r) =
     (if c = CHR '':'' \<and> d = CHR '':'' then rev acc # split_colons [] r
      else split_colons (c # acc) (d # r))"

definition isType :: "string \<Rightarrow> address \<Rightarrow> string \<Rightarrow> string \<Rightarrow> bool result" where
  "isType typeTag packageAddress moduleName eventName = (case split_colons [] typeTag of
       [p, m, e] \<Rightarrow> rbind (canonicalAddress p) (\<lambda>a. Inr (a = packageAddress \<and> m = moduleName \<and> e = eventName))
     | _ \<Rightarrow> Inr False)"

section \<open>One reader per Move event\<close>

definition package_version :: "int \<Rightarrow> int \<Rightarrow> int \<Rightarrow> string" where
  "package_version major minor patch =
     ''testnet-v'' @ int_str major @ ''.'' @ int_str minor @ ''.'' @ int_str patch"

definition read_ProtocolInitialized :: "(nat list \<Rightarrow> string) \<Rightarrow> js_val \<Rightarrow> event_body result" where
  "read_ProtocolInitialized text data =
     rbind (requiredUnsigned data ''version'' U64) (\<lambda>schema.
     if schema \<noteq> 1
     then Inl (TypeError (''Unsupported reflection event schema version: '' @ int_str schema))
     else
     rbind (requiredUnsigned data ''release_major'' U64) (\<lambda>major.
     rbind (requiredUnsigned data ''release_minor'' U64) (\<lambda>minor.
     rbind (requiredUnsigned data ''release_patch'' U64) (\<lambda>patch.
     rbind (requiredUtf8Vector text data ''deployment_id'') (\<lambda>deployment.
     rbind (requiredUtf8Vector text data ''network_label'') (\<lambda>network.
     rbind (requiredAddress data ''metadata'') (\<lambda>metadata.
     rbind (requiredBoolean data ''automatic_materialization'') (\<lambda>automatic.
     rbind (requiredUnsigned data ''initial_fee_bps'' U64) (\<lambda>fee.
     rbind (requiredAddress data ''reward_vault'') (\<lambda>reward.
     rbind (requiredAddress data ''distribution_vault'') (\<lambda>distribution.
     rbind (requiredUnsigned data ''protocol_exclusion_slots'' U64) (\<lambda>slots.
     Inr (ProtocolInitialized \<lparr>pi_deploymentId = deployment, pi_networkLabel = network,
        pi_tokenMetadata = metadata, pi_automaticMaterialization = automatic, pi_feeBps = fee,
        pi_initialIndex = 0, pi_packageVersion = package_version major minor patch,
        pi_rewardVault = reward, pi_distributionVault = distribution,
        pi_protocolExclusionSlots = slots\<rparr>)))))))))))))"

definition read_TokenCreated :: "(nat list \<Rightarrow> string) \<Rightarrow> js_val \<Rightarrow> event_body result" where
  "read_TokenCreated text data =
     rbind (requiredUnsigned data ''version'' U64) (\<lambda>schema.
     if schema \<noteq> 2
     then Inl (TypeError (''Unsupported TokenCreated schema version: '' @ int_str schema))
     else
     rbind (requiredUnsigned data ''release_major'' U64) (\<lambda>major.
     rbind (requiredUnsigned data ''release_minor'' U64) (\<lambda>minor.
     rbind (requiredUnsigned data ''release_patch'' U64) (\<lambda>patch.
     rbind (requiredUtf8Vector text data ''deployment_id'') (\<lambda>deployment.
     rbind (requiredUtf8Vector text data ''network_label'') (\<lambda>network.
     rbind (requiredAddress data ''metadata'') (\<lambda>metadata.
     rbind (requiredAddress data ''reward_vault'') (\<lambda>reward.
     rbind (requiredAddress data ''distribution_vault'') (\<lambda>distribution.
     rbind (requiredUnsigned data ''reflection_fee_bps'' U64) (\<lambda>fee.
     rbind (requiredUnsigned data ''total_supply'' U64) (\<lambda>supply.
     rbind (requiredUnsigned data ''decimals'' U8) (\<lambda>decimals.
     Inr (TokenCreated \<lparr>tc_eventSchema = ''v0.2'', tc_deploymentId = deployment, tc_networkLabel = network,
        tc_tokenMetadata = metadata, tc_rewardVault = reward, tc_distributionVault = distribution,
        tc_reflectionFeeBps = fee, tc_totalSupply = supply, tc_decimals = decimals,
        tc_packageVersion = package_version major minor patch\<rparr>)))))))))))))"

definition read_ProtocolPrimaryStoreExcluded :: "js_val \<Rightarrow> event_body result" where
  "read_ProtocolPrimaryStoreExcluded data =
     rbind (requiredAddress data ''account'') (\<lambda>account.
     rbind (requiredAddress data ''store'') (\<lambda>store.
     rbind (requiredUnsigned data ''remaining_slots'' U64) (\<lambda>slots.
     Inr (ProtocolPrimaryStoreExcluded account store slots))))"

definition read_OperationalPrimaryStoreExcluded :: "js_val \<Rightarrow> event_body result" where
  "read_OperationalPrimaryStoreExcluded data =
     rbind (requiredAddress data ''account'') (\<lambda>account.
     rbind (requiredAddress data ''store'') (\<lambda>store.
     Inr (OperationalPrimaryStoreExcluded account store)))"

definition read_PositionCreated :: "js_val \<Rightarrow> event_body result" where
  "read_PositionCreated data =
     rbind (requiredAddress data ''account'') (\<lambda>account.
     Inr (PositionCreated account))"

definition read_WalletRegistered :: "js_val \<Rightarrow> event_body result" where
  "read_WalletRegistered data =
     rbind (requiredAddress data ''account'') (\<lambda>account.
     rbind (requiredAddress data ''primary_store'') (\<lambda>store.
     rbind (requiredUnsigned data ''registered_wallet_count'' U64) (\<lambda>n.
     Inr (WalletRegistered account store n))))"

definition read_FaucetGrant :: "asset_symbol \<Rightarrow> js_val \<Rightarrow> event_body result" where
  "read_FaucetGrant asset data =
     rbind (requiredAddress data ''recipient'') (\<lambda>account.
     rbind (requiredUnsigned data ''amount'' U64) (\<lambda>amount.
     Inr (FaucetGrant account asset amount)))"

definition read_FaucetConfigured :: "js_val \<Rightarrow> event_body result" where
  "read_FaucetConfigured data =
     rbind (requiredUnsigned data ''trfl_grant'' U64) (\<lambda>trfl.
     rbind (requiredUnsigned data ''tusd_grant'' U64) (\<lambda>tusd.
     rbind (requiredUnsigned data ''cooldown_seconds'' U64) (\<lambda>cooldown.
     Inr (FaucetConfigured trfl tusd cooldown))))"

definition read_PoolReserveBound :: "js_val \<Rightarrow> event_body result" where
  "read_PoolReserveBound data =
     rbind (requiredAddress data ''reserve_store'') (\<lambda>reserve.
     rbind (requiredAddress data ''custodian'') (\<lambda>custodian.
     Inr (PoolReserveBound reserve custodian)))"

definition read_WalletTransfer :: "js_val \<Rightarrow> event_body result" where
  "read_WalletTransfer data =
     rbind (requiredAddress data ''from'') (\<lambda>sender.
     rbind (requiredAddress data ''to'') (\<lambda>recipient.
     rbind (requiredUnsigned data ''amount'' U64) (\<lambda>amount.
     Inr (WalletTransfer sender recipient TRFL amount))))"

definition read_EligibleBalanceDebited :: "js_val \<Rightarrow> event_body result" where
  "read_EligibleBalanceDebited data =
     rbind (requiredAddress data ''account'') (\<lambda>account.
     rbind (requiredUnsigned data ''amount'' U64) (\<lambda>amount.
     Inr (EligibleBalanceDebited account amount)))"

definition read_EligibleBalanceCredited :: "js_val \<Rightarrow> event_body result" where
  "read_EligibleBalanceCredited data =
     rbind (requiredAddress data ''account'') (\<lambda>account.
     rbind (requiredUnsigned data ''amount'' U64) (\<lambda>amount.
     Inr (EligibleBalanceCredited account amount)))"

definition read_ReflectionFeeCollected :: "string \<Rightarrow> js_val \<Rightarrow> event_body result" where
  "read_ReflectionFeeCollected hash data =
     rbind (requiredUnsigned data ''gross_amount'' U64) (\<lambda>gross.
     rbind (requiredUnsigned data ''fee_amount'' U64) (\<lambda>fee.
     rbind (requiredUnsigned data ''fee_bps'' U64) (\<lambda>bps.
     Inr (ReflectionFeeCollected \<lparr>fc_swapTxHash = hash, fc_grossAmount = gross, fc_feeAmount = fee, fc_feeBps = bps\<rparr>))))"

definition read_ReflectionIndexAdvanced :: "js_val \<Rightarrow> event_body result" where
  "read_ReflectionIndexAdvanced data =
     rbind (requiredUnsigned data ''old_index'' U256) (\<lambda>x1.
     rbind (requiredUnsigned data ''new_index'' U256) (\<lambda>x2.
     rbind (requiredUnsigned data ''remainder'' U256) (\<lambda>x3.
     rbind (requiredUnsigned data ''fee_amount'' U64) (\<lambda>x4.
     rbind (requiredUnsigned data ''eligible_supply'' U128) (\<lambda>x5.
     Inr (ReflectionIndexAdvanced \<lparr>ia_previousIndex = x1, ia_newIndex = x2, ia_indexRemainder = x3, ia_feeAmount = x4, ia_eligibleSupply = x5\<rparr>))))))"

definition read_RewardsMaterialized :: "js_val \<Rightarrow> event_body result" where
  "read_RewardsMaterialized data =
     rbind (requiredAddress data ''account'') (\<lambda>account.
     rbind (requiredUnsigned data ''amount'' U64) (\<lambda>amount.
     rbind (requiredUnsigned data ''total_claimed'' U256) (\<lambda>claimed.
     rbind (materializationTrigger data) (\<lambda>trigger.
     Inr (RewardsMaterialized account amount claimed (Some trigger))))))"

definition read_RewardsClaimed :: "js_val \<Rightarrow> event_body result" where
  "read_RewardsClaimed data =
     rbind (requiredAddress data ''account'') (\<lambda>account.
     rbind (requiredUnsigned data ''amount'' U64) (\<lambda>amount.
     rbind (requiredUnsigned data ''total_claimed'' U256) (\<lambda>claimed.
     Inr (RewardsClaimed account amount claimed))))"

definition read_CustodyAdapterRegistered :: "js_val \<Rightarrow> event_body result" where
  "read_CustodyAdapterRegistered data =
     rbind (requiredUnsigned data ''adapter_id'' U64) (\<lambda>x1.
     rbind (requiredAddress data ''reserve_store'') (\<lambda>x2.
     rbind (requiredUnsigned data ''first_epoch'' U64) (\<lambda>x3.
     rbind (requiredAddress data ''lp_reward_vault'') (\<lambda>x4.
     Inr (CustodyAdapterRegistered \<lparr>ca_adapterId = x1, ca_reserveStore = x2, ca_firstEpoch = x3, ca_lpRewardVault = x4\<rparr>)))))"

definition read_CustodyEpochRouteOpened :: "js_val \<Rightarrow> event_body result" where
  "read_CustodyEpochRouteOpened data =
     rbind (requiredUnsigned data ''adapter_id'' U64) (\<lambda>x1.
     rbind (requiredUnsigned data ''epoch'' U64) (\<lambda>x2.
     rbind (requiredAddress data ''reserve_store'') (\<lambda>x3.
     rbind (requiredAddress data ''lp_reward_vault'') (\<lambda>x4.
     rbind (requiredUnsigned data ''retired_residue_magnified'' U256) (\<lambda>x5.
     Inr (CustodyEpochRouteOpened \<lparr>ro_adapterId = x1, ro_epoch = x2, ro_reserveStore = x3, ro_lpRewardVault = x4, ro_retiredResidueMagnified = x5\<rparr>))))))"

definition read_CustodySharesChanged :: "js_val \<Rightarrow> event_body result" where
  "read_CustodySharesChanged data =
     rbind (requiredBoolean data ''added'') (\<lambda>x1.
     rbind (requiredUnsigned data ''amount'' U64) (\<lambda>x2.
     rbind (requiredUnsigned data ''custody_shares'' U128) (\<lambda>x3.
     rbind (requiredUnsigned data ''global_shares'' U128) (\<lambda>x4.
     Inr (CustodySharesChanged \<lparr>cs_added = x1, cs_amount = x2, cs_custodyShares = x3, cs_globalShares = x4\<rparr>)))))"

definition read_CustodyRewardsRouted :: "js_val \<Rightarrow> event_body result" where
  "read_CustodyRewardsRouted data =
     rbind (requiredAddress data ''reserve_store'') (\<lambda>x1.
     rbind (requiredAddress data ''lp_reward_vault'') (\<lambda>x2.
     rbind (requiredUnsigned data ''epoch'' U64) (\<lambda>x3.
     rbind (requiredUnsigned data ''amount'' U64) (\<lambda>x4.
     rbind (requiredUnsigned data ''total_routed'' U256) (\<lambda>x5.
     Inr (CustodyRewardsRouted \<lparr>cr_reserveStore = x1, cr_lpRewardVault = x2, cr_epoch = x3, cr_amount = x4, cr_totalRouted = x5\<rparr>))))))"

definition read_FeeConfigurationChanged :: "js_val \<Rightarrow> event_body result" where
  "read_FeeConfigurationChanged data =
     rbind (requiredUnsigned data ''new_fee_bps'' U64) (\<lambda>new_fee.
     rbind (requiredUnsigned data ''old_fee_bps'' U64) (\<lambda>old_fee.
     Inr (FeeConfigurationChanged old_fee new_fee)))"

definition read_PauseStateChanged :: "js_val \<Rightarrow> event_body result" where
  "read_PauseStateChanged data =
     rbind (requiredBoolean data ''swaps_paused'') (\<lambda>swaps.
     rbind (requiredBoolean data ''claims_paused'') (\<lambda>claims.
     Inr (PauseStateChanged swaps claims)))"

definition read_FaucetPauseChanged :: "js_val \<Rightarrow> event_body result" where
  "read_FaucetPauseChanged data =
     rbind (requiredBoolean data ''paused'') (\<lambda>paused.
     Inr (FaucetPauseChanged paused))"

definition read_OperationalAdminChanged :: "admin_scope \<Rightarrow> js_val \<Rightarrow> event_body result" where
  "read_OperationalAdminChanged scope data =
     rbind (requiredAddress data ''old_operational_admin'') (\<lambda>old_admin.
     rbind (requiredAddress data ''new_operational_admin'') (\<lambda>new_admin.
     Inr (OperationalAdminChanged scope old_admin new_admin)))"

definition read_liquidity :: "(liquidity_receipt \<Rightarrow> event_body) \<Rightarrow> js_val \<Rightarrow> event_body result" where
  "read_liquidity con data =
     rbind (requiredUnsigned data ''epoch'' U64) (\<lambda>epoch.
     rbind (requiredAddress data ''provider'') (\<lambda>provider.
     rbind (requiredUnsigned data ''rfl_amount'' U64) (\<lambda>trfl.
     rbind (requiredUnsigned data ''usd_amount'' U64) (\<lambda>tusd.
     rbind (requiredUnsigned data ''lp_shares'' U128) (\<lambda>shares.
     rbind (requiredUnsigned data ''reserve_rfl'' U64) (\<lambda>trfl_after.
     rbind (requiredUnsigned data ''reserve_usd'' U64) (\<lambda>tusd_after.
     Inr (con \<lparr>lq_epoch = epoch, lq_provider = provider, lq_trflAmount = trfl, lq_tusdAmount = tusd, lq_lpShares = shares,
        lq_trflReserveAfter = trfl_after, lq_tusdReserveAfter = tusd_after\<rparr>))))))))"

definition read_LiquidityRemoved :: "js_val \<Rightarrow> event_body result" where
  "read_LiquidityRemoved data =
     rbind (requiredUnsigned data ''epoch'' U64) (\<lambda>epoch.
     rbind (requiredAddress data ''provider'') (\<lambda>provider.
     rbind (requiredUnsigned data ''rfl_amount'' U64) (\<lambda>trfl.
     rbind (requiredUnsigned data ''usd_amount'' U64) (\<lambda>tusd.
     rbind (requiredUnsigned data ''lp_shares'' U128) (\<lambda>shares.
     rbind (requiredBoolean data ''final_exit'') (\<lambda>final.
     rbind (requiredUnsigned data ''reserve_rfl'' U64) (\<lambda>trfl_after.
     rbind (requiredUnsigned data ''reserve_usd'' U64) (\<lambda>tusd_after.
     Inr (LiquidityRemoved \<lparr>lq_epoch = epoch, lq_provider = provider, lq_trflAmount = trfl, lq_tusdAmount = tusd, lq_lpShares = shares,
        lq_trflReserveAfter = trfl_after, lq_tusdReserveAfter = tusd_after\<rparr> final)))))))))"

definition read_LaunchSealed :: "js_val \<Rightarrow> event_body result" where
  "read_LaunchSealed data =
     rbind (requiredUnsigned data ''reflection_fee_bps'' U64) (\<lambda>x1.
     rbind (requiredUnsigned data ''amm_fee_bps'' U64) (\<lambda>x2.
     rbind (requiredUnsigned data ''max_reserve_bps'' U64) (\<lambda>x3.
     rbind (requiredUnsigned data ''max_gross_swap'' U64) (\<lambda>x4.
     rbind (requiredUnsigned data ''max_liquidity_rfl'' U64) (\<lambda>x5.
     rbind (requiredUnsigned data ''max_liquidity_usd'' U64) (\<lambda>x6.
     rbind (requiredUnsigned data ''max_withdrawal_share_bps'' U64) (\<lambda>x7.
     rbind (requiredUnsigned data ''faucet_trfl_grant'' U64) (\<lambda>x8.
     rbind (requiredUnsigned data ''faucet_tusd_grant'' U64) (\<lambda>x9.
     rbind (requiredUnsigned data ''faucet_cooldown_seconds'' U64) (\<lambda>x10.
     rbind (requiredAddress data ''bootstrap'') (\<lambda>x11.
     rbind (requiredAddress data ''rfl_reserve'') (\<lambda>x12.
     rbind (requiredAddress data ''usd_reserve'') (\<lambda>x13.
     rbind (requiredAddress data ''lp_reward_vault'') (\<lambda>x14.
     rbind (requiredUnsigned data ''seed_rfl'' U64) (\<lambda>x15.
     rbind (requiredUnsigned data ''seed_usd'' U64) (\<lambda>x16.
     rbind (requiredUnsigned data ''initial_lp_shares'' U128) (\<lambda>x17.
     Inr (LaunchSealed \<lparr>ls_eventSchema = ''v0.2'', ls_reflectionFeeBps = x1,
        ls_ammFeeBps = x2,
        ls_maximumReserveBps = x3,
        ls_maximumGrossSwap = x4,
        ls_maximumRflContribution = x5,
        ls_maximumTusdContribution = x6,
        ls_maximumNonFinalWithdrawalShareBps = x7,
        ls_faucetTrflGrant = x8,
        ls_faucetTusdGrant = x9,
        ls_faucetCooldownSeconds = x10,
        ls_bootstrap = x11,
        ls_rflReserve = x12,
        ls_usdReserve = x13,
        ls_lpRewardVault = x14,
        ls_seedRfl = x15,
        ls_seedUsd = x16,
        ls_initialLpShares = x17\<rparr>))))))))))))))))))"

definition read_PoolClosed :: "js_val \<Rightarrow> event_body result" where
  "read_PoolClosed data =
     rbind (requiredAddress data ''provider'') (\<lambda>x1.
     rbind (requiredUnsigned data ''epoch'' U64) (\<lambda>x2.
     rbind (requiredUnsigned data ''lp_shares'' U128) (\<lambda>x3.
     rbind (requiredUnsigned data ''rfl_output'' U64) (\<lambda>x4.
     rbind (requiredUnsigned data ''usd_output'' U64) (\<lambda>x5.
     rbind (requiredUnsigned data ''reserve_rfl'' U64) (\<lambda>x6.
     rbind (requiredUnsigned data ''reserve_usd'' U64) (\<lambda>x7.
     Inr (PoolClosed \<lparr>pc_eventSchema = ''v0.2'', pc_provider = x1, pc_epoch = x2, pc_lpShares = x3, pc_rflOutput = x4, pc_usdOutput = x5, pc_rflReserveAfter = x6, pc_usdReserveAfter = x7\<rparr>))))))))"

definition read_SwapExecuted :: "js_val \<Rightarrow> event_body result" where
  "read_SwapExecuted data =
     rbind (requiredUnsigned data ''gross_input'' U64) (\<lambda>gross.
     rbind (requiredUnsigned data ''reflection_fee'' U64) (\<lambda>fee.
     rbind (requiredBoolean data ''is_sell'') (\<lambda>sell.
     rbind (requiredUnsigned data ''gross_output'' U64) (\<lambda>pool_output.
     rbind (requiredAddress data ''trader'') (\<lambda>account.
     rbind (requiredUnsigned data ''amm_fee'' U64) (\<lambda>amm_fee.
     rbind (requiredUnsigned data ''net_output'' U64) (\<lambda>receipt.
     rbind (requiredUnsigned data ''reserve_rfl'' U64) (\<lambda>trfl_after.
     rbind (requiredUnsigned data ''reserve_usd'' U64) (\<lambda>tusd_after.
     Inr (SwapExecuted \<lparr>sw_account = account, sw_direction = (if sell then Sell else Buy), sw_grossAmount = gross,
        sw_reflectionFee = fee, sw_ammFee = amm_fee, sw_netReserveInput = (if sell then gross - fee else gross),
        sw_grossPoolOutput = pool_output, sw_netUserReceipt = receipt,
        sw_trflReserveAfter = trfl_after, sw_tusdReserveAfter = tusd_after\<rparr>))))))))))"

definition read_SwapLimitsChanged :: "js_val \<Rightarrow> event_body result" where
  "read_SwapLimitsChanged data =
     rbind (requiredUnsigned data ''amm_fee_bps'' U64) (\<lambda>amm.
     rbind (requiredUnsigned data ''max_reserve_bps'' U64) (\<lambda>reserve.
     rbind (requiredUnsigned data ''max_gross_swap'' U64) (\<lambda>gross.
     Inr (SwapLimitsChanged amm gross reserve))))"

definition read_LiquidityLimitsChanged :: "js_val \<Rightarrow> event_body result" where
  "read_LiquidityLimitsChanged data =
     rbind (requiredUnsigned data ''max_rfl_contribution'' U64) (\<lambda>rfl.
     rbind (requiredUnsigned data ''max_usd_contribution'' U64) (\<lambda>tusd.
     rbind (requiredUnsigned data ''max_withdrawal_share_bps'' U64) (\<lambda>share.
     Inr (LiquidityLimitsChanged rfl tusd share))))"

definition read_PoolPauseChanged :: "js_val \<Rightarrow> event_body result" where
  "read_PoolPauseChanged data =
     rbind (requiredBoolean data ''pool_paused'') (\<lambda>x1.
     rbind (requiredBoolean data ''liquidity_paused'') (\<lambda>x2.
     rbind (requiredBoolean data ''lp_claims_paused'') (\<lambda>x3.
     rbind (requiredBoolean data ''shutdown_mode'') (\<lambda>x4.
     Inr (PoolPauseChanged \<lparr>pp_poolPaused = x1, pp_liquidityPaused = x2, pp_lpClaimsPaused = x3, pp_shutdownMode = x4\<rparr>)))))"

definition read_LpEpochOpened :: "js_val \<Rightarrow> event_body result" where
  "read_LpEpochOpened data =
     rbind (requiredUnsigned data ''epoch'' U64) (\<lambda>epoch.
     rbind (requiredAddress data ''state_id'') (\<lambda>state.
     rbind (requiredAddress data ''reward_vault'') (\<lambda>vault.
     Inr (LpEpochOpened epoch state vault))))"

definition read_LpEpochStatusChanged :: "js_val \<Rightarrow> event_body result" where
  "read_LpEpochStatusChanged data =
     rbind (requiredUnsigned data ''epoch'' U64) (\<lambda>epoch.
     rbind (requiredUnsigned data ''old_status'' U8) (\<lambda>old_code.
     rbind (lpStatus old_code ''old_status'') (\<lambda>old_status.
     rbind (requiredUnsigned data ''new_status'' U8) (\<lambda>new_code.
     rbind (lpStatus new_code ''new_status'') (\<lambda>new_status.
     Inr (LpEpochStatusChanged epoch old_status new_status))))))"

definition read_LpSharesChanged :: "js_val \<Rightarrow> event_body result" where
  "read_LpSharesChanged data =
     rbind (requiredUnsigned data ''epoch'' U64) (\<lambda>x1.
     rbind (requiredAddress data ''owner'') (\<lambda>x2.
     rbind (requiredBoolean data ''added'') (\<lambda>x3.
     rbind (requiredUnsigned data ''amount'' U128) (\<lambda>x4.
     rbind (requiredUnsigned data ''owner_shares'' U128) (\<lambda>x5.
     rbind (requiredUnsigned data ''total_shares'' U128) (\<lambda>x6.
     Inr (LpSharesChanged \<lparr>sc_epoch = x1, sc_owner = x2, sc_added = x3, sc_amount = x4, sc_ownerShares = x5, sc_totalShares = x6\<rparr>)))))))"

definition read_LpSharesTransferred :: "js_val \<Rightarrow> event_body result" where
  "read_LpSharesTransferred data =
     rbind (requiredUnsigned data ''epoch'' U64) (\<lambda>x1.
     rbind (requiredAddress data ''sender'') (\<lambda>x2.
     rbind (requiredAddress data ''recipient'') (\<lambda>x3.
     rbind (requiredUnsigned data ''amount'' U128) (\<lambda>x4.
     Inr (LpSharesTransferred \<lparr>st_epoch = x1, st_sender = x2, st_recipient = x3, st_amount = x4\<rparr>)))))"

definition read_LpRewardIndexAdvanced :: "js_val \<Rightarrow> event_body result" where
  "read_LpRewardIndexAdvanced data =
     rbind (requiredUnsigned data ''epoch'' U64) (\<lambda>x1.
     rbind (requiredUnsigned data ''old_index'' U256) (\<lambda>x2.
     rbind (requiredUnsigned data ''new_index'' U256) (\<lambda>x3.
     rbind (requiredUnsigned data ''remainder'' U256) (\<lambda>x4.
     rbind (requiredUnsigned data ''received'' U64) (\<lambda>x5.
     rbind (requiredUnsigned data ''total_shares'' U128) (\<lambda>x6.
     rbind (requiredUnsigned data ''rounding_reserve'' U128) (\<lambda>x7.
     Inr (LpRewardIndexAdvanced \<lparr>la_epoch = x1, la_previousIndex = x2, la_newIndex = x3, la_indexRemainder = x4, la_received = x5, la_totalShares = x6, la_roundingReserve = x7\<rparr>))))))))"

definition read_LpRewardsClaimed :: "js_val \<Rightarrow> event_body result" where
  "read_LpRewardsClaimed data =
     rbind (requiredUnsigned data ''epoch'' U64) (\<lambda>x1.
     rbind (requiredAddress data ''owner'') (\<lambda>x2.
     rbind (requiredUnsigned data ''amount'' U64) (\<lambda>x3.
     rbind (requiredUnsigned data ''total_claimed'' U256) (\<lambda>x4.
     Inr (LpRewardsClaimed \<lparr>lc_epoch = x1, lc_owner = x2, lc_amount = x3, lc_totalClaimed = x4\<rparr>)))))"

definition read_LpRewardQuarantined :: "js_val \<Rightarrow> event_body result" where
  "read_LpRewardQuarantined data =
     rbind (requiredUnsigned data ''epoch'' U64) (\<lambda>x1.
     rbind (requiredUnsigned data ''amount'' U64) (\<lambda>x2.
     rbind (requiredUnsigned data ''unallocated_rewards'' U128) (\<lambda>x3.
     rbind (requiredAddress data ''reward_vault'') (\<lambda>x4.
     Inr (LpRewardQuarantined \<lparr>qu_epoch = x1, qu_amount = x2, qu_unallocatedRewards = x3, qu_rewardVault = x4\<rparr>)))))"

definition read_LpFractionalResidueRetired :: "js_val \<Rightarrow> event_body result" where
  "read_LpFractionalResidueRetired data =
     rbind (requiredUnsigned data ''epoch'' U64) (\<lambda>x1.
     rbind (requiredAddress data ''owner'') (\<lambda>x2.
     rbind (requiredUnsigned data ''residue_magnified'' U256) (\<lambda>x3.
     rbind (requiredUnsigned data ''cumulative_retired_residue_magnified'' U256) (\<lambda>x4.
     rbind (requiredUnsigned data ''rounding_reserve_base_units'' U128) (\<lambda>x5.
     Inr (LpFractionalResidueRetired \<lparr>rr_epoch = x1, rr_owner = x2, rr_residueMagnified = x3, rr_cumulativeRetiredResidueMagnified = x4, rr_roundingReserveBaseUnits = x5\<rparr>))))))"

definition read_LpEpochTerminalDustClassified :: "js_val \<Rightarrow> event_body result" where
  "read_LpEpochTerminalDustClassified data =
     rbind (requiredUnsigned data ''epoch'' U64) (\<lambda>x1.
     rbind (requiredAddress data ''reward_vault'') (\<lambda>x2.
     rbind (requiredUnsigned data ''terminal_rounding_base_units'' U128) (\<lambda>x3.
     rbind (requiredUnsigned data ''retired_residue_magnified'' U256) (\<lambda>x4.
     rbind (requiredUnsigned data ''lifetime_received_base_units'' U256) (\<lambda>x5.
     rbind (requiredUnsigned data ''lifetime_claimed_base_units'' U256) (\<lambda>x6.
     Inr (LpEpochTerminalDustClassified \<lparr>td_epoch = x1, td_rewardVault = x2, td_terminalRoundingBaseUnits = x3, td_retiredResidueMagnified = x4, td_lifetimeReceivedBaseUnits = x5, td_lifetimeClaimedBaseUnits = x6\<rparr>)))))))"

section \<open>The normalizer\<close>

text \<open>
  The tests of \<open>normalize\<close> in source order: package, module, event, reader. A test on several types
  (the three \<open>OperationalAdminChanged\<close>, the two liquidity receipts) is one entry per type.
\<close>

datatype event_package = Core | Assets | Amm

definition package_address :: "package_addresses \<Rightarrow> event_package \<Rightarrow> address" where
  "package_address pk p = (case p of
       Core \<Rightarrow> pk_reflectionCore pk | Assets \<Rightarrow> pk_testAssets pk | Amm \<Rightarrow> pk_testAmm pk)"

type_synonym event_branch = "event_package \<times> string \<times> string \<times> (js_val \<Rightarrow> event_body result)"

definition core_branches :: "(nat list \<Rightarrow> string) \<Rightarrow> string \<Rightarrow> event_branch list" where
  "core_branches text hash =
     [(Core, ''reflection_events'', ''ProtocolInitialized'', read_ProtocolInitialized text),
      (Core, ''reflection_events'', ''TokenCreated'', read_TokenCreated text),
      (Core, ''reflection_events'', ''ProtocolPrimaryStoreExcluded'', read_ProtocolPrimaryStoreExcluded),
      (Core, ''reflection_events'', ''OperationalPrimaryStoreExcluded'', read_OperationalPrimaryStoreExcluded),
      (Core, ''reflection_events'', ''PositionCreated'', read_PositionCreated),
      (Core, ''reflection_events'', ''WalletRegistered'', read_WalletRegistered),
      (Core, ''reflection_events'', ''FaucetGrant'', read_FaucetGrant TRFL),
      (Assets, ''mock_usd'', ''MockUsdMinted'', read_FaucetGrant TUSD),
      (Assets, ''test_faucet'', ''FaucetConfigured'', read_FaucetConfigured),
      (Assets, ''mock_usd'', ''PoolReserveBound'', read_PoolReserveBound),
      (Core, ''reflection_events'', ''WalletTransfer'', read_WalletTransfer),
      (Core, ''reflection_events'', ''EligibleBalanceDebited'', read_EligibleBalanceDebited),
      (Core, ''reflection_events'', ''EligibleBalanceCredited'', read_EligibleBalanceCredited),
      (Core, ''reflection_events'', ''ReflectionFeeCollected'', read_ReflectionFeeCollected hash),
      (Core, ''reflection_events'', ''ReflectionIndexAdvanced'', read_ReflectionIndexAdvanced),
      (Core, ''reflection_events'', ''RewardsMaterialized'', read_RewardsMaterialized),
      (Core, ''reflection_events'', ''RewardsClaimed'', read_RewardsClaimed),
      (Core, ''reflection_events'', ''CustodyAdapterRegistered'', read_CustodyAdapterRegistered),
      (Core, ''reflection_events'', ''CustodyEpochRouteOpened'', read_CustodyEpochRouteOpened),
      (Core, ''reflection_events'', ''CustodySharesChanged'', read_CustodySharesChanged),
      (Core, ''reflection_events'', ''CustodyRewardsRouted'', read_CustodyRewardsRouted),
      (Core, ''reflection_events'', ''FeeConfigurationChanged'', read_FeeConfigurationChanged),
      (Core, ''reflection_events'', ''PauseStateChanged'', read_PauseStateChanged),
      (Assets, ''test_faucet'', ''FaucetPauseChanged'', read_FaucetPauseChanged),
      (Core, ''reflection_events'', ''OperationalAdminChanged'', read_OperationalAdminChanged Scope_reflection_core),
      (Assets, ''test_faucet'', ''OperationalAdminChanged'', read_OperationalAdminChanged Scope_test_assets)]"

definition amm_branches :: "event_branch list" where
  "amm_branches =
     [(Amm, ''pool'', ''OperationalAdminChanged'', read_OperationalAdminChanged Scope_test_amm),
      (Amm, ''pool'', ''LiquiditySeeded'', read_liquidity LiquiditySeeded),
      (Amm, ''pool'', ''LiquidityAdded'', read_liquidity LiquidityAdded),
      (Amm, ''pool'', ''LiquidityRemoved'', read_LiquidityRemoved),
      (Amm, ''pool'', ''LaunchSealed'', read_LaunchSealed),
      (Amm, ''pool'', ''PoolClosed'', read_PoolClosed),
      (Amm, ''pool'', ''SwapExecuted'', read_SwapExecuted),
      (Amm, ''pool'', ''SwapLimitsChanged'', read_SwapLimitsChanged),
      (Amm, ''pool'', ''LiquidityLimitsChanged'', read_LiquidityLimitsChanged),
      (Amm, ''pool'', ''PoolPauseChanged'', read_PoolPauseChanged),
      (Amm, ''lp_rewards'', ''LpEpochOpened'', read_LpEpochOpened),
      (Amm, ''lp_rewards'', ''LpEpochStatusChanged'', read_LpEpochStatusChanged),
      (Amm, ''lp_rewards'', ''LpSharesChanged'', read_LpSharesChanged),
      (Amm, ''lp_rewards'', ''LpSharesTransferred'', read_LpSharesTransferred),
      (Amm, ''lp_rewards'', ''LpRewardIndexAdvanced'', read_LpRewardIndexAdvanced),
      (Amm, ''lp_rewards'', ''LpRewardsClaimed'', read_LpRewardsClaimed),
      (Amm, ''lp_rewards'', ''LpRewardQuarantined'', read_LpRewardQuarantined),
      (Amm, ''lp_rewards'', ''LpFractionalResidueRetired'', read_LpFractionalResidueRetired),
      (Amm, ''lp_rewards'', ''LpEpochTerminalDustClassified'', read_LpEpochTerminalDustClassified)]"

definition event_branches :: "(nat list \<Rightarrow> string) \<Rightarrow> string \<Rightarrow> event_branch list" where
  "event_branches text hash = core_branches text hash @ amm_branches"

fun first_branch :: "package_addresses \<Rightarrow> string \<Rightarrow> js_val \<Rightarrow> event_branch list \<Rightarrow> event_body option result" where
  "first_branch pk ty data [] = Inr None"
| "first_branch pk ty data ((p, m, e, reader) # bs) =
     rbind (isType ty (package_address pk p) m e) (\<lambda>hit.
     if hit then rbind (reader data) (\<lambda>body. Inr (Some body)) else first_branch pk ty data bs)"

definition normalize :: "(nat list \<Rightarrow> string) \<Rightarrow> package_addresses \<Rightarrow> cedra_envelope \<Rightarrow> protocol_event option result" where
  "normalize text pk env =
     rbind (asRecord (en_data env)) (\<lambda>data.
     rbind (event_base env) (\<lambda>base.
     rbind (first_branch pk (en_typeTag env) data (event_branches text (en_txHash env))) (\<lambda>body.
     Inr (map_option base body))))"

text \<open>The constructor: canonical, non-zero, pairwise distinct package addresses.\<close>

definition new_normalizer :: "package_addresses \<Rightarrow> package_addresses result" where
  "new_normalizer options =
     rbind (canonicalAddress (pk_reflectionCore options)) (\<lambda>core.
     rbind (canonicalAddress (pk_testAssets options)) (\<lambda>assets.
     rbind (canonicalAddress (pk_testAmm options)) (\<lambda>amm.
     if ''0x0'' \<in> set [core, assets, amm]
     then Inl (TypeError ''Cedra event package addresses must be non-zero'')
     else if \<not> distinct [core, assets, amm]
     then Inl (TypeError ''Cedra event package addresses must be canonically distinct'')
     else Inr \<lparr>pk_reflectionCore = core, pk_testAssets = assets, pk_testAmm = amm\<rparr>)))"

end
