(* ===== verification/Address_Text.thy ===== *)
theory Address_Text
  imports Cedra_Normalizer
begin

text \<open>
  The canonical form of an address text: it is a fixed point of \<open>canonicalAddress\<close>, it denotes the
  number the text denotes, and a number has one canonical form. The comparison of package addresses
  in \<open>isType\<close> and the distinctness test of the constructor therefore compare numbers.
\<close>

section \<open>Hexadecimal digits\<close>

lemma is_hex_iff: "is_hex c \<longleftrightarrow> (let n = of_char c :: nat in
    (48 \<le> n \<and> n \<le> 57) \<or> (97 \<le> n \<and> n \<le> 102) \<or> (65 \<le> n \<and> n \<le> 70))"
  by (auto simp: is_hex_def hex_val_def Let_def)

lemma of_char_lower [simp]:
  "(of_char (lower_case c) :: nat) = (let n = of_char c in if 65 \<le> n \<and> n \<le> 90 then n + 32 else n)"
  by (auto simp: lower_case_def Let_def)

lemma hex_val_lower [simp]: "hex_val (lower_case c) = hex_val c" if "is_hex c"
  using that by (auto simp: is_hex_iff hex_val_def Let_def)

lemma is_hex_lower [simp]: "is_hex c \<Longrightarrow> is_hex (lower_case c)"
  by (simp add: is_hex_def)

lemma lower_case_idem [simp]: "is_hex c \<Longrightarrow> lower_case (lower_case c) = lower_case c"
  by (subst lower_case_def) (auto simp: is_hex_iff Let_def)

lemma lower_case_zero [simp]: "lower_case c = CHR ''0'' \<longleftrightarrow> c = CHR ''0''"
proof -
  have "(of_char c :: nat) = 48 \<Longrightarrow> c = CHR ''0''"
    using char_of_char [of c] by (metis of_char_Char char_of_nat digit_char_0 digit_char_def add.right_neutral)
  then show ?thesis by (auto simp: lower_case_def Let_def dest: arg_cong [where f = "of_char :: char \<Rightarrow> nat"])
qed

lemma hex_val_less: "hex_val c = Some d \<Longrightarrow> d < 16"
  by (auto simp: hex_val_def Let_def split: if_splits)

lemma hex_val_inj:
  assumes "is_hex c" "is_hex d" "lower_case c = c" "lower_case d = d" "hex_val c = hex_val d"
  shows "c = d"
proof -
  define n m :: nat where nm: "n = of_char c" "m = of_char d"
  have low: "\<not> (65 \<le> (of_char x :: nat) \<and> (of_char x :: nat) \<le> 70)" if "lower_case x = x" for x
    using of_char_lower [of x] that by (auto simp: Let_def)
  have "n = m"
    using assms low [of c] low [of d] unfolding is_hex_iff hex_val_def nm [symmetric] Let_def
    by (auto split: if_splits)
  then show ?thesis using nm by simp
qed

section \<open>The number a text denotes\<close>

definition hex_number :: "string \<Rightarrow> nat" where
  "hex_number ds = foldl (\<lambda>acc c. 16 * acc + (case hex_val c of Some d \<Rightarrow> d | None \<Rightarrow> 0)) 0 ds"

definition address_number :: "string \<Rightarrow> nat" where
  "address_number a = hex_number (drop 2 a)"

lemma hex_number_simps [simp]:
  "hex_number [] = 0"
  "hex_number (ds @ [c]) = 16 * hex_number ds + (case hex_val c of Some d \<Rightarrow> d | None \<Rightarrow> 0)"
  by (simp_all add: hex_number_def)

lemma hex_number_zeros: "hex_number (dropWhile (\<lambda>c. c = CHR ''0'') ds) = hex_number ds"
proof (induction ds)
  case (Cons c ds)
  have "hex_number (CHR ''0'' # ds) = hex_number ds" by (simp add: hex_number_def hex_val_def)
  with Cons show ?case by auto
qed simp

lemma hex_number_lower: "list_all is_hex ds \<Longrightarrow> hex_number (map lower_case ds) = hex_number ds"
  by (induction ds rule: rev_induct) simp_all

lemma hex_number_pos: "list_all is_hex ds \<Longrightarrow> ds \<noteq> [] \<Longrightarrow> hd ds \<noteq> CHR ''0'' \<Longrightarrow> 0 < hex_number ds"
proof (induction ds rule: rev_induct)
  case (snoc c ds)
  show ?case
  proof (cases "ds = []")
    case True
    then have "is_hex c" "c \<noteq> CHR ''0''" using snoc.prems by simp_all
    moreover have "(of_char c :: nat) = 48 \<Longrightarrow> c = CHR ''0''"
      by (metis char_of_char digit_char_0 digit_char_def add.right_neutral)
    ultimately have "hex_val c \<noteq> Some 0" by (auto simp: is_hex_iff hex_val_def Let_def split: if_splits)
    then show ?thesis using True \<open>is_hex c\<close> by (auto simp: is_hex_def hex_number_def)
  qed (use snoc in simp)
qed simp

text \<open>Lower-case digits without a leading zero.\<close>

definition normal_digits :: "string \<Rightarrow> bool" where
  "normal_digits ds = (list_all (\<lambda>c. is_hex c \<and> lower_case c = c) ds \<and> (ds \<noteq> [] \<longrightarrow> hd ds \<noteq> CHR ''0''))"

lemma normal_digits_butlast: "normal_digits (ds @ [c]) \<Longrightarrow> normal_digits ds \<and> is_hex c \<and> lower_case c = c"
  by (cases ds) (auto simp: normal_digits_def)

lemma normal_digits_pos: "normal_digits ds \<Longrightarrow> ds \<noteq> [] \<Longrightarrow> 0 < hex_number ds"
  by (auto simp: normal_digits_def list_all_iff intro!: hex_number_pos)

lemma base16_inj: "16 * a + x = 16 * b + y \<Longrightarrow> x < 16 \<Longrightarrow> y < 16 \<Longrightarrow> x = y \<and> a = b" for a b x y :: nat
  by presburger

lemma normal_digits_inj: "normal_digits ds \<Longrightarrow> normal_digits es \<Longrightarrow> hex_number ds = hex_number es \<Longrightarrow> ds = es"
proof (induction ds arbitrary: es rule: rev_induct)
  case Nil
  then show ?case using normal_digits_pos [of es] by auto
next
  case (snoc c ds)
  have "es \<noteq> []" using normal_digits_pos [of "ds @ [c]"] snoc.prems by auto
  then obtain e es' where es: "es = es' @ [e]" by (cases es rule: rev_cases) auto
  from snoc.prems es have c: "normal_digits ds" "is_hex c" "lower_case c = c"
    and e: "normal_digits es'" "is_hex e" "lower_case e = e"
    using normal_digits_butlast by blast+
  obtain x y where v: "hex_val c = Some x" "hex_val e = Some y" using c(2) e(2) by (auto simp: is_hex_def)
  have "16 * hex_number ds + x = 16 * hex_number es' + y"
    using snoc.prems(3) v by (simp only: es hex_number_simps option.case)
  moreover have "x < 16" "y < 16" using v hex_val_less by blast+
  ultimately have eq: "x = y" "hex_number ds = hex_number es'" using base16_inj by blast+
  then have "ds = es'" using snoc.IH [OF c(1) e(1)] by blast
  moreover have "c = e" using hex_val_inj [OF c(2) e(2) c(3) e(3)] v eq(1) by simp
  ultimately show ?case by (simp only: es)
qed

section \<open>Canonical addresses\<close>

definition canonical_digits :: "string \<Rightarrow> string" where
  "canonical_digits ds = map lower_case (dropWhile (\<lambda>c. c = CHR ''0'') ds)"

lemma canonicalAddress_text:
  "is_package_address a \<Longrightarrow> canonicalAddress a =
     Inr (''0x'' @ (if canonical_digits (drop 2 a) = [] then ''0'' else canonical_digits (drop 2 a)))"
  by (simp add: canonicalAddress_def canonical_digits_def Let_def)

lemma canonicalAddress_Inr: "canonicalAddress a = Inr c \<Longrightarrow> is_package_address a"
  by (auto simp: canonicalAddress_def split: if_splits)

lemma canonicalAddress_Inl: "canonicalAddress a = Inl e \<Longrightarrow> \<not> is_package_address a"
  by (simp add: canonicalAddress_def Let_def split: if_splits)

lemma stripped_hex: "list_all is_hex ds \<Longrightarrow> list_all is_hex (dropWhile (\<lambda>c. c = CHR ''0'') ds)"
  unfolding list_all_iff using set_dropWhileD by fast

lemma canonical_digits_normal:
  assumes "list_all is_hex ds"
  shows "normal_digits (canonical_digits ds)"
proof -
  define es where "es = dropWhile (\<lambda>c. c = CHR ''0'') ds"
  have "list_all is_hex es" using stripped_hex [OF assms] by (simp add: es_def)
  moreover have "es \<noteq> [] \<Longrightarrow> hd es \<noteq> CHR ''0''" unfolding es_def by (rule hd_dropWhile)
  moreover have "canonical_digits ds = map lower_case es" by (simp add: canonical_digits_def es_def)
  ultimately show ?thesis by (simp add: normal_digits_def list_all_iff hd_map)
qed

lemma canonical_digits_number: "list_all is_hex ds \<Longrightarrow> hex_number (canonical_digits ds) = hex_number ds"
  using hex_number_lower [OF stripped_hex [of ds]] by (simp add: canonical_digits_def hex_number_zeros)

lemma canonical_digits_fixed: "normal_digits ds \<Longrightarrow> canonical_digits ds = ds"
  by (cases ds) (simp_all add: canonical_digits_def normal_digits_def list_all_iff map_idI)

lemma canonicalAddress_form:
  assumes "canonicalAddress a = Inr c"
  obtains ds where "normal_digits ds" "length ds \<le> 64" "hex_number ds = address_number a"
    "c = ''0x'' @ (if ds = [] then ''0'' else ds)"
proof -
  note a = canonicalAddress_Inr [OF assms]
  let ?ds = "canonical_digits (drop 2 a)"
  have "list_all is_hex (drop 2 a)" "length (drop 2 a) \<le> 64" using a by (simp_all add: is_package_address_def)
  moreover have "length ?ds \<le> length (drop 2 a)"
    unfolding canonical_digits_def by (simp only: length_map length_dropWhile_le)
  ultimately show thesis
    using assms canonicalAddress_text [OF a] by (intro that [of ?ds])
      (simp_all add: canonical_digits_normal canonical_digits_number address_number_def)
qed

lemma canonicalAddress_idem:
  assumes "canonicalAddress a = Inr c"
  shows "canonicalAddress c = Inr c"
proof -
  obtain ds where ds: "normal_digits ds" "length ds \<le> 64" "c = ''0x'' @ (if ds = [] then ''0'' else ds)"
    using canonicalAddress_form [OF assms] by metis
  show ?thesis
  proof (cases "ds = []")
    case True
    with ds(3) show ?thesis by (simp add: canonicalAddress_def is_package_address_def has_0x_def is_hex_def hex_val_def)
  next
    case False
    then have "is_package_address c" using ds by (auto simp: is_package_address_def has_0x_def normal_digits_def list_all_iff)
    then show ?thesis using ds False by (simp add: canonicalAddress_text canonical_digits_fixed)
  qed
qed

lemma canonicalAddress_eq_iff:
  assumes "canonicalAddress a = Inr c" "canonicalAddress b = Inr d"
  shows "c = d \<longleftrightarrow> address_number a = address_number b"
proof -
  obtain ds where ds: "normal_digits ds" "hex_number ds = address_number a" "c = ''0x'' @ (if ds = [] then ''0'' else ds)"
    using canonicalAddress_form [OF assms(1)] by metis
  obtain es where es: "normal_digits es" "hex_number es = address_number b" "d = ''0x'' @ (if es = [] then ''0'' else es)"
    using canonicalAddress_form [OF assms(2)] by metis
  have "ds = es \<longleftrightarrow> hex_number ds = hex_number es" using normal_digits_inj ds es by blast
  moreover have "c = d \<longleftrightarrow> ds = es" using ds es by (auto simp: normal_digits_def)
  ultimately show ?thesis using ds es by simp
qed

lemma address_number_canonical:
  assumes "canonicalAddress a = Inr c"
  shows "address_number c = address_number a"
  using canonicalAddress_eq_iff [OF canonicalAddress_idem [OF assms] assms] by simp

text \<open>
  C32. An address text is accepted exactly when it matches the pattern; the canonical form denotes
  the same number, is left alone by a second pass, and two accepted texts have the same canonical form
  exactly when they denote the same number, so that case, prefix case and leading zeros never matter.
\<close>

theorem canonical_address_decides_number:
  "(case canonicalAddress a of Inl e \<Rightarrow> \<not> is_package_address a
    | Inr c \<Rightarrow> is_package_address a \<and> address_number c = address_number a \<and> canonicalAddress c = Inr c
        \<and> (case canonicalAddress b of Inl _ \<Rightarrow> \<not> is_package_address b
           | Inr d \<Rightarrow> c = d \<longleftrightarrow> address_number a = address_number b))"
proof (cases "canonicalAddress a"; cases "canonicalAddress b")
  fix c d assume "canonicalAddress a = Inr c" "canonicalAddress b = Inr d"
  then show ?thesis
    using canonicalAddress_eq_iff [of a c b d] canonicalAddress_idem [of a c] address_number_canonical [of a c]
    by (simp add: canonicalAddress_Inr)
qed (simp_all add: canonicalAddress_Inr canonicalAddress_Inl canonicalAddress_idem address_number_canonical)

end
