(* ===== verification/Normalizer_Types.thy ===== *)
theory Normalizer_Types
  imports Address_Text
begin

text \<open>
  What a normalized event satisfies. Every reader yields a body whose integers are inside the Move
  widths the processor asserts and whose addresses are canonical, with one exception: the net input of
  a swap is a difference the normalizer computes and does not check.
\<close>

section \<open>What a field read returns\<close>

named_theorems read_rules "what a successful field read says of its value"

lemma requiredUnsigned_range [read_rules]: "requiredUnsigned data key b = Inr n \<Longrightarrow> isMoveUnsigned n b"
  by (auto simp: requiredUnsigned_def requiredBigint_def result_simps isMoveUnsigned_def split: if_splits)

lemma requiredAddress_canonical [read_rules]: "requiredAddress data key = Inr a \<Longrightarrow> canonicalAddress a = Inr a"
  by (auto simp: requiredAddress_def result_simps split: sum.splits dest: canonicalAddress_idem)

lemma materializationTrigger_range [read_rules]: "materializationTrigger data = Inr t \<Longrightarrow> isMoveUnsigned t U8"
  by (auto simp: materializationTrigger_def result_simps split: if_splits dest: requiredUnsigned_range)

lemma isMoveUnsigned_0 [simp]: "isMoveUnsigned 0 b"
  by (cases b) (simp_all add: isMoveUnsigned_def move_max_defs)

section \<open>Well-typed bodies\<close>

text \<open>The addresses of a body, without those of \<open>UnknownEvent\<close> and of events that carry none.\<close>

fun body_addresses :: "event_body \<Rightarrow> address list" where
  "body_addresses (ProtocolInitialized i) = [pi_tokenMetadata i, pi_rewardVault i, pi_distributionVault i]"
| "body_addresses (TokenCreated t) = [tc_tokenMetadata t, tc_rewardVault t, tc_distributionVault t]"
| "body_addresses (LaunchSealed l) = [ls_bootstrap l, ls_rflReserve l, ls_usdReserve l, ls_lpRewardVault l]"
| "body_addresses (PoolClosed c) = [pc_provider c]"
| "body_addresses (ProtocolPrimaryStoreExcluded a s n) = [a, s]"
| "body_addresses (OperationalPrimaryStoreExcluded a s) = [a, s]"
| "body_addresses (PositionCreated a) = [a]"
| "body_addresses (WalletRegistered a s n) = [a, s]"
| "body_addresses (FaucetGrant a y n) = [a]"
| "body_addresses (PoolReserveBound r c) = [r, c]"
| "body_addresses (WalletTransfer a b y n) = [a, b]"
| "body_addresses (EligibleBalanceDebited a n) = [a]"
| "body_addresses (EligibleBalanceCredited a n) = [a]"
| "body_addresses (SwapExecuted s) = [sw_account s]"
| "body_addresses (RewardsMaterialized a n t g) = [a]"
| "body_addresses (RewardsClaimed a n t) = [a]"
| "body_addresses (CustodyAdapterRegistered c) = [ca_reserveStore c, ca_lpRewardVault c]"
| "body_addresses (CustodyEpochRouteOpened r) = [ro_reserveStore r, ro_lpRewardVault r]"
| "body_addresses (CustodyRewardsRouted r) = [cr_reserveStore r, cr_lpRewardVault r]"
| "body_addresses (OperationalAdminChanged s a b) = [a, b]"
| "body_addresses (LiquiditySeeded q) = [lq_provider q]"
| "body_addresses (LiquidityAdded q) = [lq_provider q]"
| "body_addresses (LiquidityRemoved q f) = [lq_provider q]"
| "body_addresses (LpEpochOpened e s v) = [s, v]"
| "body_addresses (LpSharesChanged c) = [sc_owner c]"
| "body_addresses (LpSharesTransferred t) = [st_sender t, st_recipient t]"
| "body_addresses (LpRewardsClaimed c) = [lc_owner c]"
| "body_addresses (LpRewardQuarantined q) = [qu_rewardVault q]"
| "body_addresses (LpFractionalResidueRetired r) = [rr_owner r]"
| "body_addresses (LpEpochTerminalDustClassified d) = [td_rewardVault d]"
| "body_addresses _ = []"

definition net_check :: "swap_executed \<Rightarrow> unit result" where
  "net_check s =
     (if sw_netReserveInput s < 0 then Inl (RangeError ''swap net reserve input must fit Move u64'') else Inr ())"

definition well_typed :: "event_body \<Rightarrow> bool" where
  "well_typed body =
     (rseq (body_checks body) = (case body of
          SwapExecuted s \<Rightarrow> net_check s
        | _ \<Rightarrow> Inr ())
      \<and> list_all (\<lambda>a. canonicalAddress a = Inr a) (body_addresses body))"

text \<open>A body other than a swap is well typed when each of its checks passes.\<close>

lemma well_typedI:
  assumes "\<forall>r \<in> set (body_checks body). r = Inr ()" "\<forall>a \<in> set (body_addresses body). canonicalAddress a = Inr a"
    "\<And>s. body \<noteq> SwapExecuted s"
  shows "well_typed body"
proof (cases body)
  case (SwapExecuted s)
  with assms(3) show ?thesis by blast
qed (use assms in \<open>simp_all add: well_typed_def rseq_Inr_iff list_all_iff\<close>)

lemma rseq_passes: "isMoveUnsigned n b \<Longrightarrow> rseq (assertMoveUnsigned n b l # rs) = rseq rs"
  by (simp add: rseq.simps assertMoveUnsigned_def)

lemma rseq_last: "\<forall>r \<in> set rs. r = Inr () \<Longrightarrow> rseq (q # rs) = q"
  using rseq_Inr_iff [of rs "()"] by (cases q) (simp_all add: rseq.simps)

section \<open>Every reader is well typed\<close>

lemma read_ProtocolInitialized_typed: "read_ProtocolInitialized text data = Inr body \<Longrightarrow> well_typed body"
  by (intro well_typedI; auto simp: read_ProtocolInitialized_def result_simps split: if_splits; erule read_rules)

lemma read_TokenCreated_typed: "read_TokenCreated text data = Inr body \<Longrightarrow> well_typed body"
  by (intro well_typedI; auto simp: read_TokenCreated_def result_simps split: if_splits; erule read_rules)

lemma read_ProtocolPrimaryStoreExcluded_typed: "read_ProtocolPrimaryStoreExcluded data = Inr body \<Longrightarrow> well_typed body"
  by (intro well_typedI; auto simp: read_ProtocolPrimaryStoreExcluded_def result_simps split: if_splits; erule read_rules)

lemma read_OperationalPrimaryStoreExcluded_typed: "read_OperationalPrimaryStoreExcluded data = Inr body \<Longrightarrow> well_typed body"
  by (intro well_typedI; auto simp: read_OperationalPrimaryStoreExcluded_def result_simps split: if_splits; erule read_rules)

lemma read_PositionCreated_typed: "read_PositionCreated data = Inr body \<Longrightarrow> well_typed body"
  by (intro well_typedI; auto simp: read_PositionCreated_def result_simps split: if_splits; erule read_rules)

lemma read_WalletRegistered_typed: "read_WalletRegistered data = Inr body \<Longrightarrow> well_typed body"
  by (intro well_typedI; auto simp: read_WalletRegistered_def result_simps split: if_splits; erule read_rules)

lemma read_FaucetGrant_typed: "read_FaucetGrant asset data = Inr body \<Longrightarrow> well_typed body"
  by (intro well_typedI; auto simp: read_FaucetGrant_def result_simps split: if_splits; erule read_rules)

lemma read_FaucetConfigured_typed: "read_FaucetConfigured data = Inr body \<Longrightarrow> well_typed body"
  by (intro well_typedI; auto simp: read_FaucetConfigured_def result_simps split: if_splits; erule read_rules)

lemma read_PoolReserveBound_typed: "read_PoolReserveBound data = Inr body \<Longrightarrow> well_typed body"
  by (intro well_typedI; auto simp: read_PoolReserveBound_def result_simps split: if_splits; erule read_rules)

lemma read_WalletTransfer_typed: "read_WalletTransfer data = Inr body \<Longrightarrow> well_typed body"
  by (intro well_typedI; auto simp: read_WalletTransfer_def result_simps split: if_splits; erule read_rules)

lemma read_EligibleBalanceDebited_typed: "read_EligibleBalanceDebited data = Inr body \<Longrightarrow> well_typed body"
  by (intro well_typedI; auto simp: read_EligibleBalanceDebited_def result_simps split: if_splits; erule read_rules)

lemma read_EligibleBalanceCredited_typed: "read_EligibleBalanceCredited data = Inr body \<Longrightarrow> well_typed body"
  by (intro well_typedI; auto simp: read_EligibleBalanceCredited_def result_simps split: if_splits; erule read_rules)

lemma read_ReflectionFeeCollected_typed: "read_ReflectionFeeCollected hash data = Inr body \<Longrightarrow> well_typed body"
  by (intro well_typedI; auto simp: read_ReflectionFeeCollected_def result_simps split: if_splits; erule read_rules)

lemma read_ReflectionIndexAdvanced_typed: "read_ReflectionIndexAdvanced data = Inr body \<Longrightarrow> well_typed body"
  by (intro well_typedI; auto simp: read_ReflectionIndexAdvanced_def result_simps split: if_splits; erule read_rules)

lemma read_RewardsMaterialized_typed: "read_RewardsMaterialized data = Inr body \<Longrightarrow> well_typed body"
  by (intro well_typedI; auto simp: read_RewardsMaterialized_def result_simps split: if_splits; erule read_rules)

lemma read_RewardsClaimed_typed: "read_RewardsClaimed data = Inr body \<Longrightarrow> well_typed body"
  by (intro well_typedI; auto simp: read_RewardsClaimed_def result_simps split: if_splits; erule read_rules)

lemma read_CustodyAdapterRegistered_typed: "read_CustodyAdapterRegistered data = Inr body \<Longrightarrow> well_typed body"
  by (intro well_typedI; auto simp: read_CustodyAdapterRegistered_def result_simps split: if_splits; erule read_rules)

lemma read_CustodyEpochRouteOpened_typed: "read_CustodyEpochRouteOpened data = Inr body \<Longrightarrow> well_typed body"
  by (intro well_typedI; auto simp: read_CustodyEpochRouteOpened_def result_simps split: if_splits; erule read_rules)

lemma read_CustodySharesChanged_typed: "read_CustodySharesChanged data = Inr body \<Longrightarrow> well_typed body"
  by (intro well_typedI; auto simp: read_CustodySharesChanged_def result_simps split: if_splits; erule read_rules)

lemma read_CustodyRewardsRouted_typed: "read_CustodyRewardsRouted data = Inr body \<Longrightarrow> well_typed body"
  by (intro well_typedI; auto simp: read_CustodyRewardsRouted_def result_simps split: if_splits; erule read_rules)

lemma read_FeeConfigurationChanged_typed: "read_FeeConfigurationChanged data = Inr body \<Longrightarrow> well_typed body"
  by (intro well_typedI; auto simp: read_FeeConfigurationChanged_def result_simps split: if_splits; erule read_rules)

lemma read_PauseStateChanged_typed: "read_PauseStateChanged data = Inr body \<Longrightarrow> well_typed body"
  by (intro well_typedI; auto simp: read_PauseStateChanged_def result_simps split: if_splits; erule read_rules)

lemma read_FaucetPauseChanged_typed: "read_FaucetPauseChanged data = Inr body \<Longrightarrow> well_typed body"
  by (intro well_typedI; auto simp: read_FaucetPauseChanged_def result_simps split: if_splits; erule read_rules)

lemma read_OperationalAdminChanged_typed: "read_OperationalAdminChanged scope data = Inr body \<Longrightarrow> well_typed body"
  by (intro well_typedI; auto simp: read_OperationalAdminChanged_def result_simps split: if_splits; erule read_rules)

lemma liquidity_well_typed:
  "read_liquidity con data = Inr body \<Longrightarrow> con = LiquiditySeeded \<or> con = LiquidityAdded \<Longrightarrow> well_typed body"
  by (intro well_typedI; auto simp: read_liquidity_def liquidity_checks_def result_simps; erule read_rules)

lemma read_LiquidityRemoved_typed: "read_LiquidityRemoved data = Inr body \<Longrightarrow> well_typed body"
  by (intro well_typedI; auto simp: read_LiquidityRemoved_def liquidity_checks_def result_simps split: if_splits; erule read_rules)

lemma read_LaunchSealed_typed: "read_LaunchSealed data = Inr body \<Longrightarrow> well_typed body"
  by (intro well_typedI; auto simp: read_LaunchSealed_def launch_checks_def result_simps split: if_splits; erule read_rules)

lemma read_PoolClosed_typed: "read_PoolClosed data = Inr body \<Longrightarrow> well_typed body"
  by (intro well_typedI; auto simp: read_PoolClosed_def result_simps split: if_splits; erule read_rules)

lemma swap_checks_net:
  assumes "isMoveUnsigned (sw_grossAmount s) U64" "isMoveUnsigned (sw_reflectionFee s) U64"
    "isMoveUnsigned (sw_ammFee s) U64" "isMoveUnsigned (sw_grossPoolOutput s) U64"
    "isMoveUnsigned (sw_netUserReceipt s) U64" "isMoveUnsigned (sw_trflReserveAfter s) U64"
    "isMoveUnsigned (sw_tusdReserveAfter s) U64"
    "sw_netReserveInput s \<le> MOVE_U64_MAX"
  shows "rseq (swap_checks s) = net_check s"
proof -
  have "rseq (swap_checks s) = assertMoveUnsigned (sw_netReserveInput s) U64 ''swap net reserve input''"
    unfolding swap_checks_def using assms by (simp add: rseq_passes rseq_last result_simps)
  then show ?thesis using assms(8) by (simp add: net_check_def assertMoveUnsigned_def isMoveUnsigned_def)
qed

lemma read_SwapExecuted_fields:
  assumes "read_SwapExecuted data = Inr body"
  shows "\<exists>s. body = SwapExecuted s \<and> isMoveUnsigned (sw_grossAmount s) U64 \<and> isMoveUnsigned (sw_reflectionFee s) U64
    \<and> isMoveUnsigned (sw_ammFee s) U64 \<and> isMoveUnsigned (sw_grossPoolOutput s) U64
    \<and> isMoveUnsigned (sw_netUserReceipt s) U64 \<and> isMoveUnsigned (sw_trflReserveAfter s) U64
    \<and> isMoveUnsigned (sw_tusdReserveAfter s) U64 \<and> sw_netReserveInput s \<le> MOVE_U64_MAX
    \<and> canonicalAddress (sw_account s) = Inr (sw_account s)"
  using assms
  by (auto simp: read_SwapExecuted_def result_simps isMoveUnsigned_iff dest!: requiredUnsigned_range requiredAddress_canonical)

text \<open>The net input is the only field of a swap that may leave its width, and only downwards.\<close>

lemma swap_well_typed:
  assumes "read_SwapExecuted data = Inr body"
  shows "well_typed body"
proof -
  obtain s where "body = SwapExecuted s" "canonicalAddress (sw_account s) = Inr (sw_account s)"
    and "rseq (swap_checks s) = net_check s"
    using read_SwapExecuted_fields [OF assms] swap_checks_net by fast
  then show ?thesis by (simp add: well_typed_def)
qed

lemma read_SwapLimitsChanged_typed: "read_SwapLimitsChanged data = Inr body \<Longrightarrow> well_typed body"
  by (intro well_typedI; auto simp: read_SwapLimitsChanged_def result_simps split: if_splits; erule read_rules)

lemma read_LiquidityLimitsChanged_typed: "read_LiquidityLimitsChanged data = Inr body \<Longrightarrow> well_typed body"
  by (intro well_typedI; auto simp: read_LiquidityLimitsChanged_def result_simps split: if_splits; erule read_rules)

lemma read_PoolPauseChanged_typed: "read_PoolPauseChanged data = Inr body \<Longrightarrow> well_typed body"
  by (intro well_typedI; auto simp: read_PoolPauseChanged_def result_simps split: if_splits; erule read_rules)

lemma read_LpEpochOpened_typed: "read_LpEpochOpened data = Inr body \<Longrightarrow> well_typed body"
  by (intro well_typedI; auto simp: read_LpEpochOpened_def result_simps split: if_splits; erule read_rules)

lemma read_LpEpochStatusChanged_typed: "read_LpEpochStatusChanged data = Inr body \<Longrightarrow> well_typed body"
  by (intro well_typedI; auto simp: read_LpEpochStatusChanged_def result_simps split: if_splits; erule read_rules)

lemma read_LpSharesChanged_typed: "read_LpSharesChanged data = Inr body \<Longrightarrow> well_typed body"
  by (intro well_typedI; auto simp: read_LpSharesChanged_def result_simps split: if_splits; erule read_rules)

lemma read_LpSharesTransferred_typed: "read_LpSharesTransferred data = Inr body \<Longrightarrow> well_typed body"
  by (intro well_typedI; auto simp: read_LpSharesTransferred_def result_simps split: if_splits; erule read_rules)

lemma read_LpRewardIndexAdvanced_typed: "read_LpRewardIndexAdvanced data = Inr body \<Longrightarrow> well_typed body"
  by (intro well_typedI; auto simp: read_LpRewardIndexAdvanced_def result_simps split: if_splits; erule read_rules)

lemma read_LpRewardsClaimed_typed: "read_LpRewardsClaimed data = Inr body \<Longrightarrow> well_typed body"
  by (intro well_typedI; auto simp: read_LpRewardsClaimed_def result_simps split: if_splits; erule read_rules)

lemma read_LpRewardQuarantined_typed: "read_LpRewardQuarantined data = Inr body \<Longrightarrow> well_typed body"
  by (intro well_typedI; auto simp: read_LpRewardQuarantined_def result_simps split: if_splits; erule read_rules)

lemma read_LpFractionalResidueRetired_typed: "read_LpFractionalResidueRetired data = Inr body \<Longrightarrow> well_typed body"
  by (intro well_typedI; auto simp: read_LpFractionalResidueRetired_def result_simps split: if_splits; erule read_rules)

lemma read_LpEpochTerminalDustClassified_typed: "read_LpEpochTerminalDustClassified data = Inr body \<Longrightarrow> well_typed body"
  by (intro well_typedI; auto simp: read_LpEpochTerminalDustClassified_def result_simps split: if_splits; erule read_rules)

lemmas readers_typed =
  read_ProtocolInitialized_typed
  read_TokenCreated_typed
  read_ProtocolPrimaryStoreExcluded_typed
  read_OperationalPrimaryStoreExcluded_typed
  read_PositionCreated_typed
  read_WalletRegistered_typed
  read_FaucetGrant_typed
  read_FaucetConfigured_typed
  read_PoolReserveBound_typed
  read_WalletTransfer_typed
  read_EligibleBalanceDebited_typed
  read_EligibleBalanceCredited_typed
  read_ReflectionFeeCollected_typed
  read_ReflectionIndexAdvanced_typed
  read_RewardsMaterialized_typed
  read_RewardsClaimed_typed
  read_CustodyAdapterRegistered_typed
  read_CustodyEpochRouteOpened_typed
  read_CustodySharesChanged_typed
  read_CustodyRewardsRouted_typed
  read_FeeConfigurationChanged_typed
  read_PauseStateChanged_typed
  read_FaucetPauseChanged_typed
  read_OperationalAdminChanged_typed
  read_LiquidityRemoved_typed
  read_LaunchSealed_typed
  read_PoolClosed_typed
  read_SwapLimitsChanged_typed
  read_LiquidityLimitsChanged_typed
  read_PoolPauseChanged_typed
  read_LpEpochOpened_typed
  read_LpEpochStatusChanged_typed
  read_LpSharesChanged_typed
  read_LpSharesTransferred_typed
  read_LpRewardIndexAdvanced_typed
  read_LpRewardsClaimed_typed
  read_LpRewardQuarantined_typed
  read_LpFractionalResidueRetired_typed
  read_LpEpochTerminalDustClassified_typed
  swap_well_typed liquidity_well_typed

lemma core_branches_typed:
  "list_all (\<lambda>(p, m, e, reader). \<forall>data body. reader data = Inr body \<longrightarrow> well_typed body) (core_branches text hash)"
  unfolding core_branches_def by (simp add: readers_typed)

lemma amm_branches_typed:
  "list_all (\<lambda>(p, m, e, reader). \<forall>data body. reader data = Inr body \<longrightarrow> well_typed body) amm_branches"
  unfolding amm_branches_def by (auto intro: readers_typed)

lemma first_branch_typed:
  "list_all (\<lambda>(p, m, e, reader). \<forall>data body. reader data = Inr body \<longrightarrow> well_typed body) bs \<Longrightarrow>
   first_branch pk ty data bs = Inr (Some body) \<Longrightarrow> well_typed body"
  by (induction pk ty data bs rule: first_branch.induct) (auto simp: result_simps split: if_splits)

section \<open>Normalized events\<close>

lemma event_base_checks:
  assumes "event_base env = Inr base"
  shows "base body = \<lparr>ev_id = en_txHash env @ '':'' @ int_str (en_eventIndex env), ev_txHash = en_txHash env,
      ev_ledgerVersion = en_ledgerVersion env, ev_eventIndex = en_eventIndex env,
      ev_timestampUnixMilliseconds = en_timestampUnixMilliseconds env, ev_source = Source_chain, ev_body = body\<rparr>"
    and "assertBase (base body) =
      rensure (length (ev_id (base body)) \<le> 512) (TypeError ''event id must contain 1 to 512 characters'')"
proof -
  have env: "en_txHash env \<noteq> []" "length (en_txHash env) \<le> 512" "0 \<le> en_ledgerVersion env"
      "en_ledgerVersion env \<le> MOVE_U64_MAX" "0 \<le> en_eventIndex env" "en_eventIndex env \<le> MAX_SAFE_INTEGER"
      "0 \<le> en_timestampUnixMilliseconds env" "en_timestampUnixMilliseconds env \<le> MOVE_U64_MAX"
    using assms by (auto simp: event_base_def split: if_splits)
  show base: "base body = \<lparr>ev_id = en_txHash env @ '':'' @ int_str (en_eventIndex env), ev_txHash = en_txHash env,
      ev_ledgerVersion = en_ledgerVersion env, ev_eventIndex = en_eventIndex env,
      ev_timestampUnixMilliseconds = en_timestampUnixMilliseconds env, ev_source = Source_chain, ev_body = body\<rparr>"
    using assms by (auto simp: event_base_def split: if_splits)
  have "en_eventIndex env \<le> MOVE_U64_MAX" "- MAX_SAFE_INTEGER \<le> en_eventIndex env"
    using env by (simp_all add: MAX_SAFE_INTEGER_def MOVE_U64_MAX_def)
  with env show "assertBase (base body) =
      rensure (length (ev_id (base body)) \<le> 512) (TypeError ''event id must contain 1 to 512 characters'')"
    by (subst rseq_last [symmetric]) (auto simp: base assertBase_def assertMoveUnsigned_def isMoveUnsigned_def)
qed

lemma normalize_parts:
  assumes "normalize text pk env = Inr (Some ev)"
  obtains base body where "event_base env = Inr base" "ev = base body"
    "first_branch pk (en_typeTag env) (en_data env) (event_branches text (en_txHash env)) = Inr (Some body)"
proof -
  have "asRecord (en_data env) = Inr d \<Longrightarrow> d = en_data env" for d
    by (auto simp: asRecord_def split: js_val.split_asm)
  with assms show thesis by (auto simp: normalize_def result_simps intro: that)
qed

lemma normalize_typed:
  assumes "normalize text pk env = Inr (Some ev)"
  shows "well_typed (ev_body ev)"
    and "ev_source ev = Source_chain"
    and "assertBase ev = rensure (length (ev_id ev) \<le> 512) (TypeError ''event id must contain 1 to 512 characters'')"
proof -
  obtain base body where b: "event_base env = Inr base" "ev = base body"
    "first_branch pk (en_typeTag env) (en_data env) (event_branches text (en_txHash env)) = Inr (Some body)"
    using normalize_parts [OF assms] .
  have "well_typed body"
    using first_branch_typed [OF _ b(3)] core_branches_typed amm_branches_typed by (simp add: event_branches_def)
  then show "well_typed (ev_body ev)" using b event_base_checks(1) [OF b(1)] by simp
  show "ev_source ev = Source_chain" using b event_base_checks(1) [OF b(1)] by simp
  show "assertBase ev = rensure (length (ev_id ev) \<le> 512) (TypeError ''event id must contain 1 to 512 characters'')"
    using b event_base_checks(2) [OF b(1)] by simp
qed

text \<open>
  C33. Normalized events are well typed. When \<open>normalize\<close> returns an event, every address in it is
  canonical, its source is the chain, and the processor's domain assertion accepts it, with exactly two
  exceptions: an identifier longer than 512 characters (a hash of almost that length followed by the
  index), and a swap whose reflection fee exceeds its gross input, whose net reserve input is then
  negative.
\<close>

theorem normalized_events_are_well_typed:
  assumes "normalize text pk env = Inr (Some ev)"
  shows "assertProtocolEventMoveDomains ev =
      (if 512 < length (ev_id ev) then Inl (TypeError ''event id must contain 1 to 512 characters'')
       else case ev_body ev of
           SwapExecuted s \<Rightarrow>
             if sw_netReserveInput s < 0 then Inl (RangeError ''swap net reserve input must fit Move u64'') else Inr ()
         | _ \<Rightarrow> Inr ())
    \<and> list_all (\<lambda>a. canonicalAddress a = Inr a) (body_addresses (ev_body ev))
    \<and> ev_source ev = Source_chain"
  using normalize_typed [OF assms]
  unfolding well_typed_def net_check_def by (simp add: assertProtocolEventMoveDomains_def)

end
