(* ===== verification/Utf8_Text.thy ===== *)
theory Utf8_Text
  imports Cedra_Normalizer
begin

text \<open>
  The byte vectors of the normalizer against the definition of UTF-8: the decoder accepts a byte
  sequence exactly when it is the encoding of a sequence of scalar values, and returns that sequence.
\<close>

section \<open>The encoding\<close>

definition scalar_value :: "nat \<Rightarrow> bool" where
  "scalar_value c = (c < 55296 \<or> (57344 \<le> c \<and> c \<le> 1114111))"

definition utf8_char :: "nat \<Rightarrow> nat list" where
  "utf8_char c =
     (if c < 128 then [c]
      else if c < 2048 then [192 + c div 64, 128 + c mod 64]
      else if c < 65536 then [224 + c div 4096, 128 + c div 64 mod 64, 128 + c mod 64]
      else [240 + c div 262144, 128 + c div 4096 mod 64, 128 + c div 64 mod 64, 128 + c mod 64])"

definition utf8_encode :: "nat list \<Rightarrow> nat list" where
  "utf8_encode cs = concat (map utf8_char cs)"

lemma utf8_encode_simps [simp]:
  "utf8_encode [] = []"
  "utf8_encode (c # cs) = utf8_char c @ utf8_encode cs"
  by (simp_all add: utf8_encode_def)

lemma continuation_mod [simp]: "continuation (128 + n mod 64)"
  by (simp add: continuation_def less_Suc_eq_le [symmetric])

text \<open>Base 64 digits, most significant first.\<close>

lemma digits64: "c = 64 * u + z \<Longrightarrow> z < 64 \<Longrightarrow> c div 64 = u \<and> c mod 64 = z" for c u z :: nat
  by simp

lemma split64: "\<exists>u z. c = 64 * u + z \<and> z < 64" for c :: nat
  by (intro exI [of _ "c div 64"] exI [of _ "c mod 64"]) simp

lemma div4096: "c div 4096 = c div 64 div 64" for c :: nat
  by (simp add: div_mult2_eq [symmetric])

lemma div262144: "c div 262144 = c div 64 div 64 div 64" for c :: nat
  by (simp add: div_mult2_eq [symmetric])

text \<open>The encoding of a value given by its digits.\<close>

lemma utf8_char_one: "c < 128 \<Longrightarrow> utf8_char c = [c]"
  by (simp add: utf8_char_def)

lemma utf8_char_two:
  assumes "c = 64 * u + z" "z < 64" "128 \<le> c" "c < 2048"
  shows "utf8_char c = [192 + u, 128 + z]"
  using digits64 [OF assms(1,2)] assms(3,4) by (simp add: utf8_char_def)

lemma utf8_char_three:
  assumes "c = 64 * v + z" "v = 64 * u + y" "y < 64" "z < 64" "2048 \<le> c" "c < 65536"
  shows "utf8_char c = [224 + u, 128 + y, 128 + z]"
  using digits64 [OF assms(1,4)] digits64 [OF assms(2,3)] assms(5,6) by (simp add: utf8_char_def div4096)

lemma utf8_char_four:
  assumes "c = 64 * v + z" "v = 64 * w + y" "w = 64 * u + x" "x < 64" "y < 64" "z < 64" "65536 \<le> c"
  shows "utf8_char c = [240 + u, 128 + x, 128 + y, 128 + z]"
  using digits64 [OF assms(1,6)] digits64 [OF assms(2,5)] digits64 [OF assms(3,4)] assms(7)
  by (simp add: utf8_char_def div4096 div262144)

text \<open>Ranges of the leading digits.\<close>

lemma three_range:
  assumes "c = 64 * (64 * u + y) + z" "y < 64" "z < 64"
  shows "2048 \<le> c \<and> c < 65536 \<longleftrightarrow> u \<le> 15 \<and> (u = 0 \<longrightarrow> 32 \<le> y)"
    and "c < 65536 \<Longrightarrow> scalar_value c \<longleftrightarrow> (u = 13 \<longrightarrow> y \<le> 31)"
proof -
  show "2048 \<le> c \<and> c < 65536 \<longleftrightarrow> u \<le> 15 \<and> (u = 0 \<longrightarrow> 32 \<le> y)"
    by (cases "u = 0") (use assms in auto)
  consider "u \<le> 12" | "u = 13" | "14 \<le> u" by linarith
  then show "scalar_value c \<longleftrightarrow> (u = 13 \<longrightarrow> y \<le> 31)" if "c < 65536"
    by cases (use assms that in \<open>auto simp: scalar_value_def\<close>)
qed

lemma four_range:
  assumes "c = 64 * (64 * (64 * u + x) + y) + z" "x < 64" "y < 64" "z < 64"
  shows "65536 \<le> c \<longleftrightarrow> (u = 0 \<longrightarrow> 16 \<le> x)"
    and "65536 \<le> c \<Longrightarrow> scalar_value c \<longleftrightarrow> u \<le> 4 \<and> (u = 4 \<longrightarrow> x \<le> 15)"
proof -
  show "65536 \<le> c \<longleftrightarrow> (u = 0 \<longrightarrow> 16 \<le> x)" by (cases "u = 0") (use assms in auto)
  consider "u \<le> 3" | "u = 4" | "5 \<le> u" by linarith
  then show "scalar_value c \<longleftrightarrow> u \<le> 4 \<and> (u = 4 \<longrightarrow> x \<le> 15)" if "65536 \<le> c"
    by cases (use assms that in \<open>auto simp: scalar_value_def\<close>)
qed

section \<open>Encodings are decoded\<close>

lemma scalars_char: "scalar_value c \<Longrightarrow> utf8_scalars (utf8_char c @ r) = map_option ((#) c) (utf8_scalars r)"
proof -
  assume sv: "scalar_value c"
  obtain v z where c1: "c = 64 * v + z" "z < 64" using split64 by blast
  obtain w y where c2: "v = 64 * w + y" "y < 64" using split64 by blast
  obtain u x where c3: "w = 64 * u + x" "x < 64" using split64 by blast
  consider "c < 128" | "128 \<le> c" "c < 2048" | "2048 \<le> c" "c < 65536" | "65536 \<le> c" by linarith
  then show ?thesis
  proof cases
    case 1
    then show ?thesis by (simp add: utf8_char_one)
  next
    case 2
    then have "2 \<le> v" "v \<le> 31" using c1 by linarith+
    then show ?thesis using utf8_char_two [OF c1 2] c1 by (simp add: continuation_def)
  next
    case 3
    have e: "c = 64 * (64 * w + y) + z" using c1 c2 by simp
    have "w \<le> 15" "w = 0 \<longrightarrow> 32 \<le> y" "w = 13 \<longrightarrow> y \<le> 31"
      using three_range [OF e c2(2) c1(2)] 3 sv by blast+
    then show ?thesis using utf8_char_three [OF c1(1) c2 c1(2) 3] c1 c2 by (simp add: continuation_def)
  next
    case 4
    have e: "c = 64 * (64 * (64 * u + x) + y) + z" using c1 c2 c3 by simp
    have "u \<le> 4" "u = 0 \<longrightarrow> 16 \<le> x" "u = 4 \<longrightarrow> x \<le> 15"
      using four_range [OF e c3(2) c2(2) c1(2)] 4 sv by blast+
    then show ?thesis using utf8_char_four [OF c1(1) c2(1) c3 c2(2) c1(2) 4] c1 c2 c3 by (simp add: continuation_def)
  qed
qed

lemma scalars_encode: "list_all scalar_value cs \<Longrightarrow> utf8_scalars (utf8_encode cs) = Some cs"
  by (induction cs) (simp_all add: scalars_char del: utf8_scalars.simps(2))

section \<open>Only encodings are decoded\<close>

lemma continuation_digit: "continuation b \<Longrightarrow> \<exists>y. b = 128 + y \<and> y < 64"
  by (intro exI [of _ "b - 128"]) (auto simp: continuation_def)

lemma lead_digit: "k \<le> a \<Longrightarrow> \<exists>u. a = k + u" for a k :: nat
  by (simp add: le_iff_add)

lemma char_two:
  assumes "194 \<le> a" "a \<le> 223" "continuation b" "c = 64 * (a - 192) + (b - 128)"
  shows "utf8_char c = [a, b] \<and> scalar_value c"
proof -
  obtain u where u: "a = 192 + u" using lead_digit [of 192 a] assms(1) by auto
  obtain z where z: "b = 128 + z" "z < 64" using continuation_digit [OF assms(3)] by blast
  have c: "c = 64 * u + z" "128 \<le> c" "c < 2048" using assms u z by simp_all
  then show ?thesis using utf8_char_two [OF c(1) z(2) c(2,3)] u z by (simp add: scalar_value_def)
qed

lemma char_three:
  assumes "224 \<le> a" "a \<le> 239" "continuation b" "continuation d" "a = 224 \<longrightarrow> 160 \<le> b" "a = 237 \<longrightarrow> b \<le> 159"
    "c = 4096 * (a - 224) + 64 * (b - 128) + (d - 128)"
  shows "utf8_char c = [a, b, d] \<and> scalar_value c"
proof -
  obtain u where u: "a = 224 + u" using lead_digit [OF assms(1)] by blast
  obtain y where y: "b = 128 + y" "y < 64" using continuation_digit [OF assms(3)] by blast
  obtain z where z: "d = 128 + z" "z < 64" using continuation_digit [OF assms(4)] by blast
  have c: "c = 64 * (64 * u + y) + z" using assms(7) u y z by simp
  have "u \<le> 15" "u = 0 \<longrightarrow> 32 \<le> y" "u = 13 \<longrightarrow> y \<le> 31" using assms u y by simp_all
  then have r: "2048 \<le> c" "c < 65536" "scalar_value c" using three_range [OF c y(2) z(2)] by blast+
  then show ?thesis using utf8_char_three [OF c refl y(2) z(2) r(1,2)] u y z by simp
qed

lemma char_four:
  assumes "240 \<le> a" "a \<le> 244" "continuation b" "continuation d" "continuation e"
    "a = 240 \<longrightarrow> 144 \<le> b" "a = 244 \<longrightarrow> b \<le> 143"
    "c = 262144 * (a - 240) + 4096 * (b - 128) + 64 * (d - 128) + (e - 128)"
  shows "utf8_char c = [a, b, d, e] \<and> scalar_value c"
proof -
  obtain u where u: "a = 240 + u" using lead_digit [OF assms(1)] by blast
  obtain x where x: "b = 128 + x" "x < 64" using continuation_digit [OF assms(3)] by blast
  obtain y where y: "d = 128 + y" "y < 64" using continuation_digit [OF assms(4)] by blast
  obtain z where z: "e = 128 + z" "z < 64" using continuation_digit [OF assms(5)] by blast
  have c: "c = 64 * (64 * (64 * u + x) + y) + z" using assms(8) u x y z by simp
  have "u \<le> 4" "u = 0 \<longrightarrow> 16 \<le> x" "u = 4 \<longrightarrow> x \<le> 15" using assms u x by simp_all
  then have r: "65536 \<le> c" "scalar_value c" using four_range [OF c x(2) y(2) z(2)] by blast+
  then show ?thesis using utf8_char_four [OF c refl refl x(2) y(2) z(2) r(1)] u x y z by simp
qed

lemma scalars_only_encodings: "utf8_scalars bs = Some cs \<Longrightarrow> list_all scalar_value cs \<and> bs = utf8_encode cs"
proof (induction bs arbitrary: cs rule: utf8_scalars.induct)
  case 1
  then show ?case by simp
next
  case (2 a r)
  consider "a < 128" | "194 \<le> a" "a \<le> 223" | "224 \<le> a" "a \<le> 239" | "240 \<le> a" "a \<le> 244"
    using "2.prems" by (fastforce split: if_splits)
  then show ?case
  proof cases
    case 1
    with "2.prems" "2.IH"(1) show ?thesis by (auto simp: utf8_char_def scalar_value_def)
  next
    case 2
    with "2.prems" obtain b s ds where s: "r = b # s" "continuation b" "utf8_scalars s = Some ds"
      "cs = (64 * (a - 192) + (b - 128)) # ds"
      by (auto split: list.splits if_splits)
    with 2 "2.IH"(2) [of b s ds] char_two [of a b "64 * (a - 192) + (b - 128)"] show ?thesis by simp
  next
    case 3
    with "2.prems" obtain b d s ds where s: "r = b # d # s" "continuation b" "continuation d"
      "a = 224 \<longrightarrow> 160 \<le> b" "a = 237 \<longrightarrow> b \<le> 159" "utf8_scalars s = Some ds"
      "cs = (4096 * (a - 224) + 64 * (b - 128) + (d - 128)) # ds"
      by (auto split: list.splits if_splits)
    with 3 "2.IH"(3) [of b "d # s" d s ds] char_three [of a b d "4096 * (a - 224) + 64 * (b - 128) + (d - 128)"]
    show ?thesis by simp
  next
    case 4
    with "2.prems" obtain b d e s ds where s: "r = b # d # e # s" "continuation b" "continuation d" "continuation e"
      "a = 240 \<longrightarrow> 144 \<le> b" "a = 244 \<longrightarrow> b \<le> 143" "utf8_scalars s = Some ds"
      "cs = (262144 * (a - 240) + 4096 * (b - 128) + 64 * (d - 128) + (e - 128)) # ds"
      by (auto split: list.splits if_splits)
    with 4 "2.IH"(4) [of b "d # e # s" d "e # s" e s ds]
      char_four [of a b d e "262144 * (a - 240) + 4096 * (b - 128) + 64 * (d - 128) + (e - 128)"]
    show ?thesis by simp
  qed
qed

lemma scalars_iff: "utf8_scalars bs = Some cs \<longleftrightarrow> list_all scalar_value cs \<and> bs = utf8_encode cs"
  using scalars_only_encodings scalars_encode by blast

end
