(* ===== verification/Normalizer_Dispatch.thy ===== *)
theory Normalizer_Dispatch
  imports Normalizer_Types Utf8_Text
begin

text \<open>
  Which reader an event type selects, and what identifies a normalized event. The types of
  \<open>event_branches\<close> are pairwise different, so with the distinct package addresses the constructor
  demands the order of the tests does not matter.
\<close>

section \<open>Exact dispatch\<close>

definition branch_key :: "event_branch \<Rightarrow> event_package \<times> string \<times> string" where
  "branch_key b = (fst b, fst (snd b), fst (snd (snd b)))"

definition selects :: "package_addresses \<Rightarrow> address \<Rightarrow> string \<Rightarrow> string \<Rightarrow> event_branch \<Rightarrow> bool" where
  "selects pk a m e b = (package_address pk (fst b) = a \<and> fst (snd b) = m \<and> fst (snd (snd b)) = e)"

lemma branch_keys_distinct: "distinct (map branch_key (event_branches text hash))"
  unfolding event_branches_def core_branches_def amm_branches_def by (simp add: branch_key_def)

lemma new_normalizer_inj:
  assumes "new_normalizer options = Inr pk" "package_address pk p = package_address pk q"
  shows "p = q"
  using assms by (cases p; cases q) (auto simp: new_normalizer_def package_address_def result_simps split: if_splits)

lemma first_branch_none:
  assumes "split_colons [] ty = [p, m, e]" "canonicalAddress p = Inr a"
  shows "list_all (\<lambda>b. \<not> selects pk a m e b) bs \<Longrightarrow> first_branch pk ty data bs = Inr None"
  using assms by (induction pk ty data bs rule: first_branch.induct) (auto simp: isType_def selects_def)

lemma first_branch_hit:
  assumes "split_colons [] ty = [p, m, e]" "canonicalAddress p = Inr a"
  shows "b \<in> set bs \<Longrightarrow> selects pk a m e b \<Longrightarrow> (\<And>b'. b' \<in> set bs \<Longrightarrow> selects pk a m e b' \<Longrightarrow> b' = b) \<Longrightarrow>
    first_branch pk ty data bs = rbind (snd (snd (snd b)) data) (\<lambda>body. Inr (Some body))"
proof (induction bs)
  case (Cons c bs)
  obtain p' m' e' reader where c: "c = (p', m', e', reader)" by (cases c)
  show ?case
  proof (cases "selects pk a m e c")
    case True
    then have "c = b" using Cons.prems(3) [of c] by simp
    with True c assms show ?thesis by (simp add: isType_def selects_def)
  next
    case False
    then have "b \<in> set bs" using Cons.prems(1,2) by auto
    then have "first_branch pk ty data bs = rbind (snd (snd (snd b)) data) (\<lambda>body. Inr (Some body))"
      by (rule Cons.IH [OF _ Cons.prems(2)]) (rule Cons.prems(3), simp_all)
    with False c assms show ?thesis by (auto simp: isType_def selects_def)
  qed
qed simp

lemma distinct_map_inj: "distinct (map f xs) \<Longrightarrow> x \<in> set xs \<Longrightarrow> y \<in> set xs \<Longrightarrow> f x = f y \<Longrightarrow> x = y"
  by (simp add: distinct_map inj_on_def)

lemma selects_unique:
  assumes "new_normalizer options = Inr pk" "b \<in> set (event_branches text hash)" "b' \<in> set (event_branches text hash)"
    "selects pk a m e b" "selects pk a m e b'"
  shows "b' = b"
proof -
  have "fst b' = fst b" using assms(4,5) by (intro new_normalizer_inj [OF assms(1)]) (simp add: selects_def)
  then have "branch_key b' = branch_key b" using assms(4,5) by (simp add: branch_key_def selects_def)
  then show ?thesis using distinct_map_inj [OF branch_keys_distinct] assms(2,3) by blast
qed

text \<open>
  C34. Dispatch is exact. For an object payload, a valid envelope and a type tag of three parts with an
  address in front: the event is read by the one reader whose package has that address and whose
  module and event names match; when no reader matches, and so for every event of a foreign package,
  the result is \<open>null\<close>.
\<close>

theorem dispatch_is_exact:
  assumes "new_normalizer options = Inr pk" "en_data env = JObj ms" "event_base env = Inr base"
    "split_colons [] (en_typeTag env) = [p, m, e]" "canonicalAddress p = Inr a"
  shows "(\<forall>b \<in> set (event_branches text (en_txHash env)). selects pk a m e b \<longrightarrow>
      normalize text pk env = rbind (snd (snd (snd b)) (en_data env)) (\<lambda>body. Inr (Some (base body))))
    \<and> ((\<forall>b \<in> set (event_branches text (en_txHash env)). \<not> selects pk a m e b) \<longrightarrow> normalize text pk env = Inr None)
    \<and> (a \<notin> {pk_reflectionCore pk, pk_testAssets pk, pk_testAmm pk} \<longrightarrow> normalize text pk env = Inr None)"
proof -
  have norm: "normalize text pk env =
      rbind (first_branch pk (en_typeTag env) (en_data env) (event_branches text (en_txHash env))) (\<lambda>body. Inr (map_option base body))"
    using assms(2,3) by (simp add: normalize_def asRecord_def)
  have hit: "normalize text pk env = rbind (snd (snd (snd b)) (en_data env)) (\<lambda>body. Inr (Some (base body)))"
    if "b \<in> set (event_branches text (en_txHash env))" "selects pk a m e b" for b
  proof -
    have "first_branch pk (en_typeTag env) (en_data env) (event_branches text (en_txHash env))
        = rbind (snd (snd (snd b)) (en_data env)) (\<lambda>body. Inr (Some body))"
      using first_branch_hit [OF assms(4,5) that] selects_unique [OF assms(1) that(1) _ that(2)] by blast
    then show ?thesis by (cases "snd (snd (snd b)) (en_data env)") (simp_all add: norm)
  qed
  have none: "normalize text pk env = Inr None"
    if "\<forall>b \<in> set (event_branches text (en_txHash env)). \<not> selects pk a m e b"
    using that by (simp add: norm first_branch_none [OF assms(4,5)] list_all_iff)
  have "a \<notin> {pk_reflectionCore pk, pk_testAssets pk, pk_testAmm pk} \<Longrightarrow> \<not> selects pk a m e b" for b
    by (cases "fst b") (auto simp: selects_def package_address_def)
  with hit none show ?thesis by blast
qed

section \<open>Identifiers\<close>

lemma int_str_no_colon: "0 \<le> i \<Longrightarrow> CHR '':'' \<notin> set (int_str i)"
  using colon_not_in_nat_str by (simp add: int_str_def)

lemma int_str_inj: "0 \<le> i \<Longrightarrow> 0 \<le> j \<Longrightarrow> int_str i = int_str j \<Longrightarrow> i = j"
  using str_nat_nat_str by (metis int_str_def nat_0_le not_less)

lemma suffix_after_last:
  assumes "c \<notin> set s" "c \<notin> set t" "xs @ c # s = ys @ c # t"
  shows "xs = ys \<and> s = t"
  using assms by (auto simp: append_eq_append_conv2 Cons_eq_append_conv append_eq_Cons_conv)

lemma normalize_identity:
  assumes "normalize text pk env = Inr (Some ev)"
  shows "ev_id ev = en_txHash env @ '':'' @ int_str (en_eventIndex env)" "ev_txHash ev = en_txHash env"
    "ev_eventIndex ev = en_eventIndex env" "0 \<le> en_eventIndex env" "ev_ledgerVersion ev = en_ledgerVersion env"
proof -
  obtain base body where b: "event_base env = Inr base" "ev = base body"
    using normalize_parts [OF assms] by metis
  then show "ev_id ev = en_txHash env @ '':'' @ int_str (en_eventIndex env)" "ev_txHash ev = en_txHash env"
    "ev_eventIndex ev = en_eventIndex env" "0 \<le> en_eventIndex env" "ev_ledgerVersion ev = en_ledgerVersion env"
    using event_base_checks(1) [OF b(1)] by (auto simp: event_base_def split: if_splits)
qed

text \<open>
  C35. The identifier of a normalized event determines its transaction and its place in it: two
  envelopes whose events carry the same identifier have the same transaction hash and event index, so
  the reducer's duplicate test never drops a different event of the chain.
\<close>

theorem event_identifiers_are_unique:
  assumes "normalize text pk env = Inr (Some ev)" "normalize text' pk' env' = Inr (Some ev')"
  shows "ev_id ev = ev_id ev' \<longleftrightarrow> en_txHash env = en_txHash env' \<and> en_eventIndex env = en_eventIndex env'"
  using normalize_identity [OF assms(1)] normalize_identity [OF assms(2)]
    suffix_after_last [of "CHR '':''" "int_str (en_eventIndex env)" "int_str (en_eventIndex env')" "en_txHash env" "en_txHash env'"]
    int_str_no_colon int_str_inj
  by auto

section \<open>Identity texts\<close>

text \<open>The bytes a field value stands for, when it is written in one of the two accepted forms.\<close>

lemma requiredUtf8Vector_bytes:
  assumes "vector_bytes (js_field data key) = Some bytes"
  shows "requiredUtf8Vector text data key = Inr t \<longleftrightarrow>
    length bytes \<le> 512 \<and> (\<exists>cs. cs \<noteq> [] \<and> utf8_decode bytes = Some cs \<and> t = text cs)"
  using assms by (cases "bytes = []"; cases "utf8_decode bytes")
    (auto simp: requiredUtf8Vector_def MAX_IDENTITY_BYTES_def utf8_decode_def)

text \<open>
  C36. Identity texts are exact. A byte vector is read exactly when its bytes, without a leading
  byte-order mark, are the UTF-8 encoding of a non-empty sequence of scalar values and number at most
  512; what is read is that sequence. In particular an overlong, truncated or surrogate encoding is an
  error.
\<close>

theorem identity_texts_are_exact:
  assumes "vector_bytes (js_field data key) = Some bytes"
  shows "requiredUtf8Vector text data key = Inr t \<longleftrightarrow>
    length bytes \<le> 512 \<and>
    (\<exists>cs. cs \<noteq> [] \<and> list_all scalar_value cs \<and> t = text cs
      \<and> (if take 3 bytes = [239, 187, 191] then bytes = [239, 187, 191] @ utf8_encode cs else bytes = utf8_encode cs))"
proof -
  have "utf8_decode bytes = Some cs \<longleftrightarrow> list_all scalar_value cs
      \<and> (if take 3 bytes = [239, 187, 191] then bytes = [239, 187, 191] @ utf8_encode cs else bytes = utf8_encode cs)" for cs
  proof (cases "take 3 bytes = [239, 187, 191]")
    case True
    then have "bytes = [239, 187, 191] @ drop 3 bytes" by (metis append_take_drop_id)
    then have "drop 3 bytes = utf8_encode cs \<longleftrightarrow> bytes = [239, 187, 191] @ utf8_encode cs" by (metis same_append_eq)
    with True show ?thesis by (simp add: utf8_decode_def scalars_iff)
  qed (simp add: utf8_decode_def scalars_iff)
  then show ?thesis unfolding requiredUtf8Vector_bytes [OF assms] by auto
qed

end
