(* ===== verification/Normalizer_Witnesses.thy ===== *)
theory Normalizer_Witnesses
  imports Normalizer_Dispatch
begin

text \<open>Concrete envelopes of the normalizer: a sell and the identity of a deployment.\<close>

definition sample_packages :: package_addresses where
  "sample_packages = \<lparr>pk_reflectionCore = ''0xa1'', pk_testAssets = ''0xb2'', pk_testAmm = ''0xc3''\<rparr>"

definition sample_text :: "nat list \<Rightarrow> string" where
  "sample_text cs = map char_of cs"

definition sell_envelope :: cedra_envelope where
  "sell_envelope = \<lparr>en_typeTag = ''0X00C3::pool::SwapExecuted'',
     en_data = JObj [(''gross_input'', JStr ''1000''), (''reflection_fee'', JBig 20), (''is_sell'', JBool True),
       (''gross_output'', JNum 900), (''trader'', JStr ''0x0A''), (''amm_fee'', JStr ''3''),
       (''net_output'', JNum 900), (''reserve_rfl'', JBig 5000), (''reserve_usd'', JBig 6000)],
     en_txHash = ''0xfeed'', en_ledgerVersion = 7, en_eventIndex = 2, en_timestampUnixMilliseconds = 1000\<rparr>"

definition sell_event :: protocol_event where
  "sell_event = \<lparr>ev_id = ''0xfeed:2'', ev_txHash = ''0xfeed'', ev_ledgerVersion = 7, ev_eventIndex = 2,
     ev_timestampUnixMilliseconds = 1000, ev_source = Source_chain,
     ev_body = SwapExecuted \<lparr>sw_account = ''0xa'', sw_direction = Sell, sw_grossAmount = 1000, sw_reflectionFee = 20,
       sw_ammFee = 3, sw_netReserveInput = 980, sw_grossPoolOutput = 900, sw_netUserReceipt = 900,
       sw_trflReserveAfter = 5000, sw_tusdReserveAfter = 6000\<rparr>\<rparr>"

lemma sell_normalizes: "normalize sample_text sample_packages sell_envelope = Inr (Some sell_event)"
  by code_simp

lemma sample_new: "new_normalizer \<lparr>pk_reflectionCore = ''0x00A1'', pk_testAssets = ''0xB2'', pk_testAmm = ''0Xc3''\<rparr> = Inr sample_packages"
  by code_simp

theorem normalized_events_are_well_typed_witness:
  "assertProtocolEventMoveDomains sell_event = Inr () \<and> list_all (\<lambda>a. canonicalAddress a = Inr a) [''0xa'']"
  using normalized_events_are_well_typed [OF sell_normalizes] by (simp add: sell_event_def)

theorem dispatch_is_exact_witness:
  "normalize sample_text sample_packages (sell_envelope\<lparr>en_typeTag := ''0xdead::pool::SwapExecuted''\<rparr>) = Inr None"
proof -
  let ?env = "sell_envelope\<lparr>en_typeTag := ''0xdead::pool::SwapExecuted''\<rparr>"
  obtain base where base: "event_base ?env = Inr base"
    by (simp add: event_base_def sell_envelope_def MOVE_U64_MAX_def MAX_SAFE_INTEGER_def)
  have "split_colons [] (en_typeTag ?env) = [''0xdead'', ''pool'', ''SwapExecuted'']" by code_simp
  moreover have "canonicalAddress ''0xdead'' = Inr ''0xdead''" by code_simp
  moreover have "\<exists>ms. en_data ?env = JObj ms" by (simp add: sell_envelope_def)
  moreover have "''0xdead'' \<notin> {pk_reflectionCore sample_packages, pk_testAssets sample_packages, pk_testAmm sample_packages}"
    by (simp add: sample_packages_def)
  ultimately show ?thesis using dispatch_is_exact [OF sample_new _ base] by blast
qed

lemma later_sell_normalizes:
  "normalize sample_text sample_packages (sell_envelope\<lparr>en_eventIndex := 12\<rparr>) =
     Inr (Some (sell_event\<lparr>ev_id := ''0xfeed:12'', ev_eventIndex := 12\<rparr>))"
  by code_simp

theorem event_identifiers_are_unique_witness:
  "ev_id sell_event \<noteq> ev_id (sell_event\<lparr>ev_id := ''0xfeed:12'', ev_eventIndex := 12\<rparr>)"
  unfolding event_identifiers_are_unique [OF sell_normalizes later_sell_normalizes]
  by (simp add: sell_envelope_def)

text \<open>The Euro sign in three bytes, behind a byte-order mark; a text is represented by one letter per character.\<close>

theorem identity_texts_are_exact_witness:
  "requiredUtf8Vector (map (\<lambda>c. CHR ''x'')) (JObj [(''deployment_id'', JStr ''0xEFBBBFe282aC'')]) ''deployment_id''
    = Inr ''x''"
proof -
  have bytes: "vector_bytes (js_field (JObj [(''deployment_id'', JStr ''0xEFBBBFe282aC'')]) ''deployment_id'')
      = Some [239, 187, 191, 226, 130, 172]" by code_simp
  have "utf8_encode [8364] = [226, 130, 172]" "scalar_value 8364" by (simp_all add: utf8_char_def scalar_value_def)
  then show ?thesis
    unfolding identity_texts_are_exact [OF bytes] by (auto intro!: exI [of _ "[8364]"])
qed

end
