(* ===== verification/Durable_Files.thy ===== *)
theory Durable_Files
  imports Memory_Store Effects
begin

text \<open>
  Durable files (\<open>packages/indexer/src/file-store.ts\<close>, first part): the checks on the directory, bounded
  reads that follow no link, atomic replacement, and the exclusive lock file. A store keeps all its files
  in one directory, so the file system is the state of that directory; an operation takes it and returns
  it with a result or the error thrown. The platform is POSIX. \<open>ho_fault\<close> says which writes the disk
  refuses: it is asked with the path and the text, and its error is the one the failing system call
  throws; the temporary file is then removed again. A call runs to its end in one step.
\<close>

section \<open>The directory\<close>

text \<open>A regular file with its access bits (\<open>mode & 0o077 = 0\<close>) and its text, a link, or anything else.\<close>

datatype fs_entry = Regular bool string | Symbolic_link | Other_entry

text \<open>
  What the path of the directory leads to: nothing, a file, a link, a directory reached through a link, or
  a real directory, owner-only or not, with its entries.
\<close>

datatype fs_directory = Absent | File_at_path | Link_at_path | Link_in_path
  | Directory bool "string \<Rightarrow> fs_entry option"

record host =
  ho_directory :: string
  ho_fault :: "string \<Rightarrow> string \<Rightarrow> js_error option"
  ho_lockNote :: string

definition fs_entry_at :: "fs_directory \<Rightarrow> string \<Rightarrow> fs_entry option" where
  "fs_entry_at fs path = (case fs of Directory _ es \<Rightarrow> es path | _ \<Rightarrow> None)"

definition fs_put :: "string \<Rightarrow> fs_entry option \<Rightarrow> fs_directory \<Rightarrow> fs_directory" where
  "fs_put path e fs = (case fs of Directory p es \<Rightarrow> Directory p (es(path := e)) | _ \<Rightarrow> fs)"

definition validateSecureDirectory :: "string \<Rightarrow> bool \<Rightarrow> (fs_directory, bool) io" where
  "validateSecureDirectory directory create fs =
     (let unreal = Inl (TypeError (''Durable indexer path is not a real directory: '' @ directory)) in
      case fs of
        Absent \<Rightarrow> if create then (Inr True, Directory True (\<lambda>_. None)) else (Inr False, fs)
      | File_at_path \<Rightarrow> (if create then Inl (PlainError (''EEXIST: file already exists, mkdir '' @ directory)) else unreal, fs)
      | Link_at_path \<Rightarrow> (unreal, fs)
      | Link_in_path \<Rightarrow>
          (Inl (TypeError (''Durable indexer directory contains a symbolic-link component: '' @ directory)), fs)
      | Directory private es \<Rightarrow>
          if create then (Inr True, Directory True es)
          else if private then (Inr True, fs)
          else (Inl (TypeError (''Durable indexer directory must be owner-only (0700): '' @ directory)), fs))"

section \<open>Reading and replacing a file\<close>

text \<open>\<open>Buffer.byteLength(text, "utf8")\<close>; characters are 8-bit.\<close>

definition utf8_length :: "string \<Rightarrow> nat" where
  "utf8_length s = sum_list (map (\<lambda>c. if (of_char c :: nat) < 128 then 1 else 2) s)"

definition readFileSecurely :: "host \<Rightarrow> string \<Rightarrow> nat \<Rightarrow> fs_directory \<Rightarrow> string option result" where
  "readFileSecurely h path maximumBytes fs =
     rbind (fst (validateSecureDirectory (ho_directory h) False fs)) (\<lambda>present.
     if \<not> present then Inr None
     else case fs_entry_at fs path of
         None \<Rightarrow> Inr None
       | Some Symbolic_link \<Rightarrow> Inl (TypeError (''Refusing to follow a symbolic link for durable state: '' @ path))
       | Some Other_entry \<Rightarrow> Inl (TypeError (''Durable state is not a regular file: '' @ path))
       | Some (Regular private text) \<Rightarrow>
           if maximumBytes = 0 \<or> maximumBytes < utf8_length text
           then Inl (RangeError (''Durable state exceeds its '' @ nat_str maximumBytes @ '' byte limit: '' @ path))
           else if \<not> private then Inl (TypeError (''Durable state must be owner-only (0600): '' @ path))
           else Inr (Some text))"

definition writeFileAtomically :: "host \<Rightarrow> string \<Rightarrow> string \<Rightarrow> (fs_directory, unit) io" where
  "writeFileAtomically h path value = io_bind (validateSecureDirectory (ho_directory h) True) (\<lambda>_ fs.
     case ho_fault h path value of
       Some e \<Rightarrow> (Inl e, fs)
     | None \<Rightarrow>
         if fs_entry_at fs path = Some Other_entry
         then (Inl (PlainError (''EISDIR: illegal operation on a directory, rename '' @ path)), fs)
         else (Inr (), fs_put path (Some (Regular True value)) fs))"

section \<open>The lock file\<close>

text \<open>\<open>withExclusiveFileLock\<close> before its operation, after it, and around it.\<close>

definition takeFileLock :: "host \<Rightarrow> string \<Rightarrow> (fs_directory, unit) io" where
  "takeFileLock h lockPath = io_bind (validateSecureDirectory (ho_directory h) True) (\<lambda>_ fs.
     if fs_entry_at fs lockPath \<noteq> None then (Inl (ConcurrentDurableWriterError lockPath), fs)
     else case ho_fault h lockPath (ho_lockNote h) of
         Some e \<Rightarrow> (Inl e, fs)
       | None \<Rightarrow> (Inr (), fs_put lockPath (Some (Regular True (ho_lockNote h))) fs))"

definition dropFileLock :: "string \<Rightarrow> fs_directory \<Rightarrow> fs_directory" where
  "dropFileLock lockPath fs = fs_put lockPath None fs"

definition withExclusiveFileLock :: "host \<Rightarrow> string \<Rightarrow> (fs_directory, 'a) io \<Rightarrow> (fs_directory, 'a) io" where
  "withExclusiveFileLock h lockPath operation = io_bind (takeFileLock h lockPath) (\<lambda>_ fs.
     case operation fs of (r, fs') \<Rightarrow> (r, dropFileLock lockPath fs'))"

section \<open>Digests\<close>

definition assertSha256Digest :: "string \<Rightarrow> string \<Rightarrow> string result" where
  "assertSha256Digest v label =
     (if length v = 64 \<and> list_all is_lower_hex v then Inr v
      else Inl (TypeError (label @ '' must be a lowercase SHA-256 digest'')))"

section \<open>What the operations do to a file\<close>

text \<open>Not a real directory that others may enter: what every operation keeps, and all it needs.\<close>

definition secured :: "fs_directory \<Rightarrow> bool" where
  "secured fs = (\<forall>es. fs \<noteq> Directory False es)"

definition same_file :: "host \<Rightarrow> string \<Rightarrow> fs_directory \<Rightarrow> fs_directory \<Rightarrow> bool" where
  "same_file h path fs fs' = (\<forall>m. readFileSecurely h path m fs' = readFileSecurely h path m fs)"

lemma same_file_refl [simp]: "same_file h path fs fs"
  by (simp add: same_file_def)

lemma same_file_trans: "same_file h path fs fs1 \<Longrightarrow> same_file h path fs1 fs2 \<Longrightarrow> same_file h path fs fs2"
  by (simp add: same_file_def)

lemmas file_ops = validateSecureDirectory_def readFileSecurely_def fs_entry_at_def fs_put_def Let_def

lemma validate_spec:
  assumes "validateSecureDirectory d True fs = (r, fs')" "secured fs"
  shows "secured fs'" "same_file h path fs fs'" "r = Inr b \<Longrightarrow> \<exists>es. fs' = Directory True es"
  using assms by (cases fs; auto simp: file_ops secured_def same_file_def)+

lemma put_spec:
  "secured (fs_put q e fs) = secured fs"
  "q \<noteq> path \<Longrightarrow> same_file h path fs (fs_put q e fs)"
  by (cases fs; auto simp: file_ops secured_def same_file_def)+

lemma put_read:
  "0 < m \<Longrightarrow> utf8_length text \<le> m \<Longrightarrow>
   readFileSecurely h path m (fs_put path (Some (Regular True text)) (Directory True es)) = Inr (Some text)"
  by (simp add: file_ops)

lemma write_spec:
  assumes "writeFileAtomically h path value fs = (r, fs')" "secured fs"
  shows "secured fs'" "q \<noteq> path \<Longrightarrow> same_file h q fs fs'"
    and "r = Inr () \<Longrightarrow> 0 < m \<Longrightarrow> utf8_length value \<le> m \<Longrightarrow> readFileSecurely h path m fs' = Inr (Some value)"
    and "r = Inl e \<Longrightarrow> same_file h path fs fs'"
proof -
  obtain r1 fs1 where v: "validateSecureDirectory (ho_directory h) True fs = (r1, fs1)" by force
  note spec = validate_spec [OF v assms(2)]
  have cases: "(\<exists>e. r1 = Inl e \<and> r = Inl e \<and> fs' = fs1) \<or> (\<exists>e. r = Inl e \<and> fs' = fs1)
      \<or> (r = Inr () \<and> fs' = fs_put path (Some (Regular True value)) fs1 \<and> (\<exists>es. fs1 = Directory True es))"
    using assms(1) v spec(3) by (auto simp: writeFileAtomically_def io_bind_def split: sum.splits option.splits if_splits)
  show "secured fs'" using cases spec(1) by (auto simp: put_spec)
  show "same_file h q fs fs'" if "q \<noteq> path"
    using cases spec(2) [of h q] put_spec(2) [of path q h fs1] that by (auto intro: same_file_trans)
  show "readFileSecurely h path m fs' = Inr (Some value)" if "r = Inr ()" "0 < m" "utf8_length value \<le> m"
    using cases that put_read by auto
  show "same_file h path fs fs'" if "r = Inl e" using cases spec(2) that by auto
qed

lemma lock_spec:
  assumes "takeFileLock h lockPath fs = (r, fs')" "secured fs"
  shows "secured fs'" "path \<noteq> lockPath \<Longrightarrow> same_file h path fs fs'"
    and "r = Inr () \<Longrightarrow> fs_entry_at fs' lockPath = Some (Regular True (ho_lockNote h))"
    and "fs_entry_at fs lockPath \<noteq> None \<Longrightarrow> r \<noteq> Inr ()"
proof -
  obtain r1 fs1 where v: "validateSecureDirectory (ho_directory h) True fs = (r1, fs1)" by force
  note spec = validate_spec [OF v assms(2)]
  have cases: "(\<exists>e. r = Inl e \<and> fs' = fs1)
      \<or> (r = Inr () \<and> fs_entry_at fs1 lockPath = None \<and> (\<exists>es. fs1 = Directory True es)
          \<and> fs' = fs_put lockPath (Some (Regular True (ho_lockNote h))) fs1)"
    using assms(1) v spec(3) by (auto simp: takeFileLock_def io_bind_def split: sum.splits option.splits if_splits)
  show "secured fs'" using cases spec(1) by (auto simp: put_spec)
  show "same_file h path fs fs'" if "path \<noteq> lockPath"
    using cases spec(2) [of h path] put_spec(2) [of lockPath path h fs1] that by (auto intro: same_file_trans)
  show "fs_entry_at fs' lockPath = Some (Regular True (ho_lockNote h))" if "r = Inr ()"
    using cases that by (auto simp: fs_entry_at_def fs_put_def)
  have "fs_entry_at fs1 = fs_entry_at fs" using v by (cases fs) (auto simp: file_ops)
  then show "r \<noteq> Inr ()" if "fs_entry_at fs lockPath \<noteq> None" using cases that by auto
qed

lemma drop_spec:
  "secured (dropFileLock lockPath fs) = secured fs"
  "path \<noteq> lockPath \<Longrightarrow> same_file h path fs (dropFileLock lockPath fs)"
  "fs_entry_at (dropFileLock lockPath fs) lockPath = None"
  by (auto simp: dropFileLock_def put_spec) (cases fs; simp add: fs_entry_at_def fs_put_def)

text \<open>
  A locked operation: on success the operation ran in a secured directory that reads as before; on an
  error the directory reads as the operation left it, or as before.
\<close>

lemma locked_Inr:
  assumes "withExclusiveFileLock h lockPath operation fs = (Inr x, fs')" "secured fs"
  obtains fs1 fs2 where "operation fs1 = (Inr x, fs2)" "fs' = dropFileLock lockPath fs2" "secured fs1"
    "\<And>path. path \<noteq> lockPath \<Longrightarrow> same_file h path fs fs1"
proof -
  obtain r fs1 where lk: "takeFileLock h lockPath fs = (r, fs1)" by force
  then have r: "r = Inr ()" using assms(1) by (cases r) (simp_all add: withExclusiveFileLock_def io_bind_def)
  obtain r2 fs2 where op: "operation fs1 = (r2, fs2)" by force
  with assms(1) lk r have "r2 = Inr x" "fs' = dropFileLock lockPath fs2"
    by (simp_all add: withExclusiveFileLock_def io_bind_def)
  with op lock_spec [OF lk assms(2)] show thesis by (intro that [of fs1 fs2]) simp_all
qed

lemma locked_Inl:
  assumes "withExclusiveFileLock h lockPath operation fs = (Inl e, fs')" "secured fs" "path \<noteq> lockPath"
    and "\<And>fs1 fs2 e. secured fs1 \<Longrightarrow> operation fs1 = (Inl e, fs2) \<Longrightarrow> secured fs2 \<and> same_file h path fs1 fs2"
  shows "secured fs' \<and> same_file h path fs fs'"
proof (cases "takeFileLock h lockPath fs")
  case (Pair r fs1)
  note lock = lock_spec [OF Pair assms(2)]
  show ?thesis
  proof (cases r)
    case (Inl e')
    then have "fs' = fs1" using assms(1) Pair by (simp add: withExclusiveFileLock_def io_bind_def)
    with lock assms(3) show ?thesis by simp
  next
    case (Inr u)
    then obtain fs2 where op: "operation fs1 = (Inl e, fs2)" "fs' = dropFileLock lockPath fs2"
      using assms(1) Pair by (auto simp: withExclusiveFileLock_def io_bind_def split: prod.splits)
    from assms(4) [OF lock(1) op(1)] show ?thesis
      using lock(2) [OF assms(3)] drop_spec(1) [of lockPath fs2] drop_spec(2) [OF assms(3), of h fs2]
      by (auto simp: op(2) intro: same_file_trans)
  qed
qed

end
