(* ===== verification/Alert_Codec.thy ===== *)
theory Alert_Codec
  imports Durable_Files
begin

text \<open>
  The text of a durable alert (\<open>packages/indexer/src/file-store.ts\<close>, \<open>encodeCriticalAlert\<close>,
  \<open>decodeCriticalAlert\<close> and what they use). An alert is written in the key order in which the reducer and
  the reconciler build it; reading back checks every field, and an alert that is written at all is read
  back as it was.
\<close>

section \<open>Bounds and names\<close>

definition MAX_SNAPSHOT_BYTES :: nat where "MAX_SNAPSHOT_BYTES = 128 * 1024 * 1024"
definition MAX_ALERT_BYTES :: nat where "MAX_ALERT_BYTES = 64 * 1024 * 1024"
definition MAX_ALERT_ID_LENGTH :: nat where "MAX_ALERT_ID_LENGTH = 512"
definition MAX_ALERT_MESSAGE_LENGTH :: nat where "MAX_ALERT_MESSAGE_LENGTH = 8192"
definition MAX_ALERT_VALUE_LENGTH :: nat where "MAX_ALERT_VALUE_LENGTH = 8192"

definition ALERT_CODES :: "alert_code list" where
  "ALERT_CODES = [EVENT_ORDER, EVENT_DATA, TRANSACTION_GROUP, IDENTIFIER_REUSE, DOUBLE_COUNTING, FEE_FORMULA,
     VAULT_BACKING, REFLECTION_LIABILITY, CORE_ACCOUNTING, GLOBAL_INDEX, ELIGIBLE_SUPPLY, LIFETIME_TOTAL,
     POOL_RESERVES, POOL_LIMITS, FAUCET_CONFIG, RESERVE_CUSTODY, CUSTODY_ACCOUNTING, ROUTE_PAIR,
     OLD_EPOCH_ROUTE, LP_ACCOUNTING, LP_VAULT_BACKING, VAULT_BINDING, POSITION_ACCOUNTING,
     WALLET_REGISTRATION, PACKAGE_VERSION, PAUSE_STATE, OPERATIONAL_ADMIN, DEPLOYMENT_IDENTITY, LEDGER_VERSION]"

definition alert_code_of :: "string \<Rightarrow> alert_code option" where
  "alert_code_of s = find (\<lambda>c. alert_code_str c = s) ALERT_CODES"

fun severity_str :: "alert_severity \<Rightarrow> string" where
  "severity_str Critical = ''critical''"
| "severity_str Warning = ''warning''"
| "severity_str Info = ''info''"

section \<open>Writing\<close>

definition cursor_tree :: "event_cursor option \<Rightarrow> js_val" where
  "cursor_tree c = (case c of
       None \<Rightarrow> JNull
     | Some c \<Rightarrow> JObj [(''ledgerVersion'', JBig (cur_ledgerVersion c)), (''eventIndex'', JNum (cur_eventIndex c))])"

definition optional_member :: "string \<Rightarrow> string option \<Rightarrow> (string \<times> js_val) list" where
  "optional_member key v = (case v of None \<Rightarrow> [] | Some s \<Rightarrow> [(key, JStr s)])"

definition alert_tree :: "critical_alert \<Rightarrow> js_val" where
  "alert_tree a = JObj
     ([(''id'', JStr (al_id a)), (''severity'', JStr (severity_str (al_severity a))),
       (''code'', JStr (alert_code_str (al_code a))), (''message'', JStr (al_message a)),
       (''detectedAtUnixMilliseconds'', JBig (al_detectedAtUnixMilliseconds a)), (''cursor'', cursor_tree (al_cursor a))]
      @ optional_member ''expected'' (al_expected a) @ optional_member ''observed'' (al_observed a))"

definition encodeBigintJson :: "js_val \<Rightarrow> string" where
  "encodeBigintJson v = encodeBigInts v"

section \<open>Reading\<close>

text \<open>The pattern \<open>-?(?:0|[1-9][0-9]*)\<close>.\<close>

definition is_integer_text :: "string \<Rightarrow> bool" where
  "is_integer_text s = (let d = (case s of c # r \<Rightarrow> if c = CHR ''-'' then r else s | [] \<Rightarrow> s) in
     d = ''0'' \<or> (d \<noteq> [] \<and> list_all is_digit d \<and> hd d \<noteq> CHR ''0''))"

definition persistedReviver :: "js_val \<Rightarrow> js_val result" where
  "persistedReviver v = (case v of
       JObj [(k, JStr s)] \<Rightarrow>
         if k = bigint_key then
           (if is_integer_text s then Inr (JBig (bigint_of_text s))
            else Inl (TypeError ''Invalid persisted bigint encoding''))
         else Inr v
     | _ \<Rightarrow> Inr v)"

definition decodeBigintJson :: "string \<Rightarrow> js_val result" where
  "decodeBigintJson text = (case json_parse text of
       None \<Rightarrow> Inl (SyntaxError ''Unexpected token in JSON'')
     | Some v \<Rightarrow> revive_with persistedReviver v)"

definition boundedString :: "js_val option \<Rightarrow> string \<Rightarrow> nat \<Rightarrow> string result" where
  "boundedString v label maximum = (case v of
       Some (JStr s) \<Rightarrow>
         if s = [] \<or> maximum < length s then Inl (TypeError (label @ '' must be a non-empty bounded string'')) else Inr s
     | _ \<Rightarrow> Inl (TypeError (label @ '' must be a non-empty bounded string'')))"

definition validCursor :: "js_val option \<Rightarrow> bool" where
  "validCursor v = (case v of
       Some JNull \<Rightarrow> True
     | Some (JObj ms) \<Rightarrow>
         (case js_field (JObj ms) ''ledgerVersion'' of Some (JBig n) \<Rightarrow> 0 \<le> n | _ \<Rightarrow> False)
         \<and> (case js_field (JObj ms) ''eventIndex'' of Some (JNum n) \<Rightarrow> \<bar>n\<bar> \<le> MAX_SAFE_INTEGER \<and> 0 \<le> n | _ \<Rightarrow> False)
     | _ \<Rightarrow> False)"

definition boundedValue :: "js_val option \<Rightarrow> bool" where
  "boundedValue v = (case v of
       None \<Rightarrow> True
     | Some (JStr s) \<Rightarrow> length s \<le> MAX_ALERT_VALUE_LENGTH
     | _ \<Rightarrow> False)"

text \<open>The alert an accepted tree stands for.\<close>

definition alert_of :: "js_val \<Rightarrow> alert_code \<Rightarrow> critical_alert" where
  "alert_of v code = \<lparr>al_id = str_of (js_get v ''id''), al_severity = Critical, al_code = code,
     al_message = str_of (js_get v ''message''),
     al_detectedAtUnixMilliseconds = big_of (js_get v ''detectedAtUnixMilliseconds''),
     al_cursor = (case js_get v ''cursor'' of
         JObj ms \<Rightarrow> Some \<lparr>cur_ledgerVersion = big_of (js_get (JObj ms) ''ledgerVersion''),
           cur_eventIndex = num_of (js_get (JObj ms) ''eventIndex'')\<rparr>
       | _ \<Rightarrow> None),
     al_expected = map_option str_of (js_field v ''expected''), al_observed = map_option str_of (js_field v ''observed'')\<rparr>"

definition invalid_alert :: js_error where
  "invalid_alert = TypeError ''Invalid persisted critical alert''"

definition decodeCriticalAlert :: "string \<Rightarrow> critical_alert result" where
  "decodeCriticalAlert text = rbind (decodeBigintJson text) (\<lambda>v.
     if (case v of JObj _ \<Rightarrow> False | JArr _ \<Rightarrow> False | _ \<Rightarrow> True) then Inl invalid_alert
     else rbind (boundedString (js_field v ''id'') ''critical alert id'' MAX_ALERT_ID_LENGTH) (\<lambda>_.
     if js_field v ''severity'' \<noteq> Some (JStr ''critical'') then Inl invalid_alert
     else case (case js_field v ''code'' of Some (JStr s) \<Rightarrow> alert_code_of s | _ \<Rightarrow> None) of
         None \<Rightarrow> Inl invalid_alert
       | Some code \<Rightarrow>
         rbind (boundedString (js_field v ''message'') ''critical alert message'' MAX_ALERT_MESSAGE_LENGTH) (\<lambda>_.
         if (case js_field v ''detectedAtUnixMilliseconds'' of Some (JBig n) \<Rightarrow> 0 \<le> n | _ \<Rightarrow> False)
            \<and> validCursor (js_field v ''cursor'')
            \<and> boundedValue (js_field v ''expected'') \<and> boundedValue (js_field v ''observed'')
         then Inr (alert_of v code)
         else Inl invalid_alert)))"

definition encodeCriticalAlert :: "critical_alert \<Rightarrow> string result" where
  "encodeCriticalAlert a =
     (let encoded = encodeBigintJson (alert_tree a) in
      rbind (decodeCriticalAlert encoded) (\<lambda>_. Inr encoded))"

text \<open>Alert retries may have a later detection clock but no other difference.\<close>

definition equivalentCriticalAlert :: "critical_alert \<Rightarrow> critical_alert \<Rightarrow> bool" where
  "equivalentCriticalAlert l r =
     (al_id l = al_id r \<and> al_severity l = al_severity r \<and> al_code l = al_code r \<and> al_message l = al_message r
      \<and> map_option cur_ledgerVersion (al_cursor l) = map_option cur_ledgerVersion (al_cursor r)
      \<and> map_option cur_eventIndex (al_cursor l) = map_option cur_eventIndex (al_cursor r)
      \<and> al_expected l = al_expected r \<and> al_observed l = al_observed r)"

section \<open>Alerts are read back\<close>

lemma integer_text: "is_integer_text (int_str n) \<and> bigint_of_text (int_str n) = n"
proof -
  have canon: "nat_str k = ''0'' \<or> (list_all is_digit (nat_str k) \<and> hd (nat_str k) \<noteq> CHR ''0'')" for k
    using hd_nat_str [of k] by (cases "k = 0") (simp_all add: nat_str_digits nat_str.simps [of 0])
  have sign: "\<exists>c s. nat_str k = c # s \<and> c \<noteq> CHR ''-''" for k
    using nat_str_digits [of k] nat_str_nonempty [of k] by (cases "nat_str k") (auto simp: is_digit_def)
  show ?thesis
  proof (cases "n < 0")
    case True
    then show ?thesis using canon [of "nat (- n)"] by (auto simp: is_integer_text_def bigint_of_text_def int_str_def)
  next
    case False
    obtain c s where c: "nat_str (nat n) = c # s" "c \<noteq> CHR ''-''" using sign by blast
    moreover have "str_nat (c # s) = nat n" using c(1) str_nat_nat_str by metis
    ultimately show ?thesis
      using False canon [of "nat n"] by (auto simp: is_integer_text_def bigint_of_text_def int_str_def)
  qed
qed

lemma alert_keys: "bigint_key \<noteq> ''ledgerVersion''" "bigint_key \<noteq> ''id''"
  by (simp_all add: bigint_key_def)

lemma alert_tree_json: "json_tree (alert_tree a)"
  by (cases "al_cursor a"; cases "al_expected a"; cases "al_observed a")
    (simp_all add: alert_tree_def cursor_tree_def optional_member_def)

lemma persistedReviver_big: "persistedReviver (JObj [(bigint_key, JStr (int_str n))]) = Inr (JBig n)"
  using integer_text [of n] by (simp add: persistedReviver_def)

lemma persistedReviver_leaf:
  "persistedReviver JNull = Inr JNull" "persistedReviver (JStr s) = Inr (JStr s)" "persistedReviver (JNum n) = Inr (JNum n)"
  "persistedReviver (JObj (m1 # m2 # ms)) = Inr (JObj (m1 # m2 # ms))"
  by (simp_all add: persistedReviver_def split: prod.splits js_val.splits)

lemma alert_revived: "revive_with persistedReviver (plain (alert_tree a)) = Inr (alert_tree a)"
  by (cases "al_cursor a"; cases "al_expected a"; cases "al_observed a")
    (simp_all add: alert_tree_def cursor_tree_def optional_member_def persistedReviver_big persistedReviver_leaf)

lemma alert_written: "decodeBigintJson (encodeBigintJson (alert_tree a)) = Inr (alert_tree a)"
  by (simp add: decodeBigintJson_def encodeBigintJson_def json_parse_encode alert_tree_json alert_revived)

lemma alert_code_of_str: "alert_code_of (alert_code_str c) = Some c"
  unfolding alert_code_of_def ALERT_CODES_def by (cases c) simp_all

lemma alert_fields:
  "js_field (alert_tree a) ''id'' = Some (JStr (al_id a))"
  "js_field (alert_tree a) ''severity'' = Some (JStr (severity_str (al_severity a)))"
  "js_field (alert_tree a) ''code'' = Some (JStr (alert_code_str (al_code a)))"
  "js_field (alert_tree a) ''message'' = Some (JStr (al_message a))"
  "js_field (alert_tree a) ''detectedAtUnixMilliseconds'' = Some (JBig (al_detectedAtUnixMilliseconds a))"
  "js_field (alert_tree a) ''cursor'' = Some (cursor_tree (al_cursor a))"
  "js_field (alert_tree a) ''expected'' = map_option JStr (al_expected a)"
  "js_field (alert_tree a) ''observed'' = map_option JStr (al_observed a)"
  by (cases "al_expected a"; cases "al_observed a";
      simp add: alert_tree_def optional_member_def js_field_def map_get_def)+

text \<open>The alerts that can be written.\<close>

definition persistable :: "critical_alert \<Rightarrow> bool" where
  "persistable a = (al_id a \<noteq> [] \<and> length (al_id a) \<le> MAX_ALERT_ID_LENGTH \<and> al_severity a = Critical
     \<and> al_message a \<noteq> [] \<and> length (al_message a) \<le> MAX_ALERT_MESSAGE_LENGTH
     \<and> 0 \<le> al_detectedAtUnixMilliseconds a
     \<and> (\<forall>c. al_cursor a = Some c \<longrightarrow> 0 \<le> cur_ledgerVersion c \<and> 0 \<le> cur_eventIndex c \<and> cur_eventIndex c \<le> MAX_SAFE_INTEGER)
     \<and> (\<forall>s. al_expected a = Some s \<longrightarrow> length s \<le> MAX_ALERT_VALUE_LENGTH)
     \<and> (\<forall>s. al_observed a = Some s \<longrightarrow> length s \<le> MAX_ALERT_VALUE_LENGTH))"

lemma cursor_tree_valid:
  "validCursor (Some (cursor_tree c)) \<longleftrightarrow>
     (\<forall>x. c = Some x \<longrightarrow> 0 \<le> cur_ledgerVersion x \<and> 0 \<le> cur_eventIndex x \<and> cur_eventIndex x \<le> MAX_SAFE_INTEGER)"
  by (cases c) (auto simp: validCursor_def cursor_tree_def js_field_def map_get_def)

lemma boundedValue_tree: "boundedValue (map_option JStr v) \<longleftrightarrow> (\<forall>s. v = Some s \<longrightarrow> length s \<le> MAX_ALERT_VALUE_LENGTH)"
  by (cases v) (simp_all add: boundedValue_def)

lemma severity_tree: "severity_str s = ''critical'' \<longleftrightarrow> s = Critical"
  by (cases s) simp_all

lemma alert_of_tree: "al_severity a = Critical \<Longrightarrow> alert_of (alert_tree a) (al_code a) = a"
  unfolding alert_of_def js_get_def alert_fields
  by (cases "al_cursor a"; cases "al_expected a"; cases "al_observed a")
    (simp_all add: cursor_tree_def js_get_def js_field_def map_get_def)

lemma decode_alert_tree:
  "decodeCriticalAlert (encodeBigintJson (alert_tree a)) = Inr b \<longleftrightarrow> persistable a \<and> b = a"
proof -
  have obj: "(case alert_tree a of JObj _ \<Rightarrow> False | JArr _ \<Rightarrow> False | _ \<Rightarrow> True) = False"
    by (simp add: alert_tree_def)
  show ?thesis
    unfolding decodeCriticalAlert_def alert_written rbind_simps obj alert_fields
    by (auto simp: boundedString_def alert_code_of_str cursor_tree_valid boundedValue_tree severity_tree persistable_def
      alert_of_tree split: if_splits)
qed

lemma encodeCriticalAlert_Inr [result_simps]:
  "encodeCriticalAlert a = Inr text \<longleftrightarrow> persistable a \<and> text = encodeBigintJson (alert_tree a)"
  by (auto simp: encodeCriticalAlert_def Let_def result_simps decode_alert_tree)

lemma encoded_alert_decodes: "encodeCriticalAlert a = Inr text \<Longrightarrow> decodeCriticalAlert text = Inr a"
  by (simp add: encodeCriticalAlert_Inr decode_alert_tree)

lemma equivalent_refl [simp]: "equivalentCriticalAlert a a"
  by (simp add: equivalentCriticalAlert_def)

end
