(* ===== verification/File_Store.thy ===== *)
theory File_Store
  imports Alert_Codec Snapshot_Roundtrip
begin

text \<open>
  The durable store (\<open>packages/indexer/src/file-store.ts\<close>, class \<open>FileIndexerStore\<close>): a snapshot file
  and an alert journal, each in an envelope that is bound to a release manifest and to the digest of its
  payload, written under a lock file and an active writer lease. The constant fields of the class are
  \<open>file_store_config\<close>, its mutable ones \<open>file_store\<close>, with the directory the files are in.
  \<open>structuredClone\<close> is the identity on values. A mutation runs to its end in one step, so no mutation is
  pending when the lease ends.
\<close>

section \<open>State\<close>

record file_store_config =
  fc_host :: host
  fc_manifestSha256 :: string

record file_store =
  fi_files :: fs_directory
  fi_activeLease :: "lease option"
  fi_leaseMutationFailures :: "js_error list"
  fi_issuedLeases :: nat

definition snapshotPath :: "file_store_config \<Rightarrow> string" where
  "snapshotPath cfg = ho_directory (fc_host cfg) @ ''/indexer-snapshot.json''"

definition alertsPath :: "file_store_config \<Rightarrow> string" where
  "alertsPath cfg = ho_directory (fc_host cfg) @ ''/critical-alerts.json''"

definition writerLeasePath :: "file_store_config \<Rightarrow> string" where
  "writerLeasePath cfg = ho_directory (fc_host cfg) @ ''/indexer-writer.lock''"

definition FileIndexerStore :: "host \<Rightarrow> string \<Rightarrow> fs_directory \<Rightarrow> (file_store_config \<times> file_store) result" where
  "FileIndexerStore h manifestSha256 files =
     rbind (assertSha256Digest manifestSha256 ''release manifest digest'') (\<lambda>digest.
     Inr (\<lparr>fc_host = h, fc_manifestSha256 = digest\<rparr>,
       \<lparr>fi_files = files, fi_activeLease = None, fi_leaseMutationFailures = [], fi_issuedLeases = 0\<rparr>))"

section \<open>The writer lease\<close>

definition file_assertActiveLease :: "lease \<Rightarrow> file_store \<Rightarrow> unit result" where
  "file_assertActiveLease lease st = rensure (fi_activeLease st = Some lease) InvalidIndexerWriterLeaseError"

definition file_acquire :: "file_store_config \<Rightarrow> (file_store, lease) io" where
  "file_acquire cfg st = (case takeFileLock (fc_host cfg) (writerLeasePath cfg) (fi_files st) of
       (Inl e, fs) \<Rightarrow> (Inl e, st\<lparr>fi_files := fs\<rparr>)
     | (Inr _, fs) \<Rightarrow> (let lease = fi_issuedLeases st in
         (Inr lease, \<lparr>fi_files = fs, fi_activeLease = Some lease, fi_leaseMutationFailures = [], fi_issuedLeases = Suc lease\<rparr>)))"

definition file_release :: "file_store_config \<Rightarrow> file_store \<Rightarrow> file_store" where
  "file_release cfg st =
     st\<lparr>fi_files := dropFileLock (writerLeasePath cfg) (fi_files st), fi_activeLease := None, fi_leaseMutationFailures := []\<rparr>"

definition file_withExclusiveWriter :: "file_store_config \<Rightarrow> (lease \<Rightarrow> (file_store, 'a) io) \<Rightarrow> (file_store, 'a) io" where
  "file_withExclusiveWriter cfg operation = io_bind (file_acquire cfg) (\<lambda>lease st.
     case operation lease st of (r, st') \<Rightarrow>
       ((case r of
           Inl callbackFailure \<Rightarrow> Inl callbackFailure
         | Inr x \<Rightarrow> (case fi_leaseMutationFailures st' of [] \<Rightarrow> Inr x | e # _ \<Rightarrow> Inl e)),
        file_release cfg st'))"

definition trackLeaseMutation :: "(file_store, unit) io \<Rightarrow> (file_store, unit) io" where
  "trackLeaseMutation operation st = (case operation st of
       (Inl e, st') \<Rightarrow> (Inl e, st'\<lparr>fi_leaseMutationFailures := fi_leaseMutationFailures st' @ [e]\<rparr>)
     | (Inr _, st') \<Rightarrow> (Inr (), st'))"

text \<open>An operation on the files of a store.\<close>

definition on_files :: "(fs_directory, 'a) io \<Rightarrow> (file_store, 'a) io" where
  "on_files operation st = (case operation (fi_files st) of (r, fs) \<Rightarrow> (r, st\<lparr>fi_files := fs\<rparr>))"

section \<open>Snapshots\<close>

definition envelope_tree :: "string \<Rightarrow> string \<Rightarrow> string \<Rightarrow> js_val \<Rightarrow> js_val" where
  "envelope_tree manifest digest key payload =
     JObj [(''schemaVersion'', JNum 1), (''manifestSha256'', JStr manifest), (''payloadSha256'', JStr digest), (key, payload)]"

definition newline :: string where "newline = [CHR 0x0A]"

definition js_text :: "js_val option \<Rightarrow> string option" where
  "js_text v = (case v of Some (JStr s) \<Rightarrow> Some s | _ \<Rightarrow> None)"

definition parseSnapshotEnvelope :: "(string \<Rightarrow> string) \<Rightarrow> file_store_config \<Rightarrow> string \<Rightarrow> string result" where
  "parseSnapshotEnvelope sha256 cfg encoded = (case json_parse encoded of
       None \<Rightarrow> Inl (SyntaxError ''Unexpected token in JSON'')
     | Some v \<Rightarrow>
       let invalid = Inl (TypeError ''Invalid or release-manifest-mismatched indexer snapshot envelope'') in
       if js_field v ''schemaVersion'' \<noteq> Some (JNum 1) \<or> js_field v ''manifestSha256'' \<noteq> Some (JStr (fc_manifestSha256 cfg))
       then invalid
       else case (js_text (js_field v ''payloadSha256''), js_text (js_field v ''snapshot'')) of
           (Some digest, Some payload) \<Rightarrow>
             rbind (assertSha256Digest digest ''snapshot payload digest'') (\<lambda>_.
             if sha256 payload \<noteq> digest then Inl (TypeError ''Indexer snapshot payload digest mismatch'')
             else Inr payload)
         | _ \<Rightarrow> invalid)"

definition loadSnapshotFile :: "(string \<Rightarrow> string) \<Rightarrow> file_store_config \<Rightarrow> fs_directory \<Rightarrow> indexer_snapshot option result" where
  "loadSnapshotFile sha256 cfg fs =
     rbind (readFileSecurely (fc_host cfg) (snapshotPath cfg) MAX_SNAPSHOT_BYTES fs) (\<lambda>read.
     case read of
       None \<Rightarrow> Inr None
     | Some encoded \<Rightarrow> rbind (parseSnapshotEnvelope sha256 cfg encoded) (\<lambda>payload.
         rbind (decodeSnapshot sha256 payload) (\<lambda>s. Inr (Some s))))"

definition file_loadLatestSnapshot :: "(string \<Rightarrow> string) \<Rightarrow> file_store_config \<Rightarrow> file_store \<Rightarrow> indexer_snapshot option result" where
  "file_loadLatestSnapshot sha256 cfg st = loadSnapshotFile sha256 cfg (fi_files st)"

definition compareSnapshotCursor :: "event_cursor option \<Rightarrow> event_cursor option \<Rightarrow> int" where
  "compareSnapshotCursor left right = (case left of
       None \<Rightarrow> (if right = None then 0 else - 1)
     | Some l \<Rightarrow> (case right of
         None \<Rightarrow> 1
       | Some r \<Rightarrow>
         if cur_ledgerVersion l \<noteq> cur_ledgerVersion r then (if cur_ledgerVersion l < cur_ledgerVersion r then - 1 else 1)
         else cur_eventIndex l - cur_eventIndex r))"

text \<open>A member that is \<open>undefined\<close> is not written.\<close>

definition present :: "js_val \<Rightarrow> string \<Rightarrow> (string \<times> js_val) list" where
  "present v key = (case js_field v key of None \<Rightarrow> [] | Some x \<Rightarrow> [(key, x)])"

definition snapshotStateDigest :: "(string \<Rightarrow> string) \<Rightarrow> indexer_snapshot \<Rightarrow> string result" where
  "snapshotStateDigest sha256 s = (case json_parse (encodeSnapshot s) of
       None \<Rightarrow> Inl (SyntaxError ''Unexpected token in JSON'')
     | Some v \<Rightarrow> Inr (sha256 (encodeBigInts (JObj (present v ''schemaVersion'' @ present v ''cursor'' @ present v ''projection'')))))"

definition assertMonotonicSnapshot :: "(string \<Rightarrow> string) \<Rightarrow> indexer_snapshot \<Rightarrow> indexer_snapshot \<Rightarrow> unit result" where
  "assertMonotonicSnapshot sha256 existing candidate =
     (let order = compareSnapshotCursor (sn_cursor candidate) (sn_cursor existing) in
      if order < 0 then Inl (StaleIndexerSnapshotError ''candidate cursor precedes the durable cursor'')
      else if order = 0 then
        rbind (snapshotStateDigest sha256 candidate) (\<lambda>new_digest.
        rbind (snapshotStateDigest sha256 existing) (\<lambda>old_digest.
        rensure (new_digest = old_digest)
          (StaleIndexerSnapshotError ''the same cursor was reused with different projection state'')))
      else Inr ())"

text \<open>The text of the snapshot file, after the checks that need no lock.\<close>

definition snapshotFileText ::
  "(string \<Rightarrow> string) \<Rightarrow> file_store_config \<Rightarrow> indexer_snapshot \<Rightarrow> string option \<Rightarrow> (indexer_snapshot \<times> string) result" where
  "snapshotFileText sha256 cfg s expectedBaseSnapshotId =
     (if (case expectedBaseSnapshotId of None \<Rightarrow> False | Some i \<Rightarrow> \<not> is_snapshot_id i)
      then Inl (TypeError ''Expected base snapshot ID is malformed'')
      else let payload = encodeSnapshot s in
        rbind (decodeSnapshot sha256 payload) (\<lambda>validated.
        let encoded = encodeBigInts (envelope_tree (fc_manifestSha256 cfg) (sha256 payload) ''snapshot'' (JStr payload)) @ newline in
        if MAX_SNAPSHOT_BYTES < utf8_length encoded
        then Inl (RangeError ''Indexer snapshot envelope exceeds its durable file limit'')
        else Inr (validated, encoded)))"

text \<open>The operation under the lock; \<open>leased\<close> is the result of \<open>assertActiveLease\<close>, which nothing in it changes.\<close>

definition replaceSnapshot ::
  "(string \<Rightarrow> string) \<Rightarrow> file_store_config \<Rightarrow> unit result \<Rightarrow> indexer_snapshot \<Rightarrow> string \<Rightarrow> string option \<Rightarrow> (fs_directory, unit) io" where
  "replaceSnapshot sha256 cfg leased validated encoded expectedBaseSnapshotId fs =
     (case rbind leased (\<lambda>_.
        rbind (loadSnapshotFile sha256 cfg fs) (\<lambda>existing.
        rbind (rensure (map_option sn_id existing = expectedBaseSnapshotId)
          (StaleIndexerSnapshotError ''durable base changed after this indexer restored its state'')) (\<lambda>_.
        rbind (case existing of None \<Rightarrow> Inr () | Some e \<Rightarrow> assertMonotonicSnapshot sha256 e validated) (\<lambda>_. leased))))
      of Inl e \<Rightarrow> (Inl e, fs)
       | Inr _ \<Rightarrow> writeFileAtomically (fc_host cfg) (snapshotPath cfg) encoded fs)"

definition saveSnapshotUnderLease ::
  "(string \<Rightarrow> string) \<Rightarrow> file_store_config \<Rightarrow> indexer_snapshot \<Rightarrow> lease \<Rightarrow> string option \<Rightarrow> (file_store, unit) io" where
  "saveSnapshotUnderLease sha256 cfg s lease expectedBaseSnapshotId st =
     (case snapshotFileText sha256 cfg s expectedBaseSnapshotId of
        Inl e \<Rightarrow> (Inl e, st)
      | Inr (validated, encoded) \<Rightarrow>
          on_files (withExclusiveFileLock (fc_host cfg) (snapshotPath cfg @ ''.lock'')
            (replaceSnapshot sha256 cfg (file_assertActiveLease lease st) validated encoded expectedBaseSnapshotId)) st)"

definition file_saveSnapshot ::
  "(string \<Rightarrow> string) \<Rightarrow> file_store_config \<Rightarrow> indexer_snapshot \<Rightarrow> lease \<Rightarrow> string option \<Rightarrow> (file_store, unit) io" where
  "file_saveSnapshot sha256 cfg s lease expectedBaseSnapshotId st =
     (case file_assertActiveLease lease st of
        Inl e \<Rightarrow> (Inl e, st)
      | Inr _ \<Rightarrow> trackLeaseMutation (saveSnapshotUnderLease sha256 cfg s lease expectedBaseSnapshotId) st)"

section \<open>The alert journal\<close>

text \<open>Every record is checked before any is returned.\<close>

fun check_journal :: "string list \<Rightarrow> string list \<Rightarrow> unit result" where
  "check_journal ids [] = Inr ()"
| "check_journal ids (text # texts) = rbind (decodeCriticalAlert text) (\<lambda>a.
     if al_id a \<in> set ids then Inl (TypeError (''Duplicate persisted critical alert ID: '' @ al_id a))
     else check_journal (al_id a # ids) texts)"

definition text_list :: "js_val option \<Rightarrow> string list option" where
  "text_list v = (case v of Some (JArr vs) \<Rightarrow> those (map (\<lambda>x. js_text (Some x)) vs) | _ \<Rightarrow> None)"

definition journal_payload :: "string list \<Rightarrow> string" where
  "journal_payload texts = encodeBigInts (JArr (map JStr texts))"

definition parseAlertEnvelope :: "(string \<Rightarrow> string) \<Rightarrow> file_store_config \<Rightarrow> string \<Rightarrow> string list result" where
  "parseAlertEnvelope sha256 cfg encoded = (case json_parse encoded of
       None \<Rightarrow> Inl (SyntaxError ''Unexpected token in JSON'')
     | Some v \<Rightarrow>
       let invalid = Inl (TypeError ''Invalid or release-manifest-mismatched critical-alert envelope'') in
       if js_field v ''schemaVersion'' \<noteq> Some (JNum 1) \<or> js_field v ''manifestSha256'' \<noteq> Some (JStr (fc_manifestSha256 cfg))
       then invalid
       else case (js_text (js_field v ''payloadSha256''), text_list (js_field v ''alerts'')) of
           (Some digest, Some texts) \<Rightarrow>
             rbind (assertSha256Digest digest ''critical-alert payload digest'') (\<lambda>_.
             if sha256 (journal_payload texts) \<noteq> digest then Inl (TypeError ''Critical-alert payload digest mismatch'')
             else rbind (check_journal [] texts) (\<lambda>_. Inr texts))
         | _ \<Rightarrow> invalid)"

definition loadAlertStrings :: "(string \<Rightarrow> string) \<Rightarrow> file_store_config \<Rightarrow> fs_directory \<Rightarrow> string list result" where
  "loadAlertStrings sha256 cfg fs =
     rbind (readFileSecurely (fc_host cfg) (alertsPath cfg) MAX_ALERT_BYTES fs) (\<lambda>read.
     case read of None \<Rightarrow> Inr [] | Some encoded \<Rightarrow> parseAlertEnvelope sha256 cfg encoded)"

definition file_listAlerts :: "(string \<Rightarrow> string) \<Rightarrow> file_store_config \<Rightarrow> file_store \<Rightarrow> critical_alert list result" where
  "file_listAlerts sha256 cfg st = rbind (loadAlertStrings sha256 cfg (fi_files st)) (map_result decodeCriticalAlert)"

definition journal_index :: "string list \<Rightarrow> (string, string) jsmap result" where
  "journal_index texts = rbind (map_result (\<lambda>t. rbind (decodeCriticalAlert t) (\<lambda>a. Inr (al_id a, t))) texts) (\<lambda>entries.
     Inr (foldl (\<lambda>m (k, v). map_set k v m) [] entries))"

fun merge_alerts :: "(critical_alert \<times> string) list \<Rightarrow> (string, string) jsmap \<Rightarrow> (string, string) jsmap result" where
  "merge_alerts [] byId = Inr byId"
| "merge_alerts ((a, encoded) # incoming) byId = (case map_get byId (al_id a) of
       None \<Rightarrow> merge_alerts incoming (map_set (al_id a) encoded byId)
     | Some prior \<Rightarrow> rbind (decodeCriticalAlert prior) (\<lambda>p.
         if equivalentCriticalAlert p a then merge_alerts incoming byId
         else Inl (TypeError (''Critical alert ID was reused with different content: '' @ al_id a))))"

definition journalFileText :: "(string \<Rightarrow> string) \<Rightarrow> file_store_config \<Rightarrow> string list \<Rightarrow> string result" where
  "journalFileText sha256 cfg texts =
     (let encoded = encodeBigInts (envelope_tree (fc_manifestSha256 cfg) (sha256 (journal_payload texts)) ''alerts''
        (JArr (map JStr texts))) @ newline in
      if MAX_ALERT_BYTES < utf8_length encoded
      then Inl (RangeError ''Critical-alert envelope exceeds its durable file limit'') else Inr encoded)"

definition extendJournal ::
  "(string \<Rightarrow> string) \<Rightarrow> file_store_config \<Rightarrow> unit result \<Rightarrow> (critical_alert \<times> string) list \<Rightarrow> (fs_directory, unit) io" where
  "extendJournal sha256 cfg leased incoming fs =
     (case rbind leased (\<lambda>_.
        rbind (loadAlertStrings sha256 cfg fs) (\<lambda>existing.
        rbind (journal_index existing) (\<lambda>byId.
        rbind (merge_alerts incoming byId) (\<lambda>merged.
        rbind (journalFileText sha256 cfg (map_values merged)) (\<lambda>encoded.
        rbind leased (\<lambda>_. Inr encoded))))))
      of Inl e \<Rightarrow> (Inl e, fs)
       | Inr encoded \<Rightarrow> writeFileAtomically (fc_host cfg) (alertsPath cfg) encoded fs)"

definition appendAlertsUnderLease ::
  "(string \<Rightarrow> string) \<Rightarrow> file_store_config \<Rightarrow> critical_alert list \<Rightarrow> lease \<Rightarrow> (file_store, unit) io" where
  "appendAlertsUnderLease sha256 cfg alerts lease st =
     (case map_result (\<lambda>a. rbind (encodeCriticalAlert a) (\<lambda>t. Inr (a, t))) alerts of
        Inl e \<Rightarrow> (Inl e, st)
      | Inr incoming \<Rightarrow>
          on_files (withExclusiveFileLock (fc_host cfg) (alertsPath cfg @ ''.lock'')
            (extendJournal sha256 cfg (file_assertActiveLease lease st) incoming)) st)"

definition file_appendAlerts ::
  "(string \<Rightarrow> string) \<Rightarrow> file_store_config \<Rightarrow> critical_alert list \<Rightarrow> lease \<Rightarrow> (file_store, unit) io" where
  "file_appendAlerts sha256 cfg alerts lease st =
     (case file_assertActiveLease lease st of
        Inl e \<Rightarrow> (Inl e, st)
      | Inr _ \<Rightarrow>
          if alerts = [] then (Inr (), st)
          else trackLeaseMutation (appendAlertsUnderLease sha256 cfg alerts lease) st)"

end
