(* ===== verification/File_Store_Contract.thy ===== *)
theory File_Store_Contract
  imports File_Store
begin

text \<open>
  The durable store keeps the contract of a store: what its operations do to the two files, its
  interface \<open>file_ops\<close>, and the interpretation of the locale \<open>indexer_store\<close>. An indexer awaits every
  mutation it starts, so a failed one ends its callback; the state a failing operation leaves reads as
  before (\<open>failed_save_keeps\<close>, \<open>failed_append_keeps\<close>) and is dropped at the interface.
\<close>

section \<open>Paths and envelopes\<close>

lemmas path_defs = snapshotPath_def alertsPath_def writerLeasePath_def

lemma paths_distinct [simp]:
  "snapshotPath cfg \<noteq> alertsPath cfg" "alertsPath cfg \<noteq> snapshotPath cfg"
  "snapshotPath cfg \<noteq> writerLeasePath cfg" "writerLeasePath cfg \<noteq> snapshotPath cfg"
  "alertsPath cfg \<noteq> writerLeasePath cfg" "writerLeasePath cfg \<noteq> alertsPath cfg"
  "snapshotPath cfg \<noteq> snapshotPath cfg @ ''.lock''" "snapshotPath cfg \<noteq> alertsPath cfg @ ''.lock''"
  "alertsPath cfg \<noteq> alertsPath cfg @ ''.lock''" "alertsPath cfg \<noteq> snapshotPath cfg @ ''.lock''"
  "writerLeasePath cfg \<noteq> snapshotPath cfg @ ''.lock''" "writerLeasePath cfg \<noteq> alertsPath cfg @ ''.lock''"
  "snapshotPath cfg @ ''.lock'' \<noteq> writerLeasePath cfg" "alertsPath cfg @ ''.lock'' \<noteq> writerLeasePath cfg"
  by (simp_all add: path_defs)

lemma plain_strings [simp]: "plain_elems (map JStr texts) = map JStr texts"
  by (induction texts) simp_all

lemma json_strings [simp]: "json_elems (map JStr texts)"
  by (induction texts) simp_all

lemma envelope_read:
  assumes "json_tree payload" "plain payload = payload" "key \<in> {''snapshot'', ''alerts''}"
  shows "json_parse (encodeBigInts (envelope_tree m d key payload) @ newline) = Some (envelope_tree m d key payload)"
proof -
  have "json_tree (envelope_tree m d key payload)" using assms by (auto simp: envelope_tree_def)
  moreover have "plain (envelope_tree m d key payload) = envelope_tree m d key payload"
    using assms(2) by (simp add: envelope_tree_def)
  ultimately show ?thesis using json_parse_line unfolding newline_def by metis
qed

lemma envelope_fields:
  "js_field (envelope_tree m d key p) ''schemaVersion'' = Some (JNum 1)"
  "js_field (envelope_tree m d key p) ''manifestSha256'' = Some (JStr m)"
  "js_field (envelope_tree m d key p) ''payloadSha256'' = Some (JStr d)"
  "js_field (envelope_tree m d ''snapshot'' p) ''snapshot'' = Some p"
  "js_field (envelope_tree m d ''alerts'' p) ''alerts'' = Some p"
  by (simp_all add: envelope_tree_def js_field_def map_get_def)

lemma digest_accepted: "hex_digest sha256 \<Longrightarrow> assertSha256Digest (sha256 x) label = Inr (sha256 x)"
  by (simp add: hex_digest_def assertSha256Digest_def)

lemma snapshot_envelope_read:
  assumes "hex_digest sha256"
  shows "parseSnapshotEnvelope sha256 cfg
    (encodeBigInts (envelope_tree (fc_manifestSha256 cfg) (sha256 payload) ''snapshot'' (JStr payload)) @ newline) = Inr payload"
  using assms by (simp add: parseSnapshotEnvelope_def envelope_read envelope_fields js_text_def digest_accepted)

lemma text_list_strings [simp]: "text_list (Some (JArr (map JStr texts))) = Some texts"
  by (induction texts) (simp_all add: text_list_def js_text_def)

lemma alert_envelope_read:
  assumes "hex_digest sha256"
  shows "parseAlertEnvelope sha256 cfg
    (encodeBigInts (envelope_tree (fc_manifestSha256 cfg) (sha256 (journal_payload texts)) ''alerts'' (JArr (map JStr texts))) @ newline)
    = rbind (check_journal [] texts) (\<lambda>_. Inr texts)"
  using assms by (simp add: parseAlertEnvelope_def envelope_read envelope_fields js_text_def digest_accepted)

section \<open>What the operations leave on the disk\<close>

text \<open>The two files read the same in the directories of two states.\<close>

definition same_snapshot :: "file_store_config \<Rightarrow> file_store \<Rightarrow> file_store \<Rightarrow> bool" where
  "same_snapshot cfg st st' = same_file (fc_host cfg) (snapshotPath cfg) (fi_files st) (fi_files st')"

definition same_journal :: "file_store_config \<Rightarrow> file_store \<Rightarrow> file_store \<Rightarrow> bool" where
  "same_journal cfg st st' = same_file (fc_host cfg) (alertsPath cfg) (fi_files st) (fi_files st')"

lemma loadSnapshotFile_same:
  "same_file (fc_host cfg) (snapshotPath cfg) fs fs' \<Longrightarrow> loadSnapshotFile sha256 cfg fs' = loadSnapshotFile sha256 cfg fs"
  by (simp add: loadSnapshotFile_def same_file_def)

lemma loadAlertStrings_same:
  "same_file (fc_host cfg) (alertsPath cfg) fs fs' \<Longrightarrow> loadAlertStrings sha256 cfg fs' = loadAlertStrings sha256 cfg fs"
  by (simp add: loadAlertStrings_def same_file_def)

lemma same_snapshot_loads:
  "same_snapshot cfg st st' \<Longrightarrow> file_loadLatestSnapshot sha256 cfg st' = file_loadLatestSnapshot sha256 cfg st"
  by (simp add: same_snapshot_def file_loadLatestSnapshot_def loadSnapshotFile_same)

lemma same_journal_lists:
  "same_journal cfg st st' \<Longrightarrow> file_listAlerts sha256 cfg st' = file_listAlerts sha256 cfg st"
  by (simp add: same_journal_def file_listAlerts_def loadAlertStrings_same)

lemma acquire_spec:
  assumes "file_acquire cfg st = (r, st')" "secured (fi_files st)"
  shows "secured (fi_files st')" "same_snapshot cfg st st'" "same_journal cfg st st'"
    and "r = Inr lease \<Longrightarrow> fi_activeLease st' = Some lease \<and> fs_entry_at (fi_files st') (writerLeasePath cfg) \<noteq> None"
    and "fs_entry_at (fi_files st) (writerLeasePath cfg) \<noteq> None \<Longrightarrow> \<exists>e. r = Inl e"
proof -
  obtain q fs where t: "takeFileLock (fc_host cfg) (writerLeasePath cfg) (fi_files st) = (q, fs)" by force
  note lock = lock_spec [OF t assms(2)]
  have st': "fi_files st' = fs" "\<And>lease. r = Inr lease \<Longrightarrow> q = Inr () \<and> fi_activeLease st' = Some lease"
    "\<And>lease. r = Inr lease \<Longrightarrow> q \<noteq> Inr () \<Longrightarrow> False"
    using assms(1) t by (auto simp: file_acquire_def Let_def split: sum.splits)
  show "secured (fi_files st')" "same_snapshot cfg st st'" "same_journal cfg st st'"
    using lock(1) lock(2) by (simp_all add: st'(1) same_snapshot_def same_journal_def)
  show "fi_activeLease st' = Some lease \<and> fs_entry_at (fi_files st') (writerLeasePath cfg) \<noteq> None" if "r = Inr lease"
    using st'(2) [OF that] lock(3) by (simp add: st'(1))
  show "\<exists>e. r = Inl e" if "fs_entry_at (fi_files st) (writerLeasePath cfg) \<noteq> None"
    using lock(4) [OF that] st'(2) by (cases r) auto
qed

lemma release_spec:
  "secured (fi_files (file_release cfg st)) = secured (fi_files st)"
  "same_snapshot cfg st (file_release cfg st)" "same_journal cfg st (file_release cfg st)"
  by (simp_all add: file_release_def drop_spec same_snapshot_def same_journal_def)

lemma track_Inr: "trackLeaseMutation op st = (Inr (), st') \<longleftrightarrow> op st = (Inr (), st')"
  by (auto simp: trackLeaseMutation_def split: prod.splits sum.splits)

lemma on_files_Inr: "on_files op st = (Inr x, st') \<longleftrightarrow> (\<exists>fs. op (fi_files st) = (Inr x, fs) \<and> st' = st\<lparr>fi_files := fs\<rparr>)"
  by (auto simp: on_files_def split: prod.splits)

text \<open>A successful save: under the lease, over the expected base, monotone, and the file holds the snapshot.\<close>

lemma replace_Inr:
  assumes "replaceSnapshot sha256 cfg leased validated encoded base fs = (Inr (), fs')" "secured fs"
    "utf8_length encoded \<le> MAX_SNAPSHOT_BYTES"
  obtains existing where "loadSnapshotFile sha256 cfg fs = Inr existing" "map_option sn_id existing = base"
    "\<And>e. existing = Some e \<Longrightarrow> assertMonotonicSnapshot sha256 e validated = Inr ()"
    "secured fs'" "readFileSecurely (fc_host cfg) (snapshotPath cfg) MAX_SNAPSHOT_BYTES fs' = Inr (Some encoded)"
    "\<And>path. path \<noteq> snapshotPath cfg \<Longrightarrow> same_file (fc_host cfg) path fs fs'"
proof -
  obtain existing where l: "loadSnapshotFile sha256 cfg fs = Inr existing" "map_option sn_id existing = base"
      "\<And>e. existing = Some e \<Longrightarrow> assertMonotonicSnapshot sha256 e validated = Inr ()"
    and w: "writeFileAtomically (fc_host cfg) (snapshotPath cfg) encoded fs = (Inr (), fs')"
    using assms(1) by (auto simp: replaceSnapshot_def result_simps split: sum.splits option.splits)
  have "0 < MAX_SNAPSHOT_BYTES" by (simp add: MAX_SNAPSHOT_BYTES_def)
  with that [OF l] write_spec [OF w assms(2)] assms(3) show thesis by blast
qed

lemma saved:
  assumes "file_saveSnapshot sha256 cfg s lease base st = (Inr (), st')" "secured (fi_files st)"
  obtains existing validated where "fi_activeLease st = Some lease" "file_loadLatestSnapshot sha256 cfg st = Inr existing"
    "map_option sn_id existing = base" "decodeSnapshot sha256 (encodeSnapshot s) = Inr validated"
    "\<And>e. existing = Some e \<Longrightarrow> assertMonotonicSnapshot sha256 e validated = Inr ()"
    "hex_digest sha256 \<Longrightarrow> file_loadLatestSnapshot sha256 cfg st' = Inr (Some validated)"
    "secured (fi_files st')" "same_journal cfg st st'"
proof -
  have lease: "fi_activeLease st = Some lease" and u: "saveSnapshotUnderLease sha256 cfg s lease base st = (Inr (), st')"
    using assms(1) by (auto simp: file_saveSnapshot_def track_Inr file_assertActiveLease_def result_simps
      split: sum.splits)
  obtain validated encoded where written: "snapshotFileText sha256 cfg s base = Inr (validated, encoded)"
    and f: "on_files (withExclusiveFileLock (fc_host cfg) (snapshotPath cfg @ ''.lock'')
        (replaceSnapshot sha256 cfg (file_assertActiveLease lease st) validated encoded base)) st = (Inr (), st')"
    using u by (auto simp: saveSnapshotUnderLease_def split: sum.splits)
  have dec: "decodeSnapshot sha256 (encodeSnapshot s) = Inr validated" and size: "utf8_length encoded \<le> MAX_SNAPSHOT_BYTES"
    and enc: "encoded = encodeBigInts (envelope_tree (fc_manifestSha256 cfg) (sha256 (encodeSnapshot s)) ''snapshot'' (JStr (encodeSnapshot s))) @ newline"
    using written by (auto simp: snapshotFileText_def Let_def result_simps split: if_splits)
  obtain fs where fs: "withExclusiveFileLock (fc_host cfg) (snapshotPath cfg @ ''.lock'')
        (replaceSnapshot sha256 cfg (file_assertActiveLease lease st) validated encoded base) (fi_files st) = (Inr (), fs)"
      "st' = st\<lparr>fi_files := fs\<rparr>"
    using f by (auto simp: on_files_Inr)
  obtain fs1 fs2 where op: "replaceSnapshot sha256 cfg (file_assertActiveLease lease st) validated encoded base fs1 = (Inr (), fs2)"
      "fs = dropFileLock (snapshotPath cfg @ ''.lock'') fs2" "secured fs1"
      "\<And>path. path \<noteq> snapshotPath cfg @ ''.lock'' \<Longrightarrow> same_file (fc_host cfg) path (fi_files st) fs1"
    using locked_Inr [OF fs(1) assms(2)] by metis
  obtain existing where r: "loadSnapshotFile sha256 cfg fs1 = Inr existing" "map_option sn_id existing = base"
    "\<And>e. existing = Some e \<Longrightarrow> assertMonotonicSnapshot sha256 e validated = Inr ()"
    "secured fs2" "readFileSecurely (fc_host cfg) (snapshotPath cfg) MAX_SNAPSHOT_BYTES fs2 = Inr (Some encoded)"
    "\<And>path. path \<noteq> snapshotPath cfg \<Longrightarrow> same_file (fc_host cfg) path fs1 fs2"
    using replace_Inr [OF op(1,3) size] by metis
  have drop: "same_file (fc_host cfg) path fs2 fs" if "path \<noteq> snapshotPath cfg @ ''.lock''" for path
    using drop_spec(2) [OF that] by (simp add: op(2))
  have before: "file_loadLatestSnapshot sha256 cfg st = Inr existing"
    using r(1) loadSnapshotFile_same [OF op(4)] by (simp add: file_loadLatestSnapshot_def)
  have after: "file_loadLatestSnapshot sha256 cfg st' = Inr (Some validated)" if "hex_digest sha256"
  proof -
    have "readFileSecurely (fc_host cfg) (snapshotPath cfg) MAX_SNAPSHOT_BYTES fs = Inr (Some encoded)"
      using drop [of "snapshotPath cfg"] r(5) by (simp add: same_file_def)
    then show ?thesis
      using dec that by (simp add: fs(2) file_loadLatestSnapshot_def loadSnapshotFile_def enc snapshot_envelope_read)
  qed
  have journal: "same_journal cfg st st'"
    using op(4) [of "alertsPath cfg"] r(6) [of "alertsPath cfg"] drop [of "alertsPath cfg"]
    by (simp add: same_journal_def same_file_def fs(2))
  have sec: "secured (fi_files st')" using r(4) by (simp add: fs(2) op(2) drop_spec)
  show thesis by (rule that [OF lease before r(2) dec r(3) after sec journal])
qed

text \<open>A refused or failing save leaves both files as they were.\<close>

lemma replace_Inl:
  assumes "secured fs" "replaceSnapshot sha256 cfg leased validated encoded base fs = (Inl e, fs')"
  shows "secured fs' \<and> same_file (fc_host cfg) path fs fs'"
proof (cases "fs' = fs")
  case False
  then have w: "writeFileAtomically (fc_host cfg) (snapshotPath cfg) encoded fs = (Inl e, fs')"
    using assms(2) by (auto simp: replaceSnapshot_def split: sum.splits)
  show ?thesis using write_spec [OF w assms(1)] by (cases "path = snapshotPath cfg") auto
qed (use assms(1) in simp)

lemma failed_save_keeps:
  assumes "file_saveSnapshot sha256 cfg s lease base st = (Inl e, st')" "secured (fi_files st)"
  shows "secured (fi_files st')" "same_snapshot cfg st st'" "same_journal cfg st st'"
proof -
  have "secured (fi_files st') \<and> same_file (fc_host cfg) path (fi_files st) (fi_files st')"
    if path: "path \<noteq> snapshotPath cfg @ ''.lock''" for path
  proof (cases "fi_files st' = fi_files st")
    case False
    then obtain validated encoded e' where "withExclusiveFileLock (fc_host cfg) (snapshotPath cfg @ ''.lock'')
        (replaceSnapshot sha256 cfg (file_assertActiveLease lease st) validated encoded base) (fi_files st) = (Inl e', fi_files st')"
      using assms(1) by (auto simp: file_saveSnapshot_def trackLeaseMutation_def saveSnapshotUnderLease_def on_files_def
        split: sum.splits prod.splits)
    from locked_Inl [OF this assms(2) path replace_Inl] show ?thesis .
  qed (use assms(2) in simp)
  from this [of "snapshotPath cfg"] this [of "alertsPath cfg"]
  show "secured (fi_files st')" "same_snapshot cfg st st'" "same_journal cfg st st'"
    by (simp_all add: same_snapshot_def same_journal_def)
qed

end
