(* ===== verification/Alert_Journal.thy ===== *)
theory Alert_Journal
  imports File_Store_Contract
begin

text \<open>
  The alert journal: an append keeps every recorded alert in place, adds at most the given ones, and
  leaves each of them on record; identifiers stay unique, and a failed or repeated append changes nothing.
\<close>

section \<open>Journals as alerts with their texts\<close>

definition recorded :: "(critical_alert \<times> string) list \<Rightarrow> bool" where
  "recorded ps = (list_all (\<lambda>(a, t). decodeCriticalAlert t = Inr a) ps \<and> distinct (map (al_id \<circ> fst) ps))"

definition by_id :: "(critical_alert \<times> string) list \<Rightarrow> (string, string) jsmap" where
  "by_id ps = map (\<lambda>(a, t). (al_id a, t)) ps"

lemma by_id_values [simp]: "map_values (by_id ps) = map snd ps"
  by (simp add: map_values_def by_id_def case_prod_unfold)

lemma by_id_keys: "fst ` set (by_id ps) = al_id ` fst ` set ps"
  by (force simp: by_id_def)

lemma recorded_snoc: "recorded (ps @ [(a, t)]) \<longleftrightarrow> recorded ps \<and> decodeCriticalAlert t = Inr a \<and> al_id a \<notin> al_id ` fst ` set ps"
  by (auto simp: recorded_def image_image)

lemma map_result_decode:
  "map_result decodeCriticalAlert texts = Inr as \<longleftrightarrow>
     (\<exists>ps. texts = map snd ps \<and> as = map fst ps \<and> list_all (\<lambda>(a, t). decodeCriticalAlert t = Inr a) ps)"
proof (induction texts arbitrary: as)
  case (Cons t texts)
  show ?case
  proof
    assume "map_result decodeCriticalAlert (t # texts) = Inr as"
    then obtain a bs where a: "decodeCriticalAlert t = Inr a" "map_result decodeCriticalAlert texts = Inr bs" "as = a # bs"
      by (auto simp: result_simps)
    then obtain ps where "texts = map snd ps" "bs = map fst ps" "list_all (\<lambda>(a, t). decodeCriticalAlert t = Inr a) ps"
      using Cons.IH by blast
    with a show "\<exists>ps. t # texts = map snd ps \<and> as = map fst ps \<and> list_all (\<lambda>(a, t). decodeCriticalAlert t = Inr a) ps"
      by (intro exI [of _ "(a, t) # ps"]) simp
  next
    assume "\<exists>ps. t # texts = map snd ps \<and> as = map fst ps \<and> list_all (\<lambda>(a, t). decodeCriticalAlert t = Inr a) ps"
    then obtain a ps where "texts = map snd ps" "as = a # map fst ps" "decodeCriticalAlert t = Inr a"
        "list_all (\<lambda>(a, t). decodeCriticalAlert t = Inr a) ps"
      by (auto simp: Cons_eq_map_conv)
    moreover from this have "map_result decodeCriticalAlert texts = Inr (map fst ps)" using Cons.IH by blast
    ultimately show "map_result decodeCriticalAlert (t # texts) = Inr as" by simp
  qed
qed auto

lemma check_journal_Inr:
  "check_journal ids texts = Inr () \<longleftrightarrow>
     (\<exists>ps. texts = map snd ps \<and> recorded ps \<and> al_id ` fst ` set ps \<inter> set ids = {})"
proof (induction ids texts rule: check_journal.induct)
  case (2 ids t texts)
  show ?case
  proof
    assume "check_journal ids (t # texts) = Inr ()"
    then obtain a where a: "decodeCriticalAlert t = Inr a" "al_id a \<notin> set ids" "check_journal (al_id a # ids) texts = Inr ()"
      by (auto simp: result_simps split: if_splits)
    then obtain ps where "texts = map snd ps" "recorded ps" "al_id ` fst ` set ps \<inter> set (al_id a # ids) = {}"
      using "2.IH" by blast
    with a show "\<exists>ps. t # texts = map snd ps \<and> recorded ps \<and> al_id ` fst ` set ps \<inter> set ids = {}"
      by (intro exI [of _ "(a, t) # ps"]) (auto simp: recorded_def image_image)
  next
    assume "\<exists>ps. t # texts = map snd ps \<and> recorded ps \<and> al_id ` fst ` set ps \<inter> set ids = {}"
    then obtain a ps where p: "texts = map snd ps" "decodeCriticalAlert t = Inr a" "recorded ((a, t) # ps)"
        "al_id ` fst ` set ((a, t) # ps) \<inter> set ids = {}"
      by (auto simp: Cons_eq_map_conv recorded_def)
    then have "recorded ps" "al_id ` fst ` set ps \<inter> set (al_id a # ids) = {}" "al_id a \<notin> set ids"
      by (auto simp: recorded_def image_image)
    with p(1,2) "2.IH" [OF \<open>al_id a \<notin> set ids\<close>] show "check_journal ids (t # texts) = Inr ()" by auto
  qed
qed (auto simp: recorded_def)

lemma index_entries:
  "list_all (\<lambda>(a, t). decodeCriticalAlert t = Inr a) ps \<Longrightarrow>
   map_result (\<lambda>t. rbind (decodeCriticalAlert t) (\<lambda>a. Inr (al_id a, t))) (map snd ps) = Inr (by_id ps)"
  by (induction ps) (auto simp: by_id_def)

lemma journal_index_recorded:
  assumes "recorded ps"
  shows "journal_index (map snd ps) = Inr (by_id ps)"
proof -
  have "map fst (by_id ps) = map (al_id \<circ> fst) ps" by (simp add: by_id_def case_prod_unfold comp_def)
  then show ?thesis
    using assms foldl_map_set [of "[]" "by_id ps"] by (simp add: journal_index_def index_entries recorded_def)
qed

lemma by_id_get:
  assumes "recorded ps" "map_get (by_id ps) k = Some u"
  obtains b where "(b, u) \<in> set ps" "al_id b = k" "decodeCriticalAlert u = Inr b"
proof -
  have "(k, u) \<in> set (by_id ps)" using assms(2) by (rule map_get_Some_entries)
  then obtain b where "(b, u) \<in> set ps" "al_id b = k" by (auto simp: by_id_def)
  with assms(1) that show thesis by (auto simp: recorded_def list_all_iff)
qed

lemma by_id_absent: "map_get (by_id ps) k = None \<longleftrightarrow> k \<notin> al_id ` fst ` set ps"
  using by_id_keys [of ps] by (auto simp: map_get_def map_of_eq_None_iff)

section \<open>Merging\<close>

definition on_record :: "critical_alert \<Rightarrow> (critical_alert \<times> string) list \<Rightarrow> bool" where
  "on_record a ps = list_ex (\<lambda>(b, u). equivalentCriticalAlert b a) ps"

lemma on_record_append [simp]: "on_record a (ps @ qs) \<longleftrightarrow> on_record a ps \<or> on_record a qs"
  by (simp add: on_record_def)

lemma on_record_Cons [simp]: "on_record a ((b, u) # qs) \<longleftrightarrow> equivalentCriticalAlert b a \<or> on_record a qs"
  by (simp add: on_record_def)

lemma on_recordI: "(b, u) \<in> set ps \<Longrightarrow> equivalentCriticalAlert b a \<Longrightarrow> on_record a ps"
  by (auto simp: on_record_def list_ex_iff)

lemma merge_recorded:
  assumes "recorded ps" "list_all (\<lambda>(a, t). decodeCriticalAlert t = Inr a) incoming"
    "merge_alerts incoming (by_id ps) = Inr merged"
  shows "\<exists>qs. merged = by_id (ps @ qs) \<and> recorded (ps @ qs) \<and> set qs \<subseteq> set incoming
    \<and> (\<forall>a \<in> fst ` set incoming. on_record a (ps @ qs))"
  using assms
proof (induction incoming arbitrary: ps)
  case (Cons x incoming)
  obtain a t where x: "x = (a, t)" by force
  show ?case
  proof (cases "map_get (by_id ps) (al_id a)")
    case None
    then have new: "al_id a \<notin> al_id ` fst ` set ps" by (simp add: by_id_absent)
    have rec: "recorded (ps @ [(a, t)])" using Cons.prems(1,2) new by (simp add: recorded_snoc x)
    have "map_set (al_id a) t (by_id ps) = by_id (ps @ [(a, t)])"
      using new by (subst map_set_append) (auto simp: by_id_keys, simp add: by_id_def)
    then have "merge_alerts incoming (by_id (ps @ [(a, t)])) = Inr merged" using Cons.prems(3) None by (simp add: x)
    with Cons.IH [OF rec] Cons.prems(2) obtain qs where qs: "merged = by_id ((ps @ [(a, t)]) @ qs)"
      "recorded ((ps @ [(a, t)]) @ qs)" "set qs \<subseteq> set incoming"
      "\<forall>c \<in> fst ` set incoming. on_record c ((ps @ [(a, t)]) @ qs)"
      by (auto simp: x)
    then show ?thesis by (intro exI [of _ "(a, t) # qs"]) (auto simp: x)
  next
    case (Some prior)
    then obtain b where b: "(b, prior) \<in> set ps" "al_id b = al_id a" "decodeCriticalAlert prior = Inr b"
      using by_id_get [OF Cons.prems(1)] by metis
    then have eq: "equivalentCriticalAlert b a" and "merge_alerts incoming (by_id ps) = Inr merged"
      using Cons.prems(3) Some by (auto simp: x split: if_splits)
    with Cons.IH [OF Cons.prems(1)] Cons.prems(2) obtain qs where "merged = by_id (ps @ qs)" "recorded (ps @ qs)"
      "set qs \<subseteq> set incoming" "\<forall>a \<in> fst ` set incoming. on_record a (ps @ qs)"
      by auto
    with on_recordI [OF b(1) eq] show ?thesis by (intro exI [of _ qs]) (auto simp: x)
  qed
qed auto

lemma on_record_fst: "on_record a ps \<longleftrightarrow> list_ex (\<lambda>b. equivalentCriticalAlert b a) (map fst ps)"
  by (induction ps) (auto simp: on_record_def)

text \<open>A batch that is on record adds nothing.\<close>

lemma no_new_records:
  assumes "recorded (ps @ qs)" "fst ` set qs \<subseteq> set alerts" "\<forall>a \<in> set alerts. on_record a ps"
  shows "qs = []"
proof (rule ccontr)
  assume "qs \<noteq> []"
  then obtain a t where q: "(a, t) \<in> set qs" by (metis list.set_intros(1) neq_Nil_conv surj_pair)
  then have "a \<in> set alerts" using assms(2) by force
  then obtain b where b: "b \<in> fst ` set ps" "equivalentCriticalAlert b a"
    using assms(3) unfolding on_record_fst list_ex_iff set_map by blast
  then have "al_id a = al_id b" by (simp add: equivalentCriticalAlert_def)
  then have "al_id a \<in> al_id ` fst ` set ps" using b(1) by blast
  moreover have "al_id a \<in> al_id ` fst ` set qs" using q by force
  moreover have "al_id ` fst ` set ps \<inter> al_id ` fst ` set qs = {}"
    using assms(1) by (simp add: recorded_def image_image comp_def)
  ultimately show False by blast
qed

section \<open>Appending\<close>

lemma loaded_journal:
  assumes "loadAlertStrings sha256 cfg fs = Inr texts"
  obtains ps where "texts = map snd ps" "recorded ps"
proof (cases "texts = []")
  case True
  then show thesis using that [of "[]"] by (simp add: recorded_def)
next
  case False
  then have "check_journal [] texts = Inr ()"
    using assms by (auto simp: loadAlertStrings_def parseAlertEnvelope_def Let_def result_simps split: option.splits if_splits)
  then show thesis using that by (auto simp: check_journal_Inr)
qed

lemma listed: "recorded ps \<Longrightarrow> map_result decodeCriticalAlert (map snd ps) = Inr (map fst ps)"
  by (auto simp: map_result_decode recorded_def)

lemma incoming_encoded:
  "map_result (\<lambda>a. rbind (encodeCriticalAlert a) (\<lambda>t. Inr (a, t))) alerts = Inr incoming \<Longrightarrow>
   map fst incoming = alerts \<and> list_all (\<lambda>(a, t). decodeCriticalAlert t = Inr a) incoming"
proof (induction alerts arbitrary: incoming)
  case (Cons a alerts)
  then obtain t rest where "encodeCriticalAlert a = Inr t" "incoming = (a, t) # rest"
      "map_result (\<lambda>a. rbind (encodeCriticalAlert a) (\<lambda>t. Inr (a, t))) alerts = Inr rest"
    by (auto simp: result_simps simp del: encodeCriticalAlert_Inr)
  with Cons.IH encoded_alert_decodes show ?case by auto
qed simp

lemma extend_Inr:
  assumes "extendJournal sha256 cfg leased incoming fs = (Inr (), fs')" "secured fs" "hex_digest sha256"
    "list_all (\<lambda>(a, t). decodeCriticalAlert t = Inr a) incoming"
  obtains ps qs where "loadAlertStrings sha256 cfg fs = Inr (map snd ps)" "recorded (ps @ qs)" "set qs \<subseteq> set incoming"
    "\<forall>a \<in> fst ` set incoming. on_record a (ps @ qs)" "loadAlertStrings sha256 cfg fs' = Inr (map snd (ps @ qs))"
    "secured fs'" "\<And>path. path \<noteq> alertsPath cfg \<Longrightarrow> same_file (fc_host cfg) path fs fs'"
proof -
  obtain existing index merged encoded where l: "loadAlertStrings sha256 cfg fs = Inr existing"
      "journal_index existing = Inr index" "merge_alerts incoming index = Inr merged"
      "journalFileText sha256 cfg (map_values merged) = Inr encoded"
    and w: "writeFileAtomically (fc_host cfg) (alertsPath cfg) encoded fs = (Inr (), fs')"
    using assms(1) by (auto simp: extendJournal_def result_simps split: sum.splits)
  obtain ps where ps: "existing = map snd ps" "recorded ps" using loaded_journal [OF l(1)] .
  then have "index = by_id ps" using l(2) journal_index_recorded by simp
  then obtain qs where qs: "merged = by_id (ps @ qs)" "recorded (ps @ qs)" "set qs \<subseteq> set incoming"
      "\<forall>a \<in> fst ` set incoming. on_record a (ps @ qs)"
    using merge_recorded [OF ps(2) assms(4)] l(3) by blast
  have enc: "encoded = encodeBigInts (envelope_tree (fc_manifestSha256 cfg) (sha256 (journal_payload (map snd (ps @ qs)))) ''alerts''
      (JArr (map JStr (map snd (ps @ qs))))) @ newline" and size: "utf8_length encoded \<le> MAX_ALERT_BYTES"
    using l(4) by (auto simp: journalFileText_def Let_def qs(1) by_id_values split: if_splits)
  have "readFileSecurely (fc_host cfg) (alertsPath cfg) MAX_ALERT_BYTES fs' = Inr (Some encoded)"
    using write_spec(3) [OF w assms(2) refl _ size] by (simp add: MAX_ALERT_BYTES_def)
  moreover have "check_journal [] (map snd (ps @ qs)) = Inr ()" 
    unfolding check_journal_Inr by (rule exI [of _ "ps @ qs"]) (simp add: qs(2))
  ultimately have after: "loadAlertStrings sha256 cfg fs' = Inr (map snd (ps @ qs))"
    using assms(3) by (simp add: loadAlertStrings_def enc alert_envelope_read del: map_append map_map)
  show thesis
    by (rule that [OF _ qs(2-4) after write_spec(1,2) [OF w assms(2)]]) (simp_all add: l(1) ps(1))
qed

lemma appended:
  assumes "file_appendAlerts sha256 cfg alerts lease st = (Inr (), st')" "secured (fi_files st)" "hex_digest sha256" "alerts \<noteq> []"
  obtains ps qs where "fi_activeLease st = Some lease" "loadAlertStrings sha256 cfg (fi_files st) = Inr (map snd ps)"
    "recorded (ps @ qs)" "fst ` set qs \<subseteq> set alerts" "\<forall>a \<in> set alerts. on_record a (ps @ qs)"
    "loadAlertStrings sha256 cfg (fi_files st') = Inr (map snd (ps @ qs))" "secured (fi_files st')" "same_snapshot cfg st st'"
proof -
  let ?lock = "alertsPath cfg @ ''.lock''"
  have lease: "fi_activeLease st = Some lease" and u: "appendAlertsUnderLease sha256 cfg alerts lease st = (Inr (), st')"
    using assms(1,4) by (auto simp: file_appendAlerts_def track_Inr file_assertActiveLease_def result_simps split: sum.splits)
  obtain incoming where inc: "map_result (\<lambda>a. rbind (encodeCriticalAlert a) (\<lambda>t. Inr (a, t))) alerts = Inr incoming"
    and f: "on_files (withExclusiveFileLock (fc_host cfg) ?lock
        (extendJournal sha256 cfg (file_assertActiveLease lease st) incoming)) st = (Inr (), st')"
    using u by (auto simp: appendAlertsUnderLease_def split: sum.splits)
  note enc = incoming_encoded [OF inc]
  obtain fs where fs: "withExclusiveFileLock (fc_host cfg) ?lock
        (extendJournal sha256 cfg (file_assertActiveLease lease st) incoming) (fi_files st) = (Inr (), fs)" "st' = st\<lparr>fi_files := fs\<rparr>"
    using f by (auto simp: on_files_Inr)
  obtain fs1 fs2 where op: "extendJournal sha256 cfg (file_assertActiveLease lease st) incoming fs1 = (Inr (), fs2)"
      "fs = dropFileLock ?lock fs2" "secured fs1" "\<And>path. path \<noteq> ?lock \<Longrightarrow> same_file (fc_host cfg) path (fi_files st) fs1"
    using locked_Inr [OF fs(1) assms(2)] by metis
  obtain ps qs where e: "loadAlertStrings sha256 cfg fs1 = Inr (map snd ps)" "recorded (ps @ qs)" "set qs \<subseteq> set incoming"
    "\<forall>a \<in> fst ` set incoming. on_record a (ps @ qs)" "loadAlertStrings sha256 cfg fs2 = Inr (map snd (ps @ qs))"
    "secured fs2" "\<And>path. path \<noteq> alertsPath cfg \<Longrightarrow> same_file (fc_host cfg) path fs1 fs2"
    using extend_Inr [OF op(1,3) assms(3)] enc by metis
  have fst_inc: "fst ` set incoming = set alerts" using enc by (metis set_map)
  have before: "loadAlertStrings sha256 cfg (fi_files st) = Inr (map snd ps)"
    using e(1) loadAlertStrings_same [OF op(4)] by simp
  have drop: "same_file (fc_host cfg) path fs2 fs" if "path \<noteq> ?lock" for path
    using drop_spec(2) [OF that] by (simp add: op(2))
  have after: "loadAlertStrings sha256 cfg (fi_files st') = Inr (map snd (ps @ qs))"
    using e(5) loadAlertStrings_same [OF drop] by (simp add: fs(2))
  have sub: "fst ` set qs \<subseteq> set alerts" using e(3) fst_inc by blast
  have sec: "secured (fi_files st')" using e(6) by (simp add: fs(2) op(2) drop_spec)
  have same: "same_snapshot cfg st st'"
    using op(4) [of "snapshotPath cfg"] e(7) [of "snapshotPath cfg"] drop [of "snapshotPath cfg"]
    by (simp add: same_snapshot_def same_file_def fs(2))
  show thesis by (rule that [OF lease before e(2) sub _ after sec same]) (use e(4) fst_inc in simp)
qed

text \<open>Any successful append leaves the snapshot file alone.\<close>

lemma extend_other:
  assumes "secured fs" "extendJournal sha256 cfg leased incoming fs = (r, fs')"
  shows "secured fs' \<and> (path \<noteq> alertsPath cfg \<longrightarrow> same_file (fc_host cfg) path fs fs')"
proof (cases "fs' = fs")
  case False
  then obtain encoded where w: "writeFileAtomically (fc_host cfg) (alertsPath cfg) encoded fs = (r, fs')"
    using assms(2) by (auto simp: extendJournal_def split: sum.splits)
  show ?thesis using write_spec(1,2) [OF w assms(1)] by simp
qed (use assms(1) in simp)

lemma appended_keeps:
  assumes "file_appendAlerts sha256 cfg alerts lease st = (Inr (), st')" "secured (fi_files st)"
  shows "secured (fi_files st') \<and> same_snapshot cfg st st'"
proof (cases "fi_files st' = fi_files st")
  case False
  let ?lock = "alertsPath cfg @ ''.lock''"
  obtain incoming where fs: "withExclusiveFileLock (fc_host cfg) ?lock
      (extendJournal sha256 cfg (file_assertActiveLease lease st) incoming) (fi_files st) = (Inr (), fi_files st')"
    using assms(1) False by (auto simp: file_appendAlerts_def track_Inr appendAlertsUnderLease_def on_files_Inr
      split: sum.splits if_splits)
  obtain fs1 fs2 where op: "extendJournal sha256 cfg (file_assertActiveLease lease st) incoming fs1 = (Inr (), fs2)"
      "fi_files st' = dropFileLock ?lock fs2" "secured fs1"
      "\<And>path. path \<noteq> ?lock \<Longrightarrow> same_file (fc_host cfg) path (fi_files st) fs1"
    using locked_Inr [OF fs assms(2)] by metis
  note ext = extend_other [OF op(3,1)]
  have "same_file (fc_host cfg) (snapshotPath cfg) fs2 (fi_files st')" using drop_spec(2) by (simp add: op(2))
  moreover have "same_file (fc_host cfg) (snapshotPath cfg) (fi_files st) fs1" by (rule op(4)) simp
  moreover have "same_file (fc_host cfg) (snapshotPath cfg) fs1 fs2" using ext [of "snapshotPath cfg"] by simp
  ultimately have "same_snapshot cfg st st'" by (simp add: same_snapshot_def same_file_def)
  moreover have "secured (fi_files st')" using ext [of "snapshotPath cfg"] by (simp add: op(2) drop_spec)
  ultimately show ?thesis by simp
qed (use assms(2) in \<open>simp add: same_snapshot_def\<close>)

text \<open>A refused or failing append leaves both files as they were.\<close>

lemma extend_Inl:
  assumes "secured fs" "extendJournal sha256 cfg leased incoming fs = (Inl e, fs')"
  shows "secured fs' \<and> same_file (fc_host cfg) path fs fs'"
proof (cases "fs' = fs")
  case False
  then obtain encoded where w: "writeFileAtomically (fc_host cfg) (alertsPath cfg) encoded fs = (Inl e, fs')"
    using assms(2) by (auto simp: extendJournal_def split: sum.splits)
  show ?thesis using write_spec [OF w assms(1)] by (cases "path = alertsPath cfg") auto
qed (use assms(1) in simp)

lemma failed_append_keeps:
  assumes "file_appendAlerts sha256 cfg alerts lease st = (Inl e, st')" "secured (fi_files st)"
  shows "secured (fi_files st')" "same_snapshot cfg st st'" "same_journal cfg st st'"
proof -
  have "secured (fi_files st') \<and> same_file (fc_host cfg) path (fi_files st) (fi_files st')"
    if path: "path \<noteq> alertsPath cfg @ ''.lock''" for path
  proof (cases "fi_files st' = fi_files st")
    case False
    then obtain incoming e' where "withExclusiveFileLock (fc_host cfg) (alertsPath cfg @ ''.lock'')
        (extendJournal sha256 cfg (file_assertActiveLease lease st) incoming) (fi_files st) = (Inl e', fi_files st')"
      using assms(1) by (auto simp: file_appendAlerts_def trackLeaseMutation_def appendAlertsUnderLease_def on_files_def
        split: sum.splits prod.splits if_splits)
    from locked_Inl [OF this assms(2) path extend_Inl] show ?thesis .
  qed (use assms(2) in simp)
  from this [of "snapshotPath cfg"] this [of "alertsPath cfg"]
  show "secured (fi_files st')" "same_snapshot cfg st st'" "same_journal cfg st st'"
    by (simp_all add: same_snapshot_def same_journal_def)
qed

lemma appended_again:
  assumes "file_appendAlerts sha256 cfg alerts lease st = (Inr (), st')" "secured (fi_files st)" "hex_digest sha256" "alerts \<noteq> []"
    and "file_appendAlerts sha256 cfg alerts lease' st' = (Inr (), st'')"
  shows "loadAlertStrings sha256 cfg (fi_files st'') = loadAlertStrings sha256 cfg (fi_files st')"
proof -
  from appended [OF assms(1-4)] obtain ps qs where a: "recorded (ps @ qs)" "\<forall>a \<in> set alerts. on_record a (ps @ qs)"
    "loadAlertStrings sha256 cfg (fi_files st') = Inr (map snd (ps @ qs))" "secured (fi_files st')" by metis
  from appended [OF assms(5) a(4) assms(3,4)] obtain ps' qs' where b: "recorded (ps' @ qs')" "fst ` set qs' \<subseteq> set alerts"
    "loadAlertStrings sha256 cfg (fi_files st') = Inr (map snd ps')"
    "loadAlertStrings sha256 cfg (fi_files st'') = Inr (map snd (ps' @ qs'))" by metis
  have "recorded ps'" using b(1) by (auto simp: recorded_def)
  then have "map fst ps' = map fst (ps @ qs)"
    using listed [of ps'] listed [OF a(1)] a(3) b(3) by simp
  then have "\<forall>a \<in> set alerts. on_record a ps'" using a(2) unfolding on_record_fst by simp
  then have "qs' = []" using no_new_records [OF b(1,2)] by simp
  with b(3,4) show ?thesis by simp
qed

text \<open>
  C39. The journal keeps every alert. When an append succeeds, the alerts listed afterwards are those
  listed before, unchanged and in place, followed by alerts of the batch; identifiers are unique, each
  alert of the batch is on record up to its detection time, and appending the batch again changes
  nothing. When it fails, for a lock, a lease, a malformed alert, a reused identifier or the disk, the
  journal and the snapshot read as before.
\<close>

theorem alert_journal_keeps_every_alert:
  assumes "file_appendAlerts sha256 cfg alerts lease st = (r, st')" "secured (fi_files st)" "hex_digest sha256" "alerts \<noteq> []"
  shows "(case r of
      Inl e \<Rightarrow> file_listAlerts sha256 cfg st' = file_listAlerts sha256 cfg st
    | Inr u \<Rightarrow> \<exists>old new. file_listAlerts sha256 cfg st = Inr old \<and> file_listAlerts sha256 cfg st' = Inr (old @ new)
        \<and> set new \<subseteq> set alerts \<and> distinct (map al_id (old @ new))
        \<and> list_all (\<lambda>a. list_ex (\<lambda>b. equivalentCriticalAlert b a) (old @ new)) alerts
        \<and> (\<forall>lease' st''. file_appendAlerts sha256 cfg alerts lease' st' = (Inr (), st'') \<longrightarrow>
            file_listAlerts sha256 cfg st'' = file_listAlerts sha256 cfg st'))
    \<and> file_loadLatestSnapshot sha256 cfg st' = file_loadLatestSnapshot sha256 cfg st"
proof (cases r)
  case (Inl e)
  then show ?thesis using failed_append_keeps [of sha256 cfg alerts lease st e st'] assms
    by (simp add: same_journal_lists same_snapshot_loads)
next
  case (Inr u)
  then have run: "file_appendAlerts sha256 cfg alerts lease st = (Inr (), st')" using assms(1) by simp
  from appended [OF run assms(2-4)] obtain ps qs where a: "loadAlertStrings sha256 cfg (fi_files st) = Inr (map snd ps)"
    "recorded (ps @ qs)" "fst ` set qs \<subseteq> set alerts" "\<forall>a \<in> set alerts. on_record a (ps @ qs)"
    "loadAlertStrings sha256 cfg (fi_files st') = Inr (map snd (ps @ qs))" "same_snapshot cfg st st'"
    by metis
  have "recorded ps" using a(2) by (auto simp: recorded_def)
  then have "file_listAlerts sha256 cfg st = Inr (map fst ps)" "file_listAlerts sha256 cfg st' = Inr (map fst ps @ map fst qs)"
    using listed [OF a(2)] a(1,5) by (simp_all add: file_listAlerts_def listed)
  moreover have "distinct (map al_id (map fst ps @ map fst qs))" using a(2) by (simp add: recorded_def)
  moreover have "set (map fst qs) \<subseteq> set alerts" using a(3) by simp
  moreover have "list_all (\<lambda>a. list_ex (\<lambda>b. equivalentCriticalAlert b a) (map fst ps @ map fst qs)) alerts"
    using a(4) by (simp add: list_all_iff on_record_fst)
  moreover have "file_listAlerts sha256 cfg st'' = file_listAlerts sha256 cfg st'"
    if "file_appendAlerts sha256 cfg alerts lease' st' = (Inr (), st'')" for lease' st''
    using appended_again [OF run assms(2-4) that] by (simp add: file_listAlerts_def)
  ultimately show ?thesis using Inr same_snapshot_loads [OF a(6)] by auto
qed

end
