(* ===== verification/Alert_Sink.thy ===== *)
theory Alert_Sink
  imports Alert_Journal
begin

text \<open>
  The durable alert sink of the worker (\<open>packages/indexer/src/worker.ts\<close>, class \<open>FileCriticalAlertSink\<close>): one
  file of delivered alerts, bound to the release manifest and to the digest of its payload, replaced under
  a lock. An alert is delivered once: a retry finds the identifier and changes nothing, and another alert
  under the same identifier is refused. A member of a stored alert that no alert has is dropped when the
  file is rewritten here; the code writes no such member.
\<close>

section \<open>The sink\<close>

definition MAX_DELIVERED_ALERT_BYTES :: nat where "MAX_DELIVERED_ALERT_BYTES = 64 * 1024 * 1024"

record alert_sink =
  as_host :: host
  as_name :: string
  as_manifestSha256 :: string

definition sink_path :: "alert_sink \<Rightarrow> string" where
  "sink_path sink = ho_directory (as_host sink) @ ''/'' @ as_name sink"

definition FileCriticalAlertSink :: "host \<Rightarrow> string \<Rightarrow> string \<Rightarrow> alert_sink result" where
  "FileCriticalAlertSink h name manifestSha256 =
     rbind (assertSha256Digest manifestSha256 ''release manifest digest'') (\<lambda>digest.
     Inr \<lparr>as_host = h, as_name = name, as_manifestSha256 = digest\<rparr>)"

definition parse_delivered :: "(string \<Rightarrow> string) \<Rightarrow> alert_sink \<Rightarrow> string \<Rightarrow> critical_alert list result" where
  "parse_delivered sha256 sink encoded = (case json_parse encoded of
       None \<Rightarrow> Inl (SyntaxError ''Unexpected token in JSON'')
     | Some v \<Rightarrow>
       let invalid = Inl (TypeError ''Invalid delivered-alert file'') in
       if js_field v ''schemaVersion'' \<noteq> Some (JNum 1) \<or> js_field v ''manifestSha256'' \<noteq> Some (JStr (as_manifestSha256 sink))
       then invalid
       else case (js_text (js_field v ''payloadSha256''), text_list (js_field v ''alerts'')) of
           (Some digest, Some texts) \<Rightarrow>
             if \<not> (length digest = 64 \<and> list_all is_lower_hex digest)
             then Inl (TypeError ''Invalid delivered-alert payload digest'')
             else if sha256 (journal_payload texts) \<noteq> digest then Inl (TypeError ''Delivered-alert payload digest mismatch'')
             else rbind (map_result decodeCriticalAlert texts) (\<lambda>alerts.
               if distinct (map al_id alerts) then Inr alerts
               else Inl (TypeError ''Duplicate delivered critical alert ID''))
         | _ \<Rightarrow> invalid)"

definition listDelivered :: "(string \<Rightarrow> string) \<Rightarrow> alert_sink \<Rightarrow> fs_directory \<Rightarrow> critical_alert list result" where
  "listDelivered sha256 sink fs =
     rbind (readFileSecurely (as_host sink) (sink_path sink) MAX_DELIVERED_ALERT_BYTES fs) (\<lambda>read.
     case read of None \<Rightarrow> Inr [] | Some encoded \<Rightarrow> parse_delivered sha256 sink encoded)"

definition deliveredFileText :: "(string \<Rightarrow> string) \<Rightarrow> alert_sink \<Rightarrow> string list \<Rightarrow> string result" where
  "deliveredFileText sha256 sink texts =
     (let encoded = encodeBigInts (envelope_tree (as_manifestSha256 sink) (sha256 (journal_payload texts)) ''alerts''
        (JArr (map JStr texts))) @ newline in
      if MAX_DELIVERED_ALERT_BYTES < utf8_length encoded
      then Inl (RangeError ''Delivered critical-alert file exceeds its durable file limit'') else Inr encoded)"

text \<open>The operation under the lock.\<close>

definition recordDelivery :: "(string \<Rightarrow> string) \<Rightarrow> alert_sink \<Rightarrow> critical_alert \<Rightarrow> string \<Rightarrow> (fs_directory, unit) io" where
  "recordDelivery sha256 sink alert next_text fs =
     (case listDelivered sha256 sink fs of
        Inl e \<Rightarrow> (Inl e, fs)
      | Inr existing \<Rightarrow> (case find (\<lambda>entry. al_id entry = al_id alert) existing of
          Some prior \<Rightarrow>
            if equivalentCriticalAlert prior alert then (Inr (), fs)
            else (Inl (TypeError (''Delivered critical alert ID was reused with different content: '' @ al_id alert)), fs)
        | None \<Rightarrow> (case rbind (map_result encodeCriticalAlert existing) (\<lambda>old.
              deliveredFileText sha256 sink (old @ [next_text])) of
            Inl e \<Rightarrow> (Inl e, fs)
          | Inr encoded \<Rightarrow> writeFileAtomically (as_host sink) (sink_path sink) encoded fs)))"

definition deliver_alert :: "(string \<Rightarrow> string) \<Rightarrow> alert_sink \<Rightarrow> critical_alert \<Rightarrow> (fs_directory, unit) io" where
  "deliver_alert sha256 sink alert fs = (case encodeCriticalAlert alert of
       Inl e \<Rightarrow> (Inl e, fs)
     | Inr next_text \<Rightarrow>
         withExclusiveFileLock (as_host sink) (sink_path sink @ ''.lock'') (recordDelivery sha256 sink alert next_text) fs)"

section \<open>What a delivery leaves on the disk\<close>

lemma listDelivered_same:
  "same_file (as_host sink) (sink_path sink) fs fs' \<Longrightarrow> listDelivered sha256 sink fs' = listDelivered sha256 sink fs"
  by (simp add: listDelivered_def same_file_def)

lemma encode_list:
  "map_result encodeCriticalAlert as = Inr texts \<Longrightarrow> map_result decodeCriticalAlert texts = Inr as"
  by (induction as arbitrary: texts) (auto simp: rbind_Inr_iff encoded_alert_decodes)

lemma decode_append:
  "map_result decodeCriticalAlert (ts @ [t]) = rbind (map_result decodeCriticalAlert ts) (\<lambda>as.
     rbind (decodeCriticalAlert t) (\<lambda>a. Inr (as @ [a])))"
  by (induction ts) (auto simp: rbind_def split: sum.splits)

lemma delivered_read:
  assumes "hex_digest sha256"
  shows "parse_delivered sha256 sink
    (encodeBigInts (envelope_tree (as_manifestSha256 sink) (sha256 (journal_payload texts)) ''alerts'' (JArr (map JStr texts))) @ newline)
    = rbind (map_result decodeCriticalAlert texts) (\<lambda>alerts.
        if distinct (map al_id alerts) then Inr alerts else Inl (TypeError ''Duplicate delivered critical alert ID''))"
  using assms by (simp add: parse_delivered_def envelope_read envelope_fields js_text_def hex_digest_def)

lemma listDelivered_distinct: "listDelivered sha256 sink fs = Inr as \<Longrightarrow> distinct (map al_id as)"
  by (auto simp: listDelivered_def parse_delivered_def Let_def result_simps split: option.splits if_splits)

text \<open>Under the lock: nothing is written for an alert on record, one file is replaced for a new one.\<close>

definition with_delivery :: "critical_alert \<Rightarrow> critical_alert list \<Rightarrow> critical_alert list" where
  "with_delivery a old = (if al_id a \<in> al_id ` set old then old else old @ [a])"

lemma find_id:
  "find (\<lambda>entry. al_id entry = al_id a) as = None \<longleftrightarrow> al_id a \<notin> al_id ` set as"
  "find (\<lambda>entry. al_id entry = al_id a) as = Some p \<Longrightarrow> p \<in> set as \<and> al_id p = al_id a"
  by (induction as; auto split: if_splits)+

lemma record_Inr:
  assumes "recordDelivery sha256 sink a line fs = (Inr (), fs')" "secured fs" "hex_digest sha256"
    "encodeCriticalAlert a = Inr line"
  obtains old where "listDelivered sha256 sink fs = Inr old" "listDelivered sha256 sink fs' = Inr (with_delivery a old)"
    "\<And>b. b \<in> set old \<Longrightarrow> al_id b = al_id a \<Longrightarrow> equivalentCriticalAlert b a"
proof -
  obtain old where l: "listDelivered sha256 sink fs = Inr old"
    using assms(1) by (auto simp: recordDelivery_def split: sum.splits)
  note ids = listDelivered_distinct [OF l]
  show thesis
  proof (cases "find (\<lambda>entry. al_id entry = al_id a) old")
    case (Some prior)
    note p = find_id(2) [OF Some]
    have eq: "equivalentCriticalAlert prior a" "fs' = fs"
      using assms(1) Some by (auto simp: recordDelivery_def l split: if_splits)
    have same: "equivalentCriticalAlert b a" if "b \<in> set old" "al_id b = al_id a" for b
      using ids p that eq(1) by (metis distinct_map inj_onD)
    have "with_delivery a old = old" using p by (metis image_eqI with_delivery_def)
    then have after: "listDelivered sha256 sink fs' = Inr (with_delivery a old)" using eq(2) l by simp
    show thesis by (rule that [OF l after same])
  next
    case None
    then have fresh: "al_id a \<notin> al_id ` set old" by (simp add: find_id(1))
    obtain texts encoded where t: "map_result encodeCriticalAlert old = Inr texts"
        "deliveredFileText sha256 sink (texts @ [line]) = Inr encoded"
      and w: "writeFileAtomically (as_host sink) (sink_path sink) encoded fs = (Inr (), fs')"
      using assms(1) None by (auto simp: recordDelivery_def l rbind_Inr_iff split: sum.splits)
    have size: "utf8_length encoded \<le> MAX_DELIVERED_ALERT_BYTES" "0 < MAX_DELIVERED_ALERT_BYTES"
      using t(2) by (auto simp: deliveredFileText_def MAX_DELIVERED_ALERT_BYTES_def Let_def split: if_splits)
    have "readFileSecurely (as_host sink) (sink_path sink) MAX_DELIVERED_ALERT_BYTES fs' = Inr (Some encoded)"
      using write_spec(3) [OF w assms(2) refl size(2,1)] .
    moreover have "encoded = encodeBigInts (envelope_tree (as_manifestSha256 sink) (sha256 (journal_payload (texts @ [line])))
        ''alerts'' (JArr (map JStr (texts @ [line])))) @ newline"
      using t(2) by (auto simp: deliveredFileText_def Let_def simp del: map_append split: if_splits)
    then have "parse_delivered sha256 sink encoded = Inr (old @ [a])"
      using encode_list [OF t(1)] encoded_alert_decodes [OF assms(4)] fresh ids
        delivered_read [OF assms(3), of sink "texts @ [line]"] by (simp add: decode_append)
    ultimately have after: "listDelivered sha256 sink fs' = Inr (with_delivery a old)"
      using fresh by (simp add: listDelivered_def with_delivery_def)
    have "equivalentCriticalAlert b a" if "b \<in> set old" "al_id b = al_id a" for b
      using that fresh by (metis image_eqI)
    then show thesis by (rule that [OF l after])
  qed
qed

lemma record_other:
  assumes "secured fs" "recordDelivery sha256 sink a line fs = (r, fs')"
  shows "secured fs' \<and> (path \<noteq> sink_path sink \<or> (\<exists>e. r = Inl e) \<longrightarrow> same_file (as_host sink) path fs fs')"
proof (cases "fs' = fs")
  case False
  then obtain encoded where w: "writeFileAtomically (as_host sink) (sink_path sink) encoded fs = (r, fs')"
    using assms(2) by (auto simp: recordDelivery_def split: sum.splits option.splits if_splits)
  show ?thesis using write_spec [OF w assms(1)] by (cases "path = sink_path sink") auto
qed (use assms(1) in simp)

lemma delivered:
  assumes "deliver_alert sha256 sink a fs = (Inr (), fs')" "secured fs" "hex_digest sha256"
  obtains old where "listDelivered sha256 sink fs = Inr old" "listDelivered sha256 sink fs' = Inr (with_delivery a old)"
    "\<And>b. b \<in> set old \<Longrightarrow> al_id b = al_id a \<Longrightarrow> equivalentCriticalAlert b a" "secured fs'"
proof -
  let ?lock = "sink_path sink @ ''.lock''"
  obtain line where enc: "encodeCriticalAlert a = Inr line"
    and run: "withExclusiveFileLock (as_host sink) ?lock (recordDelivery sha256 sink a line) fs = (Inr (), fs')"
    using assms(1) by (auto simp: deliver_alert_def split: sum.splits)
  obtain fs1 fs2 where op: "recordDelivery sha256 sink a line fs1 = (Inr (), fs2)" "fs' = dropFileLock ?lock fs2" "secured fs1"
      "\<And>path. path \<noteq> ?lock \<Longrightarrow> same_file (as_host sink) path fs fs1"
    using locked_Inr [OF run assms(2)] by metis
  obtain old where r: "listDelivered sha256 sink fs1 = Inr old" "listDelivered sha256 sink fs2 = Inr (with_delivery a old)"
    "\<And>b. b \<in> set old \<Longrightarrow> al_id b = al_id a \<Longrightarrow> equivalentCriticalAlert b a"
    using record_Inr [OF op(1,3) assms(3) enc] by metis
  have "listDelivered sha256 sink fs = Inr old" using r(1) listDelivered_same [OF op(4)] by simp
  moreover have "listDelivered sha256 sink fs' = Inr (with_delivery a old)"
    using r(2) listDelivered_same [OF drop_spec(2)] by (simp add: op(2))
  moreover have "secured fs'" using record_other [OF op(3,1)] by (simp add: op(2) drop_spec)
  ultimately show thesis using that r(3) by blast
qed

lemma failed_delivery_keeps:
  assumes "deliver_alert sha256 sink a fs = (Inl e, fs')" "secured fs"
  shows "secured fs' \<and> listDelivered sha256 sink fs' = listDelivered sha256 sink fs"
proof (cases "encodeCriticalAlert a")
  case (Inr line)
  then have run: "withExclusiveFileLock (as_host sink) (sink_path sink @ ''.lock'') (recordDelivery sha256 sink a line) fs = (Inl e, fs')"
    using assms(1) by (simp add: deliver_alert_def)
  have "secured fs' \<and> same_file (as_host sink) (sink_path sink) fs fs'"
    by (rule locked_Inl [OF run assms(2)]) (use record_other in force)+
  then show ?thesis by (simp add: listDelivered_same)
qed (use assms in \<open>simp add: deliver_alert_def\<close>)

section \<open>Deliveries\<close>

lemma equivalent_trans: "equivalentCriticalAlert b a \<Longrightarrow> equivalentCriticalAlert a c \<Longrightarrow> equivalentCriticalAlert b c"
  by (simp add: equivalentCriticalAlert_def)

lemma delivered_again:
  assumes "listDelivered sha256 sink fs = Inr (with_delivery a old)" "equivalentCriticalAlert a c" "secured fs" "hex_digest sha256"
    "deliver_alert sha256 sink c fs = (r, fs')"
  shows "listDelivered sha256 sink fs' = listDelivered sha256 sink fs"
proof (cases r)
  case (Inl e)
  with failed_delivery_keeps assms(3,5) show ?thesis by blast
next
  case (Inr u)
  with assms(5) have run: "deliver_alert sha256 sink c fs = (Inr (), fs')" by simp
  obtain old' where d: "listDelivered sha256 sink fs = Inr old'" "listDelivered sha256 sink fs' = Inr (with_delivery c old')"
    using delivered [OF run assms(3,4)] by metis
  have "al_id c = al_id a" using assms(2) by (simp add: equivalentCriticalAlert_def)
  then have "al_id c \<in> al_id ` set (with_delivery a old)" by (auto simp: with_delivery_def)
  then show ?thesis using d assms(1) by (simp add: with_delivery_def)
qed

text \<open>
  C7. An alert is delivered exactly once. A delivery that returns leaves the delivered alerts in place,
  with the new alert at their end unless its identifier was delivered before, then as an equivalent alert;
  identifiers stay unique. A retry, of the same alert up to its detection time, leaves the list as it is,
  whether it returns or throws. A delivery that fails, for a malformed alert, a reused identifier, a lock,
  a limit or the disk, leaves the list of delivered alerts as it was.
\<close>

theorem alert_is_delivered_once:
  assumes "deliver_alert sha256 sink a fs = (r, fs')" "secured fs" "hex_digest sha256"
  shows "case r of
      Inl e \<Rightarrow> listDelivered sha256 sink fs' = listDelivered sha256 sink fs
    | Inr u \<Rightarrow> \<exists>old new. listDelivered sha256 sink fs = Inr old \<and> listDelivered sha256 sink fs' = Inr new
        \<and> new = (if al_id a \<in> al_id ` set old then old else old @ [a]) \<and> distinct (map al_id new)
        \<and> list_ex (\<lambda>b. al_id b = al_id a \<and> equivalentCriticalAlert b a) new
        \<and> (\<forall>c r' fs''. equivalentCriticalAlert a c \<longrightarrow> deliver_alert sha256 sink c fs' = (r', fs'') \<longrightarrow>
            listDelivered sha256 sink fs'' = Inr new)"
proof (cases r)
  case (Inl e)
  then show ?thesis using failed_delivery_keeps [of sha256 sink a fs e fs'] assms by simp
next
  case (Inr u)
  then have run: "deliver_alert sha256 sink a fs = (Inr (), fs')" using assms(1) by simp
  obtain old where d: "listDelivered sha256 sink fs = Inr old" "listDelivered sha256 sink fs' = Inr (with_delivery a old)"
    "\<And>b. b \<in> set old \<Longrightarrow> al_id b = al_id a \<Longrightarrow> equivalentCriticalAlert b a" "secured fs'"
    using delivered [OF run assms(2,3)] by metis
  have "list_ex (\<lambda>b. al_id b = al_id a \<and> equivalentCriticalAlert b a) (with_delivery a old)"
    using d(3) by (auto simp: with_delivery_def list_ex_iff)
  then show ?thesis
    using Inr d(1,2) listDelivered_distinct [OF d(2)] delivered_again [OF d(2) _ d(4) assms(3)]
    by (auto simp: with_delivery_def)
qed

end
