(* ===== verification/Durable_Checkpoints.thy ===== *)
theory Durable_Checkpoints
  imports Alert_Journal Checkpoints
begin

text \<open>
  The durable store behind the interface of an indexer, and the properties of the snapshot file: it keeps
  the store contract, so every schedule of the indexer on it keeps the checkpoints certified; the durable
  cursor never moves back; and one writer at a time holds the lease.
\<close>

section \<open>The interface\<close>

definition returned :: "('s, 'a) io \<Rightarrow> 's \<Rightarrow> ('a \<times> 's) result" where
  "returned m s = (case m s of (Inl e, _) \<Rightarrow> Inl e | (Inr x, s') \<Rightarrow> Inr (x, s'))"

definition returned_state :: "('s, unit) io \<Rightarrow> 's \<Rightarrow> 's result" where
  "returned_state m s = (case m s of (Inl e, _) \<Rightarrow> Inl e | (Inr _, s') \<Rightarrow> Inr s')"

definition file_ops :: "(string \<Rightarrow> string) \<Rightarrow> file_store_config \<Rightarrow> file_store store_ops" where
  "file_ops sha256 cfg = \<lparr>so_permitsImplicitWriterLease = False,
     so_acquire = returned (file_acquire cfg), so_release = file_release cfg,
     so_loadLatestSnapshot = file_loadLatestSnapshot sha256 cfg,
     so_saveSnapshot = (\<lambda>s lease base. returned_state (file_saveSnapshot sha256 cfg s lease base)),
     so_appendAlerts = (\<lambda>alerts lease. returned_state (file_appendAlerts sha256 cfg alerts lease)),
     so_listAlerts = file_listAlerts sha256 cfg\<rparr>"

lemma returned_Inr [result_simps]: "returned m s = Inr (x, s') \<longleftrightarrow> m s = (Inr x, s')"
  by (auto simp: returned_def split: prod.splits sum.splits)

lemma returned_state_Inr [result_simps]: "returned_state m s = Inr s' \<longleftrightarrow> m s = (Inr (), s')"
  by (auto simp: returned_state_def split: prod.splits sum.splits)

definition file_ok :: "file_store \<Rightarrow> bool" where
  "file_ok st = secured (fi_files st)"

lemma file_ops_simps [simp]:
  "so_acquire (file_ops sha256 cfg) = returned (file_acquire cfg)"
  "so_release (file_ops sha256 cfg) = file_release cfg"
  "so_loadLatestSnapshot (file_ops sha256 cfg) = file_loadLatestSnapshot sha256 cfg"
  "so_saveSnapshot (file_ops sha256 cfg) s lease base = returned_state (file_saveSnapshot sha256 cfg s lease base)"
  "so_appendAlerts (file_ops sha256 cfg) alerts lease = returned_state (file_appendAlerts sha256 cfg alerts lease)"
  by (simp_all add: file_ops_def)

text \<open>An append of nothing leaves the state alone.\<close>

lemma append_keeps_snapshot:
  assumes "file_appendAlerts sha256 cfg alerts lease st = (Inr (), st')" "secured (fi_files st)"
  shows "secured (fi_files st')" "same_snapshot cfg st st'"
  using appended_keeps [OF assms] by simp_all

interpretation durable: indexer_store sha256 "file_ops sha256 cfg" file_ok for sha256 cfg
proof unfold_locales
  fix st st' :: file_store and lease and alerts and s and base
  show "file_ok st'" if "file_ok st" "so_acquire (file_ops sha256 cfg) st = Inr (lease, st')"
    using that acquire_spec(1) by (auto simp: file_ok_def result_simps)
  show "file_ok (so_release (file_ops sha256 cfg) st)" if "file_ok st"
    using that by (simp add: file_ok_def release_spec)
  show "file_ok st'" if "file_ok st" "so_appendAlerts (file_ops sha256 cfg) alerts lease st = Inr st'"
    using that append_keeps_snapshot(1) by (auto simp: file_ok_def result_simps)
  show "file_ok st'" if "file_ok st" "so_saveSnapshot (file_ops sha256 cfg) s lease base st = Inr st'"
    using that saved by (auto simp: file_ok_def result_simps)
  show "so_loadLatestSnapshot (file_ops sha256 cfg) st' = so_loadLatestSnapshot (file_ops sha256 cfg) st"
    if "file_ok st" "so_acquire (file_ops sha256 cfg) st = Inr (lease, st')"
    using that acquire_spec(2) by (auto simp: file_ok_def result_simps same_snapshot_loads)
  show "so_loadLatestSnapshot (file_ops sha256 cfg) (so_release (file_ops sha256 cfg) st) = so_loadLatestSnapshot (file_ops sha256 cfg) st"
    if "file_ok st"
    by (simp add: same_snapshot_loads [OF release_spec(2)])
  show "so_loadLatestSnapshot (file_ops sha256 cfg) st' = so_loadLatestSnapshot (file_ops sha256 cfg) st"
    if "file_ok st" "so_appendAlerts (file_ops sha256 cfg) alerts lease st = Inr st'"
    using that append_keeps_snapshot(2) by (auto simp: file_ok_def result_simps same_snapshot_loads)
  show "so_loadLatestSnapshot (file_ops sha256 cfg) st' = Inr (Some s)"
    if "file_ok st" "so_saveSnapshot (file_ops sha256 cfg) s lease base st = Inr st'" "hex_digest sha256"
      "decodeSnapshot sha256 (encodeSnapshot s) = Inr s"
    using that saved by (simp add: file_ok_def result_simps) (metis Inr_inject)
  show "\<exists>latest. so_loadLatestSnapshot (file_ops sha256 cfg) st = Inr latest \<and> map_option sn_id latest = base"
    if "file_ok st" "so_saveSnapshot (file_ops sha256 cfg) s lease base st = Inr st'"
    using that saved by (simp add: file_ok_def result_simps) metis
qed

section \<open>Checkpoints in the file\<close>

text \<open>
  C37. Durable checkpoints are trustworthy under every schedule. Start an indexer on a durable store
  whose directory others cannot enter and that holds no snapshot or a trusted one, and run any number of
  methods and worker cycles, interleaved in any way, with any events, chain views and disk failures.
  Whatever snapshot can be loaded from the file at any moment was taken of a projection that replay
  reached and that a reconciliation found in exact agreement with the chain at the snapshot's cursor.
\<close>

theorem durable_checkpoints_are_certified:
  assumes "hex_digest sha256" "secured (fi_files store)"
    and "\<forall>s. file_loadLatestSnapshot sha256 cfg store = Inr (Some s) \<longrightarrow> trusted_snapshot sha256 s"
    and "interleaved (range (call_proc sha256 (file_ops sha256 cfg))) (EventIndexer store) w ps"
    and "file_loadLatestSnapshot sha256 cfg (ei_store w) = Inr (Some s)"
  shows "reachable (sn_projection s) \<and> decodeSnapshot sha256 (encodeSnapshot s) = Inr s
    \<and> (\<exists>c now obs rep. sn_cursor s = Some c \<and> reconcile now (sn_projection s) obs (Some c) = Inr rep \<and> rp_reconciled rep
        \<and> ob_chainId obs = CEDRA_TESTNET_CHAIN_ID \<and> ob_ledgerVersion obs = cur_ledgerVersion c
        \<and> chain_agrees (sn_projection s) obs \<and> authoritiesComplete (sn_projection s))"
proof -
  have "indexer_inv sha256 (file_ops sha256 cfg) file_ok w"
    using durable.schedules_keep_trust [OF assms(1) _ _ assms(4)] assms(2,3) by (simp add: file_ok_def)
  then have "trusted_snapshot sha256 s" using assms(5) by (simp add: indexer_inv_def)
  then show ?thesis using assms(1) by (rule trusted_means)
qed

lemma compareSnapshotCursor_zero: "compareSnapshotCursor a b = 0 \<longleftrightarrow> a = b"
  by (cases a; cases b) (auto simp: compareSnapshotCursor_def)

lemma monotone_snapshot:
  assumes "assertMonotonicSnapshot sha256 e s = Inr ()"
  shows "0 \<le> compareSnapshotCursor (sn_cursor s) (sn_cursor e)
    \<and> (sn_cursor s = sn_cursor e \<longrightarrow> snapshotStateDigest sha256 s = snapshotStateDigest sha256 e)"
  using assms
  by (auto simp: assertMonotonicSnapshot_def Let_def result_simps compareSnapshotCursor_zero split: if_splits)

text \<open>
  C38. The durable cursor never moves back. A save succeeds only over the expected base; then the
  snapshot loaded next is the one given, as its text reads, its cursor is at or after the cursor of the
  base, at the same cursor its state has the same digest, and the alert journal is untouched. A save
  that is refused or fails leaves the snapshot and the journal as they were.
\<close>

theorem durable_cursor_never_moves_back:
  assumes "file_saveSnapshot sha256 cfg s lease base st = (r, st')" "secured (fi_files st)" "hex_digest sha256"
  shows "(case r of
      Inl e \<Rightarrow> file_loadLatestSnapshot sha256 cfg st' = file_loadLatestSnapshot sha256 cfg st
    | Inr u \<Rightarrow> \<exists>existing validated. file_loadLatestSnapshot sha256 cfg st = Inr existing \<and> map_option sn_id existing = base
        \<and> decodeSnapshot sha256 (encodeSnapshot s) = Inr validated
        \<and> file_loadLatestSnapshot sha256 cfg st' = Inr (Some validated)
        \<and> (\<forall>e. existing = Some e \<longrightarrow> 0 \<le> compareSnapshotCursor (sn_cursor validated) (sn_cursor e)
            \<and> (sn_cursor validated = sn_cursor e \<longrightarrow> snapshotStateDigest sha256 validated = snapshotStateDigest sha256 e)))
    \<and> file_listAlerts sha256 cfg st' = file_listAlerts sha256 cfg st"
proof (cases r)
  case (Inl e)
  then show ?thesis using failed_save_keeps [of sha256 cfg s lease base st e st'] assms
    by (simp add: same_journal_lists same_snapshot_loads)
next
  case (Inr u)
  then have run: "file_saveSnapshot sha256 cfg s lease base st = (Inr (), st')" using assms(1) by simp
  obtain existing validated where v: "file_loadLatestSnapshot sha256 cfg st = Inr existing" "map_option sn_id existing = base"
    "decodeSnapshot sha256 (encodeSnapshot s) = Inr validated"
    "\<And>e. existing = Some e \<Longrightarrow> assertMonotonicSnapshot sha256 e validated = Inr ()"
    "file_loadLatestSnapshot sha256 cfg st' = Inr (Some validated)" "same_journal cfg st st'"
    using saved [OF run assms(2)] assms(3) by metis
  then show ?thesis using Inr monotone_snapshot same_journal_lists [OF v(6)] by auto
qed

section \<open>One writer\<close>

text \<open>What happens to the lock file of the lease while other files are written.\<close>

lemma validate_entry: "validateSecureDirectory d True fs = (r, fs') \<Longrightarrow> fs_entry_at fs' = fs_entry_at fs"
  by (cases fs) (auto simp: file_ops)

lemma put_entry: "q \<noteq> path \<Longrightarrow> fs_entry_at (fs_put q e fs) path = fs_entry_at fs path"
  by (cases fs) (simp_all add: fs_entry_at_def fs_put_def)

lemma write_entry: "writeFileAtomically h q text fs = (r, fs') \<Longrightarrow> q \<noteq> path \<Longrightarrow> fs_entry_at fs' path = fs_entry_at fs path"
  by (auto simp: writeFileAtomically_def io_bind_def put_entry dest: validate_entry split: prod.splits sum.splits option.splits if_splits)

lemma lock_entry: "takeFileLock h q fs = (r, fs') \<Longrightarrow> q \<noteq> path \<Longrightarrow> fs_entry_at fs' path = fs_entry_at fs path"
  by (auto simp: takeFileLock_def io_bind_def put_entry dest: validate_entry split: prod.splits sum.splits option.splits if_splits)

lemma locked_entry:
  assumes "withExclusiveFileLock h q operation fs = (r, fs')" "q \<noteq> path"
    and "\<And>fs1 fs2 r. operation fs1 = (r, fs2) \<Longrightarrow> fs_entry_at fs2 path = fs_entry_at fs1 path"
  shows "fs_entry_at fs' path = fs_entry_at fs path"
  using assms(1) lock_entry [OF _ assms(2)] assms(2) assms(3)
  by (auto simp: withExclusiveFileLock_def io_bind_def dropFileLock_def put_entry split: prod.splits sum.splits)

lemma save_entry:
  assumes "file_saveSnapshot sha256 cfg s lease base st = (r, st')"
  shows "fs_entry_at (fi_files st') (writerLeasePath cfg) = fs_entry_at (fi_files st) (writerLeasePath cfg)"
proof (cases "fi_files st' = fi_files st")
  case False
  then obtain validated encoded r' where "withExclusiveFileLock (fc_host cfg) (snapshotPath cfg @ ''.lock'')
      (replaceSnapshot sha256 cfg (file_assertActiveLease lease st) validated encoded base) (fi_files st) = (r', fi_files st')"
    using assms by (auto simp: file_saveSnapshot_def trackLeaseMutation_def saveSnapshotUnderLease_def on_files_def
      split: sum.splits prod.splits)
  then show ?thesis
    by (rule locked_entry) (auto simp: replaceSnapshot_def write_entry split: sum.splits)
qed simp

lemma append_entry:
  assumes "file_appendAlerts sha256 cfg alerts lease st = (r, st')"
  shows "fs_entry_at (fi_files st') (writerLeasePath cfg) = fs_entry_at (fi_files st) (writerLeasePath cfg)"
proof (cases "fi_files st' = fi_files st")
  case False
  then obtain incoming r' where "withExclusiveFileLock (fc_host cfg) (alertsPath cfg @ ''.lock'')
      (extendJournal sha256 cfg (file_assertActiveLease lease st) incoming) (fi_files st) = (r', fi_files st')"
    using assms by (auto simp: file_appendAlerts_def trackLeaseMutation_def appendAlertsUnderLease_def on_files_def
      split: sum.splits prod.splits if_splits)
  then show ?thesis
    by (rule locked_entry) (auto simp: extendJournal_def write_entry split: sum.splits)
qed simp

text \<open>The mutations of a store whose writer holds the lease.\<close>

inductive lease_step :: "(string \<Rightarrow> string) \<Rightarrow> file_store_config \<Rightarrow> file_store \<Rightarrow> file_store \<Rightarrow> bool"
  for sha256 cfg where
  save_step: "file_saveSnapshot sha256 cfg s lease base st = (r, st') \<Longrightarrow> lease_step sha256 cfg st st'"
| append_step: "file_appendAlerts sha256 cfg alerts lease st = (r, st') \<Longrightarrow> lease_step sha256 cfg st st'"

lemma mutation_lease:
  "file_saveSnapshot sha256 cfg s lease base st = (r, st') \<Longrightarrow> fi_activeLease st' = fi_activeLease st"
  "file_appendAlerts sha256 cfg alerts lease st = (r, st') \<Longrightarrow> fi_activeLease st' = fi_activeLease st"
  by (auto simp: file_saveSnapshot_def file_appendAlerts_def trackLeaseMutation_def saveSnapshotUnderLease_def
    appendAlertsUnderLease_def on_files_def split: sum.splits prod.splits if_splits)

lemma steps_hold:
  assumes "(lease_step sha256 cfg)\<^sup>*\<^sup>* held st"
  shows "fs_entry_at (fi_files st) (writerLeasePath cfg) = fs_entry_at (fi_files held) (writerLeasePath cfg)
    \<and> fi_activeLease st = fi_activeLease held"
  using assms
proof (induction rule: rtranclp_induct)
  case (step t u)
  from step(2) show ?case
    by cases (use step.IH save_entry append_entry mutation_lease in \<open>metis+\<close>)
qed simp

lemma locked_out:
  assumes "fs_entry_at (fi_files st) (writerLeasePath cfg) \<noteq> None"
  shows "fst (file_acquire cfg st) = Inl (ConcurrentDurableWriterError (writerLeasePath cfg))"
proof -
  obtain p es where "fi_files st = Directory p es" "es (writerLeasePath cfg) \<noteq> None"
    using assms by (cases "fi_files st") (auto simp: fs_entry_at_def)
  then show ?thesis
    by (simp add: file_acquire_def takeFileLock_def io_bind_def validateSecureDirectory_def fs_entry_at_def)
qed

text \<open>
  C40. There is one writer at a time. From the moment a store has issued a lease until it is released,
  whatever saves and appends are made meanwhile, every store instance on the same directory is refused
  the lease with a \<open>ConcurrentDurableWriterError\<close>, and every mutation through another lease is refused
  with the state unchanged; after the release the lease no longer writes, and the lock is free again.
\<close>

theorem one_writer_at_a_time:
  assumes "file_acquire cfg st0 = (Inr lease, held)" "secured (fi_files st0)" "(lease_step sha256 cfg)\<^sup>*\<^sup>* held st"
  shows "(\<forall>other. fi_files other = fi_files st \<longrightarrow>
      fst (file_acquire cfg other) = Inl (ConcurrentDurableWriterError (writerLeasePath cfg)))
    \<and> (\<forall>l. l \<noteq> lease \<longrightarrow> file_saveSnapshot sha256 cfg s l base st = (Inl InvalidIndexerWriterLeaseError, st)
        \<and> file_appendAlerts sha256 cfg alerts l st = (Inl InvalidIndexerWriterLeaseError, st))
    \<and> (\<forall>l. fst (file_saveSnapshot sha256 cfg s l base (file_release cfg st)) = Inl InvalidIndexerWriterLeaseError
        \<and> fst (file_appendAlerts sha256 cfg alerts l (file_release cfg st)) = Inl InvalidIndexerWriterLeaseError)
    \<and> fs_entry_at (fi_files (file_release cfg st)) (writerLeasePath cfg) = None"
proof -
  have "fi_activeLease held = Some lease" "fs_entry_at (fi_files held) (writerLeasePath cfg) \<noteq> None"
    using acquire_spec(4) [OF assms(1,2)] by auto
  with steps_hold [OF assms(3)] have st: "fi_activeLease st = Some lease" "fs_entry_at (fi_files st) (writerLeasePath cfg) \<noteq> None"
    by simp_all
  have "fst (file_acquire cfg other) = Inl (ConcurrentDurableWriterError (writerLeasePath cfg))"
    if "fi_files other = fi_files st" for other
    using locked_out [of other cfg] st(2) that by simp
  with st(1) show ?thesis
    by (simp add: file_saveSnapshot_def file_appendAlerts_def file_assertActiveLease_def file_release_def drop_spec)
qed

end
