(* ===== verification/Durable_Witnesses.thy ===== *)
theory Durable_Witnesses
  imports Alert_Sink Durable_Checkpoints Checkpoint_Witnesses
begin

text \<open>
  The durable store on a new directory: a lease, the checkpoint of the live scenario, one alert. The size
  of a file text is bounded by the tree it is written from, so that no long text is evaluated.
\<close>

section \<open>Bounds on the length of a text\<close>

lemma utf8_length_simps [simp]:
  "utf8_length [] = 0"
  "utf8_length (c # s) = (if (of_char c :: nat) < 128 then 1 else 2) + utf8_length s"
  "utf8_length (s @ t) = utf8_length s + utf8_length t"
  by (simp_all add: utf8_length_def)

lemma utf8_length_le: "utf8_length s \<le> 2 * length s"
  by (induction s) auto

lemma length_le_utf8: "length s \<le> utf8_length s"
  by (induction s) auto

lemma length_escape: "length (concat (map escape_char s)) \<le> 6 * length s"
  by (induction s) (auto simp: escape_char_def)

lemma utf8_quote: "utf8_length (quote s) \<le> 4 + 12 * length s"
  using utf8_length_le [of "quote s"] length_escape [of s] by (simp add: quote_def)

lemma utf8_int_str:
  assumes "\<bar>n\<bar> < 10 ^ 78"
  shows "length (int_str n) \<le> 79"
proof -
  have digits: "length (nat_str k) \<le> 78" if "k < 10 ^ 78" for k using length_nat_str_le [of k 77] that by simp
  have "nat n < 10 ^ 78" "nat (- n) < 10 ^ 78" using assms by simp_all
  from digits [OF this(1)] digits [OF this(2)] show ?thesis by (simp add: int_str_def)
qed

text \<open>A bound that is computed on the tree, with integers below \<open>10 ^ 78\<close>.\<close>

fun slen :: "string \<Rightarrow> int" where
  "slen [] = 0"
| "slen (c # s) = 1 + slen s"

lemma slen_length: "slen s = int (length s)"
  by (induction s) simp_all

fun text_bound :: "js_val \<Rightarrow> int"
  and elems_bound :: "js_val list \<Rightarrow> int"
  and members_bound :: "(string \<times> js_val) list \<Rightarrow> int" where
  "text_bound JNull = 8"
| "text_bound (JBool b) = 10"
| "text_bound (JNum n) = (if \<bar>n\<bar> < 10 ^ 78 then 158 else 2 * slen (int_str n))"
| "text_bound (JBig n) = (if \<bar>n\<bar> < 10 ^ 78 then 1060 else 112 + 12 * slen (int_str n))"
| "text_bound (JStr s) = 4 + 12 * slen s"
| "text_bound (JArr vs) = 2 + elems_bound vs"
| "text_bound (JObj ms) = 2 + members_bound ms"
| "elems_bound [] = 0"
| "elems_bound (v # vs) = 1 + text_bound v + elems_bound vs"
| "members_bound [] = 0"
| "members_bound ((k, v) # ms) = 6 + 12 * slen k + text_bound v + members_bound ms"


lemma utf8_text_bound:
  "int (utf8_length (encodeBigInts v)) \<le> text_bound v"
  "int (utf8_length (encode_elems vs)) \<le> elems_bound vs"
  "int (utf8_length (encode_members ms)) \<le> members_bound ms"
proof (induction v and vs and ms rule: text_bound_elems_bound_members_bound.induct)
  case (3 n)
  then show ?case using utf8_length_le [of "int_str n"] utf8_int_str [of n] by (auto simp: slen_length)
next
  case (4 n)
  then show ?case using utf8_quote [of "int_str n"] utf8_quote [of bigint_key] utf8_int_str [of n]
    by (auto simp: slen_length bigint_key_def)
next
  case (5 s)
  then show ?case using utf8_quote [of s] by (simp add: slen_length)
next
  case (9 v vs)
  then show ?case by (auto simp: encode_elems_Cons)
next
  case (11 k v ms)
  then show ?case using utf8_quote [of k] by (auto simp: encode_members_Cons slen_length)
qed (auto simp: bool_str_def)

lemma envelope_bound:
  assumes "slen m = 64" "slen d = 64" "key \<in> {''snapshot'', ''alerts''}"
  shows "int (utf8_length (encodeBigInts (envelope_tree m d key p) @ newline)) \<le> 2600 + int (utf8_length (encodeBigInts p))"
proof -
  have "int (utf8_length (quote m)) \<le> 4 + 12 * slen m" "int (utf8_length (quote d)) \<le> 4 + 12 * slen d"
    using utf8_quote [of m] utf8_quote [of d] by (simp_all add: slen_length)
  moreover have "utf8_length (quote ''schemaVersion'') \<le> 160" "utf8_length (quote ''manifestSha256'') \<le> 172"
    "utf8_length (quote ''payloadSha256'') \<le> 160" "utf8_length (quote key) \<le> 100" "utf8_length (int_str 1) \<le> 10"
    using utf8_quote [of "''schemaVersion''"] utf8_quote [of "''manifestSha256''"] utf8_quote [of "''payloadSha256''"]
      utf8_quote [of key] assms(3) by (auto simp: int_str_def nat_str.simps [of "Suc 0"])
  ultimately show ?thesis using assms(1,2) by (simp add: envelope_tree_def newline_def)
qed

section \<open>A new directory and a lease\<close>

definition sample_config :: file_store_config where
  "sample_config = \<lparr>fc_host = \<lparr>ho_directory = ''/srv/indexer'', ho_fault = (\<lambda>_ _. None), ho_lockNote = []\<rparr>,
     fc_manifestSha256 = replicate 64 (CHR ''0'')\<rparr>"

definition new_store :: file_store where
  "new_store = \<lparr>fi_files = Absent, fi_activeLease = None, fi_leaseMutationFailures = [], fi_issuedLeases = 0\<rparr>"

definition leased_store :: file_store where
  "leased_store = \<lparr>fi_files = Directory True ((\<lambda>_. None)(writerLeasePath sample_config := Some (Regular True []))),
     fi_activeLease = Some 0, fi_leaseMutationFailures = [], fi_issuedLeases = 1\<rparr>"

lemma sample_store: "FileIndexerStore (fc_host sample_config) (replicate 64 (CHR ''0'')) Absent = Inr (sample_config, new_store)"
  by (simp add: FileIndexerStore_def assertSha256Digest_def sample_config_def new_store_def list_all_iff is_lower_hex_def is_digit_def)

lemma sample_lease: "file_acquire sample_config new_store = (Inr 0, leased_store)"
  by (simp add: file_acquire_def takeFileLock_def io_bind_def validateSecureDirectory_def fs_entry_at_def fs_put_def
    sample_config_def new_store_def leased_store_def Let_def writerLeasePath_def)

lemma stores_secured: "secured (fi_files new_store)" "secured (fi_files leased_store)"
  by (simp_all add: new_store_def leased_store_def secured_def)

theorem one_writer_at_a_time_witness:
  "fst (file_acquire sample_config (new_store\<lparr>fi_files := fi_files leased_store\<rparr>)) =
     Inl (ConcurrentDurableWriterError ''/srv/indexer/indexer-writer.lock'')
   \<and> fst (file_appendAlerts zero_digest sample_config [] 0 (file_release sample_config leased_store)) = Inl InvalidIndexerWriterLeaseError"
  using one_writer_at_a_time [OF sample_lease stores_secured(1) rtranclp.rtrancl_refl, of zero_digest live_snapshot None "[]"]
  by (simp add: writerLeasePath_def sample_config_def)

section \<open>The live checkpoint on disk\<close>

lemma live_text_bound: "utf8_length (encodeSnapshot live_snapshot) \<le> 1000000"
proof -
  have "text_bound (serialise_snapshot live_snapshot) \<le> 1000000" by code_simp
  then show ?thesis using utf8_text_bound(1) [of "serialise_snapshot live_snapshot"] by (simp add: encodeSnapshot_def)
qed

lemma zero_digest_len: "slen (zero_digest x) = 64"
  by (simp add: slen_length zero_digest_def)

lemma manifest_len: "slen (fc_manifestSha256 sample_config) = 64"
  by (simp add: slen_length sample_config_def)

lemma decodes_live: "decodeSnapshot zero_digest (encodeSnapshot live_snapshot) = Inr live_snapshot"
  by (rule taken_snapshot_decodes [OF take_live keyed_live hex_zero_digest])

lemma live_file_text: "\<exists>encoded. snapshotFileText zero_digest sample_config live_snapshot None = Inr (live_snapshot, encoded)"
proof -
  let ?p = "encodeSnapshot live_snapshot"
  let ?e = "encodeBigInts (envelope_tree (fc_manifestSha256 sample_config) (zero_digest ?p) ''snapshot'' (JStr ?p)) @ newline"
  have "length ?p \<le> 1000000" using live_text_bound length_le_utf8 [of ?p] by simp
  then have "int (utf8_length (encodeBigInts (JStr ?p))) \<le> 12000004" using utf8_quote [of ?p] by simp
  then have "int (utf8_length ?e) \<le> 12002604"
    using envelope_bound [OF manifest_len zero_digest_len, of "''snapshot''" ?p "JStr ?p"] by simp
  then show ?thesis by (simp add: snapshotFileText_def decodes_live Let_def MAX_SNAPSHOT_BYTES_def)
qed

lemma locked_write:
  assumes "es lockPath = None" "ho_fault h = (\<lambda>_ _. None)"
    and "operation (Directory True (es(lockPath := Some (Regular True (ho_lockNote h))))) = (Inr (), fs)"
  shows "withExclusiveFileLock h lockPath operation (Directory True es) = (Inr (), dropFileLock lockPath fs)"
  using assms by (simp add: withExclusiveFileLock_def takeFileLock_def io_bind_def validateSecureDirectory_def
    fs_entry_at_def fs_put_def)

abbreviation leased_entries :: "string \<Rightarrow> fs_entry option" where
  "leased_entries \<equiv> (\<lambda>_. None)(writerLeasePath sample_config := Some (Regular True []))"

lemma leased_store_facts:
  "fi_files leased_store = Directory True leased_entries" "file_assertActiveLease 0 leased_store = Inr ()"
  by (simp_all add: leased_store_def file_assertActiveLease_def)

lemma sample_locked_write:
  assumes "leased_entries lockPath = None"
    and "\<exists>fs. operation (Directory True (leased_entries(lockPath := Some (Regular True [])))) = (Inr (), fs)"
  shows "\<exists>fs. withExclusiveFileLock (fc_host sample_config) lockPath operation (Directory True leased_entries) = (Inr (), fs)"
proof -
  obtain fs where "operation (Directory True (leased_entries(lockPath := Some (Regular True [])))) = (Inr (), fs)"
    using assms(2) ..
  moreover have "ho_fault (fc_host sample_config) = (\<lambda>_ _. None)" "ho_lockNote (fc_host sample_config) = []"
    by (simp_all add: sample_config_def)
  ultimately show ?thesis using locked_write [of leased_entries lockPath "fc_host sample_config" operation fs] assms(1) by auto
qed

lemma sample_write:
  "es path = None \<Longrightarrow> \<exists>fs. writeFileAtomically (fc_host sample_config) path text (Directory True es) = (Inr (), fs)"
  by (simp add: writeFileAtomically_def io_bind_def file_ops) (simp add: sample_config_def)

lemma live_save: "\<exists>st'. file_saveSnapshot zero_digest sample_config live_snapshot 0 None leased_store = (Inr (), st')"
proof -
  obtain encoded where enc: "snapshotFileText zero_digest sample_config live_snapshot None = Inr (live_snapshot, encoded)"
    using live_file_text ..
  let ?lock = "snapshotPath sample_config @ ''.lock''"
  let ?op = "replaceSnapshot zero_digest sample_config (Inr ()) live_snapshot encoded None"
  have "loadSnapshotFile zero_digest sample_config (Directory True (leased_entries(?lock := Some (Regular True [])))) = Inr None"
    by (simp add: loadSnapshotFile_def file_ops)
  then have "\<exists>fs. ?op (Directory True (leased_entries(?lock := Some (Regular True [])))) = (Inr (), fs)"
    by (simp add: replaceSnapshot_def sample_write)
  from sample_locked_write [of ?lock ?op, OF _ this] obtain fs
    where "withExclusiveFileLock (fc_host sample_config) ?lock ?op (Directory True leased_entries) = (Inr (), fs)" by auto
  then have "saveSnapshotUnderLease zero_digest sample_config live_snapshot 0 None leased_store = (Inr (), leased_store\<lparr>fi_files := fs\<rparr>)"
    by (simp add: saveSnapshotUnderLease_def enc on_files_def leased_store_facts)
  then show ?thesis by (simp add: file_saveSnapshot_def leased_store_facts trackLeaseMutation_def)
qed

theorem durable_cursor_never_moves_back_witness:
  "\<exists>st'. file_saveSnapshot zero_digest sample_config live_snapshot 0 None leased_store = (Inr (), st')
     \<and> file_loadLatestSnapshot zero_digest sample_config st' = Inr (Some live_snapshot)"
proof -
  obtain st' where "file_saveSnapshot zero_digest sample_config live_snapshot 0 None leased_store = (Inr (), st')"
    using live_save ..
  with durable_cursor_never_moves_back [OF this stores_secured(2) hex_zero_digest] decodes_live show ?thesis by auto
qed

lemma live_trusted: "trusted_snapshot zero_digest live_snapshot"
  unfolding trusted_snapshot_def certified_def
  using take_live reachable_live reconcile_live live_ready live_source_facts(3)
  by (intro exI [of _ live_cursor] exI [of _ 1700000000000] conjI exI [of _ 0] exI [of _ chain] exI [of _ clean_report])
    (simp_all add: live_snapshot_def clean_report_def CEDRA_TESTNET_CHAIN_ID_def)

theorem durable_checkpoints_are_certified_witness:
  "\<exists>disk. file_loadLatestSnapshot zero_digest sample_config disk = Inr (Some live_snapshot)
     \<and> (\<exists>now obs rep. reconcile now live obs (Some live_cursor) = Inr rep \<and> rp_reconciled rep \<and> chain_agrees live obs)"
proof -
  obtain disk where save: "file_saveSnapshot zero_digest sample_config live_snapshot 0 None leased_store = (Inr (), disk)"
    using live_save ..
  from saved [OF this stores_secured(2)] have disk: "secured (fi_files disk)"
      "file_loadLatestSnapshot zero_digest sample_config disk = Inr (Some live_snapshot)"
    using hex_zero_digest decodes_live by auto
  let ?restore = "call_proc zero_digest (file_ops zero_digest sample_config) Restore_latest"
  have restored: "ei_store (snd (run ?restore (EventIndexer disk))) = disk"
    using disk(2) decodes_live
    by (simp add: ignored_def run_pbind restoreLatestSnapshot_def withStateOwner_def run_segment run_pfinally EventIndexer_def
      restoreLatestSnapshotOwned_def assertStateOwner_def invalidateReconciliation_def adoptSnapshot_def setProjection_def
      releaseStateOwner_def Let_def)
  from run_is_schedule [OF interleaved.start, of ?restore]
  obtain ps where ps: "interleaved (range (call_proc zero_digest (file_ops zero_digest sample_config))) (EventIndexer disk)
      (snd (run ?restore (EventIndexer disk))) ps" by (metis rangeI)
  have "\<forall>s. file_loadLatestSnapshot zero_digest sample_config disk = Inr (Some s) \<longrightarrow> trusted_snapshot zero_digest s"
    using disk(2) live_trusted by simp
  from durable_checkpoints_are_certified [OF hex_zero_digest disk(1) this ps, of live_snapshot] restored disk(2)
  have "\<exists>now obs rep. reconcile now live obs (Some live_cursor) = Inr rep \<and> rp_reconciled rep \<and> chain_agrees live obs"
    by (auto simp: live_snapshot_def)
  with disk(2) show ?thesis by blast
qed

section \<open>One alert\<close>

definition sample_alert :: critical_alert where
  "sample_alert = \<lparr>al_id = ''event:0xfeed:2:FEE_FORMULA'', al_severity = Critical, al_code = FEE_FORMULA,
     al_message = ''Fee differs.'', al_detectedAtUnixMilliseconds = 1000,
     al_cursor = Some \<lparr>cur_ledgerVersion = 7, cur_eventIndex = 2\<rparr>, al_expected = Some ''20'', al_observed = None\<rparr>"

lemma sample_persistable: "persistable sample_alert"
  by (simp add: persistable_def sample_alert_def MAX_ALERT_ID_LENGTH_def MAX_ALERT_MESSAGE_LENGTH_def
    MAX_ALERT_VALUE_LENGTH_def MAX_SAFE_INTEGER_def)

lemma sample_journal_text:
  "\<exists>encoded. journalFileText zero_digest sample_config [encodeBigintJson (alert_tree sample_alert)] = Inr encoded"
proof -
  let ?t = "encodeBigintJson (alert_tree sample_alert)"
  let ?e = "encodeBigInts (envelope_tree (fc_manifestSha256 sample_config) (zero_digest (journal_payload [?t])) ''alerts'' (JArr [JStr ?t])) @ newline"
  have "text_bound (alert_tree sample_alert) \<le> 100000" by code_simp
  then have "int (utf8_length ?t) \<le> 100000"
    using utf8_text_bound(1) [of "alert_tree sample_alert"] by (simp add: encodeBigintJson_def)
  then have "int (length ?t) \<le> 100000" using length_le_utf8 [of ?t] by linarith
  then have "text_bound (JArr [JStr ?t]) \<le> 1300000" by (simp add: slen_length)
  then have "int (utf8_length (encodeBigInts (JArr [JStr ?t]))) \<le> 1300000"
    using utf8_text_bound(1) [of "JArr [JStr ?t]"] by linarith
  then have "int (utf8_length ?e) \<le> 1302600"
    using envelope_bound [OF manifest_len zero_digest_len, of "''alerts''" "journal_payload [?t]" "JArr [JStr ?t]"] by simp
  then show ?thesis by (simp add: journalFileText_def Let_def MAX_ALERT_BYTES_def)
qed

lemma sample_append: "\<exists>st'. file_appendAlerts zero_digest sample_config [sample_alert] 0 leased_store = (Inr (), st')"
proof -
  let ?t = "encodeBigintJson (alert_tree sample_alert)"
  obtain encoded where enc: "journalFileText zero_digest sample_config [?t] = Inr encoded" using sample_journal_text ..
  let ?lock = "alertsPath sample_config @ ''.lock''"
  let ?op = "extendJournal zero_digest sample_config (Inr ()) [(sample_alert, ?t)]"
  have one: "encodeCriticalAlert sample_alert = Inr ?t" using sample_persistable by (simp add: encodeCriticalAlert_Inr)
  have "loadAlertStrings zero_digest sample_config (Directory True (leased_entries(?lock := Some (Regular True [])))) = Inr []"
    by (simp add: loadAlertStrings_def file_ops)
  then have "\<exists>fs. ?op (Directory True (leased_entries(?lock := Some (Regular True [])))) = (Inr (), fs)"
    by (simp add: extendJournal_def journal_index_def map_values_def enc sample_write)
  from sample_locked_write [of ?lock ?op, OF _ this] obtain fs
    where "withExclusiveFileLock (fc_host sample_config) ?lock ?op (Directory True leased_entries) = (Inr (), fs)" by auto
  then have "appendAlertsUnderLease zero_digest sample_config [sample_alert] 0 leased_store = (Inr (), leased_store\<lparr>fi_files := fs\<rparr>)"
    by (simp add: appendAlertsUnderLease_def one on_files_def leased_store_facts)
  then show ?thesis by (simp add: file_appendAlerts_def leased_store_facts trackLeaseMutation_def)
qed

lemma leased_store_empty: "file_listAlerts zero_digest sample_config leased_store = Inr []"
  by (simp add: file_listAlerts_def loadAlertStrings_def leased_store_facts file_ops)

theorem alert_journal_keeps_every_alert_witness:
  "\<exists>st'. file_appendAlerts zero_digest sample_config [sample_alert] 0 leased_store = (Inr (), st')
     \<and> (\<exists>new. file_listAlerts zero_digest sample_config st' = Inr new \<and> new \<noteq> [] \<and> set new \<subseteq> {sample_alert})"
proof -
  obtain st' where "file_appendAlerts zero_digest sample_config [sample_alert] 0 leased_store = (Inr (), st')"
    using sample_append ..
  with alert_journal_keeps_every_alert [OF this stores_secured(2) hex_zero_digest] leased_store_empty show ?thesis
    by fastforce
qed

section \<open>One delivery\<close>

definition sample_sink :: alert_sink where
  "sample_sink = \<lparr>as_host = fc_host sample_config, as_name = ''delivered.json'', as_manifestSha256 = replicate 64 (CHR ''0'')\<rparr>"

abbreviation open_directory :: fs_directory where
  "open_directory \<equiv> Directory True (\<lambda>_. None)"

lemma sample_delivery: "\<exists>fs. deliver_alert zero_digest sample_sink sample_alert open_directory = (Inr (), fs)"
proof -
  let ?t = "encodeBigintJson (alert_tree sample_alert)" and ?lock = "sink_path sample_sink @ ''.lock''"
  obtain encoded where enc: "deliveredFileText zero_digest sample_sink [?t] = Inr encoded"
    using sample_journal_text
    by (auto simp: journalFileText_def deliveredFileText_def MAX_ALERT_BYTES_def MAX_DELIVERED_ALERT_BYTES_def
      sample_sink_def sample_config_def Let_def split: if_splits)
  have one: "encodeCriticalAlert sample_alert = Inr ?t" using sample_persistable by (simp add: encodeCriticalAlert_Inr)
  have "listDelivered zero_digest sample_sink (Directory True ((\<lambda>_. None)(?lock := Some (Regular True [])))) = Inr []"
    by (simp add: listDelivered_def file_ops)
  then have "\<exists>fs. recordDelivery zero_digest sample_sink sample_alert ?t
      (Directory True ((\<lambda>_. None)(?lock := Some (Regular True [])))) = (Inr (), fs)"
    using sample_write [of _ "sink_path sample_sink" encoded]
    by (simp add: recordDelivery_def enc) (simp add: sample_sink_def)
  then obtain fs where "withExclusiveFileLock (as_host sample_sink) ?lock (recordDelivery zero_digest sample_sink sample_alert ?t)
      open_directory = (Inr (), fs)"
    using locked_write [of "\<lambda>_. None" ?lock "as_host sample_sink" "recordDelivery zero_digest sample_sink sample_alert ?t"]
    by (auto simp: sample_sink_def sample_config_def)
  then show ?thesis by (simp add: deliver_alert_def one)
qed

theorem alert_is_delivered_once_witness:
  "\<exists>fs. deliver_alert zero_digest sample_sink sample_alert open_directory = (Inr (), fs)
     \<and> listDelivered zero_digest sample_sink fs = Inr [sample_alert]"
proof -
  obtain fs where run: "deliver_alert zero_digest sample_sink sample_alert open_directory = (Inr (), fs)"
    using sample_delivery ..
  have "secured open_directory" "listDelivered zero_digest sample_sink open_directory = Inr []"
    by (simp_all add: secured_def listDelivered_def file_ops)
  with alert_is_delivered_once [OF run _ hex_zero_digest] run show ?thesis by auto
qed

end
