(* ===== verification/Sdk_Values.thy ===== *)
theory Sdk_Values
  imports Cedra_Normalizer Effects Reducer_State
begin

text \<open>
  What the protocol SDK (\<open>packages/protocol-sdk/src\<close>) shares: run-time type tests of JavaScript values,
  \<open>String(value)\<close>, account address texts and the SDK's error classes. Objects that cross the boundary of
  the SDK are trees (\<open>js_val\<close>), since the code checks them at run time; \<open>structuredClone\<close> and
  \<open>detachedDeepFreeze\<close> (\<open>immutable.ts\<close>) return the same tree.
\<close>

section \<open>Types at run time\<close>

text \<open>\<open>typeof v === "string"\<close> and so on; \<open>None\<close> is \<open>undefined\<close>.\<close>

fun is_string :: "js_val option \<Rightarrow> bool" where
  "is_string (Some (JStr s)) = True" | "is_string _ = False"

fun is_bigint :: "js_val option \<Rightarrow> bool" where
  "is_bigint (Some (JBig n)) = True" | "is_bigint _ = False"

fun is_array :: "js_val option \<Rightarrow> bool" where
  "is_array (Some (JArr vs)) = True" | "is_array _ = False"

text \<open>\<open>typeof v === "object"\<close> for a value that is not \<open>null\<close>, and the same for one that is no array.\<close>

fun is_object :: "js_val option \<Rightarrow> bool" where
  "is_object (Some (JObj ms)) = True" | "is_object (Some (JArr vs)) = True" | "is_object _ = False"

fun is_record_value :: "js_val option \<Rightarrow> bool" where
  "is_record_value (Some (JObj ms)) = True" | "is_record_value _ = False"

lemma is_string_iff: "is_string v \<longleftrightarrow> (\<exists>s. v = Some (JStr s))"
  by (cases v rule: is_string.cases) auto

lemma is_bigint_iff: "is_bigint v \<longleftrightarrow> (\<exists>n. v = Some (JBig n))"
  by (cases v rule: is_bigint.cases) auto

lemma is_array_iff: "is_array v \<longleftrightarrow> (\<exists>vs. v = Some (JArr vs))"
  by (cases v rule: is_array.cases) auto

lemma is_record_iff: "is_record_value v \<longleftrightarrow> (\<exists>ms. v = Some (JObj ms))"
  by (cases v rule: is_record_value.cases) auto

lemmas typed_iff = is_string_iff is_bigint_iff is_array_iff is_record_iff

text \<open>\<open>String(value)\<close>; the elements of an array are joined with commas, \<open>null\<close> as nothing.\<close>

fun js_String :: "js_val \<Rightarrow> string"
  and js_join :: "js_val list \<Rightarrow> string" where
  "js_String JNull = ''null''"
| "js_String (JBool b) = bool_str b"
| "js_String (JNum n) = int_str n"
| "js_String (JBig n) = int_str n"
| "js_String (JStr s) = s"
| "js_String (JArr vs) = js_join vs"
| "js_String (JObj ms) = ''[object Object]''"
| "js_join [] = ''''"
| "js_join [v] = (if v = JNull then '''' else js_String v)"
| "js_join (v # vs) = (if v = JNull then '''' else js_String v) @ '','' @ js_join vs"

section \<open>Account addresses\<close>

text \<open>The pattern \<open>0x[0-9a-fA-F]{1,64}\<close>, and the number of an address without leading zeros.\<close>

definition is_account_address :: "string \<Rightarrow> bool" where
  "is_account_address s = (take 2 s = ''0x'' \<and> drop 2 s \<noteq> [] \<and> length (drop 2 s) \<le> 64 \<and> list_all is_hex (drop 2 s))"

definition address_digits :: "string \<Rightarrow> string" where
  "address_digits s = (let d = map lower_case (dropWhile (\<lambda>c. c = CHR ''0'') (drop 2 s)) in if d = [] then ''0'' else d)"

text \<open>The package version texts \<open>testnet-vMAJOR.MINOR.PATCH\<close>.\<close>

fun split_dots :: "string \<Rightarrow> string \<Rightarrow> string list" where
  "split_dots acc [] = [rev acc]"
| "split_dots acc (c # r) = (if c = CHR ''.'' then rev acc # split_dots [] r else split_dots (c # acc) r)"

definition is_release_number :: "string \<Rightarrow> bool" where
  "is_release_number s = (s = ''0'' \<or> (s \<noteq> [] \<and> list_all is_digit s \<and> hd s \<noteq> CHR ''0''))"

definition is_package_version :: "string \<Rightarrow> bool" where
  "is_package_version s = (take 9 s = ''testnet-v'' \<and> length (split_dots [] (drop 9 s)) = 3
     \<and> list_all is_release_number (split_dots [] (drop 9 s)))"

end
