(* ===== verification/Swap_Quotes.thy ===== *)
theory Swap_Quotes
  imports Sdk_Values
begin

text \<open>
  Swap quotes (\<open>packages/protocol-sdk/src/types.ts\<close> and the first half of \<open>safe-client.ts\<close>): the run-time
  checks of amounts, deadlines and addresses, and the independent reproduction of every amount of a quote
  from the pool state it claims to be computed from.
\<close>

section \<open>Bounds and checks\<close>

definition MAX_REFLECTION_FEE_BPS :: int where "MAX_REFLECTION_FEE_BPS = 500"

definition StateChangingCallsDisabledError :: js_error where
  "StateChangingCallsDisabledError = ClassError ''StateChangingCallsDisabledError''
     (''State-changing calls are disabled. Inject an explicitly approved CedraWriteAdapter in the release ''
      @ ''application; this client never discovers a wallet or RPC writer by itself.'')"

definition MultiAgentSubmissionRequiredError :: js_error where
  "MultiAgentSubmissionRequiredError = ClassError ''MultiAgentSubmissionRequiredError''
     (''This draft requires ordered secondary signers. Use the build/simulate-only CedraReleaseClient and an ''
      @ ''independently reviewed signing ceremony; the generic writer cannot submit it.'')"

definition UnverifiedSwapQuoteError :: "string \<Rightarrow> js_error" where
  "UnverifiedSwapQuoteError detail = ClassError ''UnverifiedSwapQuoteError'' (''Swap draft refused: '' @ detail)"

definition UnverifiedSwapDraftError :: "string \<Rightarrow> js_error" where
  "UnverifiedSwapDraftError detail = ClassError ''UnverifiedSwapDraftError'' (''Swap submission refused: '' @ detail)"

definition reflectionFee :: "js_val \<Rightarrow> js_val \<Rightarrow> int result" where
  "reflectionFee grossAmount feeBps = (case (grossAmount, feeBps) of
       (JBig gross, JBig fee) \<Rightarrow>
         if gross < 0 \<or> MOVE_U64_MAX < gross \<or> fee < 0 \<or> MAX_REFLECTION_FEE_BPS < fee
         then Inl (RangeError ''gross amount must be non-negative and fee must be between 0 and 500 basis points'')
         else Inr (bigint_quot (gross * fee) BPS_DENOMINATOR)
     | _ \<Rightarrow> Inl (TypeError ''gross amount and fee must be bigint base units''))"

definition assertUnsigned :: "js_val option \<Rightarrow> int \<Rightarrow> string \<Rightarrow> unit result" where
  "assertUnsigned v maximum label = (case v of
       Some (JBig n) \<Rightarrow>
         if n < 0 \<or> maximum < n then Inl (RangeError (label @ '' must fit the on-chain unsigned integer type'')) else Inr ()
     | _ \<Rightarrow> Inl (TypeError (label @ '' must be a bigint base-unit value'')))"

definition assertPositive :: "js_val option \<Rightarrow> int \<Rightarrow> string \<Rightarrow> unit result" where
  "assertPositive v maximum label = (case v of
       Some (JBig n) \<Rightarrow>
         if n \<le> 0 \<or> maximum < n
         then Inl (RangeError (label @ '' must be positive and fit the on-chain unsigned integer type'')) else Inr ()
     | _ \<Rightarrow> Inl (TypeError (label @ '' must be a bigint base-unit value'')))"

definition assertFutureDeadline :: "js_val option \<Rightarrow> int \<Rightarrow> unit result" where
  "assertFutureDeadline deadline now =
     rbind (assertUnsigned deadline MOVE_U64_MAX ''deadline'') (\<lambda>_.
     rensure (now < big_of (the deadline)) (RangeError ''transaction deadline must be in the future''))"

definition assertNonZeroAddress :: "js_val \<Rightarrow> string \<Rightarrow> unit result" where
  "assertNonZeroAddress address label =
     rensure (is_string (Some address) \<and> is_account_address (str_of address)
         \<and> \<not> list_all (\<lambda>c. c = CHR ''0'') (drop 2 (str_of address)))
       (TypeError (label @ '' must be a non-zero Cedra account address''))"

definition assertFaucetAsset :: "js_val \<Rightarrow> unit result" where
  "assertFaucetAsset asset = rensure (asset = JStr ''tRFL'' \<or> asset = JStr ''tUSD'') (TypeError ''faucet asset must be tRFL or tUSD'')"

definition assertSwapDirection :: "js_val option \<Rightarrow> unit result" where
  "assertSwapDirection direction =
     rensure (direction = Some (JStr ''buy'') \<or> direction = Some (JStr ''sell'')) (TypeError ''swap direction must be buy or sell'')"

section \<open>Quotes\<close>

record quote_context =
  qc_chainId :: int
  qc_ledgerVersion :: int
  qc_deploymentId :: string
  qc_packageVersion :: string
  qc_inputReserve :: int
  qc_outputReserve :: int
  qc_reflectionFeeBps :: int
  qc_ammFeeBps :: int
  qc_maximumGrossSwap :: int
  qc_maximumReserveBps :: int

record swap_quote =
  sq_direction :: swap_direction
  sq_grossAmount :: int
  sq_slippageBps :: int
  sq_reflectionFee :: int
  sq_ammFee :: int
  sq_netReserveInput :: int
  sq_grossPoolOutput :: int
  sq_netUserReceipt :: int
  sq_minimumNetUserReceipt :: int
  sq_priceImpactBps :: int
  sq_deadlineUnixSeconds :: int
  sq_context :: quote_context

definition direction_str :: "swap_direction \<Rightarrow> string" where
  "direction_str d = (if d = Sell then ''sell'' else ''buy'')"

definition context_tree :: "quote_context \<Rightarrow> js_val" where
  "context_tree c = JObj [(''chainId'', JNum (qc_chainId c)), (''ledgerVersion'', JBig (qc_ledgerVersion c)),
     (''deploymentId'', JStr (qc_deploymentId c)), (''packageVersion'', JStr (qc_packageVersion c)),
     (''inputReserve'', JBig (qc_inputReserve c)), (''outputReserve'', JBig (qc_outputReserve c)),
     (''reflectionFeeBps'', JBig (qc_reflectionFeeBps c)), (''ammFeeBps'', JBig (qc_ammFeeBps c)),
     (''maximumGrossSwap'', JBig (qc_maximumGrossSwap c)), (''maximumReserveBps'', JBig (qc_maximumReserveBps c))]"

definition quote_tree :: "swap_quote \<Rightarrow> js_val" where
  "quote_tree q = JObj [(''direction'', JStr (direction_str (sq_direction q))), (''grossAmount'', JBig (sq_grossAmount q)),
     (''slippageBps'', JBig (sq_slippageBps q)), (''reflectionFee'', JBig (sq_reflectionFee q)), (''ammFee'', JBig (sq_ammFee q)),
     (''netReserveInput'', JBig (sq_netReserveInput q)), (''grossPoolOutput'', JBig (sq_grossPoolOutput q)),
     (''netUserReceipt'', JBig (sq_netUserReceipt q)), (''minimumNetUserReceipt'', JBig (sq_minimumNetUserReceipt q)),
     (''priceImpactBps'', JBig (sq_priceImpactBps q)), (''deadlineUnixSeconds'', JBig (sq_deadlineUnixSeconds q)),
     (''context'', context_tree (sq_context q))]"

text \<open>The quote a checked tree stands for.\<close>

definition context_of :: "js_val \<Rightarrow> quote_context" where
  "context_of v = \<lparr>qc_chainId = num_of (js_get v ''chainId''), qc_ledgerVersion = big_of (js_get v ''ledgerVersion''),
     qc_deploymentId = str_of (js_get v ''deploymentId''), qc_packageVersion = str_of (js_get v ''packageVersion''),
     qc_inputReserve = big_of (js_get v ''inputReserve''), qc_outputReserve = big_of (js_get v ''outputReserve''),
     qc_reflectionFeeBps = big_of (js_get v ''reflectionFeeBps''), qc_ammFeeBps = big_of (js_get v ''ammFeeBps''),
     qc_maximumGrossSwap = big_of (js_get v ''maximumGrossSwap''), qc_maximumReserveBps = big_of (js_get v ''maximumReserveBps'')\<rparr>"

definition quote_of :: "js_val \<Rightarrow> swap_quote" where
  "quote_of v = \<lparr>sq_direction = (if js_get v ''direction'' = JStr ''sell'' then Sell else Buy),
     sq_grossAmount = big_of (js_get v ''grossAmount''), sq_slippageBps = big_of (js_get v ''slippageBps''),
     sq_reflectionFee = big_of (js_get v ''reflectionFee''), sq_ammFee = big_of (js_get v ''ammFee''),
     sq_netReserveInput = big_of (js_get v ''netReserveInput''), sq_grossPoolOutput = big_of (js_get v ''grossPoolOutput''),
     sq_netUserReceipt = big_of (js_get v ''netUserReceipt''), sq_minimumNetUserReceipt = big_of (js_get v ''minimumNetUserReceipt''),
     sq_priceImpactBps = big_of (js_get v ''priceImpactBps''), sq_deadlineUnixSeconds = big_of (js_get v ''deadlineUnixSeconds''),
     sq_context = context_of (js_get v ''context'')\<rparr>"

section \<open>The arithmetic of a quote\<close>

definition expectedSellReflection :: "swap_quote \<Rightarrow> int" where
  "expectedSellReflection q = bigint_quot (sq_grossAmount q * qc_reflectionFeeBps (sq_context q)) BPS_DENOMINATOR"

definition expectedReserveInput :: "swap_quote \<Rightarrow> int" where
  "expectedReserveInput q =
     (if sq_direction q = Sell then sq_grossAmount q - expectedSellReflection q else sq_grossAmount q)"

definition invariantInput :: "swap_quote \<Rightarrow> int" where
  "invariantInput q = bigint_quot (expectedReserveInput q * (BPS_DENOMINATOR - qc_ammFeeBps (sq_context q))) BPS_DENOMINATOR"

definition expectedGrossOutput :: "swap_quote \<Rightarrow> int" where
  "expectedGrossOutput q = bigint_quot (qc_outputReserve (sq_context q) * invariantInput q)
     (qc_inputReserve (sq_context q) + invariantInput q)"

definition expectedReflectionFee :: "swap_quote \<Rightarrow> int" where
  "expectedReflectionFee q = (if sq_direction q = Sell then expectedSellReflection q
     else bigint_quot (expectedGrossOutput q * qc_reflectionFeeBps (sq_context q)) BPS_DENOMINATOR)"

definition expectedReceipt :: "swap_quote \<Rightarrow> int" where
  "expectedReceipt q = (if sq_direction q = Buy then expectedGrossOutput q - expectedReflectionFee q else expectedGrossOutput q)"

definition expectedMinimum :: "swap_quote \<Rightarrow> int" where
  "expectedMinimum q = bigint_quot (expectedReceipt q * (BPS_DENOMINATOR - sq_slippageBps q)) BPS_DENOMINATOR"

definition expectedImpact :: "swap_quote \<Rightarrow> int" where
  "expectedImpact q = bigint_quot (invariantInput q * BPS_DENOMINATOR) (qc_inputReserve (sq_context q) + invariantInput q)"

definition quote_arithmetic :: "swap_quote \<Rightarrow> bool" where
  "quote_arithmetic q = (0 < expectedReserveInput q \<and> 0 < expectedReceipt q
     \<and> sq_netReserveInput q = expectedReserveInput q \<and> sq_ammFee q = expectedReserveInput q - invariantInput q
     \<and> sq_grossPoolOutput q = expectedGrossOutput q \<and> sq_reflectionFee q = expectedReflectionFee q
     \<and> sq_netUserReceipt q = expectedReceipt q \<and> sq_minimumNetUserReceipt q = expectedMinimum q
     \<and> sq_priceImpactBps q = expectedImpact q)"

text \<open>The two halves of \<open>assertSwapQuote\<close>: the amounts of the quote, and its provenance and arithmetic.\<close>

definition assertQuoteAmounts :: "js_val \<Rightarrow> int \<Rightarrow> unit result" where
  "assertQuoteAmounts v now = rseq
     [assertSwapDirection (js_field v ''direction''),
      assertPositive (js_field v ''grossAmount'') MOVE_U64_MAX ''quote gross amount'',
      assertUnsigned (js_field v ''slippageBps'') MOVE_U64_MAX ''quote slippage'',
      assertUnsigned (js_field v ''reflectionFee'') MOVE_U64_MAX ''quote reflection fee'',
      assertUnsigned (js_field v ''ammFee'') MOVE_U64_MAX ''quote AMM fee'',
      assertPositive (js_field v ''netReserveInput'') MOVE_U64_MAX ''quote net reserve input'',
      assertPositive (js_field v ''grossPoolOutput'') MOVE_U64_MAX ''quote gross pool output'',
      assertPositive (js_field v ''netUserReceipt'') MOVE_U64_MAX ''quote net user receipt'',
      assertUnsigned (js_field v ''minimumNetUserReceipt'') MOVE_U64_MAX ''quote minimum receipt'',
      assertUnsigned (js_field v ''priceImpactBps'') MOVE_U64_MAX ''quote price impact'',
      assertUnsigned (js_field v ''deadlineUnixSeconds'') MOVE_U64_MAX ''quote deadline'',
      assertFutureDeadline (js_field v ''deadlineUnixSeconds'') now,
      rensure (big_of (js_get v ''slippageBps'') \<le> BPS_DENOMINATOR)
        (RangeError ''quote slippage cannot exceed 10,000 basis points'')]"

definition assertQuoteContext :: "js_val \<Rightarrow> unit result" where
  "assertQuoteContext context = rseq
     [rensure (js_field context ''chainId'' = Some (JNum CEDRA_TESTNET_CHAIN_ID))
        (TypeError ''swap quote provenance must be Cedra Testnet chain 2''),
      assertPositive (js_field context ''ledgerVersion'') MOVE_U64_MAX ''quote ledger version'',
      rensure (is_string (js_field context ''deploymentId'') \<and> str_of (js_get context ''deploymentId'') \<noteq> []
          \<and> length (str_of (js_get context ''deploymentId'')) \<le> 512
          \<and> is_string (js_field context ''packageVersion'') \<and> is_package_version (str_of (js_get context ''packageVersion'')))
        (TypeError ''swap quote provenance requires bounded deployment and package identities''),
      assertPositive (js_field context ''inputReserve'') MOVE_U64_MAX ''quote input reserve'',
      assertPositive (js_field context ''outputReserve'') MOVE_U64_MAX ''quote output reserve'',
      assertUnsigned (js_field context ''reflectionFeeBps'') MOVE_U64_MAX ''quote reflection fee rate'',
      assertUnsigned (js_field context ''ammFeeBps'') MOVE_U64_MAX ''quote AMM fee rate'',
      assertPositive (js_field context ''maximumGrossSwap'') MOVE_U64_MAX ''quote maximum gross swap'',
      assertPositive (js_field context ''maximumReserveBps'') MOVE_U64_MAX ''quote maximum reserve share'',
      rensure (big_of (js_get context ''reflectionFeeBps'') \<le> MAX_REFLECTION_FEE_BPS
          \<and> big_of (js_get context ''ammFeeBps'') \<le> 100 \<and> big_of (js_get context ''maximumReserveBps'') \<le> BPS_DENOMINATOR)
        (RangeError ''swap quote fee or reserve-limit provenance exceeds the contract policy'')]"

definition assertSwapQuote :: "js_val \<Rightarrow> int \<Rightarrow> unit result" where
  "assertSwapQuote v now = rseq
     [rensure (is_record_value (Some v)) (TypeError ''swap quote must be an object''),
      assertQuoteAmounts v now,
      rensure (is_record_value (js_field v ''context'')) (TypeError ''swap quote requires finalized arithmetic provenance''),
      assertQuoteContext (js_get v ''context''),
      let q = quote_of v in
      rensure (sq_grossAmount q \<le> qc_maximumGrossSwap (sq_context q)
          \<and> sq_grossAmount q * BPS_DENOMINATOR \<le> qc_inputReserve (sq_context q) * qc_maximumReserveBps (sq_context q))
        (RangeError ''swap quote exceeds the pinned gross or reserve-share limit''),
      rensure (quote_arithmetic (quote_of v))
        (RangeError ''swap quote disagrees with pinned fee, constant-product, slippage, or rounding arithmetic'')]"

section \<open>Fingerprints\<close>

text \<open>A \<open>bigint\<close> by its decimal text, in the order of the source.\<close>

definition swapQuoteFingerprint :: "js_val \<Rightarrow> string" where
  "swapQuoteFingerprint v =
     (let amount = (\<lambda>ob key. JStr (int_str (big_of (js_get ob key)))); context = js_get v ''context'' in
      encodeBigInts (JArr ([js_get v ''direction''] @ map (amount v)
          [''grossAmount'', ''slippageBps'', ''reflectionFee'', ''ammFee'', ''netReserveInput'', ''grossPoolOutput'',
           ''netUserReceipt'', ''minimumNetUserReceipt'', ''priceImpactBps'', ''deadlineUnixSeconds'']
        @ [js_get context ''chainId'', amount context ''ledgerVersion'', js_get context ''deploymentId'', js_get context ''packageVersion'']
        @ map (amount context) [''inputReserve'', ''outputReserve'', ''reflectionFeeBps'', ''ammFeeBps'',
            ''maximumGrossSwap'', ''maximumReserveBps''])))"

end
