(* ===== verification/Read_Adapter.thy ===== *)
theory Read_Adapter
  imports Swap_Quotes
begin

text \<open>
  The read adapter of a release (\<open>packages/protocol-sdk/src/finalized-read-adapter.ts\<close>): every operation
  reads one ledger header, checks the identity of the deployment at that version against the approved
  manifest, and reads all its views at that version. The chain is the injected view client: what it
  answers for the header, and for a view at a version. Views of one \<open>Promise.all\<close> are read in their order,
  so of several failures the first in the text is the one thrown. \<open>text\<close> is as in \<open>Cedra_Normalizer\<close>.
\<close>

section \<open>The view client and the manifest\<close>

record view_client =
  vc_getLedgerInfo :: "js_val result"
  vc_viewJson :: "int \<Rightarrow> string \<Rightarrow> js_val list \<Rightarrow> js_val list result"

record manifest_packages =
  mp_reflectionCore :: string
  mp_testAssets :: string
  mp_testAmm :: string

record manifest_addresses =
  mx_tokenMetadata :: string
  mx_mockUsdMetadata :: string
  mx_rewardVault :: string
  mx_distributionVault :: string
  mx_pool :: string
  mx_poolRflReserveStore :: string
  mx_poolUsdReserveStore :: string

record protocol_manifest =
  fm_networkLabel :: string
  fm_chainId :: int
  fm_deploymentId :: string
  fm_packageVersion :: string
  fm_finalizedLedgerVersion :: int
  fm_packages :: manifest_packages
  fm_addresses :: manifest_addresses

definition ManifestIdentityMismatchError :: "string \<Rightarrow> string \<Rightarrow> string \<Rightarrow> js_error" where
  "ManifestIdentityMismatchError field expected observed = ClassError ''ManifestIdentityMismatchError''
     (''Finalized deployment identity mismatch for '' @ field @ '': expected '' @ expected @ '', observed '' @ observed)"

definition MalformedMoveViewError :: "string \<Rightarrow> string \<Rightarrow> js_error" where
  "MalformedMoveViewError functionId detail = ClassError ''MalformedMoveViewError''
     (''Malformed Move view '' @ functionId @ '': '' @ detail)"

section \<open>Reading values\<close>

text \<open>The pattern \<open>0x[0-9a-fA-F]+\<close>, leading zeros away, at most 64 digits left.\<close>

definition adapter_canonicalAddress :: "js_val \<Rightarrow> string \<Rightarrow> string result" where
  "adapter_canonicalAddress v field = (case v of
       JStr s \<Rightarrow>
         if \<not> (take 2 s = ''0x'' \<and> drop 2 s \<noteq> [] \<and> list_all is_hex (drop 2 s))
         then Inl (TypeError (field @ '' must be a 0x-prefixed hexadecimal address''))
         else if 64 < length (address_digits s) then Inl (RangeError (field @ '' exceeds a 32-byte address''))
         else Inr (''0x'' @ address_digits s)
     | _ \<Rightarrow> Inl (TypeError (field @ '' must be a 0x-prefixed hexadecimal address'')))"

definition nonzeroAddress :: "string \<Rightarrow> string \<Rightarrow> string result" where
  "nonzeroAddress v field = rbind (adapter_canonicalAddress (JStr v) field) (\<lambda>canonical.
     if canonical = ''0x0'' then Inl (TypeError (field @ '' must not be the zero address'')) else Inr canonical)"

definition objectAddress :: "js_val \<Rightarrow> string \<Rightarrow> string result" where
  "objectAddress v functionId = (case v of
       JStr s \<Rightarrow> adapter_canonicalAddress v functionId
     | _ \<Rightarrow> (case js_field v ''inner'' of
         Some inner \<Rightarrow> adapter_canonicalAddress inner functionId
       | None \<Rightarrow> Inl (MalformedMoveViewError functionId ''expected an object address'')))"

text \<open>The pattern \<open>0|[1-9][0-9]*\<close>.\<close>

definition view_unsigned :: "js_val \<Rightarrow> move_bits \<Rightarrow> string \<Rightarrow> int result" where
  "view_unsigned v bits functionId =
     rbind (case v of
         JBig n \<Rightarrow> Inr n
       | JStr s \<Rightarrow> if is_release_number s then Inr (int (str_nat s))
           else Inl (MalformedMoveViewError functionId (''expected a decimal u'' @ bits_str bits))
       | JNum n \<Rightarrow> if \<bar>n\<bar> \<le> MAX_SAFE_INTEGER \<and> 0 \<le> n then Inr n
           else Inl (MalformedMoveViewError functionId (''expected a decimal u'' @ bits_str bits))
       | _ \<Rightarrow> Inl (MalformedMoveViewError functionId (''expected a decimal u'' @ bits_str bits))) (\<lambda>parsed.
     if parsed < 0 \<or> move_max bits < parsed
     then Inl (MalformedMoveViewError functionId (''value is outside u'' @ bits_str bits))
     else Inr parsed)"

definition view_boolean :: "js_val \<Rightarrow> string \<Rightarrow> bool result" where
  "view_boolean v functionId = (case v of
       JBool b \<Rightarrow> Inr b | _ \<Rightarrow> Inl (MalformedMoveViewError functionId ''expected a boolean''))"

definition view_lifecycle :: "js_val \<Rightarrow> string \<Rightarrow> protocol_lifecycle result" where
  "view_lifecycle v functionId = rbind (view_unsigned v U8 functionId) (\<lambda>code.
     if code = 0 then Inr CONFIGURING
     else if code = 1 then Inr LIVE
     else if code = 2 then Inr CLOSED
     else Inl (MalformedMoveViewError functionId ''expected lifecycle code 0, 1, or 2''))"

definition utf8Vector :: "(nat list \<Rightarrow> string) \<Rightarrow> js_val \<Rightarrow> string \<Rightarrow> string result" where
  "utf8Vector text v functionId =
     (case (case v of
         JStr s \<Rightarrow> if take 2 s = ''0x'' then hex_bytes (drop 2 s) else None
       | JArr vs \<Rightarrow> number_bytes vs
       | _ \<Rightarrow> None) of
       None \<Rightarrow> Inl (MalformedMoveViewError functionId ''expected vector<u8> as hex or byte array'')
     | Some bytes \<Rightarrow> (case utf8_decode bytes of
         None \<Rightarrow> Inl (MalformedMoveViewError functionId ''vector<u8> is not valid UTF-8'')
       | Some decoded \<Rightarrow> Inr (text decoded)))"

section \<open>The manifest\<close>

definition assertManifest :: "protocol_manifest \<Rightarrow> unit result" where
  "assertManifest manifest =
     (let packages = fm_packages manifest; addresses = fm_addresses manifest in
      rbind (rseq
        [rensure (fm_networkLabel manifest = ''cedra-testnet'') (TypeError ''finalized manifest networkLabel must be cedra-testnet''),
         rensure (fm_chainId manifest = CEDRA_TESTNET_CHAIN_ID) (TypeError ''finalized manifest chainId must be Cedra Testnet chain 2''),
         rensure (fm_deploymentId manifest \<noteq> []) (TypeError ''manifest deploymentId must not be empty''),
         rensure (is_package_version (fm_packageVersion manifest)) (TypeError ''manifest packageVersion must be testnet-vMAJOR.MINOR.PATCH''),
         rbind (view_unsigned (JBig (fm_finalizedLedgerVersion manifest)) U64 ''manifest.finalizedLedgerVersion'') (\<lambda>version.
           rensure (version \<noteq> 0) (TypeError ''manifest finalizedLedgerVersion must be greater than zero''))]) (\<lambda>_.
      rbind (nonzeroAddress (mp_reflectionCore packages) ''manifest.packages.reflectionCore'') (\<lambda>core.
      rbind (nonzeroAddress (mp_testAssets packages) ''manifest.packages.testAssets'') (\<lambda>assets.
      rbind (nonzeroAddress (mp_testAmm packages) ''manifest.packages.testAmm'') (\<lambda>amm.
      rbind (rensure (distinct [core, assets, amm]) (TypeError ''manifest package publishers must be distinct'')) (\<lambda>_.
      rbind (nonzeroAddress (mx_tokenMetadata addresses) ''manifest.addresses.tokenMetadata'') (\<lambda>_.
      rbind (nonzeroAddress (mx_mockUsdMetadata addresses) ''manifest.addresses.mockUsdMetadata'') (\<lambda>_.
      rbind (nonzeroAddress (mx_rewardVault addresses) ''manifest.addresses.rewardVault'') (\<lambda>_.
      rbind (nonzeroAddress (mx_distributionVault addresses) ''manifest.addresses.distributionVault'') (\<lambda>_.
      rbind (nonzeroAddress (mx_pool addresses) ''manifest.addresses.pool'') (\<lambda>pool.
      rbind (nonzeroAddress (mx_poolRflReserveStore addresses) ''manifest.addresses.poolRflReserveStore'') (\<lambda>rflReserve.
      rbind (nonzeroAddress (mx_poolUsdReserveStore addresses) ''manifest.addresses.poolUsdReserveStore'') (\<lambda>usdReserve.
      rseq
        [rensure (rflReserve \<noteq> usdReserve) (TypeError ''manifest pool reserve stores must be distinct''),
         rensure (pool = amm) (TypeError ''manifest pool address must equal the immutable test-AMM publisher address'')])))))))))))))"

definition copyManifest :: "protocol_manifest \<Rightarrow> protocol_manifest result" where
  "copyManifest manifest =
     (let packages = fm_packages manifest; addresses = fm_addresses manifest in
      rbind (nonzeroAddress (mp_reflectionCore packages) ''manifest.packages.reflectionCore'') (\<lambda>core.
      rbind (nonzeroAddress (mp_testAssets packages) ''manifest.packages.testAssets'') (\<lambda>assets.
      rbind (nonzeroAddress (mp_testAmm packages) ''manifest.packages.testAmm'') (\<lambda>amm.
      rbind (nonzeroAddress (mx_tokenMetadata addresses) ''manifest.addresses.tokenMetadata'') (\<lambda>token.
      rbind (nonzeroAddress (mx_mockUsdMetadata addresses) ''manifest.addresses.mockUsdMetadata'') (\<lambda>usd.
      rbind (nonzeroAddress (mx_rewardVault addresses) ''manifest.addresses.rewardVault'') (\<lambda>reward.
      rbind (nonzeroAddress (mx_distributionVault addresses) ''manifest.addresses.distributionVault'') (\<lambda>distribution.
      rbind (nonzeroAddress (mx_pool addresses) ''manifest.addresses.pool'') (\<lambda>pool.
      rbind (nonzeroAddress (mx_poolRflReserveStore addresses) ''manifest.addresses.poolRflReserveStore'') (\<lambda>rflReserve.
      rbind (nonzeroAddress (mx_poolUsdReserveStore addresses) ''manifest.addresses.poolUsdReserveStore'') (\<lambda>usdReserve.
      Inr (manifest\<lparr>fm_packages := \<lparr>mp_reflectionCore = core, mp_testAssets = assets, mp_testAmm = amm\<rparr>,
        fm_addresses := \<lparr>mx_tokenMetadata = token, mx_mockUsdMetadata = usd, mx_rewardVault = reward,
          mx_distributionVault = distribution, mx_pool = pool, mx_poolRflReserveStore = rflReserve,
          mx_poolUsdReserveStore = usdReserve\<rparr>\<rparr>))))))))))))"

record read_adapter =
  ra_client :: view_client
  ra_manifest :: protocol_manifest

definition FinalizedCedraReadAdapter :: "view_client \<Rightarrow> protocol_manifest \<Rightarrow> read_adapter result" where
  "FinalizedCedraReadAdapter client manifest =
     rbind (assertManifest manifest) (\<lambda>_. rbind (copyManifest manifest) (\<lambda>copy.
     Inr \<lparr>ra_client = client, ra_manifest = copy\<rparr>))"

abbreviation ra_core :: "read_adapter \<Rightarrow> string" where
  "ra_core ra \<equiv> mp_reflectionCore (fm_packages (ra_manifest ra))"

abbreviation ra_assets :: "read_adapter \<Rightarrow> string" where
  "ra_assets ra \<equiv> mp_testAssets (fm_packages (ra_manifest ra))"

abbreviation ra_amm :: "read_adapter \<Rightarrow> string" where
  "ra_amm ra \<equiv> mp_testAmm (fm_packages (ra_manifest ra))"

section \<open>Views at a version\<close>

definition function_id :: "string \<Rightarrow> string \<Rightarrow> string \<Rightarrow> string" where
  "function_id publisher moduleName functionName = publisher @ ''::'' @ moduleName @ ''::'' @ functionName"

definition view_at :: "read_adapter \<Rightarrow> int \<Rightarrow> string \<Rightarrow> string \<Rightarrow> string \<Rightarrow> js_val list \<Rightarrow> js_val list result" where
  "view_at ra ledgerVersion publisher moduleName functionName args =
     vc_viewJson (ra_client ra) ledgerVersion (function_id publisher moduleName functionName) args"

definition view_scalar :: "read_adapter \<Rightarrow> int \<Rightarrow> string \<Rightarrow> string \<Rightarrow> string \<Rightarrow> js_val list \<Rightarrow> js_val result" where
  "view_scalar ra ledgerVersion publisher moduleName functionName args =
     rbind (view_at ra ledgerVersion publisher moduleName functionName args) (\<lambda>vs.
     if length vs \<noteq> 1
     then Inl (MalformedMoveViewError (function_id publisher moduleName functionName)
       (''expected 1 return value, received '' @ nat_str (length vs)))
     else Inr (vs ! 0))"

definition view_tuple :: "read_adapter \<Rightarrow> int \<Rightarrow> string \<Rightarrow> string \<Rightarrow> string \<Rightarrow> js_val list \<Rightarrow> nat \<Rightarrow> js_val list result" where
  "view_tuple ra ledgerVersion publisher moduleName functionName args n =
     rbind (view_at ra ledgerVersion publisher moduleName functionName args) (\<lambda>vs.
     if length vs \<noteq> n
     then Inl (MalformedMoveViewError (function_id publisher moduleName functionName)
       (''expected '' @ nat_str n @ '' return values, received '' @ nat_str (length vs)))
     else Inr vs)"

section \<open>Pinning and identity\<close>

record pinned_identity =
  vi_chainId :: int
  vi_version :: int
  vi_timestampUnixSeconds :: int
  vi_packageVersion :: string

definition header_field :: "js_val \<Rightarrow> string \<Rightarrow> int result" where
  "header_field header key = view_unsigned (js_get header key) U64 (''ledger_info::'' @ key)"

definition pinLedger :: "read_adapter \<Rightarrow> pinned_identity result" where
  "pinLedger ra =
     rbind (vc_getLedgerInfo (ra_client ra)) (\<lambda>header.
     rbind (header_field header ''chain_id'') (\<lambda>chainId.
     if chainId \<noteq> fm_chainId (ra_manifest ra)
     then Inl (ManifestIdentityMismatchError ''chainId'' (int_str (fm_chainId (ra_manifest ra))) (int_str chainId))
     else rbind (header_field header ''ledger_version'') (\<lambda>version.
     rbind (header_field header ''ledger_timestamp'') (\<lambda>timestamp.
     if version < fm_finalizedLedgerVersion (ra_manifest ra)
     then Inl (ManifestIdentityMismatchError ''finalizedLedgerVersion''
       (int_str (fm_finalizedLedgerVersion (ra_manifest ra))) (int_str version))
     else Inr \<lparr>vi_chainId = CEDRA_TESTNET_CHAIN_ID, vi_version = version,
       vi_timestampUnixSeconds = bigint_quot timestamp 1000000, vi_packageVersion = []\<rparr>))))"

definition expectSameAddress :: "string \<Rightarrow> string \<Rightarrow> string \<Rightarrow> unit result" where
  "expectSameAddress field expected observed =
     rbind (adapter_canonicalAddress (JStr expected) field) (\<lambda>canonicalExpected.
     rensure (canonicalExpected = observed) (ManifestIdentityMismatchError field canonicalExpected observed))"

definition expectText :: "string \<Rightarrow> string \<Rightarrow> string \<Rightarrow> unit result" where
  "expectText field expected observed = rensure (expected = observed) (ManifestIdentityMismatchError field expected observed)"

text \<open>The views of the identity, in the order of the source.\<close>

record identity_views =
  iv_stateObject :: js_val
  iv_deployment :: js_val
  iv_network :: js_val
  iv_release :: "js_val list"
  iv_token :: js_val
  iv_reward :: js_val
  iv_distribution :: js_val
  iv_mockUsd :: js_val
  iv_poolRflReserve :: js_val
  iv_poolUsdReserve :: js_val
  iv_boundUsdReserve :: js_val

definition read_identity_views :: "read_adapter \<Rightarrow> int \<Rightarrow> identity_views result" where
  "read_identity_views ra version =
     rbind (view_scalar ra version (ra_core ra) ''reflection_registry'' ''state_object'' []) (\<lambda>stateObject.
     rbind (view_scalar ra version (ra_core ra) ''reflection_registry'' ''deployment_id'' []) (\<lambda>deployment.
     rbind (view_scalar ra version (ra_core ra) ''reflection_registry'' ''network_label'' []) (\<lambda>network.
     rbind (view_tuple ra version (ra_core ra) ''reflection_registry'' ''release_version'' [] 3) (\<lambda>release.
     rbind (view_scalar ra version (ra_core ra) ''reflection_token'' ''metadata'' []) (\<lambda>token.
     rbind (view_scalar ra version (ra_core ra) ''reflection_token'' ''reward_vault'' []) (\<lambda>reward.
     rbind (view_scalar ra version (ra_core ra) ''reflection_token'' ''distribution_vault'' []) (\<lambda>distribution.
     rbind (view_scalar ra version (ra_assets ra) ''mock_usd'' ''metadata'' []) (\<lambda>mockUsd.
     rbind (view_scalar ra version (ra_amm ra) ''pool'' ''rfl_reserve_store'' []) (\<lambda>poolRflReserve.
     rbind (view_scalar ra version (ra_amm ra) ''pool'' ''usd_reserve_store'' []) (\<lambda>poolUsdReserve.
     rbind (view_scalar ra version (ra_assets ra) ''mock_usd'' ''pool_reserve'' []) (\<lambda>boundUsdReserve.
     Inr \<lparr>iv_stateObject = stateObject, iv_deployment = deployment, iv_network = network, iv_release = release,
       iv_token = token, iv_reward = reward, iv_distribution = distribution, iv_mockUsd = mockUsd,
       iv_poolRflReserve = poolRflReserve, iv_poolUsdReserve = poolUsdReserve, iv_boundUsdReserve = boundUsdReserve\<rparr>)))))))))))"

definition view_package_version :: "js_val list \<Rightarrow> string \<Rightarrow> string result" where
  "view_package_version release functionId =
     rbind (view_unsigned (release ! 0) U64 functionId) (\<lambda>major.
     rbind (view_unsigned (release ! 1) U64 functionId) (\<lambda>minor.
     rbind (view_unsigned (release ! 2) U64 functionId) (\<lambda>patch. Inr (package_version major minor patch))))"

definition expectObject :: "string \<Rightarrow> string \<Rightarrow> js_val \<Rightarrow> string \<Rightarrow> unit result" where
  "expectObject field expected v functionId =
     rbind (objectAddress v functionId) (\<lambda>observed. expectSameAddress field expected observed)"

definition check_identity :: "(nat list \<Rightarrow> string) \<Rightarrow> read_adapter \<Rightarrow> identity_views \<Rightarrow> string result" where
  "check_identity text ra vs =
     (let manifest = ra_manifest ra; addresses = fm_addresses manifest;
          registry = function_id (ra_core ra) ''reflection_registry'';
          token = function_id (ra_core ra) ''reflection_token'';
          usd = function_id (ra_assets ra) ''mock_usd''; pool = function_id (ra_amm ra) ''pool'' in
      rbind (rbind (adapter_canonicalAddress (iv_stateObject vs) (registry ''state_object''))
        (expectSameAddress ''packages.reflectionCore'' (ra_core ra))) (\<lambda>_.
      rbind (rbind (utf8Vector text (iv_deployment vs) (registry ''deployment_id''))
        (expectText ''deploymentId'' (fm_deploymentId manifest))) (\<lambda>_.
      rbind (rbind (utf8Vector text (iv_network vs) (registry ''network_label''))
        (expectText ''networkLabel'' (fm_networkLabel manifest))) (\<lambda>_.
      rbind (view_package_version (iv_release vs) (registry ''release_version'')) (\<lambda>packageVersion.
      rbind (expectText ''packageVersion'' (fm_packageVersion manifest) packageVersion) (\<lambda>_.
      rbind (rseq
        [expectObject ''addresses.tokenMetadata'' (mx_tokenMetadata addresses) (iv_token vs) (token ''metadata''),
         expectObject ''addresses.rewardVault'' (mx_rewardVault addresses) (iv_reward vs) (token ''reward_vault''),
         expectObject ''addresses.distributionVault'' (mx_distributionVault addresses) (iv_distribution vs) (token ''distribution_vault''),
         expectObject ''addresses.mockUsdMetadata'' (mx_mockUsdMetadata addresses) (iv_mockUsd vs) (usd ''metadata'')]) (\<lambda>_.
      rbind (objectAddress (iv_poolRflReserve vs) (pool ''rfl_reserve_store'')) (\<lambda>observedRflReserve.
      rbind (objectAddress (iv_poolUsdReserve vs) (pool ''usd_reserve_store'')) (\<lambda>observedPoolUsdReserve.
      rbind (adapter_canonicalAddress (iv_boundUsdReserve vs) (usd ''pool_reserve'')) (\<lambda>observedBoundUsdReserve.
      rbind (rseq
        [expectSameAddress ''addresses.poolRflReserveStore'' (mx_poolRflReserveStore addresses) observedRflReserve,
         expectSameAddress ''addresses.poolUsdReserveStore'' (mx_poolUsdReserveStore addresses) observedPoolUsdReserve,
         expectSameAddress ''addresses.poolUsdReserveStore/mock_usd.pool_reserve'' (mx_poolUsdReserveStore addresses)
           observedBoundUsdReserve]) (\<lambda>_. Inr packageVersion)))))))))))"

definition pinAndValidateIdentity :: "(nat list \<Rightarrow> string) \<Rightarrow> read_adapter \<Rightarrow> pinned_identity result" where
  "pinAndValidateIdentity text ra =
     rbind (pinLedger ra) (\<lambda>ledger.
     rbind (read_identity_views ra (vi_version ledger)) (\<lambda>vs.
     rbind (check_identity text ra vs) (\<lambda>packageVersion.
     Inr (ledger\<lparr>vi_packageVersion := packageVersion\<rparr>))))"

end
