(* ===== verification/Adapter_Reads.thy ===== *)
theory Adapter_Reads
  imports Read_Adapter
begin

text \<open>
  The public operations of \<open>FinalizedCedraReadAdapter\<close> (\<open>finalized-read-adapter.ts\<close>): portfolio, protocol, pool,
  terminal dust, faucet and swap quote, each over views at one pinned version.
\<close>

section \<open>Snapshots\<close>

record portfolio_snapshot =
  ps_account :: string
  ps_effectiveTrfl :: int
  ps_rawTrfl :: int
  ps_pendingReflections :: int
  ps_lifetimeClaimed :: int
  ps_eligibleSupply :: int
  ps_holderShares :: int
  ps_ledgerVersion :: int

record pool_snapshot =
  pl_lifecycle :: protocol_lifecycle
  pl_trflReserve :: int
  pl_tusdReserve :: int
  pl_swapsPaused :: bool
  pl_maximumGrossSwap :: int
  pl_maximumReserveBps :: int
  pl_maximumRflContribution :: int
  pl_maximumTusdContribution :: int
  pl_maximumNonFinalWithdrawalShareBps :: int
  pl_ledgerVersion :: int

record protocol_snapshot =
  pt_lifecycle :: protocol_lifecycle
  pt_reflectionFeeBps :: int
  pt_automaticMaterialization :: bool
  pt_eligibleHolders :: int
  pt_eligibleSupply :: int
  pt_rewardVaultBalance :: int
  pt_reflectionLiability :: int
  pt_lifetimeSwapFees :: int
  pt_lifetimeMaterialized :: int
  pt_currentIndex :: int
  pt_indexRemainder :: int
  pt_pool :: pool_snapshot
  pt_claimsPaused :: bool
  pt_faucetPaused :: bool
  pt_packageVersion :: string
  pt_ledgerVersion :: int

record terminal_dust_snapshot =
  du_epoch :: int
  du_terminalRoundingBaseUnits :: int
  du_retiredResidueMagnified :: int
  du_ledgerVersion :: int

record faucet_status =
  fs_asset :: string
  fs_account :: string
  fs_grantAmount :: int
  fs_cooldownEndsAtUnixSeconds :: int
  fs_canClaim :: bool

section \<open>Portfolio\<close>

definition adapter_getPortfolio :: "(nat list \<Rightarrow> string) \<Rightarrow> read_adapter \<Rightarrow> string \<Rightarrow> portfolio_snapshot result" where
  "adapter_getPortfolio text ra account =
     rbind (nonzeroAddress account ''account'') (\<lambda>canonicalAccount.
     rbind (pinAndValidateIdentity text ra) (\<lambda>ident.
     let version = vi_version ident; core = ra_core ra; id = function_id core ''reflection_token'';
         scalar = view_scalar ra version core ''reflection_token''; tuple = view_tuple ra version core ''reflection_token'' in
     rbind (tuple ''global_accounting'' [] 6) (\<lambda>global.
     rbind (scalar ''raw_balance'' [JStr canonicalAccount]) (\<lambda>raw.
     rbind (scalar ''pending_rewards'' [JStr canonicalAccount]) (\<lambda>pending.
     rbind (scalar ''effective_balance'' [JStr canonicalAccount]) (\<lambda>effective.
     rbind (scalar ''wallet_is_registered'' [JStr canonicalAccount]) (\<lambda>registered.
     rbind (tuple ''wallet_position_accounting'' [JStr canonicalAccount] 3) (\<lambda>position.
     rbind (view_unsigned raw U64 (id ''raw_balance'')) (\<lambda>rawTrfl.
     rbind (view_boolean registered (id ''wallet_is_registered'')) (\<lambda>isRegistered.
     rbind (view_boolean (position ! 0) (id ''wallet_position_accounting'')) (\<lambda>_.
     rbind (view_unsigned (position ! 1) U256 (id ''wallet_position_accounting'')) (\<lambda>_.
     rbind (view_unsigned effective U64 (id ''effective_balance'')) (\<lambda>effectiveTrfl.
     rbind (view_unsigned pending U64 (id ''pending_rewards'')) (\<lambda>pendingReflections.
     rbind (view_unsigned (position ! 2) U256 (id ''wallet_position_accounting'')) (\<lambda>lifetimeClaimed.
     rbind (view_unsigned (global ! 2) U128 (id ''global_accounting'')) (\<lambda>eligibleSupply.
     Inr \<lparr>ps_account = canonicalAccount, ps_effectiveTrfl = effectiveTrfl, ps_rawTrfl = rawTrfl,
       ps_pendingReflections = pendingReflections, ps_lifetimeClaimed = lifetimeClaimed,
       ps_eligibleSupply = eligibleSupply, ps_holderShares = (if isRegistered then rawTrfl else 0),
       ps_ledgerVersion = version\<rparr>))))))))))))))))"

section \<open>Pool and protocol\<close>

definition readPoolAt :: "read_adapter \<Rightarrow> int \<Rightarrow> pool_snapshot result" where
  "readPoolAt ra ledgerVersion =
     (let amm = ra_amm ra; id = function_id amm ''pool''; limitsId = id ''limits''; liquidityId = id ''liquidity_limits'';
          tuple = view_tuple ra ledgerVersion amm ''pool'' in
      rbind (tuple ''reserves_view'' [] 2) (\<lambda>reserves.
      rbind (tuple ''limits'' [] 3) (\<lambda>limits.
      rbind (tuple ''liquidity_limits'' [] 3) (\<lambda>liquidity.
      rbind (view_scalar ra ledgerVersion amm ''pool'' ''lifecycle'' []) (\<lambda>lifecycleRaw.
      rbind (view_lifecycle lifecycleRaw (id ''lifecycle'')) (\<lambda>poolLifecycle.
      rbind (view_unsigned (limits ! 0) U64 limitsId) (\<lambda>ammFeeBps.
      rbind (view_unsigned (limits ! 1) U64 limitsId) (\<lambda>maximumReserveBps.
      rbind (view_unsigned (limits ! 2) U64 limitsId) (\<lambda>maximumGrossSwap.
      rbind (view_unsigned (liquidity ! 0) U64 liquidityId) (\<lambda>maximumRflContribution.
      rbind (view_unsigned (liquidity ! 1) U64 liquidityId) (\<lambda>maximumTusdContribution.
      rbind (view_unsigned (liquidity ! 2) U64 liquidityId) (\<lambda>maximumNonFinalWithdrawalShareBps.
      if 100 < ammFeeBps \<or> maximumReserveBps = 0 \<or> BPS_DENOMINATOR < maximumReserveBps \<or> maximumGrossSwap = 0
         \<or> maximumRflContribution = 0 \<or> maximumTusdContribution = 0
         \<or> maximumNonFinalWithdrawalShareBps = 0 \<or> BPS_DENOMINATOR < maximumNonFinalWithdrawalShareBps
      then Inl (MalformedMoveViewError limitsId ''pool limit state is outside the immutable contract policy'')
      else rbind (view_unsigned (reserves ! 0) U64 (id ''reserves_view'')) (\<lambda>trflReserve.
      rbind (view_unsigned (reserves ! 1) U64 (id ''reserves_view'')) (\<lambda>tusdReserve.
      Inr \<lparr>pl_lifecycle = poolLifecycle, pl_trflReserve = trflReserve, pl_tusdReserve = tusdReserve,
        pl_swapsPaused = (poolLifecycle \<noteq> LIVE), pl_maximumGrossSwap = maximumGrossSwap,
        pl_maximumReserveBps = maximumReserveBps, pl_maximumRflContribution = maximumRflContribution,
        pl_maximumTusdContribution = maximumTusdContribution,
        pl_maximumNonFinalWithdrawalShareBps = maximumNonFinalWithdrawalShareBps, pl_ledgerVersion = ledgerVersion\<rparr>))))))))))))))"

definition adapter_getPool :: "(nat list \<Rightarrow> string) \<Rightarrow> read_adapter \<Rightarrow> pool_snapshot result" where
  "adapter_getPool text ra = rbind (pinAndValidateIdentity text ra) (\<lambda>ident. readPoolAt ra (vi_version ident))"

definition adapter_getProtocol :: "(nat list \<Rightarrow> string) \<Rightarrow> read_adapter \<Rightarrow> protocol_snapshot result" where
  "adapter_getProtocol text ra =
     rbind (pinAndValidateIdentity text ra) (\<lambda>ident.
     let version = vi_version ident; core = ra_core ra; id = function_id core ''reflection_token'';
         scalar = view_scalar ra version core ''reflection_token'' in
     rbind (scalar ''automatic_materialization_enabled'' []) (\<lambda>automatic.
     rbind (scalar ''launch_state'' []) (\<lambda>lifecycleRaw.
     rbind (scalar ''reflection_fee_bps'' []) (\<lambda>feeBpsRaw.
     rbind (scalar ''registered_wallet_count'' []) (\<lambda>holders.
     rbind (view_tuple ra version core ''reflection_token'' ''global_accounting'' [] 6) (\<lambda>global.
     rbind (scalar ''reward_vault_balance'' []) (\<lambda>vaultBalance.
     rbind (scalar ''aggregate_indexed_liability'' []) (\<lambda>liability.
     rbind (readPoolAt ra version) (\<lambda>pool.
     rbind (view_lifecycle lifecycleRaw (id ''launch_state'')) (\<lambda>protocolLifecycle.
     rbind (view_unsigned feeBpsRaw U64 (id ''reflection_fee_bps'')) (\<lambda>reflectionFeeBps.
     if 500 < reflectionFeeBps
     then Inl (MalformedMoveViewError (id ''reflection_fee_bps'') ''fee exceeds the immutable v0.2 creation bound'')
     else if pl_lifecycle pool \<noteq> protocolLifecycle
     then Inl (MalformedMoveViewError (id ''launch_state'') ''core and pool lifecycles disagree'')
     else rbind (view_boolean automatic (id ''automatic_materialization_enabled'')) (\<lambda>automaticMaterialization.
     rbind (view_unsigned holders U64 (id ''registered_wallet_count'')) (\<lambda>eligibleHolders.
     rbind (view_unsigned (global ! 2) U128 (id ''global_accounting'')) (\<lambda>eligibleSupply.
     rbind (view_unsigned vaultBalance U64 (id ''reward_vault_balance'')) (\<lambda>rewardVaultBalance.
     rbind (view_unsigned liability U256 (id ''aggregate_indexed_liability'')) (\<lambda>reflectionLiability.
     rbind (view_unsigned (global ! 4) U256 (id ''global_accounting'')) (\<lambda>lifetimeSwapFees.
     rbind (view_unsigned (global ! 5) U256 (id ''global_accounting'')) (\<lambda>lifetimeMaterialized.
     rbind (view_unsigned (global ! 0) U256 (id ''global_accounting'')) (\<lambda>currentIndex.
     rbind (view_unsigned (global ! 1) U256 (id ''global_accounting'')) (\<lambda>indexRemainder.
     Inr \<lparr>pt_lifecycle = protocolLifecycle, pt_reflectionFeeBps = reflectionFeeBps,
       pt_automaticMaterialization = automaticMaterialization, pt_eligibleHolders = eligibleHolders,
       pt_eligibleSupply = eligibleSupply, pt_rewardVaultBalance = rewardVaultBalance,
       pt_reflectionLiability = reflectionLiability, pt_lifetimeSwapFees = lifetimeSwapFees,
       pt_lifetimeMaterialized = lifetimeMaterialized, pt_currentIndex = currentIndex, pt_indexRemainder = indexRemainder,
       pt_pool = pool, pt_claimsPaused = False, pt_faucetPaused = False,
       pt_packageVersion = vi_packageVersion ident, pt_ledgerVersion = version\<rparr>))))))))))))))))))))"

section \<open>Terminal dust and faucet\<close>

definition adapter_getLpEpochTerminalDust :: "(nat list \<Rightarrow> string) \<Rightarrow> read_adapter \<Rightarrow> js_val \<Rightarrow> terminal_dust_snapshot result" where
  "adapter_getLpEpochTerminalDust text ra epoch =
     (if \<not> is_bigint (Some epoch) then Inl (TypeError ''LP epoch must be a bigint'')
      else if big_of epoch \<le> 0 \<or> MOVE_U64_MAX < big_of epoch
      then Inl (RangeError ''LP epoch must be positive and fit Move u64'')
      else rbind (pinAndValidateIdentity text ra) (\<lambda>ident.
        let amm = ra_amm ra; functionId = function_id amm ''pool'' ''lp_epoch_terminal_dust'' in
        rbind (view_tuple ra (vi_version ident) amm ''pool'' ''lp_epoch_terminal_dust'' [JStr (int_str (big_of epoch))] 2) (\<lambda>dust.
        rbind (view_unsigned (dust ! 0) U128 functionId) (\<lambda>terminalRounding.
        rbind (view_unsigned (dust ! 1) U256 functionId) (\<lambda>retiredResidue.
        Inr \<lparr>du_epoch = big_of epoch, du_terminalRoundingBaseUnits = terminalRounding,
          du_retiredResidueMagnified = retiredResidue, du_ledgerVersion = vi_version ident\<rparr>)))))"

definition adapter_getFaucetStatus :: "(nat list \<Rightarrow> string) \<Rightarrow> read_adapter \<Rightarrow> string \<Rightarrow> string \<Rightarrow> faucet_status result" where
  "adapter_getFaucetStatus text ra account asset =
     (if asset \<noteq> ''tRFL'' \<and> asset \<noteq> ''tUSD'' then Inl (TypeError ''asset must be tRFL or tUSD'')
      else rbind (nonzeroAddress account ''account'') (\<lambda>canonicalAccount.
      rbind (pinAndValidateIdentity text ra) (\<lambda>ident.
      let version = vi_version ident; assets = ra_assets ra; core = ra_core ra; now = vi_timestampUnixSeconds ident;
          configurationId = function_id assets ''test_faucet'' ''configuration'';
          lastClaimId = function_id assets ''test_faucet'' ''last_claim'' in
      rbind (view_tuple ra version assets ''test_faucet'' ''configuration'' [] 3) (\<lambda>configuration.
      rbind (view_tuple ra version assets ''test_faucet'' ''last_claim'' [JStr canonicalAccount, JBool (asset = ''tRFL'')] 2) (\<lambda>lastClaim.
      rbind (if asset = ''tRFL'' then view_scalar ra version core ''reflection_token'' ''distribution_vault_balance'' []
        else Inr (JBig MOVE_U64_MAX)) (\<lambda>distributionBalance.
      rbind (view_unsigned (configuration ! (if asset = ''tRFL'' then 0 else 1)) U64 configurationId) (\<lambda>grantAmount.
      rbind (view_unsigned (configuration ! 2) U64 configurationId) (\<lambda>cooldown.
      rbind (view_boolean (lastClaim ! 0) lastClaimId) (\<lambda>hasClaimed.
      rbind (view_unsigned (lastClaim ! 1) U64 lastClaimId) (\<lambda>previousClaim.
      let cooldownEnds = (if hasClaimed then previousClaim + cooldown else 0) in
      if MOVE_U64_MAX < cooldownEnds
      then Inl (MalformedMoveViewError configurationId ''previous claim plus cooldown exceeds the u64 timestamp domain'')
      else rbind (view_unsigned distributionBalance U64 (function_id core ''reflection_token'' ''distribution_vault_balance'')) (\<lambda>balance.
      Inr \<lparr>fs_asset = asset, fs_account = canonicalAccount, fs_grantAmount = grantAmount,
        fs_cooldownEndsAtUnixSeconds = cooldownEnds,
        fs_canClaim = ((asset = ''tUSD'' \<or> grantAmount \<le> balance)
          \<and> (\<not> hasClaimed \<or> (previousClaim \<le> now \<and> cooldownEnds \<le> now)))\<rparr>)))))))))))"

section \<open>Swap quotes\<close>

record swap_input =
  si_direction :: string
  si_grossAmount :: int
  si_slippageBps :: int
  si_deadlineUnixSeconds :: int

definition check_swap_input :: "swap_input \<Rightarrow> unit result" where
  "check_swap_input input = rseq
     [rensure (si_direction input = ''buy'' \<or> si_direction input = ''sell'') (TypeError ''quote direction must be buy or sell''),
      rensure (si_grossAmount input \<noteq> 0) (RangeError ''grossAmount must be greater than zero''),
      rbind (view_unsigned (JBig (si_grossAmount input)) U64 ''quote.grossAmount'') (\<lambda>_. Inr ()),
      rbind (view_unsigned (JBig (si_slippageBps input)) U64 ''quote.slippageBps'') (\<lambda>_. Inr ()),
      rbind (view_unsigned (JBig (si_deadlineUnixSeconds input)) U64 ''quote.deadlineUnixSeconds'') (\<lambda>_. Inr ()),
      rensure (si_slippageBps input \<le> BPS_DENOMINATOR) (RangeError ''slippageBps must not exceed 10,000'')]"

text \<open>The numbers of the views, with the checks on the limits.\<close>

record quote_views =
  qv_firstOutput :: int
  qv_reflectionFee :: int
  qv_ammFee :: int
  qv_reflectionFeeBps :: int
  qv_ammFeeBps :: int
  qv_maximumReserveBps :: int
  qv_maximumGrossSwap :: int
  qv_inputReserveRaw :: js_val
  qv_outputReserveRaw :: js_val

definition read_quote_views :: "read_adapter \<Rightarrow> int \<Rightarrow> swap_input \<Rightarrow> quote_views result" where
  "read_quote_views ra version input =
     (let amm = ra_amm ra; core = ra_core ra; sell = (si_direction input = ''sell'');
          fn = (if sell then ''quote_sell'' else ''quote_buy''); functionId = function_id amm ''pool'' fn;
          limitsId = function_id amm ''pool'' ''limits'' in
      rbind (view_tuple ra version amm ''pool'' fn [JStr (int_str (si_grossAmount input))] 3) (\<lambda>amounts.
      rbind (view_tuple ra version amm ''pool'' ''reserves_view'' [] 2) (\<lambda>reserves.
      rbind (view_tuple ra version amm ''pool'' ''limits'' [] 3) (\<lambda>limits.
      rbind (view_scalar ra version core ''reflection_token'' ''reflection_fee_bps'' []) (\<lambda>feeBpsRaw.
      rbind (view_unsigned (amounts ! 0) U64 functionId) (\<lambda>firstOutput.
      rbind (view_unsigned (amounts ! 1) U64 functionId) (\<lambda>fee.
      rbind (view_unsigned (amounts ! 2) U64 functionId) (\<lambda>ammFee.
      rbind (view_unsigned feeBpsRaw U64 (function_id core ''reflection_token'' ''reflection_fee_bps'')) (\<lambda>reflectionFeeBps.
      rbind (view_unsigned (limits ! 0) U64 limitsId) (\<lambda>ammFeeBps.
      rbind (view_unsigned (limits ! 1) U64 limitsId) (\<lambda>maximumReserveBps.
      rbind (view_unsigned (limits ! 2) U64 limitsId) (\<lambda>maximumGrossSwap.
      if 500 < reflectionFeeBps \<or> 100 < ammFeeBps \<or> maximumReserveBps = 0 \<or> BPS_DENOMINATOR < maximumReserveBps
         \<or> maximumGrossSwap = 0
      then Inl (MalformedMoveViewError limitsId ''fee or swap limit is outside the immutable contract policy'')
      else Inr \<lparr>qv_firstOutput = firstOutput, qv_reflectionFee = fee, qv_ammFee = ammFee,
        qv_reflectionFeeBps = reflectionFeeBps, qv_ammFeeBps = ammFeeBps, qv_maximumReserveBps = maximumReserveBps,
        qv_maximumGrossSwap = maximumGrossSwap, qv_inputReserveRaw = reserves ! (if sell then 0 else 1),
        qv_outputReserveRaw = reserves ! (if sell then 1 else 0)\<rparr>))))))))))))"

text \<open>The quote, after the checks of the amounts against the pinned state.\<close>

definition quote_from_views :: "read_adapter \<Rightarrow> pinned_identity \<Rightarrow> swap_input \<Rightarrow> quote_views \<Rightarrow> swap_quote result" where
  "quote_from_views ra ident input vs =
     (let sell = (si_direction input = ''sell''); gross = si_grossAmount input; fee = qv_reflectionFee vs; ammFee = qv_ammFee vs;
          functionId = function_id (ra_amm ra) ''pool'' (if sell then ''quote_sell'' else ''quote_buy'');
          reservesId = function_id (ra_amm ra) ''pool'' ''reserves_view'';
          malformed = (\<lambda>detail. Inl (MalformedMoveViewError functionId detail));
          netReserveInput = (if sell then gross - fee else gross);
          grossPoolOutput = (if sell then qv_firstOutput vs else qv_firstOutput vs + fee);
          netUserReceipt = qv_firstOutput vs; poolInput = netReserveInput - ammFee in
      if netReserveInput < 0 \<or> netReserveInput < ammFee then malformed ''fee tuple exceeds its associated input''
      else if MOVE_U64_MAX < grossPoolOutput then malformed ''gross pool output exceeds u64''
      else rbind (view_unsigned (qv_inputReserveRaw vs) U64 reservesId) (\<lambda>inputReserve.
      rbind (view_unsigned (qv_outputReserveRaw vs) U64 reservesId) (\<lambda>outputReserve.
      if inputReserve = 0 \<or> outputReserve = 0 \<or> qv_firstOutput vs = 0
      then malformed ''quote requires non-zero reserves and output''
      else if qv_maximumGrossSwap vs < gross \<or> inputReserve * qv_maximumReserveBps vs < gross * BPS_DENOMINATOR
      then malformed ''quote input exceeds the finalized on-chain swap limits''
      else let expectedAmmFee = netReserveInput
             - bigint_quot (netReserveInput * (BPS_DENOMINATOR - qv_ammFeeBps vs)) BPS_DENOMINATOR;
           expectedGrossPoolOutput = bigint_quot (outputReserve * poolInput) (inputReserve + poolInput);
           expectedReflectionFee = bigint_quot ((if sell then gross else expectedGrossPoolOutput) * qv_reflectionFeeBps vs) BPS_DENOMINATOR in
      if ammFee \<noteq> expectedAmmFee \<or> fee \<noteq> expectedReflectionFee \<or> grossPoolOutput \<noteq> expectedGrossPoolOutput
      then malformed ''quote tuple disagrees with finalized fee and constant-product arithmetic''
      else Inr \<lparr>sq_direction = (if sell then Sell else Buy), sq_grossAmount = gross, sq_slippageBps = si_slippageBps input,
        sq_reflectionFee = fee, sq_ammFee = ammFee, sq_netReserveInput = netReserveInput, sq_grossPoolOutput = grossPoolOutput,
        sq_netUserReceipt = netUserReceipt,
        sq_minimumNetUserReceipt = bigint_quot (netUserReceipt * (BPS_DENOMINATOR - si_slippageBps input)) BPS_DENOMINATOR,
        sq_priceImpactBps = bigint_quot (poolInput * BPS_DENOMINATOR) (inputReserve + poolInput),
        sq_deadlineUnixSeconds = si_deadlineUnixSeconds input,
        sq_context = \<lparr>qc_chainId = vi_chainId ident, qc_ledgerVersion = vi_version ident,
          qc_deploymentId = fm_deploymentId (ra_manifest ra), qc_packageVersion = vi_packageVersion ident,
          qc_inputReserve = inputReserve, qc_outputReserve = outputReserve,
          qc_reflectionFeeBps = qv_reflectionFeeBps vs, qc_ammFeeBps = qv_ammFeeBps vs,
          qc_maximumGrossSwap = qv_maximumGrossSwap vs, qc_maximumReserveBps = qv_maximumReserveBps vs\<rparr>\<rparr>)))"

definition adapter_quoteSwap :: "(nat list \<Rightarrow> string) \<Rightarrow> read_adapter \<Rightarrow> swap_input \<Rightarrow> swap_quote result" where
  "adapter_quoteSwap text ra input =
     rbind (check_swap_input input) (\<lambda>_.
     rbind (pinAndValidateIdentity text ra) (\<lambda>ident.
     if si_deadlineUnixSeconds input \<le> vi_timestampUnixSeconds ident
     then Inl (RangeError ''quote deadline must be later than the pinned ledger timestamp'')
     else rbind (read_quote_views ra (vi_version ident) input) (\<lambda>vs. quote_from_views ra ident input vs)))"

end
