(* ===== verification/Quote_Economics.thy ===== *)
theory Quote_Economics
  imports Swap_Quotes Pool_Economics
begin

text \<open>
  What an accepted quote says: \<open>assertSwapQuote\<close> as a predicate on the numbers of a quote, and what the
  reproduced arithmetic means for the pool and for the user.
\<close>

section \<open>Accepted quotes\<close>

lemma assertUnsigned_Inr [result_simps]:
  "assertUnsigned v maximum label = Inr () \<longleftrightarrow> (\<exists>n. v = Some (JBig n) \<and> 0 \<le> n \<and> n \<le> maximum)"
  by (auto simp: assertUnsigned_def not_less split: option.splits js_val.splits)

lemma assertPositive_Inr [result_simps]:
  "assertPositive v maximum label = Inr () \<longleftrightarrow> (\<exists>n. v = Some (JBig n) \<and> 0 < n \<and> n \<le> maximum)"
  by (auto simp: assertPositive_def not_less not_le split: option.splits js_val.splits)

lemma js_get_field: "js_field v key = Some w \<Longrightarrow> js_get v key = w"
  by (simp add: js_get_def)

definition acceptable_context :: "quote_context \<Rightarrow> bool" where
  "acceptable_context c = (qc_chainId c = CEDRA_TESTNET_CHAIN_ID \<and> 0 < qc_ledgerVersion c \<and> qc_ledgerVersion c \<le> MOVE_U64_MAX
     \<and> qc_deploymentId c \<noteq> [] \<and> length (qc_deploymentId c) \<le> 512 \<and> is_package_version (qc_packageVersion c)
     \<and> 0 < qc_inputReserve c \<and> qc_inputReserve c \<le> MOVE_U64_MAX \<and> 0 < qc_outputReserve c \<and> qc_outputReserve c \<le> MOVE_U64_MAX
     \<and> 0 \<le> qc_reflectionFeeBps c \<and> qc_reflectionFeeBps c \<le> MAX_REFLECTION_FEE_BPS
     \<and> 0 \<le> qc_ammFeeBps c \<and> qc_ammFeeBps c \<le> 100
     \<and> 0 < qc_maximumGrossSwap c \<and> qc_maximumGrossSwap c \<le> MOVE_U64_MAX
     \<and> 0 < qc_maximumReserveBps c \<and> qc_maximumReserveBps c \<le> BPS_DENOMINATOR)"

definition acceptable_amounts :: "swap_quote \<Rightarrow> int \<Rightarrow> bool" where
  "acceptable_amounts q now = (0 < sq_grossAmount q \<and> sq_grossAmount q \<le> MOVE_U64_MAX
     \<and> 0 \<le> sq_slippageBps q \<and> sq_slippageBps q \<le> BPS_DENOMINATOR
     \<and> 0 \<le> sq_reflectionFee q \<and> sq_reflectionFee q \<le> MOVE_U64_MAX \<and> 0 \<le> sq_ammFee q \<and> sq_ammFee q \<le> MOVE_U64_MAX
     \<and> 0 < sq_netReserveInput q \<and> sq_netReserveInput q \<le> MOVE_U64_MAX
     \<and> 0 < sq_grossPoolOutput q \<and> sq_grossPoolOutput q \<le> MOVE_U64_MAX
     \<and> 0 < sq_netUserReceipt q \<and> sq_netUserReceipt q \<le> MOVE_U64_MAX
     \<and> 0 \<le> sq_minimumNetUserReceipt q \<and> sq_minimumNetUserReceipt q \<le> MOVE_U64_MAX
     \<and> 0 \<le> sq_priceImpactBps q \<and> sq_priceImpactBps q \<le> MOVE_U64_MAX
     \<and> 0 \<le> sq_deadlineUnixSeconds q \<and> sq_deadlineUnixSeconds q \<le> MOVE_U64_MAX \<and> now < sq_deadlineUnixSeconds q)"

definition acceptable_quote :: "swap_quote \<Rightarrow> int \<Rightarrow> bool" where
  "acceptable_quote q now = (acceptable_amounts q now \<and> acceptable_context (sq_context q)
     \<and> sq_grossAmount q \<le> qc_maximumGrossSwap (sq_context q)
     \<and> sq_grossAmount q * BPS_DENOMINATOR \<le> qc_inputReserve (sq_context q) * qc_maximumReserveBps (sq_context q)
     \<and> quote_arithmetic q)"

lemma amounts_accepted:
  assumes "assertQuoteAmounts v now = Inr ()"
  shows "acceptable_amounts (quote_of v) now" "js_get v ''direction'' = JStr (direction_str (sq_direction (quote_of v)))"
proof -
  note a = assms [unfolded assertQuoteAmounts_def assertSwapDirection_def assertFutureDeadline_def rseq_Inr_iff, simplified,
      unfolded result_simps]
  show "js_get v ''direction'' = JStr (direction_str (sq_direction (quote_of v)))"
    using a by (auto simp: quote_of_def direction_str_def js_get_def)
  show "acceptable_amounts (quote_of v) now"
    using a unfolding acceptable_amounts_def quote_of_def by (auto simp: js_get_def BPS_DENOMINATOR_def)
qed

lemma context_accepted:
  assumes "assertQuoteContext context = Inr ()"
  shows "acceptable_context (context_of context)"
proof -
  note a = assms [unfolded assertQuoteContext_def rseq_Inr_iff, simplified, unfolded result_simps is_string_iff]
  show ?thesis using a unfolding acceptable_context_def context_of_def by (auto simp: js_get_def)
qed

lemma quote_accepted:
  assumes "assertSwapQuote v now = Inr ()"
  shows "acceptable_quote (quote_of v) now" "js_get v ''direction'' = JStr (direction_str (sq_direction (quote_of v)))"
proof -
  note a = assms [unfolded assertSwapQuote_def Let_def rseq_Inr_iff, simplified, unfolded result_simps]
  have "sq_context (quote_of v) = context_of (js_get v ''context'')" by (simp add: quote_of_def)
  then show "acceptable_quote (quote_of v) now"
    using a amounts_accepted(1) context_accepted by (simp add: acceptable_quote_def)
  show "js_get v ''direction'' = JStr (direction_str (sq_direction (quote_of v)))"
    using a amounts_accepted(2) by blast
qed

text \<open>A quote written as an object is read back, and accepted exactly when it is acceptable.\<close>

lemma context_tree_fields:
  "js_field (context_tree c) ''chainId'' = Some (JNum (qc_chainId c))"
  "js_field (context_tree c) ''ledgerVersion'' = Some (JBig (qc_ledgerVersion c))"
  "js_field (context_tree c) ''deploymentId'' = Some (JStr (qc_deploymentId c))"
  "js_field (context_tree c) ''packageVersion'' = Some (JStr (qc_packageVersion c))"
  "js_field (context_tree c) ''inputReserve'' = Some (JBig (qc_inputReserve c))"
  "js_field (context_tree c) ''outputReserve'' = Some (JBig (qc_outputReserve c))"
  "js_field (context_tree c) ''reflectionFeeBps'' = Some (JBig (qc_reflectionFeeBps c))"
  "js_field (context_tree c) ''ammFeeBps'' = Some (JBig (qc_ammFeeBps c))"
  "js_field (context_tree c) ''maximumGrossSwap'' = Some (JBig (qc_maximumGrossSwap c))"
  "js_field (context_tree c) ''maximumReserveBps'' = Some (JBig (qc_maximumReserveBps c))"
  by (simp_all add: context_tree_def lookup)

lemma quote_tree_fields:
  "js_field (quote_tree q) ''direction'' = Some (JStr (direction_str (sq_direction q)))"
  "js_field (quote_tree q) ''grossAmount'' = Some (JBig (sq_grossAmount q))"
  "js_field (quote_tree q) ''slippageBps'' = Some (JBig (sq_slippageBps q))"
  "js_field (quote_tree q) ''reflectionFee'' = Some (JBig (sq_reflectionFee q))"
  "js_field (quote_tree q) ''ammFee'' = Some (JBig (sq_ammFee q))"
  "js_field (quote_tree q) ''netReserveInput'' = Some (JBig (sq_netReserveInput q))"
  "js_field (quote_tree q) ''grossPoolOutput'' = Some (JBig (sq_grossPoolOutput q))"
  "js_field (quote_tree q) ''netUserReceipt'' = Some (JBig (sq_netUserReceipt q))"
  "js_field (quote_tree q) ''minimumNetUserReceipt'' = Some (JBig (sq_minimumNetUserReceipt q))"
  "js_field (quote_tree q) ''priceImpactBps'' = Some (JBig (sq_priceImpactBps q))"
  "js_field (quote_tree q) ''deadlineUnixSeconds'' = Some (JBig (sq_deadlineUnixSeconds q))"
  "js_field (quote_tree q) ''context'' = Some (context_tree (sq_context q))"
  by (simp_all add: quote_tree_def lookup)

lemma context_of_tree: "context_of (context_tree c) = c"
  by (simp add: context_of_def js_get_def context_tree_fields)

lemma quote_of_tree: "quote_of (quote_tree q) = q"
  by (cases "sq_direction q"; simp add: quote_of_def js_get_def quote_tree_fields context_of_tree direction_str_def)

lemma is_record_trees: "is_record_value (Some (context_tree c))" "is_record_value (Some (quote_tree q))"
  by (simp_all add: context_tree_def quote_tree_def)

lemma small_u64: "n \<le> 10000 \<Longrightarrow> n \<le> MOVE_U64_MAX"
  by (simp add: MOVE_U64_MAX_def)

lemma accepted_iff: "assertSwapQuote (quote_tree q) now = Inr () \<longleftrightarrow> acceptable_quote q now"
proof
  assume "assertSwapQuote (quote_tree q) now = Inr ()"
  from quote_accepted(1) [OF this] show "acceptable_quote q now" by (simp add: quote_of_tree)
next
  assume a: "acceptable_quote q now"
  have "assertQuoteAmounts (quote_tree q) now = Inr ()"
    using a small_u64 unfolding assertQuoteAmounts_def rseq_Inr_iff
    by (auto simp: acceptable_quote_def acceptable_amounts_def assertSwapDirection_def assertFutureDeadline_def
      result_simps quote_tree_fields js_get_def direction_str_def BPS_DENOMINATOR_def)
  moreover have "assertQuoteContext (context_tree (sq_context q)) = Inr ()"
    using a unfolding assertQuoteContext_def rseq_Inr_iff
    by (auto simp: acceptable_quote_def acceptable_context_def result_simps context_tree_fields js_get_def
      MAX_REFLECTION_FEE_BPS_def BPS_DENOMINATOR_def MOVE_U64_MAX_def)
  moreover have "js_get (quote_tree q) ''context'' = context_tree (sq_context q)" by (simp add: js_get_def quote_tree_fields)
  ultimately show "assertSwapQuote (quote_tree q) now = Inr ()"
    using a unfolding assertSwapQuote_def rseq_Inr_iff
    by (simp add: acceptable_quote_def quote_of_tree quote_tree_fields is_record_trees)
qed

section \<open>What the arithmetic means\<close>

text \<open>Truncated shares of an amount, in basis points.\<close>

lemma bps_share:
  assumes "0 \<le> a" "0 \<le> r" "r \<le> (10000::int)"
  shows "0 \<le> a * r div 10000" "a * r div 10000 \<le> a" "a * r div 10000 * 10000 \<le> a * r" "a * r < (a * r div 10000 + 1) * 10000"
proof -
  show low: "a * r div 10000 * 10000 \<le> a * r" by (metis div_mult_mod_eq le_add_same_cancel1 pos_mod_sign zero_less_numeral)
  show "0 \<le> a * r div 10000" using assms by (simp add: pos_imp_zdiv_nonneg_iff)
  have "a * r \<le> a * 10000" using assms by (simp add: mult_left_mono)
  with low show "a * r div 10000 \<le> a" by linarith
  show "a * r < (a * r div 10000 + 1) * 10000" by (metis div_mult_mod_eq add_strict_left_mono distrib_right mult_1 pos_mod_bound zero_less_numeral)
qed

lemma bps_bound: "0 \<le> a \<Longrightarrow> 0 \<le> r \<Longrightarrow> r \<le> (500::int) \<Longrightarrow> a * r div 10000 * 10000 \<le> a * 500"
  using bps_share(3) [of a r] mult_left_mono [of r 500 a] by linarith

text \<open>The output of a constant-product pool: never the whole reserve, and the product does not fall.\<close>

lemma pool_output:
  assumes "0 < (R::int)" "0 < S" "0 \<le> x" "x \<le> net"
  shows "S * x div (R + x) < S" "R * S \<le> (R + net) * (S - S * x div (R + x))" "0 \<le> S * x div (R + x)"
proof -
  have pos: "0 < R + x" using assms by simp
  show "R * S \<le> (R + net) * (S - S * x div (R + x))" using constant_product [of R S x net] assms by simp
  have "S * x < S * (R + x)" using assms by (simp add: algebra_simps)
  moreover have "S * x div (R + x) * (R + x) \<le> S * x" using pos by (simp add: minus_mod_eq_div_mult [symmetric])
  ultimately have "S * x div (R + x) * (R + x) < S * (R + x)" by linarith
  then show "S * x div (R + x) < S" using pos by simp
  show "0 \<le> S * x div (R + x)" using assms pos by (simp add: pos_imp_zdiv_nonneg_iff)
qed

text \<open>The amounts of a quote against the pool it names and the slippage the caller chose.\<close>

definition fair_quote :: "swap_quote \<Rightarrow> bool" where
  "fair_quote q = (let c = sq_context q; receipt = sq_netUserReceipt q; minimum = sq_minimumNetUserReceipt q;
       kept = BPS_DENOMINATOR - sq_slippageBps q in
     qc_inputReserve c * qc_outputReserve c \<le> (qc_inputReserve c + sq_netReserveInput q) * (qc_outputReserve c - sq_grossPoolOutput q)
     \<and> sq_grossPoolOutput q < qc_outputReserve c
     \<and> (if sq_direction q = Sell then sq_grossAmount q = sq_netReserveInput q + sq_reflectionFee q \<and> sq_grossPoolOutput q = receipt
        else sq_grossAmount q = sq_netReserveInput q \<and> sq_grossPoolOutput q = receipt + sq_reflectionFee q)
     \<and> sq_reflectionFee q * BPS_DENOMINATOR
         \<le> (if sq_direction q = Sell then sq_grossAmount q else sq_grossPoolOutput q) * MAX_REFLECTION_FEE_BPS
     \<and> 0 \<le> sq_ammFee q \<and> minimum \<le> receipt
     \<and> minimum * BPS_DENOMINATOR \<le> receipt * kept \<and> receipt * kept < (minimum + 1) * BPS_DENOMINATOR)"

lemma acceptable_is_fair:
  assumes "acceptable_quote q now"
  shows "fair_quote q"
proof -
  let ?c = "sq_context q"
  have c: "0 < qc_inputReserve ?c" "0 < qc_outputReserve ?c" "0 \<le> qc_reflectionFeeBps ?c" "qc_reflectionFeeBps ?c \<le> 500"
      "0 \<le> qc_ammFeeBps ?c" "qc_ammFeeBps ?c \<le> 100"
    and g: "0 < sq_grossAmount q" "0 \<le> sq_slippageBps q" "sq_slippageBps q \<le> 10000" and ar: "quote_arithmetic q"
    using assms by (simp_all add: acceptable_quote_def acceptable_amounts_def acceptable_context_def
      MAX_REFLECTION_FEE_BPS_def BPS_DENOMINATOR_def)
  note a = ar [unfolded quote_arithmetic_def]
  have fee_sell: "0 \<le> expectedSellReflection q" "expectedSellReflection q * 10000 \<le> sq_grossAmount q * 500"
  proof -
    have e: "expectedSellReflection q = sq_grossAmount q * qc_reflectionFeeBps ?c div 10000"
      using g c by (simp add: expectedSellReflection_def BPS_DENOMINATOR_def)
    show "0 \<le> expectedSellReflection q" using bps_share(1) [of "sq_grossAmount q" "qc_reflectionFeeBps ?c"] g c e by simp
    show "expectedSellReflection q * 10000 \<le> sq_grossAmount q * 500"
      unfolding e by (rule bps_bound) (use g c in simp_all)
  qed
  have net: "0 < expectedReserveInput q" using a by simp
  have inv: "invariantInput q = expectedReserveInput q * (10000 - qc_ammFeeBps ?c) div 10000" "0 \<le> invariantInput q"
      "invariantInput q \<le> expectedReserveInput q"
  proof -
    show e: "invariantInput q = expectedReserveInput q * (10000 - qc_ammFeeBps ?c) div 10000"
      using net c by (simp add: invariantInput_def BPS_DENOMINATOR_def)
    show "0 \<le> invariantInput q" "invariantInput q \<le> expectedReserveInput q"
      using bps_share(1,2) [of "expectedReserveInput q" "10000 - qc_ammFeeBps ?c"] net c e by simp_all
  qed
  have out: "expectedGrossOutput q = qc_outputReserve ?c * invariantInput q div (qc_inputReserve ?c + invariantInput q)"
    using c inv(2) by (simp add: expectedGrossOutput_def)
  note pool = pool_output [OF c(1,2) inv(2,3), folded out]
  have fee_buy: "expectedReflectionFee q * 10000 \<le> expectedGrossOutput q * 500" if "sq_direction q = Buy"
  proof -
    have "expectedReflectionFee q = expectedGrossOutput q * qc_reflectionFeeBps ?c div 10000"
      using that pool(3) c by (simp add: expectedReflectionFee_def BPS_DENOMINATOR_def)
    then show ?thesis using bps_bound [of "expectedGrossOutput q" "qc_reflectionFeeBps ?c"] pool(3) c by simp
  qed
  have receipt: "0 < expectedReceipt q" using a by simp
  have min: "expectedMinimum q = expectedReceipt q * (10000 - sq_slippageBps q) div 10000"
    using receipt g by (simp add: expectedMinimum_def BPS_DENOMINATOR_def)
  note share = bps_share [of "expectedReceipt q" "10000 - sq_slippageBps q"]
  show ?thesis
    using a pool fee_sell fee_buy inv(2,3) share receipt g
    unfolding fair_quote_def Let_def min [symmetric]
    by (cases "sq_direction q") (simp_all add: BPS_DENOMINATOR_def MAX_REFLECTION_FEE_BPS_def min expectedReceipt_def
      expectedReserveInput_def expectedReflectionFee_def)
qed

section \<open>Quoted swaps in the replay\<close>

text \<open>The receipt of a swap that takes exactly the quoted amounts from the quoted pool.\<close>

definition quoted_swap :: "address \<Rightarrow> swap_quote \<Rightarrow> swap_executed" where
  "quoted_swap account q = (let c = sq_context q; inp = qc_inputReserve c + sq_netReserveInput q;
       out = qc_outputReserve c - sq_grossPoolOutput q in
     \<lparr>sw_account = account, sw_direction = sq_direction q, sw_grossAmount = sq_grossAmount q,
      sw_reflectionFee = sq_reflectionFee q, sw_ammFee = sq_ammFee q, sw_netReserveInput = sq_netReserveInput q,
      sw_grossPoolOutput = sq_grossPoolOutput q, sw_netUserReceipt = sq_netUserReceipt q,
      sw_trflReserveAfter = (if sq_direction q = Sell then inp else out),
      sw_tusdReserveAfter = (if sq_direction q = Sell then out else inp)\<rparr>)"

text \<open>The replayed pool and fee are those the quote was computed from.\<close>

definition pool_as_quoted :: "swap_quote \<Rightarrow> protocol_projection \<Rightarrow> bool" where
  "pool_as_quoted q pr = (let c = sq_context q; pool = pr_pool pr in
     pr_feeBps pr = qc_reflectionFeeBps c \<and> po_ammFeeBps pool = qc_ammFeeBps c
     \<and> (if sq_direction q = Sell then po_trflReserve pool = qc_inputReserve c \<and> po_tusdReserve pool = qc_outputReserve c
        else po_tusdReserve pool = qc_inputReserve c \<and> po_trflReserve pool = qc_outputReserve c))"

lemma sell_silent:
  assumes "sw_direction s = Sell" "pr_pool (cx_next ctx) = pool" "pr_feeBps (cx_next ctx) = feeBps"
    and "bigint_quot (sw_grossAmount s * feeBps) BPS_DENOMINATOR = sw_reflectionFee s"
    and "sw_netReserveInput s = sw_grossAmount s - sw_reflectionFee s"
    and "bigint_quot (sw_netReserveInput s * (BPS_DENOMINATOR - po_ammFeeBps pool)) BPS_DENOMINATOR = x"
    and "sw_ammFee s = sw_netReserveInput s - x"
    and "bigint_quot (po_tusdReserve pool * x) (po_trflReserve pool + x) = sw_grossPoolOutput s"
    and "sw_netUserReceipt s = sw_grossPoolOutput s"
    and "sw_trflReserveAfter s = po_trflReserve pool + sw_netReserveInput s"
    and "sw_tusdReserveAfter s = po_tusdReserve pool - sw_grossPoolOutput s"
  shows "ensures (handle_SwapExecuted ctx e s) (\<lambda>c. cx_alerts c = cx_alerts ctx
     \<and> pr_pool (cx_next c) = pool\<lparr>po_trflReserve := sw_trflReserveAfter s, po_tusdReserve := sw_tusdReserveAfter s\<rparr>)"
  unfolding handle_SwapExecuted_def debitSeller_def Let_def
  using assms by (simp add: ensures_simps result_simps alert_if_def del: bigint_quot_nonneg)

lemma buy_silent:
  assumes "sw_direction s = Buy" "pr_pool (cx_next ctx) = pool" "pr_feeBps (cx_next ctx) = feeBps"
    and "bigint_quot (sw_grossPoolOutput s * feeBps) BPS_DENOMINATOR = sw_reflectionFee s"
    and "sw_netReserveInput s = sw_grossAmount s"
    and "bigint_quot (sw_grossAmount s * (BPS_DENOMINATOR - po_ammFeeBps pool)) BPS_DENOMINATOR = x"
    and "sw_ammFee s = sw_grossAmount s - x"
    and "bigint_quot (po_trflReserve pool * x) (po_tusdReserve pool + x) = sw_grossPoolOutput s"
    and "sw_netUserReceipt s = sw_grossPoolOutput s - sw_reflectionFee s"
    and "sw_tusdReserveAfter s = po_tusdReserve pool + sw_netReserveInput s"
    and "sw_trflReserveAfter s = po_trflReserve pool - sw_grossPoolOutput s"
  shows "ensures (handle_SwapExecuted ctx e s) (\<lambda>c. cx_alerts c = cx_alerts ctx
     \<and> pr_pool (cx_next c) = pool\<lparr>po_trflReserve := sw_trflReserveAfter s, po_tusdReserve := sw_tusdReserveAfter s\<rparr>)"
  unfolding handle_SwapExecuted_def debitSeller_def Let_def
  using assms by (simp add: ensures_simps result_simps alert_if_def del: bigint_quot_nonneg)

lemma quoted_swap_silent:
  assumes "acceptable_quote q now" "pool_as_quoted q (cx_next ctx)"
  shows "ensures (handle_SwapExecuted ctx e (quoted_swap account q)) (\<lambda>c. cx_alerts c = cx_alerts ctx
     \<and> pr_pool (cx_next c) = (pr_pool (cx_next ctx))
         \<lparr>po_trflReserve := sw_trflReserveAfter (quoted_swap account q), po_tusdReserve := sw_tusdReserveAfter (quoted_swap account q)\<rparr>)"
proof -
  have "quote_arithmetic q" using assms(1) by (simp add: acceptable_quote_def)
  note a = this [unfolded quote_arithmetic_def]
  show ?thesis
  proof (cases "sq_direction q")
    case Buy
    show ?thesis
      by (rule buy_silent [where x = "invariantInput q"])
        (use a assms(2) Buy in \<open>simp_all add: quoted_swap_def pool_as_quoted_def Let_def expectedReceipt_def
          expectedReflectionFee_def expectedReserveInput_def expectedGrossOutput_def invariantInput_def\<close>)
  next
    case Sell
    show ?thesis
      by (rule sell_silent [where x = "invariantInput q"])
        (use a assms(2) Sell in \<open>simp_all add: quoted_swap_def pool_as_quoted_def Let_def expectedReceipt_def
          expectedReflectionFee_def expectedReserveInput_def expectedGrossOutput_def invariantInput_def expectedSellReflection_def\<close>)
  qed
qed

end
