(* ===== verification/Draft_Encoder.thy ===== *)
theory Draft_Encoder
  imports Sdk_Values
begin

text \<open>
  Transaction drafts (\<open>packages/protocol-sdk/src/types.ts\<close> and \<open>cedra-draft-encoder.ts\<close>): the shape of every
  supported entry function, the run-time validation of a draft, and its encoding as the payload of an
  entry function for the given package publishers.
\<close>

section \<open>Entry shapes\<close>

datatype move_argument_kind = Kind_u64 | Kind_u128 | Kind_address

record entry_shape =
  es_functionId :: string
  es_argumentKinds :: "move_argument_kind list"

definition ENTRY_SHAPES :: "(string \<times> entry_shape list) list" where
  "ENTRY_SHAPES = [
     (''faucet_claim'', [\<lparr>es_functionId = ''test_assets::test_faucet::claim_trfl'', es_argumentKinds = []\<rparr>,
       \<lparr>es_functionId = ''test_assets::test_faucet::claim_tusd'', es_argumentKinds = []\<rparr>]),
     (''swap'', [\<lparr>es_functionId = ''test_amm::pool::buy_trfl'', es_argumentKinds = [Kind_u64, Kind_u64, Kind_u64]\<rparr>,
       \<lparr>es_functionId = ''test_amm::pool::sell_trfl'', es_argumentKinds = [Kind_u64, Kind_u64, Kind_u64]\<rparr>]),
     (''claim_rewards'', [\<lparr>es_functionId = ''reflection_core::reflection_token::claim'', es_argumentKinds = [Kind_u64]\<rparr>,
       \<lparr>es_functionId = ''reflection_core::reflection_token::claim_all'', es_argumentKinds = []\<rparr>]),
     (''add_liquidity'', [\<lparr>es_functionId = ''test_amm::pool::add_liquidity'',
       es_argumentKinds = [Kind_u64, Kind_u64, Kind_u128, Kind_u64]\<rparr>]),
     (''remove_liquidity'', [\<lparr>es_functionId = ''test_amm::pool::remove_liquidity'',
       es_argumentKinds = [Kind_u128, Kind_u64, Kind_u64, Kind_u64]\<rparr>]),
     (''transfer_lp_shares'', [\<lparr>es_functionId = ''test_amm::pool::transfer_lp_shares'',
       es_argumentKinds = [Kind_address, Kind_u128]\<rparr>]),
     (''claim_lp_rewards'', [\<lparr>es_functionId = ''test_amm::pool::claim_lp_rewards'', es_argumentKinds = [Kind_u64, Kind_u64]\<rparr>]),
     (''checkpoint_lp_rewards'', [\<lparr>es_functionId = ''test_amm::pool::checkpoint_lp_rewards'', es_argumentKinds = []\<rparr>])]"

section \<open>Drafts\<close>

text \<open>A draft as the client writes it (\<open>TransactionDraft\<close>), and the object it is.\<close>

record transaction_draft =
  td_kind :: string
  td_functionId :: string
  td_arguments :: "js_val list"
  td_secondarySignerAddresses :: "string list"
  td_expirationUnixSeconds :: int
  td_warning :: string

definition draft_tree :: "transaction_draft \<Rightarrow> js_val" where
  "draft_tree d = JObj [(''kind'', JStr (td_kind d)), (''functionId'', JStr (td_functionId d)),
     (''arguments'', JArr (td_arguments d)), (''secondarySignerAddresses'', JArr (map JStr (td_secondarySignerAddresses d))),
     (''expirationUnixSeconds'', JBig (td_expirationUnixSeconds d)), (''warning'', JStr (td_warning d))]"

abbreviation draft_arguments :: "js_val \<Rightarrow> js_val list" where
  "draft_arguments draft \<equiv> arr_of (js_get draft ''arguments'')"

abbreviation draft_expiration :: "js_val \<Rightarrow> int" where
  "draft_expiration draft \<equiv> big_of (js_get draft ''expirationUnixSeconds'')"

definition canonicalAddressKey :: "js_val \<Rightarrow> string result" where
  "canonicalAddressKey v = (case v of
       JStr s \<Rightarrow>
         if \<not> is_account_address s then Inl (TypeError (''Invalid Cedra account address: '' @ s))
         else if address_digits s = ''0''
         then Inl (TypeError ''Cedra signer and module publisher addresses cannot be zero'')
         else Inr (address_digits s)
     | _ \<Rightarrow> Inl (TypeError (''Invalid Cedra account address: '' @ js_String v)))"

fun move_argument_max :: "move_argument_kind \<Rightarrow> int" where
  "move_argument_max Kind_u64 = MOVE_U64_MAX"
| "move_argument_max Kind_u128 = MOVE_U128_MAX"
| "move_argument_max Kind_address = 0"

fun kind_str :: "move_argument_kind \<Rightarrow> string" where
  "kind_str Kind_u64 = ''u64''"
| "kind_str Kind_u128 = ''u128''"
| "kind_str Kind_address = ''address''"

definition assertMoveArgument :: "js_val \<Rightarrow> move_argument_kind \<Rightarrow> nat \<Rightarrow> unit result" where
  "assertMoveArgument v kind index =
     (if kind = Kind_address then rbind (canonicalAddressKey v) (\<lambda>_. Inr ())
      else case v of
          JBig n \<Rightarrow> rensure (0 \<le> n \<and> n \<le> move_argument_max kind)
            (TypeError (''Move argument '' @ nat_str index @ '' must be a bigint in the '' @ kind_str kind @ '' domain''))
        | _ \<Rightarrow> Inl (TypeError (''Move argument '' @ nat_str index @ '' must be a bigint in the '' @ kind_str kind @ '' domain'')))"

fun assertMoveArguments :: "nat \<Rightarrow> js_val list \<Rightarrow> move_argument_kind list \<Rightarrow> unit result" where
  "assertMoveArguments i (v # vs) (k # ks) = rbind (assertMoveArgument v k i) (\<lambda>_. assertMoveArguments (Suc i) vs ks)"
| "assertMoveArguments i _ _ = Inr ()"

definition draft_argument :: "js_val \<Rightarrow> nat \<Rightarrow> js_val option" where
  "draft_argument draft i = (if i < length (draft_arguments draft) then Some (draft_arguments draft ! i) else None)"

definition assertPositiveArgument :: "js_val \<Rightarrow> nat \<Rightarrow> string \<Rightarrow> unit result" where
  "assertPositiveArgument draft index label = (case draft_argument draft index of
       Some (JBig n) \<Rightarrow> rensure (0 < n) (RangeError (label @ '' must be positive''))
     | _ \<Rightarrow> Inl (RangeError (label @ '' must be positive'')))"

definition assertDeadlineMatchesExpiration :: "js_val \<Rightarrow> nat \<Rightarrow> unit result" where
  "assertDeadlineMatchesExpiration draft index =
     (let refused = RangeError ''on-chain deadline must be positive and equal the transaction draft expiration'' in
      case draft_argument draft index of
        Some (JBig n) \<Rightarrow> rensure (0 < n \<and> n = draft_expiration draft) refused
      | _ \<Rightarrow> Inl refused)"

definition assertEntrySemantics :: "js_val \<Rightarrow> string \<Rightarrow> unit result" where
  "assertEntrySemantics draft functionId =
     (if functionId = ''reflection_core::reflection_token::claim'' then
        assertPositiveArgument draft 0 ''reward claim amount''
      else if functionId = ''test_amm::pool::buy_trfl'' \<or> functionId = ''test_amm::pool::sell_trfl'' then
        rseq [assertPositiveArgument draft 0 ''swap gross amount'', assertDeadlineMatchesExpiration draft 2]
      else if functionId = ''test_amm::pool::add_liquidity'' then
        rseq [assertPositiveArgument draft 0 ''maximum tRFL contribution'',
          assertPositiveArgument draft 1 ''maximum tUSD contribution'', assertDeadlineMatchesExpiration draft 3]
      else if functionId = ''test_amm::pool::remove_liquidity'' then
        rseq [assertPositiveArgument draft 0 ''LP shares'', assertDeadlineMatchesExpiration draft 3]
      else if functionId = ''test_amm::pool::transfer_lp_shares'' then
        assertPositiveArgument draft 1 ''LP shares''
      else if functionId = ''test_amm::pool::claim_lp_rewards'' then
        assertPositiveArgument draft 0 ''LP epoch''
      else Inr ())"

definition knownEntryShape :: "js_val \<Rightarrow> entry_shape result" where
  "knownEntryShape draft =
     (if \<not> is_object (Some draft) then Inl (TypeError ''Cedra transaction draft must be an object'')
      else if \<not> is_string (js_field draft ''kind'')
        \<or> map_get ENTRY_SHAPES (str_of (js_get draft ''kind'')) = None
        \<or> \<not> is_string (js_field draft ''functionId'')
        \<or> \<not> is_array (js_field draft ''arguments'')
        \<or> \<not> is_array (js_field draft ''secondarySignerAddresses'')
        \<or> \<not> is_bigint (js_field draft ''expirationUnixSeconds'')
        \<or> draft_expiration draft \<le> 0 \<or> MOVE_U64_MAX < draft_expiration draft
        \<or> \<not> is_string (js_field draft ''warning'') \<or> str_of (js_get draft ''warning'') = []
      then Inl (TypeError ''Cedra transaction draft has invalid runtime fields'')
      else case find (\<lambda>shape. es_functionId shape = str_of (js_get draft ''functionId'')
          \<and> length (es_argumentKinds shape) = length (draft_arguments draft)
          \<and> arr_of (js_get draft ''secondarySignerAddresses'') = [])
          (the (map_get ENTRY_SHAPES (str_of (js_get draft ''kind'')))) of
        None \<Rightarrow> Inl (TypeError (''Draft kind '' @ str_of (js_get draft ''kind'') @ '' does not match a supported entry-function shape''))
      | Some shape \<Rightarrow>
          rbind (assertMoveArguments 0 (draft_arguments draft) (es_argumentKinds shape)) (\<lambda>_.
          rbind (rseq (map (\<lambda>s. rbind (canonicalAddressKey s) (\<lambda>_. Inr ())) (arr_of (js_get draft ''secondarySignerAddresses'')))) (\<lambda>_.
          rbind (assertEntrySemantics draft (es_functionId shape)) (\<lambda>_. Inr shape))))"

definition assertCedraTransactionDraft :: "js_val \<Rightarrow> unit result" where
  "assertCedraTransactionDraft draft = rbind (knownEntryShape draft) (\<lambda>_. Inr ())"

section \<open>Encoding\<close>

record module_addresses =
  ma_reflectionCore :: string
  ma_testAssets :: string
  ma_testAmm :: string

record entry_function_data =
  ef_function :: string
  ef_functionArguments :: "js_val list"

definition publisherForFunction :: "string \<Rightarrow> module_addresses \<Rightarrow> string result" where
  "publisherForFunction functionId modules =
     (let packageName = hd (split_colons [] functionId) in
      rbind (if packageName = ''reflection_core'' then Inr (ma_reflectionCore modules)
        else if packageName = ''test_assets'' then Inr (ma_testAssets modules)
        else if packageName = ''test_amm'' then Inr (ma_testAmm modules)
        else Inl (TypeError (''Draft refers to unsupported package '' @ packageName))) (\<lambda>publisher.
      rbind (canonicalAddressKey (JStr publisher)) (\<lambda>_. Inr publisher)))"

definition assertModuleAddresses :: "module_addresses \<Rightarrow> unit result" where
  "assertModuleAddresses modules =
     rbind (canonicalAddressKey (JStr (ma_reflectionCore modules))) (\<lambda>core.
     rbind (canonicalAddressKey (JStr (ma_testAssets modules))) (\<lambda>assets.
     rbind (canonicalAddressKey (JStr (ma_testAmm modules))) (\<lambda>amm.
     rensure (distinct [core, assets, amm])
       (TypeError ''Core, asset, and AMM package publishers must be distinct canonical addresses''))))"

definition argument_text :: "js_val \<Rightarrow> js_val" where
  "argument_text v = (case v of JBig n \<Rightarrow> JStr (int_str n) | _ \<Rightarrow> v)"

definition encodePayload :: "js_val \<Rightarrow> module_addresses \<Rightarrow> entry_function_data result" where
  "encodePayload draft modules =
     rbind (assertModuleAddresses modules) (\<lambda>_.
     let functionId = str_of (js_get draft ''functionId'') in
     case split_colons [] functionId of
       [packageName, moduleName, functionName] \<Rightarrow>
         rbind (publisherForFunction functionId modules) (\<lambda>publisher.
         Inr \<lparr>ef_function = publisher @ ''::'' @ moduleName @ ''::'' @ functionName,
           ef_functionArguments = map argument_text (draft_arguments draft)\<rparr>)
     | _ \<Rightarrow> Inl (TypeError (''Unqualified draft function id: '' @ functionId)))"

definition encodeCedraEntryFunction :: "js_val \<Rightarrow> module_addresses \<Rightarrow> entry_function_data result" where
  "encodeCedraEntryFunction draft modules =
     rbind (knownEntryShape draft) (\<lambda>_.
     if arr_of (js_get draft ''secondarySignerAddresses'') \<noteq> []
     then Inl (TypeError (''A multi-agent draft cannot be encoded as a single-signer entry. ''
       @ ''Use encodeCedraMultiAgentEntryFunction instead.''))
     else encodePayload draft modules)"

end
