(* ===== verification/Safe_Client.thy ===== *)
theory Safe_Client
  imports Swap_Quotes Draft_Encoder
begin

text \<open>
  The client of applications (\<open>packages/protocol-sdk/src/safe-client.ts\<close>, class \<open>ReflectionPilotClient\<close>).
  What the injected read adapter answers to a call is an argument of the operation, \<open>answer\<close>; the clock
  answers \<open>cl_clock k\<close> to its \<open>k\<close>-th call. Objects have an identity: the client issues \<open>Issued\<close> ones, and a
  caller may pass any object with any content, so a \<open>WeakMap\<close> is a map on identities and freezing an
  object adds nothing. The writer is the injected function, if there is one. A method that awaits the
  adapter touches the client only after that, so it is one step; the clock may answer anything to any
  call, in particular what it answers when other methods run in between.
\<close>

section \<open>The client\<close>

datatype js_ref = Issued nat | Foreign nat

record js_object =
  ob_ref :: js_ref
  ob_value :: js_val

record client =
  cl_writer :: "(js_val \<Rightarrow> js_val result) option"
  cl_clock :: "nat \<Rightarrow> js_val result"
  cl_calls :: nat
  cl_issued :: nat
  cl_verifiedSwapQuotes :: "(js_ref, string) jsmap"
  cl_verifiedSwapDrafts :: "(js_ref, string) jsmap"

text \<open>The dash of the warning, U+2014, is no 8-bit character; it is written as \<open>CHR 0x97\<close>.\<close>

definition TESTNET_NO_VALUE_WARNING :: string where
  "TESTNET_NO_VALUE_WARNING = ''TESTNET ASSET '' @ [CHR 0x97] @ '' NO MONETARY VALUE '' @ [CHR 0x97]
     @ '' STATE AND ADDRESSES MAY CHANGE''"

definition ReflectionPilotClient :: "(js_val \<Rightarrow> js_val result) option \<Rightarrow> (nat \<Rightarrow> js_val result) \<Rightarrow> client" where
  "ReflectionPilotClient writer clock = \<lparr>cl_writer = writer, cl_clock = clock, cl_calls = 0, cl_issued = 0,
     cl_verifiedSwapQuotes = [], cl_verifiedSwapDrafts = []\<rparr>"

section \<open>Time\<close>

definition currentTime :: "(client, int) io" where
  "currentTime c = io_lift (rbind (cl_clock c (cl_calls c)) (\<lambda>now.
       rbind (assertUnsigned (Some now) MOVE_U64_MAX ''current Unix time'') (\<lambda>_. Inr (big_of now))))
     (c\<lparr>cl_calls := Suc (cl_calls c)\<rparr>)"

definition defaultExpiration :: "(client, int) io" where
  "defaultExpiration = io_bind currentTime (\<lambda>now. io_lift (
     if MOVE_U64_MAX - 15 * 60 < now
     then Inl (RangeError ''default transaction expiration exceeds the Move u64 timestamp domain'')
     else Inr (now + 15 * 60)))"

definition io_assertFutureDeadline :: "js_val option \<Rightarrow> (client, unit) io" where
  "io_assertFutureDeadline deadline = io_bind currentTime (\<lambda>now. io_lift (assertFutureDeadline deadline now))"

section \<open>Reads\<close>

definition getPortfolio :: "js_val \<Rightarrow> js_val result \<Rightarrow> js_val result" where
  "getPortfolio account answer = rbind (assertNonZeroAddress account ''portfolio account'') (\<lambda>_. answer)"

definition getProtocol :: "js_val result \<Rightarrow> js_val result" where
  "getProtocol answer = answer"

definition getPool :: "js_val result \<Rightarrow> js_val result" where
  "getPool answer = answer"

definition getLpEpochTerminalDust :: "js_val \<Rightarrow> js_val result \<Rightarrow> js_val result" where
  "getLpEpochTerminalDust epoch answer =
     rbind (assertPositive (Some epoch) MOVE_U64_MAX ''LP epoch'') (\<lambda>_.
     rbind answer (\<lambda>observed.
     rbind (rensure (is_object (Some observed) \<and> js_field observed ''epoch'' = Some epoch)
       (TypeError ''LP terminal-dust adapter returned a result for a different epoch'')) (\<lambda>_.
     rbind (rseq
       [assertUnsigned (js_field observed ''terminalRoundingBaseUnits'') MOVE_U128_MAX ''terminal LP rounding base units'',
        assertUnsigned (js_field observed ''retiredResidueMagnified'') MOVE_U256_MAX ''retired LP residue magnified units'',
        assertPositive (js_field observed ''ledgerVersion'') MOVE_U64_MAX ''LP terminal-dust ledger version'']) (\<lambda>_.
     Inr observed))))"

definition getFaucetStatus :: "js_val \<Rightarrow> js_val \<Rightarrow> js_val result \<Rightarrow> js_val result" where
  "getFaucetStatus account asset answer =
     rbind (assertNonZeroAddress account ''faucet account'') (\<lambda>_. rbind (assertFaucetAsset asset) (\<lambda>_. answer))"

section \<open>Quotes\<close>

definition issue :: "js_val \<Rightarrow> (client, js_object) io" where
  "issue v c = (Inr \<lparr>ob_ref = Issued (cl_issued c), ob_value = v\<rparr>, c\<lparr>cl_issued := Suc (cl_issued c)\<rparr>)"

definition same_inputs :: "js_val \<Rightarrow> js_val \<Rightarrow> bool" where
  "same_inputs v input = list_all (\<lambda>key. js_field v key = js_field input key)
     [''direction'', ''grossAmount'', ''slippageBps'', ''deadlineUnixSeconds'']"

definition remember_quote :: "js_object \<Rightarrow> (client, js_object) io" where
  "remember_quote q c =
     (Inr q, c\<lparr>cl_verifiedSwapQuotes := map_set (ob_ref q) (swapQuoteFingerprint (ob_value q)) (cl_verifiedSwapQuotes c)\<rparr>)"

definition quoteSwap :: "js_val \<Rightarrow> js_val result \<Rightarrow> (client, js_object) io" where
  "quoteSwap input answer =
     io_bind (io_lift (rseq
       [assertSwapDirection (js_field input ''direction''),
        assertPositive (js_field input ''grossAmount'') MOVE_U64_MAX ''swap amount'',
        assertUnsigned (js_field input ''slippageBps'') MOVE_U64_MAX ''slippage'',
        rensure (0 \<le> big_of (js_get input ''slippageBps'') \<and> big_of (js_get input ''slippageBps'') \<le> BPS_DENOMINATOR)
          (RangeError ''slippage must be between 0 and 10,000 basis points'')])) (\<lambda>_.
     io_bind (io_assertFutureDeadline (js_field input ''deadlineUnixSeconds'')) (\<lambda>_.
     io_bind (io_lift answer) (\<lambda>quote.
     io_bind currentTime (\<lambda>now.
     io_bind (io_lift (assertSwapQuote quote now)) (\<lambda>_.
     io_bind (io_lift (rensure (same_inputs quote input)
       (TypeError ''read adapter returned a quote for different declared inputs''))) (\<lambda>_.
     io_bind (issue quote) remember_quote))))))"

section \<open>Drafts\<close>

definition createDraft :: "string \<Rightarrow> string \<Rightarrow> js_val list \<Rightarrow> int option \<Rightarrow> (client, js_object) io" where
  "createDraft kind functionId args expirationUnixSeconds =
     io_bind (case expirationUnixSeconds of None \<Rightarrow> defaultExpiration | Some e \<Rightarrow> io_return e) (\<lambda>expiration.
     io_bind (io_lift (rseq
       [assertUnsigned (Some (JBig expiration)) MOVE_U64_MAX ''transaction expiration'',
        rensure (0 < expiration) (RangeError ''transaction expiration must be positive'')])) (\<lambda>_.
     let draft = draft_tree \<lparr>td_kind = kind, td_functionId = functionId, td_arguments = args,
       td_secondarySignerAddresses = [], td_expirationUnixSeconds = expiration, td_warning = TESTNET_NO_VALUE_WARNING\<rparr> in
     io_bind (io_lift (assertCedraTransactionDraft draft)) (\<lambda>_. issue draft)))"

definition createFaucetClaimDraft :: "js_val \<Rightarrow> (client, js_object) io" where
  "createFaucetClaimDraft asset = io_bind (io_lift (assertFaucetAsset asset)) (\<lambda>_.
     createDraft ''faucet_claim'' (if asset = JStr ''tRFL'' then ''test_assets::test_faucet::claim_trfl''
       else ''test_assets::test_faucet::claim_tusd'') [] None)"

definition createRewardClaimDraft :: "js_val \<Rightarrow> (client, js_object) io" where
  "createRewardClaimDraft amount = io_bind (io_lift (assertPositive (Some amount) MOVE_U64_MAX ''claim amount'')) (\<lambda>_.
     createDraft ''claim_rewards'' ''reflection_core::reflection_token::claim'' [amount] None)"

definition createRewardClaimAllDraft :: "(client, js_object) io" where
  "createRewardClaimAllDraft = createDraft ''claim_rewards'' ''reflection_core::reflection_token::claim_all'' [] None"

definition transactionDraftFingerprint :: "js_val \<Rightarrow> string" where
  "transactionDraftFingerprint draft = encodeBigInts (JArr
     [js_get draft ''kind'', js_get draft ''functionId'', JArr (map argument_text (draft_arguments draft)),
      js_get draft ''secondarySignerAddresses'', JStr (int_str (draft_expiration draft)), js_get draft ''warning''])"

definition remember_draft :: "js_object \<Rightarrow> (client, js_object) io" where
  "remember_draft d c =
     (Inr d, c\<lparr>cl_verifiedSwapDrafts := map_set (ob_ref d) (transactionDraftFingerprint (ob_value d)) (cl_verifiedSwapDrafts c)\<rparr>)"

text \<open>\<open>detachedFrozenDraft\<close> makes a new object with the same content.\<close>

definition createSwapDraft :: "js_object \<Rightarrow> (client, js_object) io" where
  "createSwapDraft issuedQuote c = (case map_get (cl_verifiedSwapQuotes c) (ob_ref issuedQuote) of
       None \<Rightarrow> (Inl (UnverifiedSwapQuoteError ''quote was not issued by this client from a finalized read''), c)
     | Some expectedFingerprint \<Rightarrow>
       io_bind currentTime (\<lambda>now.
       io_bind (io_lift (assertSwapQuote (ob_value issuedQuote) now)) (\<lambda>_.
       io_bind (io_lift (rensure (swapQuoteFingerprint (ob_value issuedQuote) = expectedFingerprint)
         (UnverifiedSwapQuoteError ''issued quote was mutated after verification''))) (\<lambda>_.
       let q = quote_of (ob_value issuedQuote) in
       io_bind (createDraft ''swap'' (if sq_direction q = Buy then ''test_amm::pool::buy_trfl'' else ''test_amm::pool::sell_trfl'')
         [JBig (sq_grossAmount q), JBig (sq_minimumNetUserReceipt q), JBig (sq_deadlineUnixSeconds q)]
         (Some (sq_deadlineUnixSeconds q))) (\<lambda>draft.
       io_bind (issue (ob_value draft)) remember_draft)))) c)"

definition quoteAndCreateSwapDraft :: "js_val \<Rightarrow> js_val result \<Rightarrow> (client, js_object \<times> js_object) io" where
  "quoteAndCreateSwapDraft input answer =
     io_bind (quoteSwap input answer) (\<lambda>quote. io_bind (createSwapDraft quote) (\<lambda>draft. io_return (quote, draft)))"

definition createAddLiquidityDraft :: "js_val \<Rightarrow> (client, js_object) io" where
  "createAddLiquidityDraft input =
     io_bind (io_lift (rseq
       [assertPositive (js_field input ''maxRfl'') MOVE_U64_MAX ''maximum tRFL contribution'',
        assertPositive (js_field input ''maxUsd'') MOVE_U64_MAX ''maximum tUSD contribution'',
        assertUnsigned (js_field input ''minLpShares'') MOVE_U128_MAX ''minimum LP shares''])) (\<lambda>_.
     io_bind (io_assertFutureDeadline (js_field input ''deadlineUnixSeconds'')) (\<lambda>_.
     createDraft ''add_liquidity'' ''test_amm::pool::add_liquidity''
       (map (js_get input) [''maxRfl'', ''maxUsd'', ''minLpShares'', ''deadlineUnixSeconds''])
       (Some (big_of (js_get input ''deadlineUnixSeconds'')))))"

definition createRemoveLiquidityDraft :: "js_val \<Rightarrow> (client, js_object) io" where
  "createRemoveLiquidityDraft input =
     io_bind (io_lift (rseq
       [assertPositive (js_field input ''shares'') MOVE_U128_MAX ''LP shares'',
        assertUnsigned (js_field input ''minRfl'') MOVE_U64_MAX ''minimum tRFL output'',
        assertUnsigned (js_field input ''minUsd'') MOVE_U64_MAX ''minimum tUSD output''])) (\<lambda>_.
     io_bind (io_assertFutureDeadline (js_field input ''deadlineUnixSeconds'')) (\<lambda>_.
     createDraft ''remove_liquidity'' ''test_amm::pool::remove_liquidity''
       (map (js_get input) [''shares'', ''minRfl'', ''minUsd'', ''deadlineUnixSeconds''])
       (Some (big_of (js_get input ''deadlineUnixSeconds'')))))"

definition createTransferLpSharesDraft :: "js_val \<Rightarrow> js_val \<Rightarrow> (client, js_object) io" where
  "createTransferLpSharesDraft recipient shares =
     io_bind (io_lift (rseq
       [assertNonZeroAddress recipient ''LP share recipient'', assertPositive (Some shares) MOVE_U128_MAX ''LP shares''])) (\<lambda>_.
     createDraft ''transfer_lp_shares'' ''test_amm::pool::transfer_lp_shares'' [recipient, shares] None)"

definition createLpRewardClaimDraft :: "js_val \<Rightarrow> js_val \<Rightarrow> (client, js_object) io" where
  "createLpRewardClaimDraft epoch amount =
     io_bind (io_lift (rseq
       [assertPositive (Some epoch) MOVE_U64_MAX ''LP reward epoch'', assertUnsigned (Some amount) MOVE_U64_MAX ''LP reward claim amount''])) (\<lambda>_.
     createDraft ''claim_lp_rewards'' ''test_amm::pool::claim_lp_rewards'' [epoch, amount] None)"

definition createCheckpointLpRewardsDraft :: "(client, js_object) io" where
  "createCheckpointLpRewardsDraft = createDraft ''checkpoint_lp_rewards'' ''test_amm::pool::checkpoint_lp_rewards'' [] None"

section \<open>Submission\<close>

text \<open>The checks of \<open>submit\<close>, which give the writer to call; then the call.\<close>

definition authorizeSubmission :: "js_object \<Rightarrow> (client, js_val \<Rightarrow> js_val result) io" where
  "authorizeSubmission draft =
     io_bind (io_lift (assertCedraTransactionDraft (ob_value draft))) (\<lambda>_.
     io_bind (if js_field (ob_value draft) ''kind'' \<noteq> Some (JStr ''swap'') then io_return ()
       else (\<lambda>c. if map_get (cl_verifiedSwapDrafts c) (ob_ref draft) \<noteq> Some (transactionDraftFingerprint (ob_value draft))
         then (Inl (UnverifiedSwapDraftError ''draft was not issued intact from this client's verified quote path''), c)
         else io_bind currentTime (\<lambda>now. io_lift (rensure (now < draft_expiration (ob_value draft))
           (RangeError ''swap draft has expired''))) c)) (\<lambda>_.
     io_bind (io_lift (rensure (arr_of (js_get (ob_value draft) ''secondarySignerAddresses'') = [])
       MultiAgentSubmissionRequiredError)) (\<lambda>_ c.
     (case cl_writer c of None \<Rightarrow> Inl StateChangingCallsDisabledError | Some writer \<Rightarrow> Inr writer, c))))"

definition submit :: "js_object \<Rightarrow> (client, js_val) io" where
  "submit draft = io_bind (authorizeSubmission draft) (\<lambda>writer. io_lift (writer (ob_value draft)))"

end
