(* ===== verification/Quote_Agreement.thy ===== *)
theory Quote_Agreement
  imports Adapter_Reads Quote_Economics Safe_Client
begin

text \<open>
  The two halves of the SDK agree: a quote that the read adapter returns passes the independent checks of
  the client, except for a deployment identifier that the manifest admits and the client does not, and a
  deadline that has passed on the client's clock.
\<close>

section \<open>What the adapter has checked\<close>

lemma view_unsigned_Inr: "view_unsigned v bits fid = Inr n \<Longrightarrow> 0 \<le> n \<and> n \<le> move_max bits"
  by (auto simp: view_unsigned_def result_simps split: if_splits)

lemma view_unsigned_big [result_simps]: "view_unsigned (JBig n) bits fid = Inr k \<longleftrightarrow> k = n \<and> 0 \<le> n \<and> n \<le> move_max bits"
  by (auto simp: view_unsigned_def)

lemma manifest_accepted:
  assumes "assertManifest m = Inr ()"
  shows "fm_chainId m = CEDRA_TESTNET_CHAIN_ID" "fm_deploymentId m \<noteq> []" "is_package_version (fm_packageVersion m)"
    "0 < fm_finalizedLedgerVersion m"
  using assms by (auto simp: assertManifest_def Let_def result_simps)

lemma manifest_copied:
  assumes "copyManifest m = Inr m'"
  shows "fm_chainId m' = fm_chainId m" "fm_deploymentId m' = fm_deploymentId m" "fm_packageVersion m' = fm_packageVersion m"
    "fm_finalizedLedgerVersion m' = fm_finalizedLedgerVersion m" "fm_networkLabel m' = fm_networkLabel m"
  using assms by (auto simp: copyManifest_def Let_def result_simps)

lemma adapter_manifest:
  assumes "FinalizedCedraReadAdapter vc m = Inr ra"
  shows "fm_chainId (ra_manifest ra) = CEDRA_TESTNET_CHAIN_ID" "fm_deploymentId (ra_manifest ra) = fm_deploymentId m"
    "fm_deploymentId m \<noteq> []" "is_package_version (fm_packageVersion (ra_manifest ra))" "0 < fm_finalizedLedgerVersion (ra_manifest ra)"
    "ra_client ra = vc"
proof -
  obtain copy where "assertManifest m = Inr ()" "copyManifest m = Inr copy" "ra = \<lparr>ra_client = vc, ra_manifest = copy\<rparr>"
    using assms by (auto simp: FinalizedCedraReadAdapter_def result_simps)
  with manifest_accepted manifest_copied show
    "fm_chainId (ra_manifest ra) = CEDRA_TESTNET_CHAIN_ID" "fm_deploymentId (ra_manifest ra) = fm_deploymentId m"
    "fm_deploymentId m \<noteq> []" "is_package_version (fm_packageVersion (ra_manifest ra))" "0 < fm_finalizedLedgerVersion (ra_manifest ra)"
    "ra_client ra = vc"
    by simp_all
qed

lemma header_unsigned: "header_field header key = Inr n \<Longrightarrow> 0 \<le> n \<and> n \<le> MOVE_U64_MAX"
  using view_unsigned_Inr [of "js_get header key" U64] by (simp add: header_field_def)

lemma pinned_ledger:
  assumes "pinLedger ra = Inr ident"
  shows "vi_chainId ident = CEDRA_TESTNET_CHAIN_ID" "fm_finalizedLedgerVersion (ra_manifest ra) \<le> vi_version ident"
    "vi_version ident \<le> MOVE_U64_MAX"
proof -
  obtain header version timestamp where "header_field header ''ledger_version'' = Inr version"
    "\<not> version < fm_finalizedLedgerVersion (ra_manifest ra)"
    "ident = \<lparr>vi_chainId = CEDRA_TESTNET_CHAIN_ID, vi_version = version,
       vi_timestampUnixSeconds = bigint_quot timestamp 1000000, vi_packageVersion = []\<rparr>"
    using assms by (auto simp: pinLedger_def result_simps split: if_splits)
  then show "vi_chainId ident = CEDRA_TESTNET_CHAIN_ID" "fm_finalizedLedgerVersion (ra_manifest ra) \<le> vi_version ident"
    "vi_version ident \<le> MOVE_U64_MAX"
    using header_unsigned by (simp_all add: not_less)
qed

lemma pinned_identity_facts:
  assumes "pinAndValidateIdentity text ra = Inr ident"
  shows "vi_chainId ident = CEDRA_TESTNET_CHAIN_ID" "fm_finalizedLedgerVersion (ra_manifest ra) \<le> vi_version ident"
    "vi_version ident \<le> MOVE_U64_MAX" "vi_packageVersion ident = fm_packageVersion (ra_manifest ra)"
proof -
  obtain ledger vs p where l: "pinLedger ra = Inr ledger" "check_identity text ra vs = Inr p"
    "ident = ledger\<lparr>vi_packageVersion := p\<rparr>"
    using assms by (auto simp: pinAndValidateIdentity_def result_simps)
  show "vi_packageVersion ident = fm_packageVersion (ra_manifest ra)"
    using l(2,3) by (auto simp: check_identity_def Let_def expectText_def result_simps)
  show "vi_chainId ident = CEDRA_TESTNET_CHAIN_ID" "fm_finalizedLedgerVersion (ra_manifest ra) \<le> vi_version ident"
    "vi_version ident \<le> MOVE_U64_MAX"
    using pinned_ledger [OF l(1)] by (simp_all add: l(3))
qed

lemma swap_input_checked:
  assumes "check_swap_input input = Inr ()"
  shows "0 < si_grossAmount input" "si_grossAmount input \<le> MOVE_U64_MAX" "0 \<le> si_slippageBps input"
    "si_slippageBps input \<le> BPS_DENOMINATOR" "0 \<le> si_deadlineUnixSeconds input" "si_deadlineUnixSeconds input \<le> MOVE_U64_MAX"
    "si_direction input = ''buy'' \<or> si_direction input = ''sell''"
  using assms by (auto simp: check_swap_input_def result_simps)

lemma quote_views_read:
  assumes "read_quote_views ra version input = Inr vs"
  shows "0 \<le> qv_firstOutput vs" "qv_firstOutput vs \<le> MOVE_U64_MAX" "0 \<le> qv_reflectionFee vs" "qv_reflectionFee vs \<le> MOVE_U64_MAX"
    "0 \<le> qv_ammFee vs" "qv_ammFee vs \<le> MOVE_U64_MAX" "0 \<le> qv_reflectionFeeBps vs" "qv_reflectionFeeBps vs \<le> 500"
    "0 \<le> qv_ammFeeBps vs" "qv_ammFeeBps vs \<le> 100" "0 < qv_maximumReserveBps vs" "qv_maximumReserveBps vs \<le> BPS_DENOMINATOR"
    "0 < qv_maximumGrossSwap vs" "qv_maximumGrossSwap vs \<le> MOVE_U64_MAX"
proof -
  obtain amounts limits fee where
    "view_unsigned (amounts ! 0) U64 (function_id (ra_amm ra) ''pool'' (if si_direction input = ''sell'' then ''quote_sell'' else ''quote_buy'')) = Inr (qv_firstOutput vs)"
    "view_unsigned (amounts ! 1) U64 (function_id (ra_amm ra) ''pool'' (if si_direction input = ''sell'' then ''quote_sell'' else ''quote_buy'')) = Inr (qv_reflectionFee vs)"
    "view_unsigned (amounts ! 2) U64 (function_id (ra_amm ra) ''pool'' (if si_direction input = ''sell'' then ''quote_sell'' else ''quote_buy'')) = Inr (qv_ammFee vs)"
    "view_unsigned fee U64 (function_id (ra_core ra) ''reflection_token'' ''reflection_fee_bps'') = Inr (qv_reflectionFeeBps vs)"
    "view_unsigned (limits ! 0) U64 (function_id (ra_amm ra) ''pool'' ''limits'') = Inr (qv_ammFeeBps vs)"
    "view_unsigned (limits ! 1) U64 (function_id (ra_amm ra) ''pool'' ''limits'') = Inr (qv_maximumReserveBps vs)"
    "view_unsigned (limits ! 2) U64 (function_id (ra_amm ra) ''pool'' ''limits'') = Inr (qv_maximumGrossSwap vs)"
    and l: "\<not> (500 < qv_reflectionFeeBps vs \<or> 100 < qv_ammFeeBps vs \<or> qv_maximumReserveBps vs = 0
        \<or> BPS_DENOMINATOR < qv_maximumReserveBps vs \<or> qv_maximumGrossSwap vs = 0)"
    using assms unfolding read_quote_views_def Let_def rbind_Inr_iff by (clarsimp split: if_splits)
  note u = this(1-7) [THEN view_unsigned_Inr]
  show "0 \<le> qv_firstOutput vs" "qv_firstOutput vs \<le> MOVE_U64_MAX" "0 \<le> qv_reflectionFee vs" "qv_reflectionFee vs \<le> MOVE_U64_MAX"
    "0 \<le> qv_ammFee vs" "qv_ammFee vs \<le> MOVE_U64_MAX" "0 \<le> qv_reflectionFeeBps vs" "qv_reflectionFeeBps vs \<le> 500"
    "0 \<le> qv_ammFeeBps vs" "qv_ammFeeBps vs \<le> 100" "0 < qv_maximumReserveBps vs" "qv_maximumReserveBps vs \<le> BPS_DENOMINATOR"
    "0 < qv_maximumGrossSwap vs" "qv_maximumGrossSwap vs \<le> MOVE_U64_MAX"
    using u l by simp_all
qed

section \<open>The quote of the adapter\<close>

lemma adapter_quote_facts:
  assumes "quote_from_views ra ident input vs = Inr q"
  defines "c \<equiv> sq_context q"
  shows "sq_grossAmount q = si_grossAmount input" "sq_slippageBps q = si_slippageBps input"
    "sq_deadlineUnixSeconds q = si_deadlineUnixSeconds input" "sq_direction q = (if si_direction input = ''sell'' then Sell else Buy)"
    "qc_chainId c = vi_chainId ident" "qc_ledgerVersion c = vi_version ident" "qc_deploymentId c = fm_deploymentId (ra_manifest ra)"
    "qc_packageVersion c = vi_packageVersion ident" "qc_reflectionFeeBps c = qv_reflectionFeeBps vs" "qc_ammFeeBps c = qv_ammFeeBps vs"
    "qc_maximumGrossSwap c = qv_maximumGrossSwap vs" "qc_maximumReserveBps c = qv_maximumReserveBps vs"
    "0 < qc_inputReserve c" "qc_inputReserve c \<le> MOVE_U64_MAX" "0 < qc_outputReserve c" "qc_outputReserve c \<le> MOVE_U64_MAX"
    "sq_grossAmount q \<le> qc_maximumGrossSwap c" "sq_grossAmount q * BPS_DENOMINATOR \<le> qc_inputReserve c * qc_maximumReserveBps c"
    "sq_reflectionFee q = qv_reflectionFee vs" "sq_ammFee q = qv_ammFee vs" "sq_netUserReceipt q = qv_firstOutput vs"
    "qv_firstOutput vs \<noteq> 0" "0 \<le> sq_netReserveInput q" "sq_ammFee q \<le> sq_netReserveInput q" "sq_grossPoolOutput q \<le> MOVE_U64_MAX"
    "sq_netReserveInput q = (if sq_direction q = Sell then sq_grossAmount q - sq_reflectionFee q else sq_grossAmount q)"
    "sq_grossPoolOutput q = (if sq_direction q = Sell then sq_netUserReceipt q else sq_netUserReceipt q + sq_reflectionFee q)"
    "sq_ammFee q = sq_netReserveInput q - bigint_quot (sq_netReserveInput q * (BPS_DENOMINATOR - qc_ammFeeBps c)) BPS_DENOMINATOR"
    "sq_grossPoolOutput q = bigint_quot (qc_outputReserve c * (sq_netReserveInput q - sq_ammFee q))
       (qc_inputReserve c + (sq_netReserveInput q - sq_ammFee q))"
    "sq_reflectionFee q = bigint_quot ((if sq_direction q = Sell then sq_grossAmount q else sq_grossPoolOutput q) * qc_reflectionFeeBps c)
       BPS_DENOMINATOR"
    "sq_minimumNetUserReceipt q = bigint_quot (sq_netUserReceipt q * (BPS_DENOMINATOR - sq_slippageBps q)) BPS_DENOMINATOR"
    "sq_priceImpactBps q = bigint_quot ((sq_netReserveInput q - sq_ammFee q) * BPS_DENOMINATOR)
       (qc_inputReserve c + (sq_netReserveInput q - sq_ammFee q))"
  using assms(1) unfolding c_def
  by (clarsimp simp: quote_from_views_def Let_def rbind_Inr_iff simp del: bigint_quot_nonneg dest!: view_unsigned_Inr
      split: if_splits)+

lemma adapter_quote_acceptable:
  assumes "FinalizedCedraReadAdapter vc m = Inr ra" "adapter_quoteSwap text ra input = Inr q"
  shows "acceptable_quote q now \<longleftrightarrow> now < sq_deadlineUnixSeconds q \<and> length (fm_deploymentId m) \<le> 512"
proof -
  obtain ident vs where i: "check_swap_input input = Inr ()" "pinAndValidateIdentity text ra = Inr ident"
    "read_quote_views ra (vi_version ident) input = Inr vs" "quote_from_views ra ident input vs = Inr q"
    using assms(2) by (auto simp: adapter_quoteSwap_def result_simps split: if_splits)
  note input = swap_input_checked [OF i(1)] note ident = pinned_identity_facts [OF i(2)]
  note views = quote_views_read [OF i(3)] note q = adapter_quote_facts [OF i(4)] note m = adapter_manifest [OF assms(1)]
  let ?c = "sq_context q"
  have rates: "0 \<le> qc_reflectionFeeBps ?c" "qc_reflectionFeeBps ?c \<le> 500" "0 \<le> qc_ammFeeBps ?c" "qc_ammFeeBps ?c \<le> 100"
    using q(9,10) views by simp_all
  have gross: "0 < sq_grossAmount q" "sq_grossAmount q \<le> MOVE_U64_MAX" using q(1) input by simp_all
  have receipt: "0 < sq_netUserReceipt q" "sq_netUserReceipt q \<le> MOVE_U64_MAX" using q(21,22) views by simp_all
  have fee: "0 \<le> sq_reflectionFee q" "sq_reflectionFee q \<le> MOVE_U64_MAX" "0 \<le> sq_ammFee q" "sq_ammFee q \<le> MOVE_U64_MAX"
    using q(19,20) views by simp_all
  have sell_fee: "sq_reflectionFee q < sq_grossAmount q" if "sq_direction q = Sell"
    using bps_bound [of "sq_grossAmount q" "qc_reflectionFeeBps ?c"] q(30) that gross rates by (simp add: BPS_DENOMINATOR_def)
  have net: "0 < sq_netReserveInput q" "sq_netReserveInput q \<le> MOVE_U64_MAX"
    using q(26) sell_fee gross fee by (auto split: if_splits)
  have pool_out: "0 < sq_grossPoolOutput q" using q(27) receipt fee by (auto split: if_splits)
  let ?x = "sq_netReserveInput q - sq_ammFee q"
  have x: "0 \<le> ?x" "0 < qc_inputReserve ?c + ?x" using q(13,24) by simp_all
  have slip: "0 \<le> sq_slippageBps q" "sq_slippageBps q \<le> 10000" using q(2) input by (simp_all add: BPS_DENOMINATOR_def)
  have min: "0 \<le> sq_minimumNetUserReceipt q" "sq_minimumNetUserReceipt q \<le> MOVE_U64_MAX"
    using bps_share(1,2) [of "sq_netUserReceipt q" "10000 - sq_slippageBps q"] q(31) receipt slip
    by (simp_all add: BPS_DENOMINATOR_def)
  have impact: "sq_priceImpactBps q = ?x * 10000 div (qc_inputReserve ?c + ?x)" using q(32) x by (simp add: BPS_DENOMINATOR_def)
  have "?x * 10000 div (qc_inputReserve ?c + ?x) < 10000"
    using pool_output(1) [of "qc_inputReserve ?c" 10000 ?x ?x] x(1) q(13) by (simp add: mult.commute)
  then have impact_bound: "0 \<le> sq_priceImpactBps q" "sq_priceImpactBps q \<le> MOVE_U64_MAX"
    using impact x small_u64 [of "sq_priceImpactBps q"] by (simp_all add: pos_imp_zdiv_nonneg_iff)
  have reserve_input: "expectedReserveInput q = sq_netReserveInput q"
    using q(26,30) by (simp add: expectedReserveInput_def expectedSellReflection_def)
  have invariant: "invariantInput q = ?x" using q(28) reserve_input by (simp add: invariantInput_def)
  have gross_output: "expectedGrossOutput q = sq_grossPoolOutput q" using q(29) invariant by (simp add: expectedGrossOutput_def)
  have reflection: "expectedReflectionFee q = sq_reflectionFee q"
    using q(30) gross_output by (simp add: expectedReflectionFee_def expectedSellReflection_def)
  have "expectedReceipt q = sq_netUserReceipt q"
    using q(27) gross_output reflection by (cases "sq_direction q") (simp_all add: expectedReceipt_def)
  then have arithmetic: "quote_arithmetic q"
    using reserve_input invariant gross_output reflection net receipt q(31,32)
    by (simp add: quote_arithmetic_def expectedMinimum_def expectedImpact_def)
  have deadline: "0 \<le> sq_deadlineUnixSeconds q" "sq_deadlineUnixSeconds q \<le> MOVE_U64_MAX" using q(3) input by simp_all
  have amounts: "acceptable_amounts q now \<longleftrightarrow> now < sq_deadlineUnixSeconds q"
    using gross slip fee net pool_out q(25) receipt min impact_bound deadline
    by (simp add: acceptable_amounts_def BPS_DENOMINATOR_def)
  have "acceptable_context ?c \<longleftrightarrow> length (fm_deploymentId m) \<le> 512"
    using q(5-8,11-16) ident m rates views by (simp add: acceptable_context_def MAX_REFLECTION_FEE_BPS_def)
  then show ?thesis using amounts arithmetic q(17,18) by (auto simp: acceptable_quote_def)
qed

section \<open>The client accepts it\<close>

definition input_tree :: "swap_input \<Rightarrow> js_val" where
  "input_tree input = JObj [(''direction'', JStr (si_direction input)), (''grossAmount'', JBig (si_grossAmount input)),
     (''slippageBps'', JBig (si_slippageBps input)), (''deadlineUnixSeconds'', JBig (si_deadlineUnixSeconds input))]"

lemma input_tree_fields:
  "js_field (input_tree i) ''direction'' = Some (JStr (si_direction i))"
  "js_field (input_tree i) ''grossAmount'' = Some (JBig (si_grossAmount i))"
  "js_field (input_tree i) ''slippageBps'' = Some (JBig (si_slippageBps i))"
  "js_field (input_tree i) ''deadlineUnixSeconds'' = Some (JBig (si_deadlineUnixSeconds i))"
  by (simp_all add: input_tree_def lookup)

text \<open>A clock that answers with a time in the domain of the chain.\<close>

definition reads_time :: "client \<Rightarrow> nat \<Rightarrow> int \<Rightarrow> bool" where
  "reads_time c k t = (cl_clock c k = Inr (JBig t) \<and> 0 \<le> t \<and> t \<le> MOVE_U64_MAX)"

lemma currentTime_reads:
  "reads_time c (cl_calls c) t \<Longrightarrow> currentTime c = (Inr t, c\<lparr>cl_calls := Suc (cl_calls c)\<rparr>)"
  by (simp add: currentTime_def reads_time_def assertUnsigned_def)

lemma quoteSwap_answers:
  assumes "check_swap_input input = Inr ()" "same_inputs (quote_tree q) (input_tree input)"
    "reads_time c (cl_calls c) t1" "reads_time c (Suc (cl_calls c)) t2"
  shows "(\<exists>c'. quoteSwap (input_tree input) (Inr (quote_tree q)) c = (Inr ob, c')) \<longleftrightarrow>
     t1 < si_deadlineUnixSeconds input \<and> acceptable_quote q t2 \<and> ob = \<lparr>ob_ref = Issued (cl_issued c), ob_value = quote_tree q\<rparr>"
proof -
  note input = swap_input_checked [OF assms(1)]
  have inputs: "rseq
       [assertSwapDirection (js_field (input_tree input) ''direction''),
        assertPositive (js_field (input_tree input) ''grossAmount'') MOVE_U64_MAX ''swap amount'',
        assertUnsigned (js_field (input_tree input) ''slippageBps'') MOVE_U64_MAX ''slippage'',
        rensure (0 \<le> big_of (js_get (input_tree input) ''slippageBps'') \<and> big_of (js_get (input_tree input) ''slippageBps'') \<le> BPS_DENOMINATOR)
          (RangeError ''slippage must be between 0 and 10,000 basis points'')] = Inr ()"
    using input small_u64 [of "si_slippageBps input"] unfolding rseq_Inr_iff
    by (auto simp: input_tree_fields js_get_def assertSwapDirection_def result_simps BPS_DENOMINATOR_def)
  have "assertFutureDeadline (js_field (input_tree input) ''deadlineUnixSeconds'') t1 = Inr () \<longleftrightarrow> t1 < si_deadlineUnixSeconds input"
    using input by (simp add: assertFutureDeadline_def input_tree_fields result_simps)
  moreover have "reads_time (c\<lparr>cl_calls := Suc (cl_calls c)\<rparr>) (Suc (cl_calls c)) t2" using assms(4) by (simp add: reads_time_def)
  note second = currentTime_reads [of "c\<lparr>cl_calls := Suc (cl_calls c)\<rparr>", simplified, OF this]
  ultimately show ?thesis
    unfolding quoteSwap_def inputs io_simps
    using assms(2) currentTime_reads [OF assms(3)] second
    by (auto simp: io_bind_Inr io_assertFutureDeadline_def accepted_iff issue_def remember_quote_def result_simps)
qed

lemma adapter_same_inputs:
  assumes "adapter_quoteSwap text ra input = Inr q"
  shows "check_swap_input input = Inr ()" "same_inputs (quote_tree q) (input_tree input)"
    "sq_deadlineUnixSeconds q = si_deadlineUnixSeconds input"
proof -
  obtain ident vs where i: "check_swap_input input = Inr ()" "quote_from_views ra ident input vs = Inr q"
    using assms by (auto simp: adapter_quoteSwap_def result_simps split: if_splits)
  then show "check_swap_input input = Inr ()" by simp
  show "sq_deadlineUnixSeconds q = si_deadlineUnixSeconds input" using adapter_quote_facts(3) [OF i(2)] .
  show "same_inputs (quote_tree q) (input_tree input)"
    using adapter_quote_facts(1-4) [OF i(2)] swap_input_checked(7) [OF i(1)]
    by (auto simp: same_inputs_def quote_tree_fields input_tree_fields direction_str_def)
qed

text \<open>
  C1. The client accepts exactly what the adapter of a release returns. For a quote that the adapter of an
  approved manifest returned to an input, the client, asked for the same input, issues that quote if and
  only if the deadline is ahead on its clock both before and after the read and the deployment identifier
  of the manifest has at most 512 characters: the amounts, fees, limits and the pool state it was
  computed from pass the independent reproduction in every case, for both directions and every pool.
\<close>

theorem client_accepts_finalized_quotes:
  assumes "FinalizedCedraReadAdapter vc m = Inr ra" "adapter_quoteSwap text ra input = Inr q"
    and "reads_time c (cl_calls c) t1" "reads_time c (Suc (cl_calls c)) t2"
  shows "(\<exists>c'. quoteSwap (input_tree input) (Inr (quote_tree q)) c =
        (Inr \<lparr>ob_ref = Issued (cl_issued c), ob_value = quote_tree q\<rparr>, c'))
     \<longleftrightarrow> t1 < si_deadlineUnixSeconds input \<and> t2 < si_deadlineUnixSeconds input \<and> length (fm_deploymentId m) \<le> 512"
  using quoteSwap_answers [OF adapter_same_inputs(1,2) [OF assms(2)] assms(3,4)]
    adapter_quote_acceptable [OF assms(1,2), of t2] adapter_same_inputs(3) [OF assms(2)] by simp


end
