(* ===== verification/Pinned_Reads.thy ===== *)
theory Pinned_Reads
  imports Quote_Agreement
begin

text \<open>
  Every answer of the read adapter is of one ledger version, and of the release that the manifest names:
  what the chain holds at any other version, before or after, cannot show in a snapshot or a quote.
\<close>

section \<open>Adapters that agree at a version\<close>

definition same_at :: "int \<Rightarrow> read_adapter \<Rightarrow> read_adapter \<Rightarrow> bool" where
  "same_at version ra rb = (ra_manifest rb = ra_manifest ra
     \<and> vc_viewJson (ra_client rb) version = vc_viewJson (ra_client ra) version)"

lemma same_at_addresses:
  assumes "same_at version ra rb"
  shows "ra_core rb = ra_core ra" "ra_assets rb = ra_assets ra" "ra_amm rb = ra_amm ra" "ra_manifest rb = ra_manifest ra"
  using assms by (simp_all add: same_at_def)

lemma same_at_views:
  assumes "same_at version ra rb"
  shows "view_scalar rb version = view_scalar ra version" "view_tuple rb version = view_tuple ra version"
  using assms by (simp_all add: fun_eq_iff same_at_def view_scalar_def view_tuple_def view_at_def)

lemmas same_at_rules = same_at_addresses same_at_views

lemma same_at_pool: "same_at version ra rb \<Longrightarrow> readPoolAt rb version = readPoolAt ra version"
  unfolding readPoolAt_def by (simp only: same_at_rules)

lemma same_at_quote_views: "same_at version ra rb \<Longrightarrow> read_quote_views rb version input = read_quote_views ra version input"
  unfolding read_quote_views_def by (simp only: same_at_rules)

lemma same_at_quote: "same_at version ra rb \<Longrightarrow> quote_from_views rb ident input = quote_from_views ra ident input"
  by (rule ext) (simp only: quote_from_views_def same_at_rules)

lemma same_at_identity_views: "same_at version ra rb \<Longrightarrow> read_identity_views rb version = read_identity_views ra version"
  unfolding read_identity_views_def by (simp only: same_at_rules)

lemma same_at_check: "same_at version ra rb \<Longrightarrow> check_identity text rb vs = check_identity text ra vs"
  unfolding check_identity_def by (simp only: same_at_rules)

section \<open>Adapters that agree at the pinned version\<close>

definition agree :: "read_adapter \<Rightarrow> read_adapter \<Rightarrow> bool" where
  "agree ra rb = (pinLedger rb = pinLedger ra \<and> (\<forall>ledger. pinLedger ra = Inr ledger \<longrightarrow> same_at (vi_version ledger) ra rb))"

lemma agree_identity: "agree ra rb \<Longrightarrow> pinAndValidateIdentity text rb = pinAndValidateIdentity text ra"
  unfolding pinAndValidateIdentity_def agree_def
  by (cases "pinLedger ra"; elim conjE; simp only: rbind_simps sum.inject simp_thms)
    (simp_all add: same_at_identity_views same_at_check)

lemma identity_version:
  assumes "pinAndValidateIdentity text ra = Inr ident"
  obtains ledger where "pinLedger ra = Inr ledger" "vi_version ident = vi_version ledger"
  using assms by (auto simp: pinAndValidateIdentity_def result_simps)

lemma agree_cases:
  assumes "agree ra rb"
  obtains (refused) e where "pinAndValidateIdentity text ra = Inl e" "pinAndValidateIdentity text rb = Inl e"
  | (pinned) ident where "pinAndValidateIdentity text ra = Inr ident" "pinAndValidateIdentity text rb = Inr ident"
      "same_at (vi_version ident) ra rb"
proof (cases "pinAndValidateIdentity text ra")
  case (Inl e)
  then show ?thesis using refused agree_identity [OF assms] by simp
next
  case (Inr ident)
  obtain ledger where "pinLedger ra = Inr ledger" "vi_version ident = vi_version ledger" using identity_version [OF Inr] .
  then show ?thesis using pinned [OF Inr] Inr assms agree_identity [OF assms, of "text"] by (simp add: agree_def)
qed

lemma agree_amm: "agree ra rb \<Longrightarrow> pinAndValidateIdentity text ra = Inr ident \<Longrightarrow> same_at (vi_version ident) ra rb"
  by (metis agree_cases Inl_Inr_False Inr_inject)

lemma agree_rbind:
  assumes "agree ra rb" "\<And>ident. same_at (vi_version ident) ra rb \<Longrightarrow> f ident = g ident"
  shows "rbind (pinAndValidateIdentity text rb) f = rbind (pinAndValidateIdentity text ra) g"
  using assms(1) by (rule agree_cases [of ra rb "text"]) (simp_all add: assms(2))

lemma agree_portfolio: "agree ra rb \<Longrightarrow> adapter_getPortfolio text rb account = adapter_getPortfolio text ra account"
  unfolding adapter_getPortfolio_def
  by (intro arg_cong [where f = "rbind _"] ext agree_rbind) (simp_all only: Let_def same_at_rules)

lemma agree_pool: "agree ra rb \<Longrightarrow> adapter_getPool text rb = adapter_getPool text ra"
  unfolding adapter_getPool_def by (intro agree_rbind) (simp_all only: same_at_pool)

lemma agree_protocol: "agree ra rb \<Longrightarrow> adapter_getProtocol text rb = adapter_getProtocol text ra"
  unfolding adapter_getProtocol_def by (intro agree_rbind) (simp_all only: Let_def same_at_rules same_at_pool)

lemma agree_dust: "agree ra rb \<Longrightarrow> adapter_getLpEpochTerminalDust text rb epoch = adapter_getLpEpochTerminalDust text ra epoch"
  unfolding adapter_getLpEpochTerminalDust_def
  by (intro if_cong refl agree_rbind) (simp_all only: Let_def same_at_rules)

lemma agree_faucet: "agree ra rb \<Longrightarrow> adapter_getFaucetStatus text rb account asset = adapter_getFaucetStatus text ra account asset"
  unfolding adapter_getFaucetStatus_def
  by (intro if_cong refl arg_cong [where f = "rbind _"] ext agree_rbind) (simp_all only: Let_def same_at_rules)

lemma agree_quote: "agree ra rb \<Longrightarrow> adapter_quoteSwap text rb input = adapter_quoteSwap text ra input"
  unfolding adapter_quoteSwap_def
  by (intro arg_cong [where f = "rbind _"] ext agree_rbind) (simp_all only: same_at_quote_views same_at_quote)

section \<open>What a protocol snapshot says\<close>

lemma pool_version: "readPoolAt ra version = Inr pool \<Longrightarrow> pl_ledgerVersion pool = version"
  by (auto simp: readPoolAt_def Let_def result_simps split: if_splits)

lemma protocol_of_release:
  assumes "adapter_getProtocol text ra = Inr p"
  shows "\<exists>ident. pinAndValidateIdentity text ra = Inr ident \<and> pt_ledgerVersion p = vi_version ident
    \<and> pt_packageVersion p = vi_packageVersion ident \<and> pl_ledgerVersion (pt_pool p) = vi_version ident
    \<and> pl_lifecycle (pt_pool p) = pt_lifecycle p \<and> pt_reflectionFeeBps p \<le> 500"
  using assms by (auto simp: adapter_getProtocol_def Let_def result_simps pool_version split: if_splits)

lemma adapters_agree:
  assumes "FinalizedCedraReadAdapter vc m = Inr ra" "FinalizedCedraReadAdapter vd m = Inr rb"
    and "vc_getLedgerInfo vd = vc_getLedgerInfo vc"
    and "\<And>ledger. pinLedger ra = Inr ledger \<Longrightarrow> vc_viewJson vd (vi_version ledger) = vc_viewJson vc (vi_version ledger)"
  shows "agree ra rb"
proof -
  have r: "ra_manifest rb = ra_manifest ra" "ra_client ra = vc" "ra_client rb = vd"
    using assms(1,2) by (auto simp: FinalizedCedraReadAdapter_def result_simps)
  have "pinLedger rb = pinLedger ra" unfolding pinLedger_def by (simp only: r assms(3))
  then show ?thesis using assms(4) by (simp add: agree_def same_at_def r)
qed

text \<open>
  C24. Reads are pinned to one version of the ledger and to the approved release. Two chains that answer
  the same header and the same views at the version of that header, whatever they hold at other versions,
  get the same answer, or the same error, from each of the six operations of the adapter; and a protocol
  snapshot is of the package version of the manifest, at a version not older than the finalized one, with
  the pool read at the same version and in the same lifecycle state as the token.
\<close>

theorem reads_are_pinned:
  assumes "FinalizedCedraReadAdapter vc m = Inr ra" "FinalizedCedraReadAdapter vd m = Inr rb"
    and "vc_getLedgerInfo vd = vc_getLedgerInfo vc"
    and "\<And>ledger. pinLedger ra = Inr ledger \<Longrightarrow> vc_viewJson vd (vi_version ledger) = vc_viewJson vc (vi_version ledger)"
  shows "adapter_getPortfolio text rb account = adapter_getPortfolio text ra account
    \<and> adapter_getProtocol text rb = adapter_getProtocol text ra
    \<and> adapter_getPool text rb = adapter_getPool text ra
    \<and> adapter_getLpEpochTerminalDust text rb epoch = adapter_getLpEpochTerminalDust text ra epoch
    \<and> adapter_getFaucetStatus text rb account asset = adapter_getFaucetStatus text ra account asset
    \<and> adapter_quoteSwap text rb input = adapter_quoteSwap text ra input
    \<and> (\<forall>p. adapter_getProtocol text ra = Inr p \<longrightarrow>
         pt_packageVersion p = fm_packageVersion m \<and> fm_finalizedLedgerVersion m \<le> pt_ledgerVersion p
         \<and> pl_ledgerVersion (pt_pool p) = pt_ledgerVersion p \<and> pl_lifecycle (pt_pool p) = pt_lifecycle p)"
proof -
  note same = adapters_agree [OF assms]
  have m: "fm_packageVersion (ra_manifest ra) = fm_packageVersion m" "fm_finalizedLedgerVersion (ra_manifest ra) = fm_finalizedLedgerVersion m"
    using assms(1) manifest_copied by (auto simp: FinalizedCedraReadAdapter_def result_simps)
  have "pt_packageVersion p = fm_packageVersion m \<and> fm_finalizedLedgerVersion m \<le> pt_ledgerVersion p
      \<and> pl_ledgerVersion (pt_pool p) = pt_ledgerVersion p \<and> pl_lifecycle (pt_pool p) = pt_lifecycle p"
    if "adapter_getProtocol text ra = Inr p" for p
    using protocol_of_release [OF that] pinned_identity_facts(2,4) m by fastforce
  then show ?thesis
    using agree_portfolio [OF same] agree_protocol [OF same] agree_pool [OF same] agree_dust [OF same] agree_faucet [OF same]
      agree_quote [OF same] by blast
qed

end
