(* ===== verification/Client_Safety.thy ===== *)
theory Client_Safety
  imports Safe_Client Quote_Economics
begin

text \<open>
  What can reach the writer: after any sequence of calls of the client, with any answers of the read
  adapter, any clock and any objects of the caller, a swap passes the checks of \<open>submit\<close> only if it is,
  argument by argument, the swap of a quote that the adapter answered and the client verified.
\<close>

declare int_str_eq_iff [simp]

section \<open>Sequences of calls\<close>

datatype client_op =
    Quote_swap js_val "js_val result"
  | Quote_and_draft js_val "js_val result"
  | Swap_draft js_object
  | Faucet_claim js_val
  | Reward_claim js_val
  | Reward_claim_all
  | Add_liquidity js_val
  | Remove_liquidity js_val
  | Transfer_shares js_val js_val
  | Lp_reward_claim js_val js_val
  | Checkpoint_rewards
  | Submit_draft js_object

fun client_step :: "client_op \<Rightarrow> client \<Rightarrow> client" where
  "client_step (Quote_swap input answer) c = snd (quoteSwap input answer c)"
| "client_step (Quote_and_draft input answer) c = snd (quoteAndCreateSwapDraft input answer c)"
| "client_step (Swap_draft q) c = snd (createSwapDraft q c)"
| "client_step (Faucet_claim asset) c = snd (createFaucetClaimDraft asset c)"
| "client_step (Reward_claim amount) c = snd (createRewardClaimDraft amount c)"
| "client_step Reward_claim_all c = snd (createRewardClaimAllDraft c)"
| "client_step (Add_liquidity input) c = snd (createAddLiquidityDraft input c)"
| "client_step (Remove_liquidity input) c = snd (createRemoveLiquidityDraft input c)"
| "client_step (Transfer_shares recipient shares) c = snd (createTransferLpSharesDraft recipient shares c)"
| "client_step (Lp_reward_claim epoch amount) c = snd (createLpRewardClaimDraft epoch amount c)"
| "client_step Checkpoint_rewards c = snd (createCheckpointLpRewardsDraft c)"
| "client_step (Submit_draft d) c = snd (submit d c)"

definition run_client :: "client_op list \<Rightarrow> client \<Rightarrow> client" where
  "run_client ops c = fold client_step ops c"

section \<open>Frames\<close>

text \<open>What the checks of an operation leave alone.\<close>

definition client_core :: "client \<Rightarrow> _" where
  "client_core c = (cl_writer c, cl_clock c, cl_verifiedSwapQuotes c, cl_verifiedSwapDrafts c)"

definition quiet :: "(client, 'a) io \<Rightarrow> bool" where
  "quiet m = (\<forall>c. client_core (snd (m c)) = client_core c)"

lemma quietD: "quiet m \<Longrightarrow> m c = (r, c') \<Longrightarrow> client_core c' = client_core c"
  unfolding quiet_def by (metis snd_conv)

lemma quiet_bind [intro]:
  assumes "quiet m" "\<And>x. quiet (f x)"
  shows "quiet (io_bind m f)"
  unfolding quiet_def
proof
  fix c
  show "client_core (snd (io_bind m f c)) = client_core c"
    using quietD [OF assms(1), of c] quietD [OF assms(2)]
    by (cases "m c"; cases "fst (m c)") (auto simp: io_bind_def prod.expand intro: quietD [OF assms(2), THEN trans, OF surjective_pairing])
qed

lemma quiet_lift [intro]: "quiet (io_lift r)" "quiet (io_return x)" "quiet (io_throw e)"
  by (simp_all add: quiet_def)

lemma quiet_time [intro]: "quiet currentTime"
  by (simp add: quiet_def currentTime_def client_core_def)

lemma quiet_issue [intro]: "quiet (issue v)"
  by (simp add: quiet_def issue_def client_core_def)

lemma quiet_deadline [intro]: "quiet (io_assertFutureDeadline d)"
  unfolding io_assertFutureDeadline_def by (intro quiet_bind quiet_time quiet_lift)

lemma quiet_expiration [intro]: "quiet defaultExpiration"
  unfolding defaultExpiration_def by (intro quiet_bind quiet_time quiet_lift)

lemma quiet_createDraft [intro]: "quiet (createDraft kind fn args e)"
  unfolding createDraft_def Let_def
  by (cases e; simp only: option.case) (intro quiet_bind quiet_lift quiet_expiration quiet_issue)+

lemmas quiet_rules = quiet_bind quiet_lift quiet_deadline quiet_createDraft quiet_time

lemma quiet_drafts:
  "quiet (createFaucetClaimDraft asset)" "quiet (createRewardClaimDraft amount)" "quiet createRewardClaimAllDraft"
  "quiet (createAddLiquidityDraft input)" "quiet (createRemoveLiquidityDraft input)"
  "quiet (createTransferLpSharesDraft recipient shares)" "quiet (createLpRewardClaimDraft epoch amount)"
  "quiet createCheckpointLpRewardsDraft"
  unfolding createFaucetClaimDraft_def createRewardClaimDraft_def createRewardClaimAllDraft_def createAddLiquidityDraft_def
    createRemoveLiquidityDraft_def createTransferLpSharesDraft_def createLpRewardClaimDraft_def createCheckpointLpRewardsDraft_def
  by (intro quiet_rules)+

lemma quiet_guard: "quiet m \<Longrightarrow> quiet (\<lambda>c. if b c then (Inl e, c) else m c)"
  by (simp add: quiet_def)

lemma quiet_read: "quiet (\<lambda>c. (f c, c))"
  by (simp add: quiet_def)

lemma quiet_if: "quiet m \<Longrightarrow> quiet n \<Longrightarrow> quiet (if b then m else n)"
  by simp

lemma quiet_authorize: "quiet (authorizeSubmission d)"
  unfolding authorizeSubmission_def by (intro quiet_bind quiet_lift quiet_if quiet_guard quiet_time quiet_read)

lemma quiet_submit: "quiet (submit d)"
  unfolding submit_def by (intro quiet_bind quiet_authorize quiet_lift)

section \<open>Quotes and their drafts\<close>

text \<open>The swap a draft makes of a quote.\<close>

definition swap_draft :: "swap_quote \<Rightarrow> js_val" where
  "swap_draft q = draft_tree \<lparr>td_kind = ''swap'',
     td_functionId = (if sq_direction q = Buy then ''test_amm::pool::buy_trfl'' else ''test_amm::pool::sell_trfl''),
     td_arguments = [JBig (sq_grossAmount q), JBig (sq_minimumNetUserReceipt q), JBig (sq_deadlineUnixSeconds q)],
     td_secondarySignerAddresses = [], td_expirationUnixSeconds = sq_deadlineUnixSeconds q,
     td_warning = TESTNET_NO_VALUE_WARNING\<rparr>"

lemma quoteSwap_step:
  assumes "quoteSwap input answer c = (r, c')"
  shows "client_core c' = client_core c \<or>
    (\<exists>v ref now. answer = Inr v \<and> r = Inr \<lparr>ob_ref = ref, ob_value = v\<rparr> \<and> assertSwapQuote v now = Inr () \<and> same_inputs v input
      \<and> cl_writer c' = cl_writer c \<and> cl_clock c' = cl_clock c \<and> cl_verifiedSwapDrafts c' = cl_verifiedSwapDrafts c
      \<and> cl_verifiedSwapQuotes c' = map_set ref (swapQuoteFingerprint v) (cl_verifiedSwapQuotes c))"
  using assms
  by (auto simp: quoteSwap_def io_bind_def io_lift_def currentTime_def io_assertFutureDeadline_def issue_def remember_quote_def
    client_core_def result_simps rensure_def split: prod.splits sum.splits if_splits)

lemma createDraft_value:
  "createDraft kind fn args (Some e) c = (Inr ob, c') \<Longrightarrow> ob_value ob = draft_tree \<lparr>td_kind = kind, td_functionId = fn,
     td_arguments = args, td_secondarySignerAddresses = [], td_expirationUnixSeconds = e, td_warning = TESTNET_NO_VALUE_WARNING\<rparr>"
  by (auto simp: createDraft_def Let_def io_bind_Inr io_lift_def issue_def)

lemma createSwapDraft_step:
  assumes "createSwapDraft q c = (r, c')"
  shows "client_core c' = client_core c \<or>
    (\<exists>ref now. map_get (cl_verifiedSwapQuotes c) (ob_ref q) = Some (swapQuoteFingerprint (ob_value q))
      \<and> assertSwapQuote (ob_value q) now = Inr ()
      \<and> cl_writer c' = cl_writer c \<and> cl_clock c' = cl_clock c \<and> cl_verifiedSwapQuotes c' = cl_verifiedSwapQuotes c
      \<and> cl_verifiedSwapDrafts c' = map_set ref (transactionDraftFingerprint (swap_draft (quote_of (ob_value q)))) (cl_verifiedSwapDrafts c))"
proof (cases "map_get (cl_verifiedSwapQuotes c) (ob_ref q)")
  case None
  then show ?thesis using assms by (auto simp: createSwapDraft_def)
next
  case (Some fp)
  let ?d = "createDraft ''swap'' (if sq_direction (quote_of (ob_value q)) = Buy then ''test_amm::pool::buy_trfl'' else ''test_amm::pool::sell_trfl'')
         [JBig (sq_grossAmount (quote_of (ob_value q))), JBig (sq_minimumNetUserReceipt (quote_of (ob_value q))),
          JBig (sq_deadlineUnixSeconds (quote_of (ob_value q)))] (Some (sq_deadlineUnixSeconds (quote_of (ob_value q))))"
  obtain rt c1 where t: "currentTime c = (rt, c1)" by force
  obtain rd c2 where d: "?d c1 = (rd, c2)" by force
  have core: "client_core c1 = client_core c" "client_core c2 = client_core c1"
    using quietD [OF quiet_time t] quietD [OF quiet_createDraft d] by simp_all
  have "client_core c' = client_core c \<or> (\<exists>now draft. rt = Inr now \<and> assertSwapQuote (ob_value q) now = Inr ()
      \<and> swapQuoteFingerprint (ob_value q) = fp \<and> rd = Inr draft
      \<and> c' = snd (remember_draft \<lparr>ob_ref = Issued (cl_issued c2), ob_value = ob_value draft\<rparr> (c2\<lparr>cl_issued := Suc (cl_issued c2)\<rparr>)))"
    using assms core t d
    by (auto simp: createSwapDraft_def Some io_bind_def io_lift_def Let_def issue_def remember_draft_def rensure_def
      split: prod.splits sum.splits if_splits)
  moreover have "swap_draft (quote_of (ob_value q)) = ob_value draft" if "rd = Inr draft" for draft
    using createDraft_value [OF d [unfolded that]] by (simp add: swap_draft_def)
  ultimately show ?thesis
    using core Some by (auto simp: client_core_def remember_draft_def)
qed

section \<open>Fingerprints identify\<close>

text \<open>The fingerprint of an accepted quote, from its numbers.\<close>

definition quote_print :: "swap_quote \<Rightarrow> js_val" where
  "quote_print q = (let c = sq_context q; amount = (\<lambda>n. JStr (int_str n)) in
     JArr [JStr (direction_str (sq_direction q)), amount (sq_grossAmount q), amount (sq_slippageBps q), amount (sq_reflectionFee q),
       amount (sq_ammFee q), amount (sq_netReserveInput q), amount (sq_grossPoolOutput q), amount (sq_netUserReceipt q),
       amount (sq_minimumNetUserReceipt q), amount (sq_priceImpactBps q), amount (sq_deadlineUnixSeconds q),
       JNum (qc_chainId c), amount (qc_ledgerVersion c), JStr (qc_deploymentId c), JStr (qc_packageVersion c),
       amount (qc_inputReserve c), amount (qc_outputReserve c), amount (qc_reflectionFeeBps c), amount (qc_ammFeeBps c),
       amount (qc_maximumGrossSwap c), amount (qc_maximumReserveBps c)])"

lemma context_leaves:
  assumes "assertQuoteContext context = Inr ()"
  shows "js_get context ''chainId'' = JNum (qc_chainId (context_of context))"
    "js_get context ''deploymentId'' = JStr (qc_deploymentId (context_of context))"
    "js_get context ''packageVersion'' = JStr (qc_packageVersion (context_of context))"
  using assms unfolding assertQuoteContext_def rseq_Inr_iff
  by (auto simp: result_simps is_string_iff context_of_def js_get_def)

lemma fingerprint_print:
  assumes "assertSwapQuote v now = Inr ()"
  shows "swapQuoteFingerprint v = encodeBigInts (quote_print (quote_of v))"
proof -
  have "assertQuoteContext (js_get v ''context'') = Inr ()"
    using assms by (simp add: assertSwapQuote_def rseq_Inr_iff Let_def)
  note c = context_leaves [OF this]
  show ?thesis
    unfolding swapQuoteFingerprint_def quote_print_def Let_def c quote_accepted(2) [OF assms]
    by (simp add: quote_of_def context_of_def del: encodeBigInts.simps)
qed

lemma quote_print_inj:
  assumes "encodeBigInts (quote_print q) = encodeBigInts (quote_print r)"
  shows "q = r"
proof -
  have "quote_print q = quote_print r"
    by (rule encode_inj [OF assms]) (simp_all add: quote_print_def Let_def)
  moreover have "sq_direction q = sq_direction r" if "direction_str (sq_direction q) = direction_str (sq_direction r)"
    using that by (cases "sq_direction q"; cases "sq_direction r") (simp_all add: direction_str_def)
  ultimately show ?thesis by (simp add: quote_print_def Let_def)
qed

text \<open>A swap draft that validates has the fields of a swap.\<close>

lemma u64_argument: "assertMoveArgument v Kind_u64 i = Inr () \<Longrightarrow> \<exists>n. v = JBig n"
  by (auto simp: assertMoveArgument_def split: js_val.splits)

lemma swap_entries:
  "map_get ENTRY_SHAPES ''swap'' = Some [\<lparr>es_functionId = ''test_amm::pool::buy_trfl'', es_argumentKinds = [Kind_u64, Kind_u64, Kind_u64]\<rparr>,
     \<lparr>es_functionId = ''test_amm::pool::sell_trfl'', es_argumentKinds = [Kind_u64, Kind_u64, Kind_u64]\<rparr>]"
  by code_simp

lemma three_arguments:
  assumes "assertMoveArguments 0 vs [Kind_u64, Kind_u64, Kind_u64] = Inr ()" "length vs = 3"
  obtains a1 a2 a3 where "vs = [JBig a1, JBig a2, JBig a3]"
proof -
  obtain v1 v2 v3 where vs: "vs = [v1, v2, v3]" using assms(2) by (auto simp: length_Suc_conv numeral_3_eq_3)
  show ?thesis
    using assms(1) unfolding vs by (auto simp: result_simps dest!: u64_argument intro: that [unfolded vs])
qed

lemma swap_shape:
  assumes "assertCedraTransactionDraft d = Inr ()" "js_field d ''kind'' = Some (JStr ''swap'')"
  obtains fn a1 a2 a3 e w where "js_field d ''functionId'' = Some (JStr fn)"
    "js_field d ''arguments'' = Some (JArr [JBig a1, JBig a2, JBig a3])"
    "js_field d ''secondarySignerAddresses'' = Some (JArr [])" "js_field d ''expirationUnixSeconds'' = Some (JBig e)"
    "js_field d ''warning'' = Some (JStr w)"
proof -
  have k: "str_of (js_get d ''kind'') = ''swap''" using assms(2) by (simp add: js_get_def)
  obtain shape where s: "knownEntryShape d = Inr shape" using assms(1) by (auto simp: assertCedraTransactionDraft_def result_simps)
  have fields: "is_string (js_field d ''functionId'')" "is_array (js_field d ''arguments'')"
      "is_array (js_field d ''secondarySignerAddresses'')"
      "is_bigint (js_field d ''expirationUnixSeconds'')" "is_string (js_field d ''warning'')"
    using s unfolding knownEntryShape_def by (auto split: if_splits)
  have kinds: "es_argumentKinds shape = [Kind_u64, Kind_u64, Kind_u64] \<and> length (draft_arguments d) = 3
      \<and> arr_of (js_get d ''secondarySignerAddresses'') = []
      \<and> assertMoveArguments 0 (draft_arguments d) [Kind_u64, Kind_u64, Kind_u64] = Inr ()"
    using s unfolding knownEntryShape_def k swap_entries by (auto simp: result_simps split: if_splits)
  then obtain a1 a2 a3 where a: "draft_arguments d = [JBig a1, JBig a2, JBig a3]" using three_arguments by metis
  obtain fn vs ws e w where f: "js_field d ''functionId'' = Some (JStr fn)" "js_field d ''arguments'' = Some (JArr vs)"
      "js_field d ''secondarySignerAddresses'' = Some (JArr ws)"
      "js_field d ''expirationUnixSeconds'' = Some (JBig e)" "js_field d ''warning'' = Some (JStr w)"
    using fields unfolding typed_iff by blast
  have "ws = []" "vs = [JBig a1, JBig a2, JBig a3]" using kinds a f(2,3) by (simp_all add: js_get_def)
  then show ?thesis using that f by blast
qed

text \<open>Two drafts with the same fields.\<close>

definition same_draft :: "js_val \<Rightarrow> js_val \<Rightarrow> bool" where
  "same_draft d e = list_all (\<lambda>key. js_field d key = js_field e key)
     [''kind'', ''functionId'', ''arguments'', ''secondarySignerAddresses'', ''expirationUnixSeconds'', ''warning'']"

lemma swap_draft_fields:
  "js_field (swap_draft q) ''kind'' = Some (JStr ''swap'')"
  "js_field (swap_draft q) ''functionId'' = Some (JStr (if sq_direction q = Buy then ''test_amm::pool::buy_trfl'' else ''test_amm::pool::sell_trfl''))"
  "js_field (swap_draft q) ''arguments'' = Some (JArr [JBig (sq_grossAmount q), JBig (sq_minimumNetUserReceipt q), JBig (sq_deadlineUnixSeconds q)])"
  "js_field (swap_draft q) ''secondarySignerAddresses'' = Some (JArr [])"
  "js_field (swap_draft q) ''expirationUnixSeconds'' = Some (JBig (sq_deadlineUnixSeconds q))"
  "js_field (swap_draft q) ''warning'' = Some (JStr TESTNET_NO_VALUE_WARNING)"
  by (simp_all add: swap_draft_def draft_tree_def lookup)

lemma same_swap:
  assumes d: "assertCedraTransactionDraft d = Inr ()" "js_field d ''kind'' = Some (JStr ''swap'')"
    and same: "transactionDraftFingerprint d = transactionDraftFingerprint (swap_draft q)"
  shows "same_draft d (swap_draft q)"
proof -
  obtain fn a1 a2 a3 e w where f: "js_field d ''functionId'' = Some (JStr fn)"
      "js_field d ''arguments'' = Some (JArr [JBig a1, JBig a2, JBig a3])"
      "js_field d ''secondarySignerAddresses'' = Some (JArr [])" "js_field d ''expirationUnixSeconds'' = Some (JBig e)"
      "js_field d ''warning'' = Some (JStr w)"
    using swap_shape [OF d] by blast
  let ?print = "\<lambda>d. JArr [js_get d ''kind'', js_get d ''functionId'', JArr (map argument_text (draft_arguments d)),
      js_get d ''secondarySignerAddresses'', JStr (int_str (draft_expiration d)), js_get d ''warning'']"
  have "?print d = ?print (swap_draft q)"
    by (rule encode_inj) (use same [unfolded transactionDraftFingerprint_def] in
      \<open>simp_all only: js_get_def f d(2) swap_draft_fields option.case arr_of.simps big_of.simps list.map argument_text_def
        js_val.case json_tree.simps json_elems.simps plain.simps plain_elems.simps simp_thms option.sel\<close>)
  then show ?thesis
    by (simp add: same_draft_def js_get_def f d(2) swap_draft_fields argument_text_def)
qed

section \<open>What the client remembers\<close>

text \<open>The quotes that the adapter answered in a run and the client verified at some time.\<close>

definition answered :: "client_op list \<Rightarrow> js_val \<Rightarrow> js_val \<Rightarrow> bool" where
  "answered ops input v = (Quote_swap input (Inr v) \<in> set ops \<or> Quote_and_draft input (Inr v) \<in> set ops)"

definition verified :: "client_op list \<Rightarrow> js_val \<Rightarrow> bool" where
  "verified ops v = (\<exists>input now. answered ops input v \<and> same_inputs v input \<and> assertSwapQuote v now = Inr ())"

definition client_safe :: "client_op list \<Rightarrow> client \<Rightarrow> bool" where
  "client_safe ops c =
     ((\<forall>ref print. map_get (cl_verifiedSwapQuotes c) ref = Some print \<longrightarrow> (\<exists>v. verified ops v \<and> print = swapQuoteFingerprint v)) \<and>
      (\<forall>ref print. map_get (cl_verifiedSwapDrafts c) ref = Some print \<longrightarrow>
         (\<exists>v. verified ops v \<and> print = transactionDraftFingerprint (swap_draft (quote_of v)))))"

lemma verified_more: "verified ops v \<Longrightarrow> verified (ops @ ms) v"
  by (auto simp: verified_def answered_def)

lemma safe_more: "client_safe ops c \<Longrightarrow> client_safe (ops @ ms) c"
  unfolding client_safe_def using verified_more by metis

lemma safe_frame: "client_core c' = client_core c \<Longrightarrow> client_safe ops c' = client_safe ops c"
  by (simp add: client_safe_def client_core_def)

lemma safe_quoteD: "client_safe ops c \<Longrightarrow> map_get (cl_verifiedSwapQuotes c) ref = Some print \<Longrightarrow>
    \<exists>v. verified ops v \<and> print = swapQuoteFingerprint v"
  by (simp add: client_safe_def)

lemma safe_draftD: "client_safe ops c \<Longrightarrow> map_get (cl_verifiedSwapDrafts c) ref = Some print \<Longrightarrow>
    \<exists>v. verified ops v \<and> print = transactionDraftFingerprint (swap_draft (quote_of v))"
  by (simp add: client_safe_def)

lemma safe_quote_step:
  assumes q: "quoteSwap input answer c = (r, c')" and a: "\<And>v. answer = Inr v \<Longrightarrow> answered ops input v" and safe: "client_safe ops c"
  shows "client_safe ops c'"
  using quoteSwap_step [OF q]
proof (elim disjE exE conjE)
  assume "client_core c' = client_core c"
  then show ?thesis using safe safe_frame by blast
next
  fix v ref now
  assume v: "answer = Inr v" "assertSwapQuote v now = Inr ()" "same_inputs v input"
    and c': "cl_verifiedSwapDrafts c' = cl_verifiedSwapDrafts c"
      "cl_verifiedSwapQuotes c' = map_set ref (swapQuoteFingerprint v) (cl_verifiedSwapQuotes c)"
  have "verified ops v" using v a [OF v(1)] by (auto simp: verified_def)
  then show ?thesis using safe by (auto simp: client_safe_def c')
qed

lemma safe_draft_step:
  assumes d: "createSwapDraft q c = (r, c')" and safe: "client_safe ops c"
  shows "client_safe ops c'"
  using createSwapDraft_step [OF d]
proof (elim disjE exE conjE)
  assume "client_core c' = client_core c"
  then show ?thesis using safe safe_frame by blast
next
  fix ref now
  assume q: "map_get (cl_verifiedSwapQuotes c) (ob_ref q) = Some (swapQuoteFingerprint (ob_value q))"
      "assertSwapQuote (ob_value q) now = Inr ()"
    and c': "cl_verifiedSwapQuotes c' = cl_verifiedSwapQuotes c"
      "cl_verifiedSwapDrafts c' = map_set ref (transactionDraftFingerprint (swap_draft (quote_of (ob_value q)))) (cl_verifiedSwapDrafts c)"
  obtain v where v: "verified ops v" "swapQuoteFingerprint (ob_value q) = swapQuoteFingerprint v"
    using safe_quoteD [OF safe q(1)] by blast
  obtain t where "assertSwapQuote v t = Inr ()" using v(1) by (auto simp: verified_def)
  then have "quote_of (ob_value q) = quote_of v" using v(2) q(2) by (metis fingerprint_print quote_print_inj)
  then show ?thesis using safe v(1) by (auto simp: client_safe_def c')
qed

lemma safe_quiet: "quiet m \<Longrightarrow> client_safe ops c \<Longrightarrow> client_safe ops (snd (m c))"
  unfolding quiet_def by (blast intro: safe_frame [THEN iffD2])

lemma safe_step: "client_safe ops c \<Longrightarrow> client_safe (ops @ [step]) (client_step step c)"
proof (cases step)
  fix input answer
  assume safe: "client_safe ops c"
  let ?ops = "ops @ [step]"
  { assume step: "step = Quote_swap input answer"
    then have "answer = Inr v \<Longrightarrow> answered ?ops input v" for v by (simp add: answered_def)
    then show "client_safe ?ops (client_step step c)" unfolding step client_step.simps
      using safe_quote_step [OF surjective_pairing _ safe_more [OF safe]] step by blast }
  { assume step: "step = Quote_and_draft input answer"
    obtain r c1 where q: "quoteSwap input answer c = (r, c1)" by force
    have "answer = Inr v \<Longrightarrow> answered ?ops input v" for v by (simp add: answered_def step)
    then have c1: "client_safe ?ops c1" using safe_quote_step [OF q _ safe_more [OF safe]] by blast
    have "client_safe ?ops y" if "createSwapDraft b c1 = (x, y)" for b x y using that c1 by (rule safe_draft_step)
    then show "client_safe ?ops (client_step step c)" unfolding step client_step.simps quoteAndCreateSwapDraft_def
      using c1 step by (cases r) (auto simp: io_bind_def q io_return_def split: prod.splits sum.splits) }
next
  fix d
  assume "client_safe ops c" "step = Swap_draft d"
  then show "client_safe (ops @ [step]) (client_step step c)"
    using safe_draft_step [OF surjective_pairing safe_more] by simp
qed (simp_all add: safe_quiet quiet_drafts quiet_submit safe_more)

lemma run_snoc: "run_client (ops @ [step]) c = client_step step (run_client ops c)"
  by (simp add: run_client_def)

lemma run_safe: "client_safe ops (run_client ops (ReflectionPilotClient writer clock))"
proof (induction ops rule: rev_induct)
  case Nil
  then show ?case by (simp add: run_client_def client_safe_def ReflectionPilotClient_def)
next
  case (snoc step ops)
  then show ?case unfolding run_snoc by (rule safe_step)
qed

lemma step_core: "cl_writer (client_step step c) = cl_writer c \<and> cl_clock (client_step step c) = cl_clock c"
proof -
  have q: "quiet m \<Longrightarrow> cl_writer (snd (m c)) = cl_writer c \<and> cl_clock (snd (m c)) = cl_clock c" for m :: "(client, 'a) io" and c
    by (simp add: quiet_def client_core_def)
  have quotes: "cl_writer (snd (quoteSwap input answer c)) = cl_writer c \<and> cl_clock (snd (quoteSwap input answer c)) = cl_clock c"
    for input answer c using quoteSwap_step [OF surjective_pairing, of input answer c] by (auto simp: client_core_def)
  have drafts: "cl_writer (snd (createSwapDraft b c)) = cl_writer c \<and> cl_clock (snd (createSwapDraft b c)) = cl_clock c"
    for b c using createSwapDraft_step [OF surjective_pairing, of b c] by (auto simp: client_core_def)
  show ?thesis
  proof (cases step)
    case (Quote_and_draft input answer)
    obtain r c1 where c1: "quoteSwap input answer c = (r, c1)" by force
    have "createSwapDraft b c1 = (x, y) \<Longrightarrow> cl_writer y = cl_writer c1 \<and> cl_clock y = cl_clock c1" for b x y
      using drafts [of b c1] by simp
    moreover have "cl_writer c1 = cl_writer c \<and> cl_clock c1 = cl_clock c" using quotes [of input answer c] c1 by simp
    ultimately show ?thesis unfolding Quote_and_draft client_step.simps quoteAndCreateSwapDraft_def
      by (cases r) (auto simp: io_bind_def c1 io_return_def split: prod.splits sum.splits)
  qed (simp_all only: client_step.simps q [OF quiet_submit] quiet_drafts [THEN q] quotes drafts)
qed

lemma run_core: "cl_writer (run_client ops c) = cl_writer c \<and> cl_clock (run_client ops c) = cl_clock c"
  by (induction ops rule: rev_induct) (simp_all add: run_snoc step_core, simp add: run_client_def)

section \<open>What passes the checks of a submission\<close>

lemma unsigned_big: "assertUnsigned (Some x) maximum label = Inr () \<Longrightarrow> \<exists>n. x = JBig n"
  by (auto simp: assertUnsigned_def split: js_val.splits)

lemma authorized:
  assumes "authorizeSubmission d c = (Inr w, c')"
  shows "cl_writer c = Some w" "assertCedraTransactionDraft (ob_value d) = Inr ()"
    "js_field (ob_value d) ''kind'' = Some (JStr ''swap'') \<Longrightarrow>
       map_get (cl_verifiedSwapDrafts c) (ob_ref d) = Some (transactionDraftFingerprint (ob_value d)) \<and>
       (\<exists>k t. cl_clock c k = Inr (JBig t) \<and> t < draft_expiration (ob_value d))"
  using assms
  by (auto simp: authorizeSubmission_def io_bind_Inr io_lift_def currentTime_def io_return_def result_simps io_bind_def
    dest!: unsigned_big split: sum.splits if_splits option.splits prod.splits)

lemma submit_authorized: "authorizeSubmission d c = (Inr w, c') \<Longrightarrow> submit d c = (w (ob_value d), c')"
  by (simp add: submit_def io_bind_def)

lemma verified_swap_reaches_the_writer:
  assumes run: "c = run_client ops (ReflectionPilotClient writer clock)" and pass: "authorizeSubmission d c = (Inr w, c')"
    and swap: "js_field (ob_value d) ''kind'' = Some (JStr ''swap'')"
  shows "\<exists>input v now k t. answered ops input v \<and> same_inputs v input \<and> assertSwapQuote v now = Inr () \<and>
    same_draft (ob_value d) (swap_draft (quote_of v)) \<and> clock k = Inr (JBig t) \<and> t < sq_deadlineUnixSeconds (quote_of v)"
proof -
  have safe: "client_safe ops c" unfolding run by (rule run_safe)
  obtain k t where k: "cl_clock c k = Inr (JBig t)" "t < draft_expiration (ob_value d)"
    using authorized(3) [OF pass swap] by blast
  obtain v where v: "verified ops v" "transactionDraftFingerprint (ob_value d) = transactionDraftFingerprint (swap_draft (quote_of v))"
    using safe_draftD [OF safe] authorized(3) [OF pass swap] by blast
  have same: "same_draft (ob_value d) (swap_draft (quote_of v))"
    by (rule same_swap [OF authorized(2) [OF pass] swap v(2)])
  then have "draft_expiration (ob_value d) = sq_deadlineUnixSeconds (quote_of v)"
    by (simp add: same_draft_def js_get_def swap_draft_fields)
  moreover have "cl_clock c = clock" using run_core [of ops "ReflectionPilotClient writer clock"] run
    by (simp add: ReflectionPilotClient_def)
  ultimately show ?thesis using v(1) same k unfolding verified_def by metis
qed


end
