(* ===== verification/Sdk_Witnesses.thy ===== *)
theory Sdk_Witnesses
  imports Pinned_Reads Client_Safety Step_Witnesses
begin

text \<open>
  A release on a concrete chain: the adapter reads a quote for the sale of \<open>Scenario\<close>, the client accepts
  it, drafts the swap and submits it.
\<close>

section \<open>A release\<close>

definition sample_manifest :: protocol_manifest where
  "sample_manifest = \<lparr>fm_networkLabel = ''cedra-testnet'', fm_chainId = 2, fm_deploymentId = ''d1'',
     fm_packageVersion = ''testnet-v0.2.0'', fm_finalizedLedgerVersion = 900,
     fm_packages = \<lparr>mp_reflectionCore = ''0xa1'', mp_testAssets = ''0xb2'', mp_testAmm = ''0xc3''\<rparr>,
     fm_addresses = \<lparr>mx_tokenMetadata = ''0x11'', mx_mockUsdMetadata = ''0x12'', mx_rewardVault = ''0x13'',
       mx_distributionVault = ''0x14'', mx_pool = ''0xc3'', mx_poolRflReserveStore = ''0x15'', mx_poolUsdReserveStore = ''0x16''\<rparr>\<rparr>"

text \<open>What its views return.\<close>

definition sample_views :: "(string \<times> js_val list) list" where
  "sample_views =
     [(''0xa1::reflection_registry::state_object'', [JStr ''0x00a1'']),
      (''0xa1::reflection_registry::deployment_id'', [JStr ''0x6431'']),
      (''0xa1::reflection_registry::network_label'', [JStr ''0x63656472612d746573746e6574'']),
      (''0xa1::reflection_registry::release_version'', [JNum 0, JNum 2, JNum 0]),
      (''0xa1::reflection_token::metadata'', [JObj [(''inner'', JStr ''0x11'')]]),
      (''0xa1::reflection_token::reward_vault'', [JObj [(''inner'', JStr ''0x13'')]]),
      (''0xa1::reflection_token::distribution_vault'', [JStr ''0x14'']),
      (''0xa1::reflection_token::reflection_fee_bps'', [JNum 100]),
      (''0xb2::mock_usd::metadata'', [JStr ''0x12'']),
      (''0xb2::mock_usd::pool_reserve'', [JStr ''0x16'']),
      (''0xc3::pool::rfl_reserve_store'', [JStr ''0x15'']),
      (''0xc3::pool::usd_reserve_store'', [JStr ''0x16'']),
      (''0xc3::pool::reserves_view'', [JNum 400000, JNum 900000]),
      (''0xc3::pool::limits'', [JNum 30, JNum 5000, JNum 250000]),
      (''0xc3::pool::liquidity_limits'', [JNum 1000000, JNum 1000000, JNum 5000]),
      (''0xc3::pool::lifecycle'', [JNum 1]),
      (''0xc3::pool::quote_sell'', [JNum 297394, JNum 2000, JNum 594])]"

definition sample_chain :: view_client where
  "sample_chain = \<lparr>vc_getLedgerInfo = Inr (JObj [(''chain_id'', JNum 2), (''ledger_version'', JNum 950),
       (''ledger_timestamp'', JNum 1000000000)]),
     vc_viewJson = (\<lambda>version fid args. case map_of sample_views fid of Some vs \<Rightarrow> Inr vs | None \<Rightarrow> Inl (TypeError ''no view''))\<rparr>"

definition sample_adapter :: read_adapter where
  "sample_adapter = \<lparr>ra_client = sample_chain, ra_manifest = sample_manifest\<rparr>"

definition sample_input :: swap_input where
  "sample_input = \<lparr>si_direction = ''sell'', si_grossAmount = 200000, si_slippageBps = 100, si_deadlineUnixSeconds = 1600\<rparr>"

definition sample_quote :: swap_quote where
  "sample_quote = \<lparr>sq_direction = Sell, sq_grossAmount = 200000, sq_slippageBps = 100, sq_reflectionFee = 2000,
     sq_ammFee = 594, sq_netReserveInput = 198000, sq_grossPoolOutput = 297394, sq_netUserReceipt = 297394,
     sq_minimumNetUserReceipt = 294420, sq_priceImpactBps = 3304, sq_deadlineUnixSeconds = 1600,
     sq_context = \<lparr>qc_chainId = 2, qc_ledgerVersion = 950, qc_deploymentId = ''d1'', qc_packageVersion = ''testnet-v0.2.0'',
       qc_inputReserve = 400000, qc_outputReserve = 900000, qc_reflectionFeeBps = 100, qc_ammFeeBps = 30,
       qc_maximumGrossSwap = 250000, qc_maximumReserveBps = 5000\<rparr>\<rparr>"

definition text_of_bytes :: "nat list \<Rightarrow> string" where
  "text_of_bytes cs = map char_of cs"

lemma sample_release: "FinalizedCedraReadAdapter sample_chain sample_manifest = Inr sample_adapter"
proof -
  have "assertManifest sample_manifest = Inr ()" "copyManifest sample_manifest = Inr sample_manifest" by code_simp+
  then show ?thesis by (simp add: FinalizedCedraReadAdapter_def sample_adapter_def)
qed

lemma sample_pinned: "pinLedger sample_adapter = Inr \<lparr>vi_chainId = 2, vi_version = 950, vi_timestampUnixSeconds = 1000, vi_packageVersion = []\<rparr>"
  by code_simp

lemma sample_quoted: "adapter_quoteSwap text_of_bytes sample_adapter sample_input = Inr sample_quote"
  by code_simp

section \<open>The quote\<close>

definition sample_client :: client where
  "sample_client = ReflectionPilotClient (Some (\<lambda>draft. Inr (JStr ''receipt''))) (\<lambda>k. Inr (JBig 1500))"

theorem client_accepts_finalized_quotes_witness:
  "\<exists>c'. quoteSwap (input_tree sample_input) (Inr (quote_tree sample_quote)) sample_client =
     (Inr \<lparr>ob_ref = Issued 0, ob_value = quote_tree sample_quote\<rparr>, c')"
proof -
  have "reads_time sample_client k 1500" for k
    by (simp add: reads_time_def sample_client_def ReflectionPilotClient_def MOVE_U64_MAX_def)
  note accepts = client_accepts_finalized_quotes [OF sample_release sample_quoted this this]
  then show ?thesis
    by (simp add: sample_client_def ReflectionPilotClient_def) (simp add: sample_input_def sample_manifest_def)
qed

lemma sample_accepted: "assertSwapQuote (quote_tree sample_quote) 1500 = Inr ()"
  by code_simp


section \<open>The submission\<close>

definition sample_ops :: "client_op list" where
  "sample_ops = [Quote_swap (input_tree sample_input) (Inr (quote_tree sample_quote)),
     Swap_draft \<lparr>ob_ref = Issued 0, ob_value = quote_tree sample_quote\<rparr>]"

definition sample_draft :: js_object where
  "sample_draft = \<lparr>ob_ref = Issued 2, ob_value = swap_draft sample_quote\<rparr>"

lemma sample_draft_valid: "assertCedraTransactionDraft (swap_draft sample_quote) = Inr ()"
  by code_simp

lemma sample_time: "cl_clock c = (\<lambda>k. Inr (JBig 1500)) \<Longrightarrow> currentTime c = (Inr 1500, c\<lparr>cl_calls := Suc (cl_calls c)\<rparr>)"
  by (simp add: currentTime_def assertUnsigned_def MOVE_U64_MAX_def)

lemma sample_remembered:
  "run_client [Quote_swap (input_tree sample_input) (Inr (quote_tree sample_quote))] sample_client = sample_client
     \<lparr>cl_calls := 2, cl_issued := 1, cl_verifiedSwapQuotes := [(Issued 0, swapQuoteFingerprint (quote_tree sample_quote))]\<rparr>"
proof -
  have checks: "rseq
       [assertSwapDirection (js_field (input_tree sample_input) ''direction''),
        assertPositive (js_field (input_tree sample_input) ''grossAmount'') MOVE_U64_MAX ''swap amount'',
        assertUnsigned (js_field (input_tree sample_input) ''slippageBps'') MOVE_U64_MAX ''slippage'',
        rensure (0 \<le> big_of (js_get (input_tree sample_input) ''slippageBps'') \<and> big_of (js_get (input_tree sample_input) ''slippageBps'') \<le> BPS_DENOMINATOR)
          (RangeError ''slippage must be between 0 and 10,000 basis points'')] = Inr ()"
    by code_simp
  have deadline: "assertFutureDeadline (js_field (input_tree sample_input) ''deadlineUnixSeconds'') 1500 = Inr ()" by code_simp
  have same: "same_inputs (quote_tree sample_quote) (input_tree sample_input)" by code_simp
  have clock: "cl_clock sample_client = (\<lambda>k. Inr (JBig 1500))" "cl_calls sample_client = 0" "cl_issued sample_client = 0"
    "cl_verifiedSwapQuotes sample_client = []"
    by (simp_all add: sample_client_def ReflectionPilotClient_def)
  show ?thesis
    unfolding run_client_def fold.simps id_comp client_step.simps id_apply comp_apply quoteSwap_def checks io_simps
    by (simp add: io_assertFutureDeadline_def io_bind_def sample_time clock deadline sample_accepted same issue_def remember_quote_def map_set.simps)
qed

lemma sample_drafted:
  "run_client sample_ops sample_client = sample_client
     \<lparr>cl_calls := 3, cl_issued := 3, cl_verifiedSwapQuotes := [(Issued 0, swapQuoteFingerprint (quote_tree sample_quote))],
      cl_verifiedSwapDrafts := [(Issued 2, transactionDraftFingerprint (swap_draft sample_quote))]\<rparr>"
proof -
  let ?first = "Quote_swap (input_tree sample_input) (Inr (quote_tree sample_quote))"
  let ?second = "Swap_draft \<lparr>ob_ref = Issued 0, ob_value = quote_tree sample_quote\<rparr>"
  have ops: "sample_ops = [?first] @ [?second]" by (simp add: sample_ops_def)
  have clock: "cl_clock sample_client = (\<lambda>k. Inr (JBig 1500))" "cl_verifiedSwapDrafts sample_client = []"
    by (simp_all add: sample_client_def ReflectionPilotClient_def)
  have swap: "draft_tree \<lparr>td_kind = ''swap'', td_functionId = ''test_amm::pool::sell_trfl'',
     td_arguments = [JBig (sq_grossAmount sample_quote), JBig (sq_minimumNetUserReceipt sample_quote), JBig (sq_deadlineUnixSeconds sample_quote)],
     td_secondarySignerAddresses = [], td_expirationUnixSeconds = sq_deadlineUnixSeconds sample_quote,
     td_warning = TESTNET_NO_VALUE_WARNING\<rparr> = swap_draft sample_quote"
    by (simp add: swap_draft_def sample_quote_def)
  have checks: "rseq
       [assertUnsigned (Some (JBig (sq_deadlineUnixSeconds sample_quote))) MOVE_U64_MAX ''transaction expiration'',
        rensure (0 < sq_deadlineUnixSeconds sample_quote) (RangeError ''transaction expiration must be positive'')] = Inr ()"
    by code_simp
  have sell: "sq_direction sample_quote = Sell" by (simp add: sample_quote_def)
  show ?thesis
    unfolding ops run_snoc sample_remembered
    by (simp add: createSwapDraft_def io_bind_def sample_time clock sample_accepted quote_of_tree createDraft_def sell swap checks
      sample_draft_valid issue_def remember_draft_def map_set.simps map_get_def Let_def)
qed


section \<open>Another history\<close>

text \<open>A chain that agrees with the first one at version 950 only.\<close>

definition sample_fork :: view_client where
  "sample_fork = sample_chain\<lparr>vc_viewJson := (\<lambda>version fid args.
     if version = 950 then vc_viewJson sample_chain version fid args else Inl (TypeError ''another history''))\<rparr>"

theorem reads_are_pinned_witness:
  "adapter_quoteSwap text_of_bytes (sample_adapter\<lparr>ra_client := sample_fork\<rparr>) sample_input = Inr sample_quote
     \<and> adapter_getPool text_of_bytes (sample_adapter\<lparr>ra_client := sample_fork\<rparr>) = adapter_getPool text_of_bytes sample_adapter"
proof -
  have fork: "FinalizedCedraReadAdapter sample_fork sample_manifest = Inr (sample_adapter\<lparr>ra_client := sample_fork\<rparr>)"
    using sample_release by (auto simp: FinalizedCedraReadAdapter_def sample_adapter_def result_simps)
  have header: "vc_getLedgerInfo sample_fork = vc_getLedgerInfo sample_chain" by (simp add: sample_fork_def)
  have "vc_viewJson sample_fork (vi_version ledger) = vc_viewJson sample_chain (vi_version ledger)"
    if "pinLedger sample_adapter = Inr ledger" for ledger
    using that unfolding sample_pinned by (auto simp: sample_fork_def fun_eq_iff)
  then show ?thesis using reads_are_pinned [OF sample_release fork header] sample_quoted by metis
qed

end
