(* ===== verification/Mock_Adapter.thy ===== *)
theory Mock_Adapter
  imports Adapter_Reads
begin

text \<open>
  The in-memory read adapter for interfaces and tests (\<open>packages/protocol-sdk/src/mock-adapter.ts\<close>). The
  optional reflection fee of its protocol snapshot is a field of its own; an absent map of terminal dust is
  the empty one.
\<close>

record mock_state =
  mk_portfolio :: portfolio_snapshot
  mk_protocol :: protocol_snapshot
  mk_reflectionFeeBps :: "int option"
  mk_faucetTrfl :: faucet_status
  mk_faucetTusd :: faucet_status
  mk_lpEpochTerminalDust :: "(int, int \<times> int) jsmap"

definition mock_getPortfolio :: "mock_state \<Rightarrow> string \<Rightarrow> portfolio_snapshot" where
  "mock_getPortfolio state account = mk_portfolio state"

definition mock_getProtocol :: "mock_state \<Rightarrow> protocol_snapshot" where
  "mock_getProtocol state = mk_protocol state"

definition mock_getPool :: "mock_state \<Rightarrow> pool_snapshot" where
  "mock_getPool state = pt_pool (mk_protocol state)"

definition mock_getLpEpochTerminalDust :: "mock_state \<Rightarrow> int \<Rightarrow> terminal_dust_snapshot" where
  "mock_getLpEpochTerminalDust state epoch =
     (let dust = map_get (mk_lpEpochTerminalDust state) epoch in
      \<lparr>du_epoch = epoch, du_terminalRoundingBaseUnits = (case dust of Some (r, m) \<Rightarrow> r | None \<Rightarrow> 0),
       du_retiredResidueMagnified = (case dust of Some (r, m) \<Rightarrow> m | None \<Rightarrow> 0),
       du_ledgerVersion = pt_ledgerVersion (mk_protocol state)\<rparr>)"

definition mock_getFaucetStatus :: "mock_state \<Rightarrow> string \<Rightarrow> string \<Rightarrow> faucet_status" where
  "mock_getFaucetStatus state account asset = (if asset = ''tRFL'' then mk_faucetTrfl state else mk_faucetTusd state)"

definition mock_quoteSwap :: "mock_state \<Rightarrow> swap_input \<Rightarrow> swap_quote result" where
  "mock_quoteSwap state input =
     (let pool = pt_pool (mk_protocol state); sell = (si_direction input = ''sell''); buy = (si_direction input = ''buy'');
          gross = si_grossAmount input; feeBps = (case mk_reflectionFeeBps state of Some fee \<Rightarrow> fee | None \<Rightarrow> 100) in
      rbind (if sell then reflectionFee (JBig gross) (JBig feeBps) else Inr 0) (\<lambda>inputReflection.
      let reserveInput = gross - inputReflection; invariant = bigint_quot (reserveInput * (10000 - 30)) 10000;
          ammFee = reserveInput - invariant;
          inputReserve = (if sell then pl_trflReserve pool else pl_tusdReserve pool);
          outputReserve = (if sell then pl_tusdReserve pool else pl_trflReserve pool) in
      rbind (bigint_div (invariant * outputReserve) (inputReserve + invariant)) (\<lambda>grossPoolOutput.
      rbind (if buy then rbind (reflectionFee (JBig grossPoolOutput) (JBig feeBps)) (\<lambda>fee. Inr (grossPoolOutput - fee))
        else Inr grossPoolOutput) (\<lambda>netUserReceipt.
      rbind (if inputReserve = 0 then Inr 0 else bigint_div (invariant * 10000) (inputReserve + invariant)) (\<lambda>priceImpactBps.
      rbind (if buy then reflectionFee (JBig grossPoolOutput) (JBig feeBps) else Inr inputReflection) (\<lambda>fee.
      Inr \<lparr>sq_direction = (if buy then Buy else Sell), sq_grossAmount = gross, sq_slippageBps = si_slippageBps input,
        sq_reflectionFee = fee, sq_ammFee = ammFee, sq_netReserveInput = reserveInput, sq_grossPoolOutput = grossPoolOutput,
        sq_netUserReceipt = netUserReceipt,
        sq_minimumNetUserReceipt = bigint_quot (netUserReceipt * (10000 - si_slippageBps input)) 10000,
        sq_priceImpactBps = priceImpactBps, sq_deadlineUnixSeconds = si_deadlineUnixSeconds input,
        sq_context = \<lparr>qc_chainId = CEDRA_TESTNET_CHAIN_ID, qc_ledgerVersion = pl_ledgerVersion pool,
          qc_deploymentId = ''mock-reflection-pilot'', qc_packageVersion = pt_packageVersion (mk_protocol state),
          qc_inputReserve = inputReserve, qc_outputReserve = outputReserve, qc_reflectionFeeBps = feeBps, qc_ammFeeBps = 30,
          qc_maximumGrossSwap = pl_maximumGrossSwap pool, qc_maximumReserveBps = pl_maximumReserveBps pool\<rparr>\<rparr>))))))"

text \<open>
  A quote of the mock adapter is computed with the arithmetic that the client reproduces; only an empty
  input reserve, where it states no price impact, is another matter.
\<close>

lemma mock_quote_arithmetic:
  assumes "mock_quoteSwap state input = Inr q" "si_direction input = ''buy'' \<or> si_direction input = ''sell''"
    and "qc_inputReserve (sq_context q) \<noteq> 0" "0 < sq_netReserveInput q" "0 < sq_netUserReceipt q"
  shows "quote_arithmetic q"
  using assms
  by (auto simp: mock_quoteSwap_def Let_def result_simps reflectionFee_def bigint_div_Inr_iff quote_arithmetic_def expectedReserveInput_def
    expectedSellReflection_def invariantInput_def expectedGrossOutput_def expectedReflectionFee_def expectedReceipt_def
    expectedMinimum_def expectedImpact_def BPS_DENOMINATOR_def mult.commute simp del: bigint_quot_nonneg split: if_splits)

end
