(* ===== verification/Canonical_Json.thy ===== *)
theory Canonical_Json
  imports Sdk_Values "HOL-Library.Multiset" "HOL-Library.Char_ord" "HOL-Library.List_Lexorder"
begin

text \<open>
  The canonical JSON of the release-candidate assembler
  (\<open>packages/release-candidate-assembler/src/index.ts\<close>): objects with their members sorted by key, and the
  comparison of two values by their canonical texts. The keys of the documents are no array indices, so
  an object keeps its members in the order they were inserted.
\<close>

section \<open>Canonical texts\<close>

text \<open>\<open>Object.entries(value).sort(...)\<close> orders by key alone and is stable, as \<open>sort_key fst\<close>.\<close>

fun sortedJsonValue :: "js_val \<Rightarrow> js_val"
  and sorted_elems :: "js_val list \<Rightarrow> js_val list"
  and sorted_members :: "(string \<times> js_val) list \<Rightarrow> (string \<times> js_val) list" where
  "sortedJsonValue (JArr vs) = JArr (sorted_elems vs)"
| "sortedJsonValue (JObj ms) = JObj (sort_key fst (sorted_members ms))"
| "sortedJsonValue JNull = JNull"
| "sortedJsonValue (JBool b) = JBool b"
| "sortedJsonValue (JNum n) = JNum n"
| "sortedJsonValue (JBig n) = JBig n"
| "sortedJsonValue (JStr s) = JStr s"
| "sorted_elems [] = []"
| "sorted_elems (v # vs) = sortedJsonValue v # sorted_elems vs"
| "sorted_members [] = []"
| "sorted_members ((k, v) # ms) = (k, sortedJsonValue v) # sorted_members ms"

definition canonicalJsonBytes :: "js_val \<Rightarrow> string" where
  "canonicalJsonBytes v = encodeBigInts (sortedJsonValue v) @ [CHR 0x0A]"

definition sameJson :: "js_val \<Rightarrow> js_val \<Rightarrow> bool" where
  "sameJson left right = (encodeBigInts (sortedJsonValue left) = encodeBigInts (sortedJsonValue right))"

text \<open>\<open>JSON.parse(JSON.stringify(v, ...))\<close> with every \<open>bigint\<close> as its decimal text.\<close>

fun jsonSafe :: "js_val \<Rightarrow> js_val"
  and safe_elems :: "js_val list \<Rightarrow> js_val list"
  and safe_members :: "(string \<times> js_val) list \<Rightarrow> (string \<times> js_val) list" where
  "jsonSafe (JArr vs) = JArr (safe_elems vs)"
| "jsonSafe (JObj ms) = JObj (safe_members ms)"
| "jsonSafe (JBig n) = JStr (int_str n)"
| "jsonSafe JNull = JNull"
| "jsonSafe (JBool b) = JBool b"
| "jsonSafe (JNum n) = JNum n"
| "jsonSafe (JStr s) = JStr s"
| "safe_elems [] = []"
| "safe_elems (v # vs) = jsonSafe v # safe_elems vs"
| "safe_members [] = []"
| "safe_members ((k, v) # ms) = (k, jsonSafe v) # safe_members ms"

section \<open>Equality up to the order of members\<close>

inductive json_equal :: "js_val \<Rightarrow> js_val \<Rightarrow> bool" where
  leaf: "\<forall>vs. v \<noteq> JArr vs \<Longrightarrow> \<forall>ms. v \<noteq> JObj ms \<Longrightarrow> json_equal v v"
| arr: "list_all2 json_equal vs ws \<Longrightarrow> json_equal (JArr vs) (JArr ws)"
| obj: "mset ms' = mset ms \<Longrightarrow> list_all2 (\<lambda>m n. fst m = fst n \<and> json_equal (snd m) (snd n)) ms' ns \<Longrightarrow> json_equal (JObj ms) (JObj ns)"

lemma sorted_elems_map: "sorted_elems vs = map sortedJsonValue vs"
  by (induction vs) simp_all

lemma sorted_members_map: "sorted_members ms = map (\<lambda>m. (fst m, sortedJsonValue (snd m))) ms"
  by (induction ms) auto

lemma json_elems_all: "json_elems vs = list_all json_tree vs"
  by (induction vs) simp_all

lemma json_members_all: "json_members ms = list_all (\<lambda>m. json_tree (snd m)) ms"
  by (induction ms) auto

lemma plain_elems_map: "plain_elems vs = map plain vs"
  by (induction vs) simp_all

lemma plain_members_map: "plain_members ms = map (\<lambda>m. (fst m, plain (snd m))) ms"
  by (induction ms) auto

text \<open>Sorting keeps a value well formed and free of \<open>bigint\<close>.\<close>

lemma sorted_json_tree:
  "json_tree v \<Longrightarrow> json_tree (sortedJsonValue v)"
  "json_elems vs \<Longrightarrow> json_elems (sorted_elems vs)"
  "json_members ms \<Longrightarrow> json_members (sorted_members ms)"
proof (induction v and vs and ms rule: sortedJsonValue_sorted_elems_sorted_members.induct)
  case (2 ms)
  have "map fst (sorted_members ms) = map fst ms" by (simp add: sorted_members_map comp_def)
  then have "distinct (map fst (sort_key fst (sorted_members ms)))"
    using 2 by (metis distinct_map json_tree.simps(2) mset_sort set_sort distinct_sort image_set mset_eq_imp_distinct_iff mset_map)
  then show ?case using 2 by (simp add: json_members_all list_all_iff)
qed auto

lemma plain_members_iff: "plain_members ms = ms \<longleftrightarrow> (\<forall>m \<in> set ms. plain (snd m) = snd m)"
  by (induction ms) auto

lemma sorted_plain:
  "plain v = v \<Longrightarrow> plain (sortedJsonValue v) = sortedJsonValue v"
  "plain_elems vs = vs \<Longrightarrow> plain_elems (sorted_elems vs) = sorted_elems vs"
  "plain_members ms = ms \<Longrightarrow> plain_members (sorted_members ms) = sorted_members ms"
proof (induction v and vs and ms rule: sortedJsonValue_sorted_elems_sorted_members.induct)
  case (2 ms)
  then have "\<forall>m \<in> set (sorted_members ms). plain (snd m) = snd m" by (simp add: plain_members_iff)
  then show ?case by (simp add: plain_members_iff)
qed auto

lemma sameJson_sorted:
  assumes "json_tree l" "json_tree r" "plain l = l" "plain r = r"
  shows "sameJson l r \<longleftrightarrow> sortedJsonValue l = sortedJsonValue r"
  using encode_inj [of "sortedJsonValue l" "sortedJsonValue r"] assms by (auto simp: sameJson_def sorted_json_tree sorted_plain)

section \<open>The comparison decides it\<close>

lemma mset_map_permutes: "mset (map f xs) = mset ys \<Longrightarrow> \<exists>xs'. mset xs' = mset xs \<and> map f xs' = ys"
proof (induction ys arbitrary: xs)
  case (Cons y ys)
  then have "y \<in> set (map f xs)" by (metis list.set_intros(1) set_mset_mset)
  then obtain x where x: "x \<in> set xs" "y = f x" by auto
  have xs: "mset xs = add_mset x (mset (remove1 x xs))" using x(1) by simp
  have "add_mset y (image_mset f (mset (remove1 x xs))) = add_mset y (mset ys)"
    using Cons.prems arg_cong [OF xs, of "image_mset f"] x(2) by simp
  then have "mset (map f (remove1 x xs)) = mset ys" by simp
  then obtain zs where zs: "mset zs = mset (remove1 x xs)" "map f zs = ys" using Cons.IH by blast
  have "mset (x # zs) = mset xs" unfolding xs by (simp add: zs(1))
  then show ?case using zs(2) x(2) by (intro exI [of _ "x # zs"]) simp
qed simp

lemma map_eq_all2: "map f xs = map g ys \<longleftrightarrow> list_all2 (\<lambda>x y. f x = g y) xs ys"
  by (auto simp: list_all2_conv_all_nth list_eq_iff_nth_eq)

lemma sorted_implies_equal:
  "sortedJsonValue l = sortedJsonValue r \<Longrightarrow> json_equal l r"
  "sorted_elems vs = sorted_elems ws \<Longrightarrow> list_all2 json_equal vs ws"
  "\<forall>m \<in> set (ms :: (string \<times> js_val) list). \<forall>w. sortedJsonValue (snd m) = sortedJsonValue w \<longrightarrow> json_equal (snd m) w"
proof (induction l and vs and ms arbitrary: r and ws rule: sortedJsonValue_sorted_elems_sorted_members.induct)
  case (1 vs)
  then obtain ws where "r = JArr ws" "sorted_elems vs = sorted_elems ws" by (cases r) auto
  then show ?case using 1 by (auto intro: json_equal.arr)
next
  case (2 ms)
  let ?f = "\<lambda>m. (fst m, sortedJsonValue (snd m))"
  obtain ns where r: "r = JObj ns" "sort_key fst (sorted_members ms) = sort_key fst (sorted_members ns)"
    using 2(2) by (cases r) auto
  have "mset (map ?f ms) = mset (map ?f ns)" using arg_cong [OF r(2), of mset] by (simp add: sorted_members_map)
  then obtain ms' where m: "mset ms' = mset ms" "map ?f ms' = map ?f ns" using mset_map_permutes by blast
  have "list_all2 (\<lambda>m n. ?f m = ?f n) ms' ns" using m(2) unfolding map_eq_all2 .
  moreover have "set ms' = set ms" using m(1) by (metis set_mset_mset)
  ultimately have "list_all2 (\<lambda>m n. fst m = fst n \<and> json_equal (snd m) (snd n)) ms' ns"
    using 2(1) by (auto intro: list.rel_mono_strong)
  then show ?case unfolding r(1) by (rule json_equal.obj [OF m(1)])
next
  case (9 v vs)
  then show ?case by (cases ws) auto
next
  case (3 r)
  then show ?case by (cases r) (simp_all add: json_equal.leaf)
next
  case (4 b r)
  then show ?case by (cases r) (simp_all add: json_equal.leaf)
next
  case (5 n r)
  then show ?case by (cases r) (simp_all add: json_equal.leaf)
next
  case (6 n r)
  then show ?case by (cases r) (simp_all add: json_equal.leaf)
next
  case (7 s r)
  then show ?case by (cases r) (simp_all add: json_equal.leaf)
next
  case (8 ws)
  then show ?case by (cases ws) simp_all
qed auto

lemma equal_implies_sorted: "json_equal l r \<Longrightarrow> json_tree l \<Longrightarrow> sortedJsonValue l = sortedJsonValue r"
proof (induction rule: json_equal.induct)
  case (arr vs ws)
  then have "list_all2 (\<lambda>v w. sortedJsonValue v = sortedJsonValue w) vs ws"
    by (auto simp: json_elems_all list_all_iff intro: list.rel_mono_strong)
  then show ?case by (simp add: sorted_elems_map map_eq_all2)
next
  case (obj ms' ms ns)
  have "set ms' = set ms" using obj(1) by (metis set_mset_mset)
  then have "list_all2 (\<lambda>m n. fst m = fst n \<and> sortedJsonValue (snd m) = sortedJsonValue (snd n)) ms' ns"
    using obj(2,3) by (auto simp: json_members_all list_all_iff intro: list.rel_mono_strong)
  then have n: "sorted_members ms' = sorted_members ns"
    by (simp add: sorted_members_map map_eq_all2)
  have "map fst (sorted_members ms) = map fst ms" by (simp add: sorted_members_map comp_def)
  then have "inj_on fst (set (sorted_members ms))" using obj(3) by (metis distinct_map json_tree.simps(2))
  moreover have "mset (sorted_members ms) = mset (sort_key fst (sorted_members ms'))"
    using arg_cong [OF obj(1), of "image_mset (\<lambda>m. (fst m, sortedJsonValue (snd m)))"] by (simp add: sorted_members_map)
  ultimately have "sort_key fst (sorted_members ms) = sort_key fst (sorted_members ms')"
    by (intro sort_key_inj_key_eq) simp_all
  then show ?case by (simp add: n)
qed simp

text \<open>
  C17. The comparison of two JSON values by their canonical texts is exact: it accepts them if and only if
  they are equal up to the order of the members of their objects, at every depth.
\<close>

theorem canonical_comparison_is_exact:
  assumes "json_tree l" "json_tree r" "plain l = l" "plain r = r"
  shows "sameJson l r \<longleftrightarrow> json_equal l r"
  using sameJson_sorted [OF assms] sorted_implies_equal(1) [of l r] equal_implies_sorted [OF _ assms(1), of r] by blast

end
