(* ===== verification/Release_Client.thy ===== *)
theory Release_Client
  imports Sdk_Values
begin

text \<open>
  The release client (\<open>packages/protocol-sdk/src/cedra-release-client.ts\<close>): it has the official SDK build and
  simulate the transactions of a release, and accepts only what it was asked for. The SDK is a parameter:
  \<open>cedra_sdk\<close> holds the pure functions the code calls, what the SDK builds and what a simulation answers are
  arguments of the operations, and a transaction object is what the code reads of it. An account address is
  the number it denotes; the arguments of an entry function (type \<open>'a\<close>) are passed on unread.
\<close>

section \<open>The official SDK\<close>

datatype transaction_class = MultiAgentTransaction | SimpleTransaction | OtherClass

text \<open>The payload of a transaction, if it is an entry function; and a type argument as the caller gives it.\<close>

record entry_payload =
  ep_moduleAddress :: nat
  ep_moduleName :: string
  ep_functionName :: string
  ep_argumentCount :: nat
  ep_typeArguments :: "string list"

record sdk_transaction =
  tx_class :: transaction_class
  tx_chainId :: js_val
  tx_sender :: nat
  tx_secondarySigners :: "nat list"
  tx_feePayer :: "nat option"
  tx_sequenceNumber :: int
  tx_maxGasAmount :: int
  tx_gasUnitPrice :: int
  tx_expirationSeconds :: int
  tx_gasType :: string
  tx_payload :: "entry_payload option"
  tx_payloadBytes :: "nat list"
  tx_rawBytes :: "nat list"
  tx_bytes :: "nat list"
  tx_signingMessage :: "nat list"

datatype type_argument = Tag_text string | Tag_object string | Tag_other

record release_abi =
  ab_signers :: js_val
  ab_typeParameters :: "string list option"
  ab_parameters :: "string list option"

text \<open>
  \<open>None\<close> is a value that is no array, and an absent or malformed object for the ABI; absent type
  arguments are the empty array. A type tag is its text.
\<close>

record 'a entry_data =
  ed_function :: js_val
  ed_typeArguments :: "type_argument list option"
  ed_functionArguments :: "'a list option"
  ed_abi :: "release_abi option"

record 'a cedra_sdk =
  sd_fromString :: "string \<Rightarrow> nat option"
  sd_toStringLong :: "nat \<Rightarrow> string"
  sd_parseTypeTag :: "string \<Rightarrow> string result"
  sd_CEDRA_COIN :: string
  sd_sha256 :: "nat list \<Rightarrow> string"
  sd_payloadBytes :: "'a entry_data \<Rightarrow> nat list result"

section \<open>Requests and identities\<close>

record release_options =
  ro_accountSequenceNumber :: js_val
  ro_maxGasAmount :: js_val
  ro_gasUnitPrice :: js_val
  ro_expireTimestamp :: js_val
  ro_faAddress :: "type_argument option"

record 'a entry_request =
  rq_senderAddress :: js_val
  rq_secondarySignerAddresses :: "js_val list option"
  rq_data :: "'a entry_data"
  rq_options :: release_options

record transaction_identity =
  ti_transactionType :: transaction_class
  ti_senderAddress :: string
  ti_secondarySignerAddresses :: "string list"
  ti_feePayerAddress :: "string option"
  ti_sequenceNumber :: string
  ti_maxGasAmount :: string
  ti_gasUnitPrice :: string
  ti_expirationTimestampSeconds :: string
  ti_chainId :: int
  ti_fungibleAssetGasType :: string
  ti_rawTransactionBcsHex :: string
  ti_rawTransactionSha256 :: string
  ti_transactionBcsHex :: string
  ti_transactionSha256 :: string
  ti_signingMessageHex :: string
  ti_signingMessageSha256 :: string

definition CedraReleaseChainIdMismatchError :: "js_val \<Rightarrow> js_error" where
  "CedraReleaseChainIdMismatchError observed = ClassError ''CedraReleaseChainIdMismatchError''
     (''Release transactions must use Cedra Testnet chain '' @ int_str CEDRA_TESTNET_CHAIN_ID @ ''; observed '' @ js_String observed)"

definition CedraReleaseTransactionMismatchError :: "string \<Rightarrow> js_error" where
  "CedraReleaseTransactionMismatchError detail = ClassError ''CedraReleaseTransactionMismatchError''
     (''Cedra SDK returned a transaction that differs from the explicit release request: '' @ detail)"

definition bytesToHex :: "nat list \<Rightarrow> string" where
  "bytesToHex bytes = ''0x'' @ concat (map (\<lambda>b. [hex_char (b div 16), hex_char (b mod 16)]) bytes)"

definition describeTransaction :: "'a cedra_sdk \<Rightarrow> sdk_transaction \<Rightarrow> transaction_class \<Rightarrow> string list \<Rightarrow> transaction_identity result" where
  "describeTransaction sdk tx transactionType secondary =
     (if tx_chainId tx \<noteq> JNum CEDRA_TESTNET_CHAIN_ID then Inl (CedraReleaseChainIdMismatchError (tx_chainId tx))
      else Inr \<lparr>ti_transactionType = transactionType, ti_senderAddress = sd_toStringLong sdk (tx_sender tx),
        ti_secondarySignerAddresses = secondary, ti_feePayerAddress = map_option (sd_toStringLong sdk) (tx_feePayer tx),
        ti_sequenceNumber = int_str (tx_sequenceNumber tx), ti_maxGasAmount = int_str (tx_maxGasAmount tx),
        ti_gasUnitPrice = int_str (tx_gasUnitPrice tx), ti_expirationTimestampSeconds = int_str (tx_expirationSeconds tx),
        ti_chainId = CEDRA_TESTNET_CHAIN_ID, ti_fungibleAssetGasType = tx_gasType tx,
        ti_rawTransactionBcsHex = bytesToHex (tx_rawBytes tx), ti_rawTransactionSha256 = sd_sha256 sdk (tx_rawBytes tx),
        ti_transactionBcsHex = bytesToHex (tx_bytes tx), ti_transactionSha256 = sd_sha256 sdk (tx_bytes tx),
        ti_signingMessageHex = bytesToHex (tx_signingMessage tx), ti_signingMessageSha256 = sd_sha256 sdk (tx_signingMessage tx)\<rparr>)"

definition describeMultiAgentTransaction :: "'a cedra_sdk \<Rightarrow> sdk_transaction \<Rightarrow> transaction_identity result" where
  "describeMultiAgentTransaction sdk tx =
     (if tx_class tx \<noteq> MultiAgentTransaction then Inl (TypeError ''Expected a Cedra MultiAgentTransaction instance'')
      else describeTransaction sdk tx MultiAgentTransaction (map (sd_toStringLong sdk) (tx_secondarySigners tx)))"

definition describeSingleSignerTransaction :: "'a cedra_sdk \<Rightarrow> sdk_transaction \<Rightarrow> transaction_identity result" where
  "describeSingleSignerTransaction sdk tx =
     (if tx_class tx \<noteq> SimpleTransaction then Inl (TypeError ''Expected a Cedra SimpleTransaction instance'')
      else describeTransaction sdk tx SimpleTransaction [])"

definition identitiesMatch :: "transaction_identity \<Rightarrow> transaction_identity \<Rightarrow> bool" where
  "identitiesMatch expected observed =
     (ti_transactionType expected = ti_transactionType observed
      \<and> ti_senderAddress expected = ti_senderAddress observed
      \<and> ti_secondarySignerAddresses expected = ti_secondarySignerAddresses observed
      \<and> ti_feePayerAddress expected = ti_feePayerAddress observed
      \<and> ti_sequenceNumber expected = ti_sequenceNumber observed
      \<and> ti_maxGasAmount expected = ti_maxGasAmount observed
      \<and> ti_gasUnitPrice expected = ti_gasUnitPrice observed
      \<and> ti_expirationTimestampSeconds expected = ti_expirationTimestampSeconds observed
      \<and> ti_chainId expected = ti_chainId observed
      \<and> ti_fungibleAssetGasType expected = ti_fungibleAssetGasType observed
      \<and> ti_rawTransactionBcsHex expected = ti_rawTransactionBcsHex observed
      \<and> ti_rawTransactionSha256 expected = ti_rawTransactionSha256 observed
      \<and> ti_transactionBcsHex expected = ti_transactionBcsHex observed
      \<and> ti_transactionSha256 expected = ti_transactionSha256 observed
      \<and> ti_signingMessageHex expected = ti_signingMessageHex observed
      \<and> ti_signingMessageSha256 expected = ti_signingMessageSha256 observed)"

section \<open>Checks of a request\<close>

definition canonicalNonzeroAddress :: "'a cedra_sdk \<Rightarrow> js_val \<Rightarrow> string \<Rightarrow> string result" where
  "canonicalNonzeroAddress sdk v label = (case v of
       JStr s \<Rightarrow> (case sd_fromString sdk s of
           None \<Rightarrow> Inl (TypeError (label @ '' must be a valid hexadecimal account address string.''))
         | Some parsed \<Rightarrow>
             if parsed = 0 then Inl (TypeError (label @ '' cannot be the zero address.''))
             else Inr (sd_toStringLong sdk parsed))
     | _ \<Rightarrow> Inl (TypeError (label @ '' must be a hexadecimal account address string.'')))"

text \<open>\<open>addresses.map((address, index) => ...)\<close> from an index on.\<close>

fun canonicalSecondary :: "'a cedra_sdk \<Rightarrow> nat \<Rightarrow> js_val list \<Rightarrow> string list result" where
  "canonicalSecondary sdk i [] = Inr []"
| "canonicalSecondary sdk i (v # vs) =
     rbind (canonicalNonzeroAddress sdk v (''secondary signer address '' @ nat_str i)) (\<lambda>a.
     rbind (canonicalSecondary sdk (Suc i) vs) (\<lambda>as. Inr (a # as)))"

definition assertDistinctSignerAddresses :: "'a cedra_sdk \<Rightarrow> js_val \<Rightarrow> js_val list option \<Rightarrow> bool \<Rightarrow> unit result" where
  "assertDistinctSignerAddresses sdk sender secondary requireSecondarySigner = (case secondary of
       None \<Rightarrow> Inl (TypeError ''Secondary signer addresses must be an ordered array.'')
     | Some vs \<Rightarrow>
         if requireSecondarySigner \<and> vs = [] then Inl (PlainError ''A multi-agent operation requires at least one secondary signer.'')
         else rbind (canonicalNonzeroAddress sdk sender ''release sender address'') (\<lambda>a.
           rbind (canonicalSecondary sdk 0 vs) (\<lambda>as.
           rensure (distinct (a # as)) (PlainError ''Every multi-agent signer must have a distinct canonical address.''))))"

definition explicitSequenceNumber :: "js_val \<Rightarrow> int result" where
  "explicitSequenceNumber v = (case v of
       JNum n \<Rightarrow> if \<bar>n\<bar> \<le> MAX_SAFE_INTEGER then Inr n
         else Inl (RangeError ''Account sequence number must be an exact unsigned u64 integer.'')
     | JBig n \<Rightarrow> Inr n
     | _ \<Rightarrow> Inl (TypeError ''Account sequence number must be a bigint or safe integer number.''))"

definition explicitLimit :: "string \<Rightarrow> js_val \<Rightarrow> unit result" where
  "explicitLimit label v = (case v of
       JNum n \<Rightarrow> rensure (\<bar>n\<bar> \<le> MAX_SAFE_INTEGER \<and> 1 \<le> n)
         (RangeError (label @ '' must be an explicit safe unsigned integer greater than zero.''))
     | _ \<Rightarrow> Inl (RangeError (label @ '' must be an explicit safe unsigned integer greater than zero.'')))"

definition assertExplicitOptions :: "release_options \<Rightarrow> unit result" where
  "assertExplicitOptions options =
     rbind (explicitSequenceNumber (ro_accountSequenceNumber options)) (\<lambda>sequenceNumber.
     rseq
       [rensure (0 \<le> sequenceNumber \<and> sequenceNumber \<le> MOVE_U64_MAX)
          (RangeError ''Account sequence number must be an unsigned u64 integer.''),
        explicitLimit ''maximum gas amount'' (ro_maxGasAmount options),
        explicitLimit ''gas unit price'' (ro_gasUnitPrice options),
        explicitLimit ''expiration timestamp'' (ro_expireTimestamp options),
        rensure (case ro_faAddress options of None \<Rightarrow> True | Some (Tag_object s) \<Rightarrow> True | Some _ \<Rightarrow> False)
          (TypeError ''Fungible-asset gas type must be an official Cedra TypeTag instance.'')])"

definition assertLocalReleaseAbi :: "'a entry_data \<Rightarrow> nat \<Rightarrow> unit result" where
  "assertLocalReleaseAbi data expectedSigners = (case ed_abi data of
       None \<Rightarrow> Inl (TypeError ''Release entries require an explicit local ABI; remote ABI discovery is forbidden.'')
     | Some abi \<Rightarrow> rseq
         [rensure (ab_typeParameters abi \<noteq> None \<and> ab_parameters abi \<noteq> None)
            (TypeError ''Release entries require an explicit local ABI; remote ABI discovery is forbidden.''),
          rensure (ab_signers abi = JNum (int expectedSigners))
            (TypeError (''Release ABI must declare exactly '' @ nat_str expectedSigners @ '' ordered signer(s).'')),
          rensure (ed_functionArguments data \<noteq> None \<and> ed_typeArguments data \<noteq> None)
            (TypeError ''Release entry-function arguments must be ordered arrays.'')])"

section \<open>Checks of what was built\<close>

text \<open>The labels of the mismatches, joined; no label means none.\<close>

fun comma_list :: "string list \<Rightarrow> string" where
  "comma_list [] = ''''"
| "comma_list [s] = s"
| "comma_list (s # ss) = s @ '', '' @ comma_list ss"

definition refuse_mismatches :: "(bool \<times> string) list \<Rightarrow> unit result" where
  "refuse_mismatches checks = (let mismatches = map snd (filter fst checks) in
     rensure (mismatches = []) (CedraReleaseTransactionMismatchError (comma_list mismatches)))"

fun tag_str :: "type_argument \<Rightarrow> string" where
  "tag_str (Tag_text s) = s" | "tag_str (Tag_object s) = s" | "tag_str Tag_other = ''[object Object]''"

definition assertBuiltTransactionMatchesRequest ::
    "'a cedra_sdk \<Rightarrow> transaction_identity \<Rightarrow> js_val \<Rightarrow> js_val list \<Rightarrow> release_options \<Rightarrow> unit result" where
  "assertBuiltTransactionMatchesRequest sdk ident sender secondary options =
     rbind (canonicalNonzeroAddress sdk sender ''release sender address'') (\<lambda>expectedSender.
     rbind (canonicalSecondary sdk 0 secondary) (\<lambda>expectedSecondary.
     rbind (case ro_faAddress options of Some tag \<Rightarrow> Inr (tag_str tag) | None \<Rightarrow> sd_parseTypeTag sdk (sd_CEDRA_COIN sdk)) (\<lambda>expectedGasType.
     rbind (explicitSequenceNumber (ro_accountSequenceNumber options)) (\<lambda>sequenceNumber.
     refuse_mismatches
       [(ti_senderAddress ident \<noteq> expectedSender, ''sender address''),
        (ti_secondarySignerAddresses ident \<noteq> expectedSecondary, ''ordered secondary signer addresses''),
        (ti_feePayerAddress ident \<noteq> None, ''unexpected fee payer''),
        (ti_sequenceNumber ident \<noteq> int_str sequenceNumber, ''account sequence number''),
        (ti_maxGasAmount ident \<noteq> js_String (ro_maxGasAmount options), ''maximum gas amount''),
        (ti_gasUnitPrice ident \<noteq> js_String (ro_gasUnitPrice options), ''gas unit price''),
        (ti_expirationTimestampSeconds ident \<noteq> js_String (ro_expireTimestamp options), ''expiration timestamp''),
        (ti_fungibleAssetGasType ident \<noteq> expectedGasType, ''gas asset type'')]))))"

fun typeArgumentText :: "'a cedra_sdk \<Rightarrow> type_argument \<Rightarrow> string result" where
  "typeArgumentText sdk (Tag_text s) = sd_parseTypeTag sdk s"
| "typeArgumentText sdk (Tag_object s) = Inr s"
| "typeArgumentText sdk Tag_other = Inl (TypeError ''Release type arguments must be strings or official Cedra TypeTag instances.'')"

definition assertBuiltPayloadMatchesRequest :: "'a cedra_sdk \<Rightarrow> sdk_transaction \<Rightarrow> 'a entry_data \<Rightarrow> unit result" where
  "assertBuiltPayloadMatchesRequest sdk tx data = (case tx_payload tx of
       None \<Rightarrow> Inl (CedraReleaseTransactionMismatchError ''payload is not an entry function'')
     | Some entry \<Rightarrow> (case ed_function data of
         JStr f \<Rightarrow> (case split_colons [] f of
             [address, moduleName, functionName] \<Rightarrow>
               rbind (rensure (address \<noteq> [] \<and> moduleName \<noteq> [] \<and> functionName \<noteq> [])
                 (TypeError ''Release entry function must be address::module::function.'')) (\<lambda>_.
               rbind (canonicalNonzeroAddress sdk (JStr address) ''entry-function module address'') (\<lambda>moduleAddress.
               case (ed_functionArguments data, ed_typeArguments data) of
                 (Some args, Some tags) \<Rightarrow>
                   rbind (map_result (typeArgumentText sdk) tags) (\<lambda>expectedTypeArguments.
                   rbind (sd_payloadBytes sdk data) (\<lambda>expected.
                   refuse_mismatches
                     [(sd_toStringLong sdk (ep_moduleAddress entry) \<noteq> moduleAddress, ''entry-function module address''),
                      (ep_moduleName entry \<noteq> moduleName, ''entry-function module name''),
                      (ep_functionName entry \<noteq> functionName, ''entry-function name''),
                      (ep_argumentCount entry \<noteq> length args, ''entry-function argument count''),
                      (ep_typeArguments entry \<noteq> expectedTypeArguments, ''entry-function type arguments''),
                      (bytesToHex expected \<noteq> bytesToHex (tx_payloadBytes tx), ''entry-function payload BCS'')]))
               | _ \<Rightarrow> Inl (TypeError ''Release entry-function arguments must be ordered arrays.'')))
           | _ \<Rightarrow> Inl (TypeError ''Release entry function must be address::module::function.''))
       | _ \<Rightarrow> Inl (TypeError ''Release entry function must be a fully qualified string.'')))"

section \<open>Building and simulating\<close>

definition buildMultiAgent :: "'a cedra_sdk \<Rightarrow> ('a entry_request \<Rightarrow> sdk_transaction result) \<Rightarrow> 'a entry_request \<Rightarrow> sdk_transaction result" where
  "buildMultiAgent sdk build request =
     (let secondary = (case rq_secondarySignerAddresses request of None \<Rightarrow> [] | Some vs \<Rightarrow> vs) in
      rbind (assertDistinctSignerAddresses sdk (rq_senderAddress request) (rq_secondarySignerAddresses request) True) (\<lambda>_.
      rbind (assertExplicitOptions (rq_options request)) (\<lambda>_.
      rbind (assertLocalReleaseAbi (rq_data request) (1 + length secondary)) (\<lambda>_.
      rbind (build request) (\<lambda>tx.
      rbind (describeMultiAgentTransaction sdk tx) (\<lambda>ident.
      rbind (assertBuiltPayloadMatchesRequest sdk tx (rq_data request)) (\<lambda>_.
      rbind (assertBuiltTransactionMatchesRequest sdk ident (rq_senderAddress request) secondary (rq_options request)) (\<lambda>_.
      Inr tx))))))))"

definition buildSingleSigner :: "'a cedra_sdk \<Rightarrow> ('a entry_request \<Rightarrow> sdk_transaction result) \<Rightarrow> 'a entry_request \<Rightarrow> sdk_transaction result" where
  "buildSingleSigner sdk build request =
     rbind (assertDistinctSignerAddresses sdk (rq_senderAddress request) (Some []) False) (\<lambda>_.
     rbind (assertExplicitOptions (rq_options request)) (\<lambda>_.
     rbind (assertLocalReleaseAbi (rq_data request) 1) (\<lambda>_.
     rbind (build request) (\<lambda>tx.
     rbind (describeSingleSignerTransaction sdk tx) (\<lambda>ident.
     rbind (assertBuiltPayloadMatchesRequest sdk tx (rq_data request)) (\<lambda>_.
     rbind (assertBuiltTransactionMatchesRequest sdk ident (rq_senderAddress request) [] (rq_options request)) (\<lambda>_.
     Inr tx)))))))"

definition simulateMultiAgent :: "'a cedra_sdk \<Rightarrow> (sdk_transaction \<Rightarrow> 'k \<Rightarrow> 'k list \<Rightarrow> 'r result) \<Rightarrow> sdk_transaction \<Rightarrow>
    transaction_identity \<Rightarrow> 'k \<Rightarrow> 'k list \<Rightarrow> (transaction_identity \<times> 'r) result" where
  "simulateMultiAgent sdk simulate tx expectedIdentity senderKey secondaryKeys =
     rbind (describeMultiAgentTransaction sdk tx) (\<lambda>ident.
     if \<not> identitiesMatch expectedIdentity ident
     then Inl (PlainError ''The transaction presented for simulation differs from the reviewed BCS/signing identity.'')
     else if length secondaryKeys \<noteq> length (ti_secondarySignerAddresses ident)
     then Inl (PlainError ''Every ordered secondary signer address requires exactly one matching public key.'')
     else rbind (simulate tx senderKey secondaryKeys) (\<lambda>responses. Inr (ident, responses)))"

definition simulateSingleSigner :: "'a cedra_sdk \<Rightarrow> (sdk_transaction \<Rightarrow> 'k \<Rightarrow> 'k list \<Rightarrow> 'r result) \<Rightarrow> sdk_transaction \<Rightarrow>
    transaction_identity \<Rightarrow> 'k \<Rightarrow> (transaction_identity \<times> 'r) result" where
  "simulateSingleSigner sdk simulate tx expectedIdentity senderKey =
     rbind (describeSingleSignerTransaction sdk tx) (\<lambda>ident.
     if \<not> identitiesMatch expectedIdentity ident
     then Inl (PlainError ''The single-signer transaction differs from the reviewed BCS/signing identity.'')
     else rbind (simulate tx senderKey []) (\<lambda>responses. Inr (ident, responses)))"

end
