(* ===== verification/Release_Inputs.thy ===== *)
theory Release_Inputs
  imports Canonical_Json Release_Client
begin

text \<open>
  The inputs of the release-candidate assembler (\<open>packages/release-candidate-assembler/src/index.ts\<close>, and the
  validation of build evidence in \<open>build-integrity.ts\<close>): untrusted JSON documents are read into a build
  request, the bundle of exact-address artifacts and the profile evidence, and cross-checked into one
  context. Digests of observed files and the state of the repository are arguments; the derivation of an
  address from a public key, which the SDK does, is the parameter \<open>derive\<close>.
\<close>

section \<open>Roles, operations and packages\<close>

datatype release_role = Core_publisher | Assets_publisher | Amm_publisher | Bootstrap_lp

datatype release_operation = Core_publish | Core_initialize | Assets_publish | Amm_publish | Pool_launch

datatype release_package = Reflection_core | Test_assets | Test_amm

fun role_str :: "release_role \<Rightarrow> string" where
  "role_str Core_publisher = ''core_publisher''"
| "role_str Assets_publisher = ''assets_publisher''"
| "role_str Amm_publisher = ''amm_publisher''"
| "role_str Bootstrap_lp = ''bootstrap_lp''"

fun operation_str :: "release_operation \<Rightarrow> string" where
  "operation_str Core_publish = ''core_publish''"
| "operation_str Core_initialize = ''core_initialize''"
| "operation_str Assets_publish = ''assets_publish''"
| "operation_str Amm_publish = ''amm_publish''"
| "operation_str Pool_launch = ''pool_launch''"

fun package_str :: "release_package \<Rightarrow> string" where
  "package_str Reflection_core = ''reflection_core''"
| "package_str Test_assets = ''test_assets''"
| "package_str Test_amm = ''test_amm''"

definition RELEASE_OPERATION_KEYS :: "release_operation list" where
  "RELEASE_OPERATION_KEYS = [Core_publish, Core_initialize, Assets_publish, Amm_publish, Pool_launch]"

definition RELEASE_ROLE_KEYS :: "release_role list" where
  "RELEASE_ROLE_KEYS = [Core_publisher, Assets_publisher, Amm_publisher, Bootstrap_lp]"

fun role_index :: "release_role \<Rightarrow> nat" where
  "role_index Core_publisher = 0" | "role_index Assets_publisher = 1" | "role_index Amm_publisher = 2" | "role_index Bootstrap_lp = 3"

fun package_index :: "release_package \<Rightarrow> nat" where
  "package_index Reflection_core = 0" | "package_index Test_assets = 1" | "package_index Test_amm = 2"

text \<open>The loops that fill a record with one entry per role, or per package.\<close>

definition map_roles :: "(release_role \<Rightarrow> 'a result) \<Rightarrow> (release_role \<Rightarrow> 'a) result" where
  "map_roles f = rbind (map_result f RELEASE_ROLE_KEYS) (\<lambda>vs. Inr (\<lambda>r. vs ! role_index r))"

definition map_packages :: "(release_package \<Rightarrow> 'a result) \<Rightarrow> (release_package \<Rightarrow> 'a) result" where
  "map_packages f = rbind (map_result f [Reflection_core, Test_assets, Test_amm]) (\<lambda>vs. Inr (\<lambda>p. vs ! package_index p))"

definition roles_tree :: "(release_role \<Rightarrow> string) \<Rightarrow> js_val" where
  "roles_tree m = JObj (map (\<lambda>r. (role_str r, JStr (m r))) RELEASE_ROLE_KEYS)"

fun PROFILE_NAMES :: "release_role \<Rightarrow> string" where
  "PROFILE_NAMES Core_publisher = ''cedra-reflect-core-publisher''"
| "PROFILE_NAMES Assets_publisher = ''cedra-reflect-assets-publisher''"
| "PROFILE_NAMES Amm_publisher = ''cedra-reflect-amm-publisher''"
| "PROFILE_NAMES Bootstrap_lp = ''cedra-reflect-bootstrap-lp''"

definition TESTNET_API_URL :: string where "TESTNET_API_URL = ''https://testnet.cedra.dev/v1''"
definition TESTNET_NETWORK :: string where "TESTNET_NETWORK = ''cedra-testnet''"
definition PROFILE_DERIVATION_METHOD :: string where "PROFILE_DERIVATION_METHOD = ''sha3-256(ed25519_public_key_bytes || 0x00)''"
definition PROFILE_DERIVATION_TOOL :: string where "PROFILE_DERIVATION_TOOL = ''OpenSSL dgst -sha3-256''"
definition REVIEWED_SDK_PACKAGE :: string where "REVIEWED_SDK_PACKAGE = ''@cedra-labs/ts-sdk''"
definition REVIEWED_SDK_VERSION :: string where "REVIEWED_SDK_VERSION = ''2.2.8''"

section \<open>Patterns\<close>

definition is_release_hex :: "char \<Rightarrow> bool" where
  "is_release_hex c = (c \<in> set ''0123456789abcdef'')"

definition is_alnum :: "char \<Rightarrow> bool" where
  "is_alnum c = (c \<in> set ''0123456789ABCDEFGHIJKLMNOPQRSTUVWXYZabcdefghijklmnopqrstuvwxyz'')"

definition SHA256_PATTERN :: "string \<Rightarrow> bool" where
  "SHA256_PATTERN s = (length s = 64 \<and> list_all is_release_hex s)"

definition COMMIT_PATTERN :: "string \<Rightarrow> bool" where
  "COMMIT_PATTERN s = (length s = 40 \<and> list_all is_release_hex s)"

definition DEPLOYMENT_PATTERN :: "string \<Rightarrow> bool" where
  "DEPLOYMENT_PATTERN s = (1 \<le> length s \<and> length s \<le> 80 \<and> list_all (\<lambda>c. is_alnum c \<or> c \<in> set ''._-'') s)"

definition PUBLIC_KEY_PATTERN :: "string \<Rightarrow> bool" where
  "PUBLIC_KEY_PATTERN s = (take 14 s = ''ed25519-pub-0x'' \<and> length s = 78 \<and> list_all is_release_hex (drop 14 s))"

section \<open>Reading untrusted values\<close>

definition fail :: "string \<Rightarrow> 'a result" where
  "fail message = Inl (PlainError message)"

definition exactObject :: "js_val option \<Rightarrow> string list \<Rightarrow> string \<Rightarrow> js_val result" where
  "exactObject v expectedKeys label = (case v of
       Some (JObj ms) \<Rightarrow>
         if sort (map fst ms) \<noteq> sort expectedKeys then fail (label @ '' keys mismatch; expected '' @ comma_list (sort expectedKeys))
         else Inr (JObj ms)
     | _ \<Rightarrow> fail (label @ '' must be an object''))"

definition objectValue :: "js_val option \<Rightarrow> string \<Rightarrow> js_val result" where
  "objectValue v label = (case v of Some (JObj ms) \<Rightarrow> Inr (JObj ms) | _ \<Rightarrow> fail (label @ '' must be an object''))"

definition stringValue :: "js_val option \<Rightarrow> string \<Rightarrow> (string \<Rightarrow> bool) \<Rightarrow> string result" where
  "stringValue v label pattern = (case v of
       Some (JStr s) \<Rightarrow> if s = [] \<or> \<not> pattern s then fail (label @ '' has an invalid value'') else Inr s
     | _ \<Rightarrow> fail (label @ '' has an invalid value''))"

definition any_text :: "string \<Rightarrow> bool" where "any_text s = True"

definition role_address :: "js_val option \<Rightarrow> string \<Rightarrow> string result" where
  "role_address v label =
     rbind (stringValue v label any_text) (\<lambda>s.
     if \<not> is_account_address s then fail (label @ '' is not a Cedra address'')
     else if address_digits s = ''0'' then fail (label @ '' must be non-zero'')
     else Inr (''0x'' @ address_digits s))"

definition decimalValue :: "js_val option \<Rightarrow> string \<Rightarrow> int \<Rightarrow> bool \<Rightarrow> string result" where
  "decimalValue v label maximum positive =
     rbind (stringValue v label is_release_number) (\<lambda>s.
     if (positive \<and> int (str_nat s) = 0) \<or> maximum < int (str_nat s)
     then fail (label @ '' is outside the permitted unsigned range'') else Inr s)"

text \<open>\<open>Number(value)\<close> of a decimal text above 2^53 - 1 rounds to 2^53 or more, which is no safe integer.\<close>

definition safeNumber :: "string \<Rightarrow> string \<Rightarrow> int result" where
  "safeNumber s label =
     (if int (str_nat s) \<le> MAX_SAFE_INTEGER then Inr (int (str_nat s))
      else fail (label @ '' exceeds the exact integer range supported by Cedra SDK transaction options''))"

definition parseRoles :: "js_val option \<Rightarrow> string \<Rightarrow> (release_role \<Rightarrow> string) result" where
  "parseRoles v label =
     rbind (exactObject v (map role_str RELEASE_ROLE_KEYS) label) (\<lambda>object.
     rbind (map_roles (\<lambda>role. role_address (js_field object (role_str role)) (label @ ''.'' @ role_str role))) (\<lambda>roles.
     if \<not> distinct (map roles RELEASE_ROLE_KEYS) then fail (label @ '' must contain five distinct addresses'') else Inr roles))"

definition parsePublicKeys :: "js_val option \<Rightarrow> string \<Rightarrow> (release_role \<Rightarrow> string) result" where
  "parsePublicKeys v label =
     rbind (exactObject v (map role_str RELEASE_ROLE_KEYS) label) (\<lambda>object.
     rbind (map_roles (\<lambda>role. stringValue (js_field object (role_str role)) (label @ ''.'' @ role_str role) PUBLIC_KEY_PATTERN)) (\<lambda>keys.
     if \<not> distinct (map keys RELEASE_ROLE_KEYS) then fail (label @ '' must contain four distinct Ed25519 public keys'') else Inr keys))"

section \<open>The build request\<close>

record transaction_controls =
  tc_sequence_number :: string
  tc_max_gas_amount :: string
  tc_gas_unit_price :: string
  tc_expiration_timestamp_secs :: string

record gas_budget =
  gb_approved_max_gas_amount :: string
  gb_approved_max_gas_unit_price :: string
  gb_approved_max_total_fee_base_units :: string

text \<open>The fields of a request that are fixed by its checks are left out.\<close>

record build_request =
  br_deployment_id :: string
  br_operation_key :: release_operation
  br_application_commit :: string
  br_exact_address_artifacts_sha256 :: string
  br_public_profile_evidence_sha256 :: string
  br_roles :: "release_role \<Rightarrow> string"
  br_profile_public_keys :: "release_role \<Rightarrow> string"
  br_transaction_controls :: transaction_controls
  br_gas_budget :: gas_budget

definition parseControls :: "js_val option \<Rightarrow> transaction_controls result" where
  "parseControls v =
     rbind (exactObject v [''sequence_number'', ''max_gas_amount'', ''gas_unit_price'', ''expiration_timestamp_secs'']
       ''transaction_controls'') (\<lambda>object.
     rbind (decimalValue (js_field object ''sequence_number'') ''transaction_controls.sequence_number'' MOVE_U64_MAX False) (\<lambda>sequence.
     rbind (decimalValue (js_field object ''max_gas_amount'') ''transaction_controls.max_gas_amount'' MOVE_U64_MAX True) (\<lambda>gas.
     rbind (decimalValue (js_field object ''gas_unit_price'') ''transaction_controls.gas_unit_price'' MOVE_U64_MAX True) (\<lambda>price.
     rbind (decimalValue (js_field object ''expiration_timestamp_secs'') ''transaction_controls.expiration_timestamp_secs''
       MOVE_U64_MAX True) (\<lambda>expiration.
     rbind (safeNumber gas ''transaction_controls.max_gas_amount'') (\<lambda>_.
     rbind (safeNumber price ''transaction_controls.gas_unit_price'') (\<lambda>_.
     rbind (safeNumber expiration ''transaction_controls.expiration_timestamp_secs'') (\<lambda>_.
     Inr \<lparr>tc_sequence_number = sequence, tc_max_gas_amount = gas, tc_gas_unit_price = price,
       tc_expiration_timestamp_secs = expiration\<rparr>))))))))"

definition parseBudget :: "js_val option \<Rightarrow> transaction_controls \<Rightarrow> gas_budget result" where
  "parseBudget v controls =
     rbind (exactObject v [''approved_max_gas_amount'', ''approved_max_gas_unit_price'', ''approved_max_total_fee_base_units'']
       ''gas_budget'') (\<lambda>object.
     rbind (decimalValue (js_field object ''approved_max_gas_amount'') ''gas_budget.approved_max_gas_amount'' MOVE_U64_MAX True) (\<lambda>gas.
     rbind (decimalValue (js_field object ''approved_max_gas_unit_price'') ''gas_budget.approved_max_gas_unit_price'' MOVE_U64_MAX True) (\<lambda>price.
     rbind (decimalValue (js_field object ''approved_max_total_fee_base_units'') ''gas_budget.approved_max_total_fee_base_units''
       MOVE_U128_MAX True) (\<lambda>fee.
     if tc_max_gas_amount controls \<noteq> gas \<or> tc_gas_unit_price controls \<noteq> price
        \<or> str_nat (tc_max_gas_amount controls) * str_nat (tc_gas_unit_price controls) \<noteq> str_nat fee
     then fail ''approved gas fields must exactly equal the explicit transaction maximums and their worst-case product''
     else Inr \<lparr>gb_approved_max_gas_amount = gas, gb_approved_max_gas_unit_price = price,
       gb_approved_max_total_fee_base_units = fee\<rparr>))))"

definition parseBuildRequest :: "string \<Rightarrow> js_val option \<Rightarrow> build_request result" where
  "parseBuildRequest coin v =
     rbind (exactObject v [''schema_version'', ''evidence_scope'', ''network'', ''api_url'', ''chain_id'', ''gas_asset'', ''deployment_id'',
       ''operation_key'', ''application_commit'', ''exact_address_artifacts_sha256'', ''public_profile_evidence_sha256'', ''roles'',
       ''profile_public_keys'', ''transaction_controls'', ''gas_budget''] ''transaction build request'') (\<lambda>request.
     if js_field request ''schema_version'' \<noteq> Some (JNum 1)
        \<or> js_field request ''evidence_scope'' \<noteq> Some (JStr ''testnet-transaction-build-request'')
     then fail ''transaction build request schema or evidence scope mismatch''
     else if js_field request ''network'' \<noteq> Some (JStr TESTNET_NETWORK) \<or> js_field request ''api_url'' \<noteq> Some (JStr TESTNET_API_URL)
        \<or> js_field request ''chain_id'' \<noteq> Some (JStr ''2'')
     then fail ''transaction build request must be pinned to Cedra Testnet chain 2''
     else if js_field request ''gas_asset'' \<noteq> Some (JStr coin)
     then fail (''transaction build request gas_asset must be the default CED type '' @ coin)
     else rbind (stringValue (js_field request ''operation_key'') ''operation_key'' any_text) (\<lambda>operation.
     case find (\<lambda>key. operation_str key = operation) RELEASE_OPERATION_KEYS of
       None \<Rightarrow> fail (''unsupported release operation_key: '' @ operation)
     | Some key \<Rightarrow>
       rbind (parseControls (js_field request ''transaction_controls'')) (\<lambda>controls.
       rbind (parseBudget (js_field request ''gas_budget'') controls) (\<lambda>budget.
       rbind (stringValue (js_field request ''deployment_id'') ''deployment_id'' DEPLOYMENT_PATTERN) (\<lambda>deployment.
       rbind (stringValue (js_field request ''application_commit'') ''application_commit'' COMMIT_PATTERN) (\<lambda>commit.
       rbind (stringValue (js_field request ''exact_address_artifacts_sha256'') ''exact_address_artifacts_sha256'' SHA256_PATTERN) (\<lambda>exactSha.
       rbind (stringValue (js_field request ''public_profile_evidence_sha256'') ''public_profile_evidence_sha256'' SHA256_PATTERN) (\<lambda>profileSha.
       rbind (parseRoles (js_field request ''roles'') ''roles'') (\<lambda>roles.
       rbind (parsePublicKeys (js_field request ''profile_public_keys'') ''profile_public_keys'') (\<lambda>keys.
       Inr \<lparr>br_deployment_id = deployment, br_operation_key = key, br_application_commit = commit,
         br_exact_address_artifacts_sha256 = exactSha, br_public_profile_evidence_sha256 = profileSha, br_roles = roles,
         br_profile_public_keys = keys, br_transaction_controls = controls, br_gas_budget = budget\<rparr>))))))))))"

section \<open>The exact-address bundle\<close>

record package_binding =
  pb_publish_payload_file :: string
  pb_publish_payload_sha256 :: string
  pb_compiled_package_files_manifest_sha256 :: string

record exact_artifacts =
  xa_applicationCommit :: string
  xa_applicationTree :: string
  xa_roles :: "release_role \<Rightarrow> string"
  xa_publicRoleCandidateSha256 :: string
  xa_packages :: "release_package \<Rightarrow> package_binding"

definition is_nullish :: "js_val option \<Rightarrow> bool" where
  "is_nullish v = (v = None \<or> v = Some JNull)"

definition parsePackageBinding :: "js_val \<Rightarrow> release_package \<Rightarrow> package_binding result" where
  "parsePackageBinding packages package =
     (let key = package_str package in
      rbind (objectValue (js_field packages key) (''exact-address packages.'' @ key)) (\<lambda>binding.
      rbind (stringValue (js_field binding ''publish_payload_file'') (key @ ''.publish_payload_file'') any_text) (\<lambda>payloadFile.
      rbind (stringValue (js_field binding ''publish_payload_sha256'') (key @ ''.publish_payload_sha256'') SHA256_PATTERN) (\<lambda>payloadSha.
      rbind (stringValue (js_field binding ''compiled_package_files_manifest_sha256'') (key @ ''.compiled_package_files_manifest_sha256'')
        SHA256_PATTERN) (\<lambda>manifestSha.
      Inr \<lparr>pb_publish_payload_file = payloadFile, pb_publish_payload_sha256 = payloadSha,
        pb_compiled_package_files_manifest_sha256 = manifestSha\<rparr>)))))"

definition parseExactArtifacts :: "js_val option \<Rightarrow> exact_artifacts result" where
  "parseExactArtifacts v =
     rbind (objectValue v ''exact-address artifact bundle'') (\<lambda>exact.
     if js_field exact ''schema_version'' \<noteq> Some (JNum 3)
        \<or> js_field exact ''evidence_scope'' \<noteq> Some (JStr ''local-exact-address-build-only'')
        \<or> js_field exact ''network'' \<noteq> Some (JStr TESTNET_NETWORK)
     then fail ''exact-address artifact bundle is not validated v3 Cedra Testnet evidence''
     else if js_field exact ''working_tree_clean'' \<noteq> Some (JBool True)
        \<or> js_field exact ''local_build_eligible_for_human_review'' \<noteq> Some (JBool True)
     then fail ''exact-address artifact bundle must be clean and eligible for human review''
     else if is_nullish (js_field exact ''verification_binding'') \<or> is_nullish (js_field exact ''public_role_candidate_binding'')
     then fail ''exact-address artifact bundle must bind clean verification and the five-role candidate''
     else rbind (objectValue (js_field exact ''public_role_candidate_binding'') ''public_role_candidate_binding'') (\<lambda>roleBinding.
     rbind (objectValue (js_field exact ''packages'') ''exact-address packages'') (\<lambda>packages.
     rbind (map_packages (parsePackageBinding packages)) (\<lambda>bindings.
     rbind (stringValue (js_field exact ''application_commit'') ''exact-address application_commit'' COMMIT_PATTERN) (\<lambda>commit.
     rbind (stringValue (js_field exact ''application_tree'') ''exact-address application_tree'' COMMIT_PATTERN) (\<lambda>tree.
     rbind (parseRoles (js_field exact ''roles'') ''exact-address roles'') (\<lambda>roles.
     rbind (stringValue (js_field roleBinding ''sha256'') ''public_role_candidate_binding.sha256'' SHA256_PATTERN) (\<lambda>candidateSha.
     Inr \<lparr>xa_applicationCommit = commit, xa_applicationTree = tree, xa_roles = roles,
       xa_publicRoleCandidateSha256 = candidateSha, xa_packages = bindings\<rparr>))))))))"

end
