(* ===== verification/Release_Context.thy ===== *)
theory Release_Context
  imports Release_Inputs
begin

text \<open>
  The profile evidence, the evidence of the build and the cross-checks that make the context of an assembly
  (\<open>parseProfileEvidence\<close>, \<open>validateAssemblyInputs\<close> in \<open>index.ts\<close>; \<open>validateBuildIntegrityEvidence\<close> in
  \<open>build-integrity.ts\<close>).
\<close>

section \<open>Profile evidence\<close>

record profile_binding =
  pf_profile_name :: string
  pf_address :: string
  pf_public_key :: string

record profile_evidence =
  pe_publicRoleCandidateSha256 :: string
  pe_bindings :: "release_role \<Rightarrow> profile_binding"

abbreviation pe_roles :: "profile_evidence \<Rightarrow> release_role \<Rightarrow> string" where
  "pe_roles evidence role \<equiv> pf_address (pe_bindings evidence role)"

abbreviation pe_publicKeys :: "profile_evidence \<Rightarrow> release_role \<Rightarrow> string" where
  "pe_publicKeys evidence role \<equiv> pf_public_key (pe_bindings evidence role)"

definition is_account_hex :: "string \<Rightarrow> bool" where
  "is_account_hex s = (length s = 64 \<and> list_all is_release_hex s)"

definition parseProfile :: "(string \<Rightarrow> string result) \<Rightarrow> js_val \<Rightarrow> release_role \<Rightarrow> profile_binding result" where
  "parseProfile derive profiles role =
     (let label = ''profiles.'' @ role_str role in
      rbind (exactObject (js_field profiles (role_str role))
        [''profile_name'', ''network'', ''has_private_key'', ''public_key'', ''account'', ''rest_url'', ''faucet_url''] label) (\<lambda>profile.
      if js_field profile ''profile_name'' \<noteq> Some (JStr (PROFILE_NAMES role)) \<or> js_field profile ''network'' \<noteq> Some (JStr ''Testnet'')
         \<or> js_field profile ''has_private_key'' \<noteq> Some (JBool True)
         \<or> js_field profile ''rest_url'' \<noteq> Some (JStr ''https://testnet.cedra.dev'')
         \<or> js_field profile ''faucet_url'' \<noteq> Some (JStr ''https://faucet-api.cedra.dev'')
      then fail (label @ '' is not the exact approved public Testnet profile'')
      else rbind (stringValue (js_field profile ''public_key'') (label @ ''.public_key'') PUBLIC_KEY_PATTERN) (\<lambda>publicKey.
      rbind (stringValue (js_field profile ''account'') (label @ ''.account'') is_account_hex) (\<lambda>account.
      rbind (role_address (Some (JStr (''0x'' @ account))) (label @ ''.account'')) (\<lambda>address.
      rbind (derive (drop 12 publicKey)) (\<lambda>derived.
      rbind (role_address (Some (JStr derived)) (label @ ''.derived_address'')) (\<lambda>derivedAddress.
      if derivedAddress \<noteq> address
      then fail (label @ '' failed independent @cedra-labs/ts-sdk '' @ REVIEWED_SDK_VERSION @ '' authentication-key revalidation'')
      else Inr \<lparr>pf_profile_name = PROFILE_NAMES role, pf_address = address, pf_public_key = publicKey\<rparr>)))))))"

definition parseProfileEvidence :: "(string \<Rightarrow> string result) \<Rightarrow> js_val option \<Rightarrow> profile_evidence result" where
  "parseProfileEvidence derive v =
     rbind (objectValue v ''public profile evidence'') (\<lambda>evidence.
     if js_field evidence ''schema_version'' \<noteq> Some (JNum 1)
        \<or> js_field evidence ''evidence_scope'' \<noteq> Some (JStr ''local-public-profile-preflight'')
        \<or> js_field evidence ''network_intent'' \<noteq> Some (JStr TESTNET_NETWORK)
     then fail ''public profile evidence is not the validated Cedra Testnet preflight shape''
     else rbind (exactObject (js_field evidence ''authentication_key_validation'')
       [''all_profile_authentication_keys_match'', ''derivation_method'', ''derivation_tool''] ''authentication_key_validation'') (\<lambda>authentication.
     if js_field authentication ''derivation_method'' \<noteq> Some (JStr PROFILE_DERIVATION_METHOD)
        \<or> js_field authentication ''derivation_tool'' \<noteq> Some (JStr PROFILE_DERIVATION_TOOL)
        \<or> js_field authentication ''all_profile_authentication_keys_match'' \<noteq> Some (JBool True)
     then fail ''public profile evidence must bind the OpenSSL SHA3-256 authentication-key derivation''
     else rbind (exactObject (js_field evidence ''profiles'') (map role_str RELEASE_ROLE_KEYS) ''profiles'') (\<lambda>profiles.
     rbind (map_roles (parseProfile derive profiles)) (\<lambda>bindings.
     if \<not> distinct (map (\<lambda>r. pf_address (bindings r)) RELEASE_ROLE_KEYS) \<or> \<not> distinct (map (\<lambda>r. pf_public_key (bindings r)) RELEASE_ROLE_KEYS)
     then fail ''public profile evidence must contain five distinct accounts and public keys''
     else rbind (stringValue (js_field evidence ''public_role_candidate_sha256'') ''public_role_candidate_sha256'' SHA256_PATTERN) (\<lambda>candidateSha.
     Inr \<lparr>pe_publicRoleCandidateSha256 = candidateSha, pe_bindings = bindings\<rparr>)))))"

section \<open>Build integrity\<close>

definition SHA512_INTEGRITY_PATTERN :: "string \<Rightarrow> bool" where
  "SHA512_INTEGRITY_PATTERN s =
     (let body = takeWhile (\<lambda>c. is_alnum c \<or> c \<in> set ''+/'') (drop 7 s); pad = dropWhile (\<lambda>c. is_alnum c \<or> c \<in> set ''+/'') (drop 7 s) in
      take 7 s = ''sha512-'' \<and> body \<noteq> [] \<and> pad \<in> {[], ''='', ''==''})"

definition SAFE_RELATIVE_PATH :: "string \<Rightarrow> bool" where
  "SAFE_RELATIVE_PATH s = (s \<noteq> [] \<and> list_all (\<lambda>c. is_alnum c \<or> c \<in> set ''@._+/-'') s)"

definition REVIEWER_PATTERN :: "string \<Rightarrow> bool" where
  "REVIEWER_PATTERN s = (3 \<le> length s \<and> length s \<le> 128 \<and> is_alnum (hd s) \<and> list_all (\<lambda>c. is_alnum c \<or> c \<in> set ''._@+-'') (tl s))"

fun includes_text :: "string \<Rightarrow> string \<Rightarrow> bool" where
  "includes_text part [] = (part = [])"
| "includes_text part (c # s) = (take (length part) (c # s) = part \<or> includes_text part s)"

definition BUILD_INTEGRITY_KEYS :: "string list" where
  "BUILD_INTEGRITY_KEYS = [''release_executable_closure_file'', ''release_executable_closure_sha256'', ''package_lock_file'',
     ''package_lock_sha256'', ''sdk_loaded_entrypoint'', ''sdk_loaded_entrypoint_sha256'', ''sdk_lock_integrity'', ''sdk_package'',
     ''sdk_package_file_count'', ''sdk_package_json_sha256'', ''sdk_package_tree_sha256'', ''sdk_review_pin_file'',
     ''sdk_review_pin_sha256'', ''sdk_review_attestation_sha256'', ''sdk_review_signature_sha256'', ''sdk_review_signature_namespace'',
     ''sdk_review_reviewer_identity'', ''sdk_review_trusted_signers_sha256'', ''sdk_version'']"

definition BUILD_INTEGRITY_DIGESTS :: "string list" where
  "BUILD_INTEGRITY_DIGESTS = [''release_executable_closure_sha256'', ''package_lock_sha256'', ''sdk_review_pin_sha256'',
     ''sdk_package_json_sha256'', ''sdk_loaded_entrypoint_sha256'', ''sdk_package_tree_sha256'', ''sdk_review_attestation_sha256'',
     ''sdk_review_signature_sha256'', ''sdk_review_trusted_signers_sha256'']"

definition RELEASE_EXECUTABLE_CLOSURE_FILE :: string where
  "RELEASE_EXECUTABLE_CLOSURE_FILE = ''ops/evidence/release-executable-closure.json''"

definition REVIEWED_SDK_PIN_FILE :: string where
  "REVIEWED_SDK_PIN_FILE = ''ops/evidence/reviewed-cedra-sdk-2.2.8.json''"

definition text_matches :: "(string \<Rightarrow> bool) \<Rightarrow> js_val option \<Rightarrow> bool" where
  "text_matches pattern v = (case v of Some (JStr s) \<Rightarrow> pattern s | _ \<Rightarrow> False)"

definition validateBuildIntegrityEvidence :: "js_val option \<Rightarrow> js_val result" where
  "validateBuildIntegrityEvidence v =
     rbind (objectValue v ''build integrity evidence'') (\<lambda>observed. case observed of
       JObj ms \<Rightarrow>
         if sort (map fst ms) \<noteq> sort BUILD_INTEGRITY_KEYS then fail ''build integrity evidence has missing or extra fields''
         else if js_field observed ''package_lock_file'' \<noteq> Some (JStr ''package-lock.json'')
            \<or> js_field observed ''release_executable_closure_file'' \<noteq> Some (JStr RELEASE_EXECUTABLE_CLOSURE_FILE)
            \<or> js_field observed ''sdk_package'' \<noteq> Some (JStr REVIEWED_SDK_PACKAGE)
            \<or> js_field observed ''sdk_version'' \<noteq> Some (JStr REVIEWED_SDK_VERSION)
            \<or> js_field observed ''sdk_review_pin_file'' \<noteq> Some (JStr REVIEWED_SDK_PIN_FILE)
            \<or> js_field observed ''sdk_review_signature_namespace'' \<noteq> Some (JStr ''cedra-reflect-sdk-review-v1'')
            \<or> \<not> text_matches REVIEWER_PATTERN (js_field observed ''sdk_review_reviewer_identity'')
            \<or> \<not> text_matches SHA512_INTEGRITY_PATTERN (js_field observed ''sdk_lock_integrity'')
            \<or> \<not> text_matches (\<lambda>s. SAFE_RELATIVE_PATH s \<and> hd s \<noteq> CHR ''/'' \<and> \<not> includes_text ''../'' s) (js_field observed ''sdk_loaded_entrypoint'')
            \<or> \<not> (case js_field observed ''sdk_package_file_count'' of Some (JNum n) \<Rightarrow> n \<le> MAX_SAFE_INTEGER \<and> 0 < n | _ \<Rightarrow> False)
         then fail ''build integrity evidence has an invalid fixed field''
         else rbind (rseq (map (\<lambda>key. rensure (text_matches SHA256_PATTERN (js_field observed key))
           (PlainError (''build integrity evidence '' @ key @ '' is not a SHA-256 digest''))) BUILD_INTEGRITY_DIGESTS)) (\<lambda>_. Inr observed)
     | _ \<Rightarrow> fail ''build integrity evidence must be an object'')"

definition assertBuildIntegrityMatches :: "js_val \<Rightarrow> js_val \<Rightarrow> unit result" where
  "assertBuildIntegrityMatches expected observed =
     rensure (encodeBigInts expected = encodeBigInts observed)
       (PlainError ''current reviewed lockfile or loaded Cedra SDK artifact differs from the candidate build integrity'')"

definition assertRuntimeSdkPackage :: "js_val option \<Rightarrow> string \<Rightarrow> unit result" where
  "assertRuntimeSdkPackage v label =
     rbind (objectValue v label) (\<lambda>manifest.
     rensure (js_field manifest ''name'' = Some (JStr REVIEWED_SDK_PACKAGE) \<and> js_field manifest ''version'' = Some (JStr REVIEWED_SDK_VERSION))
       (PlainError (label @ '' must be '' @ REVIEWED_SDK_PACKAGE @ '' '' @ REVIEWED_SDK_VERSION)))"

section \<open>The context of an assembly\<close>

record repository_state =
  rs_statusPorcelain :: string
  rs_headCommit :: string
  rs_headTree :: string

text \<open>\<open>ai_now\<close> is the time in milliseconds, \<open>None\<close> for an invalid date; the path is absolute and resolved.\<close>

record assembly_inputs =
  ai_exactArtifactsPath :: string
  ai_exactArtifactsSha256 :: string
  ai_exactArtifacts :: js_val
  ai_publicProfileEvidenceSha256 :: string
  ai_publicProfileEvidence :: js_val
  ai_buildRequest :: js_val
  ai_repositoryState :: repository_state
  ai_buildIntegrity :: js_val
  ai_now :: "int option"

record assembly_context =
  ax_exactArtifactsPath :: string
  ax_exactAddressArtifactsSha256 :: string
  ax_applicationCommit :: string
  ax_applicationTree :: string
  ax_buildEnvironment :: js_val
  ax_roles :: "release_role \<Rightarrow> string"
  ax_profileEvidenceSha256 :: string
  ax_publicRoleCandidateSha256 :: string
  ax_profileBindings :: "release_role \<Rightarrow> profile_binding"
  ax_publicKeys :: "release_role \<Rightarrow> string"
  ax_packages :: "release_package \<Rightarrow> package_binding"
  ax_request :: build_request

definition buildEnvironment :: "string \<Rightarrow> string \<Rightarrow> js_val \<Rightarrow> js_val" where
  "buildEnvironment headCommit headTree integrity = (case integrity of
       JObj ms \<Rightarrow> JObj ((''repository_head_commit'', JStr headCommit) # (''repository_head_tree'', JStr headTree) # ms)
     | _ \<Rightarrow> JObj [(''repository_head_commit'', JStr headCommit), (''repository_head_tree'', JStr headTree)])"

definition validateAssemblyInputs :: "(string \<Rightarrow> string result) \<Rightarrow> string \<Rightarrow> assembly_inputs \<Rightarrow> assembly_context result" where
  "validateAssemblyInputs derive coin args =
     rbind (stringValue (Some (JStr (ai_exactArtifactsSha256 args))) ''observed exact-address artifact digest'' SHA256_PATTERN) (\<lambda>exactSha.
     rbind (stringValue (Some (JStr (ai_publicProfileEvidenceSha256 args))) ''observed public-profile evidence digest'' SHA256_PATTERN) (\<lambda>profileSha.
     rbind (parseExactArtifacts (Some (ai_exactArtifacts args))) (\<lambda>exact.
     rbind (parseProfileEvidence derive (Some (ai_publicProfileEvidence args))) (\<lambda>profiles.
     rbind (parseBuildRequest coin (Some (ai_buildRequest args))) (\<lambda>request.
     rbind (rensure (sameJson (roles_tree (xa_roles exact)) (roles_tree (br_roles request))
         \<and> sameJson (roles_tree (xa_roles exact)) (roles_tree (pe_roles profiles)))
       (PlainError ''all five roles must match across the exact bundle, profile evidence, and build request'')) (\<lambda>_.
     rbind (rensure (sameJson (roles_tree (pe_publicKeys profiles)) (roles_tree (br_profile_public_keys request)))
       (PlainError ''all five public keys must match between profile evidence and the build request'')) (\<lambda>_.
     rbind (rseq
       [rensure (br_application_commit request = xa_applicationCommit exact)
          (PlainError ''build-request application commit differs from the exact-address bundle''),
        rensure (br_exact_address_artifacts_sha256 request = exactSha)
          (PlainError ''build-request exact-address artifact digest differs from the observed file''),
        rensure (br_public_profile_evidence_sha256 request = profileSha)
          (PlainError ''build-request public-profile evidence digest differs from the observed file''),
        rensure (pe_publicRoleCandidateSha256 profiles = xa_publicRoleCandidateSha256 exact)
          (PlainError ''public profile evidence and exact-address bundle bind different five-role candidates''),
        rensure (rs_statusPorcelain (ai_repositoryState args) = [])
          (PlainError ''candidate assembly requires a completely clean current Git working tree and index, including no untracked files'')]) (\<lambda>_.
     rbind (stringValue (Some (JStr (rs_headCommit (ai_repositoryState args)))) ''current Git HEAD'' COMMIT_PATTERN) (\<lambda>headCommit.
     rbind (stringValue (Some (JStr (rs_headTree (ai_repositoryState args)))) ''current Git HEAD tree'' COMMIT_PATTERN) (\<lambda>headTree.
     rbind (rensure (headCommit = xa_applicationCommit exact \<and> headTree = xa_applicationTree exact)
       (PlainError ''current clean Git HEAD/tree differs from the exact-address release bundle'')) (\<lambda>_.
     rbind (validateBuildIntegrityEvidence (Some (ai_buildIntegrity args))) (\<lambda>integrity.
     rbind (case ai_now args of None \<Rightarrow> fail ''assembler clock is invalid'' | Some now \<Rightarrow> Inr now) (\<lambda>now.
     rbind (rensure (now div 1000 < int (str_nat (tc_expiration_timestamp_secs (br_transaction_controls request))))
       (PlainError ''absolute transaction expiry must be in the future at assembly time'')) (\<lambda>_.
     Inr \<lparr>ax_exactArtifactsPath = ai_exactArtifactsPath args, ax_exactAddressArtifactsSha256 = exactSha,
       ax_applicationCommit = xa_applicationCommit exact, ax_applicationTree = xa_applicationTree exact,
       ax_buildEnvironment = buildEnvironment headCommit headTree integrity, ax_roles = xa_roles exact,
       ax_profileEvidenceSha256 = profileSha, ax_publicRoleCandidateSha256 = xa_publicRoleCandidateSha256 exact,
       ax_profileBindings = pe_bindings profiles, ax_publicKeys = (\<lambda>role. drop 12 (pe_publicKeys profiles role)),
       ax_packages = xa_packages exact, ax_request = request\<rparr>))))))))))))))"

end
