(* ===== verification/Release_Candidate.thy ===== *)
theory Release_Candidate
  imports Release_Context
begin

text \<open>
  The assembly of a release candidate (\<open>packages/release-candidate-assembler/src/index.ts\<close>): the operation of
  the request, its transaction, the simulation and the candidate document. The payload files, the SHA-256 of
  a text, the SDK, what it builds and what its simulation answers are parameters; a file is its text.
\<close>

section \<open>Operations\<close>

datatype release_argument = Arg_u64 int | Arg_bytes string | Arg_byte_vectors "string list"

record payload_file =
  fl_regular :: bool
  fl_text :: string

record transaction_payload =
  py_function :: string
  py_arguments :: "js_val list"

record publish_binding =
  pu_package_key :: release_package
  pu_publish_payload_sha256 :: string
  pu_compiled_package_files_manifest_sha256 :: string

record operation_shape =
  os_transactionKind :: string
  os_senderRole :: release_role
  os_secondarySignerRoles :: "release_role list"
  os_data :: "release_argument entry_data"
  os_payload :: transaction_payload
  os_abi :: release_abi
  os_publishBinding :: "publish_binding option"

definition localAbi :: "nat \<Rightarrow> string list \<Rightarrow> release_abi" where
  "localAbi signers parameters = \<lparr>ab_signers = JNum (int signers), ab_typeParameters = Some [], ab_parameters = Some parameters\<rparr>"

definition local_data :: "string \<Rightarrow> release_argument list \<Rightarrow> release_abi \<Rightarrow> release_argument entry_data" where
  "local_data function args abi = \<lparr>ed_function = JStr function, ed_typeArguments = Some [], ed_functionArguments = Some args,
     ed_abi = Some abi\<rparr>"

definition dirname :: "string \<Rightarrow> string" where
  "dirname path = rev (drop 1 (dropWhile (\<lambda>c. c \<noteq> CHR ''/'') (rev path)))"

text \<open>The pattern \<open>0x(?:[0-9a-f]{2})+\<close>.\<close>

definition is_bytes_hex :: "string \<Rightarrow> bool" where
  "is_bytes_hex s = (take 2 s = ''0x'' \<and> drop 2 s \<noteq> [] \<and> even (length (drop 2 s)) \<and> list_all is_release_hex (drop 2 s))"

fun module_texts :: "string \<Rightarrow> nat \<Rightarrow> js_val list \<Rightarrow> string list result" where
  "module_texts key i [] = Inr []"
| "module_texts key i (v # vs) =
     rbind (stringValue (Some v) (key @ '' module bytes '' @ nat_str i) is_bytes_hex) (\<lambda>s.
     rbind (module_texts key (Suc i) vs) (\<lambda>ss. Inr (s # ss)))"

definition PUBLISH_FUNCTION :: string where "PUBLISH_FUNCTION = ''0x1::code::publish_package_txn''"

definition publishOperation :: "(string \<Rightarrow> payload_file result) \<Rightarrow> (string \<Rightarrow> string) \<Rightarrow> assembly_context \<Rightarrow> release_package \<Rightarrow>
    release_role \<Rightarrow> operation_shape result" where
  "publishOperation files sha256 ctx package senderRole =
     (let key = package_str package; binding = ax_packages ctx package;
          packageDirectory = dirname (ax_exactArtifactsPath ctx) @ ''/'' @ key;
          payloadPath = packageDirectory @ ''/'' @ pb_publish_payload_file binding in
      if pb_publish_payload_file binding \<noteq> ''publish-payload.json''
      then fail (key @ '' publish payload must use the reviewed publish-payload.json filename'')
      else rbind (files payloadPath) (\<lambda>file.
      rbind (rensure (fl_regular file) (PlainError (key @ '' publish payload must be a regular non-symlink file''))) (\<lambda>_.
      rbind (rensure (sha256 (fl_text file) = pb_publish_payload_sha256 binding)
        (PlainError (key @ '' publish payload digest differs from the exact-address bundle''))) (\<lambda>_.
      rbind (case json_parse (fl_text file) of None \<Rightarrow> Inl (SyntaxError ''Unexpected token in JSON'') | Some v \<Rightarrow> Inr v) (\<lambda>parsed.
      rbind (exactObject (Some parsed) [''type'', ''function'', ''type_arguments'', ''arguments''] (key @ '' publish payload'')) (\<lambda>payload.
      if js_field payload ''type'' \<noteq> Some (JStr ''entry_function_payload'') \<or> js_field payload ''function'' \<noteq> Some (JStr PUBLISH_FUNCTION)
         \<or> js_field payload ''type_arguments'' \<noteq> Some (JArr [])
         \<or> \<not> is_array (js_field payload ''arguments'') \<or> length (arr_of (js_get payload ''arguments'')) \<noteq> 2
      then fail (key @ '' publish payload has the wrong entry-function shape'')
      else rbind (stringValue (Some (arr_of (js_get payload ''arguments'') ! 0)) (key @ '' metadata bytes'') is_bytes_hex) (\<lambda>metadataHex.
      case arr_of (js_get payload ''arguments'') ! 1 of
        JArr values \<Rightarrow>
          rbind (rensure (values \<noteq> []) (PlainError (key @ '' publish payload must contain ordered module byte arrays''))) (\<lambda>_.
          rbind (module_texts key 0 values) (\<lambda>moduleHex.
          let abi = localAbi 1 [''vector<u8>'', ''vector<vector<u8>>''] in
          Inr \<lparr>os_transactionKind = ''package_publish'', os_senderRole = senderRole, os_secondarySignerRoles = [],
            os_data = local_data PUBLISH_FUNCTION [Arg_bytes metadataHex, Arg_byte_vectors moduleHex] abi,
            os_payload = \<lparr>py_function = PUBLISH_FUNCTION, py_arguments = [JStr metadataHex, JArr (map JStr moduleHex)]\<rparr>,
            os_abi = abi,
            os_publishBinding = Some \<lparr>pu_package_key = package, pu_publish_payload_sha256 = pb_publish_payload_sha256 binding,
              pu_compiled_package_files_manifest_sha256 = pb_compiled_package_files_manifest_sha256 binding\<rparr>\<rparr>))
      | _ \<Rightarrow> fail (key @ '' publish payload must contain ordered module byte arrays''))))))))"

definition operationShape :: "(string \<Rightarrow> payload_file result) \<Rightarrow> (string \<Rightarrow> string) \<Rightarrow> assembly_context \<Rightarrow> operation_shape result" where
  "operationShape files sha256 ctx = (case br_operation_key (ax_request ctx) of
       Core_publish \<Rightarrow> publishOperation files sha256 ctx Reflection_core Core_publisher
     | Assets_publish \<Rightarrow> publishOperation files sha256 ctx Test_assets Assets_publisher
     | Amm_publish \<Rightarrow> publishOperation files sha256 ctx Test_amm Amm_publisher
     | Core_initialize \<Rightarrow>
         (let abi = localAbi 1 [''u64'']; functionName = ax_roles ctx Core_publisher @ ''::reflection_token::initialize'' in
          Inr \<lparr>os_transactionKind = ''core_initialize'', os_senderRole = Core_publisher, os_secondarySignerRoles = [],
            os_data = local_data functionName [Arg_u64 100] abi,
            os_payload = \<lparr>py_function = functionName, py_arguments = [JStr ''100'']\<rparr>, os_abi = abi, os_publishBinding = None\<rparr>)
     | Pool_launch \<Rightarrow>
         (let abi = localAbi 4 []; functionName = ax_roles ctx Amm_publisher @ ''::pool::launch'' in
          Inr \<lparr>os_transactionKind = ''pool_launch'', os_senderRole = Core_publisher,
            os_secondarySignerRoles = [Assets_publisher, Amm_publisher, Bootstrap_lp], os_data = local_data functionName [] abi,
            os_payload = \<lparr>py_function = functionName, py_arguments = []\<rparr>, os_abi = abi, os_publishBinding = None\<rparr>))"

section \<open>The transaction\<close>

record transaction_evidence =
  te_sender :: string
  te_secondary_signers :: "string list"
  te_sequence_number :: string
  te_expiration_timestamp_secs :: string
  te_max_gas_amount :: string
  te_gas_unit_price :: string
  te_payload :: transaction_payload

definition evidence_tree :: "transaction_evidence \<Rightarrow> js_val" where
  "evidence_tree e = JObj [(''sender'', JStr (te_sender e)), (''secondary_signers'', JArr (map JStr (te_secondary_signers e))),
     (''sequence_number'', JStr (te_sequence_number e)), (''expiration_timestamp_secs'', JStr (te_expiration_timestamp_secs e)),
     (''max_gas_amount'', JStr (te_max_gas_amount e)), (''gas_unit_price'', JStr (te_gas_unit_price e)),
     (''payload'', JObj [(''type'', JStr ''entry_function_payload''), (''function'', JStr (py_function (te_payload e))),
        (''type_arguments'', JArr []), (''arguments'', JArr (py_arguments (te_payload e)))])]"

record built_candidate =
  bc_context :: assembly_context
  bc_transactionKind :: string
  bc_transaction :: sdk_transaction
  bc_transactionEvidence :: transaction_evidence
  bc_transactionIdentity :: transaction_identity
  bc_transactionSemanticsSha256 :: string
  bc_publishBinding :: "publish_binding option"
  bc_senderRole :: release_role
  bc_secondarySignerRoles :: "release_role list"
  bc_localAbi :: release_abi

definition candidate_options :: "release_argument cedra_sdk \<Rightarrow> transaction_controls \<Rightarrow> release_options result" where
  "candidate_options sdk controls =
     rbind (safeNumber (tc_max_gas_amount controls) ''max_gas_amount'') (\<lambda>gas.
     rbind (safeNumber (tc_gas_unit_price controls) ''gas_unit_price'') (\<lambda>price.
     rbind (safeNumber (tc_expiration_timestamp_secs controls) ''expiration_timestamp_secs'') (\<lambda>expiration.
     rbind (sd_parseTypeTag sdk (sd_CEDRA_COIN sdk)) (\<lambda>coin.
     Inr \<lparr>ro_accountSequenceNumber = JBig (int (str_nat (tc_sequence_number controls))), ro_maxGasAmount = JNum gas,
       ro_gasUnitPrice = JNum price, ro_expireTimestamp = JNum expiration, ro_faAddress = Some (Tag_object coin)\<rparr>))))"

definition candidate_request :: "assembly_context \<Rightarrow> operation_shape \<Rightarrow> release_options \<Rightarrow> release_argument entry_request" where
  "candidate_request ctx shape options = \<lparr>rq_senderAddress = JStr (ax_roles ctx (os_senderRole shape)),
     rq_secondarySignerAddresses = Some (map (\<lambda>role. JStr (ax_roles ctx role)) (os_secondarySignerRoles shape)),
     rq_data = os_data shape, rq_options = options\<rparr>"

definition build_and_describe :: "release_argument cedra_sdk \<Rightarrow> (release_argument entry_request \<Rightarrow> sdk_transaction result) \<Rightarrow>
    operation_shape \<Rightarrow> release_argument entry_request \<Rightarrow> (sdk_transaction \<times> transaction_identity) result" where
  "build_and_describe sdk build shape request =
     (if os_secondarySignerRoles shape = [] then
        rbind (buildSingleSigner sdk build request) (\<lambda>tx. rbind (describeSingleSignerTransaction sdk tx) (\<lambda>ident. Inr (tx, ident)))
      else rbind (buildMultiAgent sdk build request) (\<lambda>tx. rbind (describeMultiAgentTransaction sdk tx) (\<lambda>ident. Inr (tx, ident))))"

definition buildReleaseCandidate :: "(string \<Rightarrow> payload_file result) \<Rightarrow> (string \<Rightarrow> string) \<Rightarrow> release_argument cedra_sdk \<Rightarrow>
    (release_argument entry_request \<Rightarrow> sdk_transaction result) \<Rightarrow> assembly_context \<Rightarrow> built_candidate result" where
  "buildReleaseCandidate files sha256 sdk build ctx =
     rbind (operationShape files sha256 ctx) (\<lambda>shape.
     let sender = ax_roles ctx (os_senderRole shape); secondarySigners = map (ax_roles ctx) (os_secondarySignerRoles shape);
         controls = br_transaction_controls (ax_request ctx) in
     if ab_signers (os_abi shape) \<noteq> JNum (1 + int (length secondarySigners))
     then fail (operation_str (br_operation_key (ax_request ctx)) @ '' local ABI signer count does not match ordered transaction signers'')
     else rbind (candidate_options sdk controls) (\<lambda>options.
     rbind (build_and_describe sdk build shape (candidate_request ctx shape options)) (\<lambda>(tx, ident).
     if ti_chainId ident \<noteq> CEDRA_TESTNET_CHAIN_ID \<or> ti_fungibleAssetGasType ident \<noteq> sd_CEDRA_COIN sdk \<or> ti_feePayerAddress ident \<noteq> None
     then fail ''built transaction is not fixed to Testnet chain 2, default CED gas, and no fee payer''
     else let evidence = \<lparr>te_sender = sender, te_secondary_signers = secondarySigners, te_sequence_number = tc_sequence_number controls,
         te_expiration_timestamp_secs = tc_expiration_timestamp_secs controls, te_max_gas_amount = tc_max_gas_amount controls,
         te_gas_unit_price = tc_gas_unit_price controls, te_payload = os_payload shape\<rparr> in
     Inr \<lparr>bc_context = ctx, bc_transactionKind = os_transactionKind shape, bc_transaction = tx, bc_transactionEvidence = evidence,
       bc_transactionIdentity = ident, bc_transactionSemanticsSha256 = sha256 (canonicalJsonBytes (jsonSafe (evidence_tree evidence))),
       bc_publishBinding = os_publishBinding shape, bc_senderRole = os_senderRole shape,
       bc_secondarySignerRoles = os_secondarySignerRoles shape, bc_localAbi = os_abi shape\<rparr>)))"

end
