(* ===== verification/Release_Simulation.thy ===== *)
theory Release_Simulation
  imports Release_Candidate
begin

text \<open>
  The simulation of a built candidate, the checks of its response, and the candidate document
  (\<open>packages/release-candidate-assembler/src/index.ts\<close>). \<open>simulate\<close> is what the SDK answers for a transaction
  and its keys; \<open>captured\<close> is the text of the capture time in seconds, \<open>None\<close> for an invalid date.
\<close>

section \<open>Documents\<close>

fun transaction_type :: "transaction_class \<Rightarrow> string" where
  "transaction_type MultiAgentTransaction = ''multi-agent''"
| "transaction_type SimpleTransaction = ''single-signer''"
| "transaction_type OtherClass = ''''"

definition identity_tree :: "transaction_identity \<Rightarrow> js_val" where
  "identity_tree t = JObj [(''transactionType'', JStr (transaction_type (ti_transactionType t))),
     (''senderAddress'', JStr (ti_senderAddress t)), (''secondarySignerAddresses'', JArr (map JStr (ti_secondarySignerAddresses t))),
     (''feePayerAddress'', case ti_feePayerAddress t of None \<Rightarrow> JNull | Some a \<Rightarrow> JStr a),
     (''sequenceNumber'', JStr (ti_sequenceNumber t)), (''maxGasAmount'', JStr (ti_maxGasAmount t)),
     (''gasUnitPrice'', JStr (ti_gasUnitPrice t)), (''expirationTimestampSeconds'', JStr (ti_expirationTimestampSeconds t)),
     (''chainId'', JNum (ti_chainId t)), (''fungibleAssetGasType'', JStr (ti_fungibleAssetGasType t)),
     (''rawTransactionBcsHex'', JStr (ti_rawTransactionBcsHex t)), (''rawTransactionSha256'', JStr (ti_rawTransactionSha256 t)),
     (''transactionBcsHex'', JStr (ti_transactionBcsHex t)), (''transactionSha256'', JStr (ti_transactionSha256 t)),
     (''signingMessageHex'', JStr (ti_signingMessageHex t)), (''signingMessageSha256'', JStr (ti_signingMessageSha256 t))]"

definition bindings_tree :: "(release_role \<Rightarrow> profile_binding) \<Rightarrow> js_val" where
  "bindings_tree bindings = JObj (map (\<lambda>r. (role_str r, JObj [(''profile_name'', JStr (pf_profile_name (bindings r))),
     (''address'', JStr (pf_address (bindings r))), (''public_key'', JStr (pf_public_key (bindings r)))])) RELEASE_ROLE_KEYS)"

definition budget_tree :: "gas_budget \<Rightarrow> js_val" where
  "budget_tree b = JObj [(''approved_max_gas_amount'', JStr (gb_approved_max_gas_amount b)),
     (''approved_max_gas_unit_price'', JStr (gb_approved_max_gas_unit_price b)),
     (''approved_max_total_fee_base_units'', JStr (gb_approved_max_total_fee_base_units b))]"

definition publish_binding_tree :: "publish_binding option \<Rightarrow> js_val" where
  "publish_binding_tree b = (case b of None \<Rightarrow> JNull
     | Some b \<Rightarrow> JObj [(''package_key'', JStr (package_str (pu_package_key b))),
         (''publish_payload_sha256'', JStr (pu_publish_payload_sha256 b)),
         (''compiled_package_files_manifest_sha256'', JStr (pu_compiled_package_files_manifest_sha256 b))])"

section \<open>Checks of the response\<close>

definition ZERO_SIMULATION_SIGNATURE :: string where
  "ZERO_SIMULATION_SIGNATURE = ''0x'' @ concat (replicate 64 ''00'')"

definition assertZeroEd25519SimulationAuthenticator :: "js_val option \<Rightarrow> string \<Rightarrow> string \<Rightarrow> unit result" where
  "assertZeroEd25519SimulationAuthenticator v expectedPublicKey label =
     rbind (exactObject v [''type'', ''public_key'', ''signature''] label) (\<lambda>authenticator. rseq
       [rensure (js_field authenticator ''type'' = Some (JStr ''ed25519_signature''))
          (PlainError (label @ '' must be an Ed25519 simulation authenticator'')),
        rensure (js_field authenticator ''public_key'' = Some (JStr expectedPublicKey))
          (PlainError (label @ '' public key differs from the requested public profile key'')),
        rensure (js_field authenticator ''signature'' = Some (JStr ZERO_SIMULATION_SIGNATURE))
          (PlainError (label @ '' must contain the SDK's all-zero 64-byte simulation signature''))])"

definition expectedRestPublicKey :: "built_candidate \<Rightarrow> release_role \<Rightarrow> string" where
  "expectedRestPublicKey built role = drop 12 (pf_public_key (ax_profileBindings (bc_context built) role))"

text \<open>The loop over the secondary signers; the lists have the same length.\<close>

fun check_secondary :: "built_candidate \<Rightarrow> nat \<Rightarrow> release_role list \<Rightarrow> js_val list \<Rightarrow> js_val list \<Rightarrow> unit result" where
  "check_secondary built i (role # roles) (address # addresses) (signer # signers) =
     rbind (role_address (Some address) (''Cedra simulation secondary signer address '' @ nat_str i)) (\<lambda>observedAddress.
     rbind (rensure (i < length (te_secondary_signers (bc_transactionEvidence built))
         \<and> observedAddress = te_secondary_signers (bc_transactionEvidence built) ! i)
       (PlainError (''Cedra simulation secondary signer address '' @ nat_str i @ '' differs from the requested signer order''))) (\<lambda>_.
     rbind (assertZeroEd25519SimulationAuthenticator (Some signer) (expectedRestPublicKey built role)
       (''Cedra simulation secondary authenticator '' @ nat_str i)) (\<lambda>_.
     check_secondary built (Suc i) roles addresses signers)))"
| "check_secondary built i _ _ _ = Inr ()"

definition single_response :: "js_val \<Rightarrow> js_val result" where
  "single_response responses = (case responses of
       JArr [response] \<Rightarrow> objectValue (Some response) ''Cedra simulation response''
     | _ \<Rightarrow> fail ''Cedra simulation must return exactly one transaction response'')"

definition assertSimulationAuthenticatorBinding :: "js_val \<Rightarrow> built_candidate \<Rightarrow> unit result" where
  "assertSimulationAuthenticatorBinding responses built =
     rbind (single_response responses) (\<lambda>response.
     if bc_secondarySignerRoles built = [] then
       assertZeroEd25519SimulationAuthenticator (js_field response ''signature'') (expectedRestPublicKey built (bc_senderRole built))
         ''Cedra simulation sender authenticator''
     else rbind (exactObject (js_field response ''signature'')
       [''type'', ''sender'', ''secondary_signer_addresses'', ''secondary_signers''] ''Cedra multi-agent simulation authenticator'') (\<lambda>authenticator.
     rbind (rensure (js_field authenticator ''type'' = Some (JStr ''multi_agent_signature''))
       (PlainError ''Cedra multi-agent simulation must return a multi-agent authenticator'')) (\<lambda>_.
     rbind (assertZeroEd25519SimulationAuthenticator (js_field authenticator ''sender'') (expectedRestPublicKey built (bc_senderRole built))
       ''Cedra simulation sender authenticator'') (\<lambda>_.
     case (js_field authenticator ''secondary_signer_addresses'', js_field authenticator ''secondary_signers'') of
       (Some (JArr addresses), Some (JArr signers)) \<Rightarrow>
         rbind (rensure (length addresses = length (bc_secondarySignerRoles built) \<and> length signers = length (bc_secondarySignerRoles built))
           (PlainError ''Cedra simulation secondary authenticator arrays differ from the requested signer set'')) (\<lambda>_.
         check_secondary built 0 (bc_secondarySignerRoles built) addresses signers)
     | _ \<Rightarrow> fail ''Cedra simulation secondary authenticator arrays differ from the requested signer set''))))"

record simulation_summary =
  su_vmStatus :: string
  su_gasUsed :: string

definition simulationSummary :: "js_val \<Rightarrow> simulation_summary result" where
  "simulationSummary responses =
     rbind (single_response responses) (\<lambda>response.
     if js_field response ''success'' \<noteq> Some (JBool True)
     then fail (''Cedra simulation failed: '' @ (if is_nullish (js_field response ''vm_status'') then ''missing vm_status''
       else js_String (js_get response ''vm_status'')))
     else rbind (stringValue (js_field response ''vm_status'') ''Cedra simulation vm_status'' any_text) (\<lambda>vmStatus.
     rbind (decimalValue (Some (JStr (case js_field response ''gas_used'' of None \<Rightarrow> ''undefined'' | Some v \<Rightarrow> js_String v)))
       ''Cedra simulation gas_used'' MOVE_U64_MAX False) (\<lambda>gasUsed.
     Inr \<lparr>su_vmStatus = vmStatus, su_gasUsed = gasUsed\<rparr>)))"

section \<open>The candidate\<close>

record candidate_bundle =
  cb_candidate :: js_val
  cb_simulationResponse :: js_val

definition candidate_tree :: "(string \<Rightarrow> string) \<Rightarrow> built_candidate \<Rightarrow> simulation_summary \<Rightarrow> string \<Rightarrow> js_val \<Rightarrow> js_val" where
  "candidate_tree sha256 built summary captured simulationResponse =
     (let ctx = bc_context built; request = ax_request ctx in
      JObj [(''schema_version'', JNum 2), (''evidence_scope'', JStr ''testnet-transaction-candidate''),
        (''status'', JStr ''simulated-awaiting-detached-approvals''), (''network'', JStr TESTNET_NETWORK),
        (''api_url'', JStr TESTNET_API_URL), (''chain_id'', JStr ''2''), (''deployment_id'', JStr (br_deployment_id request)),
        (''application_commit'', JStr (ax_applicationCommit ctx)),
        (''exact_address_artifacts_sha256'', JStr (ax_exactAddressArtifactsSha256 ctx)),
        (''public_profile_binding'', JObj [(''evidence_sha256'', JStr (ax_profileEvidenceSha256 ctx)),
           (''public_role_candidate_sha256'', JStr (ax_publicRoleCandidateSha256 ctx)),
           (''derivation_method'', JStr PROFILE_DERIVATION_METHOD), (''derivation_tool'', JStr PROFILE_DERIVATION_TOOL),
           (''assembler_revalidation_sdk_package'', JStr REVIEWED_SDK_PACKAGE),
           (''assembler_revalidation_sdk_version'', JStr REVIEWED_SDK_VERSION),
           (''profiles'', jsonSafe (bindings_tree (ax_profileBindings ctx)))]),
        (''build_environment'', jsonSafe (ax_buildEnvironment ctx)), (''roles'', jsonSafe (roles_tree (ax_roles ctx))),
        (''transaction_kind'', JStr (bc_transactionKind built)),
        (''operation_key'', JStr (operation_str (br_operation_key request))),
        (''transaction'', jsonSafe (evidence_tree (bc_transactionEvidence built))),
        (''transaction_identity'', jsonSafe (identity_tree (bc_transactionIdentity built))),
        (''transaction_semantics_sha256'', JStr (bc_transactionSemanticsSha256 built)),
        (''gas_budget'', jsonSafe (budget_tree (br_gas_budget request))),
        (''simulation'', JObj [(''captured_at'', JStr captured), (''success'', JBool True), (''vm_status'', JStr (su_vmStatus summary)),
           (''gas_used'', JStr (su_gasUsed summary)), (''raw_response_file'', JStr ''simulation-response.json''),
           (''raw_response_sha256'', JStr (sha256 (canonicalJsonBytes simulationResponse))),
           (''transaction_semantics_sha256'', JStr (bc_transactionSemanticsSha256 built))]),
        (''publish_binding'', jsonSafe (publish_binding_tree (bc_publishBinding built)))])"

definition simulate_candidate :: "release_argument cedra_sdk \<Rightarrow> (sdk_transaction \<Rightarrow> string \<Rightarrow> string list \<Rightarrow> js_val result) \<Rightarrow>
    built_candidate \<Rightarrow> (transaction_identity \<times> js_val) result" where
  "simulate_candidate sdk simulate built =
     (let key = ax_publicKeys (bc_context built) in
      if bc_secondarySignerRoles built = []
      then simulateSingleSigner sdk simulate (bc_transaction built) (bc_transactionIdentity built) (key (bc_senderRole built))
      else simulateMultiAgent sdk simulate (bc_transaction built) (bc_transactionIdentity built) (key (bc_senderRole built))
        (map key (bc_secondarySignerRoles built)))"

definition simulateReleaseCandidate :: "(string \<Rightarrow> string) \<Rightarrow> release_argument cedra_sdk \<Rightarrow>
    (sdk_transaction \<Rightarrow> string \<Rightarrow> string list \<Rightarrow> js_val result) \<Rightarrow> built_candidate \<Rightarrow> string option \<Rightarrow> candidate_bundle result" where
  "simulateReleaseCandidate sha256 sdk simulate built capturedAt = (case capturedAt of
       None \<Rightarrow> fail ''simulation capture time is invalid''
     | Some captured \<Rightarrow>
         rbind (simulate_candidate sdk simulate built) (\<lambda>(ident, answer).
         rbind (rensure (sameJson (jsonSafe (identity_tree ident)) (jsonSafe (identity_tree (bc_transactionIdentity built))))
           (PlainError ''Cedra simulation returned a transaction identity different from the built candidate'')) (\<lambda>_.
         let responses = jsonSafe answer in
         rbind (assertSimulationAuthenticatorBinding responses built) (\<lambda>_.
         rbind (simulationSummary responses) (\<lambda>summary.
         rbind (rensure (str_nat (su_gasUsed summary) \<le> str_nat (te_max_gas_amount (bc_transactionEvidence built)))
           (PlainError ''simulated gas exceeds the explicitly requested maximum'')) (\<lambda>_.
         let simulationResponse = JObj [(''identity'', jsonSafe (identity_tree (bc_transactionIdentity built))), (''responses'', responses)] in
         Inr \<lparr>cb_candidate = candidate_tree sha256 built summary captured simulationResponse,
           cb_simulationResponse = simulationResponse\<rparr>))))))"

definition assembleReleaseCandidate :: "(string \<Rightarrow> payload_file result) \<Rightarrow> (string \<Rightarrow> string) \<Rightarrow> release_argument cedra_sdk \<Rightarrow>
    (release_argument entry_request \<Rightarrow> sdk_transaction result) \<Rightarrow> (sdk_transaction \<Rightarrow> string \<Rightarrow> string list \<Rightarrow> js_val result) \<Rightarrow>
    assembly_context \<Rightarrow> string option \<Rightarrow> candidate_bundle result" where
  "assembleReleaseCandidate files sha256 sdk build simulate ctx capturedAt =
     rbind (buildReleaseCandidate files sha256 sdk build ctx) (\<lambda>built.
     simulateReleaseCandidate sha256 sdk simulate built capturedAt)"

definition candidateBundleBytes :: "candidate_bundle \<Rightarrow> string \<times> string" where
  "candidateBundleBytes bundle = (canonicalJsonBytes (cb_candidate bundle), canonicalJsonBytes (cb_simulationResponse bundle))"

end
