(* ===== verification/Release_Safety.thy ===== *)
theory Release_Safety
  imports Release_Client
begin

text \<open>
  Whatever the SDK builds, the release client returns only the requested transaction; and whatever object is
  presented for simulation, it is simulated only when its bytes are those of the reviewed one.
\<close>

declare int_str_eq_iff [simp]

section \<open>Bytes and addresses\<close>

definition byte_list :: "nat list \<Rightarrow> bool" where
  "byte_list bs = list_all (\<lambda>b. b < 256) bs"

lemma hex_char_inj: "d < 16 \<Longrightarrow> e < 16 \<Longrightarrow> hex_char d = hex_char e \<longleftrightarrow> d = e"
  using hex_val_hex_char by (metis option.inject)

lemma bytesToHex_inj:
  assumes "byte_list bs" "byte_list cs" "bytesToHex bs = bytesToHex cs"
  shows "bs = cs"
  using assms
proof (induction bs arbitrary: cs)
  case Nil
  then show ?case by (cases cs) (simp_all add: bytesToHex_def)
next
  case (Cons b bs)
  then obtain c ds where cs: "cs = c # ds" by (cases cs) (simp_all add: bytesToHex_def)
  have "b div 16 < 16" "c div 16 < 16" using Cons.prems by (auto simp: byte_list_def cs)
  then have "b div 16 = c div 16" "b mod 16 = c mod 16" and rest: "bytesToHex bs = bytesToHex ds"
    using Cons.prems hex_char_inj [of "b div 16" "c div 16"] hex_char_inj [of "b mod 16" "c mod 16"]
    by (simp_all add: bytesToHex_def byte_list_def cs)
  then have "b = c" by (metis div_mult_mod_eq)
  then show ?case using Cons.IH [OF _ _ rest] Cons.prems by (simp add: byte_list_def cs)
qed

text \<open>A text that denotes a non-zero account address.\<close>

definition denotes :: "'a cedra_sdk \<Rightarrow> js_val \<Rightarrow> nat \<Rightarrow> bool" where
  "denotes sdk v n = (n \<noteq> 0 \<and> (\<exists>s. v = JStr s \<and> sd_fromString sdk s = Some n))"

lemma canonical_nonzero:
  "canonicalNonzeroAddress sdk v label = Inr a \<longleftrightarrow> (\<exists>n. denotes sdk v n \<and> a = sd_toStringLong sdk n)"
  by (auto simp: canonicalNonzeroAddress_def denotes_def split: js_val.splits option.splits)

lemma canonical_secondary:
  "canonicalSecondary sdk i vs = Inr as \<longleftrightarrow> (\<exists>ns. list_all2 (denotes sdk) vs ns \<and> as = map (sd_toStringLong sdk) ns)"
proof (induction vs arbitrary: i as)
  case (Cons v vs)
  show ?case
  proof
    assume "canonicalSecondary sdk i (v # vs) = Inr as"
    then obtain n bs where "denotes sdk v n" "canonicalSecondary sdk (Suc i) vs = Inr bs" "as = sd_toStringLong sdk n # bs"
      by (auto simp: result_simps canonical_nonzero simp del: Cons.IH)
    moreover from this(2) obtain ns where "list_all2 (denotes sdk) vs ns" "bs = map (sd_toStringLong sdk) ns"
      using Cons.IH by blast
    ultimately have "list_all2 (denotes sdk) (v # vs) (n # ns)" "as = map (sd_toStringLong sdk) (n # ns)" by simp_all
    then show "\<exists>ns. list_all2 (denotes sdk) (v # vs) ns \<and> as = map (sd_toStringLong sdk) ns" by blast
  next
    assume "\<exists>ns. list_all2 (denotes sdk) (v # vs) ns \<and> as = map (sd_toStringLong sdk) ns"
    then obtain n ns where n: "denotes sdk v n" "list_all2 (denotes sdk) vs ns" "as = map (sd_toStringLong sdk) (n # ns)"
      by (auto simp: list_all2_Cons1)
    have "canonicalSecondary sdk (Suc i) vs = Inr (map (sd_toStringLong sdk) ns)" using Cons.IH n(2) by blast
    moreover have "canonicalNonzeroAddress sdk v label = Inr (sd_toStringLong sdk n)" for label
      using n(1) canonical_nonzero by blast
    ultimately show "canonicalSecondary sdk i (v # vs) = Inr as" by (simp add: n(3))
  qed
qed auto

lemma denotes_same:
  "list_all2 (denotes sdk) vs ns \<Longrightarrow> list_all2 (denotes sdk) vs ms \<Longrightarrow> ns = ms"
proof (induction arbitrary: ms rule: list_all2_induct)
  case (Cons v vs n ns)
  then obtain m ks where "ms = m # ks" "denotes sdk v m" "list_all2 (denotes sdk) vs ks" by (auto simp: list_all2_Cons1)
  then show ?case using Cons by (auto simp: denotes_def)
qed simp

section \<open>Checks that passed\<close>

lemma no_mismatch: "refuse_mismatches checks = Inr () \<longleftrightarrow> list_all (\<lambda>(bad, label). \<not> bad) checks"
  by (auto simp: refuse_mismatches_def Let_def result_simps filter_empty_conv list_all_iff)

lemma limit_passed: "explicitLimit label v = Inr () \<longleftrightarrow> (\<exists>n. v = JNum n \<and> 1 \<le> n \<and> n \<le> MAX_SAFE_INTEGER)"
  by (auto simp: explicitLimit_def result_simps split: js_val.splits)

lemma options_passed:
  assumes "assertExplicitOptions options = Inr ()"
  obtains s g p e where "explicitSequenceNumber (ro_accountSequenceNumber options) = Inr s" "0 \<le> s" "s \<le> MOVE_U64_MAX"
    "ro_maxGasAmount options = JNum g" "1 \<le> g" "ro_gasUnitPrice options = JNum p" "1 \<le> p" "ro_expireTimestamp options = JNum e" "1 \<le> e"
  using assms by (auto simp: assertExplicitOptions_def result_simps limit_passed)

text \<open>What a description says of the object.\<close>

lemma described:
  assumes "describeTransaction sdk tx cls secondary = Inr ident"
  shows "tx_chainId tx = JNum CEDRA_TESTNET_CHAIN_ID" "ti_senderAddress ident = sd_toStringLong sdk (tx_sender tx)"
    "ti_secondarySignerAddresses ident = secondary" "ti_feePayerAddress ident = map_option (sd_toStringLong sdk) (tx_feePayer tx)"
    "ti_sequenceNumber ident = int_str (tx_sequenceNumber tx)" "ti_maxGasAmount ident = int_str (tx_maxGasAmount tx)"
    "ti_gasUnitPrice ident = int_str (tx_gasUnitPrice tx)" "ti_expirationTimestampSeconds ident = int_str (tx_expirationSeconds tx)"
    "ti_rawTransactionBcsHex ident = bytesToHex (tx_rawBytes tx)" "ti_transactionBcsHex ident = bytesToHex (tx_bytes tx)"
    "ti_signingMessageHex ident = bytesToHex (tx_signingMessage tx)" "ti_fungibleAssetGasType ident = tx_gasType tx"
  using assms by (auto simp: describeTransaction_def split: if_splits)

lemma matching_identities: "identitiesMatch a b \<longleftrightarrow> a = (b :: transaction_identity)"
  by (auto simp: identitiesMatch_def intro: transaction_identity.equality)

text \<open>The transaction a request asks for, apart from its signers.\<close>

definition as_requested :: "'a cedra_sdk \<Rightarrow> 'a entry_request \<Rightarrow> sdk_transaction \<Rightarrow> bool" where
  "as_requested sdk rq tx = (
     tx_chainId tx = JNum CEDRA_TESTNET_CHAIN_ID \<and> tx_feePayer tx = None
     \<and> denotes sdk (rq_senderAddress rq) (tx_sender tx)
     \<and> explicitSequenceNumber (ro_accountSequenceNumber (rq_options rq)) = Inr (tx_sequenceNumber tx)
     \<and> ro_maxGasAmount (rq_options rq) = JNum (tx_maxGasAmount tx) \<and> ro_gasUnitPrice (rq_options rq) = JNum (tx_gasUnitPrice tx)
     \<and> ro_expireTimestamp (rq_options rq) = JNum (tx_expirationSeconds tx)
     \<and> 0 < tx_maxGasAmount tx \<and> 0 < tx_gasUnitPrice tx \<and> 0 < tx_expirationSeconds tx
     \<and> (\<exists>bytes. sd_payloadBytes sdk (rq_data rq) = Inr bytes \<and> (byte_list bytes \<longrightarrow> tx_payloadBytes tx = bytes)))"

lemma payload_passed:
  assumes "assertBuiltPayloadMatchesRequest sdk tx data = Inr ()"
  obtains bytes where "sd_payloadBytes sdk data = Inr bytes" "bytesToHex bytes = bytesToHex (tx_payloadBytes tx)"
proof (cases "ed_functionArguments data"; cases "ed_typeArguments data")
  fix args tags
  assume "ed_functionArguments data = Some args" "ed_typeArguments data = Some tags"
  with assms that show ?thesis unfolding assertBuiltPayloadMatchesRequest_def
    by (auto simp: result_simps no_mismatch split: option.splits js_val.splits list.splits)
qed (use assms in \<open>auto simp: assertBuiltPayloadMatchesRequest_def result_simps split: option.splits js_val.splits list.splits\<close>)

lemma request_passed:
  assumes desc: "describeTransaction sdk tx cls (map (sd_toStringLong sdk) signers) = Inr ident"
    and options: "assertExplicitOptions (rq_options rq) = Inr ()"
    and payload: "assertBuiltPayloadMatchesRequest sdk tx (rq_data rq) = Inr ()"
    and built: "assertBuiltTransactionMatchesRequest sdk ident (rq_senderAddress rq) vs (rq_options rq) = Inr ()"
    and inj: "inj (sd_toStringLong sdk)" and bytes: "byte_list (tx_payloadBytes tx)"
  shows "as_requested sdk rq tx \<and> list_all2 (denotes sdk) vs signers"
proof -
  note d = described [OF desc]
  obtain s g p e where o: "explicitSequenceNumber (ro_accountSequenceNumber (rq_options rq)) = Inr s"
      "ro_maxGasAmount (rq_options rq) = JNum g" "1 \<le> g" "ro_gasUnitPrice (rq_options rq) = JNum p" "1 \<le> p"
      "ro_expireTimestamp (rq_options rq) = JNum e" "1 \<le> e"
    using options_passed [OF options] by metis
  obtain n ns where m: "denotes sdk (rq_senderAddress rq) n" "list_all2 (denotes sdk) vs ns"
      "ti_senderAddress ident = sd_toStringLong sdk n" "ti_secondarySignerAddresses ident = map (sd_toStringLong sdk) ns"
      "ti_feePayerAddress ident = None" "ti_sequenceNumber ident = int_str s" "ti_maxGasAmount ident = int_str g"
      "ti_gasUnitPrice ident = int_str p" "ti_expirationTimestampSeconds ident = int_str e"
    using built o unfolding assertBuiltTransactionMatchesRequest_def
    by (auto simp: result_simps no_mismatch canonical_nonzero canonical_secondary)
  obtain b where b: "sd_payloadBytes sdk (rq_data rq) = Inr b" "bytesToHex b = bytesToHex (tx_payloadBytes tx)"
    using payload_passed [OF payload] .
  have "ns = signers" "n = tx_sender tx" using m(3,4) d(2,3) inj by (simp_all add: inj_eq inj_map_eq_map)
  moreover have "byte_list b \<longrightarrow> tx_payloadBytes tx = b" using bytesToHex_inj [OF _ bytes b(2)] by simp
  ultimately show ?thesis
    using m o d b(1) by (simp add: as_requested_def)
qed

lemma multi_agent_built:
  assumes "buildMultiAgent sdk build rq = Inr tx" "inj (sd_toStringLong sdk)" "byte_list (tx_payloadBytes tx)"
  shows "tx_class tx = MultiAgentTransaction \<and> as_requested sdk rq tx
    \<and> (\<exists>vs. rq_secondarySignerAddresses rq = Some vs \<and> vs \<noteq> [] \<and> list_all2 (denotes sdk) vs (tx_secondarySigners tx))
    \<and> distinct (tx_sender tx # tx_secondarySigners tx)"
proof -
  obtain vs ident where vs: "rq_secondarySignerAddresses rq = Some vs" "vs \<noteq> []"
      "assertDistinctSignerAddresses sdk (rq_senderAddress rq) (Some vs) True = Inr ()"
    and o: "assertExplicitOptions (rq_options rq) = Inr ()" and i: "describeMultiAgentTransaction sdk tx = Inr ident"
    and p: "assertBuiltPayloadMatchesRequest sdk tx (rq_data rq) = Inr ()"
    and m: "assertBuiltTransactionMatchesRequest sdk ident (rq_senderAddress rq) vs (rq_options rq) = Inr ()"
    using assms(1) by (auto simp: buildMultiAgent_def Let_def result_simps assertDistinctSignerAddresses_def split: option.splits if_splits)
  have cls: "tx_class tx = MultiAgentTransaction"
    and d: "describeTransaction sdk tx MultiAgentTransaction (map (sd_toStringLong sdk) (tx_secondarySigners tx)) = Inr ident"
    using i by (auto simp: describeMultiAgentTransaction_def split: if_splits)
  have r: "as_requested sdk rq tx" "list_all2 (denotes sdk) vs (tx_secondarySigners tx)"
    using request_passed [OF d o p m assms(2,3)] by simp_all
  obtain n ns where n: "denotes sdk (rq_senderAddress rq) n" "list_all2 (denotes sdk) vs ns"
      "distinct (map (sd_toStringLong sdk) (n # ns))"
    using vs(3) by (auto simp: assertDistinctSignerAddresses_def result_simps canonical_nonzero canonical_secondary split: if_splits)
  have "ns = tx_secondarySigners tx" using denotes_same [OF n(2) r(2)] .
  moreover have "n = tx_sender tx" using r(1) n(1) by (auto simp: as_requested_def denotes_def)
  ultimately have "distinct (tx_sender tx # tx_secondarySigners tx)" using n(3) by (metis distinct_map)
  then show ?thesis using cls r vs(1,2) by blast
qed

lemma reviewed_is_simulated:
  assumes "describeMultiAgentTransaction sdk tx = Inr ident" "simulateMultiAgent sdk simulate tx' ident key keys = Inr result"
    and "list_all byte_list [tx_rawBytes tx, tx_bytes tx, tx_signingMessage tx, tx_rawBytes tx', tx_bytes tx', tx_signingMessage tx']"
  shows "tx_rawBytes tx' = tx_rawBytes tx \<and> tx_bytes tx' = tx_bytes tx \<and> tx_signingMessage tx' = tx_signingMessage tx
    \<and> length keys = length (tx_secondarySigners tx') \<and> fst result = ident"
proof -
  have i': "describeMultiAgentTransaction sdk tx' = Inr ident" "length keys = length (ti_secondarySignerAddresses ident)" "fst result = ident"
    using assms(2) by (auto simp: simulateMultiAgent_def result_simps matching_identities split: if_splits)
  obtain s s' where d: "describeTransaction sdk tx MultiAgentTransaction s = Inr ident"
      "describeTransaction sdk tx' MultiAgentTransaction s' = Inr ident" "length s' = length (tx_secondarySigners tx')"
    using assms(1) i'(1) by (auto simp: describeMultiAgentTransaction_def split: if_splits)
  show ?thesis
    using described(3,9-11) [OF d(1)] described(3,9-11) [OF d(2)] d(3) i' assms(3) by (auto intro: bytesToHex_inj)
qed

lemma multi_agent_described: "buildMultiAgent sdk build rq = Inr tx \<Longrightarrow> \<exists>ident. describeMultiAgentTransaction sdk tx = Inr ident"
  by (auto simp: buildMultiAgent_def Let_def result_simps)

lemma single_signer_built:
  assumes "buildSingleSigner sdk build rq = Inr tx" "inj (sd_toStringLong sdk)" "byte_list (tx_payloadBytes tx)"
  shows "tx_class tx = SimpleTransaction \<and> as_requested sdk rq tx"
proof -
  obtain ident where o: "assertExplicitOptions (rq_options rq) = Inr ()" and i: "describeSingleSignerTransaction sdk tx = Inr ident"
    and p: "assertBuiltPayloadMatchesRequest sdk tx (rq_data rq) = Inr ()"
    and m: "assertBuiltTransactionMatchesRequest sdk ident (rq_senderAddress rq) [] (rq_options rq) = Inr ()"
    using assms(1) by (auto simp: buildSingleSigner_def result_simps)
  have "tx_class tx = SimpleTransaction"
    and d: "describeTransaction sdk tx SimpleTransaction (map (sd_toStringLong sdk) []) = Inr ident"
    using i by (auto simp: describeSingleSignerTransaction_def split: if_splits)
  then show ?thesis using request_passed [OF d o p m assms(2,3)] by simp
qed


end
