(* ===== verification/Release_Assembly.thy ===== *)
theory Release_Assembly
  imports Release_Simulation Release_Safety
begin

text \<open>
  End to end: what a candidate document says of its transaction is true of the object that the SDK built and
  simulated, and the object is what the reviewed inputs ask for.
\<close>

section \<open>What the inputs fix\<close>

lemma map_result_ok: "map_result f xs = Inr ys \<Longrightarrow> list_all2 (\<lambda>x y. f x = Inr y) xs ys"
  by (induction xs arbitrary: ys) (auto simp: result_simps)

lemma budget_parsed:
  assumes "parseBudget w c = Inr b"
  shows "str_nat (tc_max_gas_amount c) * str_nat (tc_gas_unit_price c) = str_nat (gb_approved_max_total_fee_base_units b)"
    "gb_approved_max_gas_amount b = tc_max_gas_amount c" "gb_approved_max_gas_unit_price b = tc_gas_unit_price c"
  using assms by (auto simp: parseBudget_def fail_def result_simps split: if_splits)

lemma request_parsed_budget:
  assumes "parseBuildRequest coin v = Inr r"
  shows "\<exists>w. parseBudget w (br_transaction_controls r) = Inr (br_gas_budget r)"
proof -
  have key: "(case key of None \<Rightarrow> Inl e | Some k \<Rightarrow> f k) = Inr r \<longleftrightarrow> (\<exists>k. key = Some k \<and> f k = Inr r)" for key e f
    by (cases key) simp_all
  show ?thesis using assms unfolding parseBuildRequest_def fail_def key by (auto simp: result_simps key split: if_splits)
qed

lemma request_budget:
  assumes "parseBuildRequest coin v = Inr r"
  shows "str_nat (tc_max_gas_amount (br_transaction_controls r)) * str_nat (tc_gas_unit_price (br_transaction_controls r))
      = str_nat (gb_approved_max_total_fee_base_units (br_gas_budget r))"
  using request_parsed_budget [OF assms] budget_parsed(1) by blast

text \<open>An approved context: clean sources, one budget, a time to expire that is still ahead.\<close>

definition approved_context :: "assembly_inputs \<Rightarrow> assembly_context \<Rightarrow> bool" where
  "approved_context args ctx = (let controls = br_transaction_controls (ax_request ctx); budget = br_gas_budget (ax_request ctx) in
     rs_statusPorcelain (ai_repositoryState args) = []
     \<and> rs_headCommit (ai_repositoryState args) = ax_applicationCommit ctx
     \<and> br_application_commit (ax_request ctx) = ax_applicationCommit ctx
     \<and> br_exact_address_artifacts_sha256 (ax_request ctx) = ai_exactArtifactsSha256 args
     \<and> str_nat (tc_max_gas_amount controls) * str_nat (tc_gas_unit_price controls)
         = str_nat (gb_approved_max_total_fee_base_units budget)
     \<and> (\<exists>now. ai_now args = Some now \<and> now div 1000 < int (str_nat (tc_expiration_timestamp_secs controls))))"

lemma stringValue_some: "stringValue (Some (JStr s)) label pattern = Inr t \<longleftrightarrow> t = s \<and> s \<noteq> [] \<and> pattern s"
  by (auto simp: stringValue_def fail_def)

lemma context_approved:
  assumes "validateAssemblyInputs derive coin args = Inr ctx"
  shows "approved_context args ctx"
proof -
  have p: "parseBuildRequest coin (Some (ai_buildRequest args)) = Inr (ax_request ctx)"
    and f: "br_application_commit (ax_request ctx) = ax_applicationCommit ctx"
      "br_exact_address_artifacts_sha256 (ax_request ctx) = ai_exactArtifactsSha256 args"
      "rs_statusPorcelain (ai_repositoryState args) = []" "rs_headCommit (ai_repositoryState args) = ax_applicationCommit ctx"
      "\<exists>now. ai_now args = Some now \<and> now div 1000 < int (str_nat (tc_expiration_timestamp_secs (br_transaction_controls (ax_request ctx))))"
    using assms unfolding validateAssemblyInputs_def fail_def
    by (auto simp: result_simps stringValue_some split: option.splits)
  show ?thesis using f request_budget [OF p] by (simp add: approved_context_def Let_def)
qed

section \<open>What was built\<close>

lemma safe_number: "safeNumber s label = Inr n \<longleftrightarrow> n = int (str_nat s) \<and> n \<le> MAX_SAFE_INTEGER"
  by (auto simp: safeNumber_def fail_def)

text \<open>The transaction of a context: its operation, from and with the accounts of its roles.\<close>

definition transaction_of_context :: "release_argument cedra_sdk \<Rightarrow> assembly_context \<Rightarrow> operation_shape \<Rightarrow> sdk_transaction \<Rightarrow> bool" where
  "transaction_of_context sdk ctx shape tx = (let controls = br_transaction_controls (ax_request ctx) in
     tx_chainId tx = JNum CEDRA_TESTNET_CHAIN_ID \<and> tx_feePayer tx = None
     \<and> denotes sdk (JStr (ax_roles ctx (os_senderRole shape))) (tx_sender tx)
     \<and> tx_sequenceNumber tx = int (str_nat (tc_sequence_number controls))
     \<and> tx_maxGasAmount tx = int (str_nat (tc_max_gas_amount controls))
     \<and> tx_gasUnitPrice tx = int (str_nat (tc_gas_unit_price controls))
     \<and> tx_expirationSeconds tx = int (str_nat (tc_expiration_timestamp_secs controls))
     \<and> (\<exists>bytes. sd_payloadBytes sdk (os_data shape) = Inr bytes \<and> (byte_list bytes \<longrightarrow> tx_payloadBytes tx = bytes))
     \<and> (os_secondarySignerRoles shape \<noteq> [] \<longrightarrow> distinct (tx_sender tx # tx_secondarySigners tx)
          \<and> list_all2 (\<lambda>role a. denotes sdk (JStr (ax_roles ctx role)) a) (os_secondarySignerRoles shape) (tx_secondarySigners tx)))"

lemma options_of_controls:
  assumes "candidate_options sdk controls = Inr options"
  shows "ro_accountSequenceNumber options = JBig (int (str_nat (tc_sequence_number controls)))"
    "ro_maxGasAmount options = JNum (int (str_nat (tc_max_gas_amount controls)))"
    "ro_gasUnitPrice options = JNum (int (str_nat (tc_gas_unit_price controls)))"
    "ro_expireTimestamp options = JNum (int (str_nat (tc_expiration_timestamp_secs controls)))"
  using assms by (auto simp: candidate_options_def result_simps safe_number)

lemma requested_of_context:
  assumes "as_requested sdk (candidate_request ctx shape options) tx"
    and "candidate_options sdk (br_transaction_controls (ax_request ctx)) = Inr options"
    and "os_secondarySignerRoles shape \<noteq> [] \<longrightarrow> distinct (tx_sender tx # tx_secondarySigners tx)
          \<and> list_all2 (denotes sdk) (map (\<lambda>role. JStr (ax_roles ctx role)) (os_secondarySignerRoles shape)) (tx_secondarySigners tx)"
  shows "transaction_of_context sdk ctx shape tx"
  using assms(1,3) options_of_controls [OF assms(2)]
  by (auto simp: as_requested_def candidate_request_def transaction_of_context_def Let_def explicitSequenceNumber_def list_all2_map1)

lemma candidate_built:
  assumes "buildReleaseCandidate files sha256 sdk build ctx = Inr built" "inj (sd_toStringLong sdk)"
    and "\<And>rq tx. build rq = Inr tx \<Longrightarrow> byte_list (tx_payloadBytes tx)"
  obtains shape tx where "operationShape files sha256 ctx = Inr shape" "transaction_of_context sdk ctx shape tx"
    "bc_transaction built = tx" "bc_context built = ctx" "bc_secondarySignerRoles built = os_secondarySignerRoles shape"
    "bc_senderRole built = os_senderRole shape"
    "(if os_secondarySignerRoles shape = [] then describeSingleSignerTransaction sdk tx else describeMultiAgentTransaction sdk tx)
       = Inr (bc_transactionIdentity built)"
    "te_max_gas_amount (bc_transactionEvidence built) = tc_max_gas_amount (br_transaction_controls (ax_request ctx))"
    "bc_transactionSemanticsSha256 built = sha256 (canonicalJsonBytes (jsonSafe (evidence_tree (bc_transactionEvidence built))))"
proof -
  obtain shape options tx ident where s: "operationShape files sha256 ctx = Inr shape"
      "candidate_options sdk (br_transaction_controls (ax_request ctx)) = Inr options"
      "build_and_describe sdk build shape (candidate_request ctx shape options) = Inr (tx, ident)"
    and b: "bc_transaction built = tx" "bc_context built = ctx" "bc_secondarySignerRoles built = os_secondarySignerRoles shape"
      "bc_senderRole built = os_senderRole shape" "bc_transactionIdentity built = ident"
      "te_max_gas_amount (bc_transactionEvidence built) = tc_max_gas_amount (br_transaction_controls (ax_request ctx))"
      "bc_transactionSemanticsSha256 built = sha256 (canonicalJsonBytes (jsonSafe (evidence_tree (bc_transactionEvidence built))))"
    using assms(1) unfolding buildReleaseCandidate_def fail_def by (auto simp: result_simps Let_def split: if_splits)
  let ?rq = "candidate_request ctx shape options"
  show ?thesis
  proof (cases "os_secondarySignerRoles shape = []")
    case True
    then have t: "buildSingleSigner sdk build ?rq = Inr tx" "describeSingleSignerTransaction sdk tx = Inr ident"
      using s(3) by (auto simp: build_and_describe_def result_simps)
    then have "byte_list (tx_payloadBytes tx)" using assms(3) by (auto simp: buildSingleSigner_def result_simps)
    then have "as_requested sdk ?rq tx" using single_signer_built [OF t(1) assms(2)] by simp
    then show ?thesis using that [OF s(1) requested_of_context [OF _ s(2)] b(1-4)] True t(2) b(5-7) by simp
  next
    case False
    then have t: "buildMultiAgent sdk build ?rq = Inr tx" "describeMultiAgentTransaction sdk tx = Inr ident"
      using s(3) by (auto simp: build_and_describe_def result_simps)
    then have "byte_list (tx_payloadBytes tx)" using assms(3) by (auto simp: buildMultiAgent_def result_simps Let_def)
    note m = multi_agent_built [OF t(1) assms(2) this]
    then have "distinct (tx_sender tx # tx_secondarySigners tx)
        \<and> list_all2 (denotes sdk) (map (\<lambda>role. JStr (ax_roles ctx role)) (os_secondarySignerRoles shape)) (tx_secondarySigners tx)"
      by (auto simp: candidate_request_def)
    then show ?thesis using that [OF s(1) requested_of_context [OF _ s(2)] b(1-4)] m False t(2) b(5-7) by simp
  qed
qed

section \<open>The candidate document\<close>

lemma candidate_fields:
  "js_field (candidate_tree sha256 built summary captured response) ''transaction_identity'' = Some (jsonSafe (identity_tree (bc_transactionIdentity built)))"
  "js_field (candidate_tree sha256 built summary captured response) ''transaction'' = Some (jsonSafe (evidence_tree (bc_transactionEvidence built)))"
  "js_field (candidate_tree sha256 built summary captured response) ''transaction_semantics_sha256'' = Some (JStr (bc_transactionSemanticsSha256 built))"
  "js_field (js_get (candidate_tree sha256 built summary captured response) ''simulation'') ''gas_used'' = Some (JStr (su_gasUsed summary))"
  "js_field (js_get (candidate_tree sha256 built summary captured response) ''simulation'') ''raw_response_sha256'' =
     Some (JStr (sha256 (canonicalJsonBytes response)))"
  by (simp_all add: candidate_tree_def Let_def lookup)

text \<open>What the document says of the transaction and its simulation.\<close>

definition document_of :: "(string \<Rightarrow> string) \<Rightarrow> candidate_bundle \<Rightarrow> sdk_transaction \<Rightarrow> transaction_identity \<Rightarrow> bool" where
  "document_of sha256 bundle tx ident = (let doc = cb_candidate bundle in
     js_field doc ''transaction_identity'' = Some (jsonSafe (identity_tree ident))
     \<and> (\<exists>evidence. js_field doc ''transaction'' = Some evidence
          \<and> js_field doc ''transaction_semantics_sha256'' = Some (JStr (sha256 (canonicalJsonBytes evidence))))
     \<and> js_field (js_get doc ''simulation'') ''raw_response_sha256'' = Some (JStr (sha256 (canonicalJsonBytes (cb_simulationResponse bundle))))
     \<and> (\<exists>gas. js_field (js_get doc ''simulation'') ''gas_used'' = Some (JStr gas) \<and> int (str_nat gas) \<le> tx_maxGasAmount tx))"

lemma simulated_document:
  assumes "simulateReleaseCandidate sha256 sdk simulate built captured = Inr bundle"
    and "bc_transactionSemanticsSha256 built = sha256 (canonicalJsonBytes (jsonSafe (evidence_tree (bc_transactionEvidence built))))"
    and "tx_maxGasAmount tx = int (str_nat (te_max_gas_amount (bc_transactionEvidence built)))"
  shows "document_of sha256 bundle tx (bc_transactionIdentity built)"
proof -
  obtain summary time response where b: "bundle = \<lparr>cb_candidate = candidate_tree sha256 built summary time response, cb_simulationResponse = response\<rparr>"
      "str_nat (su_gasUsed summary) \<le> str_nat (te_max_gas_amount (bc_transactionEvidence built))"
    using assms(1) by (auto simp: simulateReleaseCandidate_def fail_def result_simps Let_def split: option.splits)
  show ?thesis using b(2) assms(2,3) by (simp add: document_of_def b(1) candidate_fields)
qed

lemma simulated_response:
  assumes "simulateReleaseCandidate sha256 sdk simulate built captured = Inr bundle"
  shows "\<exists>answer. simulate (bc_transaction built) (ax_publicKeys (bc_context built) (bc_senderRole built))
      (map (ax_publicKeys (bc_context built)) (bc_secondarySignerRoles built)) = Inr answer
    \<and> js_field (cb_simulationResponse bundle) ''responses'' = Some (jsonSafe answer)"
proof -
  obtain ident answer where "simulate_candidate sdk simulate built = Inr (ident, answer)"
      "js_field (cb_simulationResponse bundle) ''responses'' = Some (jsonSafe answer)"
    using assms by (auto simp: simulateReleaseCandidate_def fail_def result_simps Let_def lookup split: option.splits)
  moreover from this(1) have "simulate (bc_transaction built) (ax_publicKeys (bc_context built) (bc_senderRole built))
      (map (ax_publicKeys (bc_context built)) (bc_secondarySignerRoles built)) = Inr answer"
    by (auto simp: simulate_candidate_def simulateSingleSigner_def simulateMultiAgent_def Let_def result_simps split: if_splits)
  ultimately show ?thesis by blast
qed


end
