(* ===== verification/Release_Witnesses.thy ===== *)
theory Release_Witnesses
  imports Release_Assembly
begin

text \<open>
  The properties of the release client and of the assembler at a concrete release: four roles with small
  addresses, the initialisation of the core, and a sample SDK that builds the transaction it is asked for.
\<close>

section \<open>The comparison of documents\<close>

definition release_left :: js_val where
  "release_left = JObj [(''a'', JArr [JNum 1, JNull]), (''b'', JObj [(''x'', JStr ''1''), (''y'', JBool True)])]"

definition release_right :: js_val where
  "release_right = JObj [(''b'', JObj [(''y'', JBool True), (''x'', JStr ''1'')]), (''a'', JArr [JNum 1, JNull])]"

lemma canonical_comparison_is_exact_witness:
  "json_equal release_left release_right \<and> release_left \<noteq> release_right"
proof -
  have "json_tree release_left" "json_tree release_right" "plain release_left = release_left" "plain release_right = release_right"
    by code_simp+
  then have "sameJson release_left release_right \<longleftrightarrow> json_equal release_left release_right" by (rule canonical_comparison_is_exact)
  moreover have "sameJson release_left release_right" by code_simp
  moreover have "release_left \<noteq> release_right" by code_simp
  ultimately show ?thesis by blast
qed

section \<open>A sample SDK\<close>

definition release_number :: "string \<Rightarrow> nat" where
  "release_number s = foldl (\<lambda>n c. 16 * n + (case hex_val c of None \<Rightarrow> 0 | Some d \<Rightarrow> d)) 0 (address_digits s)"

definition release_sdk :: "'a cedra_sdk" where
  "release_sdk = \<lparr>sd_fromString = (\<lambda>s. if is_account_address s then Some (release_number s) else None),
     sd_toStringLong = (\<lambda>n. ''0x'' @ nat_str n), sd_parseTypeTag = Inr, sd_CEDRA_COIN = ''0x1::cedra_coin::CedraCoin'',
     sd_sha256 = (\<lambda>bytes. ''digest''), sd_payloadBytes = (\<lambda>data. Inr [1, 2, 3])\<rparr>"

lemma release_sdk_inj: "inj (sd_toStringLong release_sdk)"
proof (rule injI)
  fix m n
  assume "sd_toStringLong release_sdk m = sd_toStringLong release_sdk n"
  then have "nat_str m = nat_str n" by (simp add: release_sdk_def)
  then show "m = n" by (metis str_nat_nat_str)
qed

section \<open>A multi-agent transaction\<close>

definition launch_request :: "unit entry_request" where
  "launch_request = \<lparr>rq_senderAddress = JStr ''0x5'', rq_secondarySignerAddresses = Some [JStr ''0x6'', JStr ''0x7''],
     rq_data = \<lparr>ed_function = JStr ''0x7::pool::launch'', ed_typeArguments = Some [], ed_functionArguments = Some [],
       ed_abi = Some \<lparr>ab_signers = JNum 3, ab_typeParameters = Some [], ab_parameters = Some []\<rparr>\<rparr>,
     rq_options = \<lparr>ro_accountSequenceNumber = JBig 7, ro_maxGasAmount = JNum 2, ro_gasUnitPrice = JNum 3, ro_expireTimestamp = JNum 9,
       ro_faAddress = None\<rparr>\<rparr>"

definition launch_transaction :: sdk_transaction where
  "launch_transaction = \<lparr>tx_class = MultiAgentTransaction, tx_chainId = JNum 2, tx_sender = 5, tx_secondarySigners = [6, 7],
     tx_feePayer = None, tx_sequenceNumber = 7, tx_maxGasAmount = 2, tx_gasUnitPrice = 3, tx_expirationSeconds = 9,
     tx_gasType = ''0x1::cedra_coin::CedraCoin'',
     tx_payload = Some \<lparr>ep_moduleAddress = 7, ep_moduleName = ''pool'', ep_functionName = ''launch'', ep_argumentCount = 0, ep_typeArguments = []\<rparr>,
     tx_payloadBytes = [1, 2, 3], tx_rawBytes = [4], tx_bytes = [4, 5], tx_signingMessage = [6]\<rparr>"


section \<open>A release\<close>

definition hex_account :: "char \<Rightarrow> string" where
  "hex_account c = replicate 63 CHR ''0'' @ [c]"

fun release_digit :: "release_role \<Rightarrow> char" where
  "release_digit Core_publisher = CHR ''5''" | "release_digit Assets_publisher = CHR ''6''"
| "release_digit Amm_publisher = CHR ''7''" | "release_digit Bootstrap_lp = CHR ''8''"

definition release_sha :: string where "release_sha = replicate 64 CHR ''a''"
definition release_commit :: string where "release_commit = replicate 40 CHR ''b''"

definition per_role :: "(release_role \<Rightarrow> js_val) \<Rightarrow> js_val" where
  "per_role f = JObj (map (\<lambda>r. (role_str r, f r)) RELEASE_ROLE_KEYS)"

definition release_key :: "release_role \<Rightarrow> string" where
  "release_key r = ''ed25519-pub-0x'' @ hex_account (release_digit r)"

definition release_roles :: js_val where
  "release_roles = per_role (\<lambda>r. JStr (''0x'' @ [release_digit r]))"

definition release_package_tree :: js_val where
  "release_package_tree = JObj [(''publish_payload_file'', JStr ''publish-payload.json''), (''publish_payload_sha256'', JStr release_sha),
     (''compiled_package_files_manifest_sha256'', JStr release_sha)]"

definition release_artifacts :: js_val where
  "release_artifacts = JObj [(''schema_version'', JNum 3), (''evidence_scope'', JStr ''local-exact-address-build-only''),
     (''network'', JStr TESTNET_NETWORK), (''working_tree_clean'', JBool True), (''local_build_eligible_for_human_review'', JBool True),
     (''verification_binding'', JObj []), (''public_role_candidate_binding'', JObj [(''sha256'', JStr release_sha)]),
     (''packages'', JObj (map (\<lambda>p. (package_str p, release_package_tree)) [Reflection_core, Test_assets, Test_amm])),
     (''application_commit'', JStr release_commit), (''application_tree'', JStr release_commit), (''roles'', release_roles)]"

definition release_profile :: "release_role \<Rightarrow> js_val" where
  "release_profile r = JObj [(''profile_name'', JStr (PROFILE_NAMES r)), (''network'', JStr ''Testnet''), (''has_private_key'', JBool True),
     (''public_key'', JStr (release_key r)), (''account'', JStr (hex_account (release_digit r))),
     (''rest_url'', JStr ''https://testnet.cedra.dev''), (''faucet_url'', JStr ''https://faucet-api.cedra.dev'')]"

definition authentication_document :: js_val where
  "authentication_document = JObj [(''all_profile_authentication_keys_match'', JBool True),
     (''derivation_method'', JStr PROFILE_DERIVATION_METHOD), (''derivation_tool'', JStr PROFILE_DERIVATION_TOOL)]"

definition release_profiles :: js_val where
  "release_profiles = JObj [(''schema_version'', JNum 1), (''evidence_scope'', JStr ''local-public-profile-preflight''),
     (''network_intent'', JStr TESTNET_NETWORK),
     (''authentication_key_validation'', authentication_document),
     (''profiles'', per_role release_profile), (''public_role_candidate_sha256'', JStr release_sha)]"

definition release_request :: js_val where
  "release_request = JObj [(''schema_version'', JNum 1), (''evidence_scope'', JStr ''testnet-transaction-build-request''),
     (''network'', JStr TESTNET_NETWORK), (''api_url'', JStr TESTNET_API_URL), (''chain_id'', JStr ''2''),
     (''gas_asset'', JStr ''0x1::cedra_coin::CedraCoin''), (''deployment_id'', JStr ''run-1''), (''operation_key'', JStr ''core_initialize''),
     (''application_commit'', JStr release_commit), (''exact_address_artifacts_sha256'', JStr release_sha),
     (''public_profile_evidence_sha256'', JStr release_sha), (''roles'', release_roles),
     (''profile_public_keys'', per_role (\<lambda>r. JStr (release_key r))),
     (''transaction_controls'', JObj [(''sequence_number'', JStr ''7''), (''max_gas_amount'', JStr ''2''), (''gas_unit_price'', JStr ''3''),
        (''expiration_timestamp_secs'', JStr ''9'')]),
     (''gas_budget'', JObj [(''approved_max_gas_amount'', JStr ''2''), (''approved_max_gas_unit_price'', JStr ''3''),
        (''approved_max_total_fee_base_units'', JStr ''6'')])]"

definition release_integrity :: js_val where
  "release_integrity = JObj ([(''release_executable_closure_file'', JStr RELEASE_EXECUTABLE_CLOSURE_FILE),
     (''package_lock_file'', JStr ''package-lock.json''), (''sdk_loaded_entrypoint'', JStr ''dist/index.js''),
     (''sdk_lock_integrity'', JStr ''sha512-AAAA==''), (''sdk_package'', JStr REVIEWED_SDK_PACKAGE), (''sdk_package_file_count'', JNum 12),
     (''sdk_review_pin_file'', JStr REVIEWED_SDK_PIN_FILE), (''sdk_review_signature_namespace'', JStr ''cedra-reflect-sdk-review-v1''),
     (''sdk_review_reviewer_identity'', JStr ''reviewer''), (''sdk_version'', JStr REVIEWED_SDK_VERSION)]
     @ map (\<lambda>key. (key, JStr release_sha)) BUILD_INTEGRITY_DIGESTS)"

definition release_inputs :: assembly_inputs where
  "release_inputs = \<lparr>ai_exactArtifactsPath = ''/release/exact.json'', ai_exactArtifactsSha256 = release_sha,
     ai_exactArtifacts = release_artifacts, ai_publicProfileEvidenceSha256 = release_sha, ai_publicProfileEvidence = release_profiles,
     ai_buildRequest = release_request,
     ai_repositoryState = \<lparr>rs_statusPorcelain = [], rs_headCommit = release_commit, rs_headTree = release_commit\<rparr>,
     ai_buildIntegrity = release_integrity, ai_now = Some 5000\<rparr>"

text \<open>The transaction the sample SDK builds for the initialisation, and the response of its simulation.\<close>

definition initialize_transaction :: sdk_transaction where
  "initialize_transaction = \<lparr>tx_class = SimpleTransaction, tx_chainId = JNum 2, tx_sender = 5, tx_secondarySigners = [],
     tx_feePayer = None, tx_sequenceNumber = 7, tx_maxGasAmount = 2, tx_gasUnitPrice = 3, tx_expirationSeconds = 9,
     tx_gasType = ''0x1::cedra_coin::CedraCoin'',
     tx_payload = Some \<lparr>ep_moduleAddress = 5, ep_moduleName = ''reflection_token'', ep_functionName = ''initialize'',
       ep_argumentCount = 1, ep_typeArguments = []\<rparr>,
     tx_payloadBytes = [1, 2, 3], tx_rawBytes = [4], tx_bytes = [4, 5], tx_signingMessage = [6]\<rparr>"

definition initialize_response :: js_val where
  "initialize_response = JArr [JObj [(''success'', JBool True), (''vm_status'', JStr ''Executed successfully''), (''gas_used'', JStr ''1''),
     (''signature'', JObj [(''type'', JStr ''ed25519_signature''), (''public_key'', JStr (''0x'' @ hex_account CHR ''5'')),
        (''signature'', JStr ZERO_SIMULATION_SIGNATURE)])]]"

definition succeeds :: "'a result \<Rightarrow> bool" where
  "succeeds r = (case r of Inl _ \<Rightarrow> False | Inr _ \<Rightarrow> True)"

lemma succeeds_projr: "succeeds r \<Longrightarrow> r = Inr (projr r)"
  by (cases r) (simp_all add: succeeds_def)

text \<open>What the inputs are read as.\<close>

lemma map_roles_each: "(\<And>r. f r = Inr (g r)) \<Longrightarrow> map_roles f = Inr g"
proof -
  assume f: "\<And>r. f r = Inr (g r)"
  have "(\<lambda>r. map g RELEASE_ROLE_KEYS ! role_index r) = g" by (rule ext, case_tac r) (simp_all add: RELEASE_ROLE_KEYS_def)
  then show ?thesis using f by (simp add: map_roles_def RELEASE_ROLE_KEYS_def)
qed

lemma map_packages_each: "(\<And>p. f p = Inr (g p)) \<Longrightarrow> map_packages f = Inr g"
proof -
  assume f: "\<And>p. f p = Inr (g p)"
  have "(\<lambda>p. map g [Reflection_core, Test_assets, Test_amm] ! package_index p) = g" by (rule ext, case_tac p) simp_all
  then show ?thesis using f by (simp add: map_packages_def)
qed

definition role_account :: "release_role \<Rightarrow> string" where
  "role_account r = ''0x'' @ [release_digit r]"

definition package_read :: package_binding where
  "package_read = \<lparr>pb_publish_payload_file = ''publish-payload.json'', pb_publish_payload_sha256 = release_sha,
     pb_compiled_package_files_manifest_sha256 = release_sha\<rparr>"

definition profile_read :: "release_role \<Rightarrow> profile_binding" where
  "profile_read r = \<lparr>pf_profile_name = PROFILE_NAMES r, pf_address = role_account r, pf_public_key = release_key r\<rparr>"

definition request_read :: build_request where
  "request_read = \<lparr>br_deployment_id = ''run-1'', br_operation_key = Core_initialize, br_application_commit = release_commit,
     br_exact_address_artifacts_sha256 = release_sha, br_public_profile_evidence_sha256 = release_sha, br_roles = role_account,
     br_profile_public_keys = release_key,
     br_transaction_controls = \<lparr>tc_sequence_number = ''7'', tc_max_gas_amount = ''2'', tc_gas_unit_price = ''3'',
       tc_expiration_timestamp_secs = ''9''\<rparr>,
     br_gas_budget = \<lparr>gb_approved_max_gas_amount = ''2'', gb_approved_max_gas_unit_price = ''3'',
       gb_approved_max_total_fee_base_units = ''6''\<rparr>\<rparr>"

lemma digest_read: "stringValue (Some (JStr release_sha)) label SHA256_PATTERN = Inr release_sha"
  by code_simp

lemma commit_read: "stringValue (Some (JStr release_commit)) label COMMIT_PATTERN = Inr release_commit"
  by code_simp

lemma address_read:
  "role_address (js_field release_roles (role_str r)) label = Inr (role_account r)"
  by (induct r) code_simp+

lemma roles_read: "parseRoles (Some release_roles) label = Inr role_account"
proof -
  have "exactObject (Some release_roles) (map role_str RELEASE_ROLE_KEYS) label = Inr release_roles" by code_simp
  moreover have "map_roles (\<lambda>role. role_address (js_field release_roles (role_str role)) (label @ ''.'' @ role_str role)) = Inr role_account"
    by (rule map_roles_each) (rule address_read)
  moreover have "distinct (map role_account RELEASE_ROLE_KEYS)" by code_simp
  ultimately show ?thesis by (simp add: parseRoles_def)
qed

lemma keys_read: "parsePublicKeys (Some (per_role (\<lambda>r. JStr (release_key r)))) label = Inr release_key"
proof -
  let ?t = "per_role (\<lambda>r. JStr (release_key r))"
  have "exactObject (Some ?t) (map role_str RELEASE_ROLE_KEYS) label = Inr ?t" by code_simp
  moreover have "stringValue (js_field ?t (role_str r)) l PUBLIC_KEY_PATTERN = Inr (release_key r)" for r l
    by (induct r) code_simp+
  then have "map_roles (\<lambda>role. stringValue (js_field ?t (role_str role)) (label @ ''.'' @ role_str role) PUBLIC_KEY_PATTERN) = Inr release_key"
    by (intro map_roles_each)
  moreover have "distinct (map release_key RELEASE_ROLE_KEYS)" by code_simp
  ultimately show ?thesis by (simp add: parsePublicKeys_def)
qed

lemma package_binding_read:
  "parsePackageBinding (JObj (map (\<lambda>p. (package_str p, release_package_tree)) [Reflection_core, Test_assets, Test_amm])) p = Inr package_read"
  by (induct p) code_simp+

lemma artifacts_read:
  "parseExactArtifacts (Some release_artifacts) = Inr \<lparr>xa_applicationCommit = release_commit, xa_applicationTree = release_commit,
     xa_roles = role_account, xa_publicRoleCandidateSha256 = release_sha, xa_packages = (\<lambda>_. package_read)\<rparr>"
  using map_packages_each [OF package_binding_read]
  by (simp add: parseExactArtifacts_def release_artifacts_def objectValue_def is_nullish_def roles_read digest_read commit_read lookup)

lemma profile_binding_read: "parseProfile Inr (per_role release_profile) r = Inr (profile_read r)"
  by (induct r) code_simp+

lemma profiles_read:
  "parseProfileEvidence Inr (Some release_profiles) = Inr \<lparr>pe_publicRoleCandidateSha256 = release_sha, pe_bindings = profile_read\<rparr>"
proof -
  have "exactObject (Some (per_role release_profile)) (map role_str RELEASE_ROLE_KEYS) l = Inr (per_role release_profile)" for l by code_simp
  moreover have "exactObject (Some authentication_document) [''all_profile_authentication_keys_match'', ''derivation_method'',
      ''derivation_tool''] l = Inr authentication_document" for l by code_simp
  moreover have "js_field authentication_document ''all_profile_authentication_keys_match'' = Some (JBool True)"
    "js_field authentication_document ''derivation_method'' = Some (JStr PROFILE_DERIVATION_METHOD)"
    "js_field authentication_document ''derivation_tool'' = Some (JStr PROFILE_DERIVATION_TOOL)" by code_simp+
  moreover have "distinct (map (\<lambda>r. pf_address (profile_read r)) RELEASE_ROLE_KEYS)"
    "distinct (map (\<lambda>r. pf_public_key (profile_read r)) RELEASE_ROLE_KEYS)" by code_simp+
  ultimately show ?thesis
    using map_roles_each [OF profile_binding_read, of "\<lambda>r. r"]
    by (simp add: parseProfileEvidence_def release_profiles_def objectValue_def digest_read lookup)
qed

abbreviation candidate_sdk :: "release_argument cedra_sdk" where
  "candidate_sdk \<equiv> release_sdk"

abbreviation release_files :: "string \<Rightarrow> payload_file result" where
  "release_files \<equiv> \<lambda>path. fail ''no such file''"

abbreviation release_sha256 :: "string \<Rightarrow> string" where
  "release_sha256 \<equiv> \<lambda>content. release_sha"

abbreviation release_simulate :: "sdk_transaction \<Rightarrow> string \<Rightarrow> string list \<Rightarrow> js_val result" where
  "release_simulate \<equiv> \<lambda>tx key keys. Inr initialize_response"

definition release_context :: assembly_context where
  "release_context = \<lparr>ax_exactArtifactsPath = ''/release/exact.json'', ax_exactAddressArtifactsSha256 = release_sha,
     ax_applicationCommit = release_commit, ax_applicationTree = release_commit,
     ax_buildEnvironment = buildEnvironment release_commit release_commit release_integrity, ax_roles = role_account,
     ax_profileEvidenceSha256 = release_sha, ax_publicRoleCandidateSha256 = release_sha, ax_profileBindings = profile_read,
     ax_publicKeys = (\<lambda>r. drop 12 (release_key r)), ax_packages = (\<lambda>_. package_read), ax_request = request_read\<rparr>"

definition release_bundle :: candidate_bundle where
  "release_bundle = projr (assembleReleaseCandidate release_files release_sha256 candidate_sdk (\<lambda>rq. Inr initialize_transaction)
     release_simulate release_context (Some ''2026-01-01T00:00:00.000Z''))"

lemma request_document_read:
  "parseBuildRequest ''0x1::cedra_coin::CedraCoin'' (Some release_request) = Inr request_read"
proof -
  have e: "exactObject (Some release_request) [''schema_version'', ''evidence_scope'', ''network'', ''api_url'', ''chain_id'', ''gas_asset'',
     ''deployment_id'', ''operation_key'', ''application_commit'', ''exact_address_artifacts_sha256'', ''public_profile_evidence_sha256'',
     ''roles'', ''profile_public_keys'', ''transaction_controls'', ''gas_budget''] ''transaction build request'' = Inr release_request"
    by code_simp
  have c: "parseControls (js_field release_request ''transaction_controls'') = Inr (br_transaction_controls request_read)" by code_simp
  have b: "parseBudget (js_field release_request ''gas_budget'') (br_transaction_controls request_read) = Inr (br_gas_budget request_read)"
    by code_simp
  have d: "stringValue (Some (JStr ''run-1'')) ''deployment_id'' DEPLOYMENT_PATTERN = Inr ''run-1''" by code_simp
  have o: "stringValue (Some (JStr ''core_initialize'')) ''operation_key'' any_text = Inr ''core_initialize''" by code_simp
  have f: "find (\<lambda>key. operation_str key = ''core_initialize'') RELEASE_OPERATION_KEYS = Some Core_initialize" by code_simp
  have fields: "js_field release_request ''schema_version'' = Some (JNum 1)"
    "js_field release_request ''evidence_scope'' = Some (JStr ''testnet-transaction-build-request'')"
    "js_field release_request ''network'' = Some (JStr TESTNET_NETWORK)" "js_field release_request ''api_url'' = Some (JStr TESTNET_API_URL)"
    "js_field release_request ''chain_id'' = Some (JStr ''2'')"
    "js_field release_request ''gas_asset'' = Some (JStr ''0x1::cedra_coin::CedraCoin'')"
    "js_field release_request ''deployment_id'' = Some (JStr ''run-1'')"
    "js_field release_request ''operation_key'' = Some (JStr ''core_initialize'')"
    "js_field release_request ''application_commit'' = Some (JStr release_commit)"
    "js_field release_request ''exact_address_artifacts_sha256'' = Some (JStr release_sha)"
    "js_field release_request ''public_profile_evidence_sha256'' = Some (JStr release_sha)"
    "js_field release_request ''roles'' = Some release_roles"
    "js_field release_request ''profile_public_keys'' = Some (per_role (\<lambda>r. JStr (release_key r)))"
    by (simp_all add: release_request_def lookup)
  show ?thesis
    by (simp add: parseBuildRequest_def e c b d o f fields digest_read commit_read roles_read keys_read) (simp add: request_read_def)
qed

lemma integrity_read: "validateBuildIntegrityEvidence (Some release_integrity) = Inr release_integrity"
  by code_simp

lemma release_inputs_validate:
  "validateAssemblyInputs Inr ''0x1::cedra_coin::CedraCoin'' release_inputs = Inr release_context"
proof -
  have "sameJson t t" for t by (simp add: sameJson_def)
  moreover have "(\<lambda>r. pf_address (profile_read r)) = role_account" "(\<lambda>r. pf_public_key (profile_read r)) = release_key"
    by (simp_all add: profile_read_def)
  moreover have "rseq [Inr (), Inr (), Inr (), Inr (), Inr ()] = (Inr () :: unit result)" by (simp add: rseq_Inr_iff)
  moreover have "str_nat ''9'' = 9" by code_simp
  ultimately show ?thesis
    by (simp add: validateAssemblyInputs_def release_inputs_def digest_read commit_read artifacts_read profiles_read request_document_read
      integrity_read request_read_def release_context_def profile_read_def)
qed

lemma release_assembles:
  "assembleReleaseCandidate release_files release_sha256 candidate_sdk (\<lambda>rq. Inr initialize_transaction)
     release_simulate release_context (Some ''2026-01-01T00:00:00.000Z'') = Inr release_bundle"
proof -
  have "succeeds (assembleReleaseCandidate release_files release_sha256 candidate_sdk (\<lambda>rq. Inr initialize_transaction)
     release_simulate release_context (Some ''2026-01-01T00:00:00.000Z''))" by code_simp
  then show ?thesis unfolding release_bundle_def by (rule succeeds_projr)
qed


end
