(* ===== verification/Spec2Isabelle.thy ===== *)
theory Spec2Isabelle
  imports Checkpoint_Witnesses Snapshot_Witnesses Witnesses Step_Witnesses Group_Witnesses
    Integer_Helpers Normalizer_Witnesses Durable_Witnesses Sdk_Witnesses
    Mock_Adapter Release_Witnesses
begin

text \<open>
  Cedra Reflect: verification of the off-chain accounting of a reflection token.

  The repository holds Move contracts and the TypeScript packages around them. This development models
  the indexer (\<open>src/packages/indexer/src\<close>), a read-only worker that replays the finalized events of
  the contracts into an exact projection of all balances, shares, reward indices and vaults, compares the
  projection with finalized chain views, and checkpoints it; the protocol SDK
  (\<open>src/packages/protocol-sdk/src\<close>), with which applications read the chain, quote swaps and draft
  transactions; and the release-candidate assembler (\<open>src/packages/release-candidate-assembler/src\<close>), which
  turns reviewed inputs into one simulated transaction of a release. A definition carries the name of the function
  it models; a record has the fields of the interface it models, with a short prefix.

  \<^bold>\<open>Parts and theories.\<close>
  \<^item> \<open>Prelude\<close>: JavaScript errors as values (\<open>js_error\<close>, \<open>'a result\<close>), \<open>bigint\<close> division, decimal text,
    insertion-ordered maps (\<open>jsmap\<close>) and the automation the rest uses.
  \<^item> \<open>Move_Arith\<close>, \<open>Domains\<close> (\<open>move-domains.ts\<close>): the Move integer widths, checked arithmetic, and the width
    assertions of every event and of the projection.
  \<^item> \<open>Protocol_Types\<close> (\<open>types.ts\<close>), \<open>Accounting\<close> (\<open>accounting.ts\<close>): events, the projection, pending rewards,
    liabilities and expected vault balances; the locale \<open>share_ledger\<close> is what wallets, custody and LP
    positions have in common.
  \<^item> \<open>Reducer_State\<close>, \<open>Reducer_Preflight\<close>, \<open>Reducer_Core_Events\<close>, \<open>Reducer_Pool_Events\<close>, \<open>Reducer_Group\<close>
    (\<open>reducer.ts\<close>): the atomic replay of one transaction: scan of the group, pairing checks, one handler
    per event, settlement of the group, commit or refusal (\<open>reduceEventGroup\<close>).
  \<^item> \<open>Event_Processing\<close>, \<open>Event_Indexer\<close> (\<open>event-indexer.ts\<close>), \<open>Async_Procs\<close>: pages of events, and the methods of
    the indexer as procedures of atomic segments that any schedule may interleave.
  \<^item> \<open>Reconciler\<close> (\<open>reconciler.ts\<close>): every comparison of replay and chain, in the order of the source.
  \<^item> \<open>Json_Text\<close>, \<open>Snapshot\<close> (\<open>snapshot.ts\<close>): JSON texts with \<open>bigint\<close> leaves, serialisation, validation of
    untrusted trees, and the snapshot codec.
  \<^item> \<open>Memory_Store\<close> (\<open>types.ts\<close>, \<open>memory-store.ts\<close>), \<open>Worker\<close> (\<open>worker.ts\<close>): the store interface with its
    contract (locale \<open>indexer_store\<close>), the in-memory store, and the cycle of the worker.
  \<^item> \<open>Cedra_Normalizer\<close> (\<open>cedra-normalizer.ts\<close>): raw chain events into protocol events; one reader per Move
    event, in a list in the order \<open>normalize\<close> tests the types.
  \<^item> \<open>Durable_Files\<close>, \<open>Alert_Codec\<close>, \<open>File_Store\<close> (\<open>file-store.ts\<close>), \<open>Alert_Sink\<close> (\<open>worker.ts\<close>): the directory of
    the durable store with its checks, locks and atomic writes, the text of an alert, the store with its
    snapshot file, alert journal and writer lease, and the sink of delivered alerts.
  \<^item> \<open>Sdk_Values\<close>, \<open>Draft_Encoder\<close> (\<open>cedra-draft-encoder.ts\<close>): run-time types of JavaScript values; the entry
    functions of the contracts, the validation of transaction drafts and their payloads.
  \<^item> \<open>Swap_Quotes\<close>, \<open>Safe_Client\<close> (\<open>safe-client.ts\<close>): the independent reproduction of a quote, and the client of
    applications with the quotes and drafts it has verified.
  \<^item> \<open>Read_Adapter\<close>, \<open>Adapter_Reads\<close> (\<open>finalized-read-adapter.ts\<close>): the identity of a release and the operations
    of the adapter, each over views at one ledger version; \<open>Mock_Adapter\<close> (\<open>mock-adapter.ts\<close>).
  \<^item> \<open>Release_Client\<close> (\<open>cedra-release-client.ts\<close>): describing, building and simulating the transactions of a
    release, with the official SDK as a record of parameters.
  \<^item> \<open>Canonical_Json\<close>, \<open>Release_Inputs\<close>, \<open>Release_Context\<close>, \<open>Release_Candidate\<close>, \<open>Release_Simulation\<close>
    (\<open>packages/release-candidate-assembler/src\<close>): canonical documents, the untrusted inputs of a release and their
    cross-checks, the operation and its transaction, its simulation and the candidate document.
  \<^bold>\<open>How they interact.\<close> The worker restores the latest snapshot from a store, polls a page, and lets the
  indexer replay it group by group; a group with an alert is refused as a whole and stops the page. It
  then reads chain views at the cursor and reconciles them; only a report without alerts authorizes a
  checkpoint, and only of the projection object and cursor that were compared. An application asks the
  client for a quote; the client has the adapter read it at one finalized version, reproduces its
  arithmetic, and hands only drafts of quotes it verified itself to the injected writer. The assembler checks
  its documents against each other, has the release client build and simulate the one operation they ask
  for, and writes what was built and answered into a document for detached approval.

  \<^bold>\<open>What the lemmas show.\<close> \<open>Wallet_Steps\<close>, \<open>Replay_Ledger\<close>, \<open>Group_Settlement\<close>, \<open>Solvency\<close>: the ledgers balance
  and the vaults cover all pending rewards in every reachable projection. \<open>Group_Totality\<close>,
  \<open>Quiet_Groups\<close>, \<open>V02_Immutability\<close>, \<open>Pool_Economics\<close>: groups are total, atomic, replay-safe and, when they
  raise no alert, economically sound. \<open>Keyed_Maps\<close>, \<open>Chain_Certification\<close>: a clean report means agreement
  with the chain, and the chain inherits the solvency of the replay. \<open>Snapshot_Codec\<close>,
  \<open>Snapshot_Roundtrip\<close>, \<open>Snapshot_Domains\<close>: snapshots survive their text, and accepted texts are well formed.
  \<open>Checkpoint_Safety\<close>, \<open>Checkpoints\<close>, \<open>Worker_Progress\<close>: checkpoints are certified under every schedule, and a
  clean cycle ends in one. The theories ending in \<open>Witnesses\<close>, with \<open>Scenario\<close> and \<open>Live_Scenario\<close>, apply
  every theorem that has a hypothesis to concrete events and states.
  \<open>Address_Text\<close>, \<open>Normalizer_Types\<close>, \<open>Utf8_Text\<close>, \<open>Normalizer_Dispatch\<close>: address texts are canonical, normalized
  events are well typed and uniquely identified, types select their reader, and identity texts are exactly
  the UTF-8 decodable ones. \<open>File_Store_Contract\<close>, \<open>Alert_Journal\<close>, \<open>Alert_Sink\<close>, \<open>Durable_Checkpoints\<close>: the durable
  store keeps the store contract, so its checkpoints are certified; its cursor never moves back, no alert is
  lost or doubled, one writer at a time holds the lease, and a failed operation changes nothing that is read.
  \<open>Quote_Economics\<close>, \<open>Quote_Agreement\<close>: the client accepts the adapter's quotes, accepted quotes are fair, and
  their execution replays without an alert. \<open>Client_Safety\<close>: only drafts of verified quotes are submitted as
  swaps. \<open>Pinned_Reads\<close>: an answer of the adapter depends on one ledger version only. \<open>Canonical_Json\<close>: the
  canonical comparison of documents is exact. \<open>Release_Safety\<close>, \<open>Release_Assembly\<close>: whatever the SDK builds, a
  release candidate describes the transaction its inputs approve, and only that transaction is simulated.
  \<^bold>\<open>Parameters and bounds.\<close> \<open>sha256\<close> is a parameter (where its shape matters, a function to 64
  hexadecimal digits); \<open>now\<close> is the clock; event sources, stores and alert sinks are arguments. No
  injectivity of the hash is assumed. The JSON parser uses fuel bounded by the length of the text, which
  suffices for every text the codec writes (\<open>fuel_length\<close>); characters are 8-bit, and a number with a
  fraction or an exponent is refused, since the codec writes none. The Newton loop of \<open>integerSqrt\<close>
  terminates by its decreasing iterate. The platform of the durable files is POSIX; which writes the disk
  refuses, and with which error, is a parameter of the host; one operation on a file is one step. For the SDK, what the view client answers for the ledger header
  and for a view at a version, what the adapter answers to the client, the clock and the writer are
  parameters; for a release, the functions of the official SDK, what it builds and answers, the payload files
  and the state of the repository.

  \<^bold>\<open>Not modelled.\<close> The computation of build evidence and the atomic publication of a directory in the assembler
  (\<open>build-integrity.ts\<close>, \<open>atomic-output.ts\<close>) and the scripts, which walk directories, hash files and start
  processes; the browser dashboard; and the Move contracts, whose events are the input of the replay. Cycle
  callbacks that start a method without awaiting it.
\<close>

end
